(* ===== verification/Prelude.thy ===== *)
theory Prelude
  imports Complex_Main
begin

text \<open>
  Shared vocabulary of the development: Python text and time as the sources use them, results
  with errors as values, runs of a store over a list of operations, and the interfaces
  (locales) that several components implement.

  \<^item> A Python \<open>str\<close> is a \<^typ>\<open>string\<close>; a character stands for a code point below 256.
  \<^item> A Python \<open>datetime\<close> is naive or aware; an aware one is its instant in microseconds.
  \<^item> A function that may raise returns \<open>'e + 'a\<close>, with \<^const>\<open>Inl\<close> for the raise.
\<close>

section \<open>Collections of rewrite rules\<close>

named_theorems py_simps \<open>evaluation of the Python-level helpers\<close>
named_theorems table_simps \<open>unfolding of constant tables of the sources\<close>

section \<open>Python text\<close>

text \<open>\<open>str.isspace\<close> on code points below 256, which is what \<open>str.strip()\<close> removes.\<close>

definition py_space :: "char \<Rightarrow> bool" where
  "py_space c \<longleftrightarrow>
     (let n = (of_char c :: nat)
      in (9 \<le> n \<and> n \<le> 13) \<or> (28 \<le> n \<and> n \<le> 32) \<or> n = 133 \<or> n = 160)"

definition py_strip :: "string \<Rightarrow> string" where
  "py_strip s = rev (dropWhile py_space (rev (dropWhile py_space s)))"

text \<open>\<open>bool(value and value.strip())\<close>.\<close>

definition nonblank :: "string \<Rightarrow> bool" where
  "nonblank s \<longleftrightarrow> s \<noteq> [] \<and> py_strip s \<noteq> []"

definition newline :: char where
  "newline = CHR 0x0A"

definition hex_digits :: string where
  "hex_digits = ''0123456789abcdef''"

text \<open>\<open>re.fullmatch('[0-9a-f]{64}', s)\<close>.\<close>

definition is_hex64 :: "string \<Rightarrow> bool" where
  "is_hex64 s \<longleftrightarrow> length s = 64 \<and> list_all (\<lambda>c. c \<in> set hex_digits) s"

text \<open>
  \<open>re.match('^[0-9a-f]{64}$', s)\<close>. Without \<open>re.MULTILINE\<close> the anchor \<open>$\<close> matches at the end
  of the string and just before a newline at its end.
\<close>

definition sha256_re_match :: "string \<Rightarrow> bool" where
  "sha256_re_match s \<longleftrightarrow>
     is_hex64 s \<or> (s \<noteq> [] \<and> last s = newline \<and> is_hex64 (butlast s))"

definition starts_with :: "string \<Rightarrow> string \<Rightarrow> bool" where
  "starts_with s p \<longleftrightarrow> take (length p) s = p"

definition ascii_lower :: "string \<Rightarrow> string" where
  "ascii_lower s =
     map (\<lambda>c. let n = (of_char c :: nat) in if 65 \<le> n \<and> n \<le> 90 then char_of (n + 32) else c) s"

text \<open>\<open>btrim(s) <> ''\<close>: Postgres trims spaces only.\<close>

definition btrim_nonempty :: "string \<Rightarrow> bool" where
  "btrim_nonempty s \<longleftrightarrow> \<not> list_all (\<lambda>c. c = CHR '' '') s"

section \<open>Python time\<close>

datatype py_datetime = Naive int | Aware int

fun is_aware :: "py_datetime \<Rightarrow> bool" where
  "is_aware (Naive _) = False"
| "is_aware (Aware _) = True"

text \<open>Ordering of two datetimes; \<^const>\<open>None\<close> is the \<open>TypeError\<close> of a mixed comparison.\<close>

fun dt_le :: "py_datetime \<Rightarrow> py_datetime \<Rightarrow> bool option" where
  "dt_le (Naive a) (Naive b) = Some (a \<le> b)"
| "dt_le (Aware a) (Aware b) = Some (a \<le> b)"
| "dt_le _ _ = None"

section \<open>Running a store over a list of operations\<close>

text \<open>
  \<open>run_log step s ops\<close> applies the operations in order and collects the values of the ones
  that were accepted; an operation that is refused contributes nothing to the log.
\<close>

fun run_log :: "('s \<Rightarrow> 'op \<Rightarrow> 's \<times> 'r option) \<Rightarrow> 's \<Rightarrow> 'op list \<Rightarrow> 's \<times> 'r list" where
  "run_log step s [] = (s, [])"
| "run_log step s (x # xs) =
     (case step s x of (s', r) \<Rightarrow>
        (case run_log step s' xs of (s'', rs) \<Rightarrow>
           (s'', (case r of None \<Rightarrow> rs | Some v \<Rightarrow> v # rs))))"

text \<open>Sequencing of computations that may raise.\<close>

definition res_bind :: "'e + 'a \<Rightarrow> ('a \<Rightarrow> 'e + 'b) \<Rightarrow> 'e + 'b" where
  "res_bind m f = (case m of Inl e \<Rightarrow> Inl e | Inr x \<Rightarrow> f x)"

text \<open>\<open>fold_res f s xs\<close> runs a fallible step over a list and stops at the first error.\<close>

fun fold_res :: "('s \<Rightarrow> 'x \<Rightarrow> 'e + 's) \<Rightarrow> 's \<Rightarrow> 'x list \<Rightarrow> 'e + 's" where
  "fold_res f s [] = Inr s"
| "fold_res f s (x # xs) = (case f s x of Inl e \<Rightarrow> Inl e | Inr s' \<Rightarrow> fold_res f s' xs)"

text \<open>\<open>map_res f xs\<close> collects the results of a fallible call on every element, in order.\<close>

fun map_res :: "('x \<Rightarrow> 'e + 'y) \<Rightarrow> 'x list \<Rightarrow> 'e + 'y list" where
  "map_res f [] = Inr []"
| "map_res f (x # xs) =
     res_bind (f x) (\<lambda>y. res_bind (map_res f xs) (\<lambda>ys. Inr (y # ys)))"

text \<open>\<open>all_res f xs\<close> runs a check on every element and stops at the first error.\<close>

fun all_res :: "('x \<Rightarrow> 'e + unit) \<Rightarrow> 'x list \<Rightarrow> 'e + unit" where
  "all_res f [] = Inr ()"
| "all_res f (x # xs) = res_bind (f x) (\<lambda>_. all_res f xs)"

section \<open>Lemmas on text and time\<close>

lemma dropWhile_all: "(\<forall>c \<in> set (dropWhile P s). P c) \<longleftrightarrow> (\<forall>c \<in> set s. P c)"
  by (induction s) auto

lemma py_strip_Nil_iff: "py_strip s = [] \<longleftrightarrow> list_all py_space s"
  by (simp add: py_strip_def dropWhile_eq_Nil_conv dropWhile_all list_all_iff)

lemma nonblank_iff: "nonblank s \<longleftrightarrow> \<not> list_all py_space s"
  by (auto simp: nonblank_def py_strip_Nil_iff)

lemma py_strip_blank [py_simps]: "py_strip s = [] \<longleftrightarrow> \<not> nonblank s"
  by (simp add: nonblank_iff py_strip_Nil_iff)

lemma nonblank_Nil [simp]: "\<not> nonblank []"
  by (simp add: nonblank_def)

lemma nonblank_imp_ne: "nonblank s \<Longrightarrow> s \<noteq> []"
  by (simp add: nonblank_def)

lemma nonblank_append [simp]: "nonblank (s @ t) \<longleftrightarrow> nonblank s \<or> nonblank t"
  by (auto simp: nonblank_iff)

lemma nonblank_Cons [simp]: "nonblank (c # s) \<longleftrightarrow> \<not> py_space c \<or> nonblank s"
  by (auto simp: nonblank_iff)

lemma is_hex64_imp_re_match [simp]: "is_hex64 s \<Longrightarrow> sha256_re_match s"
  by (simp add: sha256_re_match_def)

lemma hex_digit_not_space: "c \<in> set hex_digits \<Longrightarrow> \<not> py_space c"
  by (auto simp: hex_digits_def py_space_def)

lemma is_hex64_nonblank: "is_hex64 s \<Longrightarrow> nonblank s"
  by (cases s) (auto simp: is_hex64_def hex_digit_not_space)

lemma is_hex64_replicate: "c \<in> set hex_digits \<Longrightarrow> is_hex64 (replicate 64 c)"
  by (simp add: is_hex64_def list_all_iff)

lemma starts_with_iff: "starts_with s p \<longleftrightarrow> (\<exists>t. s = p @ t)"
  by (auto simp: starts_with_def) (metis append_take_drop_id)

lemma dt_le_aware [simp]: "is_aware a \<Longrightarrow> is_aware b \<Longrightarrow> dt_le a b \<noteq> None"
  by (cases a; cases b) auto

lemma res_bind_simps [simp]: "res_bind (Inl e) f = Inl e" "res_bind (Inr x) f = f x"
  by (simp_all add: res_bind_def)

text \<open>A chain of guards accepts exactly when every guard passes.\<close>

lemma guard_Inr: "(if b then Inl e else m) = Inr x \<longleftrightarrow> \<not> b \<and> m = Inr x"
  by simp

lemma res_bind_Inr_iff: "res_bind m f = Inr y \<longleftrightarrow> (\<exists>x. m = Inr x \<and> f x = Inr y)"
  by (cases m) auto

lemma map_res_Inr: "map_res f xs = Inr ys \<longleftrightarrow> list_all2 (\<lambda>x y. f x = Inr y) xs ys"
  by (induction xs arbitrary: ys) (auto simp: res_bind_Inr_iff list_all2_Cons1)

lemma map_res_all: "map_res f xs = Inr ys \<Longrightarrow> y \<in> set ys \<Longrightarrow> \<exists>x \<in> set xs. f x = Inr y"
  by (auto simp: map_res_Inr list_all2_conv_all_nth in_set_conv_nth) (metis nth_mem)

lemma map_res_length: "map_res f xs = Inr ys \<Longrightarrow> length ys = length xs"
  by (simp add: map_res_Inr list_all2_lengthD)

lemma map_res_mem: "map_res f xs = Inr ys \<Longrightarrow> x \<in> set xs \<Longrightarrow> \<exists>y \<in> set ys. f x = Inr y"
  by (induction xs arbitrary: ys) (auto simp: res_bind_Inr_iff)

lemma map_res_fun:
  assumes "map_res f xs = Inr ys" and "\<And>x y. x \<in> set xs \<Longrightarrow> f x = Inr y \<Longrightarrow> y = g x"
  shows "ys = map g xs"
  using assms by (auto simp: map_res_Inr list_all2_conv_all_nth intro!: nth_equalityI)

lemma sort_eq_Nil: "sort xs = [] \<longleftrightarrow> xs = []"
  by (metis length_0_conv length_sort)

lemma all_res_Inr: "all_res f xs = Inr u \<longleftrightarrow> (\<forall>x \<in> set xs. f x = Inr ())"
  by (induction xs) (auto simp: res_bind_Inr_iff)

section \<open>Lemmas on searches\<close>

lemma find_SomeD: "find P xs = Some x \<Longrightarrow> x \<in> set xs \<and> P x"
  by (auto simp: find_Some_iff)

lemma find_append_None: "\<not> list_ex P xs \<Longrightarrow> find P (xs @ ys) = find P ys"
  by (induction xs) auto

lemma find_append_Some: "find P xs = Some x \<Longrightarrow> find P (xs @ ys) = Some x"
  by (induction xs) auto

section \<open>Lemmas on runs\<close>

lemma fst_run_log_Cons [simp]:
  "fst (run_log step s (x # xs)) = fst (run_log step (fst (step s x)) xs)"
  by (auto split: prod.splits)

lemma snd_run_log_Cons:
  "snd (run_log step s (x # xs)) =
     (case snd (step s x) of None \<Rightarrow> snd (run_log step (fst (step s x)) xs)
      | Some v \<Rightarrow> v # snd (run_log step (fst (step s x)) xs))"
  by (auto split: prod.splits option.splits)

lemma run_log_append:
  "run_log step s (xs @ ys) =
     (case run_log step s xs of (s', rs) \<Rightarrow>
        (case run_log step s' ys of (s'', rs') \<Rightarrow> (s'', rs @ rs')))"
  by (induction xs arbitrary: s) (auto split: prod.splits option.splits)

lemma fold_res_invariant:
  assumes "\<And>s x s'. I s \<Longrightarrow> x \<in> set xs \<Longrightarrow> f s x = Inr s' \<Longrightarrow> I s'"
    and "I s" and "fold_res f s xs = Inr s'"
  shows "I s'"
  using assms
proof (induction xs arbitrary: s)
  case (Cons x xs)
  from Cons.prems(3) obtain s1 where s1: "f s x = Inr s1" "fold_res f s1 xs = Inr s'"
    by (auto split: sum.splits)
  have "I s1" using Cons.prems(1) [of s x s1] Cons.prems(2) s1(1) by simp
  show ?case
  proof (rule Cons.IH [OF _ \<open>I s1\<close> s1(2)])
    show "\<And>s y s'. I s \<Longrightarrow> y \<in> set xs \<Longrightarrow> f s y = Inr s' \<Longrightarrow> I s'"
      using Cons.prems(1) by auto
  qed
qed simp

section \<open>Interfaces shared by the components\<close>

subsection \<open>Stores that issue increasing numbers\<close>

text \<open>
  A store with a level that no operation lowers and that hands out numbers above it: the
  fencing sequence of the lease table, the stream heads of the event log, the effect ledger
  and the replay guard of signed messages are all of this shape.
\<close>

locale monotone_store =
  fixes step :: "'s \<Rightarrow> 'op \<Rightarrow> 's \<times> int option"
    and level :: "'s \<Rightarrow> int"
  assumes step_mono: "step s x = (s', r) \<Longrightarrow> level s \<le> level s'"
    and step_fresh: "step s x = (s', Some n) \<Longrightarrow> level s < n \<and> n \<le> level s'"
begin

lemma run_level: "run_log step s xs = (s', ns) \<Longrightarrow> level s \<le> level s'"
proof (induction xs arbitrary: s s' ns)
  case (Cons x xs)
  then show ?case by (fastforce split: prod.splits dest: step_mono)
qed simp

lemma run_level_fst: "level s \<le> level (fst (run_log step s xs))"
  using run_level by (metis prod.collapse)

lemma run_above: "run_log step s xs = (s', ns) \<Longrightarrow> n \<in> set ns \<Longrightarrow> level s < n \<and> n \<le> level s'"
proof (induction xs arbitrary: s s' ns)
  case (Cons x xs)
  obtain s1 r where st: "step s x = (s1, r)" by fastforce
  obtain s2 rs where rn: "run_log step s1 xs = (s2, rs)" by fastforce
  from Cons.prems st rn have res: "s' = s2" "ns = (case r of None \<Rightarrow> rs | Some v \<Rightarrow> v # rs)"
    by auto
  have "level s < n \<and> n \<le> level s'" if "n \<in> set rs"
    using Cons.IH [OF rn that] step_mono [OF st] res by simp
  moreover have "level s < n \<and> n \<le> level s'" if "r = Some n"
    using step_fresh [of s x s1 n] st that run_level [OF rn] res by simp
  ultimately show ?case using Cons.prems(2) res by (auto split: option.splits)
qed simp

lemma run_increasing: "run_log step s xs = (s', ns) \<Longrightarrow> sorted_wrt (<) ns"
proof (induction xs arbitrary: s s' ns)
  case (Cons x xs)
  obtain s1 r where st: "step s x = (s1, r)" by fastforce
  obtain s2 rs where rn: "run_log step s1 xs = (s2, rs)" by fastforce
  from Cons.prems st rn have res: "ns = (case r of None \<Rightarrow> rs | Some v \<Rightarrow> v # rs)" by auto
  have "sorted_wrt (<) rs" by (rule Cons.IH [OF rn])
  moreover have "v < m" if "r = Some v" "m \<in> set rs" for v m
    using step_fresh [of s x s1 v] st that run_above [OF rn that(2)] by simp
  ultimately show ?case using res by (auto split: option.splits)
qed simp

lemma run_increasing_snd: "sorted_wrt (<) (snd (run_log step s xs))"
  using run_increasing by (metis prod.collapse)

lemma run_distinct: "run_log step s xs = (s', ns) \<Longrightarrow> distinct ns"
  using run_increasing strict_sorted_iff by blast

end

subsection \<open>Operations that may be retried\<close>

text \<open>
  A keyed operation whose second execution finds the first one's effect: it answers again
  with an equivalent value and leaves the store as it is.
\<close>

locale retryable =
  fixes call :: "'s \<Rightarrow> 'q \<Rightarrow> 'e + ('s \<times> 'v)"
    and same :: "'v \<Rightarrow> 'v \<Rightarrow> bool"
  assumes same_refl: "same v v"
    and same_trans: "same u v \<Longrightarrow> same v w \<Longrightarrow> same u w"
    and replay: "call s q = Inr (s', v) \<Longrightarrow> \<exists>w. call s' q = Inr (s', w) \<and> same v w"
begin

lemma retry_many:
  assumes "call s q = Inr (s', v)"
  shows "\<exists>w. ((\<lambda>r. case r of Inl e \<Rightarrow> Inl e | Inr (t, _) \<Rightarrow> call t q) ^^ n) (Inr (s', v))
               = Inr (s', w) \<and> same v w"
proof (induction n)
  case 0
  then show ?case by (simp add: same_refl)
next
  case (Suc n)
  then obtain w where w: "((\<lambda>r. case r of Inl e \<Rightarrow> Inl e | Inr (t, _) \<Rightarrow> call t q) ^^ n)
      (Inr (s', v)) = Inr (s', w)" and vw: "same v w" by blast
  from replay [OF assms] obtain u where u: "call s' q = Inr (s', u)" "same v u" by blast
  then show ?case using w by auto
qed

end

subsection \<open>Lifecycles with terminal states\<close>

text \<open>
  A lifecycle is a table of edges and a set of terminal states that no edge leaves. Its runs
  are the sequences of states in which a state repeats or takes an edge, which is what the
  transition guards of the sources accept.
\<close>

fun lifecycle_run :: "('st \<Rightarrow> 'st set) \<Rightarrow> 'st \<Rightarrow> 'st list \<Rightarrow> bool" where
  "lifecycle_run edges s [] = True"
| "lifecycle_run edges s (t # ts) = ((t = s \<or> t \<in> edges s) \<and> lifecycle_run edges t ts)"

locale lifecycle =
  fixes edges :: "'st \<Rightarrow> 'st set"
    and terminal :: "'st set"
  assumes terminal_edges: "s \<in> terminal \<Longrightarrow> edges s = {}"
begin

lemma terminal_absorbs:
  "s \<in> terminal \<Longrightarrow> lifecycle_run edges s ts \<Longrightarrow> t \<in> set ts \<Longrightarrow> t = s"
  by (induction ts arbitrary: s) (auto simp: terminal_edges)

lemma enters_by_edge:
  "lifecycle_run edges s ts \<Longrightarrow> t \<in> set ts \<Longrightarrow> t \<noteq> s \<Longrightarrow>
     \<exists>p \<in> set (s # ts). t \<in> edges p \<and> p \<noteq> t"
proof (induction ts arbitrary: s)
  case (Cons u us)
  show ?case
  proof (cases "t = u")
    case True
    with Cons.prems show ?thesis by auto
  next
    case False
    with Cons.prems have "t \<in> set us" "lifecycle_run edges u us" by auto
    then obtain p where "p \<in> set (u # us)" "t \<in> edges p" "p \<noteq> t"
      using Cons.IH False by blast
    then show ?thesis by auto
  qed
qed simp

end

end
