(* ===== verification/Lease.thy ===== *)
theory Lease
  imports Prelude
begin

text \<open>
  The kernel lease module (\<^verbatim>\<open>fleet_kernel/m2/lease.py\<close>): heartbeat leases in the table
  \<^verbatim>\<open>kernel_leases\<close> (unique on tenant and resource key), fencing tokens from the shared sequence
  \<^verbatim>\<open>kernel_fencing_seq\<close>, and the fenced write. Each call is one SQL statement, so it is one
  atomic step on the tables. Times are microseconds, and \<open>now\<close> is the transaction's \<open>now()\<close>.
\<close>

section \<open>Model\<close>

record LeaseHandle =
  lh_tenant_id :: string
  lh_resource_key :: string
  lh_owner_token :: string
  lh_fencing_token :: int

datatype lease_error = LeaseNotAcquired string string | LeaseLost string string

record lease_row =
  lr_owner_token :: string
  lr_fencing_token :: int
  lr_acquired_at :: int
  lr_expires_at :: int

record lease_db =
  kernel_leases :: "string \<times> string \<rightharpoonup> lease_row"
  kernel_fencing_seq :: int

text \<open>
  The upsert draws a token for the proposed row before it looks for a conflict, draws a second
  one when it overwrites an expired row, and keeps the first draw consumed when it is refused.
\<close>

definition acquire ::
    "int \<Rightarrow> lease_db \<Rightarrow> string \<Rightarrow> string \<Rightarrow> string \<Rightarrow> int \<Rightarrow> lease_db \<times> (lease_error + LeaseHandle)"
  where
  "acquire now db tenant_id resource_key owner_token ttl =
     (let proposed = kernel_fencing_seq db + 1;
          row = (\<lambda>tok. \<lparr>lr_owner_token = owner_token, lr_fencing_token = tok,
                         lr_acquired_at = now, lr_expires_at = now + ttl\<rparr>);
          put = (\<lambda>tok. (db\<lparr>kernel_leases := (kernel_leases db)((tenant_id, resource_key) \<mapsto> row tok),
                            kernel_fencing_seq := tok\<rparr>,
                         Inr \<lparr>lh_tenant_id = tenant_id, lh_resource_key = resource_key,
                              lh_owner_token = owner_token, lh_fencing_token = tok\<rparr>))
      in case kernel_leases db (tenant_id, resource_key) of
           None \<Rightarrow> put proposed
         | Some r \<Rightarrow>
             if lr_expires_at r < now then put (proposed + 1)
             else (db\<lparr>kernel_fencing_seq := proposed\<rparr>,
                   Inl (LeaseNotAcquired resource_key tenant_id)))"

text \<open>The row condition shared by \<open>renew\<close> and \<open>release\<close>.\<close>

definition lease_matches :: "lease_db \<Rightarrow> LeaseHandle \<Rightarrow> bool" where
  "lease_matches db h =
     (case kernel_leases db (lh_tenant_id h, lh_resource_key h) of
        None \<Rightarrow> False
      | Some r \<Rightarrow> lr_owner_token r = lh_owner_token h \<and> lr_fencing_token r = lh_fencing_token h)"

definition renew :: "int \<Rightarrow> lease_db \<Rightarrow> LeaseHandle \<Rightarrow> int \<Rightarrow> lease_db \<times> (lease_error + LeaseHandle)" where
  "renew now db h ttl =
     (case kernel_leases db (lh_tenant_id h, lh_resource_key h) of
        None \<Rightarrow> (db, Inl (LeaseLost (lh_resource_key h) (lh_owner_token h)))
      | Some r \<Rightarrow>
          if lease_matches db h \<and> now < lr_expires_at r
          then (db\<lparr>kernel_leases := (kernel_leases db)
                     ((lh_tenant_id h, lh_resource_key h) \<mapsto> r\<lparr>lr_expires_at := now + ttl\<rparr>)\<rparr>, Inr h)
          else (db, Inl (LeaseLost (lh_resource_key h) (lh_owner_token h))))"

definition release :: "lease_db \<Rightarrow> LeaseHandle \<Rightarrow> lease_db" where
  "release db h =
     (if lease_matches db h
      then db\<lparr>kernel_leases := (kernel_leases db)((lh_tenant_id h, lh_resource_key h) := None)\<rparr>
      else db)"

definition current_holder :: "lease_db \<Rightarrow> string \<Rightarrow> string \<Rightarrow> (string \<times> int \<times> int) option" where
  "current_holder db tenant_id resource_key =
     map_option (\<lambda>r. (lr_owner_token r, lr_fencing_token r, lr_expires_at r))
       (kernel_leases db (tenant_id, resource_key))"

text \<open>A fenced table: each row has its data and the last fencing token written to it.\<close>

record 'a fenced_row =
  fr_data :: 'a
  fr_last_fencing_token :: int

definition fenced_write ::
    "('id \<rightharpoonup> 'a fenced_row) \<Rightarrow> 'id \<Rightarrow> int \<Rightarrow> ('a \<Rightarrow> 'a) \<Rightarrow> ('id \<rightharpoonup> 'a fenced_row) \<times> bool" where
  "fenced_write tab id_val token set_sql =
     (case tab id_val of
        None \<Rightarrow> (tab, False)
      | Some r \<Rightarrow>
          if fr_last_fencing_token r < token
          then (tab(id_val \<mapsto> \<lparr>fr_data = set_sql (fr_data r), fr_last_fencing_token = token\<rparr>), True)
          else (tab, False))"

text \<open>Calls on the lease table as one step function; an accepted \<open>acquire\<close> logs its token.\<close>

datatype lease_op =
    Acquire int string string string int
  | Renew int LeaseHandle int
  | Release LeaseHandle

fun lease_step :: "lease_db \<Rightarrow> lease_op \<Rightarrow> lease_db \<times> int option" where
  "lease_step db (Acquire now t k w ttl) =
     (case acquire now db t k w ttl of
        (db', Inl _) \<Rightarrow> (db', None)
      | (db', Inr h) \<Rightarrow> (db', Some (lh_fencing_token h)))"
| "lease_step db (Renew now h ttl) = (fst (renew now db h ttl), None)"
| "lease_step db (Release h) = (release db h, None)"

text \<open>The time at which an operation runs; \<open>release\<close> reads no clock.\<close>

fun lease_op_time :: "lease_op \<Rightarrow> int option" where
  "lease_op_time (Acquire now _ _ _ _) = Some now"
| "lease_op_time (Renew now _ _) = Some now"
| "lease_op_time (Release _) = None"

text \<open>The handle a call presents, and the handle that a row was issued with.\<close>

fun lease_op_handle :: "lease_op \<Rightarrow> LeaseHandle option" where
  "lease_op_handle (Acquire _ _ _ _ _) = None"
| "lease_op_handle (Renew _ h _) = Some h"
| "lease_op_handle (Release h) = Some h"

definition row_handle :: "string \<Rightarrow> string \<Rightarrow> lease_row \<Rightarrow> LeaseHandle" where
  "row_handle t k r = \<lparr>lh_tenant_id = t, lh_resource_key = k,
     lh_owner_token = lr_owner_token r, lh_fencing_token = lr_fencing_token r\<rparr>"

text \<open>Writes to one row of a fenced table as a step function that logs accepted tokens.\<close>

definition write_step ::
    "'id \<Rightarrow> ('id \<rightharpoonup> 'a fenced_row) \<Rightarrow> 'id \<times> int \<times> ('a \<Rightarrow> 'a) \<Rightarrow> ('id \<rightharpoonup> 'a fenced_row) \<times> int option" where
  "write_step i tab w =
     (case w of (j, token, f) \<Rightarrow>
        (case fenced_write tab j token f of (tab', ok) \<Rightarrow>
           (tab', if ok \<and> j = i then Some token else None)))"

definition row_level :: "'id \<Rightarrow> ('id \<rightharpoonup> 'a fenced_row) \<Rightarrow> int" where
  "row_level i tab = (case tab i of None \<Rightarrow> 0 | Some r \<Rightarrow> fr_last_fencing_token r)"

section \<open>Lemmas\<close>

lemmas lease_defs = acquire_def renew_def release_def lease_matches_def

lemma lease_step_level:
  "lease_step db x = (db', r) \<Longrightarrow> kernel_fencing_seq db \<le> kernel_fencing_seq db'"
  by (cases x) (auto simp: lease_defs Let_def split: option.splits if_splits)

lemma lease_step_token:
  "lease_step db x = (db', Some n) \<Longrightarrow>
     kernel_fencing_seq db < n \<and> n \<le> kernel_fencing_seq db'"
  by (cases x) (auto simp: lease_defs Let_def split: option.splits if_splits)

interpretation fencing: monotone_store lease_step kernel_fencing_seq
  by unfold_locales (auto dest: lease_step_level lease_step_token)

lemma write_step_level: "write_step i tab w = (tab', r) \<Longrightarrow> row_level i tab \<le> row_level i tab'"
  by (auto simp: write_step_def fenced_write_def row_level_def
      split: prod.splits option.splits if_splits)

lemma write_step_token:
  "write_step i tab w = (tab', Some n) \<Longrightarrow> row_level i tab < n \<and> n \<le> row_level i tab'"
  by (auto simp: write_step_def fenced_write_def row_level_def
      split: prod.splits option.splits if_splits)

interpretation fenced: monotone_store "write_step i" "row_level i" for i
  by unfold_locales (auto dest: write_step_level write_step_token)

lemma fenced_write_accepts_iff:
  "snd (fenced_write tab i token f) \<longleftrightarrow> i \<in> dom tab \<and> row_level i tab < token"
  by (auto simp: fenced_write_def row_level_def split: option.splits)

lemma fenced_write_refused_same:
  "\<not> snd (fenced_write tab i token f) \<Longrightarrow> fst (fenced_write tab i token f) = tab"
  by (auto simp: fenced_write_def split: option.splits)

lemma fenced_write_level:
  "fenced_write tab i token f = (tab', True) \<Longrightarrow> row_level i tab' = token"
  by (auto simp: fenced_write_def row_level_def split: option.splits if_splits)

lemma lease_matches_iff:
  "kernel_leases db (t, k) = Some r \<Longrightarrow> lh_tenant_id h = t \<Longrightarrow> lh_resource_key h = k \<Longrightarrow>
     lease_matches db h \<longleftrightarrow> h = row_handle t k r"
  by (cases h) (auto simp: lease_matches_def row_handle_def)

text \<open>A row that is live at the time of an operation survives it, unless its own holder acts.\<close>

lemma live_row_kept:
  assumes row: "kernel_leases db (t, k) = Some r"
    and time: "\<And>now. lease_op_time x = Some now \<Longrightarrow> now \<le> lr_expires_at r"
    and other: "lease_op_handle x \<noteq> Some (row_handle t k r)"
  shows "kernel_leases (fst (lease_step db x)) (t, k) = Some r"
proof (cases x)
  case (Acquire now t' k' w ttl)
  have "now \<le> lr_expires_at r" using time Acquire by simp
  with Acquire row show ?thesis
    by (auto simp: acquire_def Let_def split: option.splits if_splits)
next
  case (Renew now h ttl)
  with row other show ?thesis
    by (auto simp: renew_def lease_matches_iff split: option.splits)
next
  case (Release h)
  with row other show ?thesis
    by (auto simp: release_def lease_matches_iff)
qed

lemma live_row_kept_run:
  assumes "kernel_leases db (t, k) = Some r"
    and "\<And>x now. x \<in> set xs \<Longrightarrow> lease_op_time x = Some now \<Longrightarrow> now \<le> lr_expires_at r"
    and "\<And>x. x \<in> set xs \<Longrightarrow> lease_op_handle x \<noteq> Some (row_handle t k r)"
  shows "kernel_leases (fst (run_log lease_step db xs)) (t, k) = Some r"
  using assms
proof (induction xs arbitrary: db)
  case (Cons x xs)
  have "kernel_leases (fst (lease_step db x)) (t, k) = Some r"
    using Cons.prems by (intro live_row_kept) auto
  then have "kernel_leases (fst (run_log lease_step (fst (lease_step db x)) xs)) (t, k) = Some r"
    using Cons.prems(2,3) by (intro Cons.IH) auto
  then show ?case by (simp only: fst_run_log_Cons)
qed simp

section \<open>Properties\<close>

text \<open>
  C26. The stale owner is refused. Run any calls on the lease table and take two tokens that
  successful acquisitions returned, the earlier one and a later one (of any two resources). Once a fenced row has
  accepted a write with the later token, then after any further fenced writes a write to that
  row with the earlier token is refused and leaves the table unchanged.
\<close>

theorem stale_owner_refused:
  assumes toks: "toks = snd (run_log lease_step db ops)"
    and order: "i < j" "j < length toks"
    and wrote: "fenced_write tab row (toks ! j) f = (tab', True)"
  shows "fenced_write (fst (run_log (write_step row) tab' ws)) row (toks ! i) g
           = (fst (run_log (write_step row) tab' ws), False)"
proof -
  have "toks ! i < toks ! j"
    using fencing.run_increasing_snd [of db ops] order toks by (simp add: sorted_wrt_nth_less)
  moreover have "toks ! j \<le> row_level row (fst (run_log (write_step row) tab' ws))"
    using fenced.run_level_fst [of row tab' ws] fenced_write_level [OF wrote] by simp
  ultimately have "\<not> snd (fenced_write (fst (run_log (write_step row) tab' ws)) row (toks ! i) g)"
    by (auto simp: fenced_write_accepts_iff)
  then show ?thesis using fenced_write_refused_same by (metis prod.collapse)
qed

theorem stale_owner_refused_witness:
  "fenced_write (fst (run_log (write_step (1::nat))
       [1 \<mapsto> \<lparr>fr_data = 70::int, fr_last_fencing_token = 3\<rparr>] [])) 1 1 (\<lambda>x. x - 10)
     = ([1 \<mapsto> \<lparr>fr_data = 70, fr_last_fencing_token = 3\<rparr>], False)"
proof -
  let ?db = "\<lparr>kernel_leases = Map.empty, kernel_fencing_seq = 0\<rparr>"
  let ?ops = "[Acquire 0 ''t'' ''ledger'' ''a'' 10, Acquire 11 ''t'' ''ledger'' ''b'' 10]"
  let ?tab = "[1 \<mapsto> \<lparr>fr_data = 100, fr_last_fencing_token = 0\<rparr>] :: nat \<rightharpoonup> int fenced_row"
  have toks: "[1, 3] = snd (run_log lease_step ?db ?ops)"
    by (simp add: acquire_def Let_def)
  have wrote: "fenced_write ?tab 1 ([1, 3] ! 1) (\<lambda>x. x - 30)
      = ([1 \<mapsto> \<lparr>fr_data = 70, fr_last_fencing_token = 3\<rparr>], True)"
    by (simp add: fenced_write_def)
  show ?thesis
    using stale_owner_refused [OF toks, of 0 1, OF _ _ wrote, of "[]" "\<lambda>x. x - 10"] by simp
qed

text \<open>
  A live lease cannot be taken away. While every call runs no later than the lease's
  expiry and none of them presents the holder's own handle, the row of a lease stays exactly
  as it is: no other claimant's acquire, renew or release changes it.
\<close>

theorem live_lease_protected:
  assumes "kernel_leases db (t, k) = Some r"
    and "\<forall>x \<in> set ops. \<forall>now. lease_op_time x = Some now \<longrightarrow> now \<le> lr_expires_at r"
    and "\<forall>x \<in> set ops. lease_op_handle x \<noteq> Some (row_handle t k r)"
  shows "current_holder (fst (run_log lease_step db ops)) t k
           = Some (lr_owner_token r, lr_fencing_token r, lr_expires_at r)"
  using live_row_kept_run [OF assms(1)] assms(2,3) by (auto simp: current_holder_def)

theorem live_lease_protected_witness:
  "current_holder (fst (run_log lease_step
       \<lparr>kernel_leases = [(''t'', ''k'') \<mapsto>
          \<lparr>lr_owner_token = ''a'', lr_fencing_token = 1, lr_acquired_at = 0, lr_expires_at = 10\<rparr>],
        kernel_fencing_seq = 1\<rparr> [Acquire 5 ''t'' ''k'' ''b'' 10])) ''t'' ''k''
     = Some (''a'', 1, 10)"
  using live_lease_protected [of
      "\<lparr>kernel_leases = [(''t'', ''k'') \<mapsto>
          \<lparr>lr_owner_token = ''a'', lr_fencing_token = 1, lr_acquired_at = 0, lr_expires_at = 10\<rparr>],
        kernel_fencing_seq = 1\<rparr>" "''t''" "''k''"
      "\<lparr>lr_owner_token = ''a'', lr_fencing_token = 1, lr_acquired_at = 0, lr_expires_at = 10\<rparr>"
      "[Acquire 5 ''t'' ''k'' ''b'' 10]"] by simp

text \<open>
  Use it or lose it. A renewal succeeds exactly when the stored row still carries the
  handle's owner and token and has not expired; it then changes only the expiry, so the token
  is kept, and every other row is untouched. When it fails the table is unchanged.
\<close>

theorem renew_iff_live:
  "case renew now db h ttl of
     (db', Inr h') \<Rightarrow>
        (\<exists>r. kernel_leases db (lh_tenant_id h, lh_resource_key h) = Some r
           \<and> h = row_handle (lh_tenant_id h) (lh_resource_key h) r \<and> now < lr_expires_at r
           \<and> h' = h
           \<and> db' = db\<lparr>kernel_leases := (kernel_leases db)((lh_tenant_id h, lh_resource_key h)
                \<mapsto> r\<lparr>lr_expires_at := now + ttl\<rparr>)\<rparr>)
   | (db', Inl e) \<Rightarrow>
        db' = db \<and> e = LeaseLost (lh_resource_key h) (lh_owner_token h)
        \<and> (\<nexists>r. kernel_leases db (lh_tenant_id h, lh_resource_key h) = Some r
              \<and> h = row_handle (lh_tenant_id h) (lh_resource_key h) r \<and> now < lr_expires_at r)"
proof (cases "kernel_leases db (lh_tenant_id h, lh_resource_key h)")
  case None
  then show ?thesis by (simp add: renew_def)
next
  case (Some r)
  show ?thesis
  proof (cases "lease_matches db h \<and> now < lr_expires_at r")
    case True
    with Some have "h = row_handle (lh_tenant_id h) (lh_resource_key h) r"
      by (simp add: lease_matches_iff)
    with True Some show ?thesis by (simp add: renew_def)
  next
    case False
    with Some show ?thesis by (auto simp: renew_def lease_matches_iff)
  qed
qed

end
