(* ===== verification/Json.thy ===== *)
theory Json
  imports Prelude "HOL-Library.List_Lexorder" "HOL-Library.Char_ord"
begin

text \<open>
  The standard library's \<^verbatim>\<open>json.dumps(value, sort_keys=True, separators=(",", ":"))\<close>, which the
  sources use as the canonical form of everything they hash or sign. A float is written by
  the parameter \<open>fr\<close>. The main lemma is that the form determines the value up to the order of
  the keys (for values without floats), so that a digest or a signature over it binds every
  field.
\<close>

section \<open>Values and their canonical text\<close>

datatype json =
    JNull
  | JBool bool
  | JInt int
  | JFloat rat
  | JStr string
  | JList "json list"
  | JObj "(string \<times> json) list"

definition chr_quote :: char where "chr_quote = CHR 0x22"
definition chr_backslash :: char where "chr_backslash = CHR 0x5C"

definition hex_chr :: "nat \<Rightarrow> char" where
  "hex_chr n = hex_digits ! n"

text \<open>Escaping of one character with the default \<^verbatim>\<open>ensure_ascii=True\<close>.\<close>

definition json_esc :: "char \<Rightarrow> string" where
  "json_esc c =
     (let n = (of_char c :: nat) in
      if c = chr_quote then [chr_backslash, chr_quote]
      else if c = chr_backslash then [chr_backslash, chr_backslash]
      else if n = 10 then [chr_backslash, CHR ''n'']
      else if n = 13 then [chr_backslash, CHR ''r'']
      else if n = 9 then [chr_backslash, CHR ''t'']
      else if n = 12 then [chr_backslash, CHR ''f'']
      else if n = 8 then [chr_backslash, CHR ''b'']
      else if 32 \<le> n \<and> n \<le> 126 then [c]
      else [chr_backslash, CHR ''u'', CHR ''0'', CHR ''0'', hex_chr (n div 16), hex_chr (n mod 16)])"

definition json_str :: "string \<Rightarrow> string" where
  "json_str s = chr_quote # concat (map json_esc s) @ [chr_quote]"

definition digit_chr :: "nat \<Rightarrow> char" where
  "digit_chr n = ''0123456789'' ! n"

definition is_digit :: "char \<Rightarrow> bool" where
  "is_digit c \<longleftrightarrow> c \<in> set ''0123456789''"

fun show_nat :: "nat \<Rightarrow> string" where
  "show_nat n = (if n < 10 then [digit_chr n] else show_nat (n div 10) @ [digit_chr (n mod 10)])"

declare show_nat.simps [simp del]

definition show_int :: "int \<Rightarrow> string" where
  "show_int i = (if i < 0 then CHR ''-'' # show_nat (nat (- i)) else show_nat (nat i))"

fun join_with :: "string \<Rightarrow> string list \<Rightarrow> string" where
  "join_with sep [] = []"
| "join_with sep [x] = x"
| "join_with sep (x # y # xs) = x @ sep @ join_with sep (y # xs)"

fun json_print :: "(rat \<Rightarrow> string) \<Rightarrow> json \<Rightarrow> string" where
  "json_print fr JNull = ''null''"
| "json_print fr (JBool b) = (if b then ''true'' else ''false'')"
| "json_print fr (JInt i) = show_int i"
| "json_print fr (JFloat q) = fr q"
| "json_print fr (JStr s) = json_str s"
| "json_print fr (JList xs) = ''['' @ join_with '','' (map (json_print fr) xs) @ '']''"
| "json_print fr (JObj kvs) =
     ''{'' @ join_with '','' (map (\<lambda>(k, v). json_str k @ '':'' @ json_print fr v) kvs) @ ''}''"

fun json_canon :: "json \<Rightarrow> json" where
  "json_canon (JList xs) = JList (map json_canon xs)"
| "json_canon (JObj kvs) = JObj (sort_key fst (map (\<lambda>(k, v). (k, json_canon v)) kvs))"
| "json_canon j = j"

definition json_dumps :: "(rat \<Rightarrow> string) \<Rightarrow> json \<Rightarrow> string" where
  "json_dumps fr j = json_print fr (json_canon j)"

fun float_free :: "json \<Rightarrow> bool" where
  "float_free (JFloat _) = False"
| "float_free (JList xs) = list_all float_free xs"
| "float_free (JObj kvs) = list_all (\<lambda>(k, v). float_free v) kvs"
| "float_free j = True"

section \<open>The canonical text determines the value\<close>

text \<open>What may follow a value inside a document.\<close>

definition json_delim :: "string \<Rightarrow> bool" where
  "json_delim r \<longleftrightarrow> r = [] \<or> hd r \<in> {CHR '','', CHR '']'', CHR ''}''}"

lemma json_delim_simps [simp]:
  "json_delim []" "json_delim (CHR '','' # r)" "json_delim (CHR '']'' # r)"
  "json_delim (CHR ''}'' # r)"
  by (simp_all add: json_delim_def)

lemma hex_chr_inj: "a < 16 \<Longrightarrow> b < 16 \<Longrightarrow> hex_chr a = hex_chr b \<Longrightarrow> a = b"
proof -
  have "distinct hex_digits" "length hex_digits = 16" by (simp_all add: hex_digits_def)
  then show "a < 16 \<Longrightarrow> b < 16 \<Longrightarrow> hex_chr a = hex_chr b \<Longrightarrow> a = b"
    by (simp add: hex_chr_def nth_eq_iff_index_eq)
qed

lemma of_char_div_lt: "(of_char c :: nat) div 16 < 16"
proof -
  have "(of_char c :: nat) < 16 * 16" using nat_of_char_less_256 [of c] by simp
  then show ?thesis by (rule less_mult_imp_div_less)
qed

lemma hex_pair_inj:
  assumes "hex_chr ((of_char c :: nat) div 16) = hex_chr ((of_char d :: nat) div 16)"
    and "hex_chr ((of_char c :: nat) mod 16) = hex_chr ((of_char d :: nat) mod 16)"
  shows "c = d"
proof -
  have "(of_char c :: nat) div 16 = of_char d div 16" "(of_char c :: nat) mod 16 = of_char d mod 16"
    using assms hex_chr_inj of_char_div_lt by simp_all
  then have "(of_char c :: nat) = of_char d" by (metis div_mult_mod_eq)
  then show ?thesis by simp
qed

lemma json_esc_cases:
  obtains (plain) "json_esc c = [c]" "c \<noteq> chr_quote" "c \<noteq> chr_backslash"
  | (short) x where "json_esc c = [chr_backslash, x]" "x \<noteq> CHR ''u''"
      "(x, of_char c) \<in> {(chr_quote, 34), (chr_backslash, 92), (CHR ''n'', 10), (CHR ''r'', 13),
         (CHR ''t'', 9), (CHR ''f'', 12), (CHR ''b'', 8 :: nat)}"
  | (long) "json_esc c = [chr_backslash, CHR ''u'', CHR ''0'', CHR ''0'',
       hex_chr (of_char c div 16), hex_chr (of_char c mod 16)]"
proof -
  consider "c = chr_quote" | "c = chr_backslash" | "(of_char c :: nat) = 10"
    | "(of_char c :: nat) = 13" | "(of_char c :: nat) = 9" | "(of_char c :: nat) = 12"
    | "(of_char c :: nat) = 8"
    | "c \<noteq> chr_quote" "c \<noteq> chr_backslash" "(of_char c :: nat) \<notin> {8, 9, 10, 12, 13}"
    by blast
  then show ?thesis
  proof cases
    case 1 show ?thesis using 1 by (intro short [of chr_quote]) (auto simp: json_esc_def chr_quote_def chr_backslash_def)
  next
    case 2 show ?thesis using 2 by (intro short [of chr_backslash]) (auto simp: json_esc_def chr_quote_def chr_backslash_def)
  next
    case 3 show ?thesis using 3 by (intro short [of "CHR ''n''"]) (auto simp: json_esc_def chr_quote_def chr_backslash_def)
  next
    case 4 show ?thesis using 4 by (intro short [of "CHR ''r''"]) (auto simp: json_esc_def chr_quote_def chr_backslash_def)
  next
    case 5 show ?thesis using 5 by (intro short [of "CHR ''t''"]) (auto simp: json_esc_def chr_quote_def chr_backslash_def)
  next
    case 6 show ?thesis using 6 by (intro short [of "CHR ''f''"]) (auto simp: json_esc_def chr_quote_def chr_backslash_def)
  next
    case 7 show ?thesis using 7 by (intro short [of "CHR ''b''"]) (auto simp: json_esc_def chr_quote_def chr_backslash_def)
  next
    case 8
    show ?thesis
    proof (cases "32 \<le> (of_char c :: nat) \<and> (of_char c :: nat) \<le> 126")
      case True
      with 8 show ?thesis by (intro plain) (auto simp: json_esc_def)
    next
      case False
      with 8 show ?thesis by (intro long) (auto simp: json_esc_def Let_def)
    qed
  qed
qed

lemma json_esc_hd: "\<exists>x xs. json_esc c = x # xs \<and> x \<noteq> chr_quote"
  by (cases c rule: json_esc_cases) (auto simp: chr_quote_def chr_backslash_def)

lemma json_esc_prefix: "json_esc c @ r = json_esc d @ t \<Longrightarrow> c = d \<and> r = t"
proof (cases c rule: json_esc_cases)
  case plain
  assume "json_esc c @ r = json_esc d @ t"
  with plain show ?thesis by (cases d rule: json_esc_cases) auto
next
  case (short x)
  assume eq: "json_esc c @ r = json_esc d @ t"
  show ?thesis
  proof (cases d rule: json_esc_cases)
    case plain
    with short eq show ?thesis by auto
  next
    case short': (short y)
    with short eq have "x = y" "r = t" by auto
    moreover obtain n where "of_char c = n" "of_char d = (n :: nat)"
      using short(3) short'(3) \<open>x = y\<close>
      by (auto simp: chr_quote_def chr_backslash_def simp del: of_char_eq_iff)
    then have "c = d" by (metis of_char_eq_iff)
    ultimately show ?thesis by simp
  next
    case long
    with short eq show ?thesis by auto
  qed
next
  case long
  assume eq: "json_esc c @ r = json_esc d @ t"
  show ?thesis
  proof (cases d rule: json_esc_cases)
    case long': long
    with long eq show ?thesis using hex_pair_inj [of c d] by auto
  qed (use long eq in auto)
qed

lemma digit_chr_digit: "n < 10 \<Longrightarrow> is_digit (digit_chr n)"
proof -
  assume "n < 10"
  then have "n < length ''0123456789''" by simp
  then show ?thesis unfolding is_digit_def digit_chr_def by (rule nth_mem)
qed

lemma digit_chr_inj: "a < 10 \<Longrightarrow> b < 10 \<Longrightarrow> digit_chr a = digit_chr b \<Longrightarrow> a = b"
proof -
  have "distinct ''0123456789''" "length ''0123456789'' = 10" by simp_all
  then show "a < 10 \<Longrightarrow> b < 10 \<Longrightarrow> digit_chr a = digit_chr b \<Longrightarrow> a = b"
    unfolding digit_chr_def by (metis nth_eq_iff_index_eq)
qed

lemma show_nat_digits: "c \<in> set (show_nat n) \<Longrightarrow> is_digit c"
proof (induction n rule: show_nat.induct)
  case (1 n)
  then show ?case
    by (cases "n < 10") (auto simp: show_nat.simps [of n] digit_chr_digit)
qed

lemma show_nat_ne [simp]: "show_nat n \<noteq> []"
  by (subst show_nat.simps) simp

lemma show_nat_len: "n < 10 \<longleftrightarrow> length (show_nat n) = 1"
  by (subst show_nat.simps) simp

lemma show_nat_inj: "show_nat m = show_nat n \<Longrightarrow> m = n"
proof (induction m arbitrary: n rule: show_nat.induct)
  case (1 m)
  show ?case
  proof (cases "m < 10")
    case True
    with 1 have "n < 10" by (simp add: show_nat_len)
    with True 1 show ?thesis
      using digit_chr_inj by (simp add: show_nat.simps [of m] show_nat.simps [of n])
  next
    case False
    with 1 have n: "\<not> n < 10" by (simp add: show_nat_len)
    with False 1(2) have "show_nat (m div 10) = show_nat (n div 10)"
        "digit_chr (m mod 10) = digit_chr (n mod 10)"
      by (simp_all add: show_nat.simps [of m] show_nat.simps [of n])
    with False 1(1) have "m div 10 = n div 10" "m mod 10 = n mod 10"
      using digit_chr_inj [of "m mod 10" "n mod 10"] by simp_all
    then show ?thesis by (metis div_mult_mod_eq)
  qed
qed

lemma takeWhile_digits:
  assumes "json_delim r"
  shows "takeWhile is_digit (show_nat n @ r) = show_nat n"
proof -
  have "takeWhile is_digit r = []"
    using assms by (cases r) (auto simp: json_delim_def is_digit_def)
  then show ?thesis using show_nat_digits by (simp add: takeWhile_append2)
qed

lemma show_nat_prefix:
  assumes "show_nat m @ r = show_nat n @ r'" and "json_delim r" and "json_delim r'"
  shows "m = n \<and> r = r'"
proof -
  have "show_nat m = show_nat n" using takeWhile_digits assms by metis
  then show ?thesis using assms(1) show_nat_inj by auto
qed

lemma show_nat_hd: "\<exists>c cs. show_nat n = c # cs \<and> is_digit c"
  using show_nat_digits [of "hd (show_nat n)" n] show_nat_ne [of n]
  by (metis hd_in_set list.collapse)

lemma show_nat_no_minus: "show_nat n @ r \<noteq> CHR ''-'' # t"
  using show_nat_hd [of n] by (auto simp: is_digit_def)

lemma show_int_prefix:
  "show_int i @ r = show_int j @ r' \<Longrightarrow> json_delim r \<Longrightarrow> json_delim r' \<Longrightarrow> i = j \<and> r = r'"
  by (cases "i < 0"; cases "j < 0")
    (auto simp: show_int_def show_nat_no_minus show_nat_no_minus [symmetric] dest!: show_nat_prefix)

lemma show_int_hd: "\<exists>c cs. show_int i = c # cs \<and> (c = CHR ''-'' \<or> is_digit c)"
  using show_nat_hd [of "nat i"] by (auto simp: show_int_def)

text \<open>The kind of a value is visible in its first character.\<close>

fun json_tag :: "json \<Rightarrow> nat" where
  "json_tag JNull = 0"
| "json_tag (JBool b) = (if b then 1 else 2)"
| "json_tag (JInt _) = 3"
| "json_tag (JFloat _) = 3"
| "json_tag (JStr _) = 4"
| "json_tag (JList _) = 5"
| "json_tag (JObj _) = 6"

definition tag_of_chr :: "char \<Rightarrow> nat" where
  "tag_of_chr c =
     (if c = CHR ''n'' then 0 else if c = CHR ''t'' then 1 else if c = CHR ''f'' then 2
      else if c = CHR ''-'' \<or> is_digit c then 3 else if c = chr_quote then 4
      else if c = CHR ''['' then 5 else if c = CHR ''{'' then 6 else 8)"

text \<open>
  What the sources rely on of \<^verbatim>\<open>float.__repr__\<close>: different numbers have different texts, and a text is a
  number with a point or an exponent.
\<close>

definition float_text :: "string \<Rightarrow> bool" where
  "float_text t \<longleftrightarrow> t \<noteq> [] \<and> (hd t = CHR ''-'' \<or> is_digit (hd t))
     \<and> list_all (\<lambda>c. c \<notin> {CHR '','', CHR '']'', CHR ''}''}) t \<and> list_ex (\<lambda>c. c \<noteq> CHR ''-'' \<and> \<not> is_digit c) t"

definition float_repr_ok :: "(rat \<Rightarrow> string) \<Rightarrow> bool" where
  "float_repr_ok fr \<longleftrightarrow> inj fr \<and> (\<forall>q. float_text (fr q))"

lemma solid_prefix:
  assumes "list_all (\<lambda>c. c \<notin> {CHR '','', CHR '']'', CHR ''}''}) s" "list_all (\<lambda>c. c \<notin> {CHR '','', CHR '']'', CHR ''}''}) t"
    and "s @ r = t @ u" and "json_delim r" and "json_delim u"
  shows "s = t \<and> r = u"
  using assms
proof (induction s arbitrary: t)
  case Nil
  then show ?case by (cases t) (auto simp: json_delim_def)
next
  case (Cons c s)
  then show ?case by (cases t) (auto simp: json_delim_def)
qed

lemma show_int_chars: "c \<in> set (show_int i) \<Longrightarrow> c = CHR ''-'' \<or> is_digit c"
  using show_nat_digits by (auto simp: show_int_def split: if_splits)

lemma show_int_solid: "list_all (\<lambda>c. c \<notin> {CHR '','', CHR '']'', CHR ''}''}) (show_int i)"
proof -
  have "\<not> is_digit (CHR '','')" "\<not> is_digit (CHR '']'')" "\<not> is_digit (CHR ''}'')" by (simp_all add: is_digit_def)
  then show ?thesis using show_int_chars [of _ i] by (fastforce simp: list_all_iff)
qed

lemma show_int_not_float: "\<not> float_text (show_int i)"
  using show_int_chars [of _ i] by (auto simp: float_text_def list_ex_iff)

text \<open>
  The printer over a function \<open>esc\<close> that escapes one character of a string. The texts of two values
  that are followed by a delimiter are equal only if the values are.
\<close>

fun json_print_by :: "(char \<Rightarrow> string) \<Rightarrow> (rat \<Rightarrow> string) \<Rightarrow> json \<Rightarrow> string" where
  "json_print_by esc fr JNull = ''null''"
| "json_print_by esc fr (JBool b) = (if b then ''true'' else ''false'')"
| "json_print_by esc fr (JInt i) = show_int i"
| "json_print_by esc fr (JFloat q) = fr q"
| "json_print_by esc fr (JStr s) = chr_quote # concat (map esc s) @ [chr_quote]"
| "json_print_by esc fr (JList xs) = ''['' @ join_with '','' (map (json_print_by esc fr) xs) @ '']''"
| "json_print_by esc fr (JObj kvs) = ''{'' @ join_with '','' (map (\<lambda>(k, v).
     (chr_quote # concat (map esc k) @ [chr_quote]) @ '':'' @ json_print_by esc fr v) kvs) @ ''}''"

lemma json_print_by_ascii: "json_print_by json_esc fr j = json_print fr j"
proof (induction j)
  case (JList xs)
  then show ?case by (simp cong: map_cong)
next
  case (JObj kvs)
  then have eq: "map (\<lambda>(k, v). (chr_quote # concat (map json_esc k) @ [chr_quote]) @ '':'' @ json_print_by json_esc fr v) kvs
      = map (\<lambda>(k, v). json_str k @ '':'' @ json_print fr v) kvs"
    by (intro map_cong refl) (auto simp: json_str_def)
  show ?case unfolding json_print_by.simps json_print.simps eq ..
qed (simp_all add: json_str_def)

text \<open>Sequences of items separated by commas and closed by a bracket.\<close>

lemma join_prefix:
  assumes item: "\<And>x y r t. x \<in> set xs \<Longrightarrow> y \<in> set ys \<Longrightarrow> p x @ r = p y @ t \<Longrightarrow>
        json_delim r \<Longrightarrow> json_delim t \<Longrightarrow> x = y \<and> r = t"
    and open_x: "\<And>x r t. x \<in> set xs \<Longrightarrow> p x @ r \<noteq> c # t"
    and open_y: "\<And>y r t. y \<in> set ys \<Longrightarrow> p y @ r \<noteq> c # t"
    and close: "c \<in> {CHR '']'', CHR ''}''}"
    and eq: "join_with '','' (map p xs) @ c # r = join_with '','' (map p ys) @ c # t"
  shows "xs = ys \<and> r = t"
  using assms
proof (induction xs arbitrary: ys)
  case Nil
  show ?case
  proof (cases ys)
    case (Cons y ys')
    then have "\<exists>u. join_with '','' (map p ys) @ c # t = p y @ u" by (cases ys') auto
    with Nil(5) obtain u where "c # r = p y @ u" by auto
    with Nil(3) [of y u r] Cons show ?thesis by simp
  qed (use Nil(5) in simp)
next
  case (Cons x xs)
  from Cons.prems(5) have "ys \<noteq> []"
    using Cons.prems(2) [of x] by (cases xs) auto
  then obtain y ys' where ys: "ys = y # ys'" by (cases ys) auto
  have rest: "\<exists>a. join_with '','' (map p (z # zs)) @ c # u
      = p z @ a \<and> json_delim a \<and> a = (if zs = [] then c # u else CHR '','' # join_with '','' (map p zs) @ c # u)"
    for z zs u using close by (cases zs) auto
  obtain a where a: "join_with '','' (map p (x # xs)) @ c # r = p x @ a" "json_delim a"
      "a = (if xs = [] then c # r else CHR '','' # join_with '','' (map p xs) @ c # r)"
    using rest by blast
  obtain b where b: "join_with '','' (map p (y # ys')) @ c # t = p y @ b" "json_delim b"
      "b = (if ys' = [] then c # t else CHR '','' # join_with '','' (map p ys') @ c # t)"
    using rest by blast
  have "x = y \<and> a = b"
    using Cons.prems(1) [of x y a b] Cons.prems(5) a b ys by auto
  then have xy: "x = y" and ab: "a = b" by simp_all
  have empty: "xs = [] \<longleftrightarrow> ys' = []" using ab a(3) b(3) close by (auto split: if_splits)
  show ?case
  proof (cases "xs = []")
    case True
    with empty ab a(3) b(3) xy ys show ?thesis by simp
  next
    case False
    with empty ab a(3) b(3) have "join_with '','' (map p xs) @ c # r = join_with '','' (map p ys') @ c # t"
      by simp
    note tails = this
    have "xs = ys' \<and> r = t"
    proof (rule Cons.IH [OF _ _ _ close tails])
      show "\<And>v w k l. v \<in> set xs \<Longrightarrow> w \<in> set ys' \<Longrightarrow> p v @ k = p w @ l \<Longrightarrow>
          json_delim k \<Longrightarrow> json_delim l \<Longrightarrow> v = w \<and> k = l"
        by (rule Cons.prems(1)) (simp_all add: ys)
      show "\<And>v k l. v \<in> set xs \<Longrightarrow> p v @ k \<noteq> c # l"
        by (rule Cons.prems(2)) simp
      show "\<And>w k l. w \<in> set ys' \<Longrightarrow> p w @ k \<noteq> c # l"
        by (rule Cons.prems(3)) (simp add: ys)
    qed
    with xy ys show ?thesis by simp
  qed
qed

locale json_escape =
  fixes esc :: "char \<Rightarrow> string"
  assumes esc_hd: "\<exists>x xs. esc c = x # xs \<and> x \<noteq> chr_quote"
    and esc_prefix: "esc c @ r = esc d @ t \<Longrightarrow> c = d \<and> r = t"
begin

lemma body_prefix:
  "concat (map esc s) @ chr_quote # r = concat (map esc s') @ chr_quote # r' \<Longrightarrow> s = s' \<and> r = r'"
proof (induction s arbitrary: s')
  case Nil
  then show ?case using esc_hd by (cases s') (auto, metis append_Cons list.inject)+
next
  case (Cons c s)
  show ?case
  proof (cases s')
    case Nil
    with Cons.prems esc_hd [of c] show ?thesis by auto
  next
    case s': (Cons d t)
    with Cons.prems have "esc c @ concat (map esc s) @ chr_quote # r
        = esc d @ concat (map esc t) @ chr_quote # r'" by simp
    then have "c = d" "concat (map esc s) @ chr_quote # r = concat (map esc t) @ chr_quote # r'"
      using esc_prefix by blast+
    with Cons.IH s' show ?thesis by auto
  qed
qed

abbreviation pr :: "(rat \<Rightarrow> string) \<Rightarrow> json \<Rightarrow> string" where
  "pr \<equiv> json_print_by esc"

lemma print_tag:
  assumes "float_free j \<or> float_repr_ok fr"
  shows "\<exists>c cs. pr fr j = c # cs \<and> tag_of_chr c = json_tag j"
proof (cases j)
  case (JInt i)
  obtain c cs where c: "show_int i = c # cs" "c = CHR ''-'' \<or> is_digit c"
    using show_int_hd by blast
  then have "tag_of_chr c = 3" by (auto simp: tag_of_chr_def is_digit_def)
  with c JInt show ?thesis by simp
next
  case (JFloat q)
  then have "float_text (fr q)" using assms by (simp add: float_repr_ok_def)
  then obtain c cs where c: "fr q = c # cs" "c = CHR ''-'' \<or> is_digit c"
    by (cases "fr q") (auto simp: float_text_def)
  then have "tag_of_chr c = 3" by (auto simp: tag_of_chr_def is_digit_def)
  with c JFloat show ?thesis by simp
qed (auto simp: tag_of_chr_def is_digit_def chr_quote_def)

lemma print_tag_eq:
  assumes "pr fr i @ r = pr fr j @ t" and "float_free i \<and> float_free j \<or> float_repr_ok fr"
  shows "json_tag i = json_tag j"
proof -
  have "float_free i \<or> float_repr_ok fr" "float_free j \<or> float_repr_ok fr" using assms(2) by blast+
  from print_tag [OF this(1)] print_tag [OF this(2)] show ?thesis using assms(1) by auto
qed

lemma print_not_close:
  "float_free j \<or> float_repr_ok fr \<Longrightarrow> pr fr j @ r \<noteq> CHR '']'' # t \<and> pr fr j @ r \<noteq> CHR '','' # t"
  using print_tag [of j fr] by (cases j) (auto simp: tag_of_chr_def is_digit_def chr_quote_def)

lemma print_prefix:
  "pr fr i @ r = pr fr j @ t \<Longrightarrow> float_free i \<and> float_free j \<or> float_repr_ok fr \<Longrightarrow>
     json_delim r \<Longrightarrow> json_delim t \<Longrightarrow> i = j \<and> r = t"
proof (induction i arbitrary: j r t)
  case JNull
  with print_tag_eq [OF JNull.prems(1,2)] show ?case by (cases j) (auto split: if_splits)
next
  case (JBool b)
  with print_tag_eq [OF JBool.prems(1,2)] show ?case by (cases j) (auto split: if_splits)
next
  case (JInt x)
  with print_tag_eq [OF JInt.prems(1,2)] show ?case
  proof (cases j)
    case (JFloat q)
    then have f: "float_text (fr q)" using JInt.prems(2) by (simp add: float_repr_ok_def)
    then have "show_int x = fr q"
      using solid_prefix [OF show_int_solid, of "fr q" x r t] JInt.prems JFloat by (simp add: float_text_def)
    with show_int_not_float [of x] f show ?thesis by simp
  qed (auto dest: show_int_prefix split: if_splits)
next
  case (JFloat x)
  then have f: "inj fr" "float_text (fr x)" by (simp_all add: float_repr_ok_def)
  with print_tag_eq [OF JFloat.prems(1,2)] show ?case
  proof (cases j)
    case (JInt i)
    have "fr x = show_int i"
      using solid_prefix [OF _ show_int_solid, of "fr x" r i t] f JFloat.prems JInt by (simp add: float_text_def)
    with show_int_not_float [of i] f(2) show ?thesis by simp
  next
    case j: (JFloat y)
    then have "float_text (fr y)" using JFloat.prems(2) by (simp add: float_repr_ok_def)
    then have "fr x = fr y \<and> r = t"
      using solid_prefix [of "fr x" "fr y" r t] f(2) JFloat.prems j by (simp add: float_text_def)
    with f(1) j show ?thesis by (simp add: inj_eq)
  qed (auto split: if_splits)
next
  case (JStr x)
  with print_tag_eq [OF JStr.prems(1,2)] show ?case
    by (cases j) (auto dest!: body_prefix split: if_splits)
next
  case (JList xs)
  then obtain ys where j: "j = JList ys"
    using print_tag_eq [OF JList.prems(1,2)] by (cases j) (auto split: if_splits)
  have ok: "float_free x \<and> float_free y \<or> float_repr_ok fr" if "x \<in> set xs" "y \<in> set ys" for x y
    using JList.prems(2) j that by (auto simp: list_all_iff)
  have "xs = ys \<and> r = t"
  proof (rule join_prefix [where p = "pr fr" and c = "CHR '']''"])
    show "join_with '','' (map (pr fr) xs) @ CHR '']'' # r = join_with '','' (map (pr fr) ys) @ CHR '']'' # t"
      using JList.prems(1) j by simp
    show "\<And>x y u v. x \<in> set xs \<Longrightarrow> y \<in> set ys \<Longrightarrow> pr fr x @ u = pr fr y @ v \<Longrightarrow>
        json_delim u \<Longrightarrow> json_delim v \<Longrightarrow> x = y \<and> u = v"
      using JList.IH ok by blast
  qed (use JList.prems(2) j print_not_close in \<open>auto simp: list_all_iff\<close>)
  with j show ?case by simp
next
  case (JObj xs)
  then obtain ys where j: "j = JObj ys"
    using print_tag_eq [OF JObj.prems(1,2)] by (cases j) (auto split: if_splits)
  let ?p = "\<lambda>(k, v). (chr_quote # concat (map esc k) @ [chr_quote]) @ '':'' @ pr fr v"
  have "xs = ys \<and> r = t"
  proof (rule join_prefix [where p = ?p and c = "CHR ''}''"])
    show "join_with '','' (map ?p xs) @ CHR ''}'' # r = join_with '','' (map ?p ys) @ CHR ''}'' # t"
      using JObj.prems(1) j by simp
    show "x = y \<and> u = v" if x: "x \<in> set xs" and y: "y \<in> set ys" and eq: "?p x @ u = ?p y @ v"
      and d: "json_delim u" "json_delim v" for x y u v
    proof -
      obtain k a where kx: "x = (k, a)" by fastforce
      obtain l b where ly: "y = (l, b)" by fastforce
      have fa: "float_free a \<and> float_free b \<or> float_repr_ok fr"
        using JObj.prems(2) j x y kx ly by (auto simp: list_all_iff)
      from eq kx ly have "concat (map esc k) @ chr_quote # ('':'' @ pr fr a @ u)
          = concat (map esc l) @ chr_quote # ('':'' @ pr fr b @ v)" by simp
      from body_prefix [OF this] have kl: "k = l" "pr fr a @ u = pr fr b @ v" by simp_all
      have "a = b \<and> u = v" using JObj.IH [of x a u b v] x kx kl(2) fa d by simp
      with kl kx ly show ?thesis by simp
    qed
  qed (auto simp: chr_quote_def)
  with j show ?case by simp
qed

lemma print_inj: "pr fr i = pr fr j \<Longrightarrow> float_free i \<and> float_free j \<or> float_repr_ok fr \<Longrightarrow> i = j"
  using print_prefix [of fr i "[]" j "[]"] by simp

end

interpretation ascii: json_escape json_esc
  by unfold_locales (rule json_esc_hd, erule json_esc_prefix)

lemma float_free_canon: "float_free (json_canon j) = float_free j"
  by (induction j) (auto simp: list_all_iff)

text \<open>Equal canonical texts come from values that differ at most in the order of their keys.\<close>

lemma json_dumps_inj:
  assumes "json_dumps fr i = json_dumps fr j" and "float_free i" and "float_free j"
  shows "json_canon i = json_canon j"
  using ascii.print_inj [of fr "json_canon i" "json_canon j"] assms
  by (simp add: json_dumps_def float_free_canon json_print_by_ascii)

section \<open>Dictionaries and the interpreter's environment\<close>

text \<open>
  A Python dict under construction: an assignment keeps the position of a key that is
  present and appends a new one.
\<close>

fun dict_set :: "'k \<Rightarrow> 'v \<Rightarrow> ('k \<times> 'v) list \<Rightarrow> ('k \<times> 'v) list" where
  "dict_set k v [] = [(k, v)]"
| "dict_set k v ((k', v') # kvs) = (if k' = k then (k, v) # kvs else (k', v') # dict_set k v kvs)"

definition dict_of :: "('k \<times> 'v) list \<Rightarrow> ('k \<times> 'v) list" where
  "dict_of kvs = fold (\<lambda>(k, v) d. dict_set k v d) kvs []"

text \<open>
  What the sources take from the interpreter's library and only pass on: the hexadecimal
  digest \<^verbatim>\<open>hashlib.sha256(...).hexdigest()\<close>, the text of a float (in full and to three decimals),
  the sum of a non-empty list of floats, the \<^verbatim>\<open>repr\<close> of a text, the text of a UUID and the ISO text
  of a datetime.
\<close>

record py_env =
  sha256 :: "string \<Rightarrow> string"
  float_repr :: "rat \<Rightarrow> string"
  float_fixed3 :: "rat \<Rightarrow> string"
  float_sum :: "rat list \<Rightarrow> rat"
  py_repr :: "string \<Rightarrow> string"
  uuid_str :: "nat \<Rightarrow> string"
  isoformat :: "py_datetime \<Rightarrow> string"

lemma map_of_dict_set: "map_of (dict_set k v kvs) = (map_of kvs)(k \<mapsto> v)"
  by (induction kvs) auto

lemma keys_dict_set: "fst ` set (dict_set k v kvs) = insert k (fst ` set kvs)"
  by (induction k v kvs rule: dict_set.induct) (simp_all add: insert_commute)

lemma distinct_dict_set: "distinct (map fst kvs) \<Longrightarrow> distinct (map fst (dict_set k v kvs))"
  by (induction k v kvs rule: dict_set.induct) (auto simp: keys_dict_set)

lemma dict_set_back: "map_of kvs k = Some v \<Longrightarrow> dict_set k v (dict_set k w kvs) = kvs"
  by (induction kvs) (auto split: if_splits)

lemma dict_set_keys: "map_of kvs k = Some v \<Longrightarrow> map fst (dict_set k w kvs) = map fst kvs"
  by (induction kvs) (auto split: if_splits)

end
