(* ===== verification/Eval_Domain.thy ===== *)
theory Eval_Domain
  imports Json
begin

text \<open>
  The evaluation plane's record layer (\<^verbatim>\<open>fleet_kernel/eval_plane/domain.py\<close>): the state vocabularies,
  the two lifecycles, the five row types with the checks their constructors run, and the
  CHECK constraints and transition triggers of \<^verbatim>\<open>fleet_kernel/ddl/042_eval_plane_domain.sql\<close> that
  the module mirrors. A row class extends \<open>kernel_row\<close> as the dataclass extends \<^verbatim>\<open>_KernelRow\<close>;
  a UUID is a natural number, a JSON column a \<^typ>\<open>json\<close>.
\<close>

section \<open>Vocabularies\<close>

datatype EvalRunState =
    Run_CREATED | Run_TARGET_FROZEN | Run_READY | Run_RUNNING | Run_GRADING
  | Run_REVIEW_REQUIRED | Run_COMPLETED | Run_CANCELLED | Run_ERROR | Run_BLOCKED

datatype ExecutionMode = DENY_EFFECTS | SIMULATED | TEST_ACCOUNT | SHADOW | SUPERVISED_LIVE

datatype ResultState = PASS | FAIL | ERROR | INCONCLUSIVE

datatype GraderKind = STRUCTURAL | TRAJECTORY | OUTCOME | SEMANTIC | HUMAN

datatype Criticality = CRITICAL | NONCRITICAL | ADVISORY

datatype QualificationState =
    PENDING | ADVISORY_QUALIFIED | QUALIFIED | REJECTED | STALE | EXPIRED | WAIVED | Qual_ERROR

datatype GateMode = Gate_ADVISORY | Gate_WARNING | Gate_BLOCKING

datatype InconclusivePolicy = Policy_BLOCK | Policy_REVIEW

text \<open>The members' values.\<close>

fun ExecutionMode_value :: "ExecutionMode \<Rightarrow> string" where
  "ExecutionMode_value DENY_EFFECTS = ''deny_effects''"
| "ExecutionMode_value SIMULATED = ''simulated''"
| "ExecutionMode_value TEST_ACCOUNT = ''test_account''"
| "ExecutionMode_value SHADOW = ''shadow''"
| "ExecutionMode_value SUPERVISED_LIVE = ''supervised_live''"

fun ResultState_value :: "ResultState \<Rightarrow> string" where
  "ResultState_value PASS = ''pass''"
| "ResultState_value FAIL = ''fail''"
| "ResultState_value ERROR = ''error''"
| "ResultState_value INCONCLUSIVE = ''inconclusive''"

fun GraderKind_value :: "GraderKind \<Rightarrow> string" where
  "GraderKind_value STRUCTURAL = ''structural''"
| "GraderKind_value TRAJECTORY = ''trajectory''"
| "GraderKind_value OUTCOME = ''outcome''"
| "GraderKind_value SEMANTIC = ''semantic''"
| "GraderKind_value HUMAN = ''human''"

fun Criticality_value :: "Criticality \<Rightarrow> string" where
  "Criticality_value CRITICAL = ''critical''"
| "Criticality_value NONCRITICAL = ''noncritical''"
| "Criticality_value ADVISORY = ''advisory''"

fun QualificationState_value :: "QualificationState \<Rightarrow> string" where
  "QualificationState_value PENDING = ''pending''"
| "QualificationState_value ADVISORY_QUALIFIED = ''advisory_qualified''"
| "QualificationState_value QUALIFIED = ''qualified''"
| "QualificationState_value REJECTED = ''rejected''"
| "QualificationState_value STALE = ''stale''"
| "QualificationState_value EXPIRED = ''expired''"
| "QualificationState_value WAIVED = ''waived''"
| "QualificationState_value Qual_ERROR = ''error''"

fun GateMode_value :: "GateMode \<Rightarrow> string" where
  "GateMode_value Gate_ADVISORY = ''advisory''"
| "GateMode_value Gate_WARNING = ''warning''"
| "GateMode_value Gate_BLOCKING = ''blocking''"

fun InconclusivePolicy_value :: "InconclusivePolicy \<Rightarrow> string" where
  "InconclusivePolicy_value Policy_BLOCK = ''block''"
| "InconclusivePolicy_value Policy_REVIEW = ''review''"

section \<open>Lifecycles\<close>

definition RUN_TERMINAL_STATES :: "EvalRunState set" where
  "RUN_TERMINAL_STATES = {Run_COMPLETED, Run_CANCELLED, Run_ERROR}"

definition QUALIFYING_STATES :: "QualificationState set" where
  "QUALIFYING_STATES = {QUALIFIED, ADVISORY_QUALIFIED}"

definition QUALIFICATION_TERMINAL_STATES :: "QualificationState set" where
  "QUALIFICATION_TERMINAL_STATES = {STALE, EXPIRED, Qual_ERROR}"

definition RUN_ABORTS :: "EvalRunState set" where
  "RUN_ABORTS = {Run_CANCELLED, Run_ERROR}"

fun RUN_TRANSITIONS :: "EvalRunState \<Rightarrow> EvalRunState set" where
  "RUN_TRANSITIONS Run_CREATED = {Run_TARGET_FROZEN, Run_BLOCKED} \<union> RUN_ABORTS"
| "RUN_TRANSITIONS Run_TARGET_FROZEN = {Run_READY, Run_BLOCKED} \<union> RUN_ABORTS"
| "RUN_TRANSITIONS Run_READY = {Run_RUNNING, Run_BLOCKED} \<union> RUN_ABORTS"
| "RUN_TRANSITIONS Run_RUNNING = {Run_GRADING, Run_BLOCKED} \<union> RUN_ABORTS"
| "RUN_TRANSITIONS Run_GRADING = {Run_REVIEW_REQUIRED, Run_COMPLETED, Run_BLOCKED} \<union> RUN_ABORTS"
| "RUN_TRANSITIONS Run_REVIEW_REQUIRED = {Run_COMPLETED, Run_BLOCKED} \<union> RUN_ABORTS"
| "RUN_TRANSITIONS Run_BLOCKED = {Run_READY} \<union> RUN_ABORTS"
| "RUN_TRANSITIONS Run_COMPLETED = {}"
| "RUN_TRANSITIONS Run_CANCELLED = {}"
| "RUN_TRANSITIONS Run_ERROR = {}"

fun QUALIFICATION_TRANSITIONS :: "QualificationState \<Rightarrow> QualificationState set" where
  "QUALIFICATION_TRANSITIONS PENDING = {QUALIFIED, ADVISORY_QUALIFIED, REJECTED, Qual_ERROR}"
| "QUALIFICATION_TRANSITIONS QUALIFIED = {STALE, EXPIRED}"
| "QUALIFICATION_TRANSITIONS ADVISORY_QUALIFIED = {STALE, EXPIRED}"
| "QUALIFICATION_TRANSITIONS REJECTED = {WAIVED, STALE}"
| "QUALIFICATION_TRANSITIONS WAIVED = {STALE, EXPIRED}"
| "QUALIFICATION_TRANSITIONS STALE = {}"
| "QUALIFICATION_TRANSITIONS EXPIRED = {}"
| "QUALIFICATION_TRANSITIONS Qual_ERROR = {}"

text \<open>One constructor per \<open>raise\<close> of the module.\<close>

datatype domain_error =
    TenantBlank
  | IllegalRunTransition EvalRunState EvalRunState
  | IllegalQualificationTransition QualificationState QualificationState
  | RefusedByCounters | RefusedInconclusive | AdvisoryGateCannotQualify | InvalidationNeedsReason
  | AttemptNumberBelowOne | RetryNeedsPredecessor
  | DiscardedFailure ResultState | DiscardedWithoutReason | CountedWithExclusionReason
  | GraderFamilyIsSubjectFamily | AdjudicatorFamilyIsSubjectFamily
  | SemanticNeedsJudgeAndRubric | SemanticMustBeAdvisory | ErrorNeedsDetail
  | AdjudicatorNeedsTime | TimeNeedsAdjudicator | GradeNeedsReason
  | GradeNeedsEvidence | EvidenceHalfBound | EvidenceDigestMalformed
  | WaiverNeedsOneRequirement | WaiverNeedsApproval | WaiverUnbounded

definition require_tenant :: "string \<Rightarrow> domain_error + unit" where
  "require_tenant t = (if py_strip t = [] then Inl TenantBlank else Inr ())"

definition assert_run_transition :: "EvalRunState \<Rightarrow> EvalRunState \<Rightarrow> domain_error + unit" where
  "assert_run_transition current target =
     (if current = target then Inr ()
      else if target \<notin> RUN_TRANSITIONS current then Inl (IllegalRunTransition current target)
      else Inr ())"

definition assert_qualification_transition ::
    "QualificationState \<Rightarrow> QualificationState \<Rightarrow> domain_error + unit" where
  "assert_qualification_transition current target =
     (if current = target then Inr ()
      else if target \<notin> QUALIFICATION_TRANSITIONS current
      then Inl (IllegalQualificationTransition current target)
      else Inr ())"

section \<open>Rows\<close>

record kernel_row =
  tenant_id :: string
  row_id :: nat
  schema_version :: int

record EvalRun = kernel_row +
  er_suite_id :: string
  er_suite_version :: string
  er_suite_manifest_sha256 :: string
  er_target_fingerprint :: string
  er_environment :: string
  er_execution_mode :: ExecutionMode
  er_state :: EvalRunState
  er_actor_identity :: string
  er_actor_family :: string
  er_attempt_policy :: json
  er_recovered_from_run_id :: "nat option"
  er_spend_microusd :: int
  er_latency_ms :: int
  er_provider_error_count :: int
  er_tool_error_count :: int
  er_evidence_ref :: string
  er_evidence_sha256 :: "string option"
  er_created_at :: py_datetime
  er_started_at :: "py_datetime option"
  er_heartbeat_at :: "py_datetime option"
  er_ended_at :: "py_datetime option"

text \<open>\<open>moment\<close> is \<^verbatim>\<open>at or _now()\<close>.\<close>

definition run_transition :: "EvalRun \<Rightarrow> EvalRunState \<Rightarrow> py_datetime \<Rightarrow> domain_error + EvalRun" where
  "run_transition r target moment =
     (case assert_run_transition (er_state r) target of
        Inl e \<Rightarrow> Inl e
      | Inr _ \<Rightarrow>
          (let r1 = r\<lparr>er_state := target\<rparr>;
               r2 = (if target = Run_RUNNING \<and> er_started_at r1 = None
                     then r1\<lparr>er_started_at := Some moment\<rparr> else r1);
               r3 = (if target \<in> RUN_TERMINAL_STATES
                     then r2\<lparr>er_ended_at := Some moment\<rparr> else r2)
           in Inr r3))"

record EvalCaseAttempt = kernel_row +
  ea_run_id :: nat
  ea_case_id :: string
  ea_case_version :: string
  ea_case_manifest_sha256 :: string
  ea_attempt_number :: int
  ea_sampling_config :: json
  ea_input_sha256 :: string
  ea_fixture_sha256 :: string
  ea_trajectory_ref :: string
  ea_trajectory_sha256 :: string
  ea_final_output_ref :: string
  ea_forbidden_effect_attempts :: int
  ea_result :: ResultState
  ea_counted_in_aggregate :: bool
  ea_exclusion_reason :: string
  ea_retry_of_attempt_id :: "nat option"
  ea_cost_microusd :: int
  ea_latency_ms :: int
  ea_started_at :: py_datetime
  ea_ended_at :: py_datetime
  ea_recorded_at :: py_datetime

definition attempt_validate :: "EvalCaseAttempt \<Rightarrow> domain_error + EvalCaseAttempt" where
  "attempt_validate a =
     (case require_tenant (tenant_id a) of
        Inl e \<Rightarrow> Inl e
      | Inr _ \<Rightarrow>
          if ea_attempt_number a < 1 then Inl AttemptNumberBelowOne
          else if ea_attempt_number a > 1 \<and> ea_retry_of_attempt_id a = None then Inl RetryNeedsPredecessor
          else if \<not> ea_counted_in_aggregate a then
            (if ea_result a \<noteq> ERROR then Inl (DiscardedFailure (ea_result a))
             else if py_strip (ea_exclusion_reason a) = [] then Inl DiscardedWithoutReason
             else Inr a)
          else if py_strip (ea_exclusion_reason a) \<noteq> [] then Inl CountedWithExclusionReason
          else Inr a)"

record GraderRow = kernel_row +
  gr_attempt_id :: nat
  gr_grader_id :: string
  gr_grader_version :: string
  gr_grader_kind :: GraderKind
  gr_grader_family :: string
  gr_subject_family :: string
  gr_result :: ResultState
  gr_criticality :: Criticality
  gr_reason :: string
  gr_evidence_ref :: string
  gr_evidence_sha256 :: "string option"
  gr_error_detail :: string
  gr_judge_model_id :: string
  gr_rubric_id :: string
  gr_rubric_version :: string
  gr_rubric_sha256 :: "string option"
  gr_adjudicator_identity :: string
  gr_adjudicator_family :: string
  gr_adjudicated_at :: "py_datetime option"

text \<open>
  \<^verbatim>\<open>GraderResult.validate\<close>. The field \<open>gr_adjudicated_at\<close> is typed here, so the check that it is a
  datetime has no counterpart.
\<close>

definition grader_row_validate :: "GraderRow \<Rightarrow> domain_error + GraderRow" where
  "grader_row_validate g =
     (let adjudicator_named = (py_strip (gr_adjudicator_identity g) \<noteq> []);
          graded = (gr_result g \<in> {PASS, FAIL});
          has_ref = (py_strip (gr_evidence_ref g) \<noteq> []);
          has_digest = (gr_evidence_sha256 g \<noteq> None)
      in case require_tenant (tenant_id g) of
        Inl e \<Rightarrow> Inl e
      | Inr _ \<Rightarrow>
          if gr_grader_family g \<noteq> [] \<and> gr_grader_family g = gr_subject_family g
             \<and> gr_grader_kind g \<noteq> SEMANTIC then Inl GraderFamilyIsSubjectFamily
          else if gr_adjudicator_identity g \<noteq> [] \<and> gr_adjudicator_family g = gr_subject_family g
          then Inl AdjudicatorFamilyIsSubjectFamily
          else if gr_grader_kind g = SEMANTIC
             \<and> \<not> (py_strip (gr_judge_model_id g) \<noteq> [] \<and> py_strip (gr_rubric_id g) \<noteq> []
                  \<and> py_strip (gr_rubric_version g) \<noteq> [] \<and> gr_rubric_sha256 g \<notin> {None, Some []})
          then Inl SemanticNeedsJudgeAndRubric
          else if gr_grader_kind g = SEMANTIC \<and> gr_criticality g \<noteq> ADVISORY
          then Inl SemanticMustBeAdvisory
          else if gr_result g = ERROR \<and> py_strip (gr_error_detail g) = [] then Inl ErrorNeedsDetail
          else if adjudicator_named \<and> gr_adjudicated_at g = None then Inl AdjudicatorNeedsTime
          else if \<not> adjudicator_named \<and> gr_adjudicated_at g \<noteq> None then Inl TimeNeedsAdjudicator
          else if py_strip (gr_reason g) = [] then Inl GradeNeedsReason
          else if graded \<and> \<not> (has_ref \<and> has_digest) then Inl GradeNeedsEvidence
          else if has_ref \<noteq> has_digest then Inl EvidenceHalfBound
          else if (case gr_evidence_sha256 g of None \<Rightarrow> False | Some d \<Rightarrow> \<not> is_hex64 d)
          then Inl EvidenceDigestMalformed
          else Inr g)"

record EvalQualification = kernel_row +
  eq_run_id :: nat
  eq_suite_id :: string
  eq_suite_version :: string
  eq_target_fingerprint :: string
  eq_state :: QualificationState
  eq_gate_mode :: GateMode
  eq_inconclusive_policy :: InconclusivePolicy
  eq_case_results :: json
  eq_aggregate_metrics :: json
  eq_critical_failure_count :: int
  eq_error_count :: int
  eq_inconclusive_count :: int
  eq_forbidden_effect_count :: int
  eq_baseline_qualification_id :: "nat option"
  eq_reviewer_identity :: string
  eq_reviewer_family :: string
  eq_subject_family :: string
  eq_receipt_ref :: string
  eq_receipt_sha256 :: "string option"
  eq_snapshot_sha256 :: string
  eq_expires_at :: "py_datetime option"
  eq_invalidated_at :: "py_datetime option"
  eq_invalidation_reason :: string
  eq_created_at :: py_datetime
  eq_decided_at :: "py_datetime option"

definition qualification_transition ::
    "EvalQualification \<Rightarrow> QualificationState \<Rightarrow> py_datetime \<Rightarrow> string \<Rightarrow> domain_error + EvalQualification"
  where
  "qualification_transition q target moment reason =
     (case assert_qualification_transition (eq_state q) target of
        Inl e \<Rightarrow> Inl e
      | Inr _ \<Rightarrow>
          if target \<in> QUALIFYING_STATES
             \<and> (eq_critical_failure_count q \<noteq> 0 \<or> eq_error_count q \<noteq> 0 \<or> eq_forbidden_effect_count q \<noteq> 0)
          then Inl RefusedByCounters
          else if target \<in> QUALIFYING_STATES \<and> eq_inconclusive_count q \<noteq> 0
             \<and> \<not> (eq_inconclusive_policy q = Policy_REVIEW \<and> eq_reviewer_identity q \<noteq> [])
          then Inl RefusedInconclusive
          else if target \<in> QUALIFYING_STATES \<and> target = QUALIFIED \<and> eq_gate_mode q = Gate_ADVISORY
          then Inl AdvisoryGateCannotQualify
          else if target \<in> {STALE, EXPIRED} \<and> py_strip reason = [] then Inl InvalidationNeedsReason
          else
            (let q1 = (if target \<in> {STALE, EXPIRED}
                       then q\<lparr>eq_invalidated_at := Some moment, eq_invalidation_reason := reason\<rparr>
                       else q);
                 q2 = q1\<lparr>eq_state := target\<rparr>;
                 q3 = (if target \<noteq> PENDING then q2\<lparr>eq_decided_at := Some moment\<rparr> else q2)
             in Inr q3))"

record EvalWaiver = kernel_row +
  ew_qualification_id :: nat
  ew_target_fingerprint :: string
  ew_failed_suite_id :: string
  ew_failed_case_id :: string
  ew_failed_grader_id :: string
  ew_founder_approval_id :: nat
  ew_approver_identity :: string
  ew_rationale :: string
  ew_evidence_ref :: string
  ew_evidence_sha256 :: string
  ew_expires_at :: "py_datetime option"
  ew_release_bound_to :: string
  ew_created_at :: py_datetime

definition waiver_validate :: "EvalWaiver \<Rightarrow> domain_error + EvalWaiver" where
  "waiver_validate w =
     (case require_tenant (tenant_id w) of
        Inl e \<Rightarrow> Inl e
      | Inr _ \<Rightarrow>
          if \<not> (ew_failed_suite_id w \<noteq> [] \<and> ew_failed_case_id w \<noteq> [] \<and> ew_failed_grader_id w \<noteq> [])
          then Inl WaiverNeedsOneRequirement
          else if \<not> (py_strip (ew_approver_identity w) \<noteq> [] \<and> py_strip (ew_rationale w) \<noteq> []
                    \<and> py_strip (ew_evidence_ref w) \<noteq> []) then Inl WaiverNeedsApproval
          else if ew_expires_at w = None \<and> py_strip (ew_release_bound_to w) = [] then Inl WaiverUnbounded
          else Inr w)"

record SuitePolicy =
  sp_gate_mode :: GateMode
  sp_inconclusive_policy :: InconclusivePolicy
  sp_noncritical_pass_threshold :: rat

fun assert_no_discarded_failures :: "EvalCaseAttempt list \<Rightarrow> domain_error + unit" where
  "assert_no_discarded_failures [] = Inr ()"
| "assert_no_discarded_failures (a # as) =
     (case attempt_validate a of Inl e \<Rightarrow> Inl e | Inr _ \<Rightarrow> assert_no_discarded_failures as)"

section \<open>The database constraints the module mirrors\<close>

text \<open>The trigger \<^verbatim>\<open>kernel_eval_guard_run_transition\<close>, its two guards on the states.\<close>

definition ddl_run_legal :: "EvalRunState \<Rightarrow> EvalRunState \<Rightarrow> bool" where
  "ddl_run_legal old new \<longleftrightarrow>
     \<not> (old \<in> {Run_COMPLETED, Run_CANCELLED, Run_ERROR} \<and> new \<noteq> old)
     \<and> (new = old
        \<or> (old \<notin> {Run_COMPLETED, Run_CANCELLED, Run_ERROR} \<and> new \<in> {Run_CANCELLED, Run_ERROR})
        \<or> (old = Run_CREATED \<and> new \<in> {Run_TARGET_FROZEN, Run_BLOCKED})
        \<or> (old = Run_TARGET_FROZEN \<and> new \<in> {Run_READY, Run_BLOCKED})
        \<or> (old = Run_READY \<and> new \<in> {Run_RUNNING, Run_BLOCKED})
        \<or> (old = Run_RUNNING \<and> new \<in> {Run_GRADING, Run_BLOCKED})
        \<or> (old = Run_GRADING \<and> new \<in> {Run_REVIEW_REQUIRED, Run_COMPLETED, Run_BLOCKED})
        \<or> (old = Run_REVIEW_REQUIRED \<and> new \<in> {Run_COMPLETED, Run_BLOCKED})
        \<or> (old = Run_BLOCKED \<and> new = Run_READY))"

text \<open>The \<open>legal\<close> test of \<^verbatim>\<open>kernel_eval_guard_qualification\<close>.\<close>

definition ddl_qualification_legal :: "QualificationState \<Rightarrow> QualificationState \<Rightarrow> bool" where
  "ddl_qualification_legal old new \<longleftrightarrow>
     new = old
     \<or> (old = PENDING \<and> new \<in> {ADVISORY_QUALIFIED, QUALIFIED, REJECTED, Qual_ERROR})
     \<or> (old \<in> {QUALIFIED, ADVISORY_QUALIFIED, WAIVED} \<and> new \<in> {STALE, EXPIRED})
     \<or> (old = REJECTED \<and> new \<in> {WAIVED, STALE})"

text \<open>The CHECKs of \<^verbatim>\<open>kernel_eval_runs\<close> on the lifecycle columns.\<close>

definition ddl_run_checks :: "EvalRun \<Rightarrow> bool" where
  "ddl_run_checks r \<longleftrightarrow>
     ((er_state r \<in> {Run_COMPLETED, Run_CANCELLED, Run_ERROR} \<and> er_ended_at r \<noteq> None)
      \<or> (er_state r \<notin> {Run_COMPLETED, Run_CANCELLED, Run_ERROR} \<and> er_ended_at r = None))
     \<and> (er_state r \<notin> {Run_RUNNING, Run_GRADING, Run_REVIEW_REQUIRED, Run_COMPLETED}
        \<or> er_started_at r \<noteq> None)"

text \<open>The CHECKs of \<^verbatim>\<open>kernel_eval_qualifications\<close> on the state, counters and times.\<close>

definition ddl_qualification_checks :: "EvalQualification \<Rightarrow> bool" where
  "ddl_qualification_checks q \<longleftrightarrow>
     (eq_state q \<notin> {QUALIFIED, ADVISORY_QUALIFIED}
        \<or> (eq_critical_failure_count q = 0 \<and> eq_error_count q = 0))
     \<and> (eq_state q \<notin> {QUALIFIED, ADVISORY_QUALIFIED} \<or> eq_inconclusive_count q = 0
        \<or> (eq_inconclusive_policy q = Policy_REVIEW \<and> eq_reviewer_identity q \<noteq> []))
     \<and> (eq_state q \<notin> {QUALIFIED, ADVISORY_QUALIFIED} \<or> eq_forbidden_effect_count q = 0)
     \<and> (eq_gate_mode q \<noteq> Gate_ADVISORY \<or> eq_state q \<noteq> QUALIFIED)
     \<and> ((eq_state q = PENDING \<and> eq_decided_at q = None)
        \<or> (eq_state q \<noteq> PENDING \<and> eq_decided_at q \<noteq> None))
     \<and> ((eq_state q \<in> {STALE, EXPIRED} \<and> eq_invalidated_at q \<noteq> None
           \<and> btrim_nonempty (eq_invalidation_reason q))
        \<or> (eq_state q \<notin> {STALE, EXPIRED} \<and> eq_invalidated_at q = None
           \<and> \<not> btrim_nonempty (eq_invalidation_reason q)))"

text \<open>The other CHECKs of the table, on the identity columns and the ranges of the counters.\<close>

definition ddl_qualification_identity :: "EvalQualification \<Rightarrow> bool" where
  "ddl_qualification_identity q \<longleftrightarrow> 1 \<le> schema_version q \<and> is_hex64 (eq_target_fingerprint q)
     \<and> 0 \<le> eq_critical_failure_count q \<and> 0 \<le> eq_error_count q
     \<and> 0 \<le> eq_inconclusive_count q \<and> 0 \<le> eq_forbidden_effect_count q
     \<and> (case eq_receipt_sha256 q of None \<Rightarrow> True | Some d \<Rightarrow> is_hex64 d)
     \<and> is_hex64 (eq_snapshot_sha256 q)
     \<and> btrim_nonempty (tenant_id q)
     \<and> btrim_nonempty (eq_suite_id q) \<and> btrim_nonempty (eq_suite_version q) \<and> btrim_nonempty (eq_subject_family q)
     \<and> eq_baseline_qualification_id q \<noteq> Some (row_id q)
     \<and> (eq_reviewer_identity q = [] \<or> eq_reviewer_family q \<noteq> eq_subject_family q)
     \<and> (eq_reviewer_identity q = []) = (eq_reviewer_family q = [])"

text \<open>The CHECKs of \<^verbatim>\<open>kernel_eval_grader_results\<close> beyond the column types.\<close>

definition ddl_grader_checks :: "GraderRow \<Rightarrow> bool" where
  "ddl_grader_checks g \<longleftrightarrow>
     (case gr_evidence_sha256 g of None \<Rightarrow> True | Some d \<Rightarrow> is_hex64 d)
     \<and> (case gr_rubric_sha256 g of None \<Rightarrow> True | Some d \<Rightarrow> is_hex64 d)
     \<and> btrim_nonempty (tenant_id g)
     \<and> btrim_nonempty (gr_grader_id g) \<and> btrim_nonempty (gr_grader_version g)
     \<and> btrim_nonempty (gr_reason g)
     \<and> (gr_result g \<in> {ERROR, INCONCLUSIVE}
        \<or> (btrim_nonempty (gr_evidence_ref g) \<and> gr_evidence_sha256 g \<noteq> None))
     \<and> ((\<not> btrim_nonempty (gr_evidence_ref g) \<and> gr_evidence_sha256 g = None)
        \<or> (btrim_nonempty (gr_evidence_ref g) \<and> gr_evidence_sha256 g \<noteq> None))
     \<and> (gr_grader_kind g = SEMANTIC \<or> gr_grader_family g \<noteq> gr_subject_family g)
     \<and> (\<not> btrim_nonempty (gr_adjudicator_identity g) \<or> gr_adjudicator_family g \<noteq> gr_subject_family g)
     \<and> ((\<not> btrim_nonempty (gr_adjudicator_identity g) \<and> gr_adjudicated_at g = None)
        \<or> (btrim_nonempty (gr_adjudicator_identity g) \<and> gr_adjudicated_at g \<noteq> None))
     \<and> (gr_grader_kind g \<noteq> SEMANTIC
        \<or> (btrim_nonempty (gr_judge_model_id g) \<and> btrim_nonempty (gr_rubric_id g)
           \<and> btrim_nonempty (gr_rubric_version g) \<and> gr_rubric_sha256 g \<noteq> None))
     \<and> (gr_grader_kind g \<noteq> SEMANTIC \<or> gr_criticality g = ADVISORY)
     \<and> (gr_result g \<noteq> ERROR \<or> btrim_nonempty (gr_error_detail g))"

section \<open>Lemmas\<close>

lemmas lifecycle_tables [table_simps] =
  RUN_ABORTS_def RUN_TERMINAL_STATES_def QUALIFYING_STATES_def QUALIFICATION_TERMINAL_STATES_def

lemma nonblank_btrim: "nonblank s \<Longrightarrow> btrim_nonempty s"
proof -
  have "list_all py_space s" if "list_all (\<lambda>c. c = CHR '' '') s"
    using that by (induction s) (simp_all add: py_space_def)
  then show "nonblank s \<Longrightarrow> btrim_nonempty s"
    by (auto simp: nonblank_iff btrim_nonempty_def)
qed

interpretation run_life: lifecycle RUN_TRANSITIONS RUN_TERMINAL_STATES
  by unfold_locales (auto simp: RUN_TERMINAL_STATES_def)

interpretation qualification_life: lifecycle QUALIFICATION_TRANSITIONS QUALIFICATION_TERMINAL_STATES
  by unfold_locales (auto simp: QUALIFICATION_TERMINAL_STATES_def)

lemma assert_run_iff: "assert_run_transition a b = Inr () \<longleftrightarrow> a = b \<or> b \<in> RUN_TRANSITIONS a"
  by (auto simp: assert_run_transition_def)

lemma assert_qualification_iff:
  "assert_qualification_transition a b = Inr () \<longleftrightarrow> a = b \<or> b \<in> QUALIFICATION_TRANSITIONS a"
  by (auto simp: assert_qualification_transition_def)

lemma run_transition_Inr:
  "run_transition r target moment = Inr r' \<longleftrightarrow>
     (er_state r = target \<or> target \<in> RUN_TRANSITIONS (er_state r))
     \<and> r' = r\<lparr>er_state := target,
          er_started_at := (if target = Run_RUNNING \<and> er_started_at r = None
                            then Some moment else er_started_at r),
          er_ended_at := (if target \<in> RUN_TERMINAL_STATES then Some moment else er_ended_at r)\<rparr>"
  by (auto simp: run_transition_def assert_run_transition_def)

lemma run_transition_checks:
  assumes "ddl_run_checks r" and "run_transition r target moment = Inr r'"
  shows "ddl_run_checks r'"
  using assms
  by (cases "er_state r"; cases target)
    (auto simp: run_transition_Inr ddl_run_checks_def RUN_TERMINAL_STATES_def RUN_ABORTS_def)

lemma attempt_validate_same: "attempt_validate a = Inr b \<Longrightarrow> b = a"
  by (auto simp: attempt_validate_def split: sum.splits if_splits)

lemma attempt_validate_counted:
  "attempt_validate a = Inr b \<Longrightarrow>
     (ea_counted_in_aggregate a \<and> \<not> nonblank (ea_exclusion_reason a))
     \<or> (ea_result a = ERROR \<and> nonblank (ea_exclusion_reason a))"
  by (auto simp: attempt_validate_def py_simps split: sum.splits if_splits)

lemma no_discarded_all:
  "assert_no_discarded_failures as = Inr () \<longleftrightarrow> (\<forall>a \<in> set as. attempt_validate a = Inr a)"
  by (induction as) (auto split: sum.splits dest: attempt_validate_same)

lemma qualification_transition_Inr:
  "qualification_transition q target moment reason = Inr q' \<Longrightarrow>
     (eq_state q = target \<or> target \<in> QUALIFICATION_TRANSITIONS (eq_state q))
     \<and> (target \<in> QUALIFYING_STATES \<longrightarrow>
          eq_critical_failure_count q = 0 \<and> eq_error_count q = 0 \<and> eq_forbidden_effect_count q = 0
          \<and> (eq_inconclusive_count q = 0
             \<or> (eq_inconclusive_policy q = Policy_REVIEW \<and> eq_reviewer_identity q \<noteq> []))
          \<and> \<not> (target = QUALIFIED \<and> eq_gate_mode q = Gate_ADVISORY))
     \<and> (target \<in> {STALE, EXPIRED} \<longrightarrow> nonblank reason)
     \<and> q' = q\<lparr>eq_invalidated_at := (if target \<in> {STALE, EXPIRED} then Some moment else eq_invalidated_at q),
          eq_invalidation_reason := (if target \<in> {STALE, EXPIRED} then reason else eq_invalidation_reason q),
          eq_state := target,
          eq_decided_at := (if target \<noteq> PENDING then Some moment else eq_decided_at q)\<rparr>"
  by (cases target)
    (simp_all add: qualification_transition_def assert_qualification_transition_def py_simps Let_def
      QUALIFYING_STATES_def split: if_split_asm)

lemma qualification_transition_checks:
  assumes "ddl_qualification_checks q" and "qualification_transition q target moment reason = Inr q'"
  shows "ddl_qualification_checks q'"
  using assms(1) qualification_transition_Inr [OF assms(2)]
  by (cases "eq_state q"; cases target)
    (auto simp: ddl_qualification_checks_def QUALIFYING_STATES_def dest: nonblank_btrim)

section \<open>Properties\<close>

text \<open>
  Driving an evaluation run through any sequence of transitions that the in-process guard
  accepts keeps the lifecycle CHECKs of its table: a terminal run has an end time, a
  non-terminal one has none, and a run that reached execution has a start time.
\<close>

theorem run_transitions_keep_checks:
  assumes "ddl_run_checks r"
    and "fold_res (\<lambda>r (target, moment). run_transition r target moment) r ts = Inr r'"
  shows "ddl_run_checks r'"
  by (rule fold_res_invariant [where I = ddl_run_checks, OF _ assms])
    (auto intro: run_transition_checks)

definition sample_run :: EvalRun where
  "sample_run = \<lparr>tenant_id = ''t'', row_id = 1, schema_version = 1, er_suite_id = ''s'',
     er_suite_version = ''1'', er_suite_manifest_sha256 = '''', er_target_fingerprint = '''',
     er_environment = ''e'', er_execution_mode = DENY_EFFECTS, er_state = Run_CREATED,
     er_actor_identity = ''a'', er_actor_family = ''f'', er_attempt_policy = JObj [],
     er_recovered_from_run_id = None, er_spend_microusd = 0, er_latency_ms = 0,
     er_provider_error_count = 0, er_tool_error_count = 0, er_evidence_ref = '''',
     er_evidence_sha256 = None, er_created_at = Aware 0, er_started_at = None,
     er_heartbeat_at = None, er_ended_at = None\<rparr>"

theorem run_transitions_keep_checks_witness:
  "ddl_run_checks (sample_run\<lparr>er_state := Run_COMPLETED, er_started_at := Some (Aware 3),
     er_ended_at := Some (Aware 5)\<rparr>)"
proof (rule run_transitions_keep_checks)
  show "ddl_run_checks sample_run"
    by (simp add: ddl_run_checks_def sample_run_def)
  show "fold_res (\<lambda>r (target, moment). run_transition r target moment) sample_run
      [(Run_TARGET_FROZEN, Aware 1), (Run_READY, Aware 2), (Run_RUNNING, Aware 3),
       (Run_GRADING, Aware 4), (Run_COMPLETED, Aware 5)]
    = Inr (sample_run\<lparr>er_state := Run_COMPLETED, er_started_at := Some (Aware 3),
        er_ended_at := Some (Aware 5)\<rparr>)"
    by (simp add: sample_run_def run_transition_def assert_run_transition_def Let_def table_simps)
qed

text \<open>
  The in-process transition guards and the database triggers accept the same pairs of
  states, for runs and for qualifications.
\<close>

theorem guards_agree_with_ddl:
  "(assert_run_transition a b = Inr () \<longleftrightarrow> ddl_run_legal a b)
   \<and> (assert_qualification_transition c d = Inr () \<longleftrightarrow> ddl_qualification_legal c d)"
proof
  show "assert_run_transition a b = Inr () \<longleftrightarrow> ddl_run_legal a b"
    by (cases a; cases b) (simp_all add: assert_run_iff ddl_run_legal_def table_simps)
  show "assert_qualification_transition c d = Inr () \<longleftrightarrow> ddl_qualification_legal c d"
    by (cases c; cases d) (simp_all add: assert_qualification_iff ddl_qualification_legal_def)
qed

text \<open>
  Any sequence of accepted qualification transitions keeps the CHECKs of the
  qualification table: a qualifying state carries no critical failure, error, forbidden effect or
  unreviewed inconclusive case, an advisory gate never qualifies, the decision time matches
  the state, and an invalidated row carries its time and reason.
\<close>

theorem qualification_transitions_keep_checks:
  assumes "ddl_qualification_checks q"
    and "fold_res (\<lambda>q (target, moment, reason). qualification_transition q target moment reason)
           q ts = Inr q'"
  shows "ddl_qualification_checks q'"
  by (rule fold_res_invariant [where I = ddl_qualification_checks, OF _ assms])
    (auto intro: qualification_transition_checks)

definition sample_qualification :: EvalQualification where
  "sample_qualification = \<lparr>tenant_id = ''t'', row_id = 1, schema_version = 1, eq_run_id = 2,
     eq_suite_id = ''s'', eq_suite_version = ''1'', eq_target_fingerprint = '''', eq_state = PENDING,
     eq_gate_mode = Gate_BLOCKING, eq_inconclusive_policy = Policy_BLOCK,
     eq_case_results = JObj [], eq_aggregate_metrics = JObj [],
     eq_critical_failure_count = 0, eq_error_count = 0, eq_inconclusive_count = 0,
     eq_forbidden_effect_count = 0, eq_baseline_qualification_id = None,
     eq_reviewer_identity = ''rev'', eq_reviewer_family = ''openai'', eq_subject_family = ''anthropic'',
     eq_receipt_ref = '''', eq_receipt_sha256 = None, eq_snapshot_sha256 = '''',
     eq_expires_at = Some (Aware 100), eq_invalidated_at = None, eq_invalidation_reason = '''',
     eq_created_at = Aware 0, eq_decided_at = None\<rparr>"

theorem qualification_transitions_keep_checks_witness:
  "ddl_qualification_checks (sample_qualification\<lparr>eq_state := STALE, eq_decided_at := Some (Aware 9),
     eq_invalidated_at := Some (Aware 9), eq_invalidation_reason := ''target changed''\<rparr>)"
proof (rule qualification_transitions_keep_checks)
  show "ddl_qualification_checks sample_qualification"
    by (simp add: ddl_qualification_checks_def sample_qualification_def btrim_nonempty_def)
  show "fold_res (\<lambda>q (target, moment, reason). qualification_transition q target moment reason)
      sample_qualification [(QUALIFIED, Aware 4, ''''), (STALE, Aware 9, ''target changed'')]
    = Inr (sample_qualification\<lparr>eq_state := STALE, eq_decided_at := Some (Aware 9),
        eq_invalidated_at := Some (Aware 9), eq_invalidation_reason := ''target changed''\<rparr>)"
    by (simp add: sample_qualification_def qualification_transition_def py_simps py_space_def
        assert_qualification_transition_def Let_def table_simps)
qed

text \<open>
  No failure is discarded. When the check over the retained attempts passes, every
  attempt is either counted in the aggregate without an exclusion reason, or is an
  infrastructure ERROR that states the reason for its exclusion; a PASS, FAIL or INCONCLUSIVE
  attempt is therefore always counted.
\<close>

theorem no_failure_discarded:
  assumes "assert_no_discarded_failures as = Inr ()" and "a \<in> set as"
  shows "if ea_counted_in_aggregate a then \<not> nonblank (ea_exclusion_reason a)
         else ea_result a = ERROR \<and> nonblank (ea_exclusion_reason a)"
proof -
  have "attempt_validate a = Inr a" using assms by (simp add: no_discarded_all)
  then show ?thesis
    by (auto simp: attempt_validate_def py_simps split: sum.splits if_splits)
qed

definition sample_attempt :: EvalCaseAttempt where
  "sample_attempt = \<lparr>tenant_id = ''t'', row_id = 1, schema_version = 1, ea_run_id = 2,
     ea_case_id = ''c'', ea_case_version = ''1'', ea_case_manifest_sha256 = '''',
     ea_attempt_number = 1, ea_sampling_config = JObj [], ea_input_sha256 = '''',
     ea_fixture_sha256 = '''', ea_trajectory_ref = '''', ea_trajectory_sha256 = '''',
     ea_final_output_ref = '''', ea_forbidden_effect_attempts = 0, ea_result = ERROR,
     ea_counted_in_aggregate = False, ea_exclusion_reason = ''provider outage'',
     ea_retry_of_attempt_id = None, ea_cost_microusd = 0, ea_latency_ms = 0,
     ea_started_at = Aware 0, ea_ended_at = Aware 1, ea_recorded_at = Aware 1\<rparr>"

theorem no_failure_discarded_witness:
  "nonblank (ea_exclusion_reason sample_attempt)"
  using no_failure_discarded [of "[sample_attempt]" sample_attempt]
  by (simp add: sample_attempt_def attempt_validate_def require_tenant_def py_simps py_space_def)

text \<open>
  A run completes only after it executed and was graded: every accepted sequence of
  states from CREATED that reaches COMPLETED also visits RUNNING and GRADING. A qualification
  becomes WAIVED only after it was REJECTED. Terminal states are never left.
\<close>

theorem lifecycle_order:
  assumes "lifecycle_run RUN_TRANSITIONS Run_CREATED ts"
    and "lifecycle_run QUALIFICATION_TRANSITIONS PENDING us"
  shows "(Run_COMPLETED \<in> set ts \<longrightarrow> Run_RUNNING \<in> set ts \<and> Run_GRADING \<in> set ts)
    \<and> (WAIVED \<in> set us \<longrightarrow> REJECTED \<in> set us)
    \<and> (\<forall>s \<in> RUN_TERMINAL_STATES. \<forall>vs. lifecycle_run RUN_TRANSITIONS s vs \<longrightarrow> set vs \<subseteq> {s})"
proof (intro conjI impI ballI allI subsetI)
  have grading: "Run_GRADING \<in> set ts" if "Run_REVIEW_REQUIRED \<in> set ts"
  proof -
    from run_life.enters_by_edge [OF assms(1) that] obtain p
      where p: "p \<in> set (Run_CREATED # ts)" "Run_REVIEW_REQUIRED \<in> RUN_TRANSITIONS p" by blast
    from p(2) have "p = Run_GRADING" by (cases p) (simp_all add: table_simps)
    with p(1) show ?thesis by simp
  qed
  show grading': "Run_GRADING \<in> set ts" if "Run_COMPLETED \<in> set ts"
  proof -
    from run_life.enters_by_edge [OF assms(1) that] obtain p
      where p: "p \<in> set (Run_CREATED # ts)" "Run_COMPLETED \<in> RUN_TRANSITIONS p" by blast
    from p(2) have "p = Run_GRADING \<or> p = Run_REVIEW_REQUIRED"
      by (cases p) (simp_all add: table_simps)
    with p(1) grading show ?thesis by auto
  qed
  show "Run_RUNNING \<in> set ts" if "Run_COMPLETED \<in> set ts"
  proof -
    from run_life.enters_by_edge [OF assms(1) grading' [OF that]] obtain p
      where p: "p \<in> set (Run_CREATED # ts)" "Run_GRADING \<in> RUN_TRANSITIONS p" by blast
    from p(2) have "p = Run_RUNNING" by (cases p) (simp_all add: table_simps)
    with p(1) show ?thesis by simp
  qed
  show "REJECTED \<in> set us" if "WAIVED \<in> set us"
  proof -
    from qualification_life.enters_by_edge [OF assms(2) that] obtain p
      where p: "p \<in> set (PENDING # us)" "WAIVED \<in> QUALIFICATION_TRANSITIONS p" by blast
    from p(2) have "p = REJECTED" by (cases p) simp_all
    with p(1) show ?thesis by simp
  qed
  show "x \<in> {s}" if "s \<in> RUN_TERMINAL_STATES" "lifecycle_run RUN_TRANSITIONS s vs" "x \<in> set vs"
    for s vs x using run_life.terminal_absorbs that by auto
qed

theorem lifecycle_order_witness:
  "Run_GRADING \<in> set [Run_TARGET_FROZEN, Run_READY, Run_RUNNING, Run_GRADING, Run_COMPLETED]"
  using lifecycle_order [of
      "[Run_TARGET_FROZEN, Run_READY, Run_RUNNING, Run_GRADING, Run_COMPLETED]" "[REJECTED, WAIVED]"]
  by simp

text \<open>
  A grader row that the in-process check accepts satisfies every CHECK of its table,
  provided its id and version are not blank, its family is named, its rubric digest (if any)
  is a sha256 digest, and its evidence reference and adjudicator are not made of whitespace
  other than spaces.
\<close>

theorem accepted_grader_row_recordable:
  assumes "grader_row_validate g = Inr g"
    and "nonblank (gr_grader_id g)" and "nonblank (gr_grader_version g)"
    and "gr_grader_family g \<noteq> []"
    and "\<forall>d. gr_rubric_sha256 g = Some d \<longrightarrow> is_hex64 d"
    and "btrim_nonempty (gr_evidence_ref g) \<longrightarrow> nonblank (gr_evidence_ref g)"
    and "btrim_nonempty (gr_adjudicator_identity g) \<longrightarrow> nonblank (gr_adjudicator_identity g)"
  shows "ddl_grader_checks g"
proof -
  have tenant: "require_tenant (tenant_id g) = Inr ()"
    using assms(1) by (cases "require_tenant (tenant_id g)") (simp_all add: grader_row_validate_def)
  then have tnb: "nonblank (tenant_id g)" by (simp add: require_tenant_def py_simps split: if_split_asm)
  note c = assms(1) [unfolded grader_row_validate_def Let_def tenant sum.case guard_Inr py_strip_blank]
  have ref: "btrim_nonempty (gr_evidence_ref g) \<longleftrightarrow> nonblank (gr_evidence_ref g)"
    "btrim_nonempty (gr_adjudicator_identity g) \<longleftrightarrow> nonblank (gr_adjudicator_identity g)"
    using assms(6,7) nonblank_btrim by blast+
  have adj: "gr_adjudicator_family g \<noteq> gr_subject_family g" if "nonblank (gr_adjudicator_identity g)"
    using c nonblank_imp_ne [OF that] by blast
  have ev: "nonblank (gr_evidence_ref g) \<longleftrightarrow> gr_evidence_sha256 g \<noteq> None" using c by blast
  from c have "\<not> (\<not> \<not> nonblank (gr_adjudicator_identity g) \<and> gr_adjudicated_at g = None)"
    by (elim conjE)
  moreover from c have "\<not> (\<not> \<not> \<not> nonblank (gr_adjudicator_identity g) \<and> gr_adjudicated_at g \<noteq> None)"
    by (elim conjE)
  ultimately have adjt: "nonblank (gr_adjudicator_identity g) \<longleftrightarrow> gr_adjudicated_at g \<noteq> None" by auto
  from c have "\<not> (gr_grader_kind g = SEMANTIC \<and>
      \<not> (\<not> \<not> nonblank (gr_judge_model_id g) \<and> \<not> \<not> nonblank (gr_rubric_id g) \<and>
         \<not> \<not> nonblank (gr_rubric_version g) \<and> gr_rubric_sha256 g \<notin> {None, Some []}))"
    by (elim conjE)
  then have sem: "gr_grader_kind g \<noteq> SEMANTIC \<or> nonblank (gr_judge_model_id g) \<and> nonblank (gr_rubric_id g)
      \<and> nonblank (gr_rubric_version g) \<and> gr_rubric_sha256 g \<noteq> None" by simp
  show ?thesis
    unfolding ddl_grader_checks_def ref
  proof (intro conjI)
    show "case gr_evidence_sha256 g of None \<Rightarrow> True | Some d \<Rightarrow> is_hex64 d"
      using c by (cases "gr_evidence_sha256 g") simp_all
    show "case gr_rubric_sha256 g of None \<Rightarrow> True | Some d \<Rightarrow> is_hex64 d"
      using assms(5) by (cases "gr_rubric_sha256 g") simp_all
    show "btrim_nonempty (tenant_id g)" "btrim_nonempty (gr_grader_id g)"
      "btrim_nonempty (gr_grader_version g)" "btrim_nonempty (gr_reason g)"
      using tnb assms(2,3) c nonblank_btrim by blast+
    show "gr_result g \<in> {ERROR, INCONCLUSIVE} \<or> nonblank (gr_evidence_ref g) \<and> gr_evidence_sha256 g \<noteq> None"
      using c by (cases "gr_result g") blast+
    show "\<not> nonblank (gr_evidence_ref g) \<and> gr_evidence_sha256 g = None
        \<or> nonblank (gr_evidence_ref g) \<and> gr_evidence_sha256 g \<noteq> None"
      using ev by blast
    show "gr_grader_kind g = SEMANTIC \<or> gr_grader_family g \<noteq> gr_subject_family g"
      using c assms(4) by blast
    show "\<not> nonblank (gr_adjudicator_identity g) \<or> gr_adjudicator_family g \<noteq> gr_subject_family g"
      using adj by blast
    show "\<not> nonblank (gr_adjudicator_identity g) \<and> gr_adjudicated_at g = None
        \<or> nonblank (gr_adjudicator_identity g) \<and> gr_adjudicated_at g \<noteq> None"
      using adjt by auto
    show "gr_grader_kind g \<noteq> SEMANTIC
        \<or> (btrim_nonempty (gr_judge_model_id g) \<and> btrim_nonempty (gr_rubric_id g)
           \<and> btrim_nonempty (gr_rubric_version g) \<and> gr_rubric_sha256 g \<noteq> None)"
      using sem nonblank_btrim by blast
    show "gr_grader_kind g \<noteq> SEMANTIC \<or> gr_criticality g = ADVISORY" using c by blast
    show "gr_result g \<noteq> ERROR \<or> btrim_nonempty (gr_error_detail g)"
      using c nonblank_btrim [of "gr_error_detail g"] by blast
  qed
qed

definition sample_grader_row :: GraderRow where
  "sample_grader_row = \<lparr>tenant_id = ''t'', row_id = 1, schema_version = 1, gr_attempt_id = 2,
     gr_grader_id = ''g'', gr_grader_version = ''1'', gr_grader_kind = OUTCOME,
     gr_grader_family = ''deterministic'', gr_subject_family = ''anthropic'', gr_result = INCONCLUSIVE,
     gr_criticality = CRITICAL, gr_reason = ''no data'', gr_evidence_ref = '''',
     gr_evidence_sha256 = None, gr_error_detail = '''', gr_judge_model_id = '''', gr_rubric_id = '''',
     gr_rubric_version = '''', gr_rubric_sha256 = None, gr_adjudicator_identity = '''',
     gr_adjudicator_family = '''', gr_adjudicated_at = None\<rparr>"

theorem accepted_grader_row_recordable_witness: "ddl_grader_checks sample_grader_row"
  by (rule accepted_grader_row_recordable)
    (simp_all add: sample_grader_row_def grader_row_validate_def require_tenant_def py_simps
      py_space_def btrim_nonempty_def)

text \<open>
  The two layers read whitespace differently: a row whose adjudicator is a single tab is
  accepted in process, where \<^verbatim>\<open>strip\<close> leaves nothing, and refused by the table, where \<^verbatim>\<open>btrim\<close>
  leaves the tab; without the tab the same row is recordable.
\<close>

theorem tab_adjudicator_accepted_but_unrecordable:
  "\<exists>g. grader_row_validate g = Inr g \<and> gr_adjudicator_identity g = [CHR 0x09]
     \<and> \<not> ddl_grader_checks g \<and> ddl_grader_checks (g\<lparr>gr_adjudicator_identity := []\<rparr>)"
  by (rule exI [of _ "sample_grader_row\<lparr>gr_adjudicator_identity := [CHR 0x09]\<rparr>"])
    (simp add: sample_grader_row_def grader_row_validate_def require_tenant_def py_simps
      py_space_def btrim_nonempty_def ddl_grader_checks_def)

end
