(* ===== verification/Py_Regex.thy ===== *)
theory Py_Regex
  imports Prelude
begin

text \<open>
  The part of Python's \<^verbatim>\<open>re\<close> that the sources use: a pattern is tried at a position of the text
  and yields its matches in the order in which the backtracking engine tries them, so that the
  first one is the match that \<open>re\<close> reports. A position is the character before it (if any)
  and the rest of the text; \<open>LookAt\<close> is a test of the two characters around the position, which is
  what the look-arounds of the sources are.
\<close>

type_synonym re_pos = "char option \<times> string"

datatype regex =
    Cls "char \<Rightarrow> bool"
  | Eps
  | Seq regex regex
  | Alt regex regex
  | Star regex
  | WordB
  | LookAt "char option \<Rightarrow> char option \<Rightarrow> bool"

definition chr_in :: "string \<Rightarrow> char \<Rightarrow> bool" where
  "chr_in cs c \<longleftrightarrow> c \<in> set cs"

definition chr_range :: "char \<Rightarrow> char \<Rightarrow> char \<Rightarrow> bool" where
  "chr_range a b c \<longleftrightarrow> (of_char a :: nat) \<le> of_char c \<and> (of_char c :: nat) \<le> of_char b"

definition chr_digit :: "char \<Rightarrow> bool" where
  "chr_digit = chr_range (CHR ''0'') (CHR ''9'')"

definition chr_lower :: "char \<Rightarrow> bool" where
  "chr_lower = chr_range (CHR ''a'') (CHR ''z'')"

definition chr_upper :: "char \<Rightarrow> bool" where
  "chr_upper = chr_range (CHR ''A'') (CHR ''Z'')"

definition chr_alnum :: "char \<Rightarrow> bool" where
  "chr_alnum c \<longleftrightarrow> chr_digit c \<or> chr_lower c \<or> chr_upper c"

text \<open>\<open>\w\<close> of a \<open>str\<close> pattern on code points below 256.\<close>

definition chr_word :: "char \<Rightarrow> bool" where
  "chr_word c \<longleftrightarrow> chr_alnum c \<or> c = CHR ''_''
     \<or> (let n = (of_char c :: nat) in n \<in> {170, 178, 179, 181, 185, 186, 188, 189, 190}
          \<or> (192 \<le> n \<and> n \<noteq> 215 \<and> n \<noteq> 247))"

definition word_at :: "char option \<Rightarrow> bool" where
  "word_at oc = (case oc of None \<Rightarrow> False | Some c \<Rightarrow> chr_word c)"

definition str_head :: "string \<Rightarrow> char option" where
  "str_head s = (case s of [] \<Rightarrow> None | c # _ \<Rightarrow> Some c)"

text \<open>Greedy repetition; an iteration that consumes nothing ends it. The fuel is the rest's length.\<close>

fun star_matches :: "(re_pos \<Rightarrow> re_pos list) \<Rightarrow> nat \<Rightarrow> re_pos \<Rightarrow> re_pos list" where
  "star_matches f 0 p = [p]"
| "star_matches f (Suc n) p =
     concat (map (\<lambda>q. if length (snd q) < length (snd p) then star_matches f n q else []) (f p)) @ [p]"

fun re_matches :: "regex \<Rightarrow> re_pos \<Rightarrow> re_pos list" where
  "re_matches (Cls f) (b, []) = []"
| "re_matches (Cls f) (b, c # s) = (if f c then [(Some c, s)] else [])"
| "re_matches Eps p = [p]"
| "re_matches (Seq r t) p = concat (map (re_matches t) (re_matches r p))"
| "re_matches (Alt r t) p = re_matches r p @ re_matches t p"
| "re_matches (Star r) p = star_matches (re_matches r) (length (snd p)) p"
| "re_matches WordB (b, s) = (if word_at b \<noteq> word_at (str_head s) then [(b, s)] else [])"
| "re_matches (LookAt f) (b, s) = (if f b (str_head s) then [(b, s)] else [])"

definition re_lit :: "string \<Rightarrow> regex" where
  "re_lit s = foldr (\<lambda>c r. Seq (Cls (\<lambda>x. x = c)) r) s Eps"

text \<open>A literal under \<open>(?i)\<close>; the literals of the sources are ASCII.\<close>

definition re_ilit :: "string \<Rightarrow> regex" where
  "re_ilit s = foldr (\<lambda>c r. Seq (Cls (\<lambda>x. ascii_lower [x] = ascii_lower [c])) r) s Eps"

definition re_opt :: "regex \<Rightarrow> regex" where
  "re_opt r = Alt r Eps"

definition re_times :: "nat \<Rightarrow> regex \<Rightarrow> regex" where
  "re_times n r = (Seq r ^^ n) Eps"

definition re_at_least :: "nat \<Rightarrow> regex \<Rightarrow> regex" where
  "re_at_least n r = Seq (re_times n r) (Star r)"

definition re_seq :: "regex list \<Rightarrow> regex" where
  "re_seq rs = foldr Seq rs Eps"

fun re_alt :: "regex list \<Rightarrow> regex" where
  "re_alt [] = Cls (\<lambda>_. False)"
| "re_alt [r] = r"
| "re_alt (r # s # rs) = Alt r (re_alt (s # rs))"

text \<open>\<open>pattern.sub(repl, text)\<close>, with the fuel covering every character of the text.\<close>

fun re_sub_from :: "nat \<Rightarrow> regex \<Rightarrow> string \<Rightarrow> re_pos \<Rightarrow> string" where
  "re_sub_from 0 r repl p = snd p"
| "re_sub_from (Suc n) r repl (b, s) =
     (case re_matches r (b, s) of
        [] \<Rightarrow> (case s of [] \<Rightarrow> [] | c # t \<Rightarrow> c # re_sub_from n r repl (Some c, t))
      | (b', s') # _ \<Rightarrow>
          if length s' < length s then repl @ re_sub_from n r repl (b', s')
          else repl @ (case s of [] \<Rightarrow> [] | c # t \<Rightarrow> c # re_sub_from n r repl (Some c, t)))"

definition re_sub :: "regex \<Rightarrow> string \<Rightarrow> string \<Rightarrow> string" where
  "re_sub r repl s = re_sub_from (Suc (length s)) r repl (None, s)"

text \<open>\<open>pattern.search(text) is not None\<close>.\<close>

fun re_search_from :: "regex \<Rightarrow> char option \<Rightarrow> string \<Rightarrow> bool" where
  "re_search_from r b [] \<longleftrightarrow> re_matches r (b, []) \<noteq> []"
| "re_search_from r b (c # s) \<longleftrightarrow> re_matches r (b, c # s) \<noteq> [] \<or> re_search_from r (Some c) s"

definition re_search :: "regex \<Rightarrow> string \<Rightarrow> bool" where
  "re_search r s = re_search_from r None s"

text \<open>\<open>pattern.match(text)\<close> and \<open>pattern.fullmatch(text)\<close> as truth values.\<close>

definition re_match :: "regex \<Rightarrow> string \<Rightarrow> bool" where
  "re_match r s \<longleftrightarrow> re_matches r (None, s) \<noteq> []"

definition re_fullmatch :: "regex \<Rightarrow> string \<Rightarrow> bool" where
  "re_fullmatch r s \<longleftrightarrow> (\<exists>q \<in> set (re_matches r (None, s)). snd q = [])"

section \<open>Lemmas\<close>

text \<open>A match leaves a suffix of the text, so the fuel of a substitution is never short.\<close>

lemma star_matches_suffix:
  assumes "\<And>p q. q \<in> set (f p) \<Longrightarrow> \<exists>u. snd p = u @ snd q"
  shows "q \<in> set (star_matches f n p) \<Longrightarrow> \<exists>u. snd p = u @ snd q"
proof (induction n arbitrary: p)
  case (Suc n)
  then consider "q = p" | q' where "q' \<in> set (f p)" "q \<in> set (star_matches f n q')"
    by (auto split: if_splits)
  then show ?case
  proof cases
    case 2
    with Suc.IH [OF 2(2)] assms [OF 2(1)] show ?thesis by auto
  qed simp
qed simp

lemma re_matches_suffix: "q \<in> set (re_matches r p) \<Longrightarrow> \<exists>u. snd p = u @ snd q"
proof (induction r arbitrary: p q)
  case (Cls f)
  then show ?case by (cases p; cases "snd p") (auto split: if_splits)
next
  case (Seq r t)
  then obtain q' where q': "q' \<in> set (re_matches r p)" "q \<in> set (re_matches t q')" by auto
  with Seq.IH(1) [OF q'(1)] Seq.IH(2) [OF q'(2)] show ?case by auto
next
  case (Star r)
  then show ?case using star_matches_suffix [of "re_matches r"] by auto
next
  case WordB
  then show ?case by (cases p) (auto split: if_splits)
next
  case (LookAt f)
  then show ?case by (cases p) (auto split: if_splits)
qed auto

lemma re_sub_fuel:
  "length (snd p) < n \<Longrightarrow> length (snd p) < m \<Longrightarrow> re_sub_from n r repl p = re_sub_from m r repl p"
proof (induction n arbitrary: p m)
  case (Suc n)
  obtain b s where p: "p = (b, s)" by (cases p)
  obtain k where m: "m = Suc k" using Suc.prems(2) by (cases m) auto
  have rest: "re_sub_from n r repl (x, t) = re_sub_from k r repl (x, t)" if "length t < length s" for x t
    using Suc.IH [of "(x, t)" k] Suc.prems that p m by simp
  show ?case
    by (cases s) (auto simp: p m rest split: list.splits)
qed simp

end
