(* ===== verification/Py_Text.thy ===== *)
theory Py_Text
  imports Json
begin

text \<open>
  Conversions between text, bytes and integers that several components use: lower case, UTF-8 (of
  the code points below 256 that a character stands for), \<^verbatim>\<open>int(text)\<close>, and JSON texts as UTF-8 bytes.
\<close>

text \<open>\<open>str.lower\<close> on code points below 256.\<close>

definition py_lower :: "string \<Rightarrow> string" where
  "py_lower s = map (\<lambda>c. let n = (of_char c :: nat)
     in if (65 \<le> n \<and> n \<le> 90) \<or> (192 \<le> n \<and> n \<le> 222 \<and> n \<noteq> 215) then char_of (n + 32) else c) s"

definition utf8_encode :: "string \<Rightarrow> string" where
  "utf8_encode s = concat (map (\<lambda>c. let n = (of_char c :: nat)
     in if n < 128 then [c] else [char_of (192 + n div 64), char_of (128 + n mod 64)]) s)"

text \<open>
  \<^const>\<open>None\<close> is the \<^verbatim>\<open>UnicodeDecodeError\<close>; the sequences for code points from 256 on, which no character
  stands for, are refused too.
\<close>

fun utf8_decode :: "string \<Rightarrow> string option" where
  "utf8_decode [] = Some []"
| "utf8_decode [c] = (if (of_char c :: nat) < 128 then Some [c] else None)"
| "utf8_decode (c # d # s) =
     (let n = (of_char c :: nat); m = (of_char d :: nat)
      in if n < 128 then map_option ((#) c) (utf8_decode (d # s))
         else if (n = 194 \<or> n = 195) \<and> 128 \<le> m \<and> m < 192
         then map_option ((#) (char_of ((n - 192) * 64 + (m - 128)))) (utf8_decode s)
         else None)"

definition digit_val :: "char \<Rightarrow> nat" where
  "digit_val c = of_char c - 48"

text \<open>
  The decimal literal that \<^verbatim>\<open>int\<close> reads: digits, with single underscores between them. The second
  argument is the value read so far.
\<close>

fun read_digits :: "string \<Rightarrow> nat \<Rightarrow> nat option" where
  "read_digits [] acc = Some acc"
| "read_digits [c] acc = (if is_digit c then Some (10 * acc + digit_val c) else None)"
| "read_digits (c # d # s) acc =
     (if is_digit c then read_digits (d # s) (10 * acc + digit_val c)
      else if c = CHR ''_'' \<and> is_digit d then read_digits s (10 * acc + digit_val d)
      else None)"

definition read_nat :: "string \<Rightarrow> nat option" where
  "read_nat s = (case s of [] \<Rightarrow> None | c # t \<Rightarrow> if is_digit c then read_digits t (digit_val c) else None)"

text \<open>The interpreter refuses to convert integers of more than 4300 digits, in both directions.\<close>

definition INT_MAX_STR_DIGITS :: nat where
  "INT_MAX_STR_DIGITS = 4300"

text \<open>The white space that \<^verbatim>\<open>int\<close> skips around a literal; unlike \<^verbatim>\<open>str.strip\<close> it keeps the separators 28 to 31.\<close>

definition int_space :: "char \<Rightarrow> bool" where
  "int_space c \<longleftrightarrow> (let n = (of_char c :: nat) in (9 \<le> n \<and> n \<le> 13) \<or> n = 32 \<or> n = 133 \<or> n = 160)"

definition int_strip :: "string \<Rightarrow> string" where
  "int_strip s = rev (dropWhile int_space (rev (dropWhile int_space s)))"

definition py_int :: "string \<Rightarrow> int option" where
  "py_int s =
     (let t = int_strip s
      in if INT_MAX_STR_DIGITS < length (filter is_digit t) then None
         else (case t of
             [] \<Rightarrow> None
           | c # u \<Rightarrow> if c = CHR ''-'' then map_option (\<lambda>n. - int n) (read_nat u)
                       else if c = CHR ''+'' then map_option int (read_nat u)
                       else map_option int (read_nat t)))"

definition py_str_int :: "int \<Rightarrow> string option" where
  "py_str_int i = (if INT_MAX_STR_DIGITS < length (show_nat (nat \<bar>i\<bar>)) then None else Some (show_int i))"

text \<open>\<^verbatim>\<open>json.dumps(..., ensure_ascii=False).encode("utf-8")\<close>: the text as its UTF-8 bytes.\<close>

definition json_esc_utf8 :: "char \<Rightarrow> string" where
  "json_esc_utf8 c =
     (let n = (of_char c :: nat) in
      if n < 127 then json_esc c
      else if n = 127 then [c]
      else [char_of (192 + n div 64), char_of (128 + n mod 64)])"

definition json_str_utf8 :: "string \<Rightarrow> string" where
  "json_str_utf8 s = chr_quote # concat (map json_esc_utf8 s) @ [chr_quote]"

fun json_print_utf8 :: "(rat \<Rightarrow> string) \<Rightarrow> json \<Rightarrow> string" where
  "json_print_utf8 fr JNull = ''null''"
| "json_print_utf8 fr (JBool b) = (if b then ''true'' else ''false'')"
| "json_print_utf8 fr (JInt i) = show_int i"
| "json_print_utf8 fr (JFloat q) = fr q"
| "json_print_utf8 fr (JStr s) = json_str_utf8 s"
| "json_print_utf8 fr (JList xs) = ''['' @ join_with '','' (map (json_print_utf8 fr) xs) @ '']''"
| "json_print_utf8 fr (JObj kvs) =
     ''{'' @ join_with '','' (map (\<lambda>(k, v). json_str_utf8 k @ '':'' @ json_print_utf8 fr v) kvs) @ ''}''"

text \<open>What \<^verbatim>\<open>json.dumps(..., allow_nan=False)\<close> accepts; \<open>nf\<close> marks the values that stand for NaN and the infinities.\<close>

fun json_serializable :: "(rat \<Rightarrow> bool) \<Rightarrow> json \<Rightarrow> bool" where
  "json_serializable nf (JFloat q) \<longleftrightarrow> \<not> nf q"
| "json_serializable nf (JInt i) \<longleftrightarrow> py_str_int i \<noteq> None"
| "json_serializable nf (JList xs) \<longleftrightarrow> list_all (json_serializable nf) xs"
| "json_serializable nf (JObj kvs) \<longleftrightarrow> list_all (\<lambda>(k, v). json_serializable nf v) kvs"
| "json_serializable nf _ \<longleftrightarrow> True"

section \<open>Lemmas\<close>

lemma is_digit_iff: "is_digit c \<longleftrightarrow> 48 \<le> (of_char c :: nat) \<and> (of_char c :: nat) \<le> 57"
proof -
  have "is_digit c \<longleftrightarrow> (of_char c :: nat) \<in> of_char ` set ''0123456789''"
    unfolding is_digit_def by (simp add: inj_image_mem_iff [OF inj_of_char] del: list.set)
  also have "of_char ` set ''0123456789'' = {48, 49, 50, 51, 52, 53, 54, 55, 56, 57 :: nat}" by simp
  also have "\<dots> = {48..57}" by (auto; presburger)
  finally show ?thesis by simp
qed

lemma digit_val_chr: "n < 10 \<Longrightarrow> digit_val (digit_chr n) = n"
  by (auto simp: less_Suc_eq numeral_nat digit_val_def digit_chr_def)

lemma digit_not_space: "is_digit c \<Longrightarrow> \<not> int_space c"
  by (auto simp: is_digit_iff int_space_def Let_def)

lemma digit_not_sign: "is_digit c \<Longrightarrow> c \<noteq> CHR ''-'' \<and> c \<noteq> CHR ''+''"
  by (auto simp: is_digit_iff)

lemma read_digits_Cons: "is_digit c \<Longrightarrow> read_digits (c # s) acc = read_digits s (10 * acc + digit_val c)"
  by (cases s) auto

lemma read_digits_append:
  "(\<forall>c \<in> set s. is_digit c) \<Longrightarrow> read_digits s acc = Some a \<Longrightarrow> read_digits (s @ t) acc = read_digits t a"
  by (induction s arbitrary: acc) (auto simp: read_digits_Cons)

lemma read_nat_snoc:
  assumes "read_nat s = Some a" and "\<forall>c \<in> set s. is_digit c" and "is_digit d"
  shows "read_nat (s @ [d]) = Some (10 * a + digit_val d)"
  using assms by (auto simp: read_nat_def read_digits_append split: list.splits if_splits)

lemma read_show_nat: "read_nat (show_nat n) = Some n"
proof (induction n rule: show_nat.induct)
  case (1 n)
  show ?case
  proof (cases "n < 10")
    case True
    then show ?thesis by (simp add: show_nat.simps [of n] read_nat_def digit_chr_digit digit_val_chr)
  next
    case False
    then have "read_nat (show_nat (n div 10)) = Some (n div 10)" using 1 by simp
    from read_nat_snoc [OF this _ digit_chr_digit, of "n mod 10"] show ?thesis
      using False show_nat_digits by (simp add: show_nat.simps [of n] digit_val_chr)
  qed
qed

lemma strip_by_solid:
  assumes "s \<noteq> []" and "\<not> P (hd s)" and "\<not> P (last s)" and "list_all P t"
  shows "rev (dropWhile P (rev (dropWhile P (s @ t)))) = s"
proof -
  have a: "dropWhile P (s @ t) = s @ t" using assms(1, 2) by (cases s) auto
  have "dropWhile P (rev t @ rev s) = rev s"
    using assms by (subst dropWhile_append2) (auto simp: list_all_iff hd_rev dropWhile_eq_self_iff)
  then show ?thesis by (simp add: a)
qed

lemmas strip_solid = strip_by_solid [where P = py_space, folded py_strip_def]
lemmas int_strip_solid = strip_by_solid [where P = int_space, folded int_strip_def]

lemma filter_digits_show: "length (filter is_digit (show_int i)) = length (show_nat (nat \<bar>i\<bar>))"
  using show_nat_digits by (auto simp: show_int_def filter_id_conv is_digit_def)

lemma show_int_ends: "show_int i \<noteq> [] \<and> \<not> int_space (hd (show_int i)) \<and> \<not> int_space (last (show_int i))"
proof -
  have "\<not> int_space (last (show_nat n))" and "\<not> int_space (hd (show_nat n))" for n
    using show_nat_digits digit_not_space last_in_set hd_in_set show_nat_ne by blast+
  moreover have "\<not> int_space CHR ''-''" by (simp add: int_space_def)
  ultimately show ?thesis by (simp add: show_int_def)
qed

text \<open>What \<^verbatim>\<open>str\<close> writes, \<^verbatim>\<open>int\<close> reads back, also with white space after it.\<close>

lemma py_int_show:
  assumes "length (show_nat (nat \<bar>i\<bar>)) \<le> INT_MAX_STR_DIGITS" and "list_all int_space t"
  shows "py_int (show_int i @ t) = Some i"
proof -
  have st: "int_strip (show_int i @ t) = show_int i"
    using show_int_ends [of i] assms(2) by (intro int_strip_solid) auto
  obtain c cs where c: "show_nat (nat i) = c # cs" "is_digit c" using show_nat_hd by blast
  have "py_int (show_int i @ t) = (case show_int i of [] \<Rightarrow> None
      | c # u \<Rightarrow> if c = CHR ''-'' then map_option (\<lambda>n. - int n) (read_nat u)
                  else if c = CHR ''+'' then map_option int (read_nat u)
                  else map_option int (read_nat (show_int i)))"
    unfolding py_int_def st Let_def filter_digits_show using assms(1) by simp
  also have "\<dots> = Some i"
    using c read_show_nat [of "nat i"] read_show_nat [of "nat (- i)"] digit_not_sign [OF c(2)]
    by (auto simp: show_int_def)
  finally show ?thesis .
qed

lemma utf8_decode_ascii: "\<forall>c \<in> set s. (of_char c :: nat) < 128 \<Longrightarrow> utf8_decode s = Some s"
  by (induction s rule: utf8_decode.induct) (auto simp: Let_def)

lemma show_int_ascii: "c \<in> set (show_int i) \<Longrightarrow> (of_char c :: nat) < 128"
  using show_nat_digits [of c "nat i"] show_nat_digits [of c "nat (- i)"]
  by (auto simp: show_int_def is_digit_iff split: if_splits)

lemma show_nat_length: "n < 10 ^ k \<Longrightarrow> 0 < k \<Longrightarrow> length (show_nat n) \<le> k"
proof (induction n arbitrary: k rule: show_nat.induct)
  case (1 n)
  show ?case
  proof (cases "n < 10")
    case True
    with 1(3) show ?thesis by (simp add: show_nat.simps [of n])
  next
    case False
    then obtain j where k: "k = Suc j" "0 < j" using 1(2, 3) by (cases k; cases "k - 1") auto
    then have "n div 10 < 10 ^ j" using 1(2) by (simp add: less_mult_imp_div_less)
    from 1(1) [OF False this k(2)] False k show ?thesis by (simp add: show_nat.simps [of n])
  qed
qed

text \<open>An integer that \<^verbatim>\<open>int\<close> read can be written again.\<close>

lemma digit_val_less: "is_digit c \<Longrightarrow> digit_val c < 10"
  by (auto simp: digit_val_def is_digit_iff)

lemma read_digits_bound: "read_digits s acc = Some n \<Longrightarrow> n < (acc + 1) * 10 ^ length (filter is_digit s)"
proof (induction s acc rule: read_digits.induct)
  case (2 c acc)
  then show ?case using digit_val_less [of c] by (auto split: if_splits)
next
  case (3 c d s acc)
  have step: "m < (acc + 1) * 10 ^ Suc k" if "m < (10 * acc + digit_val x + 1) * 10 ^ k" "is_digit x" for m x k
  proof -
    have "(10 * acc + digit_val x + 1) * 10 ^ k \<le> (10 * (acc + 1)) * 10 ^ k"
      using digit_val_less [OF that(2)] by (intro mult_le_mono1) simp
    also have "\<dots> = (acc + 1) * 10 ^ Suc k" by (simp only: power_Suc mult.assoc mult.left_commute)
    finally show ?thesis using that(1) by simp
  qed
  show ?case
  proof (cases "is_digit c")
    case True
    with 3 have "n < (10 * acc + digit_val c + 1) * 10 ^ length (filter is_digit (d # s))" by auto
    from step [OF this True] True show ?thesis by simp
  next
    case False
    then have d: "c = CHR ''_''" "is_digit d" "read_digits s (10 * acc + digit_val d) = Some n"
      using "3.prems" by (auto split: if_splits)
    with "3.IH"(2) False have "n < (10 * acc + digit_val d + 1) * 10 ^ length (filter is_digit s)" by simp
    from step [OF this d(2)] d False show ?thesis by simp
  qed
qed simp

lemma read_nat_bound: "read_nat s = Some n \<Longrightarrow> n < 10 ^ length (filter is_digit s) \<and> 0 < length (filter is_digit s)"
proof (cases s)
  case (Cons c t)
  assume "read_nat s = Some n"
  then have c: "is_digit c" "read_digits t (digit_val c) = Some n" using Cons by (auto simp: read_nat_def split: if_splits)
  have "n < (digit_val c + 1) * 10 ^ length (filter is_digit t)" by (rule read_digits_bound [OF c(2)])
  also have "\<dots> \<le> 10 * 10 ^ length (filter is_digit t)" using digit_val_less [OF c(1)] by (intro mult_le_mono1) simp
  finally show ?thesis using Cons c by simp
qed (simp add: read_nat_def)

lemma py_int_printable: "py_int s = Some i \<Longrightarrow> py_str_int i \<noteq> None"
proof -
  assume i: "py_int s = Some i"
  define t where "t = int_strip s"
  have lim: "length (filter is_digit t) \<le> INT_MAX_STR_DIGITS" using i by (simp add: py_int_def t_def Let_def split: if_splits)
  have "\<exists>u. read_nat u = Some (nat \<bar>i\<bar>) \<and> length (filter is_digit u) \<le> length (filter is_digit t)"
    using i by (auto simp: py_int_def t_def [symmetric] Let_def split: if_splits list.splits)
  then obtain u where u: "read_nat u = Some (nat \<bar>i\<bar>)" "length (filter is_digit u) \<le> length (filter is_digit t)" by blast
  have "length (show_nat (nat \<bar>i\<bar>)) \<le> length (filter is_digit u)"
    using read_nat_bound [OF u(1)] by (intro show_nat_length) simp_all
  with u(2) lim show ?thesis by (simp add: py_str_int_def)
qed

section \<open>The UTF-8 form determines the value\<close>

lemma json_esc_low_hd: "(of_char c :: nat) < 127 \<Longrightarrow> \<exists>x xs. json_esc c = x # xs \<and> (of_char x :: nat) < 127"
  by (cases c rule: json_esc_cases) (auto simp: chr_backslash_def)

lemma of_char_byte: "n < 256 \<Longrightarrow> (of_char (char_of n :: char) :: nat) = n"
  by (simp add: of_char_of)

lemma json_esc_utf8_hd:
  "\<exists>x xs. json_esc_utf8 c = x # xs \<and> x \<noteq> chr_quote
     \<and> (if (of_char c :: nat) < 127 then json_esc_utf8 c = json_esc c \<and> (of_char x :: nat) < 127
        else if (of_char c :: nat) = 127 then x = c \<and> xs = []
        else (of_char x :: nat) = 192 + (of_char c :: nat) div 64 \<and> xs = [char_of (128 + (of_char c :: nat) mod 64)])"
proof -
  have c: "(of_char c :: nat) < 256" using nat_of_char_less_256 by blast
  consider "(of_char c :: nat) < 127" | "(of_char c :: nat) = 127" | "127 < (of_char c :: nat)" by linarith
  then show ?thesis
  proof cases
    case 1
    with json_esc_low_hd [OF 1] json_esc_hd [of c] show ?thesis by (auto simp: json_esc_utf8_def)
  next
    case 2
    then have "c \<noteq> chr_quote" by (auto simp: chr_quote_def)
    with 2 show ?thesis by (simp add: json_esc_utf8_def)
  next
    case 3
    have "(of_char c :: nat) div 64 < 4" using c by (simp add: less_mult_imp_div_less)
    then have x: "(of_char (char_of (192 + (of_char c :: nat) div 64) :: char) :: nat) = 192 + (of_char c :: nat) div 64"
      by (intro of_char_byte) simp
    then have "(of_char (char_of (192 + (of_char c :: nat) div 64) :: char) :: nat) \<noteq> of_char chr_quote"
      unfolding x by (simp add: chr_quote_def)
    then have "(char_of (192 + (of_char c :: nat) div 64) :: char) \<noteq> chr_quote" by metis
    with 3 x show ?thesis by (simp add: json_esc_utf8_def Let_def)
  qed
qed

lemma json_esc_utf8_prefix: "json_esc_utf8 c @ r = json_esc_utf8 d @ t \<Longrightarrow> c = d \<and> r = t"
proof -
  assume eq: "json_esc_utf8 c @ r = json_esc_utf8 d @ t"
  let ?n = "of_char c :: nat" and ?m = "of_char d :: nat"
  obtain x xs where x: "json_esc_utf8 c = x # xs" "if ?n < 127 then json_esc_utf8 c = json_esc c \<and> (of_char x :: nat) < 127
        else if ?n = 127 then x = c \<and> xs = [] else (of_char x :: nat) = 192 + ?n div 64 \<and> xs = [char_of (128 + ?n mod 64)]"
    using json_esc_utf8_hd [of c] by blast
  obtain y ys where y: "json_esc_utf8 d = y # ys" "if ?m < 127 then json_esc_utf8 d = json_esc d \<and> (of_char y :: nat) < 127
        else if ?m = 127 then y = d \<and> ys = [] else (of_char y :: nat) = 192 + ?m div 64 \<and> ys = [char_of (128 + ?m mod 64)]"
    using json_esc_utf8_hd [of d] by blast
  have xy: "x = y" "xs @ r = ys @ t" using eq x(1) y(1) by simp_all
  consider "?n < 127" "?m < 127" | "?n = 127" "?m = 127" | "127 < ?n" "127 < ?m"
    using x(2) y(2) xy(1) by (fastforce split: if_splits)
  then show ?thesis
  proof cases
    case 1
    with x(2) y(2) eq have "json_esc c @ r = json_esc d @ t" by simp
    then show ?thesis by (rule json_esc_prefix)
  next
    case 2
    with x(2) y(2) xy show ?thesis by simp
  next
    case 3
    with x(2) y(2) xy have "192 + ?n div 64 = 192 + ?m div 64"
        "(char_of (128 + ?n mod 64) :: char) = char_of (128 + ?m mod 64)" "r = t" by simp_all
    moreover have "128 + ?n mod 64 < 256" "128 + ?m mod 64 < 256"
      using mod_less_divisor [of 64 ?n] mod_less_divisor [of 64 ?m] by linarith+
    ultimately have "?n div 64 = ?m div 64" "?n mod 64 = ?m mod 64"
      using of_char_byte by (simp, metis add_left_cancel)
    then have "?n = ?m" by (metis div_mult_mod_eq)
    with \<open>r = t\<close> show ?thesis by simp
  qed
qed

interpretation utf8: json_escape json_esc_utf8
  using json_esc_utf8_hd by unfold_locales (blast, erule json_esc_utf8_prefix)

lemma json_print_by_utf8: "json_print_by json_esc_utf8 fr j = json_print_utf8 fr j"
proof (induction j)
  case (JList xs)
  then show ?case by (simp cong: map_cong)
next
  case (JObj kvs)
  then have eq: "map (\<lambda>(k, v). (chr_quote # concat (map json_esc_utf8 k) @ [chr_quote]) @ '':'' @ json_print_by json_esc_utf8 fr v) kvs
      = map (\<lambda>(k, v). json_str_utf8 k @ '':'' @ json_print_utf8 fr v) kvs"
    by (intro map_cong refl) (auto simp: json_str_utf8_def)
  show ?case unfolding json_print_by.simps json_print_utf8.simps eq ..
qed (simp_all add: json_str_utf8_def)

lemma json_utf8_inj:
  assumes "json_print_utf8 fr (json_canon i) = json_print_utf8 fr (json_canon j)"
    and "float_free i \<and> float_free j \<or> float_repr_ok fr"
  shows "json_canon i = json_canon j"
  using utf8.print_inj [of fr "json_canon i" "json_canon j"] assms
  by (simp add: json_print_by_utf8 float_free_canon)

end
