(* ===== verification/Py_Float.thy ===== *)
theory Py_Float
  imports Prelude
begin

text \<open>
  Python's true division of two counts, \<^verbatim>\<open>passed / total\<close> with \<open>0 \<le> passed \<le> total\<close>. The result is
  the double nearest to the quotient, ties to even: a significand of 53 bits over a power of
  two. Doubles are represented by their exact rational values, on which the comparisons of
  the sources are exact.
\<close>

text \<open>The least shift that brings the quotient to 53 significant bits.\<close>

function div_shift :: "nat \<Rightarrow> nat \<Rightarrow> nat \<Rightarrow> nat" where
  "div_shift p n k = (if p = 0 \<or> 2 ^ 52 * n \<le> p * 2 ^ k then k else div_shift p n (Suc k))"
  by pat_completeness auto
termination
  by (relation "measure (\<lambda>(p, n, k). 2 ^ 52 * n - p * 2 ^ k)") (auto intro!: diff_less_mono2)

declare div_shift.simps [simp del]

definition round_half_even :: "nat \<Rightarrow> nat \<Rightarrow> nat" where
  "round_half_even a n =
     (let q = a div n; r = a mod n
      in if 2 * r < n \<or> (2 * r = n \<and> even q) then q else q + 1)"

definition py_truediv :: "nat \<Rightarrow> nat \<Rightarrow> rat" where
  "py_truediv p n =
     (if p = 0 then 0
      else let k = div_shift p n 0 in of_nat (round_half_even (p * 2 ^ k) n) / 2 ^ k)"

lemma div_shift_enough: "0 < p \<Longrightarrow> 2 ^ 52 * n \<le> p * 2 ^ div_shift p n k"
proof (induction p n k rule: div_shift.induct)
  case (1 p n k)
  then show ?case by (cases "2 ^ 52 * n \<le> p * 2 ^ k") (auto simp: div_shift.simps [of p n k])
qed

lemma div_shift_least: "0 < p \<Longrightarrow> k \<le> j \<Longrightarrow> j < div_shift p n k \<Longrightarrow> p * 2 ^ j < 2 ^ 52 * n"
proof (induction p n k rule: div_shift.induct)
  case (1 p n k)
  show ?case
  proof (cases "2 ^ 52 * n \<le> p * 2 ^ k")
    case True
    with 1 show ?thesis by (simp add: div_shift.simps [of p n k])
  next
    case False
    with 1 have "j < div_shift p n (Suc k)" by (simp add: div_shift.simps [of p n k])
    with False 1 show ?thesis by (cases "j = k") auto
  qed
qed

lemma div_shift_same: "0 < n \<Longrightarrow> div_shift n n 0 = 52"
proof -
  assume n: "0 < n"
  have "(2::nat) ^ 52 \<le> 2 ^ div_shift n n 0" using div_shift_enough [OF n, of n 0] n by simp
  then have "52 \<le> div_shift n n 0" by (rule power_le_imp_le_exp [rotated]) simp
  moreover have "\<not> 52 < div_shift n n 0"
    using div_shift_least [OF n, of 0 52 n] by auto
  ultimately show ?thesis by simp
qed

lemma div_shift_below: "0 < p \<Longrightarrow> p < n \<Longrightarrow> 53 \<le> div_shift p n 0"
proof -
  assume p: "0 < p" "p < n"
  have "\<not> div_shift p n 0 \<le> 52"
  proof
    assume "div_shift p n 0 \<le> 52"
    then have "(2::nat) ^ div_shift p n 0 \<le> 2 ^ 52" by (rule power_increasing) simp
    then have "p * 2 ^ div_shift p n 0 \<le> p * 2 ^ 52" by (rule mult_le_mono2)
    also have "\<dots> < n * 2 ^ 52" using p(2) by (rule mult_less_mono1) simp
    finally show False using div_shift_enough [OF p(1), of n 0] by (simp add: mult.commute)
  qed
  then show ?thesis by simp
qed

lemma round_half_even_le: "round_half_even a n \<le> a div n + 1"
  by (simp add: round_half_even_def Let_def)

lemma round_below:
  assumes p: "0 < p" "p < n" and n: "n \<le> 2 ^ 52" and k: "k = div_shift p n 0"
  shows "round_half_even (p * 2 ^ k) n < 2 ^ k"
proof -
  have k53: "53 \<le> k" using div_shift_below [OF p] k by simp
  have big: "2 * n \<le> 2 ^ k"
  proof -
    have "2 * n \<le> 2 ^ 53" using n by simp
    also have "(2::nat) ^ 53 \<le> 2 ^ k" using k53 by (intro power_increasing) auto
    finally show ?thesis .
  qed
  have "p * 2 ^ k + 2 * n \<le> p * 2 ^ k + 2 ^ k" using big by simp
  also have "\<dots> \<le> n * 2 ^ k"
    using p(2) by (metis Suc_leI add.commute mult_Suc mult_le_mono1)
  finally have "(p * 2 ^ k + 2 * n) div n \<le> (2 ^ k * n) div n"
    by (intro div_le_mono) (simp add: mult.commute)
  then have "(p * 2 ^ k) div n + 2 \<le> 2 ^ k" using p by simp
  then show ?thesis using round_half_even_le [of "p * 2 ^ k" n] by linarith
qed

lemma py_truediv_full: "0 < n \<Longrightarrow> py_truediv n n = 1"
  by (simp add: py_truediv_def div_shift_same round_half_even_def Let_def)

lemma py_truediv_partial: "p < n \<Longrightarrow> n \<le> 2 ^ 52 \<Longrightarrow> py_truediv p n < 1"
proof (cases "p = 0")
  case False
  assume "p < n" "n \<le> 2 ^ 52"
  then have "round_half_even (p * 2 ^ div_shift p n 0) n < 2 ^ div_shift p n 0"
    using False by (intro round_below) auto
  then have "(of_nat (round_half_even (p * 2 ^ div_shift p n 0) n) :: rat) < of_nat (2 ^ div_shift p n 0)"
    by (simp only: of_nat_less_iff)
  then show ?thesis using False by (simp add: py_truediv_def Let_def)
qed (simp add: py_truediv_def)

lemma py_truediv_eq_1:
  "0 < n \<Longrightarrow> p \<le> n \<Longrightarrow> n \<le> 2 ^ 52 \<Longrightarrow> py_truediv p n = 1 \<longleftrightarrow> p = n"
  using py_truediv_partial [of p n] py_truediv_full [of n] by (cases "p = n") auto

lemma py_truediv_lt_1:
  "0 < n \<Longrightarrow> p \<le> n \<Longrightarrow> n \<le> 2 ^ 52 \<Longrightarrow> py_truediv p n < 1 \<longleftrightarrow> p \<noteq> n"
  using py_truediv_partial [of p n] py_truediv_full [of n] by (cases "p = n") auto

lemma py_truediv_nonneg [simp]: "0 \<le> py_truediv p n"
  by (simp add: py_truediv_def Let_def)

lemma py_truediv_eq_0: "0 < n \<Longrightarrow> py_truediv p n = 0 \<longleftrightarrow> p = 0"
proof (cases "p = 0")
  case False
  assume n: "0 < n"
  let ?a = "p * 2 ^ div_shift p n 0"
  have "2 ^ 52 * n \<le> ?a" using False by (intro div_shift_enough) simp
  then have "2 ^ 52 \<le> ?a div n" using n by (simp add: less_eq_div_iff_mult_less_eq)
  then have "0 < ?a div n" by (rule less_le_trans [rotated]) simp
  then have "0 < round_half_even ?a n" by (simp add: round_half_even_def Let_def)
  with False show ?thesis by (simp add: py_truediv_def Let_def)
qed (simp add: py_truediv_def)

lemma round_half_even_near:
  assumes "0 < n"
  shows "2 * a \<le> 2 * (n * round_half_even a n) + n" and "2 * (n * round_half_even a n) \<le> 2 * a + n"
proof -
  define q r where "q = a div n" and "r = a mod n"
  have a: "a = n * q + r" "r < n" using assms by (simp_all add: q_def r_def)
  have "round_half_even a n = q \<and> 2 * r \<le> n \<or> round_half_even a n = q + 1 \<and> n \<le> 2 * r"
    by (auto simp: round_half_even_def Let_def q_def r_def)
  then show "2 * a \<le> 2 * (n * round_half_even a n) + n" "2 * (n * round_half_even a n) \<le> 2 * a + n"
    using a by (auto simp: add_mult_distrib2)
qed

text \<open>The quotient is off by at most half a unit in the last of at least 52 places.\<close>

lemma py_truediv_near:
  assumes "0 < p" and "p \<le> n"
  shows "\<bar>py_truediv p n - of_nat p / of_nat n\<bar> \<le> 1 / 2 ^ 53"
proof -
  let ?k = "div_shift p n 0"
  define R where "R = round_half_even (p * 2 ^ ?k) n"
  define K where "K = (2 :: rat) ^ ?k"
  have n: "0 < n" using assms by simp
  have k: "52 \<le> ?k"
    using div_shift_same [OF n] div_shift_below [OF assms(1), of n] assms(2) by (cases "p = n") auto
  have K: "0 < K" "2 ^ 52 \<le> K" using power_increasing [OF k, of "2 :: rat"] by (simp_all add: K_def)
  have le: "(of_nat (2 * (p * 2 ^ ?k)) :: rat) \<le> of_nat (2 * (n * R) + n)"
    "(of_nat (2 * (n * R)) :: rat) \<le> of_nat (2 * (p * 2 ^ ?k) + n)"
    using round_half_even_near [OF n, of "p * 2 ^ ?k"] unfolding R_def by (simp_all only: of_nat_le_iff)
  have le': "2 * (of_nat p * K) \<le> 2 * (of_nat n * of_nat R) + of_nat n"
    "2 * (of_nat n * of_nat R) \<le> 2 * (of_nat p * K) + of_nat n"
    using le by (simp_all add: K_def)
  have "of_nat R / K - of_nat p / of_nat n = (of_nat R * of_nat n - of_nat p * K) / (K * of_nat n)"
    using n K(1) by (intro diff_frac_eq) simp_all
  moreover have "\<bar>of_nat R * of_nat n - of_nat p * K\<bar> \<le> of_nat n / 2"
    unfolding mult.commute [of "of_nat R" "of_nat n"] abs_le_iff using le' by linarith
  then have "\<bar>of_nat R * of_nat n - of_nat p * K\<bar> / (K * of_nat n) \<le> (of_nat n / 2) / (K * of_nat n)"
    using K(1) by (intro divide_right_mono) simp_all
  ultimately have "\<bar>of_nat R / K - of_nat p / of_nat n\<bar> \<le> (of_nat n / 2) / (K * of_nat n)"
    using K(1) by (simp only: abs_divide abs_mult abs_of_pos abs_of_nat)
  also have "\<dots> = 1 / (2 * K)" using n by simp
  also have "\<dots> \<le> 1 / 2 ^ 53" using K by (simp add: field_simps)
  finally show ?thesis using assms(1) by (simp add: py_truediv_def Let_def R_def K_def)
qed

lemma inverse_gap:
  assumes "p < q" and "0 < n" and "n < 2 ^ 52"
  shows "(1 :: rat) / 2 ^ 52 < of_nat q / of_nat n - of_nat p / of_nat n"
proof -
  have "(of_nat n :: rat) < of_nat (2 ^ 52)" using assms(3) by (simp only: of_nat_less_iff)
  then have "(of_nat n :: rat) < 2 ^ 52" by (simp only: of_nat_power of_nat_numeral)
  moreover have "(0 :: rat) < of_nat n" using assms(2) by simp
  ultimately have "(1 :: rat) / 2 ^ 52 < 1 / of_nat n" by (intro divide_strict_left_mono mult_pos_pos) simp_all
  also have "(1 :: rat) / of_nat n \<le> (of_nat q - of_nat p) / of_nat n"
  proof (rule divide_right_mono)
    have "(of_nat (Suc p) :: rat) \<le> of_nat q" using assms(1) by (simp only: of_nat_le_iff Suc_le_eq)
    then show "(1 :: rat) \<le> of_nat q - of_nat p" by simp
  qed simp
  finally show ?thesis by (simp only: diff_divide_distrib)
qed

lemma py_truediv_strict_mono:
  assumes "p < q" and "q \<le> n" and "n < 2 ^ 52"
  shows "py_truediv p n < py_truediv q n"
proof (cases "p = 0")
  case True
  then have "py_truediv p n = 0" by (simp add: py_truediv_def)
  moreover have "py_truediv q n \<noteq> 0" using py_truediv_eq_0 [of n q] assms(1,2) by simp
  ultimately show ?thesis using py_truediv_nonneg [of q n] by (simp add: less_le)
next
  case False
  have "0 < n" using assms(1,2) by simp
  note gap = inverse_gap [OF assms(1) this assms(3)]
  have near: "\<bar>py_truediv p n - of_nat p / of_nat n\<bar> \<le> 1 / 2 ^ 53" "\<bar>py_truediv q n - of_nat q / of_nat n\<bar> \<le> 1 / 2 ^ 53"
    using False assms(1,2) by (intro py_truediv_near; simp)+
  have half: "(1 :: rat) / 2 ^ 52 = 1 / 2 ^ 53 + 1 / 2 ^ 53" by simp
  show ?thesis using gap near unfolding half abs_le_iff by linarith
qed

lemma py_truediv_le_iff: "p \<le> n \<Longrightarrow> q \<le> n \<Longrightarrow> n < 2 ^ 52 \<Longrightarrow> py_truediv p n \<le> py_truediv q n \<longleftrightarrow> p \<le> q"
  using py_truediv_strict_mono [of p q n] py_truediv_strict_mono [of q p n]
  by (cases p q rule: linorder_cases) auto

lemma length_filter_all: "length (filter P xs) = length xs \<longleftrightarrow> (\<forall>x \<in> set xs. P x)"
  by (metis filter_True length_filter_less order_less_irrefl)

end
