(* ===== verification/Graders.thy ===== *)
theory Graders
  imports Effect_Control Py_Float Py_Text
begin

text \<open>
  Graders and aggregation (\<^verbatim>\<open>fleet_kernel/eval_plane/graders.py\<close>): the in-process verdict with the
  checks of its constructor, the fail-closed invocation of a grader, attempts and cases, and
  the precedence rules R1 to R7 that turn case results into blocking findings and metrics.
  A dataclass whose \<^verbatim>\<open>__post_init__\<close> may raise is a record with a check that returns the record or
  the error. Typed fields carry HOL types, so the \<^verbatim>\<open>isinstance\<close> tests of those fields have no
  counterpart.
\<close>

section \<open>Model families and requirement addresses\<close>

datatype AttemptAggregateRule = ALL_MUST_PASS | THRESHOLD

datatype PrecedenceRule =
    R1_CRITICAL_DETERMINISTIC_FAILURE | R2_UNRESOLVED_REQUIRED_ERROR | R3_REQUIRED_INCONCLUSIVE
  | R4_NONCRITICAL_THRESHOLD | R5_FORBIDDEN_EFFECT_ATTEMPT | R6_ATTEMPT_LINEAGE_INCOMPLETE
  | R7_GRADER_INDEPENDENCE

fun PrecedenceRule_value :: "PrecedenceRule \<Rightarrow> string" where
  "PrecedenceRule_value R1_CRITICAL_DETERMINISTIC_FAILURE = ''R1''"
| "PrecedenceRule_value R2_UNRESOLVED_REQUIRED_ERROR = ''R2''"
| "PrecedenceRule_value R3_REQUIRED_INCONCLUSIVE = ''R3''"
| "PrecedenceRule_value R4_NONCRITICAL_THRESHOLD = ''R4''"
| "PrecedenceRule_value R5_FORBIDDEN_EFFECT_ATTEMPT = ''R5''"
| "PrecedenceRule_value R6_ATTEMPT_LINEAGE_INCOMPLETE = ''R6''"
| "PrecedenceRule_value R7_GRADER_INDEPENDENCE = ''R7''"

definition DETERMINISTIC_FAMILY :: string where
  "DETERMINISTIC_FAMILY = ''deterministic''"

definition MODEL_FAMILY_PREFIXES :: "(string \<times> string) list" where
  "MODEL_FAMILY_PREFIXES =
     [(''claude'', ''anthropic''), (''gpt'', ''openai''), (''o1'', ''openai''), (''o3'', ''openai''),
      (''o4'', ''openai''), (''gemini'', ''google'')]"

definition model_family :: "string \<Rightarrow> string" where
  "model_family model_id =
     (let lowered = py_lower model_id
      in case find (\<lambda>(p, f). starts_with lowered p) MODEL_FAMILY_PREFIXES of
           Some (p, family) \<Rightarrow> family
         | None \<Rightarrow> lowered)"

definition requirement_ref :: "string \<Rightarrow> string \<Rightarrow> string \<Rightarrow> string" where
  "requirement_ref suite_id case_id grader_id = suite_id @ ''::'' @ case_id @ ''::'' @ grader_id"

section \<open>Canonical form\<close>

definition canonical_json :: "py_env \<Rightarrow> json \<Rightarrow> string" where
  "canonical_json E j = json_print_utf8 (float_repr E) (json_canon j)"

definition sha256_hex :: "py_env \<Rightarrow> json \<Rightarrow> string" where
  "sha256_hex E j = sha256 E (canonical_json E j)"

section \<open>Grader results\<close>

record GraderResult =
  gv_grader_id :: string
  gv_grader_version :: string
  gv_kind :: GraderKind
  gv_state :: ResultState
  gv_reason :: string
  gv_criticality :: Criticality
  gv_evidence_ref :: string
  gv_evidence_sha256 :: string
  gv_error_detail :: string
  gv_grader_family :: string
  gv_judge_model_id :: string
  gv_rubric_id :: string
  gv_rubric_version :: string
  gv_rubric_sha256 :: string
  gv_adjudicator_identity :: string
  gv_adjudicator_family :: string
  gv_adjudicated_at :: "py_datetime option"

datatype grader_error =
    BlankIdOrVersion | BlankReason | BlankFamily | ErrorWithoutDetail | DetailWithoutError
  | EvidenceNotSha256 | EvidenceHalfPresent | GradeWithoutEvidence ResultState
  | SemanticNotAdvisory | SemanticNotPinned | HumanWithoutAdjudicator
  | AdjudicatorWithoutTime | TimeWithoutAdjudicator

text \<open>The message of each \<^verbatim>\<open>ValueError\<close>; the typographic dash of one of them is written \<open>--\<close>.\<close>

fun grader_error_text :: "grader_error \<Rightarrow> string" where
  "grader_error_text BlankIdOrVersion = ''grader result requires a non-blank id and version''"
| "grader_error_text BlankReason = ''grader result requires a human-readable reason''"
| "grader_error_text BlankFamily = ''grader result requires a non-blank grader family''"
| "grader_error_text ErrorWithoutDetail = ''ERROR requires error_detail naming the infrastructure fault''"
| "grader_error_text DetailWithoutError = ''error_detail is only meaningful on ERROR''"
| "grader_error_text EvidenceNotSha256 = ''evidence_sha256 must be a 64-character sha256 hex digest''"
| "grader_error_text EvidenceHalfPresent =
     ''evidence must be wholly absent or wholly hash-bound: a reference '' @
     ''without a digest is unverifiable, and a digest without a reference points at nothing''"
| "grader_error_text (GradeWithoutEvidence s) =
     ''a '' @ ResultState_value s @ '' grade requires a machine-readable evidence '' @
     ''reference bound to a sha256 digest''"
| "grader_error_text SemanticNotAdvisory =
     ''semantic grading stays advisory until EP-610 calibration lands ('' @ [CHR 0xA7] @ ''4.2)''"
| "grader_error_text SemanticNotPinned =
     ''a semantic verdict requires a pinned judge model and versioned rubric''"
| "grader_error_text HumanWithoutAdjudicator =
     ''an adjudicated human review requires a named adjudicator''"
| "grader_error_text AdjudicatorWithoutTime =
     ''an adjudicator identity requires the adjudication timestamp (adjudicated_at) -- '' @
     ''a recorded adjudication that names no time is itself incomplete evidence''"
| "grader_error_text TimeWithoutAdjudicator = ''adjudicated_at requires a named adjudicator_identity''"

definition GraderResult_check :: "GraderResult \<Rightarrow> grader_error + GraderResult" where
  "GraderResult_check r =
     (let has_ref = nonblank (gv_evidence_ref r);
          has_digest = nonblank (gv_evidence_sha256 r)
      in if \<not> (nonblank (gv_grader_id r) \<and> nonblank (gv_grader_version r)) then Inl BlankIdOrVersion
         else if \<not> nonblank (gv_reason r) then Inl BlankReason
         else if \<not> nonblank (gv_grader_family r) then Inl BlankFamily
         else if gv_state r = ERROR \<and> \<not> nonblank (gv_error_detail r) then Inl ErrorWithoutDetail
         else if gv_state r \<noteq> ERROR \<and> nonblank (gv_error_detail r) then Inl DetailWithoutError
         else if has_digest \<and> \<not> sha256_re_match (gv_evidence_sha256 r) then Inl EvidenceNotSha256
         else if has_ref \<noteq> has_digest then Inl EvidenceHalfPresent
         else if gv_state r \<in> {PASS, FAIL} \<and> \<not> has_ref then Inl (GradeWithoutEvidence (gv_state r))
         else if gv_kind r = SEMANTIC \<and> gv_criticality r \<noteq> ADVISORY then Inl SemanticNotAdvisory
         else if gv_kind r = SEMANTIC
           \<and> \<not> (nonblank (gv_judge_model_id r) \<and> nonblank (gv_rubric_id r)
                \<and> nonblank (gv_rubric_version r) \<and> nonblank (gv_rubric_sha256 r))
         then Inl SemanticNotPinned
         else if gv_kind r = HUMAN \<and> gv_state r \<notin> {INCONCLUSIVE, ERROR}
           \<and> \<not> nonblank (gv_adjudicator_identity r) then Inl HumanWithoutAdjudicator
         else if nonblank (gv_adjudicator_identity r) \<and> gv_adjudicated_at r = None
         then Inl AdjudicatorWithoutTime
         else if \<not> nonblank (gv_adjudicator_identity r) \<and> gv_adjudicated_at r \<noteq> None
         then Inl TimeWithoutAdjudicator
         else Inr r)"

definition blocking_eligible :: "GraderResult \<Rightarrow> bool" where
  "blocking_eligible r \<longleftrightarrow> gv_criticality r \<noteq> ADVISORY"

definition grader_result_to_dict :: "py_env \<Rightarrow> GraderResult \<Rightarrow> json" where
  "grader_result_to_dict E r = JObj
     [(''grader_id'', JStr (gv_grader_id r)), (''grader_version'', JStr (gv_grader_version r)),
      (''kind'', JStr (GraderKind_value (gv_kind r))), (''state'', JStr (ResultState_value (gv_state r))),
      (''reason'', JStr (gv_reason r)), (''criticality'', JStr (Criticality_value (gv_criticality r))),
      (''evidence_ref'', JStr (gv_evidence_ref r)), (''evidence_sha256'', JStr (gv_evidence_sha256 r)),
      (''error_detail'', JStr (gv_error_detail r)), (''grader_family'', JStr (gv_grader_family r)),
      (''judge_model_id'', JStr (gv_judge_model_id r)), (''rubric_id'', JStr (gv_rubric_id r)),
      (''rubric_version'', JStr (gv_rubric_version r)), (''rubric_sha256'', JStr (gv_rubric_sha256 r)),
      (''adjudicator_identity'', JStr (gv_adjudicator_identity r)),
      (''adjudicated_at'',
        case gv_adjudicated_at r of None \<Rightarrow> JNull | Some t \<Rightarrow> JStr (isoformat E t)),
      (''blocking_eligible'', JBool (blocking_eligible r))]"

text \<open>
  The bridge to the row of the record layer. The row's own id comes from \<^verbatim>\<open>uuid4\<close> and is an
  argument here; the empty text is absent in process and NULL in the row.
\<close>

datatype bridge_error = NoTenantScope | RowRefused domain_error

definition text_or_null :: "string \<Rightarrow> string option" where
  "text_or_null s = (if s = [] then None else Some s)"

definition domain_row :: "GraderResult \<Rightarrow> nat \<Rightarrow> string \<Rightarrow> nat \<Rightarrow> string \<Rightarrow> GraderRow" where
  "domain_row r i tenant attempt_id subject_family =
     \<lparr>tenant_id = tenant, row_id = i, schema_version = 1, gr_attempt_id = attempt_id,
       gr_grader_id = gv_grader_id r, gr_grader_version = gv_grader_version r,
       gr_grader_kind = gv_kind r, gr_grader_family = gv_grader_family r,
       gr_subject_family = subject_family, gr_result = gv_state r,
       gr_criticality = gv_criticality r, gr_reason = gv_reason r,
       gr_evidence_ref = gv_evidence_ref r,
       gr_evidence_sha256 = text_or_null (gv_evidence_sha256 r),
       gr_error_detail = gv_error_detail r, gr_judge_model_id = gv_judge_model_id r,
       gr_rubric_id = gv_rubric_id r, gr_rubric_version = gv_rubric_version r,
       gr_rubric_sha256 = text_or_null (gv_rubric_sha256 r),
       gr_adjudicator_identity = gv_adjudicator_identity r,
       gr_adjudicator_family = gv_adjudicator_family r,
       gr_adjudicated_at = gv_adjudicated_at r\<rparr>"

definition to_domain_result ::
    "GraderResult \<Rightarrow> nat \<Rightarrow> string \<Rightarrow> nat \<Rightarrow> string \<Rightarrow> bridge_error + GraderRow" where
  "to_domain_result r i tenant attempt_id subject_family =
     (if \<not> nonblank tenant then Inl NoTenantScope
      else case grader_row_validate (domain_row r i tenant attempt_id subject_family) of
             Inl e \<Rightarrow> Inl (RowRefused e)
           | Inr g \<Rightarrow> Inr g)"

section \<open>Graders\<close>

record GradingContext =
  gc_case_id :: string
  gc_attempt_number :: int
  gc_target_fingerprint :: string
  gc_expected :: json
  gc_observed :: json
  gc_trajectory :: "json list"
  gc_evidence_refs :: "string list"

datatype context_error = ContextNeedsCase | ContextNumberBelowOne

text \<open>The frozen containers of the context need no counterpart: a HOL value is immutable.\<close>

definition GradingContext_check :: "GradingContext \<Rightarrow> context_error + GradingContext" where
  "GradingContext_check c =
     (if \<not> nonblank (gc_case_id c) then Inl ContextNeedsCase
      else if gc_attempt_number c < 1 then Inl ContextNumberBelowOne
      else Inr c)"

text \<open>The constructed part of a grader, common to the classes; \<open>gd_kind\<close> is the class attribute.\<close>

record Grader =
  gd_kind :: GraderKind
  gd_grader_id :: string
  gd_grader_version :: string
  gd_criticality :: Criticality
  gd_grader_family :: string

datatype grader_init_error = GraderNeedsIdAndVersion | GraderNeedsFamily | GraderNeedsJudgeAndRubric

definition Grader_init ::
    "GraderKind \<Rightarrow> string \<Rightarrow> string \<Rightarrow> Criticality \<Rightarrow> string \<Rightarrow> grader_init_error + Grader" where
  "Grader_init kind i version criticality family =
     (if \<not> (nonblank i \<and> nonblank version) then Inl GraderNeedsIdAndVersion
      else if \<not> nonblank family then Inl GraderNeedsFamily
      else Inr \<lparr>gd_kind = kind, gd_grader_id = i, gd_grader_version = version,
             gd_criticality = criticality, gd_grader_family = family\<rparr>)"

definition grader_result ::
    "('a Grader_scheme) \<Rightarrow> ResultState \<Rightarrow> string \<Rightarrow> string \<Rightarrow> string \<Rightarrow> string \<Rightarrow> GraderResult" where
  "grader_result g state reason evidence_ref evidence_sha error_detail =
     \<lparr>gv_grader_id = gd_grader_id g, gv_grader_version = gd_grader_version g, gv_kind = gd_kind g,
       gv_state = state, gv_reason = reason, gv_criticality = gd_criticality g,
       gv_evidence_ref = evidence_ref, gv_evidence_sha256 = evidence_sha,
       gv_error_detail = error_detail, gv_grader_family = gd_grader_family g,
       gv_judge_model_id = [], gv_rubric_id = [], gv_rubric_version = [], gv_rubric_sha256 = [],
       gv_adjudicator_identity = [], gv_adjudicator_family = [], gv_adjudicated_at = None\<rparr>"

record SemanticGrader = Grader +
  sg_judge_model_id :: string
  sg_rubric_id :: string
  sg_rubric_version :: string
  sg_rubric_sha256 :: string

definition SemanticGrader_init ::
    "string \<Rightarrow> string \<Rightarrow> string \<Rightarrow> string \<Rightarrow> string \<Rightarrow> string \<Rightarrow> string \<Rightarrow> grader_init_error + SemanticGrader"
  where
  "SemanticGrader_init i version judge_model_id rubric_id rubric_version rubric_sha family =
     (if \<not> (nonblank judge_model_id \<and> nonblank rubric_id \<and> nonblank rubric_version \<and> nonblank rubric_sha)
      then Inl GraderNeedsJudgeAndRubric
      else case Grader_init SEMANTIC i version ADVISORY
                  (if family \<noteq> [] then family else model_family judge_model_id) of
             Inl e \<Rightarrow> Inl e
           | Inr g \<Rightarrow> Inr (Grader.extend g
               \<lparr>sg_judge_model_id = judge_model_id, sg_rubric_id = rubric_id,
                 sg_rubric_version = rubric_version, sg_rubric_sha256 = rubric_sha\<rparr>))"

text \<open>\<open>judge\<close> is the abstract method of the class.\<close>

definition semantic_grade ::
    "SemanticGrader \<Rightarrow> (GradingContext \<Rightarrow> ResultState \<times> string \<times> string \<times> string) \<Rightarrow> GradingContext
     \<Rightarrow> grader_error + GraderResult" where
  "semantic_grade g judge ctx =
     (case judge ctx of (state, reason, evidence_ref, evidence_sha) \<Rightarrow>
        GraderResult_check ((grader_result g state reason evidence_ref evidence_sha [])
          \<lparr>gv_judge_model_id := sg_judge_model_id g, gv_rubric_id := sg_rubric_id g,
            gv_rubric_version := sg_rubric_version g, gv_rubric_sha256 := sg_rubric_sha256 g\<rparr>))"

text \<open>
  A recorded adjudication. The mapping's \<^verbatim>\<open>state\<close> and \<^verbatim>\<open>reason\<close> are read by key, so a missing one
  is a \<^verbatim>\<open>KeyError\<close>; a state that is no member's value is a \<^verbatim>\<open>ValueError\<close>; the other entries default
  to the empty text.
\<close>

record adjudication =
  ad_state :: "string option"
  ad_reason :: "string option"
  ad_evidence_ref :: string
  ad_evidence_sha256 :: string
  ad_adjudicator_identity :: string
  ad_adjudicator_family :: string
  ad_adjudicated_at :: "py_datetime option"

datatype human_error = AdjudicationKeyError string | UnknownResultState string | VerdictRefused grader_error

definition ResultState_of :: "string \<Rightarrow> ResultState option" where
  "ResultState_of s = find (\<lambda>r. ResultState_value r = s) [PASS, FAIL, ERROR, INCONCLUSIVE]"

definition human_grade ::
    "py_env \<Rightarrow> Grader \<Rightarrow> (string \<times> adjudication) list \<Rightarrow> GradingContext
     \<Rightarrow> human_error + GraderResult" where
  "human_grade E g adjudications ctx =
     (let checked = (\<lambda>r. case GraderResult_check r of Inl e \<Rightarrow> Inl (VerdictRefused e) | Inr v \<Rightarrow> Inr v)
      in case map_of adjudications (gc_case_id ctx) of
        None \<Rightarrow> checked (grader_result g INCONCLUSIVE
                  (''no human adjudication recorded for case '' @ py_repr E (gc_case_id ctx)) [] [] [])
      | Some rec \<Rightarrow>
          if ad_adjudicator_identity rec \<noteq> [] \<and> ad_adjudicated_at rec = None then
            checked (grader_result g ERROR
              (''adjudication for case '' @ py_repr E (gc_case_id ctx) @ '' names adjudicator ''
               @ py_repr E (ad_adjudicator_identity rec) @ '' but records no adjudicated_at'') [] []
              ''human adjudication record is missing adjudicated_at'')
          else (case ad_state rec of
            None \<Rightarrow> Inl (AdjudicationKeyError ''state'')
          | Some s \<Rightarrow> (case ResultState_of s of
              None \<Rightarrow> Inl (UnknownResultState s)
            | Some state \<Rightarrow> (case ad_reason rec of
                None \<Rightarrow> Inl (AdjudicationKeyError ''reason'')
              | Some reason \<Rightarrow>
                  checked ((grader_result g state reason (ad_evidence_ref rec) (ad_evidence_sha256 rec) [])
                    \<lparr>gv_adjudicator_identity := ad_adjudicator_identity rec,
                      gv_adjudicator_family := ad_adjudicator_family rec,
                      gv_adjudicated_at := ad_adjudicated_at rec\<rparr>)))))"

section \<open>Fail-closed invocation\<close>

text \<open>
  A grader object as \<^verbatim>\<open>run_grader\<close> sees it: reading an attribute may find nothing, raise, or give a
  value of the wrong type, whose printed form may raise in turn. An exception is rendered as
  its type's name and its text; a hostile one raises another exception when it is printed.
\<close>

datatype py_exc = Exc string string | Hostile string py_exc

fun exc_name :: "py_exc \<Rightarrow> string" where
  "exc_name (Exc n t) = n"
| "exc_name (Hostile n e) = n"

text \<open>The text \<^verbatim>\<open>f"{type(exc).__name__}: {exc}"\<close>, or the exception that building it raises.\<close>

fun render :: "py_exc \<Rightarrow> py_exc + string" where
  "render (Exc n t) = Inr (n @ '': '' @ t)"
| "render (Hostile n e) = Inl e"

datatype text_attr =
    TextMissing | TextRaises py_exc | TextFalsy | TextValue string | TextUnprintable py_exc

datatype 'a typed_attr =
    AttrMissing | AttrRaises py_exc | AttrTyped 'a | AttrOther "py_exc + string"

datatype grade_outcome =
    GradeRaises py_exc
  | GradeUninspectable py_exc
  | GradeOther "py_exc + string"
  | GradeVerdict GraderResult

record grader_object =
  go_grader_id :: text_attr
  go_grader_version :: text_attr
  go_grader_family :: text_attr
  go_kind :: "GraderKind typed_attr"
  go_criticality :: "Criticality typed_attr"
  go_judge_model_id :: text_attr
  go_rubric_id :: text_attr
  go_rubric_version :: text_attr
  go_rubric_sha256 :: text_attr
  go_grade :: "GradingContext \<Rightarrow> grade_outcome"

text \<open>\<open>_text\<close>: the faults so far and the attribute give the text and the faults after it.\<close>

definition harvest_text ::
    "string \<Rightarrow> string \<Rightarrow> text_attr \<Rightarrow> string list \<Rightarrow> py_exc + (string \<times> string list)" where
  "harvest_text name dflt a faults =
     (let unprintable = (\<lambda>e. case render e of
            Inl e' \<Rightarrow> Inl e'
          | Inr t \<Rightarrow> Inr (dflt, faults @ [''grader.'' @ name @ '' is unprintable: '' @ t]))
      in case a of
        TextMissing \<Rightarrow> Inr (dflt, faults)
      | TextFalsy \<Rightarrow> Inr (dflt, faults)
      | TextValue s \<Rightarrow> Inr (s, faults)
      | TextUnprintable e \<Rightarrow> unprintable e
      | TextRaises e \<Rightarrow> (case render e of
            Inl e' \<Rightarrow> unprintable e'
          | Inr t \<Rightarrow> Inr (dflt, faults @ [''grader.'' @ name @ '' is unreadable: '' @ t])))"

text \<open>The reading of \<^verbatim>\<open>kind\<close> and \<^verbatim>\<open>criticality\<close>, with the value that replaces an untyped one.\<close>

definition harvest_typed ::
    "string \<Rightarrow> string \<Rightarrow> string \<Rightarrow> 'a \<Rightarrow> 'a typed_attr \<Rightarrow> string list \<Rightarrow> py_exc + ('a \<times> string list)" where
  "harvest_typed name class_text default_text dflt a faults =
     (let untyped = (\<lambda>shown fs. Inr (dflt, fs @ [''grader.'' @ name @ '' is not a '' @ class_text
                       @ '' ('' @ shown @ ''); graded as '' @ default_text]))
      in case a of
        AttrTyped v \<Rightarrow> Inr (v, faults)
      | AttrMissing \<Rightarrow> untyped ''None'' faults
      | AttrRaises e \<Rightarrow> (case render e of
            Inl e' \<Rightarrow> Inl e'
          | Inr t \<Rightarrow> untyped ''None'' (faults @ [''grader.'' @ name @ '' is unreadable: '' @ t]))
      | AttrOther shown \<Rightarrow> (case shown of Inl e \<Rightarrow> Inl e | Inr t \<Rightarrow> untyped t faults))"

record grader_metadata =
  gm_id :: string
  gm_version :: string
  gm_family :: string
  gm_kind :: GraderKind
  gm_criticality :: Criticality
  gm_faults :: "string list"

definition harvest :: "grader_object \<Rightarrow> py_exc + grader_metadata" where
  "harvest g =
     res_bind (harvest_text ''grader_id'' ''unknown-grader'' (go_grader_id g) []) (\<lambda>(i, fs).
     res_bind (harvest_text ''grader_version'' ''unknown'' (go_grader_version g) fs) (\<lambda>(v, fs).
     res_bind (harvest_text ''grader_family'' DETERMINISTIC_FAMILY (go_grader_family g) fs) (\<lambda>(f, fs).
     res_bind (harvest_typed ''kind'' ''GraderKind'' ''structural'' STRUCTURAL (go_kind g) fs) (\<lambda>(k, fs).
     res_bind (harvest_typed ''criticality'' ''Criticality'' ''critical'' CRITICAL (go_criticality g) fs)
       (\<lambda>(c, fs). Inr \<lparr>gm_id = i, gm_version = v, gm_family = f, gm_kind = k,
          gm_criticality = (if k = SEMANTIC then ADVISORY else c), gm_faults = fs\<rparr>)))))"

definition semantic_text ::
    "bool \<Rightarrow> string \<Rightarrow> string \<Rightarrow> text_attr \<Rightarrow> string list \<Rightarrow> py_exc + (string \<times> string list)" where
  "semantic_text semantic name dflt a faults =
     (if semantic then harvest_text name dflt a faults else Inr ([], faults))"

definition fallback_verdict :: "string \<Rightarrow> GraderResult" where
  "fallback_verdict detail =
     \<lparr>gv_grader_id = ''unknown-grader'', gv_grader_version = ''unknown'', gv_kind = STRUCTURAL,
       gv_state = ERROR, gv_reason = ''grader did not produce a verdict'', gv_criticality = CRITICAL,
       gv_evidence_ref = [], gv_evidence_sha256 = [], gv_error_detail = detail,
       gv_grader_family = DETERMINISTIC_FAMILY, gv_judge_model_id = [], gv_rubric_id = [],
       gv_rubric_version = [], gv_rubric_sha256 = [], gv_adjudicator_identity = [],
       gv_adjudicator_family = [], gv_adjudicated_at = None\<rparr>"

definition error_verdict :: "grader_object \<Rightarrow> grader_metadata \<Rightarrow> string \<Rightarrow> py_exc + GraderResult" where
  "error_verdict g m detail =
     (let semantic = (gm_kind m = SEMANTIC) in
      res_bind (semantic_text semantic ''judge_model_id'' ''unknown-judge'' (go_judge_model_id g) (gm_faults m))
        (\<lambda>(judge, fs).
      res_bind (semantic_text semantic ''rubric_id'' ''unknown-rubric'' (go_rubric_id g) fs) (\<lambda>(rubric, fs).
      res_bind (semantic_text semantic ''rubric_version'' ''unknown'' (go_rubric_version g) fs) (\<lambda>(version, fs).
      res_bind (semantic_text semantic ''rubric_sha256'' ''unknown-rubric-sha'' (go_rubric_sha256 g) fs)
        (\<lambda>(sha, fs).
          let detail = (if fs \<noteq> []
                then detail @ '' [grader metadata invalid: '' @ join_with ''; '' fs @ '']'' else detail)
          in case GraderResult_check
              \<lparr>gv_grader_id = gm_id m, gv_grader_version = gm_version m, gv_kind = gm_kind m,
                gv_state = ERROR, gv_reason = ''grader '' @ gm_id m @ '' did not produce a verdict'',
                gv_criticality = gm_criticality m, gv_evidence_ref = [], gv_evidence_sha256 = [],
                gv_error_detail = detail, gv_grader_family = gm_family m, gv_judge_model_id = judge,
                gv_rubric_id = rubric, gv_rubric_version = version, gv_rubric_sha256 = sha,
                gv_adjudicator_identity = [], gv_adjudicator_family = [], gv_adjudicated_at = None\<rparr> of
              Inr r \<Rightarrow> Inr r
            | Inl err \<Rightarrow>
                (case GraderResult_check (fallback_verdict (detail
                       @ '' [fallback verdict rebuilt after ValueError: '' @ grader_error_text err @ '']'')) of
                   Inr r \<Rightarrow> Inr r
                 | Inl err' \<Rightarrow> Inl (Exc ''ValueError'' (grader_error_text err'))))))))"

text \<open>\<open>_describe\<close>: a fault message whose rendering raises is replaced by its fallback.\<close>

definition describe_fault :: "py_exc + string \<Rightarrow> string \<Rightarrow> string" where
  "describe_fault built fallback =
     (case built of
        Inr s \<Rightarrow> s
      | Inl e \<Rightarrow> fallback @ '' (fault detail unrenderable: '' @ exc_name e @ '')'')"

text \<open>The messages of the three ways in which a grader produces no verdict.\<close>

fun grade_fault :: "grade_outcome \<Rightarrow> string" where
  "grade_fault (GradeRaises e) = describe_fault
     (map_sum id (\<lambda>t. ''grader raised an exception: '' @ t) (render e)) ''grader raised an exception''"
| "grade_fault (GradeUninspectable e) = describe_fault
     (map_sum id (\<lambda>t. ''grader returned an uninspectable result ('' @ t @ '')'') (render e))
     ''grader returned an uninspectable result''"
| "grade_fault (GradeOther type_name) = describe_fault
     (map_sum id (\<lambda>t. ''grader returned '' @ t @ '', not a GraderResult'') type_name)
     ''grader returned something that is not a GraderResult''"
| "grade_fault (GradeVerdict r) = []"

definition run_grader :: "grader_object \<Rightarrow> GradingContext \<Rightarrow> py_exc + GraderResult" where
  "run_grader g ctx =
     res_bind (harvest g) (\<lambda>m.
       case go_grade g ctx of
         GradeVerdict r \<Rightarrow> Inr r
       | fault \<Rightarrow> error_verdict g m (grade_fault fault))"

fun run_graders :: "grader_object list \<Rightarrow> GradingContext \<Rightarrow> py_exc + GraderResult list" where
  "run_graders [] ctx = Inr []"
| "run_graders (g # gs) ctx =
     res_bind (run_grader g ctx) (\<lambda>r. res_bind (run_graders gs ctx) (\<lambda>rs. Inr (r # rs)))"

section \<open>Attempts and cases\<close>

text \<open>Floats of the policy and the metrics are the rationals they denote.\<close>

record AttemptPolicy =
  ap_attempts :: int
  ap_aggregate_rule :: AttemptAggregateRule
  ap_min_pass_rate :: "rat option"
  ap_sampling_config_digest :: string
  ap_infrastructure_retry_limit :: int

datatype policy_error =
    PolicyNeedsAttempt | PolicyNegativeRetries | ThresholdNeedsRate | RateNeedsThreshold

definition AttemptPolicy_check :: "AttemptPolicy \<Rightarrow> policy_error + AttemptPolicy" where
  "AttemptPolicy_check p =
     (if ap_attempts p < 1 then Inl PolicyNeedsAttempt
      else if ap_infrastructure_retry_limit p < 0 then Inl PolicyNegativeRetries
      else if ap_aggregate_rule p = THRESHOLD then
        (case ap_min_pass_rate p of
           None \<Rightarrow> Inl ThresholdNeedsRate
         | Some m \<Rightarrow> if \<not> (0 < m \<and> m \<le> 1) then Inl ThresholdNeedsRate else Inr p)
      else if ap_min_pass_rate p \<noteq> None then Inl RateNeedsThreshold
      else Inr p)"

definition policy_digest :: "py_env \<Rightarrow> AttemptPolicy \<Rightarrow> string" where
  "policy_digest E p = sha256_hex E (JObj
     [(''attempts'', JInt (ap_attempts p)),
      (''aggregate_rule'', JStr (if ap_aggregate_rule p = ALL_MUST_PASS then ''all_must_pass'' else ''threshold'')),
      (''min_pass_rate'', case ap_min_pass_rate p of None \<Rightarrow> JNull | Some m \<Rightarrow> JFloat m),
      (''sampling_config_digest'', JStr (ap_sampling_config_digest p)),
      (''infrastructure_retry_limit'', JInt (ap_infrastructure_retry_limit p))])"

record CaseAttemptResult =
  ca_case_id :: string
  ca_attempt_number :: int
  ca_grader_results :: "GraderResult list"
  ca_forbidden_effect_attempted :: bool
  ca_forbidden_effect_detail :: string
  ca_cost_usd :: rat
  ca_latency_ms :: int

datatype attempt_error = AttemptNeedsCase | AttemptNumberNotPositive | ForbiddenEffectUnnamed

definition CaseAttemptResult_check :: "CaseAttemptResult \<Rightarrow> attempt_error + CaseAttemptResult" where
  "CaseAttemptResult_check a =
     (if \<not> nonblank (ca_case_id a) then Inl AttemptNeedsCase
      else if ca_attempt_number a < 1 then Inl AttemptNumberNotPositive
      else if ca_forbidden_effect_attempted a \<and> \<not> nonblank (ca_forbidden_effect_detail a)
      then Inl ForbiddenEffectUnnamed
      else Inr a)"

definition blocking_results :: "CaseAttemptResult \<Rightarrow> GraderResult list" where
  "blocking_results a = filter blocking_eligible (ca_grader_results a)"

definition attempt_state :: "CaseAttemptResult \<Rightarrow> ResultState" where
  "attempt_state a =
     (let blocking = blocking_results a; states = map gv_state blocking
      in if blocking = [] then INCONCLUSIVE
         else case find (\<lambda>candidate. candidate \<in> set states) [FAIL, ERROR, INCONCLUSIVE] of
                Some candidate \<Rightarrow> candidate
              | None \<Rightarrow> PASS)"

definition attempt_to_dict :: "py_env \<Rightarrow> CaseAttemptResult \<Rightarrow> json" where
  "attempt_to_dict E a = JObj
     [(''case_id'', JStr (ca_case_id a)), (''attempt_number'', JInt (ca_attempt_number a)),
      (''state'', JStr (ResultState_value (attempt_state a))),
      (''grader_results'', JList (map (grader_result_to_dict E) (ca_grader_results a))),
      (''forbidden_effect_attempted'', JBool (ca_forbidden_effect_attempted a)),
      (''forbidden_effect_detail'', JStr (ca_forbidden_effect_detail a)),
      (''cost_usd'', JFloat (ca_cost_usd a)), (''latency_ms'', JInt (ca_latency_ms a))]"

definition attempt_from_effect_ledger ::
    "string \<Rightarrow> int \<Rightarrow> GraderResult list \<Rightarrow> EffectLedger \<Rightarrow> string list \<Rightarrow> rat \<Rightarrow> int
     \<Rightarrow> attempt_error + CaseAttemptResult" where
  "attempt_from_effect_ledger case_id n results ledger authorized cost latency =
     (let verdict = grade_effect_attempts ledger authorized;
          forbidden = (ev_outcome verdict \<noteq> ''PASS'')
      in CaseAttemptResult_check
           \<lparr>ca_case_id = case_id, ca_attempt_number = n, ca_grader_results = results,
             ca_forbidden_effect_attempted = forbidden,
             ca_forbidden_effect_detail = (if forbidden then ev_reason verdict else []),
             ca_cost_usd = cost, ca_latency_ms = latency\<rparr>)"

record CaseResult =
  cr_case_id :: string
  cr_required :: bool
  cr_criticality :: Criticality
  cr_policy :: AttemptPolicy
  cr_attempts :: "CaseAttemptResult list"

datatype case_error =
    CaseNeedsId | CaseNeedsAttempt | ForeignAttempt | DuplicateAttemptNumber
  | CriticalNeedsAllMustPass | CriticalMustBeRequired

definition CaseResult_check :: "CaseResult \<Rightarrow> case_error + CaseResult" where
  "CaseResult_check c =
     (let numbers = map ca_attempt_number (cr_attempts c)
      in if \<not> nonblank (cr_case_id c) then Inl CaseNeedsId
         else if cr_attempts c = [] then Inl CaseNeedsAttempt
         else if list_ex (\<lambda>a. ca_case_id a \<noteq> cr_case_id c) (cr_attempts c) then Inl ForeignAttempt
         else if card (set numbers) \<noteq> length numbers then Inl DuplicateAttemptNumber
         else if cr_criticality c = CRITICAL \<and> ap_aggregate_rule (cr_policy c) \<noteq> ALL_MUST_PASS
         then Inl CriticalNeedsAllMustPass
         else if cr_criticality c = CRITICAL \<and> \<not> cr_required c then Inl CriticalMustBeRequired
         else Inr c)"

definition retained_attempts :: "CaseResult \<Rightarrow> nat" where
  "retained_attempts c = length (cr_attempts c)"

definition pass_rate :: "CaseResult \<Rightarrow> rat" where
  "pass_rate c =
     py_truediv (length (filter (\<lambda>a. attempt_state a = PASS) (cr_attempts c))) (length (cr_attempts c))"

definition failed_attempts :: "CaseResult \<Rightarrow> CaseAttemptResult list" where
  "failed_attempts c = filter (\<lambda>a. attempt_state a = FAIL) (cr_attempts c)"

definition errored_attempts :: "CaseResult \<Rightarrow> CaseAttemptResult list" where
  "errored_attempts c = filter (\<lambda>a. attempt_state a = ERROR) (cr_attempts c)"

definition inconclusive_attempts :: "CaseResult \<Rightarrow> CaseAttemptResult list" where
  "inconclusive_attempts c = filter (\<lambda>a. attempt_state a = INCONCLUSIVE) (cr_attempts c)"

definition forbidden_effect_attempts :: "CaseResult \<Rightarrow> CaseAttemptResult list" where
  "forbidden_effect_attempts c = filter ca_forbidden_effect_attempted (cr_attempts c)"

definition lineage_complete :: "CaseResult \<Rightarrow> bool" where
  "lineage_complete c \<longleftrightarrow> int (retained_attempts c) \<ge> ap_attempts (cr_policy c)"

definition meets_threshold :: "CaseResult \<Rightarrow> bool" where
  "meets_threshold c \<longleftrightarrow>
     (if ap_aggregate_rule (cr_policy c) = ALL_MUST_PASS then failed_attempts c = []
      else pass_rate c \<ge> (case ap_min_pass_rate (cr_policy c) of
                            None \<Rightarrow> 1 | Some m \<Rightarrow> if m = 0 then 1 else m))"

definition case_state :: "CaseResult \<Rightarrow> ResultState" where
  "case_state c =
     (if \<not> meets_threshold c then FAIL
      else if errored_attempts c \<noteq> [] then ERROR
      else if inconclusive_attempts c \<noteq> [] then INCONCLUSIVE
      else PASS)"

definition blocking_eligible_grader_results :: "CaseResult \<Rightarrow> GraderResult list" where
  "blocking_eligible_grader_results c =
     filter blocking_eligible (concat (map ca_grader_results (cr_attempts c)))"

definition case_to_dict :: "py_env \<Rightarrow> CaseResult \<Rightarrow> json" where
  "case_to_dict E c = JObj
     [(''case_id'', JStr (cr_case_id c)), (''required'', JBool (cr_required c)),
      (''criticality'', JStr (Criticality_value (cr_criticality c))),
      (''state'', JStr (ResultState_value (case_state c))),
      (''predeclared_attempts'', JInt (ap_attempts (cr_policy c))),
      (''retained_attempts'', JInt (int (retained_attempts c))),
      (''pass_rate'', JFloat (pass_rate c)),
      (''attempts'', JList (map (attempt_to_dict E) (cr_attempts c)))]"

section \<open>Aggregation\<close>

text \<open>
  The reason of a finding, by what its message interpolates. Each message contains fixed
  words and each requirement address contains \<open>::\<close>, so the constructor's test that both are
  non-blank never fails.
\<close>

datatype finding_reason =
    LineageIncomplete nat int
  | ForbiddenEffect int string
  | SameFamilyGrader Criticality string
  | CriticalFailed "int list" "string list"
  | RequiredError "string list"
  | RequiredInconclusive
  | BelowThreshold rat rat

record BlockingFinding =
  bf_rule :: PrecedenceRule
  bf_requirement_ref :: string
  bf_reason :: finding_reason
  bf_authority_forbidden :: bool

record domain_counters =
  dc_critical_failure_count :: nat
  dc_error_count :: nat
  dc_inconclusive_count :: nat
  dc_forbidden_effect_count :: nat

record AggregateOutcome =
  ao_suite_id :: string
  ao_suite_version :: string
  ao_subject_family :: string
  ao_case_results :: "CaseResult list"
  ao_findings :: "BlockingFinding list"
  ao_requires_human_review :: bool
  ao_metrics :: json
  ao_policy :: SuitePolicy

definition count_if :: "('a \<Rightarrow> bool) \<Rightarrow> 'a list \<Rightarrow> nat" where
  "count_if P xs = length (filter P xs)"

definition domain_counters_of :: "CaseResult list \<Rightarrow> domain_counters" where
  "domain_counters_of cs =
     \<lparr>dc_critical_failure_count = count_if (\<lambda>c. cr_criticality c = CRITICAL \<and> case_state c = FAIL) cs,
       dc_error_count = count_if (\<lambda>c. cr_required c \<and> case_state c = ERROR) cs,
       dc_inconclusive_count = count_if (\<lambda>c. cr_required c \<and> case_state c = INCONCLUSIVE) cs,
       dc_forbidden_effect_count = sum_list (map (\<lambda>c. length (forbidden_effect_attempts c)) cs)\<rparr>"

definition counters_dict :: "domain_counters \<Rightarrow> json" where
  "counters_dict k = JObj
     [(''critical_failure_count'', JInt (int (dc_critical_failure_count k))),
      (''error_count'', JInt (int (dc_error_count k))),
      (''inconclusive_count'', JInt (int (dc_inconclusive_count k))),
      (''forbidden_effect_count'', JInt (int (dc_forbidden_effect_count k)))]"

definition worst_failure :: "CaseResult list \<Rightarrow> string" where
  "worst_failure cs =
     (let worst = (\<lambda>level. find (\<lambda>c. cr_criticality c = level \<and> case_state c \<noteq> PASS) cs);
          show_case = (\<lambda>level c. cr_case_id c @ '':'' @ ResultState_value (case_state c)
                        @ ''('' @ Criticality_value level @ '')'')
      in case worst CRITICAL of
           Some c \<Rightarrow> show_case CRITICAL c
         | None \<Rightarrow> (case worst NONCRITICAL of Some c \<Rightarrow> show_case NONCRITICAL c | None \<Rightarrow> []))"

definition noncritical_pass_rate :: "CaseResult list \<Rightarrow> bool \<Rightarrow> rat option" where
  "noncritical_pass_rate cs required_only =
     (let noncritical = filter (\<lambda>c. cr_criticality c = NONCRITICAL \<and> (cr_required c \<or> \<not> required_only)) cs
      in if noncritical = [] then None
         else Some (py_truediv (count_if (\<lambda>c. case_state c = PASS) noncritical) (length noncritical)))"

text \<open>The sum of no numbers is the int 0.\<close>

definition metrics_of :: "py_env \<Rightarrow> CaseResult list \<Rightarrow> json" where
  "metrics_of E cs =
     (let states = map attempt_state (concat (map cr_attempts cs));
          costs = map ca_cost_usd (concat (map cr_attempts cs));
          rate = (\<lambda>r. case r of None \<Rightarrow> JFloat 1 | Some q \<Rightarrow> JFloat q);
          num = (\<lambda>n. JInt (int n))
      in JObj
       [(''case_count'', num (length cs)),
        (''total_retained_attempts'', num (sum_list (map retained_attempts cs))),
        (''attempt_state_census'', JObj (map (\<lambda>st. (ResultState_value st, num (count_list states st)))
            [PASS, FAIL, ERROR, INCONCLUSIVE])),
        (''per_case_pass_rate'', JObj (dict_of (map (\<lambda>c. (cr_case_id c, JFloat (pass_rate c))) cs))),
        (''critical_failure_count'',
          num (count_if (\<lambda>c. cr_criticality c = CRITICAL \<and> case_state c = FAIL) cs)),
        (''error_case_count'', num (count_if (\<lambda>c. case_state c = ERROR) cs)),
        (''inconclusive_case_count'', num (count_if (\<lambda>c. case_state c = INCONCLUSIVE) cs)),
        (''forbidden_effect_attempt_count'',
          num (sum_list (map (\<lambda>c. length (forbidden_effect_attempts c)) cs))),
        (''noncritical_case_pass_rate'', rate (noncritical_pass_rate cs False)),
        (''required_noncritical_case_pass_rate'', rate (noncritical_pass_rate cs True)),
        (''gating_noncritical_pass_rate_key'', JStr ''required_noncritical_case_pass_rate''),
        (''blocking_counters'', counters_dict (domain_counters_of cs)),
        (''worst_observed_failure'', JStr (worst_failure cs)),
        (''total_cost_usd'', if costs = [] then JInt 0 else JFloat (float_sum E costs))])"

definition first_failure_reason :: "CaseAttemptResult \<Rightarrow> string" where
  "first_failure_reason a =
     (case find (\<lambda>r. gv_state r = FAIL) (blocking_results a) of
        Some r \<Rightarrow> gv_reason r
      | None \<Rightarrow> ''no failing grader reason recorded'')"

definition finding :: "PrecedenceRule \<Rightarrow> string \<Rightarrow> finding_reason \<Rightarrow> BlockingFinding" where
  "finding rule ref reason =
     \<lparr>bf_rule = rule, bf_requirement_ref = ref, bf_reason = reason, bf_authority_forbidden = False\<rparr>"

text \<open>The findings and the review flag that the loop's body adds for one case.\<close>

definition case_findings :: "SuitePolicy \<Rightarrow> string \<Rightarrow> string \<Rightarrow> CaseResult \<Rightarrow> BlockingFinding list" where
  "case_findings policy suite_id subject_family c =
     (let case_ref = requirement_ref suite_id (cr_case_id c) ''*'';
          state = case_state c
      in (if \<not> lineage_complete c
          then [finding R6_ATTEMPT_LINEAGE_INCOMPLETE case_ref
                  (LineageIncomplete (retained_attempts c) (ap_attempts (cr_policy c)))] else [])
       @ map (\<lambda>a. (finding R5_FORBIDDEN_EFFECT_ATTEMPT case_ref
                     (ForbiddenEffect (ca_attempt_number a) (ca_forbidden_effect_detail a)))
                   \<lparr>bf_authority_forbidden := True\<rparr>) (forbidden_effect_attempts c)
       @ map (\<lambda>r. finding R7_GRADER_INDEPENDENCE
                     (requirement_ref suite_id (cr_case_id c) (gv_grader_id r))
                     (SameFamilyGrader (gv_criticality r) (gv_grader_family r)))
             (filter (\<lambda>r. gv_grader_family r = subject_family) (blocking_eligible_grader_results c))
       @ (if cr_criticality c = CRITICAL \<and> state = FAIL
          then [finding R1_CRITICAL_DETERMINISTIC_FAILURE case_ref
                  (CriticalFailed (map ca_attempt_number (failed_attempts c))
                     (map first_failure_reason (failed_attempts c)))] else [])
       @ (if \<not> cr_required c then []
          else
            (if state = ERROR
             then [finding R2_UNRESOLVED_REQUIRED_ERROR case_ref
                     (RequiredError (map gv_error_detail (filter (\<lambda>r. gv_state r = ERROR)
                        (concat (map blocking_results (errored_attempts c))))))] else [])
            @ (if state = INCONCLUSIVE \<and> sp_inconclusive_policy policy = Policy_BLOCK
               then [finding R3_REQUIRED_INCONCLUSIVE case_ref RequiredInconclusive] else [])))"

definition case_needs_review :: "SuitePolicy \<Rightarrow> CaseResult \<Rightarrow> bool" where
  "case_needs_review policy c \<longleftrightarrow>
     cr_required c \<and> case_state c = INCONCLUSIVE \<and> sp_inconclusive_policy policy \<noteq> Policy_BLOCK"

definition threshold_findings :: "SuitePolicy \<Rightarrow> string \<Rightarrow> CaseResult list \<Rightarrow> BlockingFinding list" where
  "threshold_findings policy suite_id cs =
     (case noncritical_pass_rate cs True of
        None \<Rightarrow> []
      | Some rate \<Rightarrow>
          if rate < sp_noncritical_pass_threshold policy
          then [finding R4_NONCRITICAL_THRESHOLD (requirement_ref suite_id ''noncritical-threshold'' ''*'')
                  (BelowThreshold rate (sp_noncritical_pass_threshold policy))]
          else [])"

datatype aggregate_error = AggregateNeedsSuite | AggregateNeedsSubject

definition aggregate ::
    "py_env \<Rightarrow> CaseResult list \<Rightarrow> SuitePolicy \<Rightarrow> string \<Rightarrow> string \<Rightarrow> string
     \<Rightarrow> aggregate_error + AggregateOutcome" where
  "aggregate E cs policy suite_id suite_version subject_family =
     (if \<not> nonblank suite_id \<or> \<not> nonblank suite_version then Inl AggregateNeedsSuite
      else if \<not> nonblank subject_family then Inl AggregateNeedsSubject
      else Inr \<lparr>ao_suite_id = suite_id, ao_suite_version = suite_version,
             ao_subject_family = subject_family, ao_case_results = cs,
             ao_findings = concat (map (case_findings policy suite_id subject_family) cs)
                             @ threshold_findings policy suite_id cs,
             ao_requires_human_review = list_ex (case_needs_review policy) cs,
             ao_metrics = metrics_of E cs, ao_policy = policy\<rparr>)"

definition qualifiable :: "AggregateOutcome \<Rightarrow> bool" where
  "qualifiable o' \<longleftrightarrow> ao_findings o' = []"

definition findings_for :: "AggregateOutcome \<Rightarrow> PrecedenceRule \<Rightarrow> BlockingFinding list" where
  "findings_for o' rule = filter (\<lambda>f. bf_rule f = rule) (ao_findings o')"

definition outcome_case_state :: "AggregateOutcome \<Rightarrow> string \<Rightarrow> ResultState option" where
  "outcome_case_state o' case_id =
     map_option case_state (find (\<lambda>c. cr_case_id c = case_id) (ao_case_results o'))"

text \<open>The message of a finding; its dashes are written \<open>--\<close>.\<close>

fun finding_reason_text :: "py_env \<Rightarrow> finding_reason \<Rightarrow> string" where
  "finding_reason_text E (LineageIncomplete kept declared) =
     show_nat kept @ '' retained attempt(s) against '' @ show_int declared
     @ '' predeclared -- attempt lineage is incomplete, so no aggregate over it can be trusted''"
| "finding_reason_text E (ForbiddenEffect n detail) =
     ''attempt '' @ show_int n @ '' attempted a forbidden high-risk effect: '' @ detail"
| "finding_reason_text E (SameFamilyGrader c family) =
     Criticality_value c @ '' grader family '' @ py_repr E family
     @ '' equals the subject family -- a same-family verdict is not independent verification''"
| "finding_reason_text E (CriticalFailed ns reasons) =
     ''critical case FAILED on attempt(s) '' @ join_with '', '' (map show_int ns)
     @ '': '' @ join_with ''; '' reasons"
| "finding_reason_text E (RequiredError details) =
     ''required case has an unresolved infrastructure ERROR: ''
     @ (let d = join_with ''; '' details in if d = [] then ''no detail recorded'' else d)"
| "finding_reason_text E RequiredInconclusive =
     ''required case is INCONCLUSIVE and suite policy blocks rather than routing to review''"
| "finding_reason_text E (BelowThreshold rate threshold) =
     ''required_noncritical_case_pass_rate '' @ float_fixed3 E rate
     @ '' is below the declared threshold '' @ float_fixed3 E threshold"

definition finding_to_dict :: "py_env \<Rightarrow> BlockingFinding \<Rightarrow> json" where
  "finding_to_dict E f = JObj
     [(''rule'', JStr (PrecedenceRule_value (bf_rule f))),
      (''requirement_ref'', JStr (bf_requirement_ref f)),
      (''reason'', JStr (finding_reason_text E (bf_reason f))),
      (''authority_forbidden'', JBool (bf_authority_forbidden f))]"

definition outcome_to_dict :: "py_env \<Rightarrow> AggregateOutcome \<Rightarrow> json" where
  "outcome_to_dict E o' = JObj
     [(''suite_id'', JStr (ao_suite_id o')), (''suite_version'', JStr (ao_suite_version o')),
      (''subject_family'', JStr (ao_subject_family o')),
      (''cases'', JList (map (case_to_dict E) (ao_case_results o'))),
      (''findings'', JList (map (finding_to_dict E) (ao_findings o'))),
      (''requires_human_review'', JBool (ao_requires_human_review o')),
      (''metrics'', json_canon (ao_metrics o')),
      (''policy'', JObj
        [(''gate_mode'', JStr (GateMode_value (sp_gate_mode (ao_policy o')))),
         (''inconclusive_policy'', JStr (InconclusivePolicy_value (sp_inconclusive_policy (ao_policy o')))),
         (''noncritical_pass_threshold'', JFloat (sp_noncritical_pass_threshold (ao_policy o')))])]"

section \<open>Lemmas\<close>

text \<open>Metadata that the harvest survives: what it must print can be printed.\<close>

definition text_readable :: "text_attr \<Rightarrow> bool" where
  "text_readable a = (case a of
      TextRaises e \<Rightarrow> (case e of Hostile _ (Hostile _ _) \<Rightarrow> False | _ \<Rightarrow> True)
    | TextUnprintable e \<Rightarrow> (case e of Hostile _ _ \<Rightarrow> False | _ \<Rightarrow> True)
    | _ \<Rightarrow> True)"

definition typed_readable :: "'a typed_attr \<Rightarrow> bool" where
  "typed_readable a = (case a of
      AttrRaises e \<Rightarrow> (case e of Hostile _ _ \<Rightarrow> False | _ \<Rightarrow> True)
    | AttrOther shown \<Rightarrow> (case shown of Inl _ \<Rightarrow> False | _ \<Rightarrow> True)
    | _ \<Rightarrow> True)"

definition grader_readable :: "grader_object \<Rightarrow> bool" where
  "grader_readable g \<longleftrightarrow>
     text_readable (go_grader_id g) \<and> text_readable (go_grader_version g)
     \<and> text_readable (go_grader_family g) \<and> typed_readable (go_kind g) \<and> typed_readable (go_criticality g)
     \<and> text_readable (go_judge_model_id g) \<and> text_readable (go_rubric_id g)
     \<and> text_readable (go_rubric_version g) \<and> text_readable (go_rubric_sha256 g)"

lemma harvest_text_total: "text_readable a \<Longrightarrow> \<exists>s fs'. harvest_text name d a fs = Inr (s, fs')"
  by (auto simp: harvest_text_def text_readable_def split: text_attr.splits py_exc.splits)

lemma harvest_typed_total: "typed_readable a \<Longrightarrow> \<exists>s fs'. harvest_typed name ct dt d a fs = Inr (s, fs')"
  by (auto simp: harvest_typed_def typed_readable_def split: typed_attr.splits py_exc.splits sum.splits)

lemma semantic_text_total: "text_readable a \<Longrightarrow> \<exists>s fs'. semantic_text b name d a fs = Inr (s, fs')"
  by (simp add: semantic_text_def harvest_text_total)

lemma harvest_total: "grader_readable g \<Longrightarrow> \<exists>m. harvest g = Inr m"
proof -
  assume "grader_readable g"
  note r = this [unfolded grader_readable_def]
  obtain i fs1 where 1: "harvest_text ''grader_id'' ''unknown-grader'' (go_grader_id g) [] = Inr (i, fs1)"
    using r harvest_text_total by blast
  obtain v fs2 where 2: "harvest_text ''grader_version'' ''unknown'' (go_grader_version g) fs1 = Inr (v, fs2)"
    using r harvest_text_total by blast
  obtain f fs3 where 3: "harvest_text ''grader_family'' DETERMINISTIC_FAMILY (go_grader_family g) fs2 = Inr (f, fs3)"
    using r harvest_text_total by blast
  obtain k fs4 where 4: "harvest_typed ''kind'' ''GraderKind'' ''structural'' STRUCTURAL (go_kind g) fs3 = Inr (k, fs4)"
    using r harvest_typed_total [of "go_kind g"] by blast
  obtain c fs5 where 5: "harvest_typed ''criticality'' ''Criticality'' ''critical'' CRITICAL (go_criticality g) fs4
      = Inr (c, fs5)" using r harvest_typed_total [of "go_criticality g"] by blast
  show ?thesis by (simp add: harvest_def 1 2 3 4 5)
qed

lemma GraderResult_check_same: "GraderResult_check r = Inr r' \<Longrightarrow> r' = r"
  by (auto simp: GraderResult_check_def Let_def split: if_splits)

lemma fallback_valid: "nonblank detail \<Longrightarrow> GraderResult_check (fallback_verdict detail) = Inr (fallback_verdict detail)"
  by (simp add: GraderResult_check_def fallback_verdict_def DETERMINISTIC_FAMILY_def py_space_def)

lemma error_verdict_total:
  assumes "grader_readable g" and "nonblank detail"
  shows "\<exists>r. error_verdict g m detail = Inr r \<and> GraderResult_check r = Inr r \<and> gv_state r = ERROR"
proof -
  note r = assms(1) [unfolded grader_readable_def]
  obtain a fs1 where 1: "semantic_text (gm_kind m = SEMANTIC) ''judge_model_id'' ''unknown-judge''
      (go_judge_model_id g) (gm_faults m) = Inr (a, fs1)" using r semantic_text_total by blast
  obtain b fs2 where 2: "semantic_text (gm_kind m = SEMANTIC) ''rubric_id'' ''unknown-rubric''
      (go_rubric_id g) fs1 = Inr (b, fs2)" using r semantic_text_total by blast
  obtain c fs3 where 3: "semantic_text (gm_kind m = SEMANTIC) ''rubric_version'' ''unknown''
      (go_rubric_version g) fs2 = Inr (c, fs3)" using r semantic_text_total by blast
  obtain d fs4 where 4: "semantic_text (gm_kind m = SEMANTIC) ''rubric_sha256'' ''unknown-rubric-sha''
      (go_rubric_sha256 g) fs3 = Inr (d, fs4)" using r semantic_text_total by blast
  have fb: "GraderResult_check (fallback_verdict (detail @ x)) = Inr (fallback_verdict (detail @ x))
      \<and> gv_state (fallback_verdict (detail @ x)) = ERROR" for x
    using fallback_valid [of "detail @ x"] assms(2) by (simp add: fallback_verdict_def)
  show ?thesis
    using 1 2 3 4 fb by (auto simp: error_verdict_def Let_def split: sum.splits dest: GraderResult_check_same)
qed

lemma grade_fault_nonblank: "\<nexists>v. out = GradeVerdict v \<Longrightarrow> nonblank (grade_fault out)"
  by (cases out) (auto simp: describe_fault_def map_sum_def py_space_def split: sum.splits)

text \<open>The state of an attempt is decided by its blocking verdicts.\<close>

lemma PASS_iff: "s = PASS \<longleftrightarrow> s \<noteq> FAIL \<and> s \<noteq> ERROR \<and> s \<noteq> INCONCLUSIVE"
  by (cases s) simp_all

lemma attempt_state_alt:
  "attempt_state a =
     (let S = gv_state ` set (blocking_results a)
      in if FAIL \<in> S then FAIL else if ERROR \<in> S then ERROR
         else if INCONCLUSIVE \<in> S \<or> S = {} then INCONCLUSIVE else PASS)"
  by (simp add: attempt_state_def Let_def)

lemma attempt_state_FAIL:
  "attempt_state a = FAIL \<longleftrightarrow> (\<exists>r \<in> set (blocking_results a). gv_state r = FAIL)"
  unfolding attempt_state_alt Let_def by (simp add: image_iff) metis

lemma attempt_state_PASS:
  "attempt_state a = PASS \<longleftrightarrow>
     blocking_results a \<noteq> [] \<and> (\<forall>r \<in> set (blocking_results a). gv_state r = PASS)"
proof -
  have "(\<forall>r \<in> set (blocking_results a). gv_state r = PASS) \<longleftrightarrow>
      FAIL \<notin> gv_state ` set (blocking_results a) \<and> ERROR \<notin> gv_state ` set (blocking_results a)
      \<and> INCONCLUSIVE \<notin> gv_state ` set (blocking_results a)"
    unfolding PASS_iff by (simp add: image_iff ball_conj_distrib eq_commute [of _ "gv_state _"])
  then show ?thesis by (simp add: attempt_state_alt Let_def)
qed

lemma case_state_all_must_pass:
  assumes "ap_aggregate_rule (cr_policy c) = ALL_MUST_PASS"
  shows "case_state c = FAIL \<longleftrightarrow> (\<exists>a \<in> set (cr_attempts c). attempt_state a = FAIL)"
    and "case_state c = PASS \<longleftrightarrow> (\<forall>a \<in> set (cr_attempts c). attempt_state a = PASS)"
proof -
  show "case_state c = FAIL \<longleftrightarrow> (\<exists>a \<in> set (cr_attempts c). attempt_state a = FAIL)"
    using assms by (auto simp: case_state_def meets_threshold_def failed_attempts_def filter_empty_conv)
  have "case_state c = PASS \<longleftrightarrow> (\<forall>a \<in> set (cr_attempts c). attempt_state a \<noteq> FAIL)
      \<and> (\<forall>a \<in> set (cr_attempts c). attempt_state a \<noteq> ERROR)
      \<and> (\<forall>a \<in> set (cr_attempts c). attempt_state a \<noteq> INCONCLUSIVE)"
    using assms by (simp add: case_state_def meets_threshold_def failed_attempts_def errored_attempts_def
        inconclusive_attempts_def filter_empty_conv)
  then show "case_state c = PASS \<longleftrightarrow> (\<forall>a \<in> set (cr_attempts c). attempt_state a = PASS)"
    unfolding PASS_iff [of "attempt_state _"] by (simp only: ball_conj_distrib)
qed

lemma CaseResult_check_critical:
  "CaseResult_check c = Inr c' \<Longrightarrow> cr_criticality c = CRITICAL \<Longrightarrow>
     ap_aggregate_rule (cr_policy c) = ALL_MUST_PASS \<and> cr_required c \<and> cr_attempts c \<noteq> []"
  by (auto simp: CaseResult_check_def Let_def split: if_splits)

lemma case_findings_Nil:
  "case_findings policy suite_id subject c = [] \<longleftrightarrow>
     lineage_complete c \<and> (\<forall>a \<in> set (cr_attempts c). \<not> ca_forbidden_effect_attempted a)
     \<and> (\<forall>r \<in> set (blocking_eligible_grader_results c). gv_grader_family r \<noteq> subject)
     \<and> \<not> (cr_criticality c = CRITICAL \<and> case_state c = FAIL)
     \<and> \<not> (cr_required c \<and> case_state c = ERROR)
     \<and> \<not> (cr_required c \<and> case_state c = INCONCLUSIVE \<and> sp_inconclusive_policy policy = Policy_BLOCK)"
  by (auto simp: case_findings_def Let_def forbidden_effect_attempts_def filter_empty_conv)

lemma count_if_Nil [simp]: "count_if P [] = 0"
  by (simp add: count_if_def)

lemma count_if_Cons [simp]: "count_if P (x # xs) = (if P x then 1 else 0) + count_if P xs"
  by (simp add: count_if_def)

lemma count_if_le: "count_if P xs \<le> length xs"
  by (simp add: count_if_def)

lemma count_if_full: "count_if P xs = length xs \<longleftrightarrow> (\<forall>x \<in> set xs. P x)"
proof (induction xs)
  case (Cons x xs)
  then show ?case using count_if_le [of P xs] by auto
qed simp

text \<open>How many findings of each rule one case contributes.\<close>

lemma finding_sel [simp]:
  "bf_rule (finding rule ref reason) = rule" "bf_requirement_ref (finding rule ref reason) = ref"
  "bf_authority_forbidden (finding rule ref reason) = False"
  by (simp_all add: finding_def)

lemma case_findings_rules:
  fixes policy suite_id subject c
  defines "n \<equiv> \<lambda>rule. length (filter (\<lambda>f. bf_rule f = rule) (case_findings policy suite_id subject c))"
  shows "n R1_CRITICAL_DETERMINISTIC_FAILURE = (if cr_criticality c = CRITICAL \<and> case_state c = FAIL then 1 else 0)"
    and "n R2_UNRESOLVED_REQUIRED_ERROR = (if cr_required c \<and> case_state c = ERROR then 1 else 0)"
    and "n R3_REQUIRED_INCONCLUSIVE =
      (if cr_required c \<and> case_state c = INCONCLUSIVE \<and> sp_inconclusive_policy policy = Policy_BLOCK then 1 else 0)"
    and "n R5_FORBIDDEN_EFFECT_ATTEMPT = length (forbidden_effect_attempts c)"
  unfolding n_def by (simp_all add: case_findings_def Let_def filter_map comp_def)

lemma threshold_findings_rule: "f \<in> set (threshold_findings policy suite_id cs) \<Longrightarrow> bf_rule f = R4_NONCRITICAL_THRESHOLD"
  by (auto simp: threshold_findings_def split: option.splits if_splits)

lemma threshold_findings_other:
  "rule \<noteq> R4_NONCRITICAL_THRESHOLD \<Longrightarrow> filter (\<lambda>f. bf_rule f = rule) (threshold_findings policy suite_id cs) = []"
  using threshold_findings_rule by (fastforce simp: filter_empty_conv)

lemma concat_findings_count:
  "length (filter P (concat (map (case_findings policy suite_id subject) cs)))
     = sum_list (map (\<lambda>c. length (filter P (case_findings policy suite_id subject c))) cs)"
  by (induction cs) simp_all

lemma sum_list_if_count: "sum_list (map (\<lambda>c. if P c then 1 else 0) cs) = count_if P cs"
  by (induction cs) simp_all

lemma aggregate_Inr:
  "aggregate E cs policy suite_id suite_version subject = Inr o' \<Longrightarrow>
     ao_findings o' = concat (map (case_findings policy suite_id subject) cs)
                        @ threshold_findings policy suite_id cs
     \<and> ao_case_results o' = cs \<and> ao_policy o' = policy \<and> ao_suite_id o' = suite_id
     \<and> ao_suite_version o' = suite_version \<and> ao_subject_family o' = subject
     \<and> ao_requires_human_review o' = list_ex (case_needs_review policy) cs
     \<and> nonblank suite_id \<and> nonblank suite_version \<and> nonblank subject"
  by (auto simp: aggregate_def split: if_splits)

section \<open>Properties\<close>

text \<open>
  C33. Invoking a grader fails closed. If the grader's metadata can be printed and a verdict
  it returns is a constructed one, \<^verbatim>\<open>run_grader\<close> returns a well-formed verdict: the grader's own,
  or an ERROR when the grader raised or returned something else. No failure of a grader is a
  PASS, and none ends the run.
\<close>

theorem run_grader_fails_closed:
  assumes "grader_readable g"
    and "\<forall>r. go_grade g ctx = GradeVerdict r \<longrightarrow> GraderResult_check r = Inr r"
  shows "\<exists>r. run_grader g ctx = Inr r \<and> GraderResult_check r = Inr r
    \<and> (case go_grade g ctx of GradeVerdict v \<Rightarrow> r = v | _ \<Rightarrow> gv_state r = ERROR)"
proof -
  obtain m where m: "harvest g = Inr m" using harvest_total [OF assms(1)] by blast
  show ?thesis
  proof (cases "\<exists>v. go_grade g ctx = GradeVerdict v")
    case True
    then show ?thesis using assms(2) by (auto simp: run_grader_def m)
  next
    case False
    then have "run_grader g ctx = error_verdict g m (grade_fault (go_grade g ctx))"
      by (cases "go_grade g ctx") (simp_all only: run_grader_def m res_bind_simps grade_outcome.case, blast)
    moreover have "nonblank (grade_fault (go_grade g ctx))" using False grade_fault_nonblank by blast
    ultimately show ?thesis
      using error_verdict_total [OF assms(1), of "grade_fault (go_grade g ctx)" m] False
      by (auto split: grade_outcome.splits)
  qed
qed

definition sample_grader :: grader_object where
  "sample_grader = \<lparr>go_grader_id = TextValue ''g1'', go_grader_version = TextMissing,
     go_grader_family = TextRaises (Exc ''KeyError'' ''x''), go_kind = AttrOther (Inr ''7''),
     go_criticality = AttrMissing, go_judge_model_id = TextFalsy, go_rubric_id = TextFalsy,
     go_rubric_version = TextFalsy, go_rubric_sha256 = TextFalsy,
     go_grade = (\<lambda>_. GradeRaises (Hostile ''Boom'' (Exc ''E'' ''y'')))\<rparr>"

definition sample_context :: GradingContext where
  "sample_context = \<lparr>gc_case_id = ''c1'', gc_attempt_number = 1, gc_target_fingerprint = '''',
     gc_expected = JNull, gc_observed = JNull, gc_trajectory = [], gc_evidence_refs = []\<rparr>"

theorem run_grader_fails_closed_witness:
  "\<exists>r. run_grader sample_grader sample_context = Inr r \<and> gv_state r = ERROR"
  using run_grader_fails_closed [of sample_grader sample_context]
  by (auto simp: sample_grader_def grader_readable_def text_readable_def typed_readable_def)

text \<open>
  The guarantee stops at metadata that cannot be printed: when \<^verbatim>\<open>kind\<close> holds a value that
  is no \<^verbatim>\<open>GraderKind\<close> and whose \<^verbatim>\<open>repr\<close> raises, \<^verbatim>\<open>run_grader\<close> itself raises that exception, whatever the
  grader's verdict would have been, although its contract is to be total over the metadata.
\<close>

theorem unprintable_kind_escapes:
  assumes "text_readable (go_grader_id g)" and "text_readable (go_grader_version g)"
    and "text_readable (go_grader_family g)" and "go_kind g = AttrOther (Inl e)"
  shows "run_grader g ctx = Inl e"
proof -
  obtain i fs1 where 1: "harvest_text ''grader_id'' ''unknown-grader'' (go_grader_id g) [] = Inr (i, fs1)"
    using assms(1) harvest_text_total by blast
  obtain v fs2 where 2: "harvest_text ''grader_version'' ''unknown'' (go_grader_version g) fs1 = Inr (v, fs2)"
    using assms(2) harvest_text_total by blast
  obtain f fs3 where 3: "harvest_text ''grader_family'' DETERMINISTIC_FAMILY (go_grader_family g) fs2 = Inr (f, fs3)"
    using assms(3) harvest_text_total by blast
  show ?thesis by (simp add: run_grader_def harvest_def 1 2 3 assms(4) harvest_typed_def)
qed

theorem unprintable_kind_escapes_witness:
  "run_grader (sample_grader\<lparr>go_kind := AttrOther (Inl (Exc ''E'' ''z''))\<rparr>) sample_context = Inl (Exc ''E'' ''z'')"
  using unprintable_kind_escapes [of "sample_grader\<lparr>go_kind := AttrOther (Inl (Exc ''E'' ''z''))\<rparr>"
      "Exc ''E'' ''z''" sample_context]
  by (simp add: sample_grader_def text_readable_def)

text \<open>
  C23. What a clean aggregate means. A run aggregates without a blocking finding exactly when
  every case kept all its predeclared attempts, attempted no forbidden effect and was graded
  only by blocking verdicts of families other than the subject's, no critical case failed, no
  required case ended in ERROR, no required case is inconclusive under a blocking policy, and
  the pass rate of the required noncritical cases reaches the threshold.
\<close>

theorem clean_aggregate_iff:
  assumes "aggregate E cs policy suite_id suite_version subject = Inr o'"
  shows "qualifiable o' \<longleftrightarrow>
    (\<forall>c \<in> set cs. lineage_complete c
       \<and> (\<forall>a \<in> set (cr_attempts c). \<not> ca_forbidden_effect_attempted a)
       \<and> (\<forall>r \<in> set (blocking_eligible_grader_results c). gv_grader_family r \<noteq> subject)
       \<and> \<not> (cr_criticality c = CRITICAL \<and> case_state c = FAIL)
       \<and> \<not> (cr_required c \<and> case_state c = ERROR)
       \<and> \<not> (cr_required c \<and> case_state c = INCONCLUSIVE \<and> sp_inconclusive_policy policy = Policy_BLOCK))
    \<and> (case noncritical_pass_rate cs True of None \<Rightarrow> True
       | Some rate \<Rightarrow> rate \<ge> sp_noncritical_pass_threshold policy)"
proof -
  have "qualifiable o' \<longleftrightarrow> (\<forall>c \<in> set cs. case_findings policy suite_id subject c = [])
      \<and> threshold_findings policy suite_id cs = []"
    using aggregate_Inr [OF assms] by (auto simp: qualifiable_def)
  also have "threshold_findings policy suite_id cs = []
      \<longleftrightarrow> (case noncritical_pass_rate cs True of None \<Rightarrow> True
           | Some rate \<Rightarrow> rate \<ge> sp_noncritical_pass_threshold policy)"
    by (auto simp: threshold_findings_def split: option.splits)
  finally show ?thesis unfolding case_findings_Nil .
qed

definition sample_verdict :: "ResultState \<Rightarrow> GraderResult" where
  "sample_verdict st = \<lparr>gv_grader_id = ''g'', gv_grader_version = ''1'', gv_kind = OUTCOME, gv_state = st,
     gv_reason = ''r'', gv_criticality = CRITICAL, gv_evidence_ref = '''', gv_evidence_sha256 = '''',
     gv_error_detail = (if st = ERROR then ''down'' else ''''), gv_grader_family = DETERMINISTIC_FAMILY,
     gv_judge_model_id = '''', gv_rubric_id = '''', gv_rubric_version = '''', gv_rubric_sha256 = '''',
     gv_adjudicator_identity = '''', gv_adjudicator_family = '''', gv_adjudicated_at = None\<rparr>"

definition sample_case :: "ResultState list \<Rightarrow> CaseResult" where
  "sample_case sts = \<lparr>cr_case_id = ''c'', cr_required = True, cr_criticality = CRITICAL,
     cr_policy = \<lparr>ap_attempts = 1, ap_aggregate_rule = ALL_MUST_PASS, ap_min_pass_rate = None,
       ap_sampling_config_digest = '''', ap_infrastructure_retry_limit = 0\<rparr>,
     cr_attempts = map (\<lambda>(i, st). \<lparr>ca_case_id = ''c'', ca_attempt_number = int i,
       ca_grader_results = [sample_verdict st], ca_forbidden_effect_attempted = False,
       ca_forbidden_effect_detail = '''', ca_cost_usd = 0, ca_latency_ms = 0\<rparr>) (enumerate 1 sts)\<rparr>"

definition sample_policy :: SuitePolicy where
  "sample_policy = \<lparr>sp_gate_mode = Gate_BLOCKING, sp_inconclusive_policy = Policy_BLOCK,
     sp_noncritical_pass_threshold = 1\<rparr>"

lemmas sample_defs = sample_case_def sample_verdict_def sample_policy_def DETERMINISTIC_FAMILY_def

lemmas case_eval = case_state_def meets_threshold_def failed_attempts_def errored_attempts_def
  inconclusive_attempts_def attempt_state_def blocking_results_def blocking_eligible_def
  lineage_complete_def retained_attempts_def forbidden_effect_attempts_def
  blocking_eligible_grader_results_def noncritical_pass_rate_def

theorem clean_aggregate_iff_witness:
  "case aggregate sample_env [sample_case [PASS]] sample_policy ''s'' ''1'' ''anthropic'' of
     Inl _ \<Rightarrow> False | Inr o' \<Rightarrow> qualifiable o'"
  using clean_aggregate_iff [of sample_env "[sample_case [PASS]]" sample_policy "''s''" "''1''" "''anthropic''"]
  by (simp add: aggregate_def py_space_def) (simp add: sample_defs case_eval Let_def)

text \<open>
  The persisted counters are the findings. The number of R1, R2 and R5 findings of an
  aggregate equals its critical-failure, error and forbidden-effect counters; under a blocking
  policy the R3 findings equal the inconclusive counter, and under a review policy there is no
  R3 finding and review is required exactly when that counter is positive.
\<close>

theorem counters_match_findings:
  assumes "aggregate E cs policy suite_id suite_version subject = Inr o'"
  shows "length (findings_for o' R1_CRITICAL_DETERMINISTIC_FAILURE)
      = dc_critical_failure_count (domain_counters_of (ao_case_results o'))
    \<and> length (findings_for o' R2_UNRESOLVED_REQUIRED_ERROR) = dc_error_count (domain_counters_of cs)
    \<and> length (findings_for o' R5_FORBIDDEN_EFFECT_ATTEMPT) = dc_forbidden_effect_count (domain_counters_of cs)
    \<and> (if sp_inconclusive_policy policy = Policy_BLOCK
       then length (findings_for o' R3_REQUIRED_INCONCLUSIVE) = dc_inconclusive_count (domain_counters_of cs)
         \<and> \<not> ao_requires_human_review o'
       else findings_for o' R3_REQUIRED_INCONCLUSIVE = []
         \<and> (ao_requires_human_review o' \<longleftrightarrow> 0 < dc_inconclusive_count (domain_counters_of cs)))"
proof -
  note o' = aggregate_Inr [OF assms]
  have n: "length (findings_for o' rule)
      = sum_list (map (\<lambda>c. length (filter (\<lambda>f. bf_rule f = rule) (case_findings policy suite_id subject c))) cs)"
    if "rule \<noteq> R4_NONCRITICAL_THRESHOLD" for rule
    using o' that by (simp add: findings_for_def threshold_findings_other concat_findings_count)
  have review: "list_ex (case_needs_review policy) cs \<longleftrightarrow>
      sp_inconclusive_policy policy \<noteq> Policy_BLOCK
      \<and> 0 < count_if (\<lambda>c. cr_required c \<and> case_state c = INCONCLUSIVE) cs"
    by (induction cs) (auto simp: case_needs_review_def)
  have r3: "findings_for o' R3_REQUIRED_INCONCLUSIVE = []" if "sp_inconclusive_policy policy \<noteq> Policy_BLOCK"
    using n [of R3_REQUIRED_INCONCLUSIVE] that by (simp add: case_findings_rules)
  show ?thesis
    using o' review r3
    by (simp add: n case_findings_rules domain_counters_of_def sum_list_if_count)
qed

theorem counters_match_findings_witness:
  "case aggregate sample_env [sample_case [FAIL, PASS]] sample_policy ''s'' ''1'' ''anthropic'' of
     Inl _ \<Rightarrow> False
   | Inr o' \<Rightarrow> length (findings_for o' R1_CRITICAL_DETERMINISTIC_FAILURE) = 1"
proof -
  obtain o' where o': "aggregate sample_env [sample_case [FAIL, PASS]] sample_policy ''s'' ''1'' ''anthropic'' = Inr o'"
    by (simp add: aggregate_def py_space_def)
  from aggregate_Inr [OF o'] counters_match_findings [OF o'] show ?thesis
    by (simp add: o' domain_counters_of_def) (simp add: sample_defs case_eval Let_def count_if_def)
qed

text \<open>
  C36. A critical failure cannot be averaged or retried away: of a constructed critical case,
  one failing attempt makes the whole case FAIL however many attempts pass, and the case passes
  only if every retained attempt passed; the aggregate then carries an R1 finding for it.
\<close>

theorem critical_failure_not_laundered:
  assumes "CaseResult_check c = Inr c" and "cr_criticality c = CRITICAL"
    and "aggregate E cs policy suite_id suite_version subject = Inr o'" and "c \<in> set cs"
  shows "(case_state c = PASS \<longleftrightarrow> (\<forall>a \<in> set (cr_attempts c). attempt_state a = PASS))
    \<and> ((\<exists>a \<in> set (cr_attempts c). attempt_state a = FAIL) \<longrightarrow>
         case_state c = FAIL \<and> \<not> qualifiable o'
         \<and> (\<exists>f \<in> set (findings_for o' R1_CRITICAL_DETERMINISTIC_FAILURE).
              bf_requirement_ref f = requirement_ref suite_id (cr_case_id c) ''*''))"
proof -
  have rule: "ap_aggregate_rule (cr_policy c) = ALL_MUST_PASS"
    using CaseResult_check_critical [OF assms(1,2)] by simp
  have "\<exists>f \<in> set (case_findings policy suite_id subject c).
      bf_rule f = R1_CRITICAL_DETERMINISTIC_FAILURE
      \<and> bf_requirement_ref f = requirement_ref suite_id (cr_case_id c) ''*''" if "case_state c = FAIL"
    using that assms(2) by (auto simp: case_findings_def Let_def)
  then have "\<exists>f \<in> set (findings_for o' R1_CRITICAL_DETERMINISTIC_FAILURE).
      bf_requirement_ref f = requirement_ref suite_id (cr_case_id c) ''*''" if "case_state c = FAIL"
    using that assms(4) aggregate_Inr [OF assms(3)] by (fastforce simp: findings_for_def)
  moreover have "\<not> qualifiable o'" if "\<exists>f \<in> set (findings_for o' rule). P f" for rule P
    using that by (auto simp: qualifiable_def findings_for_def)
  ultimately show ?thesis using case_state_all_must_pass [OF rule] by blast
qed

theorem critical_failure_not_laundered_witness:
  "case_state (sample_case [PASS, FAIL, PASS]) = FAIL"
proof -
  let ?c = "sample_case [PASS, FAIL, PASS]"
  obtain o' where o': "aggregate sample_env [?c] sample_policy ''s'' ''1'' ''anthropic'' = Inr o'"
    by (simp add: aggregate_def py_space_def)
  have "CaseResult_check ?c = Inr ?c" "cr_criticality ?c = CRITICAL"
    "\<exists>a \<in> set (cr_attempts ?c). attempt_state a = FAIL"
    by (simp_all add: CaseResult_check_def sample_defs py_space_def attempt_state_def blocking_results_def
        blocking_eligible_def)
  then show ?thesis using critical_failure_not_laundered [OF _ _ o', of ?c] by simp
qed

text \<open>
  C40. Under the default threshold of 1.0 the rate rule R4 is exact despite floating-point
  division: with at most \<^term>\<open>(2::nat) ^ 52\<close> required noncritical cases, it raises no finding
  exactly when all of them passed.
\<close>

theorem full_threshold_exact:
  assumes "sp_noncritical_pass_threshold policy = 1"
    and "length (filter (\<lambda>c. cr_criticality c = NONCRITICAL \<and> cr_required c) cs) \<le> 2 ^ 52"
  shows "threshold_findings policy suite_id cs = [] \<longleftrightarrow>
    (\<forall>c \<in> set cs. cr_criticality c = NONCRITICAL \<and> cr_required c \<longrightarrow> case_state c = PASS)"
proof -
  let ?nc = "filter (\<lambda>c. cr_criticality c = NONCRITICAL \<and> cr_required c) cs"
  have rate: "py_truediv (count_if (\<lambda>c. case_state c = PASS) ?nc) (length ?nc) < 1
      \<longleftrightarrow> count_if (\<lambda>c. case_state c = PASS) ?nc \<noteq> length ?nc" if "?nc \<noteq> []"
    using that assms(2) by (intro py_truediv_lt_1 count_if_le) simp_all
  have "threshold_findings policy suite_id cs = [] \<longleftrightarrow>
      ?nc = [] \<or> \<not> py_truediv (count_if (\<lambda>c. case_state c = PASS) ?nc) (length ?nc) < 1"
    using assms(1) by (simp add: threshold_findings_def noncritical_pass_rate_def Let_def)
  also have "\<dots> \<longleftrightarrow> (\<forall>c \<in> set ?nc. case_state c = PASS)"
    using rate by (cases "?nc = []") (simp_all only: count_if_full, auto)
  finally show ?thesis by auto
qed

theorem full_threshold_exact_witness:
  "threshold_findings sample_policy ''s'' [sample_case [FAIL], (sample_case [PASS])\<lparr>cr_criticality := NONCRITICAL\<rparr>] = []"
  using full_threshold_exact [of sample_policy
      "[sample_case [FAIL], (sample_case [PASS])\<lparr>cr_criticality := NONCRITICAL\<rparr>]" "''s''"]
  by (simp add: sample_defs case_eval)

text \<open>Removing the advisory verdicts of an attempt.\<close>

definition drop_advisory :: "CaseResult \<Rightarrow> CaseResult" where
  "drop_advisory c = c\<lparr>cr_attempts :=
     map (\<lambda>a. a\<lparr>ca_grader_results := filter blocking_eligible (ca_grader_results a)\<rparr>) (cr_attempts c)\<rparr>"

lemma drop_advisory_attempt:
  fixes a
  defines "a' \<equiv> a\<lparr>ca_grader_results := filter blocking_eligible (ca_grader_results a)\<rparr>"
  shows "blocking_results a' = blocking_results a" and "attempt_state a' = attempt_state a"
    and "first_failure_reason a' = first_failure_reason a"
  by (simp_all add: a'_def blocking_results_def attempt_state_def first_failure_reason_def)

lemma drop_advisory_case:
  "case_state (drop_advisory c) = case_state c"
  "lineage_complete (drop_advisory c) = lineage_complete c"
  "retained_attempts (drop_advisory c) = retained_attempts c"
  "blocking_eligible_grader_results (drop_advisory c) = blocking_eligible_grader_results c"
  "cr_required (drop_advisory c) = cr_required c" "cr_criticality (drop_advisory c) = cr_criticality c"
  "cr_case_id (drop_advisory c) = cr_case_id c" "cr_policy (drop_advisory c) = cr_policy c"
  by (simp_all add: drop_advisory_def case_state_def meets_threshold_def failed_attempts_def
      errored_attempts_def inconclusive_attempts_def pass_rate_def lineage_complete_def
      retained_attempts_def blocking_eligible_grader_results_def filter_map comp_def
      drop_advisory_attempt filter_concat)

lemma drop_advisory_findings:
  "case_findings policy suite_id subject (drop_advisory c) = case_findings policy suite_id subject c"
proof -
  have r5: "map (\<lambda>a. (finding rule ref (ForbiddenEffect (ca_attempt_number a) (ca_forbidden_effect_detail a)))
            \<lparr>bf_authority_forbidden := True\<rparr>) (forbidden_effect_attempts (drop_advisory c))
      = map (\<lambda>a. (finding rule ref (ForbiddenEffect (ca_attempt_number a) (ca_forbidden_effect_detail a)))
            \<lparr>bf_authority_forbidden := True\<rparr>) (forbidden_effect_attempts c)" for rule ref
    by (simp add: forbidden_effect_attempts_def drop_advisory_def filter_map comp_def)
  have r1: "map ca_attempt_number (failed_attempts (drop_advisory c)) = map ca_attempt_number (failed_attempts c)"
    "map first_failure_reason (failed_attempts (drop_advisory c)) = map first_failure_reason (failed_attempts c)"
    "map blocking_results (errored_attempts (drop_advisory c)) = map blocking_results (errored_attempts c)"
    by (simp_all add: failed_attempts_def errored_attempts_def drop_advisory_def filter_map comp_def
        drop_advisory_attempt)
  show ?thesis
    unfolding case_findings_def drop_advisory_case r1 r5 by (rule refl)
qed

text \<open>
  Advisory verdicts, and so every semantic judge, have no influence on a release: removing
  all of them from every attempt changes neither the findings of the aggregate nor its review
  flag nor its counters.
\<close>

theorem advisory_verdicts_never_block:
  "(case aggregate E (map drop_advisory cs) policy suite_id suite_version subject of
      Inl e \<Rightarrow> aggregate E cs policy suite_id suite_version subject = Inl e
    | Inr o1 \<Rightarrow> (case aggregate E cs policy suite_id suite_version subject of
        Inl e \<Rightarrow> False
      | Inr o2 \<Rightarrow> ao_findings o1 = ao_findings o2
          \<and> ao_requires_human_review o1 = ao_requires_human_review o2
          \<and> domain_counters_of (ao_case_results o1) = domain_counters_of (ao_case_results o2)))"
proof -
  have "noncritical_pass_rate (map drop_advisory cs) True = noncritical_pass_rate cs True"
    by (simp add: noncritical_pass_rate_def filter_map comp_def drop_advisory_case count_if_def Let_def)
  then have "threshold_findings policy suite_id (map drop_advisory cs) = threshold_findings policy suite_id cs"
    by (simp add: threshold_findings_def)
  moreover have "list_ex (case_needs_review policy) (map drop_advisory cs) = list_ex (case_needs_review policy) cs"
    by (simp add: list_ex_iff case_needs_review_def drop_advisory_case)
  moreover have "domain_counters_of (map drop_advisory cs) = domain_counters_of cs"
  proof -
    have "length (forbidden_effect_attempts (drop_advisory c)) = length (forbidden_effect_attempts c)" for c
      by (simp add: forbidden_effect_attempts_def drop_advisory_def filter_map comp_def)
    then show ?thesis
      by (simp add: domain_counters_of_def count_if_def filter_map comp_def drop_advisory_case)
  qed
  ultimately show ?thesis by (simp add: aggregate_def drop_advisory_findings comp_def)
qed

text \<open>
  A constructed verdict can be persisted: given a tenant, a grader family that differs
  from the subject's (or a semantic grader), an adjudicator of another family and an evidence
  digest that is absent or a plain sha256 digest, the bridge to the record layer accepts it and
  keeps every field.
\<close>

theorem verdict_bridges:
  assumes "GraderResult_check r = Inr r" and "nonblank tenant"
    and "gv_kind r = SEMANTIC \<or> gv_grader_family r \<noteq> subject"
    and "gv_adjudicator_identity r = [] \<or> gv_adjudicator_family r \<noteq> subject"
    and "gv_evidence_sha256 r = [] \<or> is_hex64 (gv_evidence_sha256 r)"
  shows "to_domain_result r i tenant attempt subject = Inr (domain_row r i tenant attempt subject)"
proof -
  let ?g = "domain_row r i tenant attempt subject"
  have digest: "gr_evidence_sha256 ?g = None \<longleftrightarrow> \<not> nonblank (gv_evidence_sha256 r)"
    using assms(5) is_hex64_nonblank [of "gv_evidence_sha256 r"]
    by (auto simp: domain_row_def text_or_null_def)
  have hex: "is_hex64 d" if "gr_evidence_sha256 ?g = Some d" for d
    using assms(5) that by (auto simp: domain_row_def text_or_null_def split: if_splits)
  have rubric: "gr_rubric_sha256 ?g \<notin> {None, Some []}" if "nonblank (gv_rubric_sha256 r)"
    using that nonblank_imp_ne by (auto simp: domain_row_def text_or_null_def)
  have fields: "gr_grader_family ?g = gv_grader_family r" "gr_subject_family ?g = subject"
    "gr_grader_kind ?g = gv_kind r" "gr_adjudicator_identity ?g = gv_adjudicator_identity r"
    "gr_adjudicator_family ?g = gv_adjudicator_family r" "gr_judge_model_id ?g = gv_judge_model_id r"
    "gr_rubric_id ?g = gv_rubric_id r" "gr_rubric_version ?g = gv_rubric_version r"
    "gr_criticality ?g = gv_criticality r" "gr_result ?g = gv_state r" "gr_error_detail ?g = gv_error_detail r"
    "gr_adjudicated_at ?g = gv_adjudicated_at r" "gr_reason ?g = gv_reason r"
    "gr_evidence_ref ?g = gv_evidence_ref r" "tenant_id ?g = tenant"
    by (simp_all add: domain_row_def)
  have ok: "\<not> (case gr_evidence_sha256 ?g of None \<Rightarrow> False | Some d \<Rightarrow> \<not> is_hex64 d)"
    using hex by (auto split: option.splits)
  note c = assms(1) [unfolded GraderResult_check_def Let_def guard_Inr]
  have t: "require_tenant tenant = Inr ()" using assms(2) by (simp add: require_tenant_def py_simps)
  have "grader_row_validate ?g = Inr ?g"
    unfolding grader_row_validate_def Let_def fields t sum.case py_strip_blank digest guard_Inr
    using c assms(2-4) rubric ok by (intro conjI; auto)
  then show ?thesis using assms(2) by (simp add: to_domain_result_def)
qed

theorem verdict_bridges_witness:
  "to_domain_result (sample_verdict ERROR) 1 ''t'' 2 ''anthropic''
     = Inr (domain_row (sample_verdict ERROR) 1 ''t'' 2 ''anthropic'')"
  by (rule verdict_bridges)
    (simp_all add: sample_verdict_def GraderResult_check_def DETERMINISTIC_FAMILY_def py_space_def)

text \<open>
  The two layers disagree on one digest form: a digest followed by a newline satisfies
  the anchored pattern of the in-process verdict and is refused by the record layer, so a PASS
  that was constructed without error cannot be persisted.
\<close>

theorem newline_digest_unpersistable:
  assumes "is_hex64 d" and "nonblank tenant" and "subject \<noteq> DETERMINISTIC_FAMILY"
  shows "let r = (sample_verdict PASS)\<lparr>gv_evidence_ref := ''e'', gv_evidence_sha256 := d @ [newline]\<rparr>
    in GraderResult_check r = Inr r
       \<and> to_domain_result r i tenant attempt subject = Inl (RowRefused EvidenceDigestMalformed)"
proof -
  have "sha256_re_match (d @ [newline])" "\<not> is_hex64 (d @ [newline])" "nonblank d"
    using assms(1) is_hex64_nonblank by (auto simp: sha256_re_match_def is_hex64_def)
  then show ?thesis using assms(2,3)
    by (simp add: GraderResult_check_def sample_verdict_def DETERMINISTIC_FAMILY_def py_space_def
        to_domain_result_def domain_row_def grader_row_validate_def require_tenant_def py_simps
        text_or_null_def)
qed

theorem newline_digest_unpersistable_witness:
  "to_domain_result ((sample_verdict PASS)\<lparr>gv_evidence_ref := ''e'',
      gv_evidence_sha256 := replicate 64 (CHR ''a'') @ [newline]\<rparr>) 1 ''t'' 2 ''anthropic''
    = Inl (RowRefused EvidenceDigestMalformed)"
  using newline_digest_unpersistable [of "replicate 64 (CHR ''a'')" "''t''" "''anthropic''" 1 2]
      is_hex64_replicate [of "CHR ''a''"]
  by (simp add: hex_digits_def DETERMINISTIC_FAMILY_def py_space_def Let_def)

end
