(* ===== verification/Qualification.thy ===== *)
theory Qualification
  imports Graders
begin

text \<open>
  Qualification (\<^verbatim>\<open>fleet_kernel/eval_plane/qualification.py\<close>): the identity of an exam, waivers and
  their application to blocking findings, the comparison with a baseline, the issuing of a
  qualification from an aggregate outcome, its bridge to the persisted row, and staleness.
  Times are UTC, so \<^verbatim>\<open>astimezone(timezone.utc).isoformat()\<close> is the ISO text of the instant.
\<close>

section \<open>Exam identity\<close>

datatype qualification_error =
    BadFingerprint string
  | NotAware string
  | ExamNeedsSuite
  | NaiveComparison
  | QualificationNeedsId | QualificationNeedsReviewer | ReviewerNotIndependent string
  | ExpiresBeforeIssue
  | NotRejected QualificationState | NothingApplied | FindingsRemain
  | PersistNeedsTenant | PersistRefused domain_error

definition ISSUABLE_STATES :: "QualificationState set" where
  "ISSUABLE_STATES = QUALIFICATION_TRANSITIONS PENDING \<union> {PENDING}"

definition require_fingerprint :: "string \<Rightarrow> string \<Rightarrow> qualification_error + unit" where
  "require_fingerprint value label =
     (if \<not> sha256_re_match value then Inl (BadFingerprint label) else Inr ())"

definition require_aware :: "py_datetime \<Rightarrow> string \<Rightarrow> qualification_error + unit" where
  "require_aware value label = (if \<not> is_aware value then Inl (NotAware label) else Inr ())"

record ExamIdentity =
  ex_suite_id :: string
  ex_suite_version :: string
  ex_grader_versions :: "(string \<times> string) list"
  ex_rubric_versions :: "(string \<times> string) list"
  ex_thresholds :: "(string \<times> json) list"
  ex_attempt_policy_digest :: string

definition ExamIdentity_check :: "ExamIdentity \<Rightarrow> qualification_error + ExamIdentity" where
  "ExamIdentity_check x =
     (if \<not> (nonblank (ex_suite_id x) \<and> nonblank (ex_suite_version x)) then Inl ExamNeedsSuite else Inr x)"

definition exam_fields :: "ExamIdentity \<Rightarrow> (string \<times> json) list" where
  "exam_fields x =
     [(''suite_id'', JStr (ex_suite_id x)), (''suite_version'', JStr (ex_suite_version x)),
      (''grader_versions'', JObj (map (\<lambda>(k, v). (k, JStr v)) (ex_grader_versions x))),
      (''rubric_versions'', JObj (map (\<lambda>(k, v). (k, JStr v)) (ex_rubric_versions x))),
      (''thresholds'', JObj (ex_thresholds x)),
      (''attempt_policy_digest'', JStr (ex_attempt_policy_digest x))]"

definition exam_digest :: "py_env \<Rightarrow> ExamIdentity \<Rightarrow> string" where
  "exam_digest E x = sha256_hex E (JObj (exam_fields x))"

definition exam_to_dict :: "py_env \<Rightarrow> ExamIdentity \<Rightarrow> json" where
  "exam_to_dict E x = JObj (exam_fields x @ [(''exam_digest'', JStr (exam_digest E x))])"

section \<open>Waivers\<close>

definition waiver_requirement_ref :: "EvalWaiver \<Rightarrow> string" where
  "waiver_requirement_ref w =
     requirement_ref (ew_failed_suite_id w) (ew_failed_case_id w) (ew_failed_grader_id w)"

text \<open>Why a waiver did not apply, by what the recorded reason interpolates.\<close>

datatype rejection_reason =
    OtherTarget string string
  | ExpiredAt py_datetime
  | ReleaseUnnamed string
  | OtherRelease string string
  | AuthorityForbids string
  | NoFindingMatched string

fun rejection_text :: "py_env \<Rightarrow> rejection_reason \<Rightarrow> string" where
  "rejection_text E (OtherTarget bound current) =
     ''bound to target '' @ py_repr E bound @ '' but this qualification is for '' @ py_repr E current"
| "rejection_text E (ExpiredAt t) = ''expired at '' @ isoformat E t"
| "rejection_text E (ReleaseUnnamed bound) =
     ''release-bound to '' @ py_repr E bound @ '' but this qualification names no release''"
| "rejection_text E (OtherRelease bound current) =
     ''release-bound to '' @ py_repr E bound @ '', not the release under qualification (''
     @ py_repr E current @ '')''"
| "rejection_text E (AuthorityForbids ref) =
     ''requirement '' @ py_repr E ref
     @ '' is forbidden by the runtime authority system -- a waiver cannot authorize it''"
| "rejection_text E (NoFindingMatched ref) =
     ''no blocking finding matched requirement '' @ py_repr E ref"

record AppliedWaiver =
  aw_waiver :: EvalWaiver
  aw_finding :: BlockingFinding

record RejectedWaiver =
  rw_waiver :: EvalWaiver
  rw_reason :: rejection_reason

definition applied_to_dict :: "py_env \<Rightarrow> AppliedWaiver \<Rightarrow> json" where
  "applied_to_dict E a = (let w = aw_waiver a in JObj
     [(''waiver_id'', JStr (uuid_str E (row_id w))),
      (''requirement_ref'', JStr (waiver_requirement_ref w)),
      (''approver_identity'', JStr (ew_approver_identity w)),
      (''founder_approval_id'', JStr (uuid_str E (ew_founder_approval_id w))),
      (''rationale'', JStr (ew_rationale w)), (''evidence_ref'', JStr (ew_evidence_ref w)),
      (''expires_at'', case ew_expires_at w of None \<Rightarrow> JNull | Some t \<Rightarrow> JStr (isoformat E t)),
      (''release_bound_to'', JStr (ew_release_bound_to w)),
      (''finding'', finding_to_dict E (aw_finding a))])"

definition rejected_to_dict :: "py_env \<Rightarrow> RejectedWaiver \<Rightarrow> json" where
  "rejected_to_dict E r = (let w = rw_waiver r in JObj
     [(''waiver_id'', JStr (uuid_str E (row_id w))),
      (''requirement_ref'', JStr (waiver_requirement_ref w)),
      (''approver_identity'', JStr (ew_approver_identity w)),
      (''reason'', JStr (rejection_text E (rw_reason r)))])"

record WaiverApplication =
  wa_remaining :: "BlockingFinding list"
  wa_applied :: "AppliedWaiver list"
  wa_rejected :: "RejectedWaiver list"

text \<open>
  \<^const>\<open>None\<close> when the waiver is in force. The comparison with a naive expiry raises
  \<^verbatim>\<open>TypeError\<close>, since \<open>now\<close> is aware.
\<close>

definition waiver_inactive_reason ::
    "EvalWaiver \<Rightarrow> py_datetime \<Rightarrow> string \<Rightarrow> qualification_error + rejection_reason option" where
  "waiver_inactive_reason w now release_id =
     (case ew_expires_at w of
        Some t \<Rightarrow> (case dt_le t now of
            None \<Rightarrow> Inl NaiveComparison
          | Some True \<Rightarrow> Inr (Some (ExpiredAt t))
          | Some False \<Rightarrow> Inr None)
      | None \<Rightarrow>
          if \<not> nonblank release_id then Inr (Some (ReleaseUnnamed (ew_release_bound_to w)))
          else if ew_release_bound_to w \<noteq> release_id
          then Inr (Some (OtherRelease (ew_release_bound_to w) release_id))
          else Inr None)"

text \<open>A dict's \<^verbatim>\<open>setdefault\<close>.\<close>

definition set_default :: "'k \<Rightarrow> 'v \<Rightarrow> ('k \<times> 'v) list \<Rightarrow> ('k \<times> 'v) list" where
  "set_default k v d = (if map_of d k = None then d @ [(k, v)] else d)"

type_synonym reasons = "(nat \<times> rejection_reason) list"

text \<open>The inner loop: the first waiver that covers the finding, and the reasons recorded.\<close>

fun match_waiver ::
    "string \<Rightarrow> py_datetime \<Rightarrow> string \<Rightarrow> BlockingFinding \<Rightarrow> EvalWaiver list \<Rightarrow> reasons
     \<Rightarrow> qualification_error + (EvalWaiver option \<times> reasons)" where
  "match_waiver target now release_id f [] rs = Inr (None, rs)"
| "match_waiver target now release_id f (w # ws) rs =
     (if waiver_requirement_ref w \<noteq> bf_requirement_ref f then match_waiver target now release_id f ws rs
      else if ew_target_fingerprint w \<noteq> target
      then match_waiver target now release_id f ws
             (set_default (row_id w) (OtherTarget (ew_target_fingerprint w) target) rs)
      else (case waiver_inactive_reason w now release_id of
          Inl e \<Rightarrow> Inl e
        | Inr (Some why) \<Rightarrow> match_waiver target now release_id f ws (set_default (row_id w) why rs)
        | Inr None \<Rightarrow>
            if bf_authority_forbidden f
            then match_waiver target now release_id f ws
                   (set_default (row_id w) (AuthorityForbids (bf_requirement_ref f)) rs)
            else Inr (Some w, rs)))"

record waiver_loop =
  wl_remaining :: "BlockingFinding list"
  wl_applied :: "AppliedWaiver list"
  wl_unused :: "(nat \<times> EvalWaiver) list"
  wl_reasons :: reasons

fun apply_loop ::
    "string \<Rightarrow> py_datetime \<Rightarrow> string \<Rightarrow> EvalWaiver list \<Rightarrow> BlockingFinding list \<Rightarrow> waiver_loop
     \<Rightarrow> qualification_error + waiver_loop" where
  "apply_loop target now release_id ws [] s = Inr s"
| "apply_loop target now release_id ws (f # fs) s =
     (case match_waiver target now release_id f ws (wl_reasons s) of
        Inl e \<Rightarrow> Inl e
      | Inr (None, rs) \<Rightarrow>
          apply_loop target now release_id ws fs
            (s\<lparr>wl_remaining := wl_remaining s @ [f], wl_reasons := rs\<rparr>)
      | Inr (Some w, rs) \<Rightarrow>
          apply_loop target now release_id ws fs
            (s\<lparr>wl_applied := wl_applied s @ [\<lparr>aw_waiver = w, aw_finding = f\<rparr>],
               wl_unused := filter (\<lambda>(i, _). i \<noteq> row_id w) (wl_unused s), wl_reasons := rs\<rparr>))"

definition apply_waivers ::
    "BlockingFinding list \<Rightarrow> EvalWaiver list \<Rightarrow> string \<Rightarrow> py_datetime \<Rightarrow> string
     \<Rightarrow> qualification_error + WaiverApplication" where
  "apply_waivers findings ws target now release_id =
     res_bind (require_fingerprint target ''target_fingerprint'') (\<lambda>_.
     res_bind (require_aware now ''now'') (\<lambda>_.
     res_bind (apply_loop target now release_id ws findings
         \<lparr>wl_remaining = [], wl_applied = [],
           wl_unused = dict_of (map (\<lambda>w. (row_id w, w)) ws), wl_reasons = []\<rparr>) (\<lambda>s.
       Inr \<lparr>wa_remaining = wl_remaining s, wa_applied = wl_applied s,
         wa_rejected = map (\<lambda>(i, w). \<lparr>rw_waiver = w,
             rw_reason = (case map_of (wl_reasons s) i of
                            Some why \<Rightarrow> why
                          | None \<Rightarrow> NoFindingMatched (waiver_requirement_ref w))\<rparr>) (wl_unused s)\<rparr>)))"

section \<open>Comparison with a baseline\<close>

record case_delta =
  cd_case_id :: string
  cd_baseline_state :: ResultState
  cd_current_state :: ResultState
  cd_criticality :: Criticality

datatype baseline_comparison =
    NoBaseline
  | DifferentExam string string
  | Compared string "case_delta list" "case_delta list"

definition case_deltas ::
    "(ResultState \<Rightarrow> ResultState \<Rightarrow> bool) \<Rightarrow> AggregateOutcome \<Rightarrow> AggregateOutcome \<Rightarrow> case_delta list" where
  "case_deltas changed before_outcome current =
     concat (map (\<lambda>c. case outcome_case_state before_outcome (cr_case_id c) of
         None \<Rightarrow> []
       | Some before \<Rightarrow>
           if changed before (case_state c)
           then [\<lparr>cd_case_id = cr_case_id c, cd_baseline_state = before,
                  cd_current_state = case_state c, cd_criticality = cr_criticality c\<rparr>]
           else []) (ao_case_results current))"

text \<open>The baseline is given by its id, exam digest and aggregate.\<close>

definition compare_to_baseline ::
    "AggregateOutcome \<Rightarrow> string \<Rightarrow> (string \<times> string \<times> AggregateOutcome) option \<Rightarrow> baseline_comparison" where
  "compare_to_baseline current current_exam_digest baseline =
     (case baseline of
        None \<Rightarrow> NoBaseline
      | Some (i, digest, before) \<Rightarrow>
          if digest \<noteq> current_exam_digest then DifferentExam i digest
          else Compared i
            (case_deltas (\<lambda>b a. b = PASS \<and> a \<noteq> PASS) before current)
            (case_deltas (\<lambda>b a. b \<noteq> PASS \<and> a = PASS) before current))"

fun material_regression :: "baseline_comparison \<Rightarrow> bool" where
  "material_regression NoBaseline = False"
| "material_regression (DifferentExam _ _) = False"
| "material_regression (Compared _ regressions _) = (regressions \<noteq> [])"

fun comparison_to_dict :: "baseline_comparison \<Rightarrow> json" where
  "comparison_to_dict NoBaseline = JObj
     [(''comparable'', JBool False), (''reason'', JStr ''no qualified baseline''),
      (''regressions'', JList []), (''improvements'', JList []), (''material_regression'', JBool False)]"
| "comparison_to_dict (DifferentExam i digest) = JObj
     [(''comparable'', JBool False),
      (''reason'', JStr ''baseline was qualified under a different exam version''),
      (''baseline_qualification_id'', JStr i), (''baseline_exam_digest'', JStr digest),
      (''regressions'', JList []), (''improvements'', JList []), (''material_regression'', JBool False)]"
| "comparison_to_dict (Compared i regressions improvements) =
     (let delta = (\<lambda>d. [(''case_id'', JStr (cd_case_id d)),
            (''baseline_state'', JStr (ResultState_value (cd_baseline_state d))),
            (''current_state'', JStr (ResultState_value (cd_current_state d)))])
      in JObj [(''comparable'', JBool True), (''baseline_qualification_id'', JStr i),
           (''regressions'', JList (map (\<lambda>d. JObj (delta d
               @ [(''criticality'', JStr (Criticality_value (cd_criticality d)))])) regressions)),
           (''improvements'', JList (map (\<lambda>d. JObj (delta d)) improvements)),
           (''material_regression'', JBool (regressions \<noteq> []))])"

section \<open>The qualification\<close>

record Qualification =
  ql_qualification_id :: string
  ql_target_fingerprint :: string
  ql_exam :: ExamIdentity
  ql_exam_digest :: string
  ql_aggregate :: AggregateOutcome
  ql_gate_mode :: GateMode
  ql_state :: QualificationState
  ql_reviewer_identity :: string
  ql_reviewer_family :: string
  ql_subject_family :: string
  ql_issued_at :: py_datetime
  ql_expires_at :: py_datetime
  ql_release_id :: string
  ql_remaining_findings :: "BlockingFinding list"
  ql_applied_waivers :: "AppliedWaiver list"
  ql_rejected_waivers :: "RejectedWaiver list"
  ql_baseline_comparison :: baseline_comparison
  ql_receipt_sha256 :: string

definition Qualification_check :: "Qualification \<Rightarrow> qualification_error + Qualification" where
  "Qualification_check q =
     (if \<not> nonblank (ql_qualification_id q) then Inl QualificationNeedsId
      else if \<not> sha256_re_match (ql_target_fingerprint q) then Inl (BadFingerprint ''target_fingerprint'')
      else if \<not> sha256_re_match (ql_exam_digest q) then Inl (BadFingerprint ''exam_digest'')
      else if \<not> (nonblank (ql_reviewer_identity q) \<and> nonblank (ql_reviewer_family q)
                 \<and> nonblank (ql_subject_family q)) then Inl QualificationNeedsReviewer
      else if ql_reviewer_family q = ql_subject_family q
      then Inl (ReviewerNotIndependent (ql_reviewer_family q))
      else if \<not> is_aware (ql_issued_at q) then Inl (NotAware ''issued_at'')
      else if \<not> is_aware (ql_expires_at q) then Inl (NotAware ''expires_at'')
      else if dt_le (ql_expires_at q) (ql_issued_at q) = Some True then Inl ExpiresBeforeIssue
      else Inr q)"

text \<open>The empty text stands for no refusal.\<close>

definition qualifying_refusal :: "domain_counters \<Rightarrow> InconclusivePolicy \<Rightarrow> string \<Rightarrow> string" where
  "qualifying_refusal k policy reviewer =
     (if dc_critical_failure_count k \<noteq> 0 \<or> dc_error_count k \<noteq> 0 \<or> dc_forbidden_effect_count k \<noteq> 0
      then ''critical failure, error, or forbidden effect on record''
      else if dc_inconclusive_count k \<noteq> 0 \<and> \<not> (policy = Policy_REVIEW \<and> nonblank reviewer)
      then ''unresolved inconclusive case''
      else [])"

definition q_refusal :: "Qualification \<Rightarrow> string" where
  "q_refusal q = qualifying_refusal (domain_counters_of (ao_case_results (ql_aggregate q)))
     (sp_inconclusive_policy (ao_policy (ql_aggregate q))) (ql_reviewer_identity q)"

definition would_block_under_enforcement :: "Qualification \<Rightarrow> bool" where
  "would_block_under_enforcement q \<longleftrightarrow>
     ql_remaining_findings q \<noteq> [] \<or> ql_applied_waivers q \<noteq> [] \<or> q_refusal q \<noteq> []"

definition receipt_payload :: "py_env \<Rightarrow> Qualification \<Rightarrow> json" where
  "receipt_payload E q = JObj
     [(''qualification_id'', JStr (ql_qualification_id q)),
      (''target_fingerprint'', JStr (ql_target_fingerprint q)),
      (''exam'', exam_to_dict E (ql_exam q)), (''exam_digest'', JStr (ql_exam_digest q)),
      (''aggregate'', outcome_to_dict E (ql_aggregate q)),
      (''gate_mode'', JStr (GateMode_value (ql_gate_mode q))),
      (''state'', JStr (QualificationState_value (ql_state q))),
      (''reviewer_identity'', JStr (ql_reviewer_identity q)),
      (''reviewer_family'', JStr (ql_reviewer_family q)),
      (''subject_family'', JStr (ql_subject_family q)), (''release_id'', JStr (ql_release_id q)),
      (''issued_at'', JStr (isoformat E (ql_issued_at q))),
      (''expires_at'', JStr (isoformat E (ql_expires_at q))),
      (''remaining_findings'', JList (map (finding_to_dict E) (ql_remaining_findings q))),
      (''applied_waivers'', JList (map (applied_to_dict E) (ql_applied_waivers q))),
      (''rejected_waivers'', JList (map (rejected_to_dict E) (ql_rejected_waivers q))),
      (''baseline_comparison'', comparison_to_dict (ql_baseline_comparison q)),
      (''would_block_under_enforcement'', JBool (would_block_under_enforcement q)),
      (''qualifying_refusal'', JStr (q_refusal q)),
      (''blocking_counters'', counters_dict (domain_counters_of (ao_case_results (ql_aggregate q))))]"

definition compute_receipt :: "py_env \<Rightarrow> Qualification \<Rightarrow> string" where
  "compute_receipt E q = sha256 E (canonical_json E (receipt_payload E q))"

definition derive_state ::
    "GateMode \<Rightarrow> domain_counters \<Rightarrow> InconclusivePolicy \<Rightarrow> string \<Rightarrow> BlockingFinding list
     \<Rightarrow> AppliedWaiver list \<Rightarrow> bool \<Rightarrow> bool \<Rightarrow> bool \<Rightarrow> bool \<Rightarrow> QualificationState" where
  "derive_state gate_mode counters policy reviewer remaining applied requires_human_review
     human_review_completed regression regression_acknowledged =
     (if remaining \<noteq> [] \<and> gate_mode = Gate_BLOCKING then REJECTED
      else if applied \<noteq> [] then REJECTED
      else if requires_human_review \<and> \<not> human_review_completed then PENDING
      else if regression \<and> \<not> regression_acknowledged \<and> gate_mode \<in> {Gate_WARNING, Gate_BLOCKING}
      then REJECTED
      else if qualifying_refusal counters policy reviewer \<noteq> [] then REJECTED
      else if gate_mode = Gate_BLOCKING then QUALIFIED
      else ADVISORY_QUALIFIED)"

record issue_request =
  iq_qualification_id :: string
  iq_target_fingerprint :: string
  iq_exam :: ExamIdentity
  iq_outcome :: AggregateOutcome
  iq_gate_mode :: GateMode
  iq_reviewer_identity :: string
  iq_reviewer_family :: string
  iq_subject_family :: string
  iq_issued_at :: py_datetime
  iq_expires_at :: py_datetime
  iq_waivers :: "EvalWaiver list"
  iq_baseline :: "Qualification option"
  iq_release_id :: string
  iq_human_review_completed :: bool
  iq_regression_acknowledged :: bool

text \<open>The arguments of the constructor call, for the result of applying the waivers.\<close>

definition draft_qualification :: "py_env \<Rightarrow> issue_request \<Rightarrow> WaiverApplication \<Rightarrow> Qualification" where
  "draft_qualification E rq application =
     (let digest = exam_digest E (iq_exam rq); outcome = iq_outcome rq;
          comparison = compare_to_baseline outcome digest
            (map_option (\<lambda>b. (ql_qualification_id b, ql_exam_digest b, ql_aggregate b)) (iq_baseline rq))
      in \<lparr>ql_qualification_id = iq_qualification_id rq,
           ql_target_fingerprint = iq_target_fingerprint rq, ql_exam = iq_exam rq,
           ql_exam_digest = digest, ql_aggregate = outcome, ql_gate_mode = iq_gate_mode rq,
           ql_state = derive_state (iq_gate_mode rq) (domain_counters_of (ao_case_results outcome))
              (sp_inconclusive_policy (ao_policy outcome)) (iq_reviewer_identity rq)
              (wa_remaining application) (wa_applied application) (ao_requires_human_review outcome)
              (iq_human_review_completed rq) (material_regression comparison)
              (iq_regression_acknowledged rq),
           ql_reviewer_identity = iq_reviewer_identity rq,
           ql_reviewer_family = iq_reviewer_family rq, ql_subject_family = iq_subject_family rq,
           ql_issued_at = iq_issued_at rq, ql_expires_at = iq_expires_at rq,
           ql_release_id = iq_release_id rq, ql_remaining_findings = wa_remaining application,
           ql_applied_waivers = wa_applied application,
           ql_rejected_waivers = wa_rejected application,
           ql_baseline_comparison = comparison, ql_receipt_sha256 = []\<rparr>)"

definition issue_qualification :: "py_env \<Rightarrow> issue_request \<Rightarrow> qualification_error + Qualification" where
  "issue_qualification E rq =
     res_bind (apply_waivers (ao_findings (iq_outcome rq)) (iq_waivers rq) (iq_target_fingerprint rq)
         (iq_issued_at rq) (iq_release_id rq)) (\<lambda>application.
     res_bind (Qualification_check (draft_qualification E rq application)) (\<lambda>q.
       Qualification_check (q\<lparr>ql_receipt_sha256 := compute_receipt E q\<rparr>)))"

definition apply_waiver_to_rejected_qualification ::
    "py_env \<Rightarrow> Qualification \<Rightarrow> qualification_error + Qualification" where
  "apply_waiver_to_rejected_qualification E q =
     (if ql_state q \<noteq> REJECTED then Inl (NotRejected (ql_state q))
      else if ql_applied_waivers q = [] then Inl NothingApplied
      else if ql_remaining_findings q \<noteq> [] then Inl FindingsRemain
      else res_bind (Qualification_check (q\<lparr>ql_state := WAIVED\<rparr>))
             (\<lambda>w. Qualification_check (w\<lparr>ql_receipt_sha256 := compute_receipt E w\<rparr>)))"

definition domain_qualification ::
    "py_env \<Rightarrow> Qualification \<Rightarrow> nat \<Rightarrow> string \<Rightarrow> nat \<Rightarrow> string \<Rightarrow> string \<Rightarrow> nat option \<Rightarrow> EvalQualification" where
  "domain_qualification E q i tenant run snapshot ref baseline =
     (let outcome = ql_aggregate q; k = domain_counters_of (ao_case_results outcome) in
      \<lparr>tenant_id = tenant, row_id = i, schema_version = 1, eq_run_id = run,
        eq_suite_id = ao_suite_id outcome, eq_suite_version = ao_suite_version outcome,
        eq_target_fingerprint = ql_target_fingerprint q, eq_state = PENDING,
        eq_gate_mode = ql_gate_mode q,
        eq_inconclusive_policy = sp_inconclusive_policy (ao_policy outcome),
        eq_case_results = JObj (dict_of (map (\<lambda>c. (cr_case_id c, case_to_dict E c)) (ao_case_results outcome))),
        eq_aggregate_metrics = json_canon (ao_metrics outcome),
        eq_critical_failure_count = int (dc_critical_failure_count k),
        eq_error_count = int (dc_error_count k),
        eq_inconclusive_count = int (dc_inconclusive_count k),
        eq_forbidden_effect_count = int (dc_forbidden_effect_count k),
        eq_baseline_qualification_id = baseline,
        eq_reviewer_identity = ql_reviewer_identity q, eq_reviewer_family = ql_reviewer_family q,
        eq_subject_family = ql_subject_family q, eq_receipt_ref = ref,
        eq_receipt_sha256 = text_or_null (ql_receipt_sha256 q), eq_snapshot_sha256 = snapshot,
        eq_expires_at = Some (ql_expires_at q), eq_invalidated_at = None,
        eq_invalidation_reason = [], eq_created_at = ql_issued_at q, eq_decided_at = None\<rparr>)"

definition persist_error :: "domain_error + 'a \<Rightarrow> qualification_error + 'a" where
  "persist_error m = map_sum PersistRefused id m"

definition to_domain_qualification ::
    "py_env \<Rightarrow> Qualification \<Rightarrow> nat \<Rightarrow> string \<Rightarrow> nat \<Rightarrow> string \<Rightarrow> string \<Rightarrow> nat option
     \<Rightarrow> qualification_error + EvalQualification" where
  "to_domain_qualification E q i tenant run snapshot ref baseline =
     (if \<not> nonblank tenant then Inl PersistNeedsTenant
      else
        res_bind (require_fingerprint snapshot ''snapshot_sha256'') (\<lambda>_.
        res_bind (persist_error (require_tenant tenant)) (\<lambda>_.
        res_bind (if ql_state q = WAIVED
                  then persist_error (qualification_transition
                         (domain_qualification E q i tenant run snapshot ref baseline)
                         REJECTED (ql_issued_at q) [])
                  else Inr (domain_qualification E q i tenant run snapshot ref baseline)) (\<lambda>row.
          if ql_state q \<noteq> PENDING
          then persist_error (qualification_transition row (ql_state q) (ql_issued_at q) [])
          else Inr row))))"

definition evaluate_staleness ::
    "py_env \<Rightarrow> Qualification \<Rightarrow> string \<Rightarrow> ExamIdentity \<Rightarrow> py_datetime
     \<Rightarrow> qualification_error + QualificationState" where
  "evaluate_staleness E q current_target current_exam now =
     res_bind (require_fingerprint current_target ''current_target_fingerprint'') (\<lambda>_.
     res_bind (require_aware now ''now'') (\<lambda>_.
       if current_target \<noteq> ql_target_fingerprint q then Inr STALE
       else if exam_digest E current_exam \<noteq> ql_exam_digest q then Inr STALE
       else (case dt_le (ql_expires_at q) now of
               None \<Rightarrow> Inl NaiveComparison
             | Some True \<Rightarrow> Inr EXPIRED
             | Some False \<Rightarrow> Inr (ql_state q))))"

section \<open>Lemmas\<close>

text \<open>What makes a waiver cover a finding.\<close>

definition waiver_covers :: "string \<Rightarrow> py_datetime \<Rightarrow> string \<Rightarrow> EvalWaiver \<Rightarrow> BlockingFinding \<Rightarrow> bool" where
  "waiver_covers target now release_id w f \<longleftrightarrow>
     waiver_requirement_ref w = bf_requirement_ref f \<and> ew_target_fingerprint w = target
     \<and> waiver_inactive_reason w now release_id = Inr None \<and> \<not> bf_authority_forbidden f"

lemma match_waiver_Inr:
  "match_waiver target now release_id f ws rs = Inr (m, rs') \<Longrightarrow>
     (case m of None \<Rightarrow> \<forall>w \<in> set ws. \<not> waiver_covers target now release_id w f
      | Some w \<Rightarrow> w \<in> set ws \<and> waiver_covers target now release_id w f)"
proof (induction ws arbitrary: rs)
  case Nil
  then show ?case by auto
next
  case (Cons w ws)
  show ?case
  proof (cases "waiver_covers target now release_id w f")
    case True
    with Cons.prems show ?thesis by (auto simp: waiver_covers_def)
  next
    case False
    with Cons.prems obtain rs1 where "match_waiver target now release_id f ws rs1 = Inr (m, rs')"
      by (auto simp: waiver_covers_def split: if_splits sum.splits option.splits)
    from Cons.IH [OF this] False show ?thesis by (auto split: option.splits)
  qed
qed

text \<open>The loop splits the findings: kept ones are uncovered, the others carry a covering waiver.\<close>

lemma apply_loop_Inr:
  assumes "apply_loop target now release_id ws fs s = Inr s'"
  shows "wl_remaining s' = wl_remaining s
        @ filter (\<lambda>f. \<forall>w \<in> set ws. \<not> waiver_covers target now release_id w f) fs"
    and "map aw_finding (wl_applied s') = map aw_finding (wl_applied s)
        @ filter (\<lambda>f. \<exists>w \<in> set ws. waiver_covers target now release_id w f) fs"
    and "\<forall>a \<in> set (wl_applied s') - set (wl_applied s).
        aw_waiver a \<in> set ws \<and> waiver_covers target now release_id (aw_waiver a) (aw_finding a)"
proof -
  have "wl_remaining s' = wl_remaining s
        @ filter (\<lambda>f. \<forall>w \<in> set ws. \<not> waiver_covers target now release_id w f) fs
    \<and> map aw_finding (wl_applied s') = map aw_finding (wl_applied s)
        @ filter (\<lambda>f. \<exists>w \<in> set ws. waiver_covers target now release_id w f) fs
    \<and> (\<forall>a \<in> set (wl_applied s') - set (wl_applied s).
        aw_waiver a \<in> set ws \<and> waiver_covers target now release_id (aw_waiver a) (aw_finding a))"
    using assms
  proof (induction fs arbitrary: s)
    case (Cons f fs)
    from Cons.prems obtain m rs where m: "match_waiver target now release_id f ws (wl_reasons s) = Inr (m, rs)"
      by (auto split: sum.splits)
    show ?case
    proof (cases m)
      case None
      have "\<forall>w \<in> set ws. \<not> waiver_covers target now release_id w f"
        using match_waiver_Inr [OF m] None by simp
      then show ?thesis using Cons.IH [of "s\<lparr>wl_remaining := wl_remaining s @ [f], wl_reasons := rs\<rparr>"]
          Cons.prems m None by simp
    next
      case (Some w)
      have w: "w \<in> set ws" "waiver_covers target now release_id w f"
        using match_waiver_Inr [OF m] Some by simp_all
      let ?s = "s\<lparr>wl_applied := wl_applied s @ [\<lparr>aw_waiver = w, aw_finding = f\<rparr>],
          wl_unused := filter (\<lambda>(i, _). i \<noteq> row_id w) (wl_unused s), wl_reasons := rs\<rparr>"
      have "apply_loop target now release_id ws fs ?s = Inr s'" using Cons.prems m Some by simp
      from Cons.IH [OF this] w show ?thesis by auto
    qed
  qed simp
  then show "wl_remaining s' = wl_remaining s
        @ filter (\<lambda>f. \<forall>w \<in> set ws. \<not> waiver_covers target now release_id w f) fs"
    and "map aw_finding (wl_applied s') = map aw_finding (wl_applied s)
        @ filter (\<lambda>f. \<exists>w \<in> set ws. waiver_covers target now release_id w f) fs"
    and "\<forall>a \<in> set (wl_applied s') - set (wl_applied s).
        aw_waiver a \<in> set ws \<and> waiver_covers target now release_id (aw_waiver a) (aw_finding a)"
    by blast+
qed

lemma apply_waivers_Inr:
  assumes "apply_waivers fs ws target now release_id = Inr app"
  shows "wa_remaining app = filter (\<lambda>f. \<forall>w \<in> set ws. \<not> waiver_covers target now release_id w f) fs"
    and "map aw_finding (wa_applied app) = filter (\<lambda>f. \<exists>w \<in> set ws. waiver_covers target now release_id w f) fs"
    and "\<forall>a \<in> set (wa_applied app). aw_waiver a \<in> set ws
        \<and> waiver_covers target now release_id (aw_waiver a) (aw_finding a)"
  using assms by (auto simp: apply_waivers_def res_bind_Inr_iff dest: apply_loop_Inr)

lemma Qualification_check_same: "Qualification_check q = Inr q' \<Longrightarrow> q' = q"
  by (auto simp: Qualification_check_def split: if_splits)

lemma Qualification_check_receipt:
  "Qualification_check (q\<lparr>ql_receipt_sha256 := r\<rparr>) = Inr (q\<lparr>ql_receipt_sha256 := r\<rparr>)
     \<longleftrightarrow> Qualification_check q = Inr q"
  unfolding Qualification_check_def guard_Inr by simp

lemma issue_qualification_Inr:
  assumes "issue_qualification E rq = Inr q"
  obtains app where
    "apply_waivers (ao_findings (iq_outcome rq)) (iq_waivers rq) (iq_target_fingerprint rq)
       (iq_issued_at rq) (iq_release_id rq) = Inr app"
    "ql_aggregate q = iq_outcome rq" "ql_gate_mode q = iq_gate_mode rq"
    "ql_reviewer_identity q = iq_reviewer_identity rq"
    "ql_remaining_findings q = wa_remaining app" "ql_applied_waivers q = wa_applied app"
    "ql_target_fingerprint q = iq_target_fingerprint rq"
    "ql_state q = derive_state (iq_gate_mode rq) (domain_counters_of (ao_case_results (iq_outcome rq)))
       (sp_inconclusive_policy (ao_policy (iq_outcome rq))) (iq_reviewer_identity rq)
       (wa_remaining app) (wa_applied app) (ao_requires_human_review (iq_outcome rq))
       (iq_human_review_completed rq) (material_regression (ql_baseline_comparison q))
       (iq_regression_acknowledged rq)"
    "ql_receipt_sha256 q = compute_receipt E (q\<lparr>ql_receipt_sha256 := []\<rparr>)"
    "Qualification_check q = Inr q"
proof -
  obtain app where app: "apply_waivers (ao_findings (iq_outcome rq)) (iq_waivers rq)
      (iq_target_fingerprint rq) (iq_issued_at rq) (iq_release_id rq) = Inr app"
    and q: "Qualification_check ((draft_qualification E rq app)
      \<lparr>ql_receipt_sha256 := compute_receipt E (draft_qualification E rq app)\<rparr>) = Inr q"
    using assms by (auto simp: issue_qualification_def res_bind_Inr_iff dest: Qualification_check_same)
  have q': "q = (draft_qualification E rq app)
      \<lparr>ql_receipt_sha256 := compute_receipt E (draft_qualification E rq app)\<rparr>"
    using Qualification_check_same [OF q] .
  have "ql_receipt_sha256 (draft_qualification E rq app) = []" by (simp add: draft_qualification_def Let_def)
  then have "q\<lparr>ql_receipt_sha256 := []\<rparr> = draft_qualification E rq app" using q' by simp
  moreover have "Qualification_check q = Inr q" using q q' by simp
  ultimately show ?thesis
    using that [OF app] q' by (simp add: draft_qualification_def Let_def)
qed

lemma apply_waivers_length:
  assumes "apply_waivers fs ws target now release_id = Inr app"
  shows "length (wa_remaining app) + length (wa_applied app) = length fs"
proof -
  note app = apply_waivers_Inr [OF assms]
  have "length (wa_applied app) = length (filter (\<lambda>f. \<exists>w \<in> set ws. waiver_covers target now release_id w f) fs)"
    using app(2) by (metis length_map)
  then show ?thesis
    using app(1) sum_length_filter_compl [of "\<lambda>f. \<exists>w \<in> set ws. waiver_covers target now release_id w f" fs]
    by simp
qed

section \<open>Properties\<close>

text \<open>
  C24. A waiver clears exactly what it names. When the waivers of a qualification are applied,
  each finding is either kept or excused by one recorded waiver that carries the finding's
  exact address, is bound to the target under qualification and is in force at that time; a
  finding that the authority system forbids is always kept, and a kept finding is one that no
  given waiver covers.
\<close>

theorem waivers_clear_only_what_they_name:
  assumes "apply_waivers fs ws target now release_id = Inr app"
  shows "length (wa_remaining app) + length (wa_applied app) = length fs
    \<and> set (filter bf_authority_forbidden fs) \<subseteq> set (wa_remaining app)
    \<and> (\<forall>a \<in> set (wa_applied app). aw_finding a \<in> set fs \<and> aw_waiver a \<in> set ws
         \<and> waiver_requirement_ref (aw_waiver a) = bf_requirement_ref (aw_finding a)
         \<and> ew_target_fingerprint (aw_waiver a) = target
         \<and> waiver_inactive_reason (aw_waiver a) now release_id = Inr None
         \<and> \<not> bf_authority_forbidden (aw_finding a))
    \<and> (\<forall>f \<in> set (wa_remaining app). \<forall>w \<in> set ws. \<not> waiver_covers target now release_id w f)"
proof (intro conjI)
  note app = apply_waivers_Inr [OF assms]
  show "length (wa_remaining app) + length (wa_applied app) = length fs"
    using apply_waivers_length [OF assms] .
  show "set (filter bf_authority_forbidden fs) \<subseteq> set (wa_remaining app)"
    using app(1) by (auto simp: waiver_covers_def)
  have "aw_finding a \<in> set fs" if "a \<in> set (wa_applied app)" for a
    using app(2) that by (metis (no_types, lifting) filter_is_subset image_eqI list.set_map subsetD)
  then show "\<forall>a \<in> set (wa_applied app). aw_finding a \<in> set fs \<and> aw_waiver a \<in> set ws
         \<and> waiver_requirement_ref (aw_waiver a) = bf_requirement_ref (aw_finding a)
         \<and> ew_target_fingerprint (aw_waiver a) = target
         \<and> waiver_inactive_reason (aw_waiver a) now release_id = Inr None
         \<and> \<not> bf_authority_forbidden (aw_finding a)"
    using app(3) by (simp add: waiver_covers_def)
  show "\<forall>f \<in> set (wa_remaining app). \<forall>w \<in> set ws. \<not> waiver_covers target now release_id w f"
    using app(1) by simp
qed

definition sample_waiver :: EvalWaiver where
  "sample_waiver = \<lparr>tenant_id = ''t'', row_id = 5, schema_version = 1, ew_qualification_id = 6,
     ew_target_fingerprint = replicate 64 (CHR ''a''), ew_failed_suite_id = ''s'', ew_failed_case_id = ''c'',
     ew_failed_grader_id = ''*'', ew_founder_approval_id = 7, ew_approver_identity = ''founder'',
     ew_rationale = ''r'', ew_evidence_ref = ''e'', ew_evidence_sha256 = '''', ew_expires_at = Some (Aware 100),
     ew_release_bound_to = '''', ew_created_at = Aware 0\<rparr>"

definition sample_finding :: BlockingFinding where
  "sample_finding = (finding R5_FORBIDDEN_EFFECT_ATTEMPT ''s::c::*'' (ForbiddenEffect 1 ''mail''))
     \<lparr>bf_authority_forbidden := True\<rparr>"

lemma sample_fingerprint: "sha256_re_match (replicate 64 (CHR ''a''))"
  by (rule is_hex64_imp_re_match, rule is_hex64_replicate) (simp add: hex_digits_def)

theorem waivers_clear_only_what_they_name_witness:
  "\<exists>app. apply_waivers [sample_finding] [sample_waiver] (replicate 64 (CHR ''a'')) (Aware 1) '''' = Inr app
     \<and> sample_finding \<in> set (wa_remaining app)"
proof -
  obtain app where app: "apply_waivers [sample_finding] [sample_waiver] (replicate 64 (CHR ''a'')) (Aware 1) ''''
      = Inr app"
    using sample_fingerprint
    by (simp add: apply_waivers_def require_fingerprint_def require_aware_def waiver_requirement_ref_def
        waiver_inactive_reason_def sample_waiver_def sample_finding_def requirement_ref_def)
  from waivers_clear_only_what_they_name [OF app] app show ?thesis by (simp add: sample_finding_def)
qed

text \<open>
  C2. What an issued qualification means. Issuing never mints WAIVED, STALE, EXPIRED or ERROR.
  QUALIFIED is issued only under a blocking gate, for an aggregate with no finding at all, with
  zero critical-failure, error and forbidden-effect counters, with no inconclusive case unless
  the suite's policy is review, with a required human review completed and a regression
  acknowledged; such a qualification is one that an enforcing gate would not block. A
  qualification whose findings were all waived is issued REJECTED.
\<close>

theorem issued_state_sound:
  assumes "issue_qualification E rq = Inr q"
  defines "k \<equiv> domain_counters_of (ao_case_results (ql_aggregate q))"
  shows "ql_state q \<in> {PENDING, REJECTED, QUALIFIED, ADVISORY_QUALIFIED} \<and> ql_state q \<in> ISSUABLE_STATES
    \<and> (ql_state q = QUALIFIED \<longrightarrow>
         ql_gate_mode q = Gate_BLOCKING \<and> ao_findings (ql_aggregate q) = []
         \<and> dc_critical_failure_count k = 0 \<and> dc_error_count k = 0 \<and> dc_forbidden_effect_count k = 0
         \<and> (dc_inconclusive_count k = 0 \<or> sp_inconclusive_policy (ao_policy (ql_aggregate q)) = Policy_REVIEW)
         \<and> (ao_requires_human_review (ql_aggregate q) \<longrightarrow> iq_human_review_completed rq)
         \<and> (material_regression (ql_baseline_comparison q) \<longrightarrow> iq_regression_acknowledged rq)
         \<and> \<not> would_block_under_enforcement q)
    \<and> (ql_applied_waivers q \<noteq> [] \<longrightarrow> ql_state q = REJECTED)
    \<and> (ql_state q = ADVISORY_QUALIFIED \<longrightarrow> ql_gate_mode q \<noteq> Gate_BLOCKING \<and> q_refusal q = [])"
proof -
  from assms(1) obtain app where
    app: "apply_waivers (ao_findings (iq_outcome rq)) (iq_waivers rq) (iq_target_fingerprint rq)
       (iq_issued_at rq) (iq_release_id rq) = Inr app"
    and q: "ql_aggregate q = iq_outcome rq" "ql_gate_mode q = iq_gate_mode rq"
      "ql_reviewer_identity q = iq_reviewer_identity rq"
      "ql_remaining_findings q = wa_remaining app" "ql_applied_waivers q = wa_applied app"
    and st: "ql_state q = derive_state (iq_gate_mode rq) (domain_counters_of (ao_case_results (iq_outcome rq)))
       (sp_inconclusive_policy (ao_policy (iq_outcome rq))) (iq_reviewer_identity rq)
       (wa_remaining app) (wa_applied app) (ao_requires_human_review (iq_outcome rq))
       (iq_human_review_completed rq) (material_regression (ql_baseline_comparison q))
       (iq_regression_acknowledged rq)"
    by (rule issue_qualification_Inr)
  have len: "length (wa_remaining app) + length (wa_applied app) = length (ao_findings (iq_outcome rq))"
    using apply_waivers_length [OF app] .
  have "ql_state q \<in> {PENDING, REJECTED, QUALIFIED, ADVISORY_QUALIFIED}"
    unfolding st derive_state_def by simp
  then have iss: "ql_state q \<in> ISSUABLE_STATES" by (auto simp: ISSUABLE_STATES_def)
  have "wa_remaining app = [] \<and> wa_applied app = [] \<and> q_refusal q = [] \<and> iq_gate_mode rq = Gate_BLOCKING
      \<and> (ao_requires_human_review (iq_outcome rq) \<longrightarrow> iq_human_review_completed rq)
      \<and> (material_regression (ql_baseline_comparison q) \<longrightarrow> iq_regression_acknowledged rq)"
    if "ql_state q = QUALIFIED"
    using that unfolding st derive_state_def q_refusal_def q by (simp split: if_splits)
  then have qual: "ql_state q = QUALIFIED \<longrightarrow>
         ql_gate_mode q = Gate_BLOCKING \<and> ao_findings (ql_aggregate q) = []
         \<and> dc_critical_failure_count k = 0 \<and> dc_error_count k = 0 \<and> dc_forbidden_effect_count k = 0
         \<and> (dc_inconclusive_count k = 0 \<or> sp_inconclusive_policy (ao_policy (ql_aggregate q)) = Policy_REVIEW)
         \<and> (ao_requires_human_review (ql_aggregate q) \<longrightarrow> iq_human_review_completed rq)
         \<and> (material_regression (ql_baseline_comparison q) \<longrightarrow> iq_regression_acknowledged rq)
         \<and> \<not> would_block_under_enforcement q"
    using len by (auto simp: q k_def would_block_under_enforcement_def q_refusal_def qualifying_refusal_def
        split: if_splits)
  have "ql_applied_waivers q \<noteq> [] \<longrightarrow> ql_state q = REJECTED"
    unfolding st q derive_state_def by simp
  moreover have "ql_state q = ADVISORY_QUALIFIED \<longrightarrow> ql_gate_mode q \<noteq> Gate_BLOCKING \<and> q_refusal q = []"
    unfolding st q q_refusal_def derive_state_def by simp
  ultimately show ?thesis
    using qual iss \<open>ql_state q \<in> {PENDING, REJECTED, QUALIFIED, ADVISORY_QUALIFIED}\<close> by blast
qed

definition digest_env :: py_env where
  "digest_env = sample_env\<lparr>sha256 := (\<lambda>_. replicate 64 (CHR ''a''))\<rparr>"

definition sample_outcome :: "CaseResult list \<Rightarrow> BlockingFinding list \<Rightarrow> AggregateOutcome" where
  "sample_outcome cs fs = \<lparr>ao_suite_id = ''s'', ao_suite_version = ''1'', ao_subject_family = ''anthropic'',
     ao_case_results = cs, ao_findings = fs, ao_requires_human_review = False, ao_metrics = JObj [],
     ao_policy = sample_policy\<rparr>"

definition sample_request :: "AggregateOutcome \<Rightarrow> EvalWaiver list \<Rightarrow> issue_request" where
  "sample_request out ws = \<lparr>iq_qualification_id = ''q'', iq_target_fingerprint = replicate 64 (CHR ''a''),
     iq_exam = \<lparr>ex_suite_id = ''s'', ex_suite_version = ''1'', ex_grader_versions = [],
       ex_rubric_versions = [], ex_thresholds = [], ex_attempt_policy_digest = ''''\<rparr>,
     iq_outcome = out, iq_gate_mode = Gate_BLOCKING, iq_reviewer_identity = ''rev'',
     iq_reviewer_family = ''openai'', iq_subject_family = ''anthropic'', iq_issued_at = Aware 1,
     iq_expires_at = Aware 50, iq_waivers = ws, iq_baseline = None, iq_release_id = '''',
     iq_human_review_completed = False, iq_regression_acknowledged = False\<rparr>"

lemmas issue_eval = issue_qualification_def apply_waivers_def require_fingerprint_def require_aware_def
  draft_qualification_def Qualification_check_def exam_digest_def sha256_hex_def compute_receipt_def

lemma sample_issue:
  "\<exists>q. issue_qualification digest_env (sample_request (sample_outcome [sample_case [PASS]] []) []) = Inr q
     \<and> ql_state q = QUALIFIED"
  using sample_fingerprint
  by (simp add: issue_eval sample_request_def digest_env_def Let_def py_space_def compare_to_baseline_def)
    (simp add: derive_state_def sample_outcome_def qualifying_refusal_def domain_counters_of_def sample_defs
      case_eval Let_def count_if_def)

theorem issued_state_sound_witness:
  "\<exists>q. issue_qualification digest_env (sample_request (sample_outcome [sample_case [PASS]] []) []) = Inr q
     \<and> ql_state q = QUALIFIED \<and> \<not> would_block_under_enforcement q"
proof -
  obtain q where q: "issue_qualification digest_env (sample_request (sample_outcome [sample_case [PASS]] []) []) = Inr q"
    "ql_state q = QUALIFIED" using sample_issue by blast
  with issued_state_sound [OF q(1)] show ?thesis by blast
qed

lemma persist_error_Inr: "persist_error m = Inr x \<longleftrightarrow> m = Inr x"
  by (cases m) (simp_all add: persist_error_def)

lemma persist_error_of_Inr [simp]: "persist_error (Inr x) = Inr x"
  by (simp add: persist_error_def)

lemma derive_state_guards:
  assumes "derive_state g k p r rem app rhr hrc reg ack = st" and "st \<in> QUALIFYING_STATES"
  shows "qualifying_refusal k p r = [] \<and> (st = QUALIFIED \<longrightarrow> g = Gate_BLOCKING)"
  using assms by (auto simp: derive_state_def QUALIFYING_STATES_def split: if_splits)

lemma transition_from_pending:
  assumes "eq_state row = PENDING" and "st \<in> {REJECTED, QUALIFIED, ADVISORY_QUALIFIED}"
    and "st \<in> QUALIFYING_STATES \<Longrightarrow> eq_critical_failure_count row = 0 \<and> eq_error_count row = 0
      \<and> eq_forbidden_effect_count row = 0
      \<and> (eq_inconclusive_count row = 0
         \<or> eq_inconclusive_policy row = Policy_REVIEW \<and> eq_reviewer_identity row \<noteq> [])
      \<and> \<not> (st = QUALIFIED \<and> eq_gate_mode row = Gate_ADVISORY)"
  shows "qualification_transition row st t [] = Inr (row\<lparr>eq_state := st, eq_decided_at := Some t\<rparr>)"
  using assms
  by (auto simp: qualification_transition_def assert_qualification_transition_def QUALIFYING_STATES_def Let_def)

lemma qualifying_refusal_Nil:
  "qualifying_refusal k p r = [] \<longleftrightarrow> dc_critical_failure_count k = 0 \<and> dc_error_count k = 0
     \<and> dc_forbidden_effect_count k = 0
     \<and> (dc_inconclusive_count k = 0 \<or> p = Policy_REVIEW \<and> nonblank r)"
  by (simp add: qualifying_refusal_def)

text \<open>The row that an issued qualification is driven to.\<close>

definition persisted_row ::
    "py_env \<Rightarrow> Qualification \<Rightarrow> nat \<Rightarrow> string \<Rightarrow> nat \<Rightarrow> string \<Rightarrow> string \<Rightarrow> nat option \<Rightarrow> EvalQualification" where
  "persisted_row E q i tenant run snapshot ref base =
     (domain_qualification E q i tenant run snapshot ref base)
       \<lparr>eq_state := ql_state q, eq_decided_at := (if ql_state q = PENDING then None else Some (ql_issued_at q))\<rparr>"

text \<open>What the record layer asks of a qualifying state.\<close>

definition row_qualifies :: "QualificationState \<Rightarrow> EvalQualification \<Rightarrow> bool" where
  "row_qualifies st row \<longleftrightarrow>
     eq_critical_failure_count row = 0 \<and> eq_error_count row = 0 \<and> eq_forbidden_effect_count row = 0
     \<and> (eq_inconclusive_count row = 0
        \<or> eq_inconclusive_policy row = Policy_REVIEW \<and> eq_reviewer_identity row \<noteq> [])
     \<and> \<not> (st = QUALIFIED \<and> eq_gate_mode row = Gate_ADVISORY)"

lemma issued_states:
  assumes "issue_qualification E rq = Inr q"
  shows "ql_state q \<in> {PENDING, REJECTED, QUALIFIED, ADVISORY_QUALIFIED}" and "Qualification_check q = Inr q"
    and "ql_state q \<in> QUALIFYING_STATES \<Longrightarrow>
      row_qualifies (ql_state q) (domain_qualification E q i tenant run snapshot ref base)"
proof -
  from assms obtain app :: WaiverApplication where
    q: "ql_aggregate q = iq_outcome rq" "ql_gate_mode q = iq_gate_mode rq"
      "ql_reviewer_identity q = iq_reviewer_identity rq"
    and st: "ql_state q = derive_state (iq_gate_mode rq) (domain_counters_of (ao_case_results (iq_outcome rq)))
       (sp_inconclusive_policy (ao_policy (iq_outcome rq))) (iq_reviewer_identity rq)
       (wa_remaining app) (wa_applied app) (ao_requires_human_review (iq_outcome rq))
       (iq_human_review_completed rq) (material_regression (ql_baseline_comparison q))
       (iq_regression_acknowledged rq)"
    and chk: "Qualification_check q = Inr q"
    by (rule issue_qualification_Inr) blast
  show "ql_state q \<in> {PENDING, REJECTED, QUALIFIED, ADVISORY_QUALIFIED}"
    unfolding st derive_state_def by simp
  show "Qualification_check q = Inr q" by (rule chk)
  have rev: "ql_reviewer_identity q \<noteq> []"
    using chk nonblank_imp_ne by (auto simp: Qualification_check_def guard_Inr)
  show "row_qualifies (ql_state q) (domain_qualification E q i tenant run snapshot ref base)"
    if "ql_state q \<in> QUALIFYING_STATES"
    using derive_state_guards [OF st [symmetric] that] rev q
    by (auto simp: row_qualifies_def domain_qualification_def Let_def qualifying_refusal_Nil)
qed

lemma issued_row_accepted:
  assumes "issue_qualification E rq = Inr q" and "nonblank tenant" and "sha256_re_match snapshot"
  shows "to_domain_qualification E q i tenant run snapshot ref base
    = Inr (persisted_row E q i tenant run snapshot ref base)"
proof -
  let ?row = "domain_qualification E q i tenant run snapshot ref base"
  have row: "eq_state ?row = PENDING" "eq_decided_at ?row = None"
    by (simp_all add: domain_qualification_def Let_def)
  have tenant: "require_tenant tenant = Inr ()" using assms(2) by (simp add: require_tenant_def py_simps)
  show ?thesis
  proof (cases "ql_state q = PENDING")
    case True
    moreover have "?row = persisted_row E q i tenant run snapshot ref base"
      using True row by (simp add: persisted_row_def)
    ultimately show ?thesis
      using assms(2,3) tenant by (simp add: to_domain_qualification_def require_fingerprint_def)
  next
    case False
    then have "qualification_transition ?row (ql_state q) (ql_issued_at q) []
        = Inr (persisted_row E q i tenant run snapshot ref base)"
      using transition_from_pending [OF row(1), of "ql_state q" "ql_issued_at q"] issued_states(1,3) [OF assms(1)]
      by (auto simp: persisted_row_def row_qualifies_def)
    then show ?thesis using False issued_states(1) [OF assms(1)] assms(2,3) tenant
      by (auto simp: to_domain_qualification_def require_fingerprint_def persist_error_def)
  qed
qed

lemma issued_row_checks:
  assumes "issue_qualification E rq = Inr q"
  shows "ddl_qualification_checks (persisted_row E q i tenant run snapshot ref base)"
proof -
  let ?row = "domain_qualification E q i tenant run snapshot ref base"
  have row: "eq_invalidated_at ?row = None" "eq_invalidation_reason ?row = []"
    by (simp_all add: domain_qualification_def Let_def)
  have blank: "\<not> btrim_nonempty []" by (simp add: btrim_nonempty_def)
  show ?thesis using row blank issued_states(1) [OF assms] issued_states(3) [OF assms, of i tenant run snapshot ref base]
    by (auto simp: ddl_qualification_checks_def persisted_row_def QUALIFYING_STATES_def row_qualifies_def)
qed

lemma issued_row_identity:
  assumes "issue_qualification E rq = Inr q" and "nonblank tenant" and "\<forall>s. is_hex64 (sha256 E s)"
  shows "ddl_qualification_identity (persisted_row E q i tenant run snapshot ref base) \<longleftrightarrow>
    is_hex64 (ql_target_fingerprint q) \<and> is_hex64 snapshot
    \<and> btrim_nonempty (ao_suite_id (ql_aggregate q)) \<and> btrim_nonempty (ao_suite_version (ql_aggregate q))
    \<and> base \<noteq> Some i"
proof -
  have r: "nonblank (ql_reviewer_identity q) \<and> nonblank (ql_reviewer_family q) \<and> nonblank (ql_subject_family q)
      \<and> ql_reviewer_family q \<noteq> ql_subject_family q"
    using issued_states(2) [OF assms(1)] by (simp add: Qualification_check_def guard_Inr)
  then have ne: "ql_reviewer_identity q \<noteq> []" "ql_reviewer_family q \<noteq> []" using nonblank_imp_ne by blast+
  have "is_hex64 (ql_receipt_sha256 q)"
    using assms(1) by (rule issue_qualification_Inr) (use assms(3) in \<open>simp add: compute_receipt_def\<close>)
  then show ?thesis
    using assms(2) r ne
    by (auto simp: ddl_qualification_identity_def persisted_row_def domain_qualification_def Let_def
        text_or_null_def nonblank_btrim)
qed



text \<open>
  A waived release is visible as such and hides nothing forbidden. Moving an issued
  qualification to WAIVED succeeds only from REJECTED with every finding excused by an applied
  waiver; then no finding of the aggregate is authority-forbidden, the state is WAIVED and not a
  qualifying one, and the receipt is recomputed over the new state.
\<close>

theorem waived_only_when_all_excused:
  assumes "issue_qualification E rq = Inr q" and "apply_waiver_to_rejected_qualification E q = Inr w"
  shows "ql_state q = REJECTED \<and> ql_state w = WAIVED \<and> ql_state w \<notin> QUALIFYING_STATES
    \<and> map aw_finding (ql_applied_waivers q) = ao_findings (ql_aggregate q)
    \<and> (\<forall>f \<in> set (ao_findings (ql_aggregate w)). \<not> bf_authority_forbidden f)
    \<and> would_block_under_enforcement w
    \<and> ql_receipt_sha256 w = compute_receipt E (q\<lparr>ql_state := WAIVED\<rparr>)"
proof -
  from assms(1) obtain app where app: "apply_waivers (ao_findings (iq_outcome rq)) (iq_waivers rq)
      (iq_target_fingerprint rq) (iq_issued_at rq) (iq_release_id rq) = Inr app"
    and q: "ql_aggregate q = iq_outcome rq" "ql_remaining_findings q = wa_remaining app"
      "ql_applied_waivers q = wa_applied app"
    by (rule issue_qualification_Inr)
  from assms(2) have r: "ql_state q = REJECTED" "ql_applied_waivers q \<noteq> []" "ql_remaining_findings q = []"
    and w: "w = q\<lparr>ql_state := WAIVED, ql_receipt_sha256 := compute_receipt E (q\<lparr>ql_state := WAIVED\<rparr>)\<rparr>"
    by (auto simp: apply_waiver_to_rejected_qualification_def res_bind_Inr_iff guard_Inr
        dest!: Qualification_check_same)
  note a = apply_waivers_Inr [OF app]
  have "filter (\<lambda>f. \<exists>w \<in> set (iq_waivers rq). waiver_covers (iq_target_fingerprint rq) (iq_issued_at rq)
      (iq_release_id rq) w f) (ao_findings (iq_outcome rq)) = ao_findings (iq_outcome rq)"
    using a(1) r(3) q(2) by (auto simp: filter_empty_conv intro!: filter_True)
  then have eq: "map aw_finding (ql_applied_waivers q) = ao_findings (ql_aggregate q)"
    using a(2) q by simp
  have "\<forall>x \<in> set (ql_applied_waivers q). \<not> bf_authority_forbidden (aw_finding x)"
    using a(3) q(3) by (simp add: waiver_covers_def)
  then have "\<forall>f \<in> set (ao_findings (ql_aggregate q)). \<not> bf_authority_forbidden f"
    unfolding eq [symmetric] by simp
  then show ?thesis using r w eq
    by (simp add: QUALIFYING_STATES_def would_block_under_enforcement_def)
qed

definition waivable_request :: issue_request where
  "waivable_request = sample_request (sample_outcome [sample_case [FAIL]]
     [finding R1_CRITICAL_DETERMINISTIC_FAILURE ''s::c::*'' (CriticalFailed [1] [''r''])]) [sample_waiver]"

lemma sample_issue_waivable:
  "\<exists>q w. issue_qualification digest_env waivable_request = Inr q
     \<and> apply_waiver_to_rejected_qualification digest_env q = Inr w"
  using sample_fingerprint
  by (simp add: issue_eval waivable_request_def sample_request_def digest_env_def Let_def py_space_def
      compare_to_baseline_def sample_outcome_def waiver_requirement_ref_def sample_waiver_def
      requirement_ref_def waiver_inactive_reason_def dict_of_def derive_state_def
      apply_waiver_to_rejected_qualification_def)

theorem waived_only_when_all_excused_witness:
  "\<exists>q w. issue_qualification digest_env waivable_request = Inr q
     \<and> apply_waiver_to_rejected_qualification digest_env q = Inr w \<and> ql_state w = WAIVED"
proof -
  obtain q w where q: "issue_qualification digest_env waivable_request = Inr q"
    "apply_waiver_to_rejected_qualification digest_env q = Inr w" using sample_issue_waivable by blast
  from waived_only_when_all_excused [OF q] q show ?thesis by blast
qed

text \<open>
  Staleness is mechanical and never upgrades. For a constructed qualification, evaluating
  it later returns its own state exactly when the target fingerprint and the exam digest are
  unchanged and it has not expired; a changed target or exam gives STALE, and otherwise an
  elapsed expiry gives EXPIRED.
\<close>

theorem staleness_never_upgrades:
  assumes "Qualification_check q = Inr q" and "sha256_re_match target" and "is_aware now"
  shows "evaluate_staleness E q target exam now =
    Inr (if target \<noteq> ql_target_fingerprint q \<or> exam_digest E exam \<noteq> ql_exam_digest q then STALE
         else if dt_le (ql_expires_at q) now = Some True then EXPIRED else ql_state q)"
proof -
  have "is_aware (ql_expires_at q)" using assms(1) by (simp add: Qualification_check_def guard_Inr)
  then have "dt_le (ql_expires_at q) now \<noteq> None" using assms(3) by simp
  then show ?thesis
    using assms(2,3)
    by (auto simp: evaluate_staleness_def require_fingerprint_def require_aware_def split: bool.splits)
qed

theorem staleness_never_upgrades_witness:
  "\<exists>q. issue_qualification digest_env (sample_request (sample_outcome [sample_case [PASS]] []) []) = Inr q
     \<and> evaluate_staleness digest_env q (replicate 64 (CHR ''b'')) (ql_exam q) (Aware 2) = Inr STALE"
proof -
  obtain q where q: "issue_qualification digest_env (sample_request (sample_outcome [sample_case [PASS]] []) []) = Inr q"
    using sample_issue by blast
  from q have c: "Qualification_check q = Inr q" "ql_target_fingerprint q = replicate 64 (CHR ''a'')"
    by (rule issue_qualification_Inr; simp add: sample_request_def)+
  have "sha256_re_match (replicate 64 (CHR ''b''))"
    by (rule is_hex64_imp_re_match, rule is_hex64_replicate) (simp add: hex_digits_def)
  moreover have "replicate 64 (CHR ''b'') \<noteq> replicate 64 (CHR ''a'')"
    by (simp add: numeral_eq_Suc)
  ultimately show ?thesis
    using staleness_never_upgrades [OF c(1), of "replicate 64 (CHR ''b'')" "Aware 2" digest_env "ql_exam q"]
      c(2) q by auto
qed

end
