(* ===== verification/Authority.thy ===== *)
theory Authority
  imports Json
begin

text \<open>
  The kernel's action authority (\<^verbatim>\<open>fleet_kernel/m8/authority.py\<close>): signed evidence receipts bound to
  an action intent, the registry of checks, the consequence matrix, and the gate that decides
  an action. Ed25519 and \<^verbatim>\<open>datetime.fromisoformat\<close> are parameters (record \<open>auth_env\<close>); the reading of
  the clock is the argument \<open>now\<close>.
\<close>

section \<open>Data\<close>

datatype KernelAction =
    READ_TENANT_DATA | DRAFT_COMPUTE | WRITE_TENANT_STATE | Act_EXTERNAL_READ | NOTIFY_CUSTOMER
  | MONEY_ARTIFACT | UPLOAD_CUSTOMER_SYSTEM | SUBMIT_IRREVERSIBLE | CREDENTIAL_CHANGE | PROD_CHANGE
  | POLICY_CHANGE | KILL_RESPAWN | SPEND_CHANGE | CROSS_TENANT

fun KernelAction_value :: "KernelAction \<Rightarrow> string" where
  "KernelAction_value READ_TENANT_DATA = ''read_tenant_data''"
| "KernelAction_value DRAFT_COMPUTE = ''draft_compute''"
| "KernelAction_value WRITE_TENANT_STATE = ''write_tenant_state''"
| "KernelAction_value Act_EXTERNAL_READ = ''external_read''"
| "KernelAction_value NOTIFY_CUSTOMER = ''notify_customer''"
| "KernelAction_value MONEY_ARTIFACT = ''money_artifact''"
| "KernelAction_value UPLOAD_CUSTOMER_SYSTEM = ''upload_customer_system''"
| "KernelAction_value SUBMIT_IRREVERSIBLE = ''submit_irreversible''"
| "KernelAction_value CREDENTIAL_CHANGE = ''credential_change''"
| "KernelAction_value PROD_CHANGE = ''prod_change''"
| "KernelAction_value POLICY_CHANGE = ''policy_change''"
| "KernelAction_value KILL_RESPAWN = ''kill_respawn''"
| "KernelAction_value SPEND_CHANGE = ''spend_change''"
| "KernelAction_value CROSS_TENANT = ''cross_tenant''"

datatype ConsequenceTier = LOW | MEDIUM | HIGH | EXCEPTIONAL | FORBIDDEN

fun ConsequenceTier_value :: "ConsequenceTier \<Rightarrow> string" where
  "ConsequenceTier_value LOW = ''low''"
| "ConsequenceTier_value MEDIUM = ''medium''"
| "ConsequenceTier_value HIGH = ''high''"
| "ConsequenceTier_value EXCEPTIONAL = ''exceptional''"
| "ConsequenceTier_value FORBIDDEN = ''forbidden''"

record EvidenceReceipt =
  rc_check_id :: string
  rc_intent_sha256 :: string
  rc_verdict :: string
  rc_reason :: string
  rc_artifact_ref :: string
  rc_artifact_sha256 :: string
  rc_issuer :: string
  rc_issued_at :: string
  rc_expires_at :: string
  rc_signature :: string

record 'pk TrustedEvidenceIssuer =
  ti_issuer :: string
  ti_family :: string
  ti_public_key :: 'pk
  ti_allowed_checks :: "string list"

record GateRequest =
  gq_action :: KernelAction
  gq_actor_tenant_id :: string
  gq_request_tenant_id :: string
  gq_actor_role :: string
  gq_actor_family :: string
  gq_target :: string
  gq_objective_id :: string
  gq_worker_identity :: string
  gq_idempotency_key :: string
  gq_why_ref :: string
  gq_evidence :: "EvidenceReceipt list"

record GateDecision =
  de_allowed :: bool
  de_action :: KernelAction
  de_tier :: ConsequenceTier
  de_reason :: string
  de_checked :: "string list"
  de_decision_sha256 :: string
  de_escalate_to_scribe :: bool

record ScribeEscalation =
  se_decision_sha256 :: string
  se_objective_id :: string
  se_durable_ref :: string

text \<open>
  \<open>verify_sig\<close> is \<^verbatim>\<open>public_key.verify\<close> as a truth value, \<open>sign_with\<close> is \<^verbatim>\<open>private_key.sign\<close>, and
  \<open>parse_iso\<close> is \<^verbatim>\<open>datetime.fromisoformat\<close> with \<^const>\<open>None\<close> for its \<^verbatim>\<open>ValueError\<close>.
\<close>

record ('pk, 'sk) auth_env = py_env +
  verify_sig :: "'pk \<Rightarrow> string \<Rightarrow> string \<Rightarrow> bool"
  sign_with :: "'sk \<Rightarrow> string \<Rightarrow> string"
  parse_iso :: "string \<Rightarrow> py_datetime option"

datatype policy_integrity_error =
    DuplicateEvidence string | UntrustedIssuer | OtherIntent | BadArtifactBinding | BadTimestamp
  | NotCurrentlyValid | SameFamilyEvidence | BadSignature
  | MatrixIncomplete | MatrixNotPinned | ChecksNotPinned | UnboundEscalation

section \<open>Evidence\<close>

definition INDEPENDENT_CHECKS :: "string list" where
  "INDEPENDENT_CHECKS = [''independent_verify'', ''cmcv'', ''review_3_plus_3'']"

definition intent_json :: "GateRequest \<Rightarrow> json" where
  "intent_json rq = JObj
     [(''action'', JStr (KernelAction_value (gq_action rq))),
      (''actor_tenant_id'', JStr (gq_actor_tenant_id rq)),
      (''request_tenant_id'', JStr (gq_request_tenant_id rq)),
      (''actor_role'', JStr (gq_actor_role rq)), (''actor_family'', JStr (gq_actor_family rq)),
      (''target'', JStr (gq_target rq)), (''objective_id'', JStr (gq_objective_id rq)),
      (''worker_identity'', JStr (gq_worker_identity rq)),
      (''idempotency_key'', JStr (gq_idempotency_key rq)), (''why_ref'', JStr (gq_why_ref rq))]"

definition intent_sha256 :: "('a py_env_scheme) \<Rightarrow> GateRequest \<Rightarrow> string" where
  "intent_sha256 E rq = sha256 E (json_dumps (float_repr E) (intent_json rq))"

definition receipt_payload_json :: "EvidenceReceipt \<Rightarrow> json" where
  "receipt_payload_json r = JObj
     [(''check_id'', JStr (rc_check_id r)), (''intent_sha256'', JStr (rc_intent_sha256 r)),
      (''verdict'', JStr (rc_verdict r)), (''reason'', JStr (rc_reason r)),
      (''artifact_ref'', JStr (rc_artifact_ref r)), (''artifact_sha256'', JStr (rc_artifact_sha256 r)),
      (''issuer'', JStr (rc_issuer r)), (''issued_at'', JStr (rc_issued_at r)),
      (''expires_at'', JStr (rc_expires_at r))]"

definition evidence_payload :: "('a py_env_scheme) \<Rightarrow> EvidenceReceipt \<Rightarrow> string" where
  "evidence_payload E r = json_dumps (float_repr E) (receipt_payload_json r)"

definition sign_evidence ::
    "('pk, 'sk) auth_env \<Rightarrow> 'sk \<Rightarrow> GateRequest \<Rightarrow> string \<Rightarrow> string \<Rightarrow> string \<Rightarrow> string \<Rightarrow> py_datetime
     \<Rightarrow> py_datetime \<Rightarrow> string \<Rightarrow> string \<Rightarrow> EvidenceReceipt" where
  "sign_evidence E key rq check_id issuer ref sha issued expires verdict reason =
     (let unsigned = \<lparr>rc_check_id = check_id, rc_intent_sha256 = intent_sha256 E rq,
            rc_verdict = verdict, rc_reason = reason, rc_artifact_ref = ref,
            rc_artifact_sha256 = sha, rc_issuer = issuer, rc_issued_at = isoformat E issued,
            rc_expires_at = isoformat E expires, rc_signature = []\<rparr>
      in unsigned\<lparr>rc_signature := sign_with E key (evidence_payload E unsigned)\<rparr>)"

type_synonym 'pk evidence_trust = "(string \<times> 'pk TrustedEvidenceIssuer) list"

text \<open>The tests of one receipt, in the order of the loop's body.\<close>

definition verify_receipt ::
    "('pk, 'sk) auth_env \<Rightarrow> 'pk evidence_trust \<Rightarrow> py_datetime \<Rightarrow> GateRequest \<Rightarrow> EvidenceReceipt
     \<Rightarrow> policy_integrity_error + unit" where
  "verify_receipt E trust now rq r =
     (case map_of trust (rc_issuer r) of
        None \<Rightarrow> Inl UntrustedIssuer
      | Some issuer \<Rightarrow>
          if rc_check_id r \<notin> set (ti_allowed_checks issuer) then Inl UntrustedIssuer
          else if rc_intent_sha256 r \<noteq> intent_sha256 E rq then Inl OtherIntent
          else if \<not> is_hex64 (rc_artifact_sha256 r) \<or> rc_artifact_ref r = [] then Inl BadArtifactBinding
          else (case (parse_iso E (rc_issued_at r), parse_iso E (rc_expires_at r)) of
              (Some issued, Some expires) \<Rightarrow>
                if \<not> is_aware issued \<or> \<not> is_aware expires
                   \<or> \<not> (dt_le issued now = Some True \<and> dt_le now expires = Some True)
                   \<or> dt_le expires issued = Some True
                then Inl NotCurrentlyValid
                else if rc_check_id r \<in> set INDEPENDENT_CHECKS \<and> ti_family issuer = gq_actor_family rq
                then Inl SameFamilyEvidence
                else if \<not> verify_sig E (ti_public_key issuer) (rc_signature r) (evidence_payload E r)
                then Inl BadSignature
                else Inr ()
            | _ \<Rightarrow> Inl BadTimestamp))"

fun verified_loop ::
    "('pk, 'sk) auth_env \<Rightarrow> 'pk evidence_trust \<Rightarrow> py_datetime \<Rightarrow> GateRequest \<Rightarrow> EvidenceReceipt list
     \<Rightarrow> (string \<times> EvidenceReceipt) list \<Rightarrow> policy_integrity_error + (string \<times> EvidenceReceipt) list" where
  "verified_loop E trust now rq [] verified = Inr verified"
| "verified_loop E trust now rq (r # rs) verified =
     (if map_of verified (rc_check_id r) \<noteq> None then Inl (DuplicateEvidence (rc_check_id r))
      else (case verify_receipt E trust now rq r of
          Inl e \<Rightarrow> Inl e
        | Inr _ \<Rightarrow> verified_loop E trust now rq rs (verified @ [(rc_check_id r, r)])))"

definition verified_receipts ::
    "('pk, 'sk) auth_env \<Rightarrow> 'pk evidence_trust \<Rightarrow> py_datetime \<Rightarrow> GateRequest
     \<Rightarrow> policy_integrity_error + (string \<times> EvidenceReceipt) list" where
  "verified_receipts E trust now rq = verified_loop E trust now rq (gq_evidence rq) []"

section \<open>Checks\<close>

type_synonym receipts = "(string \<times> EvidenceReceipt) list"
type_synonym check = "GateRequest \<Rightarrow> receipts \<Rightarrow> bool \<times> string"

definition evidence_check :: "string \<Rightarrow> string \<Rightarrow> check" where
  "evidence_check check_id failure = (\<lambda>rq rs.
     case map_of rs check_id of
       None \<Rightarrow> (False, failure)
     | Some r \<Rightarrow>
         if rc_verdict r \<noteq> ''pass'' then (False, if rc_reason r \<noteq> [] then rc_reason r else failure)
         else (True, failure))"

definition tenant_match :: check where
  "tenant_match = (\<lambda>rq rs.
     (gq_actor_tenant_id rq \<noteq> [] \<and> gq_actor_tenant_id rq = gq_request_tenant_id rq,
      ''actor tenant does not match requested tenant''))"

definition idempotency :: check where
  "idempotency = (\<lambda>rq rs.
     (gq_idempotency_key rq \<noteq> [] \<and> 16 \<le> length (gq_idempotency_key rq), ''stable idempotency key is missing''))"

definition role_check :: "string list \<Rightarrow> string \<Rightarrow> check" where
  "role_check allowed reason = (\<lambda>rq rs. (gq_actor_role rq \<in> set allowed, reason))"

definition tenant_zero :: check where
  "tenant_zero = (\<lambda>rq rs.
     (gq_actor_tenant_id rq = gq_request_tenant_id rq \<and> gq_request_tenant_id rq = ''tenant-zero'',
      ''exceptional fleet action requires tenant-zero identity''))"

definition why_check :: check where
  "why_check = (\<lambda>rq rs. (starts_with (gq_why_ref rq) ''docs/brain/'', ''compiled policy WHY link is missing''))"

definition classifier_check :: check where
  "classifier_check = (\<lambda>rq rs.
     case map_of rs ''classifier'' of
       None \<Rightarrow> (False, ''typed external-classifier receipt is missing'')
     | Some r \<Rightarrow>
         if rc_verdict r = ''hold''
         then (False, if rc_reason r \<noteq> [] then rc_reason r else ''external classifier returned HOLD'')
         else if rc_verdict r \<noteq> ''pass'' then (False, ''external classifier did not PASS'')
         else (True, ''external classifier did not PASS''))"

definition forbidden_check :: check where
  "forbidden_check = (\<lambda>rq rs. (False, ''the kernel has no authority path for this action class''))"

text \<open>The checks that only look up a receipt of their own name, with their failure texts.\<close>

definition EVIDENCE_CHECKS :: "(string \<times> string) list" where
  "EVIDENCE_CHECKS =
    [(''storage_jail'', ''tenant storage jail did not pass''),
     (''role_scope'', ''role scope did not pass''),
     (''spend'', ''spend ceiling did not pass''),
     (''lease'', ''active ownership lease is missing''),
     (''tool_permission'', ''tool permission is missing''),
     (''credential_scope'', ''credential scope did not pass''),
     (''source_truth'', ''source-of-truth check is missing''),
     (''approval'', ''approval is missing''),
     (''content'', ''content gate did not pass''),
     (''rate_limit'', ''rate limit did not pass''),
     (''independent_verify'', ''independent verification did not pass''),
     (''quarantine'', ''quarantine classification is incomplete''),
     (''r7_basis'', ''external ground-truth basis is missing''),
     (''penny_reconcile'', ''penny reconciliation did not pass''),
     (''mode_declared'', ''dry-run/live mode is missing''),
     (''deny_layers'', ''browser deny layers did not pass''),
     (''evidence_gate'', ''evidence gate did not pass''),
     (''per_run_go'', ''founder/customer per-run GO is missing''),
     (''cmcv'', ''CMCV review is not CLEAN''),
     (''founder_auth'', ''founder authorization is missing''),
     (''secret_manager'', ''secret-manager write is missing''),
     (''rotation'', ''credential rotation record is missing''),
     (''rollback'', ''rollback is not proven''),
     (''ci'', ''required CI is not green''),
     (''review_3_plus_3'', ''3+3 review is incomplete''),
     (''compiled_controls'', ''compiled-control production gate did not pass''),
     (''version_bump'', ''policy version was not bumped''),
     (''lease_consent'', ''lease holder neither consented nor expired''),
     (''hmac_arm'', ''HMAC arm ceremony is invalid''),
     (''attestation'', ''attestation record is missing'')]"

definition REQUEST_CHECKS :: "(string \<times> check) list" where
  "REQUEST_CHECKS =
    [(''tenant_match'', tenant_match), (''idempotency'', idempotency),
     (''notify_role'', role_check [''notify_leg''] ''customer send requires notify_leg''),
     (''money_role'', role_check [''domain_engine''] ''money artifact requires domain_engine''),
     (''browser_role'', role_check [''browser_executor''] ''upload requires browser_executor''),
     (''tenant_zero'', tenant_zero),
     (''maintenance_role'', role_check [''kernel_maintenance''] ''credential change requires maintenance''),
     (''prod_role'', role_check [''ccto'', ''ccde''] ''prod change requires ccto or ccde''),
     (''policy_role'', role_check [''scribe'', ''ccto''] ''policy change requires scribe or ccto''),
     (''why'', why_check),
     (''kill_role'', role_check [''scribe'', ''cos''] ''kill or respawn requires scribe or cos''),
     (''classifier'', classifier_check),
     (''founder_role'', role_check [''founder''] ''spend change is founder-only''),
     (''forbidden'', forbidden_check)]"

definition CHECKS :: "(string \<times> check) list" where
  "CHECKS = REQUEST_CHECKS @ map (\<lambda>(i, failure). (i, evidence_check i failure)) EVIDENCE_CHECKS"

section \<open>The matrix\<close>

fun MATRIX :: "KernelAction \<Rightarrow> ConsequenceTier \<times> string list" where
  "MATRIX READ_TENANT_DATA = (LOW, [''tenant_match'', ''storage_jail''])"
| "MATRIX DRAFT_COMPUTE = (LOW, [''tenant_match'', ''role_scope'', ''spend''])"
| "MATRIX WRITE_TENANT_STATE =
     (MEDIUM, [''tenant_match'', ''role_scope'', ''spend'', ''lease'', ''idempotency''])"
| "MATRIX Act_EXTERNAL_READ =
     (MEDIUM, [''tenant_match'', ''role_scope'', ''tool_permission'', ''credential_scope'', ''source_truth''])"
| "MATRIX NOTIFY_CUSTOMER =
     (HIGH, [''tenant_match'', ''notify_role'', ''approval'', ''content'', ''rate_limit'', ''independent_verify''])"
| "MATRIX MONEY_ARTIFACT =
     (HIGH, [''tenant_match'', ''money_role'', ''quarantine'', ''r7_basis'', ''penny_reconcile'',
             ''independent_verify''])"
| "MATRIX UPLOAD_CUSTOMER_SYSTEM =
     (HIGH, [''tenant_match'', ''browser_role'', ''mode_declared'', ''deny_layers'', ''evidence_gate'',
             ''per_run_go'', ''cmcv''])"
| "MATRIX SUBMIT_IRREVERSIBLE = (FORBIDDEN, [''forbidden''])"
| "MATRIX CREDENTIAL_CHANGE =
     (EXCEPTIONAL, [''tenant_zero'', ''maintenance_role'', ''founder_auth'', ''secret_manager'', ''rotation'',
                    ''independent_verify''])"
| "MATRIX PROD_CHANGE =
     (EXCEPTIONAL, [''tenant_zero'', ''prod_role'', ''founder_auth'', ''rollback'', ''ci'', ''review_3_plus_3'',
                    ''compiled_controls''])"
| "MATRIX POLICY_CHANGE =
     (EXCEPTIONAL, [''tenant_zero'', ''policy_role'', ''founder_auth'', ''version_bump'', ''why'',
                    ''independent_verify''])"
| "MATRIX KILL_RESPAWN = (HIGH, [''tenant_zero'', ''kill_role'', ''lease_consent'', ''classifier''])"
| "MATRIX SPEND_CHANGE = (EXCEPTIONAL, [''tenant_zero'', ''founder_role'', ''hmac_arm'', ''attestation''])"
| "MATRIX CROSS_TENANT = (FORBIDDEN, [''forbidden''])"

definition all_actions :: "KernelAction list" where
  "all_actions = [READ_TENANT_DATA, DRAFT_COMPUTE, WRITE_TENANT_STATE, Act_EXTERNAL_READ, NOTIFY_CUSTOMER,
     MONEY_ARTIFACT, UPLOAD_CUSTOMER_SYSTEM, SUBMIT_IRREVERSIBLE, CREDENTIAL_CHANGE, PROD_CHANGE,
     POLICY_CHANGE, KILL_RESPAWN, SPEND_CHANGE, CROSS_TENANT]"

definition EXPECTED_CHECKS :: "string list" where
  "EXPECTED_CHECKS =
    [''approval'', ''attestation'', ''browser_role'', ''ci'', ''classifier'', ''cmcv'',
     ''compiled_controls'', ''content'', ''credential_scope'', ''deny_layers'', ''evidence_gate'',
     ''forbidden'', ''founder_auth'', ''founder_role'', ''hmac_arm'', ''idempotency'',
     ''independent_verify'', ''kill_role'', ''lease'', ''lease_consent'', ''maintenance_role'', ''mode_declared'',
     ''money_role'', ''notify_role'', ''penny_reconcile'', ''per_run_go'', ''policy_role'',
     ''prod_role'', ''quarantine'', ''r7_basis'', ''rate_limit'', ''review_3_plus_3'', ''role_scope'',
     ''rollback'', ''rotation'', ''secret_manager'', ''source_truth'', ''spend'', ''storage_jail'',
     ''tenant_match'', ''tenant_zero'', ''tool_permission'', ''version_bump'', ''why'']"

definition EXPECTED_MATRIX_SHA256 :: string where
  "EXPECTED_MATRIX_SHA256 = ''1e7323ef2c5cecd661ed03d575c3b494518e985c6e4fa127f750badf32844c7b''"

definition matrix_json :: json where
  "matrix_json = JObj (map (\<lambda>a. case MATRIX a of (tier, checks) \<Rightarrow>
       (KernelAction_value a, JObj [(''tier'', JStr (ConsequenceTier_value tier)),
                                    (''checks'', JList (map JStr checks))]))
     (sort_key KernelAction_value all_actions))"

definition matrix_sha256 :: "('a py_env_scheme) \<Rightarrow> string" where
  "matrix_sha256 E = sha256 E (json_dumps (float_repr E) matrix_json)"

text \<open>
  The matrix is a total function here, so its key set is the set of all actions and the first
  of the three tests of the source always passes.
\<close>

definition assert_policy_integrity :: "('a py_env_scheme) \<Rightarrow> policy_integrity_error + unit" where
  "assert_policy_integrity E =
     (if matrix_sha256 E \<noteq> EXPECTED_MATRIX_SHA256 then Inl MatrixNotPinned
      else if fst ` set CHECKS \<noteq> set EXPECTED_CHECKS then Inl ChecksNotPinned
      else Inr ())"

section \<open>The gate\<close>

definition decision_digest :: "('a py_env_scheme) \<Rightarrow> GateRequest \<Rightarrow> string list \<Rightarrow> string \<Rightarrow> string" where
  "decision_digest E rq checked reason =
     (let bindings = sort_key id (map (\<lambda>r. [rc_check_id r, rc_issuer r, rc_artifact_sha256 r, rc_verdict r])
                                   (gq_evidence rq))
      in sha256 E (json_dumps (float_repr E) (JObj
           [(''intent'', JStr (intent_sha256 E rq)),
            (''evidence'', JList (map (\<lambda>b. JList (map JStr b)) bindings)),
            (''checked'', JList (map JStr checked)), (''reason'', JStr reason)])))"

text \<open>The loop over the check ids: the checks run so far and, at the first failing one, its text.\<close>

fun run_checks :: "GateRequest \<Rightarrow> receipts \<Rightarrow> string list \<Rightarrow> string list \<Rightarrow> string list \<times> string option" where
  "run_checks rq rs [] checked = (checked, None)"
| "run_checks rq rs (i # is) checked =
     (case (case map_of CHECKS i of Some c \<Rightarrow> c rq rs | None \<Rightarrow> (False, i)) of
        (passed, failure) \<Rightarrow>
          if \<not> passed then (checked @ [i], Some failure)
          else run_checks rq rs is (checked @ [i]))"

definition evaluate_action ::
    "('pk, 'sk) auth_env \<Rightarrow> 'pk evidence_trust \<Rightarrow> py_datetime \<Rightarrow> GateRequest
     \<Rightarrow> policy_integrity_error + GateDecision" where
  "evaluate_action E trust now rq =
     res_bind (assert_policy_integrity E) (\<lambda>_.
     res_bind (verified_receipts E trust now rq) (\<lambda>rs.
       let hold = (case map_of rs ''classifier'' of None \<Rightarrow> False | Some r \<Rightarrow> rc_verdict r = ''hold'');
           tier = fst (MATRIX (gq_action rq))
       in case run_checks rq rs (snd (MATRIX (gq_action rq))) [] of
            (checked, Some failure) \<Rightarrow>
              Inr \<lparr>de_allowed = False, de_action = gq_action rq, de_tier = tier, de_reason = failure,
                de_checked = checked, de_decision_sha256 = decision_digest E rq checked failure,
                de_escalate_to_scribe = hold\<rparr>
          | (checked, None) \<Rightarrow>
              Inr \<lparr>de_allowed = True, de_action = gq_action rq, de_tier = tier, de_reason = ''authorized'',
                de_checked = checked, de_decision_sha256 = decision_digest E rq checked ''authorized'',
                de_escalate_to_scribe = False\<rparr>))"

datatype require_error = Integrity policy_integrity_error | AuthorityDenied GateDecision

text \<open>
  \<open>escalator\<close> and \<open>verifier\<close> are the callbacks of the caller; \<^const>\<open>None\<close> is an answer that is no
  \<^verbatim>\<open>ScribeEscalation\<close>.
\<close>

definition require_action ::
    "('pk, 'sk) auth_env \<Rightarrow> 'pk evidence_trust \<Rightarrow> py_datetime
     \<Rightarrow> (GateRequest \<Rightarrow> GateDecision \<Rightarrow> ScribeEscalation option) \<Rightarrow> (ScribeEscalation \<Rightarrow> bool)
     \<Rightarrow> GateRequest \<Rightarrow> require_error + GateDecision" where
  "require_action E trust now escalator verifier rq =
     (case evaluate_action E trust now rq of
        Inl e \<Rightarrow> Inl (Integrity e)
      | Inr d \<Rightarrow>
          if de_allowed d then Inr d
          else if de_escalate_to_scribe d
             \<and> (case escalator rq d of
                  None \<Rightarrow> True
                | Some s \<Rightarrow> se_decision_sha256 s \<noteq> de_decision_sha256 d
                    \<or> se_objective_id s \<noteq> gq_objective_id rq
                    \<or> \<not> starts_with (se_durable_ref s) ''scribe://''
                    \<or> \<not> verifier s)
          then Inl (Integrity UnboundEscalation)
          else Inl (AuthorityDenied d))"

section \<open>Lemmas\<close>

lemma CHECKS_keys: "map fst CHECKS = map fst REQUEST_CHECKS @ map fst EVIDENCE_CHECKS"
  by (simp add: CHECKS_def comp_def case_prod_unfold)

lemma CHECKS_distinct: "distinct (map fst CHECKS)"
  unfolding CHECKS_keys by (simp add: REQUEST_CHECKS_def EVIDENCE_CHECKS_def)

lemma CHECKS_complete: "fst ` set CHECKS = set EXPECTED_CHECKS"
proof -
  have "fst ` set CHECKS = set (map fst REQUEST_CHECKS @ map fst EVIDENCE_CHECKS)"
    using CHECKS_keys by (metis list.set_map)
  also have "\<dots> = set EXPECTED_CHECKS"
    by (simp add: REQUEST_CHECKS_def EVIDENCE_CHECKS_def EXPECTED_CHECKS_def) (intro subset_antisym; simp)
  finally show ?thesis .
qed

text \<open>A verified loop returns the receipts under their check ids, each of them verified.\<close>

lemma verified_loop_Inr:
  "verified_loop E trust now rq rs acc = Inr out \<Longrightarrow>
     out = acc @ map (\<lambda>r. (rc_check_id r, r)) rs
     \<and> (\<forall>r \<in> set rs. verify_receipt E trust now rq r = Inr ())"
proof (induction rs arbitrary: acc)
  case (Cons r rs)
  then have "verify_receipt E trust now rq r = Inr ()"
    and "verified_loop E trust now rq rs (acc @ [(rc_check_id r, r)]) = Inr out"
    by (simp_all split: if_splits sum.splits)
  with Cons.IH show ?case by force
qed simp

lemma verified_receipts_Inr:
  assumes "verified_receipts E trust now rq = Inr out"
  shows "out = map (\<lambda>r. (rc_check_id r, r)) (gq_evidence rq)"
    and "\<forall>r \<in> set (gq_evidence rq). verify_receipt E trust now rq r = Inr ()"
  using verified_loop_Inr [OF assms [unfolded verified_receipts_def]] by auto

lemma verified_receipts_lookup:
  assumes "verified_receipts E trust now rq = Inr out" and "map_of out i = Some r"
  shows "r \<in> set (gq_evidence rq) \<and> rc_check_id r = i \<and> verify_receipt E trust now rq r = Inr ()"
proof -
  have "(i, r) \<in> set out" using assms(2) by (rule map_of_SomeD)
  then show ?thesis using verified_receipts_Inr [OF assms(1)] by auto
qed

lemma verify_receipt_Inr:
  "verify_receipt E trust now rq r = Inr () \<Longrightarrow>
     \<exists>issuer. map_of trust (rc_issuer r) = Some issuer \<and> rc_check_id r \<in> set (ti_allowed_checks issuer)
       \<and> rc_intent_sha256 r = intent_sha256 E rq
       \<and> verify_sig E (ti_public_key issuer) (rc_signature r) (evidence_payload E r)
       \<and> (rc_check_id r \<in> set INDEPENDENT_CHECKS \<longrightarrow> ti_family issuer \<noteq> gq_actor_family rq)
       \<and> (\<exists>issued expires. parse_iso E (rc_issued_at r) = Some issued \<and> parse_iso E (rc_expires_at r) = Some expires
            \<and> dt_le issued now = Some True \<and> dt_le now expires = Some True)"
  by (auto simp: verify_receipt_def split: option.splits if_splits prod.splits)

lemma run_checks_None:
  "run_checks rq rs is acc = (checked, None) \<longleftrightarrow>
     checked = acc @ is \<and> (\<forall>i \<in> set is. \<exists>c. map_of CHECKS i = Some c \<and> fst (c rq rs))"
  by (induction "is" arbitrary: acc) (auto split: option.splits prod.splits)

lemma run_checks_Some:
  assumes "run_checks rq rs is acc = (checked, Some failure)"
  obtains pre i post where "is = pre @ i # post" "checked = acc @ pre @ [i]"
    "\<forall>j \<in> set pre. \<exists>c. map_of CHECKS j = Some c \<and> fst (c rq rs)"
    "\<not> (\<exists>c. map_of CHECKS i = Some c \<and> fst (c rq rs))"
  using assms
proof (induction "is" arbitrary: acc thesis)
  case (Cons i "is")
  show ?case
  proof (cases "\<exists>c. map_of CHECKS i = Some c \<and> fst (c rq rs)")
    case True
    then have "run_checks rq rs is (acc @ [i]) = (checked, Some failure)"
      using Cons.prems(2) by (auto split: prod.splits)
    from Cons.IH [OF _ this] obtain pre k post where "is = pre @ k # post"
      "checked = (acc @ [i]) @ pre @ [k]" "\<forall>j \<in> set pre. \<exists>c. map_of CHECKS j = Some c \<and> fst (c rq rs)"
      "\<not> (\<exists>c. map_of CHECKS k = Some c \<and> fst (c rq rs))" by blast
    then show ?thesis using Cons.prems(1) [of "i # pre" k post] True by auto
  next
    case False
    then have "checked = acc @ [i]" using Cons.prems(2) by (auto split: option.splits prod.splits if_splits)
    then show ?thesis using Cons.prems(1) [of "[]" i "is"] False by auto
  qed
qed simp

lemma evaluate_action_Inr:
  assumes "evaluate_action E trust now rq = Inr d"
  obtains rs where "verified_receipts E trust now rq = Inr rs" "de_action d = gq_action rq"
    "de_tier d = fst (MATRIX (gq_action rq))"
    "de_allowed d \<longleftrightarrow> (\<forall>i \<in> set (snd (MATRIX (gq_action rq))). \<exists>c. map_of CHECKS i = Some c \<and> fst (c rq rs))"
proof -
  from assms obtain rs where rs: "verified_receipts E trust now rq = Inr rs"
    by (auto simp: evaluate_action_def res_bind_Inr_iff)
  obtain checked res where rc: "run_checks rq rs (snd (MATRIX (gq_action rq))) [] = (checked, res)"
    by fastforce
  have d: "de_action d = gq_action rq" "de_tier d = fst (MATRIX (gq_action rq))" "de_allowed d \<longleftrightarrow> res = None"
    using assms rs rc by (auto simp: evaluate_action_def res_bind_Inr_iff Let_def split: option.splits)
  have "res = None \<longleftrightarrow> (\<forall>i \<in> set (snd (MATRIX (gq_action rq))). \<exists>c. map_of CHECKS i = Some c \<and> fst (c rq rs))"
  proof (cases res)
    case None
    then show ?thesis using rc run_checks_None by auto
  next
    case (Some failure)
    from rc [unfolded Some] obtain pre i post where "snd (MATRIX (gq_action rq)) = pre @ i # post"
      "\<not> (\<exists>c. map_of CHECKS i = Some c \<and> fst (c rq rs))" by (rule run_checks_Some)
    then show ?thesis using Some by auto
  qed
  with that rs d show thesis by blast
qed

lemma CHECKS_evidence:
  assumes "(i, failure) \<in> set EVIDENCE_CHECKS"
  shows "map_of CHECKS i = Some (evidence_check i failure)"
proof -
  have "(i, evidence_check i failure) \<in> set CHECKS" using assms by (force simp: CHECKS_def)
  then show ?thesis using CHECKS_distinct by (rule map_of_is_SomeI [rotated])
qed

lemma evidence_check_pass:
  "fst (evidence_check i failure rq rs) \<longleftrightarrow> (\<exists>r. map_of rs i = Some r \<and> rc_verdict r = ''pass'')"
  by (auto simp: evidence_check_def split: option.splits)

lemma intent_json_inj:
  assumes "json_dumps fr (intent_json a) = json_dumps fr (intent_json b)"
  shows "a\<lparr>gq_evidence := x\<rparr> = b\<lparr>gq_evidence := x\<rparr>"
proof -
  have "json_canon (intent_json a) = json_canon (intent_json b)"
    by (rule json_dumps_inj [OF assms]) (simp_all add: intent_json_def)
  then have f: "KernelAction_value (gq_action a) = KernelAction_value (gq_action b)"
    "gq_actor_tenant_id a = gq_actor_tenant_id b" "gq_request_tenant_id a = gq_request_tenant_id b"
    "gq_actor_role a = gq_actor_role b" "gq_actor_family a = gq_actor_family b"
    "gq_target a = gq_target b" "gq_objective_id a = gq_objective_id b"
    "gq_worker_identity a = gq_worker_identity b" "gq_idempotency_key a = gq_idempotency_key b"
    "gq_why_ref a = gq_why_ref b"
    by (simp_all add: intent_json_def sort_key_def)
  have "gq_action a = gq_action b" using f(1) by (cases "gq_action a"; cases "gq_action b") simp_all
  with f show ?thesis by (cases a; cases b) simp
qed

section \<open>Properties\<close>

definition RECEIPT_CHECKS :: "string list" where
  "RECEIPT_CHECKS = ''classifier'' # map fst EVIDENCE_CHECKS"

definition valid_receipt ::
    "('pk, 'sk) auth_env \<Rightarrow> 'pk evidence_trust \<Rightarrow> py_datetime \<Rightarrow> GateRequest \<Rightarrow> EvidenceReceipt \<Rightarrow> bool" where
  "valid_receipt E trust now rq r \<longleftrightarrow>
     (\<exists>issuer. map_of trust (rc_issuer r) = Some issuer \<and> rc_check_id r \<in> set (ti_allowed_checks issuer)
       \<and> rc_intent_sha256 r = intent_sha256 E rq
       \<and> verify_sig E (ti_public_key issuer) (rc_signature r) (evidence_payload E r)
       \<and> (rc_check_id r \<in> set INDEPENDENT_CHECKS \<longrightarrow> ti_family issuer \<noteq> gq_actor_family rq)
       \<and> (\<exists>issued expires. parse_iso E (rc_issued_at r) = Some issued \<and> parse_iso E (rc_expires_at r) = Some expires
            \<and> dt_le issued now = Some True \<and> dt_le now expires = Some True))"

lemma verify_receipt_valid: "verify_receipt E trust now rq r = Inr () \<Longrightarrow> valid_receipt E trust now rq r"
  unfolding valid_receipt_def by (rule verify_receipt_Inr)

lemma CHECKS_request:
  assumes "(i, c) \<in> set REQUEST_CHECKS"
  shows "map_of CHECKS i = Some c"
proof -
  have "(i, c) \<in> set CHECKS" using assms by (simp add: CHECKS_def)
  then show ?thesis using CHECKS_distinct by (rule map_of_is_SomeI [rotated])
qed

lemma CHECKS_receipt:
  assumes "i \<in> set RECEIPT_CHECKS" and "map_of CHECKS i = Some c" and "fst (c rq rs)"
  shows "\<exists>r. map_of rs i = Some r \<and> rc_verdict r = ''pass''"
proof (cases "i = ''classifier''")
  case True
  have "map_of CHECKS i = Some classifier_check"
    unfolding True by (rule CHECKS_request) (simp add: REQUEST_CHECKS_def)
  with assms show ?thesis
    by (auto simp: classifier_check_def True split: option.splits if_splits)
next
  case False
  with assms(1) obtain failure where "(i, failure) \<in> set EVIDENCE_CHECKS"
    by (auto simp: RECEIPT_CHECKS_def)
  from CHECKS_evidence [OF this] assms(2, 3) show ?thesis by (simp add: evidence_check_pass)
qed

text \<open>Every row of the matrix starts with the test of the tenant, or is the forbidden row.\<close>

lemma MATRIX_head:
  "hd (snd (MATRIX a)) \<in> {''tenant_match'', ''tenant_zero'', ''forbidden''} \<and> snd (MATRIX a) \<noteq> []"
  "hd (snd (MATRIX a)) = ''forbidden'' \<longleftrightarrow> fst (MATRIX a) = FORBIDDEN"
  by (cases a; simp)+

lemma CHECKS_tenant:
  "map_of CHECKS ''tenant_match'' = Some tenant_match"
  "map_of CHECKS ''tenant_zero'' = Some tenant_zero"
  "map_of CHECKS ''forbidden'' = Some forbidden_check"
  by (rule CHECKS_request, simp add: REQUEST_CHECKS_def)+

lemma allowed_tenant:
  assumes "\<forall>i \<in> set (snd (MATRIX a)). \<exists>c. map_of CHECKS i = Some c \<and> fst (c rq rs)"
  shows "gq_actor_tenant_id rq = gq_request_tenant_id rq \<and> gq_actor_tenant_id rq \<noteq> [] \<and> fst (MATRIX a) \<noteq> FORBIDDEN"
proof -
  let ?h = "hd (snd (MATRIX a))"
  have "?h \<in> set (snd (MATRIX a))" using MATRIX_head(1) by simp
  then obtain c where c: "map_of CHECKS ?h = Some c" "fst (c rq rs)" using assms by blast
  from MATRIX_head(1) [of a] consider "?h = ''tenant_match''" | "?h = ''tenant_zero''" | "?h = ''forbidden''"
    by blast
  then show ?thesis
    using c MATRIX_head(2) [of a]
    by cases (auto simp: CHECKS_tenant tenant_match_def tenant_zero_def forbidden_check_def)
qed

lemma require_action_Inr:
  "require_action E trust now escalator verifier rq = Inr d \<longleftrightarrow>
     evaluate_action E trust now rq = Inr d \<and> de_allowed d"
  by (auto simp: require_action_def split: sum.splits if_splits)

text \<open>
  C5. What an authorised action has behind it: when the gate returns a decision, it is an
  allowing one, the actor's tenant is the requested one and not empty, the action is not of a
  forbidden class, and every check of the action's row that is decided by evidence has a passing
  receipt in the request, from a trusted issuer whose scope contains the check, bound to the
  intent of this very request, currently valid, signed, and, for an independent check, from
  another model family than the actor's.
\<close>

theorem authorised_actions_are_evidenced:
  assumes "require_action E trust now escalator verifier rq = Inr d"
  shows "de_allowed d \<and> de_action d = gq_action rq \<and> de_tier d \<noteq> FORBIDDEN
    \<and> gq_actor_tenant_id rq = gq_request_tenant_id rq \<and> gq_actor_tenant_id rq \<noteq> []
    \<and> (\<forall>i \<in> set (snd (MATRIX (gq_action rq))) \<inter> set RECEIPT_CHECKS.
           \<exists>r \<in> set (gq_evidence rq). rc_check_id r = i \<and> rc_verdict r = ''pass'' \<and> valid_receipt E trust now rq r)"
proof -
  from assms have ev: "evaluate_action E trust now rq = Inr d" and al: "de_allowed d"
    by (simp_all add: require_action_Inr)
  from ev obtain rs where rs: "verified_receipts E trust now rq = Inr rs" "de_action d = gq_action rq"
    "de_tier d = fst (MATRIX (gq_action rq))"
    and ok: "de_allowed d \<longleftrightarrow> (\<forall>i \<in> set (snd (MATRIX (gq_action rq))). \<exists>c. map_of CHECKS i = Some c \<and> fst (c rq rs))"
    by (rule evaluate_action_Inr)
  from ok al have all: "\<forall>i \<in> set (snd (MATRIX (gq_action rq))). \<exists>c. map_of CHECKS i = Some c \<and> fst (c rq rs)"
    by blast
  have "\<exists>r \<in> set (gq_evidence rq). rc_check_id r = i \<and> rc_verdict r = ''pass'' \<and> valid_receipt E trust now rq r"
    if i: "i \<in> set (snd (MATRIX (gq_action rq))) \<inter> set RECEIPT_CHECKS" for i
  proof -
    from i obtain r where "map_of rs i = Some r" "rc_verdict r = ''pass''"
      using all CHECKS_receipt [of i _ rq rs] by blast
    with verified_receipts_lookup [OF rs(1)] verify_receipt_valid show ?thesis by blast
  qed
  then show ?thesis using al rs allowed_tenant [OF all] by auto
qed

text \<open>
  A concrete environment: the digest function is the constant pinned value, signatures are the
  text under a mark, and time stamps are read as the epoch.
\<close>

definition sample_auth_env :: "(unit, unit) auth_env" where
  "sample_auth_env = \<lparr>sha256 = (\<lambda>_. EXPECTED_MATRIX_SHA256), float_repr = (\<lambda>_. ''0.0''),
     float_fixed3 = (\<lambda>_. ''0.000''), float_sum = (\<lambda>_. 0), py_repr = (\<lambda>s. s), uuid_str = (\<lambda>_. ''u''),
     isoformat = (\<lambda>t. case t of Aware n \<Rightarrow> if n = 0 then ''1970'' else ''2000'' | Naive _ \<Rightarrow> ''?''),
     verify_sig = (\<lambda>_ s m. s = ''sig:'' @ m), sign_with = (\<lambda>_ m. ''sig:'' @ m),
     parse_iso = (\<lambda>s. if s = ''1970'' then Some (Aware 0) else if s = ''2000'' then Some (Aware 9) else None)\<rparr>"

definition sample_trust :: "unit evidence_trust" where
  "sample_trust = [(''jail'', \<lparr>ti_issuer = ''jail'', ti_family = ''B'', ti_public_key = (),
     ti_allowed_checks = [''storage_jail'']\<rparr>)]"

definition sample_intent :: GateRequest where
  "sample_intent = \<lparr>gq_action = READ_TENANT_DATA, gq_actor_tenant_id = ''t1'', gq_request_tenant_id = ''t1'',
     gq_actor_role = ''reader'', gq_actor_family = ''A'', gq_target = ''x'', gq_objective_id = [],
     gq_worker_identity = [], gq_idempotency_key = [], gq_why_ref = [], gq_evidence = []\<rparr>"

definition sample_request :: GateRequest where
  "sample_request = sample_intent\<lparr>gq_evidence := [sign_evidence sample_auth_env () sample_intent ''storage_jail''
     ''jail'' ''ref'' (replicate 64 CHR ''0'') (Aware 0) (Aware 9) ''pass'' []]\<rparr>"

lemma sign_evidence_verify:
  assumes "map_of trust issuer = Some ti" and "check_id \<in> set (ti_allowed_checks ti)"
    and "is_hex64 sha" and "ref \<noteq> []"
    and "\<forall>m. verify_sig E (ti_public_key ti) (sign_with E key m) m"
    and "parse_iso E (isoformat E (Aware t0)) = Some (Aware t0)"
    and "parse_iso E (isoformat E (Aware t1)) = Some (Aware t1)"
    and "t0 \<le> n" "n \<le> t1" "t0 < t1"
    and "check_id \<in> set INDEPENDENT_CHECKS \<longrightarrow> ti_family ti \<noteq> gq_actor_family rq"
  shows "verify_receipt E trust (Aware n) (rq\<lparr>gq_evidence := ev\<rparr>)
           (sign_evidence E key rq check_id issuer ref sha (Aware t0) (Aware t1) verdict reason) = Inr ()"
  using assms
  by (simp add: verify_receipt_def sign_evidence_def Let_def evidence_payload_def receipt_payload_json_def
      intent_sha256_def intent_json_def)

text \<open>
  Signing and verifying fit together: a receipt produced by \<open>sign_evidence\<close> under a key whose public
  half the trust store holds, for a check in that issuer's scope, is accepted for the request it
  was signed for at every moment of its validity, whatever evidence the request carries; the
  hypotheses are the contract of Ed25519 and that \<^verbatim>\<open>fromisoformat\<close> reads what \<^verbatim>\<open>isoformat\<close> wrote.
\<close>

theorem signed_evidence_verifies:
  assumes "map_of trust issuer = Some ti" and "check_id \<in> set (ti_allowed_checks ti)"
    and "is_hex64 sha" and "ref \<noteq> []"
    and "\<forall>m. verify_sig E (ti_public_key ti) (sign_with E key m) m"
    and "parse_iso E (isoformat E (Aware t0)) = Some (Aware t0)"
    and "parse_iso E (isoformat E (Aware t1)) = Some (Aware t1)"
    and "t0 \<le> n" "n \<le> t1" "t0 < t1"
    and "check_id \<in> set INDEPENDENT_CHECKS \<longrightarrow> ti_family ti \<noteq> gq_actor_family rq"
  shows "verified_receipts E trust (Aware n) (rq\<lparr>gq_evidence :=
           [sign_evidence E key rq check_id issuer ref sha (Aware t0) (Aware t1) verdict reason]\<rparr>)
         = Inr [(check_id, sign_evidence E key rq check_id issuer ref sha (Aware t0) (Aware t1) verdict reason)]"
  using sign_evidence_verify [OF assms]
  by (simp add: verified_receipts_def sign_evidence_def Let_def)

lemmas sample_auth_defs = sample_auth_env_def sample_trust_def INDEPENDENT_CHECKS_def

theorem signed_evidence_verifies_witness:
  "verified_receipts sample_auth_env sample_trust (Aware 3) (sample_intent\<lparr>gq_evidence :=
       [sign_evidence sample_auth_env () sample_intent ''storage_jail'' ''jail'' ''ref'' (replicate 64 CHR ''0'')
          (Aware 0) (Aware 9) ''pass'' []]\<rparr>) =
     Inr [(''storage_jail'', sign_evidence sample_auth_env () sample_intent ''storage_jail'' ''jail'' ''ref''
        (replicate 64 CHR ''0'') (Aware 0) (Aware 9) ''pass'' [])]"
  by (rule signed_evidence_verifies [where ti = "snd (hd sample_trust)"])
     (simp_all add: sample_auth_defs is_hex64_replicate hex_digits_def)

lemma sample_require:
  "\<exists>d. require_action sample_auth_env sample_trust (Aware 3) (\<lambda>_ _. None) (\<lambda>_. False) sample_request = Inr d"
proof -
  let ?r = "sign_evidence sample_auth_env () sample_intent ''storage_jail'' ''jail'' ''ref'' (replicate 64 CHR ''0'')
     (Aware 0) (Aware 9) ''pass'' []"
  have "verify_receipt sample_auth_env sample_trust (Aware 3) (sample_intent\<lparr>gq_evidence := [?r]\<rparr>) ?r = Inr ()"
    by (rule sign_evidence_verify [where ti = "snd (hd sample_trust)"])
       (simp_all add: sample_auth_defs is_hex64_replicate hex_digits_def)
  then have vr: "verified_receipts sample_auth_env sample_trust (Aware 3) sample_request = Inr [(''storage_jail'', ?r)]"
    by (simp add: verified_receipts_def sample_request_def sign_evidence_def Let_def)
  have "assert_policy_integrity sample_auth_env = Inr ()"
    using CHECKS_complete by (simp add: assert_policy_integrity_def matrix_sha256_def sample_auth_env_def)
  moreover have "map_of CHECKS ''storage_jail'' = Some (evidence_check ''storage_jail'' ''tenant storage jail did not pass'')"
    by (rule CHECKS_evidence) (simp add: EVIDENCE_CHECKS_def)
  then have "run_checks sample_request [(''storage_jail'', ?r)] [''tenant_match'', ''storage_jail''] []
      = ([''tenant_match'', ''storage_jail''], None)"
    by (simp add: CHECKS_tenant tenant_match_def sample_request_def sample_intent_def evidence_check_def
        sign_evidence_def Let_def)
  moreover have "gq_action sample_request = READ_TENANT_DATA"
    by (simp add: sample_request_def sample_intent_def)
  ultimately show ?thesis
    using vr by (auto simp: require_action_Inr evaluate_action_def Let_def)
qed

theorem authorised_actions_are_evidenced_witness:
  "\<exists>r \<in> set (gq_evidence sample_request). rc_check_id r = ''storage_jail'' \<and> rc_verdict r = ''pass''
     \<and> valid_receipt sample_auth_env sample_trust (Aware 3) sample_request r"
proof -
  from sample_require obtain d where d: "require_action sample_auth_env sample_trust (Aware 3) (\<lambda>_ _. None)
    (\<lambda>_. False) sample_request = Inr d" ..
  have "''storage_jail'' \<in> set (snd (MATRIX (gq_action sample_request))) \<inter> set RECEIPT_CHECKS"
    by (simp add: sample_request_def sample_intent_def RECEIPT_CHECKS_def EVIDENCE_CHECKS_def)
  with authorised_actions_are_evidenced [OF d] show ?thesis by blast
qed

text \<open>
  C34. Evidence cannot be moved to another action: when the digest function does not confuse the two
  intents, a receipt that verifies for two requests verifies for requests that agree in every
  field but the evidence they carry, so in action, tenants, role, family, target, objective,
  worker, idempotency key and policy reference.
\<close>

theorem evidence_bound_to_intent:
  assumes "verify_receipt E trust now a r = Inr ()" and "verify_receipt E trust' now' b r = Inr ()"
    and "intent_sha256 E a = intent_sha256 E b \<longrightarrow>
           json_dumps (float_repr E) (intent_json a) = json_dumps (float_repr E) (intent_json b)"
  shows "a\<lparr>gq_evidence := []\<rparr> = b\<lparr>gq_evidence := []\<rparr>"
proof -
  have "intent_sha256 E a = intent_sha256 E b"
    using verify_receipt_Inr [OF assms(1)] verify_receipt_Inr [OF assms(2)] by auto
  with assms(3) have "json_dumps (float_repr E) (intent_json a) = json_dumps (float_repr E) (intent_json b)"
    by blast
  then show ?thesis by (rule intent_json_inj)
qed

theorem evidence_bound_to_intent_witness:
  "sample_request\<lparr>gq_evidence := []\<rparr> = sample_intent\<lparr>gq_evidence := []\<rparr>"
proof -
  let ?E = "sample_auth_env\<lparr>sha256 := (\<lambda>s. s)\<rparr>"
  let ?r = "sign_evidence ?E () sample_intent ''storage_jail'' ''jail'' ''ref'' (replicate 64 CHR ''0'')
     (Aware 0) (Aware 9) ''pass'' []"
  have v: "verify_receipt ?E sample_trust (Aware 3) (sample_intent\<lparr>gq_evidence := ev\<rparr>) ?r = Inr ()" for ev
    by (rule sign_evidence_verify [where ti = "snd (hd sample_trust)"])
       (simp_all add: sample_auth_defs is_hex64_replicate hex_digits_def)
  have "sample_intent = sample_intent\<lparr>gq_evidence := []\<rparr>" by (simp add: sample_intent_def)
  then show ?thesis
    using evidence_bound_to_intent [OF v v] v unfolding sample_request_def by (simp add: intent_sha256_def)
qed

end
