(* ===== verification/Isolation.thy ===== *)
theory Isolation
  imports Authority Py_Text Py_Regex
begin

text \<open>
  The structural isolation controls of a worker (\<^verbatim>\<open>fleet_kernel/m8/isolation.py\<close>): reading a file
  beneath the worker's root, credential checkout, egress policy, signed messages with a durable
  replay guard, and the screen of shared-learning artifacts.

  A directory tree is a finite tree of inodes that nobody else changes during a call; which
  inodes the operating system lets the process open is the parameter \<open>os_open\<close>. The result of
  \<^verbatim>\<open>urllib.parse.urlsplit\<close> is a parameter too. Failing writes (a full disk) are not modelled.
\<close>

section \<open>Data\<close>

record file_meta =
  st_uid :: int
  st_gid :: int
  st_imode :: nat

datatype inode =
    RegF file_meta string
  | DirF file_meta "(string \<times> inode) list"
  | LinkF string
  | DevF file_meta

record WorkerIdentity =
  wi_tenant_id :: string
  wi_worker_id :: string
  wi_uid :: int
  wi_gid :: int
  wi_root :: string

text \<open>A \<^verbatim>\<open>pathlib.Path\<close> as the code reads it: whether it is absolute, and its parts.\<close>

record path_parts =
  pa_absolute :: bool
  pa_parts :: "string list"

record CredentialGrant =
  cg_tenant_id :: string
  cg_capability :: string
  cg_secret_ref :: string
  cg_expires_at :: py_datetime

text \<open>The answers of \<^verbatim>\<open>urlsplit\<close>; reading \<^verbatim>\<open>port\<close> raises for a port that is no number in range.\<close>

datatype port_read = PortError | Port "int option"

record SplitResult =
  sp_scheme :: string
  sp_username :: "string option"
  sp_password :: "string option"
  sp_port :: port_read
  sp_hostname :: "string option"

record SignedMessage =
  sm_tenant_id :: string
  sm_sender :: string
  sm_recipient :: string
  sm_message_id :: string
  sm_sequence :: int
  sm_issued_at :: string
  sm_payload_sha256 :: string
  sm_signature :: string

datatype isolation_error =
    IdentityRequired | UidMismatch | RootMissing | RootUnsafe | PathEscapes | RootOpenError | OSRefused
  | NotOwnedRegular
  | CheckoutTenant | NotGranted | GrantExpired | GrantTypeError | NotSecretRef
  | UrlError | EgressScheme | EgressDenied
  | MessageArgs | MessageNaive
  | LockOpenError | LockUnsafe | StateOpenError | StateUnsafe | StateInvalid | SequenceTooLong
  | MessageAddress | KeyUnavailable | PayloadMismatch | IssuedInvalid | MessageStale | MessageSignature
  | ReplayRefused
  | TenantLiteral | CredentialShaped

section \<open>Worker files\<close>

definition verify_worker_identity ::
    "int \<Rightarrow> int \<Rightarrow> inode option \<Rightarrow> WorkerIdentity \<Rightarrow> isolation_error + unit" where
  "verify_worker_identity euid egid root_node w =
     (if wi_tenant_id w = [] \<or> wi_worker_id w = [] then Inl IdentityRequired
      else if euid \<noteq> wi_uid w \<or> egid \<noteq> wi_gid w then Inl UidMismatch
      else (case root_node of
          None \<Rightarrow> Inl RootMissing
        | Some (DirF m es) \<Rightarrow>
            if st_uid m \<noteq> wi_uid w \<or> st_gid m \<noteq> wi_gid w \<or> st_imode m \<noteq> 448 then Inl RootUnsafe else Inr ()
        | Some _ \<Rightarrow> Inl RootUnsafe))"

text \<open>
  \<^verbatim>\<open>os.open(part, flags, dir_fd=...)\<close> with \<^verbatim>\<open>O_NOFOLLOW\<close>: a missing entry, a link, an inode the system does
  not let the process open and, with \<^verbatim>\<open>O_DIRECTORY\<close>, an inode that is no directory are an \<^verbatim>\<open>OSError\<close>.
\<close>

definition open_entry :: "(inode \<Rightarrow> bool) \<Rightarrow> bool \<Rightarrow> inode \<Rightarrow> string \<Rightarrow> inode option" where
  "open_entry os_open directory cur part =
     (case cur of
        DirF m es \<Rightarrow>
          (case map_of es part of
             None \<Rightarrow> None
           | Some (LinkF _) \<Rightarrow> None
           | Some (DirF m' es') \<Rightarrow> if os_open (DirF m' es') then Some (DirF m' es') else None
           | Some n \<Rightarrow> if os_open n \<and> \<not> directory then Some n else None)
      | _ \<Rightarrow> None)"

fun walk_parts :: "(inode \<Rightarrow> bool) \<Rightarrow> inode \<Rightarrow> string list \<Rightarrow> inode option" where
  "walk_parts os_open cur [] = Some cur"
| "walk_parts os_open cur (part # parts) =
     (case open_entry os_open (parts \<noteq> []) cur part of
        None \<Rightarrow> None
      | Some n \<Rightarrow> walk_parts os_open n parts)"

text \<open>The loop of \<^verbatim>\<open>os.read(fd, 65536)\<close> until an empty chunk.\<close>

function read_chunks :: "string \<Rightarrow> string list" where
  "read_chunks rest = (let chunk = take 65536 rest in if chunk = [] then [] else chunk # read_chunks (drop 65536 rest))"
  by auto
termination by (relation "measure length") auto

declare read_chunks.simps [simp del]

definition open_worker_file ::
    "(inode \<Rightarrow> bool) \<Rightarrow> int \<Rightarrow> int \<Rightarrow> inode option \<Rightarrow> WorkerIdentity \<Rightarrow> path_parts
     \<Rightarrow> isolation_error + string" where
  "open_worker_file os_open euid egid root_node w path =
     res_bind (verify_worker_identity euid egid root_node w) (\<lambda>_.
       if pa_absolute path \<or> ''..'' \<in> set (pa_parts path) \<or> pa_parts path = [] then Inl PathEscapes
       else (case root_node of
           None \<Rightarrow> Inl RootOpenError
         | Some r \<Rightarrow>
             if \<not> os_open r then Inl RootOpenError
             else (case walk_parts os_open r (pa_parts path) of
                 None \<Rightarrow> Inl OSRefused
               | Some (RegF m content) \<Rightarrow>
                   if st_uid m \<noteq> wi_uid w then Inl NotOwnedRegular else Inr (concat (read_chunks content))
               | Some _ \<Rightarrow> Inl NotOwnedRegular)))"

section \<open>Credentials\<close>

type_synonym credential_grants = "((string \<times> string) \<times> CredentialGrant) list"

definition checkout ::
    "credential_grants \<Rightarrow> WorkerIdentity \<Rightarrow> string \<Rightarrow> string \<Rightarrow> py_datetime
     \<Rightarrow> isolation_error + CredentialGrant" where
  "checkout grants worker tenant_id capability now =
     (if wi_tenant_id worker \<noteq> tenant_id then Inl CheckoutTenant
      else (case map_of grants (tenant_id, capability) of
          None \<Rightarrow> Inl NotGranted
        | Some grant \<Rightarrow>
            if \<not> is_aware now then Inl GrantExpired
            else (case dt_le (cg_expires_at grant) now of
                None \<Rightarrow> Inl GrantTypeError
              | Some True \<Rightarrow> Inl GrantExpired
              | Some False \<Rightarrow>
                  if \<not> starts_with (cg_secret_ref grant) ''secret://'' then Inl NotSecretRef
                  else Inr grant)))"

section \<open>Egress\<close>

type_synonym egress_policy = "(string \<times> string list) list"

definition present :: "string option \<Rightarrow> bool" where
  "present s = (case s of None \<Rightarrow> False | Some t \<Rightarrow> t \<noteq> [])"

definition rstrip_dots :: "string \<Rightarrow> string" where
  "rstrip_dots s = rev (dropWhile (\<lambda>c. c = CHR ''.'') (rev s))"

definition egress_require ::
    "(string \<Rightarrow> SplitResult option) \<Rightarrow> egress_policy \<Rightarrow> string \<Rightarrow> string \<Rightarrow> isolation_error + string" where
  "egress_require urlsplit allowed capability url =
     (case urlsplit url of
        None \<Rightarrow> Inl UrlError
      | Some parsed \<Rightarrow>
          if sp_scheme parsed \<noteq> ''https'' \<or> present (sp_username parsed) \<or> present (sp_password parsed)
          then Inl EgressScheme
          else (case sp_port parsed of
              PortError \<Rightarrow> Inl UrlError
            | Port port \<Rightarrow>
                if port \<notin> {None, Some 443} \<or> \<not> present (sp_hostname parsed) then Inl EgressScheme
                else (let host = py_lower (rstrip_dots (the (sp_hostname parsed)))
                      in if host \<notin> set (case map_of allowed capability of None \<Rightarrow> [] | Some hs \<Rightarrow> hs)
                         then Inl EgressDenied else Inr host)))"

section \<open>Signed messages\<close>

definition message_json :: "SignedMessage \<Rightarrow> json" where
  "message_json m = JObj
     [(''tenant_id'', JStr (sm_tenant_id m)), (''sender'', JStr (sm_sender m)),
      (''recipient'', JStr (sm_recipient m)), (''message_id'', JStr (sm_message_id m)),
      (''sequence'', JInt (sm_sequence m)), (''issued_at'', JStr (sm_issued_at m)),
      (''payload_sha256'', JStr (sm_payload_sha256 m))]"

definition message_payload :: "('a py_env_scheme) \<Rightarrow> SignedMessage \<Rightarrow> string" where
  "message_payload E m = json_dumps (float_repr E) (message_json m)"

text \<open>\<open>message_id\<close> is the text of the fresh \<^verbatim>\<open>uuid4\<close>, \<open>timestamp\<close> is the given time or the clock's.\<close>

definition sign_message ::
    "('pk, 'sk) auth_env \<Rightarrow> 'sk \<Rightarrow> string \<Rightarrow> string \<Rightarrow> string \<Rightarrow> string \<Rightarrow> int \<Rightarrow> string \<Rightarrow> py_datetime
     \<Rightarrow> isolation_error + SignedMessage" where
  "sign_message E key message_id tenant sender recipient seq payload timestamp =
     (if tenant = [] \<or> sender = [] \<or> recipient = [] \<or> seq < 1 then Inl MessageArgs
      else if \<not> is_aware timestamp then Inl MessageNaive
      else (let unsigned = \<lparr>sm_tenant_id = tenant, sm_sender = sender, sm_recipient = recipient,
                  sm_message_id = message_id, sm_sequence = seq, sm_issued_at = isoformat E timestamp,
                  sm_payload_sha256 = sha256 E payload, sm_signature = []\<rparr>
            in Inr (unsigned\<lparr>sm_signature := sign_with E key (message_payload E unsigned)\<rparr>)))"

section \<open>The replay guard\<close>

text \<open>
  The private directory of \<^verbatim>\<open>DurableSequenceStore\<close>, by file name. A link is an entry that
  \<^verbatim>\<open>O_NOFOLLOW\<close> refuses; the files the store makes are regular, mode 0600 and owned by the process.
\<close>

type_synonym seq_dir = "string \<Rightarrow> inode option"

text \<open>A lock that the process may not open for writing is not private, so refused all the same.\<close>

fun is_link :: "inode \<Rightarrow> bool" where
  "is_link (LinkF _) = True"
| "is_link _ = False"

fun is_dir :: "inode \<Rightarrow> bool" where
  "is_dir (DirF _ _) = True"
| "is_dir _ = False"

definition private_file :: "int \<Rightarrow> inode \<Rightarrow> bool" where
  "private_file euid n = (case n of RegF m _ \<Rightarrow> st_imode m = 384 \<and> st_uid m = euid | _ \<Rightarrow> False)"

definition new_file :: "int \<Rightarrow> int \<Rightarrow> string \<Rightarrow> inode" where
  "new_file euid egid content = RegF \<lparr>st_uid = euid, st_gid = egid, st_imode = 384\<rparr> content"

definition seq_identity :: "('a py_env_scheme) \<Rightarrow> string \<Rightarrow> string \<Rightarrow> string" where
  "seq_identity E tenant_id sender = sha256 E (tenant_id @ [CHR 0x1F] @ sender)"

text \<open>The last accepted sequence number: 0 without a state file, otherwise what the file says.\<close>

definition read_last :: "int \<Rightarrow> inode option \<Rightarrow> isolation_error + int" where
  "read_last euid entry =
     (case entry of
        None \<Rightarrow> Inr 0
      | Some n \<Rightarrow>
          if is_link n then Inl StateOpenError
          else if \<not> private_file euid n then Inl StateUnsafe
          else (case n of
              RegF m content \<Rightarrow>
                (case Option.bind (utf8_decode (take 128 content)) py_int of
                   None \<Rightarrow> Inl StateInvalid
                 | Some v \<Rightarrow> Inr v)
            | _ \<Rightarrow> Inl StateUnsafe))"

definition advance ::
    "('a py_env_scheme) \<Rightarrow> int \<Rightarrow> int \<Rightarrow> seq_dir \<Rightarrow> string \<Rightarrow> string \<Rightarrow> int
     \<Rightarrow> seq_dir \<times> (isolation_error + bool)" where
  "advance E euid egid dir tenant_id sender seq =
     (let identity = seq_identity E tenant_id sender;
          lock_path = identity @ ''.lock'';
          state_path = identity @ ''.seq'';
          lock = (case dir lock_path of None \<Rightarrow> new_file euid egid [] | Some n \<Rightarrow> n)
      in if is_link lock \<or> is_dir lock then (dir, Inl LockOpenError)
         else (let dir = dir(lock_path \<mapsto> lock)
           in if \<not> private_file euid lock then (dir, Inl LockUnsafe)
              else (case read_last euid (dir state_path) of
                  Inl e \<Rightarrow> (dir, Inl e)
                | Inr last_seq \<Rightarrow>
                    if seq \<le> last_seq then (dir, Inr False)
                    else (case py_str_int seq of
                        None \<Rightarrow> (dir, Inl SequenceTooLong)
                      | Some text \<Rightarrow>
                          (dir(state_path \<mapsto> new_file euid egid (text @ [newline])), Inr True)))))"

type_synonym 'pk worker_keys = "((string \<times> string) \<times> 'pk) list"

definition message_current :: "int \<Rightarrow> int \<Rightarrow> py_datetime \<Rightarrow> bool" where
  "message_current max_age now issued =
     (case issued of
        Naive _ \<Rightarrow> False
      | Aware t \<Rightarrow> t \<le> now + 30 * 1000000 \<and> now - t \<le> max_age)"

definition verify_message ::
    "('pk, 'sk) auth_env \<Rightarrow> int \<Rightarrow> int \<Rightarrow> 'pk worker_keys \<Rightarrow> int \<Rightarrow> int \<Rightarrow> seq_dir
     \<Rightarrow> SignedMessage \<Rightarrow> string \<Rightarrow> string \<Rightarrow> string \<Rightarrow> seq_dir \<times> (isolation_error + unit)" where
  "verify_message E euid egid keys max_age now dir m expected_tenant expected_recipient payload =
     (if sm_tenant_id m \<noteq> expected_tenant \<or> sm_recipient m \<noteq> expected_recipient
      then (dir, Inl MessageAddress)
      else (case map_of keys (expected_tenant, sm_sender m) of
          None \<Rightarrow> (dir, Inl KeyUnavailable)
        | Some key \<Rightarrow>
            if sha256 E payload \<noteq> sm_payload_sha256 m then (dir, Inl PayloadMismatch)
            else (case parse_iso E (sm_issued_at m) of
                None \<Rightarrow> (dir, Inl IssuedInvalid)
              | Some issued \<Rightarrow>
                  if \<not> message_current max_age now issued then (dir, Inl MessageStale)
                  else if \<not> verify_sig E key (sm_signature m) (message_payload E m)
                  then (dir, Inl MessageSignature)
                  else (case advance E euid egid dir (sm_tenant_id m) (sm_sender m) (sm_sequence m) of
                      (dir', Inl e) \<Rightarrow> (dir', Inl e)
                    | (dir', Inr ok) \<Rightarrow> (dir', if ok then Inr () else Inl ReplayRefused)))))"

section \<open>Shared learning\<close>

text \<open>The classes of a \<^verbatim>\<open>bytes\<close> pattern: \<^verbatim>\<open>\\s\<close> is ASCII white space there.\<close>

definition byte_space :: "char \<Rightarrow> bool" where
  "byte_space c \<longleftrightarrow> (let n = (of_char c :: nat) in n = 32 \<or> (9 \<le> n \<and> n \<le> 13))"

definition SECRET_PATTERN :: regex where
  "SECRET_PATTERN = re_alt
     [re_ilit ''sk-ant-'',
      Seq (re_ilit ''akia'') (re_times 16 (Cls chr_alnum)),
      re_seq [re_ilit ''-----begin '', re_opt (re_alt [re_ilit ''rsa '', re_ilit ''ec '', re_ilit ''openssh '']),
              re_ilit ''private key-----''],
      re_seq [re_ilit ''bearer'', re_at_least 1 (Cls byte_space),
              re_at_least 1 (Cls (\<lambda>c. chr_alnum c \<or> chr_in ''._~+/=-'' c))],
      re_seq [re_alt [re_seq [re_ilit ''api'', re_opt (Cls (chr_in ''_-'')), re_ilit ''key''],
                      re_ilit ''token'', re_ilit ''password'', re_ilit ''secret''],
              Star (Cls byte_space), Cls (chr_in '':=''), Star (Cls byte_space),
              re_at_least 1 (Cls (\<lambda>c. \<not> byte_space c))]]"

definition chr_base64 :: "char \<Rightarrow> bool" where
  "chr_base64 c \<longleftrightarrow> chr_alnum c \<or> chr_in ''+/'' c"

definition not_encoded :: "char option \<Rightarrow> bool" where
  "not_encoded oc = (case oc of None \<Rightarrow> True | Some c \<Rightarrow> \<not> (chr_base64 c \<or> c = CHR ''=''))"

definition ENCODED_SECRET :: regex where
  "ENCODED_SECRET = re_seq
     [LookAt (\<lambda>before after. not_encoded before),
      re_alt [re_at_least 40 (Cls (\<lambda>c. chr_digit c \<or> chr_range (CHR ''a'') (CHR ''f'') c
                                    \<or> chr_range (CHR ''A'') (CHR ''F'') c)),
              re_seq [re_at_least 40 (Cls chr_base64), re_opt (re_lit ''=''), re_opt (re_lit ''='')]],
      LookAt (\<lambda>before after. not_encoded after)]"

fun infix_of :: "string \<Rightarrow> string \<Rightarrow> bool" where
  "infix_of p [] \<longleftrightarrow> p = []"
| "infix_of p (c # s) \<longleftrightarrow> starts_with (c # s) p \<or> infix_of p s"

definition assert_shared_learning_safe :: "string \<Rightarrow> string list \<Rightarrow> isolation_error + unit" where
  "assert_shared_learning_safe content tenant_literals =
     (let lowered = ascii_lower content
      in if list_ex (\<lambda>literal. let encoded = utf8_encode (py_lower (py_strip literal))
                             in encoded \<noteq> [] \<and> infix_of encoded lowered) tenant_literals
         then Inl TenantLiteral
         else if re_search SECRET_PATTERN content \<or> re_search ENCODED_SECRET content
         then Inl CredentialShaped
         else Inr ())"

section \<open>Lemmas on worker files\<close>

lemma concat_read_chunks: "concat (read_chunks s) = s"
proof (induction s rule: read_chunks.induct)
  case (1 rest)
  then show ?case by (cases "rest = []") (simp_all add: read_chunks.simps [of rest] read_chunks.simps [of "[]"] Let_def)
qed

text \<open>What is beneath a directory without following a link or going up.\<close>

inductive beneath :: "inode \<Rightarrow> string list \<Rightarrow> inode \<Rightarrow> bool" where
  here: "beneath n [] n"
| down: "map_of es p = Some n \<Longrightarrow> \<not> is_link n \<Longrightarrow> beneath n ps t \<Longrightarrow> beneath (DirF m es) (p # ps) t"

inductive_simps beneath_Nil [simp]: "beneath n [] t"

lemma open_entry_Some:
  "open_entry os_open d cur p = Some n \<Longrightarrow> \<exists>m es. cur = DirF m es \<and> map_of es p = Some n \<and> \<not> is_link n"
  by (auto simp: open_entry_def split: inode.splits option.splits if_splits)

lemma walk_beneath: "walk_parts os_open cur ps = Some t \<Longrightarrow> beneath cur ps t"
proof (induction ps arbitrary: cur)
  case (Cons p ps)
  then obtain n where n: "open_entry os_open (ps \<noteq> []) cur p = Some n" "walk_parts os_open n ps = Some t"
    by (auto split: option.splits)
  then show ?case using Cons.IH [OF n(2)] open_entry_Some [OF n(1)] by (auto intro: beneath.down)
qed (auto intro: beneath.here)

lemma verify_worker_identity_Inr:
  "verify_worker_identity euid egid rn w = Inr () \<Longrightarrow>
     euid = wi_uid w \<and> egid = wi_gid w
     \<and> (\<exists>m es. rn = Some (DirF m es) \<and> st_uid m = euid \<and> st_imode m = 448)"
  by (auto simp: verify_worker_identity_def split: if_splits option.splits inode.splits)

section \<open>Lemmas on the replay guard\<close>

lemma read_last_new_file:
  assumes "length (show_int n) \<le> 128"
  shows "read_last euid (Some (new_file euid egid (show_int n @ [newline]))) = Inr n"
proof -
  let ?t = "take 128 (show_int n @ [newline])"
  have t: "?t = show_int n @ take (128 - length (show_int n)) [newline]" using assms by simp
  have sp: "list_all int_space (take (128 - length (show_int n)) [newline])"
    by (cases "128 - length (show_int n)") (simp_all add: newline_def int_space_def)
  have "length (show_nat (nat \<bar>n\<bar>)) \<le> length (show_int n)" by (simp add: show_int_def)
  then have "length (show_nat (nat \<bar>n\<bar>)) \<le> INT_MAX_STR_DIGITS"
    using assms by (simp add: INT_MAX_STR_DIGITS_def)
  from py_int_show [OF this sp] have "py_int ?t = Some n" unfolding t .
  moreover have "(of_char newline :: nat) < 128" by (simp add: newline_def)
  then have "utf8_decode ?t = Some ?t"
    using show_int_ascii by (intro utf8_decode_ascii) (auto dest: in_set_takeD)
  ultimately show ?thesis by (simp add: read_last_def new_file_def private_file_def)
qed

lemma str_int_short: "length (show_int n) \<le> 128 \<Longrightarrow> py_str_int n = Some (show_int n)"
  by (auto simp: py_str_int_def INT_MAX_STR_DIGITS_def show_int_def split: if_splits)

definition last_of :: "int \<Rightarrow> string \<Rightarrow> seq_dir \<Rightarrow> int" where
  "last_of euid ident dir = (case read_last euid (dir (ident @ ''.seq'')) of Inr n \<Rightarrow> n | Inl _ \<Rightarrow> 0)"

lemma path_ne: "a @ ''.seq'' \<noteq> b @ ''.lock''" "b @ ''.lock'' \<noteq> a @ ''.seq''"
proof -
  have "last (a @ ''.seq'') \<noteq> last (b @ ''.lock'')" by simp
  then show "a @ ''.seq'' \<noteq> b @ ''.lock''" "b @ ''.lock'' \<noteq> a @ ''.seq''" by metis+
qed

lemma advance_level:
  assumes "advance E euid egid dir t s n = (dir', r)" and "length (show_int n) \<le> 128"
  shows "dir' (i @ ''.seq'') =
      (if r = Inr True \<and> i = seq_identity E t s then Some (new_file euid egid (show_int n @ [newline]))
       else dir (i @ ''.seq''))"
    and "r = Inr True \<Longrightarrow> last_of euid (seq_identity E t s) dir < n"
  using assms
  by (auto simp: advance_def Let_def str_int_short last_of_def path_ne split: if_splits sum.splits)

lemma advance_last_of:
  assumes "advance E euid egid dir t s n = (dir', r)" and "length (show_int n) \<le> 128"
  shows "last_of euid i dir' = (if r = Inr True \<and> i = seq_identity E t s then n else last_of euid i dir)"
  unfolding last_of_def advance_level(1) [OF assms] using read_last_new_file [OF assms(2)] by simp

lemma verify_message_advance:
  assumes "verify_message E euid egid keys max_age now dir m et er payload = (dir', r)"
  shows "(dir' = dir \<and> r \<noteq> Inr ())
    \<or> (\<exists>b. advance E euid egid dir (sm_tenant_id m) (sm_sender m) (sm_sequence m) = (dir', b) \<and> (r = Inr () \<longleftrightarrow> b = Inr True))"
  using assms by (auto simp: verify_message_def split: if_splits option.splits prod.splits sum.splits)

type_synonym message_call = "SignedMessage \<times> string \<times> string \<times> string \<times> int"

text \<open>
  One call of the verifier, at the time the call carries; the answer is the sequence number
  accepted for the sender \<open>ident\<close>.
\<close>

definition verify_step ::
    "('pk, 'sk) auth_env \<Rightarrow> int \<Rightarrow> int \<Rightarrow> 'pk worker_keys \<Rightarrow> int \<Rightarrow> string \<Rightarrow> seq_dir \<Rightarrow> message_call
     \<Rightarrow> seq_dir \<times> int option" where
  "verify_step E euid egid keys max_age ident dir call =
     (case call of (m, et, er, payload, now) \<Rightarrow>
        (case verify_message E euid egid keys max_age now dir m et er payload of
           (dir', r) \<Rightarrow> (dir', if r = Inr () \<and> seq_identity E (sm_tenant_id m) (sm_sender m) = ident
                              then Some (sm_sequence m) else None)))"

definition short_call :: "message_call \<Rightarrow> bool" where
  "short_call call \<longleftrightarrow> length (show_int (sm_sequence (fst call))) \<le> 128"

definition short_verify_step ::
    "('pk, 'sk) auth_env \<Rightarrow> int \<Rightarrow> int \<Rightarrow> 'pk worker_keys \<Rightarrow> int \<Rightarrow> string \<Rightarrow> seq_dir \<Rightarrow> message_call
     \<Rightarrow> seq_dir \<times> int option" where
  "short_verify_step E euid egid keys max_age ident dir call =
     (if short_call call then verify_step E euid egid keys max_age ident dir call else (dir, None))"

lemma short_verify_level:
  assumes "short_verify_step E euid egid keys max_age ident dir call = (dir', r)"
  shows "last_of euid ident dir \<le> last_of euid ident dir'"
    and "r = Some n \<Longrightarrow> last_of euid ident dir < n \<and> n \<le> last_of euid ident dir'"
proof -
  obtain m et er payload now where c: "call = (m, et, er, payload, now)" by (cases call)
  have "last_of euid ident dir \<le> last_of euid ident dir'
    \<and> (r = Some n \<longrightarrow> last_of euid ident dir < n \<and> n \<le> last_of euid ident dir')" for n
  proof (cases "short_call call")
    case True
    then have short: "length (show_int (sm_sequence m)) \<le> 128" by (simp add: short_call_def c)
    obtain rr where v: "verify_message E euid egid keys max_age now dir m et er payload = (dir', rr)"
      and r: "r = (if rr = Inr () \<and> seq_identity E (sm_tenant_id m) (sm_sender m) = ident then Some (sm_sequence m) else None)"
      using assms True by (auto simp: short_verify_step_def verify_step_def c split: prod.splits)
    from verify_message_advance [OF v] show ?thesis
    proof (elim disjE exE conjE)
      fix b assume a: "advance E euid egid dir (sm_tenant_id m) (sm_sender m) (sm_sequence m) = (dir', b)"
        and b: "rr = Inr () \<longleftrightarrow> b = Inr True"
      show ?thesis
        using advance_last_of [OF a short, of ident] advance_level(2) [OF a short] r b by auto
    qed (use r in auto)
  next
    case False
    then show ?thesis using assms by (simp add: short_verify_step_def)
  qed
  then show "last_of euid ident dir \<le> last_of euid ident dir'"
    and "r = Some n \<Longrightarrow> last_of euid ident dir < n \<and> n \<le> last_of euid ident dir'" by blast+
qed

interpretation replay: monotone_store "short_verify_step E euid egid keys max_age ident" "last_of euid ident"
  for E :: "('pk, 'sk) auth_env" and euid egid :: int and keys :: "'pk worker_keys" and max_age :: int
    and ident :: string
  by unfold_locales (blast dest: short_verify_level(1), use short_verify_level(2) in blast)

lemma run_log_short:
  "\<forall>c \<in> set calls. short_call c \<Longrightarrow>
     run_log (verify_step E euid egid keys max_age ident) dir calls =
     run_log (short_verify_step E euid egid keys max_age ident) dir calls"
  by (induction calls arbitrary: dir) (simp_all add: short_verify_step_def)

section \<open>Properties\<close>

text \<open>
  C38. What a worker can read: the bytes \<open>open_worker_file\<close> returns are the whole content of a regular file
  owned by the worker's user, reached from the worker's private root by the parts of the given
  path through real directories only, with no link followed and no step upwards; and the
  process runs as that user and group.
\<close>

theorem worker_reads_confined:
  assumes "open_worker_file os_open euid egid rn w path = Inr content"
  shows "euid = wi_uid w \<and> egid = wi_gid w \<and> \<not> pa_absolute path \<and> ''..'' \<notin> set (pa_parts path)
    \<and> (\<exists>rm es m. rn = Some (DirF rm es) \<and> st_uid rm = wi_uid w \<and> st_imode rm = 448
          \<and> beneath (DirF rm es) (pa_parts path) (RegF m content) \<and> st_uid m = wi_uid w)"
proof -
  from assms have v: "verify_worker_identity euid egid rn w = Inr ()"
    by (auto simp: open_worker_file_def res_bind_Inr_iff)
  from verify_worker_identity_Inr [OF v] obtain rm es where rn: "rn = Some (DirF rm es)" "st_uid rm = euid"
    "st_imode rm = 448" "euid = wi_uid w" "egid = wi_gid w" by blast
  from assms v rn(1) obtain m where m: "walk_parts os_open (DirF rm es) (pa_parts path) = Some (RegF m content)"
    "st_uid m = wi_uid w" "\<not> pa_absolute path" "''..'' \<notin> set (pa_parts path)"
    by (auto simp: open_worker_file_def concat_read_chunks split: if_splits option.splits inode.splits)
  show ?thesis using rn m walk_beneath [OF m(1)] by blast
qed

definition sample_worker :: WorkerIdentity where
  "sample_worker = \<lparr>wi_tenant_id = ''t1'', wi_worker_id = ''w1'', wi_uid = 7, wi_gid = 7, wi_root = ''/w''\<rparr>"

definition sample_tree :: inode where
  "sample_tree = DirF \<lparr>st_uid = 7, st_gid = 7, st_imode = 448\<rparr>
     [(''in'', DirF \<lparr>st_uid = 7, st_gid = 7, st_imode = 448\<rparr>
        [(''a.txt'', RegF \<lparr>st_uid = 7, st_gid = 7, st_imode = 384\<rparr> ''hi'')])]"

theorem worker_reads_confined_witness:
  "\<exists>m. beneath sample_tree [''in'', ''a.txt''] (RegF m ''hi'') \<and> st_uid m = 7"
proof -
  have "open_worker_file (\<lambda>_. True) 7 7 (Some sample_tree) sample_worker
      \<lparr>pa_absolute = False, pa_parts = [''in'', ''a.txt'']\<rparr> = Inr ''hi''"
    by (simp add: open_worker_file_def verify_worker_identity_def sample_tree_def sample_worker_def
        open_entry_def concat_read_chunks)
  from worker_reads_confined [OF this] show ?thesis
    by (auto simp: sample_worker_def)
qed

text \<open>
  C29. Replays are refused across any history of calls and restarts: whatever messages are
  presented, in whatever order and at whatever times, the sequence numbers accepted from one
  sender of one tenant strictly increase, so none is accepted twice. The sequence numbers are
  assumed to be written in at most 128 characters, which is what the store reads back.
\<close>

theorem accepted_sequences_increase:
  assumes "\<forall>c \<in> set calls. short_call c"
  shows "sorted_wrt (<) (snd (run_log (verify_step E euid egid keys max_age ident) dir calls))"
  unfolding run_log_short [OF assms] by (rule replay.run_increasing_snd)

lemma sign_message_Inr:
  "sign_message E key mid tenant sender recipient seq payload timestamp = Inr m \<Longrightarrow>
     sm_tenant_id m = tenant \<and> sm_sender m = sender \<and> sm_recipient m = recipient \<and> sm_sequence m = seq
     \<and> sm_issued_at m = isoformat E timestamp \<and> sm_payload_sha256 m = sha256 E payload \<and> is_aware timestamp
     \<and> sm_signature m = sign_with E key (message_payload E m)"
  by (auto simp: sign_message_def Let_def message_payload_def message_json_def split: if_splits)

text \<open>
  A signed message is accepted once: what \<open>sign_message\<close> returns passes the verifier that holds the
  sender's key, with the payload that was signed, while it is current and its number is above the
  last one, and presenting it again, at any time, is refused.
\<close>

theorem signed_message_accepted_once:
  assumes "sign_message E key mid tenant sender recipient seq payload (Aware t) = Inr m"
    and "map_of keys (tenant, sender) = Some pk"
    and "\<forall>x. verify_sig E pk (sign_with E key x) x"
    and "parse_iso E (isoformat E (Aware t)) = Some (Aware t)"
    and "t \<le> now + 30 * 1000000" and "now - t \<le> max_age"
    and "dir (seq_identity E tenant sender @ ''.lock'') = None"
    and "read_last euid (dir (seq_identity E tenant sender @ ''.seq'')) = Inr n" and "n < seq"
    and "length (show_int seq) \<le> 128"
    and "verify_message E euid egid keys max_age now dir m tenant recipient payload = (dir', r)"
  shows "r = Inr () \<and> snd (verify_message E euid egid keys max_age later dir' m tenant recipient payload) \<noteq> Inr ()"
proof -
  from sign_message_Inr [OF assms(1)] have m: "sm_tenant_id m = tenant" "sm_sender m = sender"
    "sm_recipient m = recipient" "sm_sequence m = seq" "sm_issued_at m = isoformat E (Aware t)"
    "sm_payload_sha256 m = sha256 E payload" "sm_signature m = sign_with E key (message_payload E m)" by auto
  obtain d b where adv: "advance E euid egid dir tenant sender seq = (d, b)" by fastforce
  have b: "b = Inr True"
    using adv assms(7-10)
    by (auto simp: advance_def Let_def new_file_def private_file_def path_ne str_int_short split: if_splits)
  have v: "dir' = d" "r = Inr ()"
    using assms(2-6, 11) adv b m by (auto simp: verify_message_def message_current_def)
  obtain d2 r2 where v2: "verify_message E euid egid keys max_age later dir' m tenant recipient payload = (d2, r2)"
    by fastforce
  have last: "last_of euid (seq_identity E tenant sender) dir' = seq"
    using advance_last_of [OF adv assms(10)] b v by simp
  have "r2 \<noteq> Inr ()"
  proof
    assume "r2 = Inr ()"
    with verify_message_advance [OF v2] m have "advance E euid egid dir' tenant sender seq = (d2, Inr True)" by auto
    from advance_level(2) [OF this assms(10)] last show False by simp
  qed
  then show ?thesis by (simp add: v2 v(2))
qed

definition sample_message :: SignedMessage where
  "sample_message = (case sign_message sample_auth_env () ''id'' ''t1'' ''a'' ''b'' 1 ''hello'' (Aware 0) of
     Inr m \<Rightarrow> m)"

lemma sample_message_signed:
  "sign_message sample_auth_env () ''id'' ''t1'' ''a'' ''b'' 1 ''hello'' (Aware 0) = Inr sample_message"
  by (simp add: sample_message_def sign_message_def Let_def)

theorem signed_message_accepted_once_witness:
  "snd (verify_message sample_auth_env 7 7 [((''t1'', ''a''), ())] 300000000 5 (\<lambda>_. None) sample_message ''t1'' ''b'' ''hello'')
     = Inr ()
   \<and> snd (verify_message sample_auth_env 7 7 [((''t1'', ''a''), ())] 300000000 9
        (fst (verify_message sample_auth_env 7 7 [((''t1'', ''a''), ())] 300000000 5 (\<lambda>_. None) sample_message ''t1'' ''b'' ''hello''))
        sample_message ''t1'' ''b'' ''hello'') \<noteq> Inr ()"
  by (rule signed_message_accepted_once [OF sample_message_signed, where n = 0 and pk = "()"])
     (simp_all add: sample_auth_env_def read_last_def show_int_def show_nat.simps)

theorem accepted_sequences_increase_witness:
  "sorted_wrt (<) (snd (run_log (verify_step sample_auth_env 7 7 [((''t1'', ''a''), ())] 300000000
      (seq_identity sample_auth_env ''t1'' ''a'')) (\<lambda>_. None)
      [(sample_message, ''t1'', ''b'', ''hello'', 5), (sample_message, ''t1'', ''b'', ''hello'', 6)]))"
  by (rule accepted_sequences_increase)
     (simp add: short_call_def sample_message_def sign_message_def Let_def show_int_def show_nat.simps)

text \<open>
  The bound matters: a number of 129 digits is read back as its first 128 digits, which is
  smaller, so the number itself is accepted again.
\<close>

lemma show_nat_power: "show_nat (10 ^ k) = CHR ''1'' # replicate k CHR ''0''"
proof (induction k)
  case 0
  then show ?case by (simp add: show_nat.simps [of "Suc 0"] digit_chr_def)
next
  case (Suc k)
  have "10 \<le> (10 :: nat) ^ Suc k" by simp
  then show ?case
    using Suc by (simp add: show_nat.simps [of "10 * 10 ^ k"] digit_chr_def replicate_append_same)
qed

lemma show_int_power: "show_int (10 ^ k) = CHR ''1'' # replicate k CHR ''0''"
  by (simp add: show_int_def nat_power_eq show_nat_power)

lemma py_str_int_power: "k < 4300 \<Longrightarrow> py_str_int (10 ^ k) = Some (show_int (10 ^ k))"
  by (simp add: py_str_int_def nat_power_eq show_nat_power INT_MAX_STR_DIGITS_def)

lemma py_int_power: "k < 4300 \<Longrightarrow> py_int (show_int (10 ^ k)) = Some (10 ^ k)"
  using py_int_show [of "10 ^ k" "[]"] by (simp add: nat_power_eq show_nat_power INT_MAX_STR_DIGITS_def)

lemma take_show_int_power: "n = k + 1 \<Longrightarrow> take n (show_int (10 ^ n) @ s) = show_int (10 ^ k)"
  unfolding show_int_power by (simp add: replicate_app_Cons_same [symmetric])

lemma overlong_sequence_accepted_again:
  assumes "dir (seq_identity E t s @ ''.lock'') = None" and "dir (seq_identity E t s @ ''.seq'') = None"
    and "advance E euid egid dir t s (10 ^ 128) = (dir', r)"
  shows "r = Inr True \<and> snd (advance E euid egid dir' t s (10 ^ 128)) = Inr True"
proof -
  let ?text = "show_int (10 ^ 128) @ [newline]"
  have py: "py_str_int (10 ^ 128) = Some (show_int (10 ^ 128))"
    by (rule py_str_int_power) simp
  have tk: "take 128 ?text = show_int (10 ^ 127)"
    by (rule take_show_int_power) simp
  have ud: "utf8_decode (show_int (10 ^ 127)) = Some (show_int (10 ^ 127))"
    using show_int_ascii by (intro utf8_decode_ascii) blast
  have pi: "py_int (show_int (10 ^ 127)) = Some (10 ^ 127)" by (rule py_int_power) simp
  have rl: "read_last euid (Some (new_file euid egid ?text)) = Inr (10 ^ 127)"
    unfolding read_last_def new_file_def private_file_def option.case inode.case tk ud bind.simps pi by simp
  have r: "r = Inr True" "dir' (seq_identity E t s @ ''.lock'') = Some (new_file euid egid [])"
    "dir' (seq_identity E t s @ ''.seq'') = Some (new_file euid egid ?text)"
    using assms py
    by (auto simp: advance_def Let_def read_last_def new_file_def private_file_def path_ne)
  have "snd (advance E euid egid dir' t s (10 ^ 128)) = Inr True"
    using r rl py by (simp add: advance_def Let_def path_ne) (simp add: new_file_def private_file_def)
  with r show ?thesis by simp
qed

section \<open>Shared learning: leaks are found\<close>

lemma re_search_from_append:
  assumes "\<And>b. re_matches r (b, s) \<noteq> []"
  shows "re_search_from r b (pre @ s)"
proof (induction pre arbitrary: b)
  case Nil
  show ?case using assms by (cases s) auto
qed simp

lemma re_alt_match: "r \<in> set rs \<Longrightarrow> re_matches r p \<noteq> [] \<Longrightarrow> re_matches (re_alt rs) p \<noteq> []"
  by (induction rs rule: re_alt.induct) auto

lemma re_ilit_Cons: "re_ilit (c # s) = Seq (Cls (\<lambda>x. ascii_lower [x] = ascii_lower [c])) (re_ilit s)"
  by (simp add: re_ilit_def)

lemma re_ilit_match: "ascii_lower q = ascii_lower p \<Longrightarrow> re_matches (re_ilit p) (b, q @ t) \<noteq> []"
proof (induction p arbitrary: q b)
  case Nil
  then show ?case by (simp add: re_ilit_def ascii_lower_def)
next
  case (Cons c p)
  then obtain x u where q: "q = x # u" "ascii_lower [x] = ascii_lower [c]" "ascii_lower u = ascii_lower p"
    by (cases q) (auto simp: ascii_lower_def Let_def)
  from Cons.IH [OF q(3), of "Some x"] q(1, 2) show ?case by (simp add: re_ilit_Cons)
qed

lemma infix_of_append: "infix_of s (pre @ s @ post)"
proof (induction pre)
  case Nil
  show ?case by (cases s) (auto simp: starts_with_def, cases post, auto simp: starts_with_def)
qed simp

lemma utf8_encode_ascii: "\<forall>c \<in> set s. (of_char c :: nat) < 128 \<Longrightarrow> utf8_encode s = s"
  by (induction s) (auto simp: utf8_encode_def Let_def)

lemma py_lower_ascii: "\<forall>c \<in> set s. (of_char c :: nat) < 128 \<Longrightarrow> py_lower s = ascii_lower s"
  by (auto simp: py_lower_def ascii_lower_def Let_def)

lemma ascii_lower_ascii: "\<forall>c \<in> set s. (of_char c :: nat) < 128 \<Longrightarrow> c \<in> set (ascii_lower s) \<Longrightarrow> (of_char c :: nat) < 128"
  by (auto simp: ascii_lower_def Let_def split: if_splits)

lemma set_py_strip: "c \<in> set (py_strip s) \<Longrightarrow> c \<in> set s"
  unfolding py_strip_def by (metis set_dropWhileD set_rev)

text \<open>
  Leaks are found wherever they stand: an artifact that contains a tenant's (ASCII) literal in
  any mixture of cases, or the prefix of an API key in any mixture of cases, is refused, whatever
  text is around it.
\<close>

theorem leaks_are_found:
  assumes "literal \<in> set literals" and "nonblank literal" and "\<forall>c \<in> set literal. (of_char c :: nat) < 128"
    and "ascii_lower v = ascii_lower (py_strip literal)" and "ascii_lower k = ''sk-ant-''"
  shows "assert_shared_learning_safe (pre @ v @ post) literals = Inl TenantLiteral
    \<and> assert_shared_learning_safe (pre @ k @ post) others \<noteq> Inr ()"
proof -
  let ?e = "utf8_encode (py_lower (py_strip literal))"
  have ascii: "\<forall>c \<in> set (py_strip literal). (of_char c :: nat) < 128" using assms(3) set_py_strip by blast
  have e: "?e = ascii_lower v"
    using utf8_encode_ascii [of "ascii_lower (py_strip literal)"] ascii_lower_ascii [OF ascii]
    by (simp add: py_lower_ascii [OF ascii] assms(4))
  have "?e \<noteq> []" using assms(2, 4) e by (auto simp: ascii_lower_def py_strip_blank)
  moreover have "infix_of ?e (ascii_lower (pre @ v @ post))"
    using infix_of_append [of "ascii_lower v" "ascii_lower pre" "ascii_lower post"]
    unfolding e by (simp add: ascii_lower_def)
  ultimately have "assert_shared_learning_safe (pre @ v @ post) literals = Inl TenantLiteral"
    using assms(1) by (auto simp: assert_shared_learning_safe_def list_ex_iff Let_def)
  moreover have low: "ascii_lower ''sk-ant-'' = ''sk-ant-''" by (simp add: ascii_lower_def)
  have "re_matches SECRET_PATTERN (b, k @ post) \<noteq> []" for b
    unfolding SECRET_PATTERN_def
  proof (rule re_alt_match [of "re_ilit ''sk-ant-''"])
    show "re_matches (re_ilit ''sk-ant-'') (b, k @ post) \<noteq> []"
      by (rule re_ilit_match) (simp only: assms(5) low)
  qed simp
  then have "re_search SECRET_PATTERN (pre @ k @ post)"
    unfolding re_search_def by (rule re_search_from_append)
  then have "assert_shared_learning_safe (pre @ k @ post) others \<noteq> Inr ()"
    by (simp add: assert_shared_learning_safe_def Let_def)
  ultimately show ?thesis by blast
qed

theorem leaks_are_found_witness:
  "assert_shared_learning_safe (''rule for '' @ ''ACME'' @ '' only'') ['' Acme''] = Inl TenantLiteral
    \<and> assert_shared_learning_safe (''rule for '' @ ''SK-ant-'' @ '' only'') [] \<noteq> Inr ()"
  by (rule leaks_are_found [of "'' Acme''"]) (simp_all add: py_strip_def py_space_def ascii_lower_def char_of_def bit_0)

end
