(* ===== verification/Json_Parser.thy ===== *)
theory Json_Parser
  imports Py_Text
begin

text \<open>
  \<^verbatim>\<open>json.loads\<close> and \<^verbatim>\<open>json.dumps\<close> with the default separators. The reader is a scanner, which turns the
  text into tokens, and a parser that consumes the tokens one by one over a stack of open
  containers, so it needs no fuel. A token that is not JSON ends the token list with \<open>TBad\<close>, and
  an integer literal beyond the interpreter's limit is \<open>THuge\<close>: when the parser reads it as a
  value, \<^verbatim>\<open>int\<close> raises a \<^verbatim>\<open>ValueError\<close> that is no \<^verbatim>\<open>JSONDecodeError\<close>. The interpreter's recursion limit is
  not modelled.
\<close>

text \<open>
  \<open>float_of\<close> is \<^verbatim>\<open>float(text)\<close>, also on the constants \<open>NaN\<close>, \<open>Infinity\<close> and \<open>-Infinity\<close>; \<open>wide\<close> stands for the
  code points from 256 on, which a \<^typ>\<open>char\<close> does not have.
\<close>

record json_env =
  float_of :: "string \<Rightarrow> rat"
  wide :: "nat \<Rightarrow> char"

datatype token = TPunct char | TVal json | TStr string | THuge | TBad

datatype loads_result = Loaded json | DecodeError | IntLimitError

section \<open>The scanner\<close>

definition json_ws :: "char \<Rightarrow> bool" where
  "json_ws c \<longleftrightarrow> c \<in> {CHR '' '', CHR 0x09, CHR 0x0A, CHR 0x0D}"

definition hex_val :: "char \<Rightarrow> nat option" where
  "hex_val c = (let n = (of_char c :: nat)
     in if 48 \<le> n \<and> n \<le> 57 then Some (n - 48)
        else if 97 \<le> n \<and> n \<le> 102 then Some (n - 87)
        else if 65 \<le> n \<and> n \<le> 70 then Some (n - 55)
        else None)"

definition hex4 :: "char \<Rightarrow> char \<Rightarrow> char \<Rightarrow> char \<Rightarrow> nat option" where
  "hex4 a b c d = (case (hex_val a, hex_val b, hex_val c, hex_val d) of
     (Some w, Some x, Some y, Some z) \<Rightarrow> Some (((w * 16 + x) * 16 + y) * 16 + z) | _ \<Rightarrow> None)"

definition code_chr :: "json_env \<Rightarrow> nat \<Rightarrow> char" where
  "code_chr J n = (if n < 256 then char_of n else wide J n)"

definition unescape :: "char \<Rightarrow> char option" where
  "unescape c = map_of
     [(chr_quote, chr_quote), (chr_backslash, chr_backslash), (CHR ''/'', CHR ''/''), (CHR ''b'', CHR 0x08),
      (CHR ''f'', CHR 0x0C), (CHR ''n'', CHR 0x0A), (CHR ''r'', CHR 0x0D), (CHR ''t'', CHR 0x09)] c"

text \<open>The body of a string after its opening quote, and what follows the closing one.\<close>

fun scan_str :: "json_env \<Rightarrow> string \<Rightarrow> (string \<times> string) option" where
  "scan_str J [] = None"
| "scan_str J (c # s) =
     (if c = chr_quote then Some ([], s)
      else if c = chr_backslash
      then (case s of
          [] \<Rightarrow> None
        | e # t \<Rightarrow>
            if e = CHR ''u''
            then (case t of
                w # x # y # z # r \<Rightarrow>
                  (case hex4 w x y z of
                     None \<Rightarrow> None
                   | Some n \<Rightarrow> map_option (\<lambda>(b, rest). (code_chr J n # b, rest)) (scan_str J r))
              | _ \<Rightarrow> None)
            else (case unescape e of
                None \<Rightarrow> None
              | Some d \<Rightarrow> map_option (\<lambda>(b, rest). (d # b, rest)) (scan_str J t)))
      else if (of_char c :: nat) < 32 then None
      else map_option (\<lambda>(b, rest). (c # b, rest)) (scan_str J s))"

text \<open>
  The number at the head of the text: the integer part, and the fraction and exponent where
  they are complete.
\<close>

definition scan_frac :: "string \<Rightarrow> string \<times> string" where
  "scan_frac s = (case s of
     c # t \<Rightarrow> if c = CHR ''.'' \<and> takeWhile is_digit t \<noteq> [] then (c # takeWhile is_digit t, dropWhile is_digit t)
              else ([], s)
   | [] \<Rightarrow> ([], s))"

definition scan_exp :: "string \<Rightarrow> string \<times> string" where
  "scan_exp s = (case s of
     c # t \<Rightarrow>
       (let sign = (case t of d # u \<Rightarrow> if d = CHR ''+'' \<or> d = CHR ''-'' then [d] else [] | [] \<Rightarrow> []);
            u = drop (length sign) t
        in if (c = CHR ''e'' \<or> c = CHR ''E'') \<and> takeWhile is_digit u \<noteq> []
           then (c # sign @ takeWhile is_digit u, dropWhile is_digit u) else ([], s))
   | [] \<Rightarrow> ([], s))"

definition scan_int :: "string \<Rightarrow> (string \<times> string) option" where
  "scan_int s = (case s of
     [] \<Rightarrow> None
   | c # t \<Rightarrow> if c = CHR ''0'' then Some ([c], t)
              else if is_digit c then Some (takeWhile is_digit s, dropWhile is_digit s)
              else None)"

definition scan_number :: "json_env \<Rightarrow> string \<Rightarrow> (token \<times> string) option" where
  "scan_number J s =
     (let sign = (case s of c # t \<Rightarrow> if c = CHR ''-'' then [c] else [] | [] \<Rightarrow> [])
      in case scan_int (drop (length sign) s) of
           None \<Rightarrow> None
         | Some (digits, r) \<Rightarrow>
             (case scan_frac r of (fp, r) \<Rightarrow>
              (case scan_exp r of (ex, r) \<Rightarrow>
                 Some (if fp \<noteq> [] \<or> ex \<noteq> [] then TVal (JFloat (float_of J (sign @ digits @ fp @ ex)))
                       else (case py_int (sign @ digits) of None \<Rightarrow> THuge | Some i \<Rightarrow> TVal (JInt i)), r))))"

definition LITERALS :: "json_env \<Rightarrow> (string \<times> json) list" where
  "LITERALS J = [(''null'', JNull), (''true'', JBool True), (''false'', JBool False),
     (''NaN'', JFloat (float_of J ''NaN'')), (''Infinity'', JFloat (float_of J ''Infinity'')),
     (''-Infinity'', JFloat (float_of J ''-Infinity''))]"

definition scan_literal :: "json_env \<Rightarrow> string \<Rightarrow> (token \<times> string) option" where
  "scan_literal J s =
     map_option (\<lambda>(w, j). (TVal j, drop (length w) s)) (find (\<lambda>(w, j). starts_with s w) (LITERALS J))"

text \<open>The next token of a text that does not start with white space.\<close>

definition scan_token :: "json_env \<Rightarrow> string \<Rightarrow> (token \<times> string) option" where
  "scan_token J s = (case s of
     [] \<Rightarrow> None
   | c # t \<Rightarrow>
       if c \<in> set ''{}[]:,'' then Some (TPunct c, t)
       else if c = chr_quote then map_option (\<lambda>(b, r). (TStr b, r)) (scan_str J t)
       else (case scan_number J s of
           Some p \<Rightarrow> Some p
         | None \<Rightarrow> scan_literal J s))"

lemma scan_str_Cons:
  assumes "scan_str J (c # s) = Some (b, r)"
  obtains "r = s" | b' t where "scan_str J t = Some (b', r)" "length t \<le> length s"
proof (cases "c = chr_quote")
  case True
  with assms that(1) show thesis by simp
next
  case quote: False
  show thesis
  proof (cases "c = chr_backslash")
    case False
    with assms quote obtain b' where "scan_str J s = Some (b', r)" by (auto split: if_splits)
    with that(2) show thesis by blast
  next
    case True
    with assms quote obtain e t where s: "s = e # t" by (cases s) auto
    show thesis
    proof (cases "e = CHR ''u''")
      case False
      with assms quote True s obtain b' where "scan_str J t = Some (b', r)" by (auto split: option.splits)
      with that(2) s show thesis by auto
    next
      case u: True
      with assms quote True s obtain w x y z v b' where "t = w # x # y # z # v" "scan_str J v = Some (b', r)"
        by (auto split: list.splits option.splits)
      with that(2) s show thesis by auto
    qed
  qed
qed

declare scan_str.simps(2) [simp del]

lemma scan_str_shorter: "scan_str J s = Some (b, r) \<Longrightarrow> length r < length s"
proof (induction "length s" arbitrary: s b r rule: less_induct)
  case less
  then obtain c u where s: "s = c # u" by (cases s) auto
  from less.prems [unfolded s] show ?case
  proof (cases rule: scan_str_Cons)
    case (2 b' t)
    with less.hyps [OF _ 2(1)] s show ?thesis by force
  qed (simp add: s)
qed

lemma dropWhile_length: "length (dropWhile P s) \<le> length s"
  by (rule length_dropWhile_le)

lemma scan_frac_shorter: "scan_frac s = (a, r) \<Longrightarrow> length r \<le> length s"
  using dropWhile_length [of is_digit "tl s"] by (auto simp: scan_frac_def split: list.splits if_splits)

lemma scan_exp_shorter: "scan_exp s = (a, r) \<Longrightarrow> length r \<le> length s"
  using dropWhile_length [of is_digit "tl s"] dropWhile_length [of is_digit "tl (tl s)"]
  by (auto simp: scan_exp_def Let_def split: list.splits if_splits)

lemma scan_int_shorter: "scan_int s = Some (a, r) \<Longrightarrow> length r < length s"
  by (auto simp: scan_int_def length_dropWhile_le less_Suc_eq_le split: list.splits if_splits)

lemma scan_number_shorter: "scan_number J s = Some (k, r) \<Longrightarrow> length r < length s"
  by (auto simp: scan_number_def Let_def split: option.splits prod.splits
      dest!: scan_int_shorter scan_frac_shorter scan_exp_shorter)

lemma scan_literal_shorter: "scan_literal J s = Some (k, r) \<Longrightarrow> length r < length s"
  by (auto simp: scan_literal_def LITERALS_def starts_with_iff split: if_splits)

lemma scan_token_shorter: "scan_token J s = Some (k, r) \<Longrightarrow> length r < length s"
  by (auto simp: scan_token_def split: list.splits if_splits option.splits
      dest!: scan_str_shorter scan_number_shorter scan_literal_shorter)

function tokens :: "json_env \<Rightarrow> string \<Rightarrow> token list" where
  "tokens J s =
     (case dropWhile json_ws s of
        [] \<Rightarrow> []
      | c # t \<Rightarrow> (case scan_token J (c # t) of None \<Rightarrow> [TBad] | Some (k, r) \<Rightarrow> k # tokens J r))"
  by auto
termination
proof (relation "measure (\<lambda>(J, s). length s)")
  fix J s c t p k r
  assume d: "dropWhile json_ws s = c # t" and p: "scan_token J (c # t) = Some p" "(k, r) = p"
  have "length r < length (c # t)" using p scan_token_shorter by metis
  also have "length (c # t) \<le> length s" using dropWhile_length [of json_ws s] d by metis
  finally show "((J, r), J, s) \<in> measure (\<lambda>(J, s). length s)" by simp
qed simp

declare tokens.simps [simp del]

section \<open>The parser\<close>

text \<open>
  An open container: the elements of an array so far, or the pairs of an object so far with
  the key whose value is being read.
\<close>

datatype frame = FArr "json list" | FObj "(string \<times> json) list" string

text \<open>What the parser may read next.\<close>

datatype expect =
    EValue
  | EValueOrClose
  | EKey "(string \<times> json) list"
  | EKeyOrClose
  | EColon "(string \<times> json) list" string
  | EAfter json

text \<open>\<^verbatim>\<open>dict(pairs)\<close>: a later pair replaces the value of an earlier one with its key.\<close>

definition obj_of :: "(string \<times> json) list \<Rightarrow> json" where
  "obj_of kvs = JObj (dict_of kvs)"

text \<open>One token after a complete value \<open>j\<close> inside the innermost container.\<close>

fun after_value :: "frame list \<Rightarrow> json \<Rightarrow> char \<Rightarrow> (expect \<times> frame list) option" where
  "after_value (FArr xs # st) j c =
     (if c = CHR '','' then Some (EValue, FArr (xs @ [j]) # st)
      else if c = CHR '']'' then Some (EAfter (JList (xs @ [j])), st)
      else None)"
| "after_value (FObj kvs k # st) j c =
     (if c = CHR '','' then Some (EKey (kvs @ [(k, j)]), st)
      else if c = CHR ''}'' then Some (EAfter (obj_of (kvs @ [(k, j)])), st)
      else None)"
| "after_value [] j c = None"

text \<open>The start of a value.\<close>

fun open_value :: "token \<Rightarrow> frame list \<Rightarrow> (expect \<times> frame list) option" where
  "open_value (TVal j) st = Some (EAfter j, st)"
| "open_value (TStr s) st = Some (EAfter (JStr s), st)"
| "open_value (TPunct c) st =
     (if c = CHR ''['' then Some (EValueOrClose, st)
      else if c = CHR ''{'' then Some (EKeyOrClose, st)
      else None)"
| "open_value _ st = None"

text \<open>
  The parser's step. After an opening bracket the frame is made by the first token of the
  container; \<open>EValueOrClose\<close> and \<open>EKeyOrClose\<close> stand for an array or object that was just opened.
\<close>

fun parse_step :: "expect \<Rightarrow> frame list \<Rightarrow> token \<Rightarrow> (expect \<times> frame list) option" where
  "parse_step EValue st k = open_value k st"
| "parse_step EValueOrClose st k =
     (if k = TPunct (CHR '']'') then Some (EAfter (JList []), st) else open_value k (FArr [] # st))"
| "parse_step EKeyOrClose st k =
     (if k = TPunct (CHR ''}'') then Some (EAfter (JObj []), st)
      else (case k of TStr s \<Rightarrow> Some (EColon [] s, st) | _ \<Rightarrow> None))"
| "parse_step (EKey kvs) st k = (case k of TStr s \<Rightarrow> Some (EColon kvs s, st) | _ \<Rightarrow> None)"
| "parse_step (EColon kvs key) st k = (if k = TPunct (CHR '':'') then Some (EValue, FObj kvs key # st) else None)"
| "parse_step (EAfter j) st k = (case k of TPunct c \<Rightarrow> after_value st j c | _ \<Rightarrow> None)"

definition value_expected :: "expect \<Rightarrow> bool" where
  "value_expected e \<longleftrightarrow> e = EValue \<or> e = EValueOrClose"

fun parse :: "expect \<Rightarrow> frame list \<Rightarrow> token list \<Rightarrow> loads_result" where
  "parse e st [] = (case e of EAfter j \<Rightarrow> if st = [] then Loaded j else DecodeError | _ \<Rightarrow> DecodeError)"
| "parse e st (k # ks) =
     (if k = THuge \<and> value_expected e then IntLimitError
      else (case parse_step e st k of None \<Rightarrow> DecodeError | Some (e', st') \<Rightarrow> parse e' st' ks))"

definition json_loads :: "json_env \<Rightarrow> string \<Rightarrow> loads_result" where
  "json_loads J s = parse EValue [] (tokens J s)"

section \<open>Reading back what was written\<close>

text \<open>\<^verbatim>\<open>json.dumps(value)\<close> with the default separators.\<close>

fun json_text :: "(rat \<Rightarrow> string) \<Rightarrow> json \<Rightarrow> string" where
  "json_text fr (JList xs) = ''['' @ join_with '', '' (map (json_text fr) xs) @ '']''"
| "json_text fr (JObj kvs) = ''{'' @ join_with '', '' (map (\<lambda>(k, v). json_str k @ '': '' @ json_text fr v) kvs) @ ''}''"
| "json_text fr j = json_print fr j"

fun json_ok :: "json \<Rightarrow> bool" where
  "json_ok (JFloat _) = False"
| "json_ok (JInt i) = (length (show_nat (nat \<bar>i\<bar>)) \<le> INT_MAX_STR_DIGITS)"
| "json_ok (JList xs) = list_all json_ok xs"
| "json_ok (JObj kvs) = (distinct (map fst kvs) \<and> list_all (\<lambda>(k, v). json_ok v) kvs)"
| "json_ok j = True"

definition text_delim :: "string \<Rightarrow> bool" where
  "text_delim r \<longleftrightarrow> r = [] \<or> hd r \<in> {CHR '','', CHR '']'', CHR ''}'', CHR 0x0A}"

lemma hex_val_chr: "n < 16 \<Longrightarrow> hex_val (hex_chr n) = Some n"
  by (auto simp: less_Suc_eq numeral_nat hex_val_def hex_chr_def hex_digits_def)

lemma char_is: "(of_char c :: nat) = of_char d \<Longrightarrow> c = d"
  by (simp only: of_char_eq_iff)

lemma scan_esc: "scan_str J (json_esc c @ r) = map_option (\<lambda>(b, rest). (c # b, rest)) (scan_str J r)"
proof (cases c rule: json_esc_cases)
  case plain
  have "32 \<le> (of_char c :: nat)"
    using plain by (auto simp: json_esc_def Let_def split: if_splits)
  with plain show ?thesis by (simp add: scan_str.simps(2))
next
  case (short x)
  have nq: "chr_backslash \<noteq> chr_quote" by (simp add: chr_backslash_def chr_quote_def)
  have "unescape x = Some c"
    using short(3)
    by (auto simp: unescape_def chr_quote_def chr_backslash_def intro!: char_is)
  with short nq show ?thesis by (simp add: scan_str.simps(2))
next
  case long
  have nq: "chr_backslash \<noteq> chr_quote" by (simp add: chr_backslash_def chr_quote_def)
  let ?n = "of_char c :: nat"
  have "hex4 CHR ''0'' CHR ''0'' (hex_chr (?n div 16)) (hex_chr (?n mod 16)) = Some ?n"
    using of_char_div_lt [of c] by (simp add: hex4_def hex_val_chr) (simp add: hex_val_def)
  moreover have "code_chr J ?n = c" using nat_of_char_less_256 [of c] by (simp add: code_chr_def)
  ultimately show ?thesis using long nq by (simp add: scan_str.simps(2))
qed

lemma scan_body: "scan_str J (concat (map json_esc s) @ chr_quote # r) = Some (s, r)"
  by (induction s) (simp_all add: scan_esc, simp add: scan_str.simps(2))

lemma scan_json_str: "scan_token J (json_str s @ r) = Some (TStr s, r)"
proof -
  have "chr_quote \<notin> set ''{}[]:,''" by (simp add: chr_quote_def)
  then show ?thesis by (simp add: scan_token_def json_str_def scan_body)
qed

lemma show_nat_hd_zero: "hd (show_nat n) = CHR ''0'' \<Longrightarrow> n = 0"
proof (induction n rule: show_nat.induct)
  case (1 n)
  show ?case
  proof (cases "n < 10")
    case True
    with 1(2) digit_chr_inj [of n 0] show ?thesis
      by (simp add: show_nat.simps [of n]) (simp add: digit_chr_def)
  next
    case False
    with 1 have "n div 10 = 0" by (simp add: show_nat.simps [of n])
    with False show ?thesis by simp
  qed
qed

lemma scan_int_show:
  assumes "r = [] \<or> \<not> is_digit (hd r)"
  shows "scan_int (show_nat n @ r) = Some (show_nat n, r)"
proof -
  obtain c cs where c: "show_nat n = c # cs" "is_digit c" using show_nat_hd by blast
  have all: "\<forall>d \<in> set (show_nat n). is_digit d" using show_nat_digits by blast
  have tw: "takeWhile is_digit (show_nat n @ r) = show_nat n" "dropWhile is_digit (show_nat n @ r) = r"
    using all assms by (cases r; auto simp: takeWhile_append2 dropWhile_append2)+
  show ?thesis
  proof (cases "c = CHR ''0''")
    case True
    with c have "n = 0" using show_nat_hd_zero by fastforce
    then have "show_nat n = [CHR ''0'']" by (simp add: show_nat.simps [of 0] digit_chr_def)
    then show ?thesis by (simp add: scan_int_def)
  next
    case False
    with c tw show ?thesis by (simp add: scan_int_def)
  qed
qed

lemma delim_no_number:
  assumes "text_delim r"
  shows "r = [] \<or> \<not> is_digit (hd r)" "scan_frac r = ([], r)" "scan_exp r = ([], r)"
proof -
  have "c \<in> {CHR '','', CHR '']'', CHR ''}'', CHR 0x0A} \<Longrightarrow> \<not> is_digit c \<and> c \<noteq> CHR ''.'' \<and> c \<noteq> CHR ''e'' \<and> c \<noteq> CHR ''E''" for c
    by (auto simp: is_digit_iff)
  with assms have "r = [] \<or> (\<exists>c t. r = c # t \<and> \<not> is_digit c \<and> c \<noteq> CHR ''.'' \<and> c \<noteq> CHR ''e'' \<and> c \<noteq> CHR ''E'')"
    unfolding text_delim_def by (metis list.collapse)
  then show "r = [] \<or> \<not> is_digit (hd r)" "scan_frac r = ([], r)" "scan_exp r = ([], r)"
    by (auto simp: scan_frac_def scan_exp_def Let_def)
qed

lemma scan_show_int:
  assumes "text_delim r" and "length (show_nat (nat \<bar>i\<bar>)) \<le> INT_MAX_STR_DIGITS"
  shows "scan_token J (show_int i @ r) = Some (TVal (JInt i), r)"
proof -
  obtain c cs where c: "show_int i = c # cs" "c = CHR ''-'' \<or> is_digit c" using show_int_hd by blast
  have np: "c \<notin> set ''{}[]:,''" "c \<noteq> chr_quote" using c(2) by (auto simp: is_digit_def chr_quote_def)
  have pi: "py_int (show_int i) = Some i" using py_int_show [OF assms(2), of "[]"] by simp
  obtain d ds where d: "show_nat (nat i) = d # ds" "is_digit d" using show_nat_hd by blast
  have "scan_number J (show_int i @ r) = Some (TVal (JInt i), r)"
  proof (cases "i < 0")
    case True
    then show ?thesis
      using pi scan_int_show [OF delim_no_number(1) [OF assms(1)], of "nat (- i)"] delim_no_number [OF assms(1)]
      by (simp add: scan_number_def show_int_def)
  next
    case False
    then show ?thesis
      using pi scan_int_show [OF delim_no_number(1) [OF assms(1)], of "nat i"] delim_no_number [OF assms(1)]
        d digit_not_sign [OF d(2)]
      by (simp add: scan_number_def show_int_def)
  qed
  with c np show ?thesis by (simp add: scan_token_def)
qed

lemma tokens_step:
  assumes "scan_token J s = Some (k, r)" and "\<not> json_ws (hd s)"
  shows "tokens J s = k # tokens J r"
proof (cases s)
  case Nil
  with assms show ?thesis by (simp add: scan_token_def)
next
  case (Cons c t)
  with assms show ?thesis by (subst tokens.simps) simp
qed

lemma tokens_blank: "json_ws c \<Longrightarrow> tokens J (c # s) = tokens J s"
  by (subst (1 2) tokens.simps) simp

lemma tokens_punct: "c \<in> set ''{}[]:,'' \<Longrightarrow> tokens J (c # s) = TPunct c # tokens J s"
proof (rule tokens_step)
  assume c: "c \<in> set ''{}[]:,''"
  then show "scan_token J (c # s) = Some (TPunct c, s)" by (simp add: scan_token_def)
  from c show "\<not> json_ws (hd (c # s))" by (auto simp: json_ws_def)
qed

lemma tokens_str: "tokens J (json_str s @ r) = TStr s # tokens J r"
  by (rule tokens_step [OF scan_json_str]) (simp add: json_str_def chr_quote_def json_ws_def)

lemma tokens_int:
  assumes "text_delim r" and "length (show_nat (nat \<bar>i\<bar>)) \<le> INT_MAX_STR_DIGITS"
  shows "tokens J (show_int i @ r) = TVal (JInt i) # tokens J r"
proof (rule tokens_step [OF scan_show_int [OF assms]])
  obtain c cs where "show_int i = c # cs" "c = CHR ''-'' \<or> is_digit c" using show_int_hd by blast
  then show "\<not> json_ws (hd (show_int i @ r))" by (auto simp: json_ws_def is_digit_def)
qed

lemma tokens_literal:
  assumes "(w, j) \<in> {(''null'', JNull), (''true'', JBool True), (''false'', JBool False)}"
  shows "tokens J (w @ r) = TVal j # tokens J r"
proof (rule tokens_step)
  show "scan_token J (w @ r) = Some (TVal j, r)"
    using assms by (auto simp: scan_token_def chr_quote_def scan_number_def scan_int_def is_digit_def
        scan_literal_def LITERALS_def starts_with_def)
  show "\<not> json_ws (hd (w @ r))" using assms by (auto simp: json_ws_def)
qed

text \<open>The text of a value does not start with a closing bracket.\<close>

lemma json_text_hd: "json_ok j \<Longrightarrow> \<exists>c t. json_text fr j = c # t \<and> c \<noteq> CHR '']'' \<and> \<not> json_ws c"
proof (cases j)
  case (JInt i)
  obtain c cs where "show_int i = c # cs" "c = CHR ''-'' \<or> is_digit c" using show_int_hd by blast
  then show ?thesis by (auto simp: JInt json_ws_def is_digit_def)
qed (auto simp: json_str_def chr_quote_def json_ws_def)

lemma tokens_first:
  assumes "tokens J (c # t) = k # ks" and "\<not> json_ws c" and "c \<noteq> CHR '']''"
  shows "k \<noteq> TPunct CHR '']''"
  using assms
  by (subst (asm) tokens.simps)
     (auto simp: scan_token_def scan_number_def scan_literal_def Let_def split: option.splits if_splits prod.splits)

lemma parse_open_array:
  assumes "json_ok j"
  shows "parse EValueOrClose st (tokens J (json_text fr j @ r)) = parse EValue (FArr [] # st) (tokens J (json_text fr j @ r))"
proof -
  obtain c t where c: "json_text fr j = c # t" "c \<noteq> CHR '']''" "\<not> json_ws c" using json_text_hd [OF assms] by blast
  show ?thesis
  proof (cases "tokens J (json_text fr j @ r)")
    case (Cons k ks)
    have "k \<noteq> TPunct CHR '']''" using tokens_first [of J c "t @ r" k ks] Cons c by simp
    then show ?thesis unfolding Cons by (simp add: value_expected_def)
  next
    case Nil
    with c show ?thesis by (subst (asm) tokens.simps) (auto split: option.splits)
  qed
qed

lemma dict_set_fresh: "k \<notin> fst ` set d \<Longrightarrow> dict_set k v d = d @ [(k, v)]"
  by (induction d) auto

lemma dict_of_distinct: "distinct (map fst kvs) \<Longrightarrow> dict_of kvs = kvs"
  by (induction kvs rule: rev_induct) (simp_all add: dict_of_def dict_set_fresh case_prod_unfold)

lemma text_delim_simps [simp]:
  "text_delim []" "text_delim (CHR '','' # r)" "text_delim (CHR '']'' # r)" "text_delim (CHR ''}'' # r)"
  by (simp_all add: text_delim_def)

lemma parse_elements:
  assumes "ys \<noteq> []" and "\<And>y st r. y \<in> set ys \<Longrightarrow> text_delim r \<Longrightarrow>
      parse EValue st (tokens J (json_text fr y @ r)) = parse (EAfter y) st (tokens J r)"
  shows "parse EValue (FArr acc # st) (tokens J (join_with '', '' (map (json_text fr) ys) @ CHR '']'' # r))
       = parse (EAfter (JList (acc @ ys))) st (tokens J r)"
  using assms
proof (induction ys arbitrary: acc)
  case (Cons y ys)
  note IH = Cons.prems(2) [of y]
  show ?case
  proof (cases ys)
    case Nil
    then show ?thesis by (simp add: IH tokens_punct)
  next
    case (Cons z zs)
    have "parse EValue (FArr (acc @ [y]) # st) (tokens J (join_with '', '' (map (json_text fr) ys) @ CHR '']'' # r))
        = parse (EAfter (JList ((acc @ [y]) @ ys))) st (tokens J r)"
      using Cons.IH [of "acc @ [y]"] Cons.prems(2) Cons by simp
    then show ?thesis
      using Cons IH by (simp add: tokens_punct tokens_blank json_ws_def)
  qed
qed simp

definition pair_text :: "(rat \<Rightarrow> string) \<Rightarrow> string \<times> json \<Rightarrow> string" where
  "pair_text fr kv = json_str (fst kv) @ '': '' @ json_text fr (snd kv)"

lemma json_text_JObj: "json_text fr (JObj kvs) = ''{'' @ join_with '', '' (map (pair_text fr) kvs) @ ''}''"
  by (simp add: pair_text_def case_prod_unfold cong: map_cong)

text \<open>
  The parser in front of a key: \<open>EKeyOrClose\<close> at the first pair and \<open>EKey\<close> at the others both lead
  to the colon.
\<close>

lemma parse_pair:
  assumes "\<And>st r. text_delim r \<Longrightarrow> parse EValue st (tokens J (json_text fr v @ r)) = parse (EAfter v) st (tokens J r)"
    and "text_delim r"
  shows "parse (EKey acc) st (tokens J (pair_text fr (k, v) @ r)) = parse (EAfter v) (FObj acc k # st) (tokens J r)"
    and "parse EKeyOrClose st (tokens J (pair_text fr (k, v) @ r)) = parse (EAfter v) (FObj [] k # st) (tokens J r)"
  using assms
  by (simp_all add: pair_text_def tokens_str tokens_punct tokens_blank json_ws_def value_expected_def)

lemma parse_pairs:
  assumes "kvs \<noteq> []" and "\<And>k v st r. (k, v) \<in> set kvs \<Longrightarrow> text_delim r \<Longrightarrow>
      parse EValue st (tokens J (json_text fr v @ r)) = parse (EAfter v) st (tokens J r)"
  shows "parse (EKey acc) st (tokens J (join_with '', '' (map (pair_text fr) kvs) @ CHR ''}'' # r))
       = parse (EAfter (obj_of (acc @ kvs))) st (tokens J r)"
  using assms
proof (induction kvs arbitrary: acc)
  case (Cons kv kvs)
  obtain k v where kv: "kv = (k, v)" by (cases kv)
  note one = parse_pair(1) [of J fr v, OF Cons.prems(2) [of k v]]
  show ?case
  proof (cases kvs)
    case Nil
    then show ?thesis using one by (simp add: kv tokens_punct)
  next
    case more: (Cons kv' kvs')
    have "parse (EKey (acc @ [(k, v)])) st (tokens J (join_with '', '' (map (pair_text fr) kvs) @ CHR ''}'' # r))
        = parse (EAfter (obj_of ((acc @ [(k, v)]) @ kvs))) st (tokens J r)"
    proof (rule Cons.IH)
      fix k v st r assume "(k, v) \<in> set kvs" "text_delim r"
      then show "parse EValue st (tokens J (json_text fr v @ r)) = parse (EAfter v) st (tokens J r)"
        by (intro Cons.prems(2)) auto
    qed (simp add: more)
    then show ?thesis using one more by (simp add: kv tokens_punct tokens_blank json_ws_def)
  qed
qed simp

lemma parse_object:
  assumes "kvs \<noteq> []" and "\<And>k v st r. (k, v) \<in> set kvs \<Longrightarrow> text_delim r \<Longrightarrow>
      parse EValue st (tokens J (json_text fr v @ r)) = parse (EAfter v) st (tokens J r)"
  shows "parse EKeyOrClose st (tokens J (join_with '', '' (map (pair_text fr) kvs) @ CHR ''}'' # r))
       = parse (EAfter (obj_of kvs)) st (tokens J r)"
proof -
  have "parse EKeyOrClose st (tokens J (join_with '', '' (map (pair_text fr) kvs) @ CHR ''}'' # r))
      = parse (EKey []) st (tokens J (join_with '', '' (map (pair_text fr) kvs) @ CHR ''}'' # r))"
  proof (cases kvs)
    case (Cons kv kvs')
    obtain k v where kv: "kv = (k, v)" by (cases kv)
    have "\<exists>s. join_with '', '' (map (pair_text fr) kvs) = json_str k @ s"
      by (cases kvs') (auto simp: Cons kv pair_text_def)
    then obtain s where "join_with '', '' (map (pair_text fr) kvs) = json_str k @ s" ..
    then show ?thesis by (simp add: tokens_str value_expected_def)
  qed (use assms in simp)
  also have "\<dots> = parse (EAfter (obj_of kvs)) st (tokens J r)" using parse_pairs [OF assms, where acc = "[]"] by simp
  finally show ?thesis .
qed

lemma parse_text:
  "json_ok j \<Longrightarrow> text_delim r \<Longrightarrow> parse EValue st (tokens J (json_text fr j @ r)) = parse (EAfter j) st (tokens J r)"
proof (induction j arbitrary: st r)
  case JNull
  then show ?case using tokens_literal [of "''null''" JNull J r] by (simp add: value_expected_def)
next
  case (JBool b)
  then show ?case
    using tokens_literal [of "''true''" "JBool True" J r] tokens_literal [of "''false''" "JBool False" J r]
    by (cases b) (simp_all add: value_expected_def)
next
  case (JInt i)
  then show ?case by (simp add: tokens_int)
next
  case (JFloat q)
  then show ?case by simp
next
  case (JStr s)
  then show ?case by (simp add: tokens_str)
next
  case (JList xs)
  show ?case
  proof (cases "xs = []")
    case True
    then show ?thesis by (simp add: tokens_punct)
  next
    case False
    then obtain y ys where xs: "xs = y # ys" by (cases xs) auto
    have el: "y \<in> set xs \<Longrightarrow> text_delim r \<Longrightarrow> parse EValue st (tokens J (json_text fr y @ r)) = parse (EAfter y) st (tokens J r)"
      for y st r using JList.IH JList.prems(1) by (simp add: list_all_iff)
    have oky: "json_ok y" using JList.prems(1) xs by simp
    obtain s where s: "join_with '', '' (map (json_text fr) xs) @ CHR '']'' # r = json_text fr y @ s"
      by (cases ys) (auto simp: xs)
    have "parse EValue st (tokens J (json_text fr (JList xs) @ r))
        = parse EValueOrClose st (tokens J (join_with '', '' (map (json_text fr) xs) @ CHR '']'' # r))"
      by (simp add: tokens_punct)
    also have "\<dots> = parse EValue (FArr [] # st) (tokens J (join_with '', '' (map (json_text fr) xs) @ CHR '']'' # r))"
      unfolding s by (rule parse_open_array [OF oky])
    also have "\<dots> = parse (EAfter (JList xs)) st (tokens J r)"
      using parse_elements [OF False el, of "[]" st r] by simp
    finally show ?thesis .
  qed
next
  case (JObj kvs)
  show ?case
  proof (cases "kvs = []")
    case True
    then show ?thesis by (simp add: tokens_punct)
  next
    case False
    have el: "(k, v) \<in> set kvs \<Longrightarrow> text_delim r \<Longrightarrow> parse EValue st (tokens J (json_text fr v @ r)) = parse (EAfter v) st (tokens J r)"
      for k v st r using JObj.IH [of "(k, v)" v] JObj.prems(1) by (auto simp: list_all_iff)
    have "parse EValue st (tokens J (json_text fr (JObj kvs) @ r))
        = parse EKeyOrClose st (tokens J (join_with '', '' (map (pair_text fr) kvs) @ CHR ''}'' # r))"
      unfolding json_text_JObj by (simp add: tokens_punct)
    also have "\<dots> = parse (EAfter (obj_of kvs)) st (tokens J r)" by (rule parse_object [OF False el])
    also have "obj_of kvs = JObj kvs" using JObj.prems(1) by (simp add: obj_of_def dict_of_distinct)
    finally show ?thesis .
  qed
qed

text \<open>What \<^verbatim>\<open>json.dumps\<close> writes, \<^verbatim>\<open>json.loads\<close> reads back, also with a newline after it.\<close>

lemma loads_text: "json_ok j \<Longrightarrow> json_loads J (json_text fr j) = Loaded j"
  using parse_text [of j "[]" "[]" J fr] by (simp add: json_loads_def tokens.simps [of J "[]"])

section \<open>Every integer that was read can be written\<close>

abbreviation printable_json :: "json \<Rightarrow> bool" where
  "printable_json \<equiv> json_serializable (\<lambda>_. False)"

fun printable_token :: "token \<Rightarrow> bool" where
  "printable_token (TVal j) \<longleftrightarrow> printable_json j"
| "printable_token _ \<longleftrightarrow> True"

fun printable_frame :: "frame \<Rightarrow> bool" where
  "printable_frame (FArr xs) \<longleftrightarrow> printable_json (JList xs)"
| "printable_frame (FObj kvs k) \<longleftrightarrow> printable_json (JObj kvs)"

fun printable_expect :: "expect \<Rightarrow> bool" where
  "printable_expect (EKey kvs) \<longleftrightarrow> printable_json (JObj kvs)"
| "printable_expect (EColon kvs k) \<longleftrightarrow> printable_json (JObj kvs)"
| "printable_expect (EAfter j) \<longleftrightarrow> printable_json j"
| "printable_expect _ \<longleftrightarrow> True"

lemma scan_token_printable: "scan_token J s = Some (k, r) \<Longrightarrow> printable_token k"
proof -
  have n: "printable_token k" if "scan_number J s = Some (k, r)"
    using that py_int_printable
    by (auto simp: scan_number_def Let_def split: option.splits prod.splits if_splits)
  have l: "printable_token k" if "scan_literal J s = Some (k, r)"
    using that by (auto simp: scan_literal_def LITERALS_def split: if_splits)
  assume "scan_token J s = Some (k, r)"
  then show ?thesis
    using n l by (auto simp: scan_token_def split: list.splits if_splits option.splits)
qed

lemma tokens_printable: "k \<in> set (tokens J s) \<Longrightarrow> printable_token k"
proof (induction J s rule: tokens.induct)
  case (1 J s)
  show ?case
  proof (cases "dropWhile json_ws s")
    case Nil
    with "1.prems" show ?thesis by (simp add: tokens.simps)
  next
    case (Cons c t)
    show ?thesis
    proof (cases "scan_token J (c # t)")
      case None
      with Cons "1.prems" show ?thesis by (simp add: tokens.simps [of J s])
    next
      case (Some p)
      obtain k' r where p: "p = (k', r)" by (cases p)
      then have "k = k' \<or> k \<in> set (tokens J r)" using "1.prems" Cons Some by (simp add: tokens.simps [of J s])
      then show ?thesis using "1.IH" [OF Cons Some p [symmetric]] scan_token_printable Some p by auto
    qed
  qed
qed

lemma dict_of_values: "kv \<in> set (dict_of kvs) \<Longrightarrow> kv \<in> set kvs"
proof -
  have s: "kv \<in> set (dict_set k v d) \<Longrightarrow> kv = (k, v) \<or> kv \<in> set d" for k v d
    by (induction k v d rule: dict_set.induct) (auto split: if_splits)
  have "kv \<in> set (fold (\<lambda>(k, v) d. dict_set k v d) kvs d) \<Longrightarrow> kv \<in> set kvs \<or> kv \<in> set d" for d
    by (induction kvs arbitrary: d) (auto dest!: s)
  then show "kv \<in> set (dict_of kvs) \<Longrightarrow> kv \<in> set kvs" by (fastforce simp: dict_of_def)
qed

lemma obj_of_printable: "printable_json (JObj kvs) \<Longrightarrow> printable_json (obj_of kvs)"
  using dict_of_values by (fastforce simp: obj_of_def list_all_iff)

lemma parse_step_printable:
  assumes "parse_step e st k = Some (e', st')" and "printable_expect e" and "list_all printable_frame st"
    and "printable_token k"
  shows "printable_expect e' \<and> list_all printable_frame st'"
proof -
  have o: "printable_expect e' \<and> list_all printable_frame st'"
    if "open_value k st = Some (e', st')" "list_all printable_frame st" for st
    using that assms(4) by (cases k) (auto split: if_splits)
  have a: "printable_expect e' \<and> list_all printable_frame st'"
    if "after_value st j c = Some (e', st')" "printable_json j" for j c
  proof -
    have snoc: "printable_json (JObj (kvs @ [(k, j)])) \<longleftrightarrow> printable_json (JObj kvs) \<and> printable_json j" for kvs k
      by simp
    show ?thesis
      using that assms(3) obj_of_printable [OF snoc [THEN iffD2]]
      by (cases "(st, j, c)" rule: after_value.cases)
        (auto simp: snoc simp del: json_serializable.simps(4) split: if_splits)
  qed
  show ?thesis
    using assms o a by (cases e) (auto split: if_splits token.splits)
qed

lemma json_loads_printable:
  assumes "json_loads J s = Loaded j"
  shows "printable_json j"
proof -
  have "parse e st ks = Loaded j \<Longrightarrow> printable_expect e \<Longrightarrow> list_all printable_frame st \<Longrightarrow>
      list_all printable_token ks \<Longrightarrow> printable_json j" for e st ks
  proof (induction ks arbitrary: e st)
    case Nil
    then show ?case by (auto split: expect.splits if_splits)
  next
    case (Cons k ks)
    then obtain e' st' where "parse_step e st k = Some (e', st')" "parse e' st' ks = Loaded j"
      by (auto split: if_splits option.splits)
    with Cons parse_step_printable [of e st k e' st'] show ?case by simp
  qed
  from this [of EValue "[]" "tokens J s"] assms show ?thesis
    using tokens_printable by (auto simp: json_loads_def list_all_iff)
qed

section \<open>Written texts are ASCII\<close>

lemma json_esc_ascii: "c \<in> set (json_esc d) \<Longrightarrow> (of_char c :: nat) < 128"
proof -
  have h: "(of_char (hex_chr n) :: nat) < 128" if "n < 16" for n
  proof -
    have "list_all (\<lambda>c. (of_char c :: nat) < 128) hex_digits" "length hex_digits = 16" by code_simp+
    with that show ?thesis by (metis hex_chr_def list_all_length)
  qed
  assume "c \<in> set (json_esc d)"
  then show ?thesis using h of_char_div_lt [of d] by (auto simp: json_esc_def Let_def chr_quote_def chr_backslash_def split: if_splits)
qed

lemma join_with_ascii: "\<forall>x \<in> set xs. \<forall>c \<in> set x. P c \<Longrightarrow> \<forall>c \<in> set sep. P c \<Longrightarrow> c \<in> set (join_with sep xs) \<Longrightarrow> P c"
  by (induction sep xs rule: join_with.induct) auto

lemma json_text_ascii: "json_ok j \<Longrightarrow> c \<in> set (json_text fr j) \<Longrightarrow> (of_char c :: nat) < 128"
proof (induction j arbitrary: c)
  case (JList xs)
  have "\<forall>x \<in> set (map (json_text fr) xs). \<forall>c \<in> set x. (of_char c :: nat) < 128"
    using JList by (auto simp: list_all_iff)
  from join_with_ascii [OF this, of "'', ''" c] JList.prems(2) show ?case by auto
next
  case (JObj kvs)
  have "\<forall>x \<in> set (map (\<lambda>(k, v). json_str k @ '': '' @ json_text fr v) kvs). \<forall>c \<in> set x. (of_char c :: nat) < 128"
    using JObj json_esc_ascii by (fastforce simp: list_all_iff json_str_def chr_quote_def)
  from join_with_ascii [OF this, of "'', ''" c] JObj.prems(2) show ?case by auto
qed (auto simp: json_str_def chr_quote_def json_esc_ascii show_int_ascii split: if_splits)

end
