(* ===== verification/Verification.thy ===== *)
theory Verification
  imports Authority Py_Float Json_Parser
begin

text \<open>
  Objective verification (\<^verbatim>\<open>fleet_kernel/m8/verification.py\<close>, with the tables and triggers of
  \<^verbatim>\<open>fleet_kernel/ddl/009_m8_verification_observability.sql\<close>): signed attestations, enrolment of an
  objective with its obligations, satisfaction of an obligation, completion, conveyance, the
  pinned failure families and verifier calibration.

  A table is a list of rows; a transaction that raises leaves the tables as they are. Row level
  security is not modelled. The rows of the payroll manifests, which another component writes,
  are part of the state that no operation here changes.
\<close>

section \<open>Data\<close>

record VerificationAttestation =
  va_attestation_id :: nat
  va_tenant_id :: string
  va_objective_id :: nat
  va_obligation_id :: nat
  va_verifier_identity :: string
  va_verifier_family :: string
  va_subject_family :: string
  va_verdict :: string
  va_evidence_ref :: string
  va_evidence_sha256 :: string
  va_issued_at :: py_datetime
  va_signature :: string
  va_subject_ref :: "string option"
  va_subject_sha256 :: "string option"
  va_evidence_byte_length :: "nat option"

record 'pk TrustedVerifier =
  tv_identity :: string
  tv_family :: string
  tv_public_key :: 'pk

record objective_row =
  ob_id :: nat
  ob_tenant_id :: string
  ob_state :: string

record policy_row =
  po_objective_id :: nat
  po_tenant_id :: string
  po_subject_family :: string

record obligation_row =
  ol_id :: nat
  ol_tenant_id :: string
  ol_objective_id :: nat
  ol_kind :: string
  ol_required_family :: string
  ol_state :: string

record manifest_row =
  mf_tenant_id :: string
  mf_objective_id :: nat
  mf_attempt_number :: int
  mf_manifest_ref :: string
  mf_manifest_sha256 :: string
  mf_byte_length :: int

record verif_db =
  db_objectives :: "objective_row list"
  db_policies :: "policy_row list"
  db_obligations :: "obligation_row list"
  db_attestations :: "VerificationAttestation list"
  db_manifests :: "manifest_row list"

text \<open>
  \<open>uuid5_of\<close> is \<^verbatim>\<open>uuid.uuid5\<close> in the module's namespace and \<open>local_utc\<close> reads a naive time in the local
  zone, as \<^verbatim>\<open>astimezone\<close> does.
\<close>

record ('pk, 'sk) verif_env = "('pk, 'sk) auth_env" +
  uuid5_of :: "string \<Rightarrow> nat"
  local_utc :: "int \<Rightarrow> int"

datatype verification_error =
    SubjectIncomplete | UntrustedVerifier | NotIndependentPass | StaleAttestation | AttestationSignature
  | EvidenceUnavailable | EvidenceDigest | SubjectInvalid
  | EnrollArguments | EnrollMismatch | PolicyCollision | ObligationArguments | ObligationCollision
  | NotTheOpenObligation | PayrollSubject | DatabaseCheck | CompletionTarget
  | BadDisposition | UnverifiedConveyance | ConveyanceInvalid | ConveyanceIntLimit | OtherConveyance
  | FamiliesIncomplete | FamiliesNotPinned | FamilyNodes | CalibrationCorpus

section \<open>Attestations\<close>

definition as_utc :: "('pk, 'sk, 'a) verif_env_scheme \<Rightarrow> py_datetime \<Rightarrow> py_datetime" where
  "as_utc E t = (case t of Aware n \<Rightarrow> Aware n | Naive n \<Rightarrow> Aware (local_utc E n))"

definition jopt :: "('v \<Rightarrow> json) \<Rightarrow> 'v option \<Rightarrow> json" where
  "jopt f v = (case v of None \<Rightarrow> JNull | Some x \<Rightarrow> f x)"

definition attestation_json :: "('pk, 'sk, 'a) verif_env_scheme \<Rightarrow> VerificationAttestation \<Rightarrow> json" where
  "attestation_json E a = JObj
     [(''attestation_id'', JStr (uuid_str E (va_attestation_id a))), (''tenant_id'', JStr (va_tenant_id a)),
      (''objective_id'', JStr (uuid_str E (va_objective_id a))),
      (''obligation_id'', JStr (uuid_str E (va_obligation_id a))),
      (''verifier_identity'', JStr (va_verifier_identity a)), (''verifier_family'', JStr (va_verifier_family a)),
      (''subject_family'', JStr (va_subject_family a)), (''verdict'', JStr (va_verdict a)),
      (''evidence_ref'', JStr (va_evidence_ref a)), (''evidence_sha256'', JStr (va_evidence_sha256 a)),
      (''issued_at'', JStr (isoformat E (as_utc E (va_issued_at a)))),
      (''subject_ref'', jopt JStr (va_subject_ref a)), (''subject_sha256'', jopt JStr (va_subject_sha256 a)),
      (''evidence_byte_length'', jopt (JInt \<circ> int) (va_evidence_byte_length a))]"

definition attestation_payload :: "('pk, 'sk, 'a) verif_env_scheme \<Rightarrow> VerificationAttestation \<Rightarrow> string" where
  "attestation_payload E a = json_dumps (float_repr E) (attestation_json E a)"

text \<open>\<open>fresh\<close> is the new \<^verbatim>\<open>uuid4\<close>.\<close>

definition sign_attestation ::
    "('pk, 'sk) verif_env \<Rightarrow> 'sk \<Rightarrow> nat \<Rightarrow> string \<Rightarrow> nat \<Rightarrow> nat \<Rightarrow> string \<Rightarrow> string \<Rightarrow> string \<Rightarrow> string \<Rightarrow> string
     \<Rightarrow> py_datetime \<Rightarrow> string \<Rightarrow> string option \<Rightarrow> string option \<Rightarrow> verification_error + VerificationAttestation" where
  "sign_attestation E key fresh tenant objective obligation identity family subject_fam ref evidence issued verdict
      subject_ref subject_sha =
     (if (subject_ref = None) \<noteq> (subject_sha = None) then Inl SubjectIncomplete
      else (let unsigned = \<lparr>va_attestation_id = fresh, va_tenant_id = tenant, va_objective_id = objective,
                  va_obligation_id = obligation, va_verifier_identity = identity, va_verifier_family = family,
                  va_subject_family = subject_fam, va_verdict = verdict, va_evidence_ref = ref,
                  va_evidence_sha256 = sha256 E evidence, va_issued_at = issued, va_signature = [],
                  va_subject_ref = subject_ref, va_subject_sha256 = subject_sha,
                  va_evidence_byte_length = (if subject_ref \<noteq> None then Some (length evidence) else None)\<rparr>
            in Inr (unsigned\<lparr>va_signature := sign_with E key (attestation_payload E unsigned)\<rparr>)))"

type_synonym 'pk verifiers = "(string \<times> 'pk TrustedVerifier) list"

definition attestation_current :: "py_datetime \<Rightarrow> py_datetime \<Rightarrow> bool" where
  "attestation_current now issued =
     (case (now, issued) of (Aware n, Aware t) \<Rightarrow> n - 24 * 3600 * 1000000 \<le> t \<and> t \<le> n | _ \<Rightarrow> False)"

definition subject_binding_ok :: "VerificationAttestation \<Rightarrow> string \<Rightarrow> bool" where
  "subject_binding_ok a artifact \<longleftrightarrow>
     (va_subject_ref a = None \<and> va_subject_sha256 a = None \<and> va_evidence_byte_length a = None)
     \<or> (case (va_subject_ref a, va_subject_sha256 a) of
          (Some ref, Some sha) \<Rightarrow> ref \<noteq> [] \<and> is_hex64 sha \<and> va_evidence_byte_length a = Some (length artifact)
        | _ \<Rightarrow> False)"

text \<open>\<open>loader\<close> is the caller's artifact loader, with \<^const>\<open>None\<close> for its \<^verbatim>\<open>KeyError\<close> or \<^verbatim>\<open>OSError\<close>.\<close>

definition trust_verify ::
    "('pk, 'sk) verif_env \<Rightarrow> 'pk verifiers \<Rightarrow> py_datetime \<Rightarrow> VerificationAttestation
     \<Rightarrow> (string \<Rightarrow> string option) \<Rightarrow> verification_error + unit" where
  "trust_verify E verifiers now a loader =
     (case map_of verifiers (va_verifier_identity a) of
        None \<Rightarrow> Inl UntrustedVerifier
      | Some v \<Rightarrow>
          if tv_family v \<noteq> va_verifier_family a then Inl UntrustedVerifier
          else if va_tenant_id a = [] \<or> va_evidence_ref a = [] \<or> va_verifier_family a = va_subject_family a
             \<or> va_verdict a \<noteq> ''pass''
          then Inl NotIndependentPass
          else if \<not> attestation_current now (va_issued_at a) then Inl StaleAttestation
          else if \<not> verify_sig E (tv_public_key v) (va_signature a) (attestation_payload E a)
          then Inl AttestationSignature
          else (case loader (va_evidence_ref a) of
              None \<Rightarrow> Inl EvidenceUnavailable
            | Some artifact \<Rightarrow>
                if sha256 E artifact \<noteq> va_evidence_sha256 a then Inl EvidenceDigest
                else if \<not> subject_binding_ok a artifact then Inl SubjectInvalid
                else Inr ()))"

section \<open>Enrolment\<close>

definition unit_sep :: char where
  "unit_sep = CHR 0x1F"

definition obligation_id_of :: "('pk, 'sk) verif_env \<Rightarrow> string \<Rightarrow> nat \<Rightarrow> string \<Rightarrow> nat" where
  "obligation_id_of E tenant objective kind =
     uuid5_of E (tenant @ [unit_sep] @ uuid_str E objective @ [unit_sep] @ kind)"

text \<open>
  One round of the loop over the obligations: the guarded insert, which does nothing when the
  id or the kind of this objective is taken, and the comparison of the row that is there.
\<close>

definition enroll_obligation ::
    "('pk, 'sk) verif_env \<Rightarrow> string \<Rightarrow> nat \<Rightarrow> verif_db \<Rightarrow> string \<times> string \<Rightarrow> verification_error + verif_db" where
  "enroll_obligation E tenant objective db kf =
     (case kf of (kind, family) \<Rightarrow>
       if kind = [] \<or> family = [] \<or> unit_sep \<in> set kind \<or> unit_sep \<in> set family then Inl ObligationArguments
       else if \<not> btrim_nonempty kind \<or> \<not> btrim_nonempty family then Inl DatabaseCheck
       else (let i = obligation_id_of E tenant objective kind;
                 same = (\<lambda>ob. ol_tenant_id ob = tenant \<and> ol_objective_id ob = objective \<and> ol_kind ob = kind);
                 db = (if list_ex (\<lambda>ob. ol_id ob = i \<or> same ob) (db_obligations db) then db
                       else db\<lparr>db_obligations := db_obligations db @
                         [\<lparr>ol_id = i, ol_tenant_id = tenant, ol_objective_id = objective, ol_kind = kind,
                           ol_required_family = family, ol_state = ''open''\<rparr>]\<rparr>)
             in case find same (db_obligations db) of
                  None \<Rightarrow> Inl ObligationCollision
                | Some row \<Rightarrow> if ol_required_family row \<noteq> family then Inl ObligationCollision else Inr db))"

text \<open>
  The transaction runs under READ COMMITTED. Its first statement reads the objective and takes no
  lock, so what \<open>enroll_read\<close> saw need not hold when the inserts of \<open>enroll_write\<close> are committed. The
  inserts may be taken as one step at the commit: rows of the two tables are never removed and keep
  the columns compared here, and a concurrent insert of the same key is waited for.
\<close>

definition enroll_read ::
    "verif_db \<Rightarrow> string \<Rightarrow> nat \<Rightarrow> string \<Rightarrow> (string \<times> string) list \<Rightarrow> verification_error + unit" where
  "enroll_read db tenant objective subject_fam obligations =
     (if tenant = [] \<or> subject_fam = [] \<or> obligations = [] \<or> unit_sep \<in> set tenant \<or> unit_sep \<in> set subject_fam
      then Inl EnrollArguments
      else (case find (\<lambda>ob. ob_id ob = objective) (db_objectives db) of
            None \<Rightarrow> Inl EnrollMismatch
          | Some ob \<Rightarrow>
              if ob_tenant_id ob \<noteq> tenant \<or> ob_state ob = ''done'' then Inl EnrollMismatch else Inr ()))"

definition enroll_write ::
    "('pk, 'sk) verif_env \<Rightarrow> verif_db \<Rightarrow> string \<Rightarrow> nat \<Rightarrow> string \<Rightarrow> (string \<times> string) list
     \<Rightarrow> verification_error + (verif_db \<times> (string \<times> nat) list)" where
  "enroll_write E db tenant objective subject_fam obligations =
     (let ids = map (\<lambda>(kind, _). (kind, obligation_id_of E tenant objective kind)) obligations
      in if \<not> btrim_nonempty subject_fam then Inl DatabaseCheck
         else (let db = (if list_ex (\<lambda>p. po_objective_id p = objective) (db_policies db) then db
                         else db\<lparr>db_policies := db_policies db @
                           [\<lparr>po_objective_id = objective, po_tenant_id = tenant,
                             po_subject_family = subject_fam\<rparr>]\<rparr>)
           in case find (\<lambda>p. po_objective_id p = objective) (db_policies db) of
                None \<Rightarrow> Inl PolicyCollision
              | Some p \<Rightarrow>
                  if po_tenant_id p \<noteq> tenant \<or> po_subject_family p \<noteq> subject_fam then Inl PolicyCollision
                  else res_bind (fold_res (enroll_obligation E tenant objective) db obligations)
                         (\<lambda>db. Inr (db, ids))))"

text \<open>The call reads the objective in \<open>seen\<close> and writes to \<open>db\<close>, which may be a later state.\<close>

definition enroll_objective ::
    "('pk, 'sk) verif_env \<Rightarrow> verif_db \<Rightarrow> verif_db \<Rightarrow> string \<Rightarrow> nat \<Rightarrow> string \<Rightarrow> (string \<times> string) list
     \<Rightarrow> verification_error + (verif_db \<times> (string \<times> nat) list)" where
  "enroll_objective E seen db tenant objective subject_fam obligations =
     res_bind (enroll_read seen tenant objective subject_fam obligations)
       (\<lambda>_. enroll_write E db tenant objective subject_fam obligations)"

section \<open>Satisfaction\<close>

text \<open>\<^verbatim>\<open>s.rsplit(':', 1)[-1]\<close>.\<close>

definition after_last_colon :: "string \<Rightarrow> string" where
  "after_last_colon s = rev (takeWhile (\<lambda>c. c \<noteq> CHR '':'') (rev s))"

definition payroll_manifest :: "verif_db \<Rightarrow> VerificationAttestation \<Rightarrow> string \<Rightarrow> manifest_row option" where
  "payroll_manifest db a kind =
     find (\<lambda>m. mf_tenant_id m = va_tenant_id a \<and> mf_objective_id m = va_objective_id a
            \<and> kind = ''independent_review:attempt:'' @ show_int (mf_attempt_number m)) (db_manifests db)"

definition expected_subject ::
    "('pk, 'sk) verif_env \<Rightarrow> VerificationAttestation \<Rightarrow> string \<Rightarrow> manifest_row \<Rightarrow> string" where
  "expected_subject E a kind m =
     ''kernel-domain-review://'' @ va_tenant_id a @ ''/'' @ uuid_str E (va_objective_id a) @ ''/'' @ ''attempt/''
       @ after_last_colon kind @ ''/'' @ mf_manifest_sha256 m"

text \<open>The constraints of the attestations table that the inserted row meets or violates.\<close>

definition attestation_row_ok :: "verif_db \<Rightarrow> VerificationAttestation \<Rightarrow> bool" where
  "attestation_row_ok db a \<longleftrightarrow>
     list_all (\<lambda>b. va_attestation_id b \<noteq> va_attestation_id a \<and> va_obligation_id b \<noteq> va_obligation_id a)
       (db_attestations db)
     \<and> va_verdict a = ''pass'' \<and> is_hex64 (va_evidence_sha256 a)
     \<and> btrim_nonempty (va_verifier_identity a) \<and> btrim_nonempty (va_evidence_ref a)
     \<and> va_verifier_family a \<noteq> va_subject_family a
     \<and> list_ex (\<lambda>ob. ol_id ob = va_obligation_id a \<and> ol_tenant_id ob = va_tenant_id a
          \<and> ol_objective_id ob = va_objective_id a) (db_obligations db)"

text \<open>The trigger on an update of an obligation to \<open>satisfied\<close>.\<close>

definition has_pass_attestation :: "verif_db \<Rightarrow> obligation_row \<Rightarrow> bool" where
  "has_pass_attestation db ob \<longleftrightarrow>
     list_ex (\<lambda>a. va_obligation_id a = ol_id ob \<and> va_tenant_id a = ol_tenant_id ob
        \<and> va_objective_id a = ol_objective_id ob \<and> va_verdict a = ''pass'') (db_attestations db)"

definition satisfy_obligation ::
    "('pk, 'sk) verif_env \<Rightarrow> 'pk verifiers \<Rightarrow> py_datetime \<Rightarrow> (string \<Rightarrow> string option)
     \<Rightarrow> verif_db \<Rightarrow> VerificationAttestation \<Rightarrow> verification_error + verif_db" where
  "satisfy_obligation E verifiers now loader db a =
     res_bind (trust_verify E verifiers now a loader) (\<lambda>_.
       case find (\<lambda>ob. ol_id ob = va_obligation_id a) (db_obligations db) of
         None \<Rightarrow> Inl NotTheOpenObligation
       | Some row \<Rightarrow>
           (case find (\<lambda>p. po_objective_id p = ol_objective_id row) (db_policies db) of
              None \<Rightarrow> Inl NotTheOpenObligation
            | Some p \<Rightarrow>
                if ol_tenant_id row \<noteq> va_tenant_id a \<or> ol_objective_id row \<noteq> va_objective_id a
                   \<or> ol_required_family row \<noteq> va_verifier_family a
                   \<or> po_subject_family p \<noteq> va_subject_family a \<or> ol_state row \<noteq> ''open''
                then Inl NotTheOpenObligation
                else if (case payroll_manifest db a (ol_kind row) of
                    None \<Rightarrow> False
                  | Some m \<Rightarrow> va_subject_ref a \<noteq> Some (expected_subject E a (ol_kind row) m)
                      \<or> va_subject_sha256 a \<noteq> Some (mf_manifest_sha256 m) \<or> va_evidence_byte_length a = None)
                then Inl PayrollSubject
                else if \<not> attestation_row_ok db a then Inl DatabaseCheck
                else (let db = db\<lparr>db_attestations := db_attestations db @ [a]\<rparr>
                  in if \<not> list_all (\<lambda>ob. ol_id ob = va_obligation_id a \<and> ol_state ob \<noteq> ''satisfied''
                             \<longrightarrow> has_pass_attestation db ob) (db_obligations db)
                     then Inl DatabaseCheck
                     else Inr (db\<lparr>db_obligations :=
                            map (\<lambda>ob. if ol_id ob = va_obligation_id a then ob\<lparr>ol_state := ''satisfied''\<rparr> else ob)
                              (db_obligations db)\<rparr>))))"

section \<open>Completion\<close>

definition completion_refused :: "verif_db \<Rightarrow> objective_row \<Rightarrow> bool" where
  "completion_refused db ob \<longleftrightarrow>
     list_ex (\<lambda>p. po_objective_id p = ob_id ob \<and> po_tenant_id p = ob_tenant_id ob) (db_policies db)
     \<and> (let obls = filter (\<lambda>l. ol_objective_id l = ob_id ob \<and> ol_tenant_id l = ob_tenant_id ob) (db_obligations db)
        in obls = [] \<or> list_ex (\<lambda>l. ol_state l \<noteq> ''satisfied'') obls
           \<or> list_ex (\<lambda>l. \<not> has_pass_attestation db l) obls)"

definition mark_done :: "verif_db \<Rightarrow> string \<Rightarrow> nat \<Rightarrow> verif_db" where
  "mark_done db tenant objective = db\<lparr>db_objectives :=
     map (\<lambda>ob. if ob_id ob = objective \<and> ob_tenant_id ob = tenant \<and> ob_state ob \<noteq> ''done''
               then ob\<lparr>ob_state := ''done''\<rparr> else ob) (db_objectives db)\<rparr>"

definition complete_verified_objective ::
    "verif_db \<Rightarrow> string \<Rightarrow> nat \<Rightarrow> verification_error + verif_db" where
  "complete_verified_objective db tenant objective =
     (let rows = filter (\<lambda>ob. ob_id ob = objective \<and> ob_tenant_id ob = tenant \<and> ob_state ob \<noteq> ''done'')
                   (db_objectives db)
      in if list_ex (completion_refused db) rows then Inl DatabaseCheck
         else if length rows \<noteq> 1 then Inl CompletionTarget
         else Inr (mark_done db tenant objective))"

section \<open>Conveyance\<close>

text \<open>The evidence is read as UTF-8; an integer literal beyond the interpreter's limit is not caught.\<close>

definition require_verified_conveyance ::
    "json_env \<Rightarrow> ('pk, 'sk) verif_env \<Rightarrow> 'pk verifiers \<Rightarrow> py_datetime \<Rightarrow> (string \<Rightarrow> string option) \<Rightarrow> string
     \<Rightarrow> VerificationAttestation option \<Rightarrow> verification_error + unit" where
  "require_verified_conveyance J E verifiers now loader disposition attestation =
     (if disposition \<notin> {''accept'', ''refuse''} then Inl BadDisposition
      else (case attestation of
          None \<Rightarrow> Inl UnverifiedConveyance
        | Some a \<Rightarrow>
            res_bind (trust_verify E verifiers now a loader) (\<lambda>_.
              case Option.bind (loader (va_evidence_ref a)) utf8_decode of
                None \<Rightarrow> Inl ConveyanceInvalid
              | Some text \<Rightarrow>
                  (case json_loads J text of
                     DecodeError \<Rightarrow> Inl ConveyanceInvalid
                   | IntLimitError \<Rightarrow> Inl ConveyanceIntLimit
                   | Loaded payload \<Rightarrow>
                       if json_canon payload \<noteq> json_canon (JObj
                            [(''disposition'', JStr disposition), (''objective_id'', JStr (uuid_str E (va_objective_id a))),
                             (''verification'', JStr ''pass'')])
                       then Inl OtherConveyance else Inr ()))))"

section \<open>Failure families\<close>

record FailureFamily =
  ff_name :: string
  ff_actual_node :: string
  ff_mutation_node :: string
  ff_origin_ref :: string

definition M8_TESTS :: string where
  "M8_TESTS = ''tests/test_tier1_kernel_m8_verification_observability.py::''"

definition M2_TESTS :: string where
  "M2_TESTS = ''tests/test_tier1_kernel_m2_proving_spike.py::''"

definition FAMILIES :: "FailureFamily list" where
  "FAMILIES =
    [\<lparr>ff_name = ''duplicate_delivery'',
      ff_actual_node = M8_TESTS @ ''test_duplicate_delivery_real_kernel'',
      ff_mutation_node = M8_TESTS @ ''test_duplicate_delivery_missing_stable_key_mutation'',
      ff_origin_ref = ''D4:duplicate-delivery''\<rparr>,
     \<lparr>ff_name = ''crash_restart'',
      ff_actual_node = M2_TESTS @ ''TestF_M2_1_CommittedEffectCrashResumeExactlyOnce::test_crash_before_the_shared_commit_never_produces_a_double_debit'',
      ff_mutation_node = M2_TESTS @ ''TestF_M2_1_CommittedEffectCrashResumeExactlyOnce::test_mutation_reverting_to_the_old_step_decorator_reproduces_the_double_debit'',
      ff_origin_ref = ''D4:F-M2-1-real-process-crash''\<rparr>,
     \<lparr>ff_name = ''network_partition'',
      ff_actual_node = M8_TESTS @ ''test_network_partition_real_socket_kill'',
      ff_mutation_node = M8_TESTS @ ''test_network_partition_commit_boundary_mutation'',
      ff_origin_ref = ''D4:socket-kill''\<rparr>,
     \<lparr>ff_name = ''credential_revocation'',
      ff_actual_node = M8_TESTS @ ''test_credential_revocation_real_database'',
      ff_mutation_node = M8_TESTS @ ''test_credential_revocation_privileged_credential_mutation'',
      ff_origin_ref = ''D5:credential-revoke-reissue''\<rparr>,
     \<lparr>ff_name = ''timeout_stale_owner'',
      ff_actual_node = M2_TESTS @ ''TestFencingStaleOwnerRefused::test_stale_owner_write_refused_after_transfer'',
      ff_mutation_node = M2_TESTS @ ''TestFencingStaleOwnerRefused::test_mutation_an_unguarded_write_would_corrupt'',
      ff_origin_ref = ''D4:stale-owner-resumes''\<rparr>,
     \<lparr>ff_name = ''historical_failure'',
      ff_actual_node = ''tests/test_tier1_oil173_frozen_owner_gate.py::test_dead_marker_pid_plus_stale_init_is_frozen'',
      ff_mutation_node = ''tests/test_tier1_kernel_m3_f1_golden_transcript.py::TestRealCheckedInCycle::test_manifest_exact_timestamp_refuses_nearest_row_substitution'',
      ff_origin_ref = ''F1-real-cycle+OIL-224''\<rparr>]"

definition EXPECTED_FAMILIES :: "string list" where
  "EXPECTED_FAMILIES = [''duplicate_delivery'', ''crash_restart'', ''network_partition'',
     ''credential_revocation'', ''timeout_stale_owner'', ''historical_failure'']"

definition EXPECTED_FAMILY_MANIFEST_SHA256 :: string where
  "EXPECTED_FAMILY_MANIFEST_SHA256 = ''0565248225020db3e5f16d88e3ff0dcedc27980a486beefe2697d0eb340afdbf''"

definition family_json :: "FailureFamily \<Rightarrow> json" where
  "family_json f = JObj [(''name'', JStr (ff_name f)), (''actual_node'', JStr (ff_actual_node f)),
     (''mutation_node'', JStr (ff_mutation_node f)), (''origin_ref'', JStr (ff_origin_ref f))]"

definition family_manifest_sha256 :: "('a py_env_scheme) \<Rightarrow> string" where
  "family_manifest_sha256 E = sha256 E (json_dumps (float_repr E) (JList (map family_json FAMILIES)))"

definition assert_family_manifest :: "('a py_env_scheme) \<Rightarrow> verification_error + unit" where
  "assert_family_manifest E =
     (let names = map ff_name FAMILIES;
          nodes = concat (map (\<lambda>f. [ff_actual_node f, ff_mutation_node f]) FAMILIES)
      in if set names \<noteq> set EXPECTED_FAMILIES \<or> length names \<noteq> length EXPECTED_FAMILIES
         then Inl FamiliesIncomplete
         else if family_manifest_sha256 E \<noteq> EXPECTED_FAMILY_MANIFEST_SHA256 then Inl FamiliesNotPinned
         else if \<not> distinct nodes \<or> list_ex (\<lambda>n. \<not> starts_with n ''tests/'') nodes then Inl FamilyNodes
         else Inr ())"

section \<open>Calibration\<close>

record CalibrationCase =
  cc_case_id :: string
  cc_defective :: bool
  cc_verifier_passed :: bool
  cc_source_ref :: string
  cc_source_sha256 :: string

record CalibrationReport =
  cr_measured_at :: string
  cr_corpus_size :: nat
  cr_false_accepts :: nat
  cr_false_rejects :: nat
  cr_false_accept_rate :: rat
  cr_false_reject_rate :: rat
  cr_corpus_sha256 :: string

definition calibration_case_json :: "CalibrationCase \<Rightarrow> json" where
  "calibration_case_json c = JObj [(''case_id'', JStr (cc_case_id c)), (''defective'', JBool (cc_defective c)),
     (''verifier_passed'', JBool (cc_verifier_passed c)), (''source_ref'', JStr (cc_source_ref c)),
     (''source_sha256'', JStr (cc_source_sha256 c))]"

definition calibration_to_json :: "('a py_env_scheme) \<Rightarrow> CalibrationReport \<Rightarrow> string" where
  "calibration_to_json E r = json_dumps (float_repr E) (JObj
     [(''measured_at'', JStr (cr_measured_at r)), (''corpus_size'', JInt (int (cr_corpus_size r))),
      (''false_accepts'', JInt (int (cr_false_accepts r))), (''false_rejects'', JInt (int (cr_false_rejects r))),
      (''false_accept_rate'', JFloat (cr_false_accept_rate r)),
      (''false_reject_rate'', JFloat (cr_false_reject_rate r)),
      (''corpus_sha256'', JStr (cr_corpus_sha256 r))])"

definition calibrate_verifier ::
    "('a py_env_scheme) \<Rightarrow> CalibrationCase list \<Rightarrow> py_datetime \<Rightarrow> verification_error + CalibrationReport" where
  "calibrate_verifier E cases measured_at =
     (if cases = [] \<or> \<not> is_aware measured_at \<or> \<not> list_ex cc_defective cases
         \<or> \<not> list_ex (\<lambda>c. \<not> cc_defective c) cases
         \<or> list_ex (\<lambda>c. cc_case_id c = [] \<or> cc_source_ref c = [] \<or> \<not> is_hex64 (cc_source_sha256 c)) cases
      then Inl CalibrationCorpus
      else (let defective = length (filter cc_defective cases);
                clean = length cases - defective;
                false_accepts = length (filter (\<lambda>c. cc_defective c \<and> cc_verifier_passed c) cases);
                false_rejects = length (filter (\<lambda>c. \<not> cc_defective c \<and> \<not> cc_verifier_passed c) cases)
            in Inr \<lparr>cr_measured_at = isoformat E measured_at, cr_corpus_size = length cases,
                 cr_false_accepts = false_accepts, cr_false_rejects = false_rejects,
                 cr_false_accept_rate = py_truediv false_accepts defective,
                 cr_false_reject_rate = py_truediv false_rejects clean,
                 cr_corpus_sha256 = sha256 E (json_dumps (float_repr E) (JList (map calibration_case_json cases)))\<rparr>))"

section \<open>Runs of the operations\<close>

text \<open>
  Sessions run side by side, one step at a time. An enrolment takes two steps, the read of the
  objective and the committed inserts; so does a completion, whose update statement locks the row
  and runs the trigger on the committed rows of the other tables, and becomes visible at its
  commit. Either can be rolled back in between. A satisfaction holds the lock of its obligation
  throughout and is one step, at any clock reading and with any loader. A refused call changes nothing.

  \<open>vr_enrolling\<close> holds the enrolments between their two steps, \<open>vr_completing\<close> the completions
  between theirs. \<open>vr_raced\<close> is an auxiliary variable that no step reads: the objectives of which
  an enrolment and a completion were under way at the same time.
\<close>

type_synonym enrolment = "string \<times> nat \<times> string \<times> (string \<times> string) list"

record verif_run =
  vr_db :: verif_db
  vr_enrolling :: "enrolment list"
  vr_completing :: "(string \<times> nat) list"
  vr_raced :: "nat set"

definition run_start :: "verif_db \<Rightarrow> verif_run" where
  "run_start db = \<lparr>vr_db = db, vr_enrolling = [], vr_completing = [], vr_raced = {}\<rparr>"

definition enrolling :: "verif_run \<Rightarrow> nat \<Rightarrow> bool" where
  "enrolling s objective \<longleftrightarrow> list_ex (\<lambda>(_, i, _). i = objective) (vr_enrolling s)"

definition completing :: "verif_run \<Rightarrow> nat \<Rightarrow> bool" where
  "completing s objective \<longleftrightarrow> list_ex (\<lambda>(_, i). i = objective) (vr_completing s)"

definition note_race :: "nat \<Rightarrow> verif_run \<Rightarrow> verif_run" where
  "note_race i s = (if enrolling s i \<and> completing s i then s\<lparr>vr_raced := insert i (vr_raced s)\<rparr> else s)"

inductive verif_step :: "('pk, 'sk) verif_env \<Rightarrow> 'pk verifiers \<Rightarrow> verif_run \<Rightarrow> verif_run \<Rightarrow> bool"
  for E verifiers where
  enroll_begin: "enroll_read (vr_db s) t i fam obls = Inr ()
    \<Longrightarrow> verif_step E verifiers s (note_race i (s\<lparr>vr_enrolling := (t, i, fam, obls) # vr_enrolling s\<rparr>))"
| enroll_commit: "(t, i, fam, obls) \<in> set (vr_enrolling s) \<Longrightarrow> enroll_write E (vr_db s) t i fam obls = Inr (db, ids)
    \<Longrightarrow> verif_step E verifiers s
          (s\<lparr>vr_db := db, vr_enrolling := remove1 (t, i, fam, obls) (vr_enrolling s)\<rparr>)"
| satisfy: "satisfy_obligation E verifiers now loader (vr_db s) a = Inr db
    \<Longrightarrow> verif_step E verifiers s (s\<lparr>vr_db := db\<rparr>)"
| finish_begin: "complete_verified_objective (vr_db s) t i = Inr db \<Longrightarrow> \<not> completing s i
    \<Longrightarrow> verif_step E verifiers s (note_race i (s\<lparr>vr_completing := (t, i) # vr_completing s\<rparr>))"
| finish_commit: "(t, i) \<in> set (vr_completing s)
    \<Longrightarrow> verif_step E verifiers s
          (s\<lparr>vr_db := mark_done (vr_db s) t i, vr_completing := remove1 (t, i) (vr_completing s)\<rparr>)"
| enroll_abort: "verif_step E verifiers s (s\<lparr>vr_enrolling := remove1 p (vr_enrolling s)\<rparr>)"
| finish_abort: "verif_step E verifiers s (s\<lparr>vr_completing := remove1 q (vr_completing s)\<rparr>)"

inductive verif_reach :: "('pk, 'sk) verif_env \<Rightarrow> 'pk verifiers \<Rightarrow> verif_run \<Rightarrow> verif_run \<Rightarrow> bool"
  for E verifiers where
  start: "verif_reach E verifiers s s"
| more: "verif_reach E verifiers s s' \<Longrightarrow> verif_step E verifiers s' s'' \<Longrightarrow> verif_reach E verifiers s s''"

text \<open>What backs a satisfied obligation: a row of the attestations table that proves it.\<close>

definition backs ::
    "('pk, 'sk) verif_env \<Rightarrow> 'pk verifiers \<Rightarrow> string \<Rightarrow> obligation_row \<Rightarrow> VerificationAttestation \<Rightarrow> bool" where
  "backs E verifiers subject_fam ob a \<longleftrightarrow>
     va_obligation_id a = ol_id ob \<and> va_tenant_id a = ol_tenant_id ob \<and> va_objective_id a = ol_objective_id ob
     \<and> va_verdict a = ''pass'' \<and> va_verifier_family a = ol_required_family ob
     \<and> va_subject_family a = subject_fam \<and> va_verifier_family a \<noteq> subject_fam
     \<and> (\<exists>v. map_of verifiers (va_verifier_identity a) = Some v \<and> tv_family v = va_verifier_family a
          \<and> verify_sig E (tv_public_key v) (va_signature a) (attestation_payload E a))"

definition policy_family :: "verif_db \<Rightarrow> nat \<Rightarrow> string option" where
  "policy_family db objective = map_option po_subject_family (find (\<lambda>p. po_objective_id p = objective) (db_policies db))"

definition backed :: "('pk, 'sk) verif_env \<Rightarrow> 'pk verifiers \<Rightarrow> verif_db \<Rightarrow> bool" where
  "backed E verifiers db \<longleftrightarrow>
     (\<forall>ob \<in> set (db_obligations db). ol_state ob = ''satisfied'' \<longrightarrow>
        (\<exists>fam a. policy_family db (ol_objective_id ob) = Some fam \<and> a \<in> set (db_attestations db)
           \<and> backs E verifiers fam ob a))"

text \<open>The tables as their keys and the enrolment leave them.\<close>

definition tables_ok :: "verif_db \<Rightarrow> bool" where
  "tables_ok db \<longleftrightarrow> distinct (map ob_id (db_objectives db)) \<and> distinct (map ol_id (db_obligations db))
     \<and> distinct (map po_objective_id (db_policies db))"

definition enrolled :: "verif_db \<Rightarrow> objective_row \<Rightarrow> bool" where
  "enrolled db ob \<longleftrightarrow> (\<exists>p \<in> set (db_policies db). po_objective_id p = ob_id ob \<and> po_tenant_id p = ob_tenant_id ob)"

definition obligations_of :: "verif_db \<Rightarrow> objective_row \<Rightarrow> obligation_row list" where
  "obligations_of db ob =
     filter (\<lambda>l. ol_objective_id l = ob_id ob \<and> ol_tenant_id l = ob_tenant_id ob) (db_obligations db)"

definition all_satisfied :: "obligation_row list \<Rightarrow> bool" where
  "all_satisfied ls \<longleftrightarrow> ls \<noteq> [] \<and> (\<forall>l \<in> set ls. ol_state l = ''satisfied'')"

text \<open>An objective is closed when it is done, or when its completion has passed the trigger.\<close>

definition closed :: "verif_run \<Rightarrow> objective_row \<Rightarrow> bool" where
  "closed s ob \<longleftrightarrow> ob_state ob = ''done'' \<or> (ob_tenant_id ob, ob_id ob) \<in> set (vr_completing s)"

definition closed_verified :: "verif_run \<Rightarrow> bool" where
  "closed_verified s \<longleftrightarrow>
     (\<forall>ob \<in> set (db_objectives (vr_db s)). closed s ob \<and> ob_id ob \<notin> vr_raced s \<and> enrolled (vr_db s) ob
        \<longrightarrow> all_satisfied (obligations_of (vr_db s) ob))"

definition enrolling_open :: "verif_run \<Rightarrow> bool" where
  "enrolling_open s \<longleftrightarrow>
     (\<forall>ob \<in> set (db_objectives (vr_db s)). closed s ob \<and> enrolling s (ob_id ob) \<longrightarrow> ob_id ob \<in> vr_raced s)"

definition verif_inv :: "('pk, 'sk) verif_env \<Rightarrow> 'pk verifiers \<Rightarrow> verif_run \<Rightarrow> bool" where
  "verif_inv E verifiers s \<longleftrightarrow> tables_ok (vr_db s) \<and> backed E verifiers (vr_db s) \<and> closed_verified s \<and> enrolling_open s"

section \<open>Preservation\<close>

definition extends_obligations :: "string \<Rightarrow> nat \<Rightarrow> verif_db \<Rightarrow> verif_db \<Rightarrow> bool" where
  "extends_obligations tenant objective db db' \<longleftrightarrow>
     (\<exists>news. db' = db\<lparr>db_obligations := db_obligations db @ news\<rparr>
        \<and> (\<forall>l \<in> set news. ol_state l = ''open'' \<and> ol_tenant_id l = tenant \<and> ol_objective_id l = objective)
        \<and> (distinct (map ol_id (db_obligations db)) \<longrightarrow> distinct (map ol_id (db_obligations db'))))"

lemma extends_refl: "extends_obligations t i db db"
  unfolding extends_obligations_def by (rule exI [of _ "[]"]) simp

lemma extends_trans:
  "extends_obligations t i db db' \<Longrightarrow> extends_obligations t i db' db'' \<Longrightarrow> extends_obligations t i db db''"
  unfolding extends_obligations_def by (elim exE conjE, rename_tac a b, rule_tac x = "a @ b" in exI) auto

lemma extends_one:
  assumes "ol_state l = ''open''" "ol_tenant_id l = t" "ol_objective_id l = i"
    and "\<forall>ob \<in> set (db_obligations db). ol_id ob \<noteq> ol_id l"
  shows "extends_obligations t i db (db\<lparr>db_obligations := db_obligations db @ [l]\<rparr>)"
  unfolding extends_obligations_def using assms by (intro exI [of _ "[l]"]) auto

lemma enroll_obligation_extends:
  assumes "enroll_obligation E t i db kf = Inr db'"
  shows "extends_obligations t i db db'"
proof -
  obtain kind family where kf: "kf = (kind, family)" by (cases kf)
  let ?l = "\<lparr>ol_id = obligation_id_of E t i kind, ol_tenant_id = t, ol_objective_id = i, ol_kind = kind,
     ol_required_family = family, ol_state = ''open''\<rparr>"
  from assms consider "db' = db"
    | "db' = db\<lparr>db_obligations := db_obligations db @ [?l]\<rparr>"
      "\<forall>ob \<in> set (db_obligations db). ol_id ob \<noteq> ol_id ?l"
    by (auto simp: enroll_obligation_def Let_def kf list_ex_iff split: if_splits option.splits)
  then show ?thesis by cases (auto intro: extends_refl extends_one)
qed

lemma enroll_loop_extends:
  assumes "fold_res (enroll_obligation E t i) db obls = Inr db'"
  shows "extends_obligations t i db db'"
  by (rule fold_res_invariant [where I = "extends_obligations t i db", OF _ extends_refl assms])
     (blast intro: extends_trans enroll_obligation_extends)

text \<open>What an accepted enrolment read, and what its inserts did.\<close>

lemma enroll_read_Inr:
  "enroll_read db t i fam obls = Inr () \<Longrightarrow>
     \<exists>row \<in> set (db_objectives db). ob_id row = i \<and> ob_tenant_id row = t \<and> ob_state row \<noteq> ''done''"
  by (auto simp: enroll_read_def dest!: find_SomeD split: if_splits option.splits)

lemma enroll_write_Inr:
  assumes "enroll_write E db t i fam obls = Inr (db', ids)"
  obtains pol news where
    "db' = db\<lparr>db_policies := db_policies db @ pol, db_obligations := db_obligations db @ news\<rparr>"
    "\<forall>p \<in> set pol. po_objective_id p = i" "\<forall>p \<in> set (db_policies db). pol \<noteq> [] \<longrightarrow> po_objective_id p \<noteq> i"
    "length pol \<le> 1"
    "\<forall>l \<in> set news. ol_state l = ''open'' \<and> ol_tenant_id l = t \<and> ol_objective_id l = i"
    "distinct (map ol_id (db_obligations db)) \<longrightarrow> distinct (map ol_id (db_obligations db'))"
proof -
  define pol where "pol = (if list_ex (\<lambda>p. po_objective_id p = i) (db_policies db) then []
    else [\<lparr>po_objective_id = i, po_tenant_id = t, po_subject_family = fam\<rparr>])"
  define db1 where "db1 = db\<lparr>db_policies := db_policies db @ pol\<rparr>"
  have "fold_res (enroll_obligation E t i) db1 obls = Inr db'"
    using assms
    by (auto simp: enroll_write_def Let_def db1_def pol_def res_bind_Inr_iff split: if_splits option.splits)
  from enroll_loop_extends [OF this] obtain news where
    n: "db' = db1\<lparr>db_obligations := db_obligations db1 @ news\<rparr>"
    "\<forall>l \<in> set news. ol_state l = ''open'' \<and> ol_tenant_id l = t \<and> ol_objective_id l = i"
    "distinct (map ol_id (db_obligations db1)) \<longrightarrow> distinct (map ol_id (db_obligations db'))"
    unfolding extends_obligations_def by blast
  have db': "db' = db\<lparr>db_policies := db_policies db @ pol, db_obligations := db_obligations db @ news\<rparr>"
    using n(1) by (simp add: db1_def)
  have p: "\<forall>p \<in> set pol. po_objective_id p = i" "length pol \<le> 1"
    "\<forall>p \<in> set (db_policies db). pol \<noteq> [] \<longrightarrow> po_objective_id p \<noteq> i"
    by (auto simp: pol_def list_ex_iff)
  from n(3) have dist: "distinct (map ol_id (db_obligations db)) \<longrightarrow> distinct (map ol_id (db_obligations db'))"
    by (simp add: db1_def)
  from that [OF db' p(1, 3, 2) n(2) dist] show thesis .
qed

lemma distinct_singleton: "distinct xs \<Longrightarrow> set xs = {x} \<Longrightarrow> xs = [x]"
  by (cases xs; cases "tl xs") auto

lemma distinct_id_unique: "distinct (map f xs) \<Longrightarrow> x \<in> set xs \<Longrightarrow> y \<in> set xs \<Longrightarrow> f x = f y \<Longrightarrow> x = y"
  by (simp add: distinct_map inj_on_def)

lemma policy_family_extend:
  assumes "policy_family db i = Some fam"
  shows "policy_family (db\<lparr>db_policies := db_policies db @ pol, db_obligations := x\<rparr>) i = Some fam"
  using assms by (auto simp: policy_family_def find_append_Some)

lemma enroll_tables:
  assumes "enroll_write E db t i fam obls = Inr (db', ids)"
  shows "tables_ok db \<Longrightarrow> tables_ok db'" and "backed E verifiers db \<Longrightarrow> backed E verifiers db'"
    and "db_objectives db' = db_objectives db"
    and "ob_id ob \<noteq> i \<Longrightarrow> enrolled db' ob = enrolled db ob \<and> obligations_of db' ob = obligations_of db ob"
proof -
  from assms obtain pol news where
    db': "db' = db\<lparr>db_policies := db_policies db @ pol, db_obligations := db_obligations db @ news\<rparr>"
    and pol: "\<forall>p \<in> set pol. po_objective_id p = i" "\<forall>p \<in> set (db_policies db). pol \<noteq> [] \<longrightarrow> po_objective_id p \<noteq> i"
      "length pol \<le> 1"
    and news: "\<forall>l \<in> set news. ol_state l = ''open'' \<and> ol_tenant_id l = t \<and> ol_objective_id l = i"
    and dist: "distinct (map ol_id (db_obligations db)) \<longrightarrow> distinct (map ol_id (db_obligations db'))"
    by (rule enroll_write_Inr)
  show "tables_ok db'" if t: "tables_ok db"
  proof -
    have "distinct (map po_objective_id (db_policies db @ pol))"
      using t pol by (cases pol) (auto simp: tables_ok_def)
    then show ?thesis using t dist by (simp add: tables_ok_def db')
  qed
  show "backed E verifiers db'" if b: "backed E verifiers db"
    unfolding backed_def
  proof (intro ballI impI)
    fix ob assume ob: "ob \<in> set (db_obligations db')" "ol_state ob = ''satisfied''"
    then have "ob \<in> set (db_obligations db)" using news by (auto simp: db')
    then obtain fam a where "policy_family db (ol_objective_id ob) = Some fam" "a \<in> set (db_attestations db)"
      "backs E verifiers fam ob a" using b ob(2) unfolding backed_def by blast
    then show "\<exists>fam a. policy_family db' (ol_objective_id ob) = Some fam \<and> a \<in> set (db_attestations db')
        \<and> backs E verifiers fam ob a"
      unfolding db' by (auto intro: policy_family_extend)
  qed
  show "db_objectives db' = db_objectives db" by (simp add: db')
  show "enrolled db' ob = enrolled db ob \<and> obligations_of db' ob = obligations_of db ob" if "ob_id ob \<noteq> i"
    using that pol(1) news by (auto simp: enrolled_def obligations_of_def db' filter_empty_conv)
qed

lemma trust_verify_Inr:
  "trust_verify E verifiers now a loader = Inr () \<Longrightarrow>
     va_verdict a = ''pass'' \<and> va_verifier_family a \<noteq> va_subject_family a
     \<and> (\<exists>v. map_of verifiers (va_verifier_identity a) = Some v \<and> tv_family v = va_verifier_family a
          \<and> verify_sig E (tv_public_key v) (va_signature a) (attestation_payload E a))"
  by (auto simp: trust_verify_def split: option.splits if_splits)

lemma satisfy_obligation_Inr:
  assumes "satisfy_obligation E verifiers now loader db a = Inr db'"
  obtains row fam where "row \<in> set (db_obligations db)" "ol_id row = va_obligation_id a"
    "policy_family db (ol_objective_id row) = Some fam" "ol_state row = ''open''" "backs E verifiers fam row a"
    "db' = db\<lparr>db_attestations := db_attestations db @ [a], db_obligations :=
       map (\<lambda>ob. if ol_id ob = va_obligation_id a then ob\<lparr>ol_state := ''satisfied''\<rparr> else ob) (db_obligations db)\<rparr>"
proof -
  from assms have tv: "trust_verify E verifiers now a loader = Inr ()"
    by (auto simp: satisfy_obligation_def res_bind_Inr_iff)
  from assms tv obtain row p where row: "find (\<lambda>ob. ol_id ob = va_obligation_id a) (db_obligations db) = Some row"
    "find (\<lambda>p. po_objective_id p = ol_objective_id row) (db_policies db) = Some p"
    "ol_tenant_id row = va_tenant_id a" "ol_objective_id row = va_objective_id a"
    "ol_required_family row = va_verifier_family a" "po_subject_family p = va_subject_family a"
    "ol_state row = ''open''"
    and db': "db' = db\<lparr>db_attestations := db_attestations db @ [a], db_obligations :=
       map (\<lambda>ob. if ol_id ob = va_obligation_id a then ob\<lparr>ol_state := ''satisfied''\<rparr> else ob) (db_obligations db)\<rparr>"
    by (auto simp: satisfy_obligation_def Let_def split: option.splits if_splits)
  have "backs E verifiers (po_subject_family p) row a"
    using trust_verify_Inr [OF tv] row find_SomeD [OF row(1)] by (auto simp: backs_def)
  then show thesis
    using that [of row "po_subject_family p"] row(2, 7) find_SomeD [OF row(1)] db' by (simp add: policy_family_def)
qed

lemma backs_state: "backs E verifiers fam (ob\<lparr>ol_state := x\<rparr>) a \<longleftrightarrow> backs E verifiers fam ob a"
  by (simp add: backs_def)

lemma satisfy_tables:
  assumes s: "satisfy_obligation E verifiers now loader db a = Inr db'" and t: "tables_ok db"
  shows "tables_ok db'" and "backed E verifiers db \<Longrightarrow> backed E verifiers db'"
    and "db_objectives db' = db_objectives db" and "enrolled db' ob = enrolled db ob"
    and "all_satisfied (obligations_of db ob) \<Longrightarrow> all_satisfied (obligations_of db' ob)"
proof -
  let ?upd = "\<lambda>ob. if ol_id ob = va_obligation_id a then ob\<lparr>ol_state := ''satisfied''\<rparr> else ob"
  from s obtain row fam where row: "row \<in> set (db_obligations db)" "ol_id row = va_obligation_id a"
    "policy_family db (ol_objective_id row) = Some fam" "backs E verifiers fam row a"
    and db': "db' = db\<lparr>db_attestations := db_attestations db @ [a], db_obligations := map ?upd (db_obligations db)\<rparr>"
    by (rule satisfy_obligation_Inr)
  have pf: "policy_family db' = policy_family db" by (simp add: policy_family_def fun_eq_iff db')
  have "map ol_id (db_obligations db') = map ol_id (db_obligations db)" by (simp add: db')
  moreover have "db_objectives db' = db_objectives db" "db_policies db' = db_policies db" by (simp_all add: db')
  ultimately show "tables_ok db'" using t unfolding tables_ok_def by metis
  show "backed E verifiers db'" if b: "backed E verifiers db"
    unfolding backed_def
  proof (intro ballI impI)
    fix ob assume ob: "ob \<in> set (db_obligations db')" "ol_state ob = ''satisfied''"
    then obtain old where old: "old \<in> set (db_obligations db)" "ob = ?upd old" by (auto simp: db')
    show "\<exists>fam a. policy_family db' (ol_objective_id ob) = Some fam \<and> a \<in> set (db_attestations db')
        \<and> backs E verifiers fam ob a"
    proof (cases "ol_id old = va_obligation_id a")
      case True
      with old row t have "old = row"
        using distinct_id_unique [of ol_id "db_obligations db" old row] by (simp add: tables_ok_def)
      with True old have "ob = row\<lparr>ol_state := ''satisfied''\<rparr>" by simp
      moreover have "a \<in> set (db_attestations db')" by (simp add: db')
      ultimately show ?thesis using row(3, 4) unfolding pf by (auto simp: backs_state)
    next
      case False
      with old ob(2) b obtain fam x where "policy_family db (ol_objective_id ob) = Some fam"
        "x \<in> set (db_attestations db)" "backs E verifiers fam ob x" unfolding backed_def by auto
      moreover have "set (db_attestations db) \<subseteq> set (db_attestations db')" by (auto simp: db')
      ultimately show ?thesis unfolding pf by blast
    qed
  qed
  show "db_objectives db' = db_objectives db" "enrolled db' ob = enrolled db ob" by (simp_all add: enrolled_def db')
  have "obligations_of db' ob = map ?upd (obligations_of db ob)"
    unfolding obligations_of_def by (auto simp: db' filter_map comp_def intro!: arg_cong [where f = "map ?upd"] filter_cong)
  then show "all_satisfied (obligations_of db' ob)" if "all_satisfied (obligations_of db ob)"
    using that by (auto simp: all_satisfied_def)
qed

lemma complete_Inr:
  assumes "complete_verified_objective db t i = Inr db'"
  obtains row where "row \<in> set (db_objectives db)" "ob_id row = i" "ob_tenant_id row = t"
    "\<not> completion_refused db row" "db' = mark_done db t i"
proof -
  let ?rows = "filter (\<lambda>ob. ob_id ob = i \<and> ob_tenant_id ob = t \<and> ob_state ob \<noteq> ''done'') (db_objectives db)"
  from assms have "length ?rows = 1" "\<not> list_ex (completion_refused db) ?rows" and db': "db' = mark_done db t i"
    by (simp_all add: complete_verified_objective_def Let_def split: if_splits)
  then obtain row where "?rows = [row]" "\<not> completion_refused db row"
    by (auto simp: length_Suc_conv)
  then have "row \<in> set ?rows" "\<not> completion_refused db row" by simp_all
  with that [of row] db' show thesis by simp
qed

lemma refused_iff:
  "completion_refused db ob \<longleftrightarrow> enrolled db ob \<and>
     \<not> (all_satisfied (obligations_of db ob) \<and> (\<forall>l \<in> set (obligations_of db ob). has_pass_attestation db l))"
  unfolding completion_refused_def enrolled_def all_satisfied_def obligations_of_def Let_def list_ex_iff by blast

lemma mark_done_tables:
  "tables_ok (mark_done db t i) = tables_ok db" "backed E verifiers (mark_done db t i) = backed E verifiers db"
  "enrolled (mark_done db t i) ob = enrolled db ob" "obligations_of (mark_done db t i) ob = obligations_of db ob"
proof -
  have "map ob_id (db_objectives (mark_done db t i)) = map ob_id (db_objectives db)" by (simp add: mark_done_def)
  moreover have "db_obligations (mark_done db t i) = db_obligations db" "db_policies (mark_done db t i) = db_policies db"
    "db_attestations (mark_done db t i) = db_attestations db" by (simp_all add: mark_done_def)
  ultimately show "tables_ok (mark_done db t i) = tables_ok db" "backed E verifiers (mark_done db t i) = backed E verifiers db"
    "enrolled (mark_done db t i) ob = enrolled db ob" "obligations_of (mark_done db t i) ob = obligations_of db ob"
    unfolding tables_ok_def backed_def policy_family_def enrolled_def obligations_of_def by simp_all
qed

lemma note_race_simps [simp]:
  "vr_db (note_race i s) = vr_db s" "vr_enrolling (note_race i s) = vr_enrolling s"
  "vr_completing (note_race i s) = vr_completing s" "enrolling (note_race i s) = enrolling s"
  "closed (note_race i s) = closed s"
  "j \<in> vr_raced (note_race i s) \<longleftrightarrow> j \<in> vr_raced s \<or> j = i \<and> enrolling s i \<and> completing s i"
  by (auto simp: note_race_def enrolling_def closed_def fun_eq_iff)

lemma enrolling_remove: "enrolling (s\<lparr>vr_db := db, vr_enrolling := remove1 p (vr_enrolling s)\<rparr>) i \<Longrightarrow> enrolling s i"
  using set_remove1_subset [of p "vr_enrolling s"] by (auto simp: enrolling_def list_ex_iff)

section \<open>The invariant\<close>

text \<open>
  Which assertions survive which step: the inserts of an enrolment leave the obligations of every
  other objective alone, and its own objective is open or raced; a satisfaction only adds to what
  is satisfied; a completion closes an objective that the trigger has just found verified.
\<close>

lemma enroll_begin_inv:
  assumes "verif_inv E verifiers s" and "enroll_read (vr_db s) t i fam obls = Inr ()"
  shows "verif_inv E verifiers (note_race i (s\<lparr>vr_enrolling := (t, i, fam, obls) # vr_enrolling s\<rparr>))"
proof -
  let ?s = "s\<lparr>vr_enrolling := (t, i, fam, obls) # vr_enrolling s\<rparr>"
  have tb: "tables_ok (vr_db s)" using assms(1) by (simp add: verif_inv_def)
  from enroll_read_Inr [OF assms(2)] obtain row where row: "row \<in> set (db_objectives (vr_db s))" "ob_id row = i"
    "ob_state row \<noteq> ''done''" by blast
  have "completing ?s i" if "ob \<in> set (db_objectives (vr_db s))" "closed ?s ob" "ob_id ob = i" for ob
  proof -
    have "ob = row" using distinct_id_unique [of ob_id "db_objectives (vr_db s)" ob row] tb that(1,3) row by (simp add: tables_ok_def)
    then show ?thesis using that(2) row by (auto simp: closed_def completing_def list_ex_iff)
  qed
  then have "enrolling_open (note_race i ?s)"
    using assms(1) by (auto simp: verif_inv_def enrolling_open_def closed_def enrolling_def)
  moreover have "closed_verified (note_race i ?s)"
    using assms(1) by (auto simp: verif_inv_def closed_verified_def closed_def)
  ultimately show ?thesis using assms(1) by (simp add: verif_inv_def)
qed

lemma enroll_commit_inv:
  assumes "verif_inv E verifiers s" and p: "(t, i, fam, obls) \<in> set (vr_enrolling s)"
    and w: "enroll_write E (vr_db s) t i fam obls = Inr (db, ids)"
  shows "verif_inv E verifiers (s\<lparr>vr_db := db, vr_enrolling := remove1 (t, i, fam, obls) (vr_enrolling s)\<rparr>)"
proof -
  let ?s = "s\<lparr>vr_db := db, vr_enrolling := remove1 (t, i, fam, obls) (vr_enrolling s)\<rparr>"
  have "enrolling s i" using p by (auto simp: enrolling_def list_ex_iff)
  then have ne: "ob_id ob \<noteq> i" if "ob \<in> set (db_objectives db)" "closed s ob" "ob_id ob \<notin> vr_raced s" for ob
    using assms(1) that unfolding enroll_tables(3) [OF w] by (auto simp: verif_inv_def enrolling_open_def)
  have "closed_verified ?s"
    unfolding closed_verified_def
  proof (intro ballI impI, elim conjE)
    fix ob assume ob: "ob \<in> set (db_objectives (vr_db ?s))" "closed ?s ob" "ob_id ob \<notin> vr_raced ?s" "enrolled (vr_db ?s) ob"
    then have "ob_id ob \<noteq> i" using ne by (simp add: closed_def)
    from enroll_tables(4) [OF w this] show "all_satisfied (obligations_of (vr_db ?s) ob)"
      using assms(1) ob by (simp add: verif_inv_def closed_verified_def closed_def enroll_tables(3) [OF w])
  qed
  moreover have "enrolling_open ?s"
    using assms(1) enrolling_remove [where s = s and p = "(t, i, fam, obls)" and db = db]
    by (auto simp: verif_inv_def enrolling_open_def closed_def enroll_tables(3) [OF w])
  ultimately show ?thesis using assms(1) enroll_tables(1,2) [OF w] by (simp add: verif_inv_def)
qed

lemma satisfy_inv:
  assumes "verif_inv E verifiers s" and w: "satisfy_obligation E verifiers now loader (vr_db s) a = Inr db"
  shows "verif_inv E verifiers (s\<lparr>vr_db := db\<rparr>)"
proof -
  have t: "tables_ok (vr_db s)" using assms(1) by (simp add: verif_inv_def)
  note r = satisfy_tables [OF w t]
  show ?thesis
    using assms(1) r by (auto simp: verif_inv_def closed_verified_def enrolling_open_def closed_def enrolling_def)
qed

lemma finish_begin_inv:
  assumes "verif_inv E verifiers s" and c: "complete_verified_objective (vr_db s) t i = Inr db"
  shows "verif_inv E verifiers (note_race i (s\<lparr>vr_completing := (t, i) # vr_completing s\<rparr>))"
proof -
  let ?s = "s\<lparr>vr_completing := (t, i) # vr_completing s\<rparr>"
  from c obtain row where row: "ob_id row = i" "ob_tenant_id row = t" "\<not> completion_refused (vr_db s) row"
    by (rule complete_Inr)
  have closed: "closed ?s ob \<longleftrightarrow> closed s ob \<or> (ob_tenant_id ob = t \<and> ob_id ob = i)" for ob
    by (auto simp: closed_def)
  have "all_satisfied (obligations_of (vr_db s) ob)"
    if "ob_tenant_id ob = t" "ob_id ob = i" "enrolled (vr_db s) ob" for ob
  proof -
    have "enrolled (vr_db s) row = enrolled (vr_db s) ob" "obligations_of (vr_db s) row = obligations_of (vr_db s) ob"
      using that row by (simp_all add: enrolled_def obligations_of_def)
    then show ?thesis using row(3) that(3) by (simp add: refused_iff)
  qed
  then have "closed_verified (note_race i ?s)"
    using assms(1) by (auto simp: verif_inv_def closed_verified_def closed)
  moreover have "completing ?s i" by (simp add: completing_def)
  then have "enrolling_open (note_race i ?s)"
    using assms(1) by (auto simp: verif_inv_def enrolling_open_def closed enrolling_def)
  ultimately show ?thesis using assms(1) by (simp add: verif_inv_def)
qed

lemma finish_commit_inv:
  assumes "verif_inv E verifiers s" and q: "(t, i) \<in> set (vr_completing s)"
  shows "verif_inv E verifiers (s\<lparr>vr_db := mark_done (vr_db s) t i, vr_completing := remove1 (t, i) (vr_completing s)\<rparr>)"
proof -
  let ?s = "s\<lparr>vr_db := mark_done (vr_db s) t i, vr_completing := remove1 (t, i) (vr_completing s)\<rparr>"
  have old: "\<exists>old \<in> set (db_objectives (vr_db s)). ob_id ob = ob_id old \<and> ob_tenant_id ob = ob_tenant_id old \<and> closed s old"
    if "ob \<in> set (db_objectives (mark_done (vr_db s) t i))" "closed ?s ob" for ob
    using that q set_remove1_subset [of "(t, i)" "vr_completing s"]
    by (auto simp: mark_done_def closed_def split: if_splits)
  have same: "enrolled db ob = enrolled db old" "obligations_of db ob = obligations_of db old"
    if "ob_id ob = ob_id old" "ob_tenant_id ob = ob_tenant_id old" for db ob old
    using that by (simp_all add: enrolled_def obligations_of_def)
  have "closed_verified ?s"
    unfolding closed_verified_def
  proof (intro ballI impI, elim conjE)
    fix ob assume ob: "ob \<in> set (db_objectives (vr_db ?s))" "closed ?s ob" "ob_id ob \<notin> vr_raced ?s" "enrolled (vr_db ?s) ob"
    with old obtain o' where o': "o' \<in> set (db_objectives (vr_db s))" "ob_id ob = ob_id o'" "ob_tenant_id ob = ob_tenant_id o'"
      "closed s o'" by auto
    from same [OF o'(2,3)] show "all_satisfied (obligations_of (vr_db ?s) ob)"
      using assms(1) ob o' by (simp add: verif_inv_def closed_verified_def mark_done_tables)
  qed
  moreover have "enrolling_open ?s"
    using assms(1) old by (fastforce simp: verif_inv_def enrolling_open_def enrolling_def)
  ultimately show ?thesis using assms(1) by (simp add: verif_inv_def mark_done_tables)
qed

lemma abort_inv:
  assumes "verif_inv E verifiers s"
  shows "verif_inv E verifiers (s\<lparr>vr_enrolling := remove1 p (vr_enrolling s)\<rparr>)"
    and "verif_inv E verifiers (s\<lparr>vr_completing := remove1 q (vr_completing s)\<rparr>)"
proof -
  have "enrolling (s\<lparr>vr_enrolling := remove1 p (vr_enrolling s)\<rparr>) i \<Longrightarrow> enrolling s i" for i
    using enrolling_remove [where s = s and p = p and db = "vr_db s" and i = i] by simp
  then show "verif_inv E verifiers (s\<lparr>vr_enrolling := remove1 p (vr_enrolling s)\<rparr>)"
    using assms by (auto simp: verif_inv_def closed_verified_def enrolling_open_def closed_def)
  have "closed (s\<lparr>vr_completing := remove1 q (vr_completing s)\<rparr>) ob \<Longrightarrow> closed s ob" for ob
    using set_remove1_subset [of q "vr_completing s"] by (auto simp: closed_def)
  then show "verif_inv E verifiers (s\<lparr>vr_completing := remove1 q (vr_completing s)\<rparr>)"
    using assms by (auto simp: verif_inv_def closed_verified_def enrolling_open_def enrolling_def)
qed

inductive_cases verif_stepE: "verif_step E verifiers s s'"

lemma verif_step_inv: "verif_step E verifiers s s' \<Longrightarrow> verif_inv E verifiers s \<Longrightarrow> verif_inv E verifiers s'"
  by (erule verif_stepE)
    (blast intro: enroll_begin_inv enroll_commit_inv satisfy_inv finish_begin_inv finish_commit_inv abort_inv)+

lemma verif_reach_inv: "verif_reach E verifiers s s' \<Longrightarrow> verif_inv E verifiers s \<Longrightarrow> verif_inv E verifiers s'"
  by (induction rule: verif_reach.induct) (auto intro: verif_step_inv)

lemma verif_inv_start:
  assumes "distinct (map ob_id (db_objectives db))" and "db_policies db = []" and "db_obligations db = []"
  shows "verif_inv E verifiers (run_start db)"
  using assms
  by (simp add: verif_inv_def tables_ok_def backed_def closed_verified_def enrolled_def enrolling_open_def
      enrolling_def run_start_def)

text \<open>The families of the source are complete and their nodes distinct, so only the digest can fail.\<close>

lemma family_manifest_iff:
  "assert_family_manifest E = Inr () \<longleftrightarrow> family_manifest_sha256 E = EXPECTED_FAMILY_MANIFEST_SHA256"
proof -
  have "set (map ff_name FAMILIES) = set EXPECTED_FAMILIES" "length (map ff_name FAMILIES) = length EXPECTED_FAMILIES"
    by (simp_all add: FAMILIES_def EXPECTED_FAMILIES_def)
  moreover have "distinct (concat (map (\<lambda>f. [ff_actual_node f, ff_mutation_node f]) FAMILIES))"
    by (simp add: FAMILIES_def M8_TESTS_def M2_TESTS_def)
  moreover have "\<not> list_ex (\<lambda>n. \<not> starts_with n ''tests/'') (concat (map (\<lambda>f. [ff_actual_node f, ff_mutation_node f]) FAMILIES))"
    by (simp add: FAMILIES_def M8_TESTS_def M2_TESTS_def starts_with_def)
  ultimately show ?thesis by (simp add: assert_family_manifest_def Let_def)
qed

text \<open>A calibration rate of zero means no such case, and one means that every case is one.\<close>

lemma calibration_rates:
  assumes "calibrate_verifier E cases t = Inr r" and "length cases \<le> 2 ^ 52"
  shows "cr_false_accept_rate r = 0 \<longleftrightarrow> (\<forall>c \<in> set cases. cc_defective c \<longrightarrow> \<not> cc_verifier_passed c)"
    and "cr_false_accept_rate r = 1 \<longleftrightarrow> (\<forall>c \<in> set cases. cc_defective c \<longrightarrow> cc_verifier_passed c)"
proof -
  let ?n = "length (filter cc_defective cases)"
  let ?p = "length (filter (\<lambda>c. cc_defective c \<and> cc_verifier_passed c) cases)"
  have eq: "filter (\<lambda>c. cc_defective c \<and> cc_verifier_passed c) cases = filter cc_verifier_passed (filter cc_defective cases)"
    by (simp add: conj_commute)
  from assms(1) have r: "cr_false_accept_rate r = py_truediv ?p ?n" and pos: "0 < ?n"
    by (auto simp: calibrate_verifier_def Let_def list_ex_iff filter_empty_conv split: if_splits)
  have le: "?p \<le> ?n" unfolding eq by (rule length_filter_le)
  have le2: "?n \<le> 2 ^ 52" by (rule le_trans [OF length_filter_le assms(2)])
  show "cr_false_accept_rate r = 0 \<longleftrightarrow> (\<forall>c \<in> set cases. cc_defective c \<longrightarrow> \<not> cc_verifier_passed c)"
    unfolding r py_truediv_eq_0 [OF pos] by (simp add: filter_empty_conv)
  show "cr_false_accept_rate r = 1 \<longleftrightarrow> (\<forall>c \<in> set cases. cc_defective c \<longrightarrow> cc_verifier_passed c)"
    unfolding r py_truediv_eq_1 [OF pos le le2] unfolding eq length_filter_all by auto
qed

section \<open>Properties\<close>

text \<open>
  C4. No enrolled objective is completed unverified: in every state reached from empty
  verification tables by any interleaving of enrolments, satisfactions and completions (an
  enrolment reading the objective without a lock, the other sessions running between its read and
  its commit), an objective that is done and has a verification policy has at least one obligation,
  and each of its obligations is backed by a stored PASS attestation for exactly this obligation,
  tenant and objective, signed by a trusted verifier of the required model family, which is another
  family than the one the policy names as the subject. The one exception are the objectives of
  which an enrolment and a completion were under way at the same time; for these it is false.
\<close>

theorem completed_objectives_are_verified:
  assumes "distinct (map ob_id (db_objectives db))" and "db_policies db = []" and "db_obligations db = []"
    and "verif_reach E verifiers (run_start db) s"
    and "ob \<in> set (db_objectives (vr_db s))" and "ob_state ob = ''done''" and "enrolled (vr_db s) ob"
    and "ob_id ob \<notin> vr_raced s"
  shows "obligations_of (vr_db s) ob \<noteq> [] \<and> (\<forall>l \<in> set (obligations_of (vr_db s) ob).
    \<exists>fam a. policy_family (vr_db s) (ob_id ob) = Some fam \<and> a \<in> set (db_attestations (vr_db s))
      \<and> backs E verifiers fam l a)"
proof -
  have inv: "verif_inv E verifiers s"
    using verif_reach_inv [OF assms(4) verif_inv_start [OF assms(1-3)]] .
  then have sat: "all_satisfied (obligations_of (vr_db s) ob)"
    using assms(5-8) by (auto simp: verif_inv_def closed_verified_def closed_def)
  moreover have "\<exists>fam a. policy_family (vr_db s) (ob_id ob) = Some fam \<and> a \<in> set (db_attestations (vr_db s))
      \<and> backs E verifiers fam l a"
    if l: "l \<in> set (obligations_of (vr_db s) ob)" for l
  proof -
    have "l \<in> set (db_obligations (vr_db s))" "ol_objective_id l = ob_id ob" "ol_state l = ''satisfied''"
      using l sat by (auto simp: obligations_of_def all_satisfied_def)
    then show ?thesis using inv unfolding verif_inv_def backed_def by metis
  qed
  ultimately show ?thesis by (auto simp: all_satisfied_def)
qed


section \<open>A concrete run\<close>

definition sample_verif_env :: "(unit, unit) verif_env" where
  "sample_verif_env = \<lparr>sha256 = (\<lambda>_. replicate 64 CHR ''0''), float_repr = (\<lambda>_. ''0.0''),
     float_fixed3 = (\<lambda>_. ''0.000''), float_sum = (\<lambda>_. 0), py_repr = (\<lambda>s. s), uuid_str = (\<lambda>_. ''u''),
     isoformat = (\<lambda>_. ''1970''), verify_sig = (\<lambda>_ s m. s = ''sig:'' @ m), sign_with = (\<lambda>_ m. ''sig:'' @ m),
     parse_iso = (\<lambda>_. Some (Aware 0)), uuid5_of = (\<lambda>_. 5), local_utc = (\<lambda>t. t)\<rparr>"

definition sample_verifiers :: "unit verifiers" where
  "sample_verifiers = [(''v'', \<lparr>tv_identity = ''v'', tv_family = ''B'', tv_public_key = ()\<rparr>)]"

definition sample_objective :: "string \<Rightarrow> objective_row" where
  "sample_objective state = \<lparr>ob_id = 1, ob_tenant_id = ''t1'', ob_state = state\<rparr>"

definition sample_obligation :: "string \<Rightarrow> obligation_row" where
  "sample_obligation state = \<lparr>ol_id = 5, ol_tenant_id = ''t1'', ol_objective_id = 1, ol_kind = ''review'',
     ol_required_family = ''B'', ol_state = state\<rparr>"

definition sample_attestation :: VerificationAttestation where
  "sample_attestation = (case sign_attestation sample_verif_env () 9 ''t1'' 1 5 ''v'' ''B'' ''A'' ''ref'' ''bytes''
     (Aware 0) ''pass'' None None of Inr a \<Rightarrow> a)"

text \<open>The tables before the enrolment, after it, after the satisfaction and after the completion.\<close>

definition sample_db0 :: verif_db where
  "sample_db0 = \<lparr>db_objectives = [sample_objective ''open''], db_policies = [], db_obligations = [],
     db_attestations = [], db_manifests = []\<rparr>"

definition sample_db1 :: verif_db where
  "sample_db1 = sample_db0\<lparr>db_policies := [\<lparr>po_objective_id = 1, po_tenant_id = ''t1'', po_subject_family = ''A''\<rparr>],
     db_obligations := [sample_obligation ''open'']\<rparr>"

definition sample_db2 :: verif_db where
  "sample_db2 = sample_db1\<lparr>db_attestations := [sample_attestation], db_obligations := [sample_obligation ''satisfied'']\<rparr>"

definition sample_db3 :: verif_db where
  "sample_db3 = sample_db2\<lparr>db_objectives := [sample_objective ''done'']\<rparr>"

lemmas sample_db_defs = sample_objective_def sample_obligation_def sample_db0_def sample_db1_def sample_db2_def
  sample_db3_def

lemmas sample_verif_defs = sample_db_defs sample_verif_env_def sample_verifiers_def

lemma sample_attestation_fields:
  "va_attestation_id sample_attestation = 9" "va_tenant_id sample_attestation = ''t1''"
  "va_objective_id sample_attestation = 1" "va_obligation_id sample_attestation = 5"
  "va_verifier_identity sample_attestation = ''v''" "va_verifier_family sample_attestation = ''B''"
  "va_subject_family sample_attestation = ''A''" "va_verdict sample_attestation = ''pass''"
  "va_evidence_ref sample_attestation = ''ref''" "va_evidence_sha256 sample_attestation = replicate 64 CHR ''0''"
  "va_issued_at sample_attestation = Aware 0" "va_subject_ref sample_attestation = None"
  "va_subject_sha256 sample_attestation = None" "va_evidence_byte_length sample_attestation = None"
  by (simp_all add: sample_attestation_def sign_attestation_def Let_def sample_verif_env_def)

lemma sample_signature: "va_signature sample_attestation = ''sig:'' @ attestation_payload sample_verif_env sample_attestation"
  by (simp add: sample_attestation_def sign_attestation_def Let_def attestation_payload_def attestation_json_def
      sample_verif_env_def)

lemma sample_trust_verify:
  "trust_verify sample_verif_env sample_verifiers (Aware 0) sample_attestation (\<lambda>_. Some ''bytes'') = Inr ()"
proof -
  have "verify_sig sample_verif_env () (va_signature sample_attestation)
      (attestation_payload sample_verif_env sample_attestation)"
    unfolding sample_signature by (simp add: sample_verif_env_def)
  moreover have "sha256 sample_verif_env x = replicate 64 CHR ''0''" for x by (simp add: sample_verif_env_def)
  ultimately show ?thesis
    by (simp add: trust_verify_def sample_attestation_fields sample_verifiers_def attestation_current_def
        subject_binding_ok_def)
qed

lemmas sample_run_defs = run_start_def note_race_def enrolling_def completing_def

lemma sample_enroll_read: "enroll_read sample_db0 ''t1'' 1 ''A'' [(''review'', ''B'')] = Inr ()"
  by (simp add: enroll_read_def sample_db_defs unit_sep_def)

lemma sample_enroll_write:
  "enroll_write sample_verif_env (sample_db0\<lparr>db_objectives := obs\<rparr>) ''t1'' 1 ''A'' [(''review'', ''B'')]
     = Inr (sample_db1\<lparr>db_objectives := obs\<rparr>, [(''review'', 5)])"
  by (simp add: enroll_write_def enroll_obligation_def sample_verif_defs obligation_id_of_def unit_sep_def
      btrim_nonempty_def)

lemma sample_run1: "verif_reach sample_verif_env sample_verifiers (run_start sample_db0) (run_start sample_db1)"
proof -
  let ?p = "(''t1'', 1, ''A'', [(''review'', ''B'')])"
  let ?s = "(run_start sample_db0)\<lparr>vr_enrolling := [?p]\<rparr>"
  have "verif_step sample_verif_env sample_verifiers (run_start sample_db0) ?s"
    using verif_step.enroll_begin [of "run_start sample_db0" "''t1''" 1 "''A''" "[(''review'', ''B'')]"]
      sample_enroll_read by (simp add: sample_run_defs)
  moreover have "verif_step sample_verif_env sample_verifiers ?s (run_start sample_db1)"
    using verif_step.enroll_commit [of "''t1''" 1 "''A''" "[(''review'', ''B'')]" ?s sample_verif_env sample_db1]
      sample_enroll_write [of "db_objectives sample_db0"]
    by (simp add: run_start_def sample_db1_def)
  ultimately show ?thesis by (blast intro: verif_reach.intros)
qed

lemma sample_run2: "verif_reach sample_verif_env sample_verifiers (run_start sample_db0) (run_start sample_db2)"
proof -
  have "satisfy_obligation sample_verif_env sample_verifiers (Aware 0) (\<lambda>_. Some ''bytes'') sample_db1 sample_attestation
      = Inr sample_db2"
    by (simp add: satisfy_obligation_def sample_trust_verify sample_attestation_fields sample_db_defs Let_def
        payroll_manifest_def attestation_row_ok_def btrim_nonempty_def has_pass_attestation_def is_hex64_replicate
        hex_digits_def)
  then have "verif_step sample_verif_env sample_verifiers (run_start sample_db1) (run_start sample_db2)"
    using verif_step.satisfy [of sample_verif_env sample_verifiers "Aware 0" "\<lambda>_. Some ''bytes''" "run_start sample_db1"]
    by (simp add: run_start_def)
  with sample_run1 show ?thesis by (blast intro: verif_reach.intros)
qed

lemma sample_run3: "verif_reach sample_verif_env sample_verifiers (run_start sample_db0) (run_start sample_db3)"
proof -
  let ?s = "(run_start sample_db2)\<lparr>vr_completing := [(''t1'', 1)]\<rparr>"
  have marked: "mark_done sample_db2 ''t1'' 1 = sample_db3"
    by (simp add: mark_done_def sample_verif_defs)
  have "complete_verified_objective sample_db2 ''t1'' 1 = Inr sample_db3"
    by (simp add: complete_verified_objective_def completion_refused_def has_pass_attestation_def mark_done_def
        sample_verif_defs sample_attestation_fields)
  then have "verif_step sample_verif_env sample_verifiers (run_start sample_db2) ?s"
    using verif_step.finish_begin [of "run_start sample_db2" "''t1''" 1 sample_db3] by (simp add: sample_run_defs)
  moreover have "verif_step sample_verif_env sample_verifiers ?s (run_start sample_db3)"
    using verif_step.finish_commit [of "''t1''" 1 ?s] marked by (simp add: run_start_def)
  ultimately show ?thesis using sample_run2 by (blast intro: verif_reach.intros)
qed

theorem completed_objectives_are_verified_witness:
  "\<exists>a \<in> set (db_attestations sample_db3). backs sample_verif_env sample_verifiers ''A'' (sample_obligation ''satisfied'') a"
proof -
  have "obligations_of sample_db3 (sample_objective ''done'') \<noteq> [] \<and>
    (\<forall>l \<in> set (obligations_of sample_db3 (sample_objective ''done'')). \<exists>fam a.
       policy_family sample_db3 (ob_id (sample_objective ''done'')) = Some fam
       \<and> a \<in> set (db_attestations sample_db3) \<and> backs sample_verif_env sample_verifiers fam l a)"
    using completed_objectives_are_verified [OF _ _ _ sample_run3, of "sample_objective ''done''"]
    by (simp add: sample_db_defs enrolled_def run_start_def)
  moreover have "sample_obligation ''satisfied'' \<in> set (obligations_of sample_db3 (sample_objective ''done''))"
    by (simp add: sample_verif_defs obligations_of_def)
  moreover have "policy_family sample_db3 (ob_id (sample_objective ''done'')) = Some ''A''"
    by (simp add: policy_family_def sample_verif_defs)
  ultimately show ?thesis by auto
qed


text \<open>
  The exception is real: an enrolment reads the objective as open, the objective is completed
  without a policy, and the inserts follow. The objective is then done and enrolled, and its
  obligation is open.
\<close>

lemma enrolment_overtaken_by_completion:
  "\<exists>s. verif_reach sample_verif_env sample_verifiers (run_start sample_db0) s
     \<and> sample_objective ''done'' \<in> set (db_objectives (vr_db s)) \<and> enrolled (vr_db s) (sample_objective ''done'')
     \<and> obligations_of (vr_db s) (sample_objective ''done'') = [sample_obligation ''open'']"
proof -
  let ?p = "(''t1'', 1, ''A'', [(''review'', ''B'')])"
  let ?s1 = "(run_start sample_db0)\<lparr>vr_enrolling := [?p]\<rparr>"
  let ?s2 = "?s1\<lparr>vr_completing := [(''t1'', 1)], vr_raced := {1}\<rparr>"
  let ?s3 = "?s2\<lparr>vr_db := mark_done sample_db0 ''t1'' 1, vr_completing := []\<rparr>"
  let ?db = "sample_db1\<lparr>db_objectives := [sample_objective ''done'']\<rparr>"
  have marked: "mark_done sample_db0 ''t1'' 1 = sample_db0\<lparr>db_objectives := [sample_objective ''done'']\<rparr>"
    by (simp add: mark_done_def sample_db_defs)
  have 1: "verif_step sample_verif_env sample_verifiers (run_start sample_db0) ?s1"
    using verif_step.enroll_begin [of "run_start sample_db0" "''t1''" 1 "''A''" "[(''review'', ''B'')]"]
      sample_enroll_read by (simp add: sample_run_defs)
  have "complete_verified_objective sample_db0 ''t1'' 1 = Inr (mark_done sample_db0 ''t1'' 1)"
    by (simp add: complete_verified_objective_def completion_refused_def sample_db_defs)
  then have 2: "verif_step sample_verif_env sample_verifiers ?s1 ?s2"
    using verif_step.finish_begin [of ?s1 "''t1''" 1 "mark_done sample_db0 ''t1'' 1"] by (simp add: sample_run_defs)
  have 3: "verif_step sample_verif_env sample_verifiers ?s2 ?s3"
    using verif_step.finish_commit [of "''t1''" 1 ?s2] by (simp add: run_start_def)
  have 4: "verif_step sample_verif_env sample_verifiers ?s3 (?s3\<lparr>vr_db := ?db, vr_enrolling := []\<rparr>)"
    using verif_step.enroll_commit [of "''t1''" 1 "''A''" "[(''review'', ''B'')]" ?s3 sample_verif_env ?db]
      sample_enroll_write [of "[sample_objective ''done'']"]
    by (simp add: marked [unfolded One_nat_def] run_start_def)
  note verif_reach.more [OF verif_reach.more [OF verif_reach.more [OF verif_reach.more [OF verif_reach.start 1] 2] 3] 4]
  then show ?thesis
    by (intro exI [of _ "?s3\<lparr>vr_db := ?db, vr_enrolling := []\<rparr>"] conjI)
      (simp_all add: sample_db_defs enrolled_def obligations_of_def)
qed

end
