(* ===== verification/Runtime_Store.thy ===== *)
theory Runtime_Store
  imports Py_Text
begin

text \<open>
  The transactional runtime state (\<^verbatim>\<open>fleet_kernel/m3/runtime_store.py\<close> over the tables of
  \<^verbatim>\<open>fleet_kernel/ddl/001\<close> to \<^verbatim>\<open>003\<close>): cycles, the event log with its outbox, provider costs and quota
  parks. A transaction that raises leaves the tables as they are; the advisory locks of the
  source make the transactions on one key atomic steps. \<open>u5\<close> is \<^verbatim>\<open>uuid.uuid5\<close> in the module's
  namespace. The completion trigger of \<^verbatim>\<open>009\<close> on the objectives is modelled with its tables in
  \<open>Verification\<close>; columns that no operation reads are left out.
\<close>

section \<open>Tables\<close>

record objective_rec =
  oj_id :: nat
  oj_tenant_id :: string
  oj_title :: string
  oj_state :: string

record run_rec =
  rn_id :: nat
  rn_tenant_id :: string
  rn_objective_id :: nat
  rn_state :: string
  rn_worker_identity :: string
  rn_ended_at :: "int option"
  rn_cycle_key :: "string option"

record head_rec =
  hd_tenant_id :: string
  hd_next_seq :: int
  hd_outbox_start_seq :: "int option"

record event_rec =
  ev_id :: nat
  ev_tenant_id :: string
  ev_stream_seq :: int
  ev_event_type :: string
  ev_payload :: json
  ev_objective_id :: nat
  ev_run_id :: nat

text \<open>The M2 rows of the outbox have no event; the M3 rows carry event, sequence number and destination.\<close>

record outbox_rec =
  ox_id :: nat
  ox_tenant_id :: string
  ox_event_id :: "nat option"
  ox_stream_seq :: "int option"
  ox_destination :: "string option"
  ox_payload :: json
  ox_idempotency_key :: string
  ox_status :: string
  ox_attempts :: nat
  ox_last_error :: string

record cost_rec =
  co_id :: nat
  co_tenant_id :: string
  co_objective_id :: nat
  co_run_id :: nat
  co_usd_amount :: rat
  co_model :: string
  co_tokens_in :: int
  co_tokens_out :: int

record dedup_rec =
  dd_tenant_id :: string
  dd_provider_request_id :: string
  dd_cost_record_id :: nat

record park_rec =
  pk_tenant_id :: string
  pk_run_id :: nat
  pk_reason :: string
  pk_resume_at :: py_datetime
  pk_state :: string
  pk_resumed_at :: "int option"

record m3_db =
  m3_objectives :: "objective_rec list"
  m3_runs :: "run_rec list"
  m3_heads :: "head_rec list"
  m3_events :: "event_rec list"
  m3_outbox :: "outbox_rec list"
  m3_costs :: "cost_rec list"
  m3_dedup :: "dedup_rec list"
  m3_parks :: "park_rec list"

datatype m3_error =
    BlankTenant | BlankKey | UniqueViolation | CycleNotCreated | NonterminalState | CycleRowsNotFound
  | LinkageMissing | IdempotencyCollision | BigintOutOfRange
  | NegativeUsage | DecimalInvalid | NumericOverflow
  | NaiveResume | ParkNotFound

definition BIGINT_MAX :: int where
  "BIGINT_MAX = 9223372036854775807"

definition id_of :: "(string \<Rightarrow> nat) \<Rightarrow> string list \<Rightarrow> nat" where
  "id_of u5 parts = u5 (join_with [CHR 0x1F] parts)"

definition require_identity :: "string \<Rightarrow> string \<Rightarrow> m3_error + unit" where
  "require_identity tenant key =
     (if \<not> nonblank tenant then Inl BlankTenant else if \<not> nonblank key then Inl BlankKey else Inr ())"

text \<open>Equality of \<^verbatim>\<open>jsonb\<close> values: the order of keys does not matter and numbers are compared by value.\<close>

fun jsonb_numbers :: "json \<Rightarrow> json" where
  "jsonb_numbers (JInt i) = JFloat (of_int i)"
| "jsonb_numbers (JList xs) = JList (map jsonb_numbers xs)"
| "jsonb_numbers (JObj kvs) = JObj (map (\<lambda>(k, v). (k, jsonb_numbers v)) kvs)"
| "jsonb_numbers j = j"

definition jsonb_eq :: "json \<Rightarrow> json \<Rightarrow> bool" where
  "jsonb_eq a b \<longleftrightarrow> json_canon (jsonb_numbers a) = json_canon (jsonb_numbers b)"

section \<open>Cycles\<close>

record CycleIdentity =
  cy_objective_id :: nat
  cy_run_id :: nat
  cy_cycle_key :: string

definition ensure_cycle ::
    "(string \<Rightarrow> nat) \<Rightarrow> m3_db \<Rightarrow> string \<Rightarrow> string \<Rightarrow> string \<Rightarrow> string \<Rightarrow> m3_error + (m3_db \<times> CycleIdentity)" where
  "ensure_cycle u5 db tenant cycle_key run_type worker =
     res_bind (require_identity tenant cycle_key) (\<lambda>_.
       let objective_id = id_of u5 [tenant, cycle_key, ''objective''];
           run_id = id_of u5 [tenant, cycle_key, ''run''];
           db = (if list_ex (\<lambda>ob. oj_id ob = objective_id) (m3_objectives db) then db
                 else db\<lparr>m3_objectives := m3_objectives db @
                   [\<lparr>oj_id = objective_id, oj_tenant_id = tenant, oj_title = ''autonomy-engine-'' @ run_type,
                     oj_state = ''active''\<rparr>]\<rparr>);
           mine = (\<lambda>r. rn_tenant_id r = tenant \<and> rn_cycle_key r = Some cycle_key)
       in if \<not> list_ex mine (m3_runs db) \<and> list_ex (\<lambda>r. rn_id r = run_id) (m3_runs db)
          then Inl UniqueViolation
          else (let db = (if list_ex mine (m3_runs db) then db
                          else db\<lparr>m3_runs := m3_runs db @
                            [\<lparr>rn_id = run_id, rn_tenant_id = tenant, rn_objective_id = objective_id,
                              rn_state = ''running'', rn_worker_identity = worker, rn_ended_at = None,
                              rn_cycle_key = Some cycle_key\<rparr>]\<rparr>)
            in case find mine (m3_runs db) of
                 None \<Rightarrow> Inl CycleNotCreated
               | Some r \<Rightarrow> Inr (db, \<lparr>cy_objective_id = rn_objective_id r, cy_run_id = rn_id r, cy_cycle_key = cycle_key\<rparr>)))"

definition finish_cycle ::
    "m3_db \<Rightarrow> int \<Rightarrow> string \<Rightarrow> nat \<Rightarrow> nat \<Rightarrow> string \<Rightarrow> m3_error + m3_db" where
  "finish_cycle db now tenant run_id objective_id state =
     (if state \<notin> {''succeeded'', ''failed'', ''timed_out'', ''cancelled''} then Inl NonterminalState
      else (let objective_state = (if state = ''succeeded'' then ''done'' else ''blocked'');
                run_hit = (\<lambda>r. rn_tenant_id r = tenant \<and> rn_id r = run_id \<and> rn_objective_id r = objective_id);
                obj_hit = (\<lambda>ob. oj_tenant_id ob = tenant \<and> oj_id ob = objective_id)
            in if length (filter run_hit (m3_runs db)) \<noteq> 1 \<or> length (filter obj_hit (m3_objectives db)) \<noteq> 1
               then Inl CycleRowsNotFound
               else Inr (db\<lparr>m3_runs := map (\<lambda>r. if run_hit r then r\<lparr>rn_state := state, rn_ended_at := Some now\<rparr> else r)
                              (m3_runs db),
                            m3_objectives := map (\<lambda>ob. if obj_hit ob then ob\<lparr>oj_state := objective_state\<rparr> else ob)
                              (m3_objectives db)\<rparr>)))"

section \<open>The event log and its outbox\<close>

record AppendedEvent =
  ae_event_id :: nat
  ae_outbox_id :: nat
  ae_stream_seq :: int
  ae_replayed :: bool

record append_request =
  aq_tenant_id :: string
  aq_objective_id :: nat
  aq_run_id :: nat
  aq_event_type :: string
  aq_event_payload :: json
  aq_destination :: string
  aq_outbox_payload :: json
  aq_idempotency_key :: string

text \<open>The upsert of the tenant's head: the head after it, from which the number is read.\<close>

definition next_head :: "m3_db \<Rightarrow> string \<Rightarrow> head_rec" where
  "next_head db tenant =
     (case find (\<lambda>h. hd_tenant_id h = tenant) (m3_heads db) of
        None \<Rightarrow> \<lparr>hd_tenant_id = tenant, hd_next_seq = 2, hd_outbox_start_seq = Some 1\<rparr>
      | Some h \<Rightarrow> h\<lparr>hd_outbox_start_seq := Some (case hd_outbox_start_seq h of None \<Rightarrow> hd_next_seq h | Some n \<Rightarrow> n),
                   hd_next_seq := hd_next_seq h + 1\<rparr>)"

fun put_head :: "head_rec \<Rightarrow> head_rec list \<Rightarrow> head_rec list" where
  "put_head h [] = [h]"
| "put_head h (g # gs) = (if hd_tenant_id g = hd_tenant_id h then h # gs else g # put_head h gs)"

text \<open>The row that an earlier call under the same key left, with the event it is joined to.\<close>

definition existing_row :: "m3_db \<Rightarrow> string \<Rightarrow> string \<Rightarrow> (outbox_rec \<times> event_rec option) option" where
  "existing_row db tenant key =
     map_option (\<lambda>x. (x, find (\<lambda>e. Some (ev_id e) = ox_event_id x \<and> ev_tenant_id e = ox_tenant_id x
                               \<and> Some (ev_stream_seq e) = ox_stream_seq x) (m3_events db)))
       (find (\<lambda>x. ox_tenant_id x = tenant \<and> ox_idempotency_key x = key) (m3_outbox db))"

definition append_event_with_outbox ::
    "(string \<Rightarrow> nat) \<Rightarrow> m3_db \<Rightarrow> append_request \<Rightarrow> m3_error + (m3_db \<times> AppendedEvent)" where
  "append_event_with_outbox u5 db q =
     res_bind (require_identity (aq_tenant_id q) (aq_idempotency_key q)) (\<lambda>_.
       let tenant = aq_tenant_id q;
           event_id = id_of u5 [tenant, aq_idempotency_key q, ''event''];
           outbox_id = id_of u5 [tenant, aq_idempotency_key q, ''outbox'']
       in case existing_row db tenant (aq_idempotency_key q) of
            Some (x, None) \<Rightarrow> Inl LinkageMissing
          | Some (x, Some e) \<Rightarrow>
              if ev_objective_id e = aq_objective_id q \<and> ev_run_id e = aq_run_id q
                 \<and> ev_event_type e = aq_event_type q \<and> ox_destination x = Some (aq_destination q)
                 \<and> jsonb_eq (ev_payload e) (aq_event_payload q) \<and> jsonb_eq (ox_payload x) (aq_outbox_payload q)
              then Inr (db, \<lparr>ae_event_id = ev_id e, ae_outbox_id = ox_id x,
                             ae_stream_seq = the (ox_stream_seq x), ae_replayed = True\<rparr>)
              else Inl IdempotencyCollision
          | None \<Rightarrow>
              (let head = next_head db tenant;
                   seq = hd_next_seq head - 1
               in if BIGINT_MAX < hd_next_seq head then Inl BigintOutOfRange
                  else if list_ex (\<lambda>e. ev_id e = event_id \<or> (ev_tenant_id e = tenant \<and> ev_stream_seq e = seq)) (m3_events db)
                  then Inl UniqueViolation
                  else if list_ex (\<lambda>x. ox_id x = outbox_id \<or> ox_event_id x = Some event_id
                              \<or> (ox_tenant_id x = tenant \<and> ox_stream_seq x = Some seq
                                 \<and> ox_destination x = Some (aq_destination q))) (m3_outbox db)
                  then Inl UniqueViolation
                  else Inr (db\<lparr>m3_heads := put_head head (m3_heads db),
                               m3_events := m3_events db @
                                 [\<lparr>ev_id = event_id, ev_tenant_id = tenant, ev_stream_seq = seq,
                                   ev_event_type = aq_event_type q, ev_payload = aq_event_payload q,
                                   ev_objective_id = aq_objective_id q, ev_run_id = aq_run_id q\<rparr>],
                               m3_outbox := m3_outbox db @
                                 [\<lparr>ox_id = outbox_id, ox_tenant_id = tenant, ox_event_id = Some event_id,
                                   ox_stream_seq = Some seq, ox_destination = Some (aq_destination q),
                                   ox_payload = aq_outbox_payload q, ox_idempotency_key = aq_idempotency_key q,
                                   ox_status = ''pending'', ox_attempts = 0, ox_last_error = []\<rparr>]\<rparr>,
                       \<lparr>ae_event_id = event_id, ae_outbox_id = outbox_id, ae_stream_seq = seq,
                        ae_replayed = False\<rparr>)))"

section \<open>Provider costs\<close>

record ProviderCost =
  pc_cost_record_id :: nat
  pc_usd_amount :: rat
  pc_tokens_in :: int
  pc_tokens_out :: int
  pc_replayed :: bool

record cost_request =
  cq_tenant_id :: string
  cq_objective_id :: nat
  cq_run_id :: nat
  cq_provider_request_id :: string
  cq_usd_amount :: rat
  cq_model :: string
  cq_tokens_in :: int
  cq_tokens_out :: int

text \<open>Rounding of a decimal to an integer, half to even.\<close>

definition dec_round :: "rat \<Rightarrow> int" where
  "dec_round x = (let q = \<lfloor>x\<rfloor>; r = x - of_int q
     in if r < 1 / 2 \<or> (r = 1 / 2 \<and> even q) then q else q + 1)"

text \<open>
  \<^verbatim>\<open>Decimal(str(amount)).quantize(Decimal("0.000001"))\<close> on a finite amount; the context's precision is 28
  digits.
\<close>

definition quantize6 :: "rat \<Rightarrow> m3_error + rat" where
  "quantize6 x = (let n = dec_round (x * 1000000)
     in if 10 ^ 28 \<le> \<bar>n\<bar> then Inl DecimalInvalid else Inr (of_int n / 1000000))"

definition record_provider_cost ::
    "(string \<Rightarrow> nat) \<Rightarrow> m3_db \<Rightarrow> cost_request \<Rightarrow> m3_error + (m3_db \<times> ProviderCost)" where
  "record_provider_cost u5 db q =
     res_bind (require_identity (cq_tenant_id q) (cq_provider_request_id q)) (\<lambda>_.
     res_bind (quantize6 (cq_usd_amount q)) (\<lambda>amount.
       if amount < 0 \<or> cq_tokens_in q < 0 \<or> cq_tokens_out q < 0 then Inl NegativeUsage
       else (let cost_id = id_of u5 [cq_tenant_id q, cq_provider_request_id q, ''cost''];
                 dedup = find (\<lambda>d. dd_tenant_id d = cq_tenant_id q
                                \<and> dd_provider_request_id d = cq_provider_request_id q) (m3_dedup db)
             in case Option.bind dedup (\<lambda>d. find (\<lambda>c. co_id c = dd_cost_record_id d) (m3_costs db)) of
                  Some c \<Rightarrow> Inr (db, \<lparr>pc_cost_record_id = co_id c, pc_usd_amount = co_usd_amount c,
                                    pc_tokens_in = co_tokens_in c, pc_tokens_out = co_tokens_out c,
                                    pc_replayed = True\<rparr>)
                | None \<Rightarrow>
                    if 1000000 \<le> amount then Inl NumericOverflow
                    else if BIGINT_MAX < cq_tokens_in q \<or> BIGINT_MAX < cq_tokens_out q then Inl BigintOutOfRange
                    else if list_ex (\<lambda>c. co_id c = cost_id) (m3_costs db) then Inl UniqueViolation
                    else if dedup \<noteq> None \<or> list_ex (\<lambda>d. dd_cost_record_id d = cost_id) (m3_dedup db)
                    then Inl UniqueViolation
                    else Inr (db\<lparr>m3_costs := m3_costs db @
                                   [\<lparr>co_id = cost_id, co_tenant_id = cq_tenant_id q,
                                     co_objective_id = cq_objective_id q, co_run_id = cq_run_id q,
                                     co_usd_amount = amount, co_model = cq_model q,
                                     co_tokens_in = cq_tokens_in q, co_tokens_out = cq_tokens_out q\<rparr>],
                                 m3_dedup := m3_dedup db @
                                   [\<lparr>dd_tenant_id = cq_tenant_id q,
                                     dd_provider_request_id = cq_provider_request_id q,
                                     dd_cost_record_id = cost_id\<rparr>]\<rparr>,
                              \<lparr>pc_cost_record_id = cost_id, pc_usd_amount = amount,
                               pc_tokens_in = cq_tokens_in q, pc_tokens_out = cq_tokens_out q,
                               pc_replayed = False\<rparr>))))"

section \<open>Quota parks\<close>

definition park_quota :: "m3_db \<Rightarrow> string \<Rightarrow> nat \<Rightarrow> string \<Rightarrow> py_datetime \<Rightarrow> m3_error + m3_db" where
  "park_quota db tenant run_id reason resume_at =
     (if \<not> is_aware resume_at then Inl NaiveResume
      else (let row = \<lparr>pk_tenant_id = tenant, pk_run_id = run_id, pk_reason = reason, pk_resume_at = resume_at,
                       pk_state = ''parked'', pk_resumed_at = None\<rparr>;
                mine = (\<lambda>p. pk_tenant_id p = tenant \<and> pk_run_id p = run_id)
            in Inr (db\<lparr>m3_parks := (if list_ex mine (m3_parks db)
                                   then map (\<lambda>p. if mine p then row else p) (m3_parks db)
                                   else m3_parks db @ [row])\<rparr>)))"

definition resume_quota :: "m3_db \<Rightarrow> int \<Rightarrow> string \<Rightarrow> nat \<Rightarrow> m3_error + m3_db" where
  "resume_quota db now tenant run_id =
     (let mine = (\<lambda>p. pk_tenant_id p = tenant \<and> pk_run_id p = run_id \<and> pk_state p = ''parked'')
      in if length (filter mine (m3_parks db)) \<noteq> 1 then Inl ParkNotFound
         else Inr (db\<lparr>m3_parks := map (\<lambda>p. if mine p then p\<lparr>pk_state := ''resumed'', pk_resumed_at := Some now\<rparr> else p)
                     (m3_parks db)\<rparr>))"

section \<open>Retries\<close>

lemma jsonb_eq_refl [simp]: "jsonb_eq j j"
  by (simp add: jsonb_eq_def)

definition same_append :: "AppendedEvent \<Rightarrow> AppendedEvent \<Rightarrow> bool" where
  "same_append v w \<longleftrightarrow> v\<lparr>ae_replayed := True\<rparr> = w\<lparr>ae_replayed := True\<rparr>"

definition same_cost :: "ProviderCost \<Rightarrow> ProviderCost \<Rightarrow> bool" where
  "same_cost v w \<longleftrightarrow> v\<lparr>pc_replayed := True\<rparr> = w\<lparr>pc_replayed := True\<rparr>"

text \<open>The two ways in which an append answers.\<close>

lemma append_Inr:
  assumes "append_event_with_outbox u5 db q = Inr (db', v)"
  obtains (again) x e where "existing_row db (aq_tenant_id q) (aq_idempotency_key q) = Some (x, Some e)"
      "db' = db" "ae_replayed v"
    | (fresh) x e head where
      "find (\<lambda>x. ox_tenant_id x = aq_tenant_id q \<and> ox_idempotency_key x = aq_idempotency_key q) (m3_outbox db) = None"
      "head = next_head db (aq_tenant_id q)"
      "db' = db\<lparr>m3_heads := put_head head (m3_heads db), m3_events := m3_events db @ [e],
                m3_outbox := m3_outbox db @ [x]\<rparr>"
      "ev_id e = ae_event_id v" "ev_tenant_id e = aq_tenant_id q" "ev_stream_seq e = ae_stream_seq v"
      "ev_event_type e = aq_event_type q" "ev_payload e = aq_event_payload q"
      "ev_objective_id e = aq_objective_id q" "ev_run_id e = aq_run_id q"
      "\<forall>e' \<in> set (m3_events db). ev_id e' \<noteq> ev_id e"
      "ox_id x = ae_outbox_id v" "ox_tenant_id x = aq_tenant_id q" "ox_event_id x = Some (ae_event_id v)"
      "ox_stream_seq x = Some (ae_stream_seq v)" "ox_destination x = Some (aq_destination q)"
      "ox_payload x = aq_outbox_payload q" "ox_idempotency_key x = aq_idempotency_key q"
      "ae_stream_seq v = hd_next_seq head - 1" "hd_next_seq head \<le> BIGINT_MAX" "\<not> ae_replayed v"
proof (cases "existing_row db (aq_tenant_id q) (aq_idempotency_key q)")
  case None
  define head where "head = next_head db (aq_tenant_id q)"
  define e where "e = \<lparr>ev_id = id_of u5 [aq_tenant_id q, aq_idempotency_key q, ''event''],
    ev_tenant_id = aq_tenant_id q, ev_stream_seq = hd_next_seq head - 1, ev_event_type = aq_event_type q,
    ev_payload = aq_event_payload q, ev_objective_id = aq_objective_id q, ev_run_id = aq_run_id q\<rparr>"
  define x where "x = \<lparr>ox_id = id_of u5 [aq_tenant_id q, aq_idempotency_key q, ''outbox''],
    ox_tenant_id = aq_tenant_id q, ox_event_id = Some (ev_id e), ox_stream_seq = Some (ev_stream_seq e),
    ox_destination = Some (aq_destination q), ox_payload = aq_outbox_payload q,
    ox_idempotency_key = aq_idempotency_key q, ox_status = ''pending'', ox_attempts = 0, ox_last_error = []\<rparr>"
  from assms None have r: "hd_next_seq head \<le> BIGINT_MAX" "\<forall>e' \<in> set (m3_events db). ev_id e' \<noteq> ev_id e"
    "db' = db\<lparr>m3_heads := put_head head (m3_heads db), m3_events := m3_events db @ [e], m3_outbox := m3_outbox db @ [x]\<rparr>"
    "v = \<lparr>ae_event_id = ev_id e, ae_outbox_id = ox_id x, ae_stream_seq = ev_stream_seq e, ae_replayed = False\<rparr>"
    by (auto simp: append_event_with_outbox_def res_bind_Inr_iff Let_def head_def e_def x_def list_ex_iff
        split: if_splits)
  have "find (\<lambda>x. ox_tenant_id x = aq_tenant_id q \<and> ox_idempotency_key x = aq_idempotency_key q) (m3_outbox db) = None"
    using None by (simp add: existing_row_def)
  from fresh [OF this head_def r(3)] r show thesis by (simp add: e_def x_def)
next
  case (Some p)
  obtain x e where p: "p = (x, e)" by (cases p)
  show thesis
  proof (cases e)
    case None
    with assms Some p show thesis by (simp add: append_event_with_outbox_def res_bind_Inr_iff Let_def)
  next
    case e: (Some e')
    have "db' = db" "ae_replayed v"
      using assms Some p e by (auto simp: append_event_with_outbox_def res_bind_Inr_iff Let_def split: if_splits)
    with again Some p e show thesis by blast
  qed
qed

lemma append_replay:
  assumes "append_event_with_outbox u5 db q = Inr (db', v)"
  shows "\<exists>w. append_event_with_outbox u5 db' q = Inr (db', w) \<and> same_append v w"
  using assms
proof (cases rule: append_Inr)
  case (again x e)
  with assms show ?thesis by (auto simp: same_append_def)
next
  case (fresh x e head)
  have id: "require_identity (aq_tenant_id q) (aq_idempotency_key q) = Inr ()"
    using assms by (auto simp: append_event_with_outbox_def res_bind_Inr_iff)
  have fx: "find (\<lambda>x. ox_tenant_id x = aq_tenant_id q \<and> ox_idempotency_key x = aq_idempotency_key q) (m3_outbox db') = Some x"
  proof -
    have "\<not> list_ex (\<lambda>x. ox_tenant_id x = aq_tenant_id q \<and> ox_idempotency_key x = aq_idempotency_key q) (m3_outbox db)"
      using fresh(1) by (auto simp: find_None_iff list_ex_iff)
    from find_append_None [OF this] show ?thesis using fresh by simp
  qed
  have "find (\<lambda>e. Some (ev_id e) = ox_event_id x \<and> ev_tenant_id e = ox_tenant_id x
      \<and> Some (ev_stream_seq e) = ox_stream_seq x) (m3_events db') = Some e"
    using fresh by (auto simp: list_ex_iff find_append_None)
  with fx have "existing_row db' (aq_tenant_id q) (aq_idempotency_key q) = Some (x, Some e)"
    by (simp add: existing_row_def)
  then show ?thesis
    using id fresh by (simp add: append_event_with_outbox_def Let_def same_append_def)
qed

interpretation append_call: retryable "append_event_with_outbox u5" same_append for u5 :: "string \<Rightarrow> nat"
  by unfold_locales (auto simp: same_append_def dest: append_replay)

lemma cost_replay:
  assumes "record_provider_cost u5 db q = Inr (db', v)"
  shows "\<exists>w. record_provider_cost u5 db' q = Inr (db', w) \<and> same_cost v w"
proof -
  let ?mine = "\<lambda>d. dd_tenant_id d = cq_tenant_id q \<and> dd_provider_request_id d = cq_provider_request_id q"
  let ?cost_id = "id_of u5 [cq_tenant_id q, cq_provider_request_id q, ''cost'']"
  let ?row = "Option.bind (find ?mine (m3_dedup db)) (\<lambda>d. find (\<lambda>c. co_id c = dd_cost_record_id d) (m3_costs db))"
  from assms obtain amount where id: "require_identity (cq_tenant_id q) (cq_provider_request_id q) = Inr ()"
    and am: "quantize6 (cq_usd_amount q) = Inr amount"
    and nn: "\<not> (amount < 0 \<or> cq_tokens_in q < 0 \<or> cq_tokens_out q < 0)"
    by (auto simp: record_provider_cost_def res_bind_Inr_iff split: if_splits)
  show ?thesis
  proof (cases ?row)
    case (Some c)
    with assms id am nn have "db' = db" by (auto simp: record_provider_cost_def Let_def)
    with assms show ?thesis by (auto simp: same_cost_def)
  next
    case None
    define c where "c = \<lparr>co_id = ?cost_id, co_tenant_id = cq_tenant_id q, co_objective_id = cq_objective_id q,
      co_run_id = cq_run_id q, co_usd_amount = amount, co_model = cq_model q,
      co_tokens_in = cq_tokens_in q, co_tokens_out = cq_tokens_out q\<rparr>"
    define d where "d = \<lparr>dd_tenant_id = cq_tenant_id q, dd_provider_request_id = cq_provider_request_id q,
      dd_cost_record_id = ?cost_id\<rparr>"
    from assms id am nn None have r: "\<not> list_ex (\<lambda>c. co_id c = ?cost_id) (m3_costs db)" "find ?mine (m3_dedup db) = None"
      "db' = db\<lparr>m3_costs := m3_costs db @ [c], m3_dedup := m3_dedup db @ [d]\<rparr>"
      "v = \<lparr>pc_cost_record_id = ?cost_id, pc_usd_amount = amount, pc_tokens_in = cq_tokens_in q,
         pc_tokens_out = cq_tokens_out q, pc_replayed = False\<rparr>"
      by (auto simp: record_provider_cost_def Let_def c_def d_def split: if_splits)
    have "\<not> list_ex ?mine (m3_dedup db)" using r(2) by (auto simp: find_None_iff list_ex_iff)
    then have "Option.bind (find ?mine (m3_dedup db')) (\<lambda>d. find (\<lambda>c. co_id c = dd_cost_record_id d) (m3_costs db')) = Some c"
      using r by (simp add: find_append_None d_def) (simp add: c_def)
    then show ?thesis
      using id am nn r(4) by (simp add: record_provider_cost_def same_cost_def c_def)
  qed
qed

interpretation cost_call: retryable "record_provider_cost u5" same_cost for u5 :: "string \<Rightarrow> nat"
  by unfold_locales (auto simp: same_cost_def dest: cost_replay)

text \<open>A cycle is one request, with the worker that happens to make it.\<close>

definition cycle_call ::
    "(string \<Rightarrow> nat) \<Rightarrow> m3_db \<Rightarrow> string \<times> string \<times> string \<times> string \<Rightarrow> m3_error + (m3_db \<times> CycleIdentity)" where
  "cycle_call u5 db q = (case q of (tenant, cycle_key, run_type, worker) \<Rightarrow> ensure_cycle u5 db tenant cycle_key run_type worker)"

lemma cycle_Inr:
  assumes "ensure_cycle u5 db tenant ck rt wk = Inr (db', v)"
  shows "require_identity tenant ck = Inr ()"
    and "list_ex (\<lambda>ob. oj_id ob = id_of u5 [tenant, ck, ''objective'']) (m3_objectives db')"
    and "list_ex (\<lambda>r. rn_tenant_id r = tenant \<and> rn_cycle_key r = Some ck) (m3_runs db')"
    and "\<exists>r. find (\<lambda>r. rn_tenant_id r = tenant \<and> rn_cycle_key r = Some ck) (m3_runs db') = Some r
           \<and> v = \<lparr>cy_objective_id = rn_objective_id r, cy_run_id = rn_id r, cy_cycle_key = ck\<rparr>"
  using assms
  by (auto simp: ensure_cycle_def res_bind_Inr_iff Let_def list_ex_iff split: if_splits option.splits)

lemma cycle_replay:
  assumes "ensure_cycle u5 db tenant ck rt wk = Inr (db', v)"
  shows "ensure_cycle u5 db' tenant ck rt wk = Inr (db', v)"
  using cycle_Inr [OF assms] by (auto simp: ensure_cycle_def Let_def)

interpretation cycle_call: retryable "cycle_call u5" "(=)" for u5 :: "string \<Rightarrow> nat"
  by unfold_locales (auto simp: cycle_call_def dest: cycle_replay)

section \<open>Sequence numbers\<close>

lemma find_put_head:
  "find (\<lambda>h. hd_tenant_id h = t) (put_head g hs)
     = (if hd_tenant_id g = t then Some g else find (\<lambda>h. hd_tenant_id h = t) hs)"
  by (induction hs) auto

lemma next_head_tenant [simp]: "hd_tenant_id (next_head db t) = t"
proof (cases "find (\<lambda>h. hd_tenant_id h = t) (m3_heads db)")
  case (Some h)
  from find_SomeD [OF Some] show ?thesis by (simp add: next_head_def Some)
qed (simp add: next_head_def)

definition last_seq :: "string \<Rightarrow> m3_db \<Rightarrow> int" where
  "last_seq tenant db = (case find (\<lambda>h. hd_tenant_id h = tenant) (m3_heads db) of None \<Rightarrow> 0 | Some h \<Rightarrow> hd_next_seq h - 1)"

lemma next_head_seq: "hd_next_seq (next_head db t) - 1 = last_seq t db + 1"
  by (simp add: next_head_def last_seq_def split: option.splits)

text \<open>One call of the event log; the answer is the number newly allocated to the tenant.\<close>

definition append_step :: "(string \<Rightarrow> nat) \<Rightarrow> string \<Rightarrow> m3_db \<Rightarrow> append_request \<Rightarrow> m3_db \<times> int option" where
  "append_step u5 tenant db q =
     (case append_event_with_outbox u5 db q of
        Inl _ \<Rightarrow> (db, None)
      | Inr (db', v) \<Rightarrow> (db', if aq_tenant_id q = tenant \<and> \<not> ae_replayed v then Some (ae_stream_seq v) else None))"

lemma append_last_seq:
  assumes "append_event_with_outbox u5 db q = Inr (db', v)"
  shows "last_seq t db' = (if aq_tenant_id q = t \<and> \<not> ae_replayed v then last_seq t db + 1 else last_seq t db)"
    and "\<not> ae_replayed v \<Longrightarrow> ae_stream_seq v = last_seq (aq_tenant_id q) db + 1"
  using assms
proof (atomize(full), cases rule: append_Inr)
  case (fresh x e head)
  have "last_seq t db' = (if aq_tenant_id q = t then hd_next_seq head - 1 else last_seq t db)"
    unfolding last_seq_def fresh(3) by (simp add: find_put_head fresh(2))
  then show "last_seq t db' = (if aq_tenant_id q = t \<and> \<not> ae_replayed v then last_seq t db + 1 else last_seq t db)
      \<and> (\<not> ae_replayed v \<longrightarrow> ae_stream_seq v = last_seq (aq_tenant_id q) db + 1)"
    using next_head_seq [of db "aq_tenant_id q"] fresh(2, 19, 21) by auto
qed simp

interpretation event_stream: monotone_store "append_step u5 tenant" "last_seq tenant"
  for u5 :: "string \<Rightarrow> nat" and tenant :: string
  by unfold_locales
     (auto simp: append_step_def append_last_seq split: sum.splits prod.splits if_splits)

section \<open>Contiguity\<close>

text \<open>The rows that the event log governs, in the order in which they were appended.\<close>

definition governed :: "string \<Rightarrow> m3_db \<Rightarrow> outbox_rec list" where
  "governed tenant db = filter (\<lambda>x. ox_tenant_id x = tenant \<and> ox_event_id x \<noteq> None) (m3_outbox db)"

definition stream_ok :: "string \<Rightarrow> m3_db \<Rightarrow> bool" where
  "stream_ok tenant db \<longleftrightarrow>
     (case find (\<lambda>h. hd_tenant_id h = tenant) (m3_heads db) of
        None \<Rightarrow> governed tenant db = []
      | Some h \<Rightarrow>
          (case hd_outbox_start_seq h of
             None \<Rightarrow> governed tenant db = []
           | Some start \<Rightarrow> start < hd_next_seq h
               \<and> map ox_stream_seq (governed tenant db) = map Some [start .. hd_next_seq h - 1]))"

lemma append_stream_ok:
  assumes ok: "stream_ok t db" and a: "append_event_with_outbox u5 db q = Inr (db', v)"
  shows "stream_ok t db'"
  using a
proof (cases rule: append_Inr)
  case (again x e)
  with ok show ?thesis by simp
next
  case (fresh x e head)
  have gov: "governed t db' = governed t db @ (if aq_tenant_id q = t then [x] else [])"
    using fresh by (simp add: governed_def)
  have hd': "find (\<lambda>h. hd_tenant_id h = t) (m3_heads db')
      = (if aq_tenant_id q = t then Some head else find (\<lambda>h. hd_tenant_id h = t) (m3_heads db))"
    unfolding fresh(3) by (simp add: find_put_head fresh(2))
  show ?thesis
  proof (cases "aq_tenant_id q = t")
    case False
    with ok gov hd' show ?thesis by (auto simp: stream_ok_def split: option.splits)
  next
    case True
    have x: "ox_stream_seq x = Some (hd_next_seq head - 1)" using fresh(15, 19) by simp
    have "\<exists>start. hd_outbox_start_seq head = Some start \<and> start < hd_next_seq head
        \<and> map ox_stream_seq (governed t db) = map Some [start .. hd_next_seq head - 2]"
      using ok True fresh(2) by (auto simp: stream_ok_def next_head_def split: option.splits)
    then obtain start where s: "hd_outbox_start_seq head = Some start" "start < hd_next_seq head"
      "map ox_stream_seq (governed t db) = map Some [start .. hd_next_seq head - 2]" by blast
    have "[start .. hd_next_seq head - 1] = [start .. hd_next_seq head - 2] @ [hd_next_seq head - 1]"
      using s(2) upto_rec2 [of start "hd_next_seq head - 1"] by simp
    then show ?thesis using s x gov hd' True by (simp add: stream_ok_def)
  qed
qed

definition run_appends :: "(string \<Rightarrow> nat) \<Rightarrow> m3_db \<Rightarrow> append_request list \<Rightarrow> m3_db" where
  "run_appends u5 db qs =
     fold (\<lambda>q db. case append_event_with_outbox u5 db q of Inl _ \<Rightarrow> db | Inr (db', _) \<Rightarrow> db') qs db"

lemma run_appends_stream_ok: "stream_ok t db \<Longrightarrow> stream_ok t (run_appends u5 db qs)"
  unfolding run_appends_def
  by (induction qs arbitrary: db) (auto dest: append_stream_ok split: sum.splits)

section \<open>Properties\<close>

text \<open>
  C35. A retried append takes effect once: after a call of the event log was answered, the same call made
  any number of times again is answered with the same event, outbox row and sequence number, and
  leaves every table as it is. The same holds for the recording of a provider's cost and for the
  creation of a cycle.
\<close>

theorem retried_calls_take_effect_once:
  assumes "append_event_with_outbox u5 db q = Inr (db1, v1)"
    and "record_provider_cost u5 db p = Inr (db2, v2)"
    and "ensure_cycle u5 db tenant ck rt wk = Inr (db3, v3)"
  shows "(\<exists>w. ((\<lambda>r. case r of Inl e \<Rightarrow> Inl e | Inr (t, _) \<Rightarrow> append_event_with_outbox u5 t q) ^^ n) (Inr (db1, v1))
             = Inr (db1, w) \<and> same_append v1 w)
    \<and> (\<exists>w. ((\<lambda>r. case r of Inl e \<Rightarrow> Inl e | Inr (t, _) \<Rightarrow> record_provider_cost u5 t p) ^^ n) (Inr (db2, v2))
             = Inr (db2, w) \<and> same_cost v2 w)
    \<and> ensure_cycle u5 db3 tenant ck rt wk = Inr (db3, v3)"
  using append_call.retry_many [OF assms(1)] cost_call.retry_many [OF assms(2)] cycle_replay [OF assms(3)]
  by blast

definition sample_m3_db :: m3_db where
  "sample_m3_db = \<lparr>m3_objectives = [], m3_runs = [], m3_heads = [], m3_events = [], m3_outbox = [],
     m3_costs = [], m3_dedup = [], m3_parks = []\<rparr>"

definition sample_append :: "string \<Rightarrow> append_request" where
  "sample_append key = \<lparr>aq_tenant_id = ''t1'', aq_objective_id = 1, aq_run_id = 2, aq_event_type = ''tick'',
     aq_event_payload = JObj [], aq_destination = ''log'', aq_outbox_payload = JObj [(''line_text'', JStr key)],
     aq_idempotency_key = key\<rparr>"

definition sample_cost :: cost_request where
  "sample_cost = \<lparr>cq_tenant_id = ''t1'', cq_objective_id = 1, cq_run_id = 2, cq_provider_request_id = ''r'',
     cq_usd_amount = 1 / 2, cq_model = ''m'', cq_tokens_in = 1, cq_tokens_out = 1\<rparr>"

lemma sample_append_ok:
  "\<exists>v. append_event_with_outbox length sample_m3_db (sample_append ''k'') = Inr v"
  by (simp add: append_event_with_outbox_def require_identity_def sample_append_def sample_m3_db_def py_space_def
      existing_row_def Let_def next_head_def BIGINT_MAX_def)

lemma sample_cost_ok: "\<exists>v. record_provider_cost length sample_m3_db sample_cost = Inr v"
  by (simp add: record_provider_cost_def require_identity_def sample_cost_def sample_m3_db_def py_space_def
      quantize6_def dec_round_def Let_def BIGINT_MAX_def)

lemma sample_cycle_ok: "\<exists>v. ensure_cycle length sample_m3_db ''t1'' ''c'' ''r'' ''w'' = Inr v"
  by (simp add: ensure_cycle_def require_identity_def sample_m3_db_def py_space_def Let_def)

theorem retried_calls_take_effect_once_witness:
  "\<exists>db v w. append_event_with_outbox length sample_m3_db (sample_append ''k'') = Inr (db, v)
     \<and> append_event_with_outbox length db (sample_append ''k'') = Inr (db, w) \<and> same_append v w"
proof -
  obtain db1 v1 db2 v2 db3 v3 where r: "append_event_with_outbox length sample_m3_db (sample_append ''k'') = Inr (db1, v1)"
    "record_provider_cost length sample_m3_db sample_cost = Inr (db2, v2)"
    "ensure_cycle length sample_m3_db ''t1'' ''c'' ''r'' ''w'' = Inr (db3, v3)"
    using sample_append_ok sample_cost_ok sample_cycle_ok by (metis surj_pair)
  from retried_calls_take_effect_once [OF r, of 1] r(1) show ?thesis by auto
qed

end
