(* ===== verification/Outbox_Renderer.thy ===== *)
theory Outbox_Renderer
  imports Runtime_Store "HOL-Library.Product_Lexorder"
begin

text \<open>
  The file renderer of the outbox (\<^verbatim>\<open>fleet_kernel/m3/outbox_renderer.py\<close>): a destination is rebuilt from
  its baseline and the governed rows of the tenant, after the rows were compared with the
  tenant's sequence range. Files are a map from resolved paths to contents. The render lock
  and the snapshot isolation make one render an atomic step on the tables.
\<close>

record RenderTarget =
  rt_destination :: string
  rt_path :: string
  rt_baseline_path :: "string option"
  rt_projection :: string

record RenderResult =
  rr_rows :: nat
  rr_content_rows :: nat
  rr_first_stream_seq :: "int option"
  rr_last_stream_seq :: "int option"
  rr_bytes_written :: nat
  rr_global_sequence_gaps :: "int list"

datatype render_error =
    BlankArguments | DuplicateSequence | LineText | PayloadShape | ReplacementShape
  | BaselineMissing | BaselineNewline | AnchorMissing | AnchorRange int int | AnchorExcludes
  | SequenceGap "int list" | ReplaceBaseline | NoAuthoritativeRow | UnknownProjection

type_synonym files = "string \<Rightarrow> string option"

definition sequence_gaps :: "int list \<Rightarrow> render_error + int list" where
  "sequence_gaps seqs =
     (if seqs = [] then Inr []
      else (let ordered = sort seqs
            in if \<not> distinct ordered then Inl DuplicateSequence
               else Inr (filter (\<lambda>v. v \<notin> set ordered) [hd ordered .. last ordered])))"

definition render_line :: "(rat \<Rightarrow> string) \<Rightarrow> json \<Rightarrow> render_error + string" where
  "render_line fr payload =
     (case payload of
        JObj kvs \<Rightarrow>
          if fst ` set kvs = {''line_text''}
          then (case map_of kvs ''line_text'' of
              Some (JStr s) \<Rightarrow>
                if newline \<in> set s \<or> CHR 0x0D \<in> set s then Inl LineText else Inr (utf8_encode s @ [newline])
            | _ \<Rightarrow> Inl LineText)
          else if fst ` set kvs = {''line''}
          then (case map_of kvs ''line'' of
              Some (JObj line) \<Rightarrow> Inr (json_print_utf8 fr (json_canon (JObj line)) @ [newline])
            | _ \<Rightarrow> Inl PayloadShape)
          else Inl PayloadShape
      | _ \<Rightarrow> Inl PayloadShape)"

definition render_replacement :: "json \<Rightarrow> render_error + string" where
  "render_replacement payload =
     (case payload of
        JObj kvs \<Rightarrow>
          if fst ` set kvs \<noteq> {''replace_text''} then Inl ReplacementShape
          else (case map_of kvs ''replace_text'' of Some (JStr s) \<Rightarrow> Inr (utf8_encode s) | _ \<Rightarrow> Inl ReplacementShape)
      | _ \<Rightarrow> Inl ReplacementShape)"

definition baseline_bytes :: "files \<Rightarrow> RenderTarget \<Rightarrow> render_error + string" where
  "baseline_bytes fs target =
     (case rt_baseline_path target of
        None \<Rightarrow> Inr []
      | Some path \<Rightarrow>
          (case fs path of
             None \<Rightarrow> Inl BaselineMissing
           | Some content \<Rightarrow>
               if content \<noteq> [] \<and> last content \<noteq> newline then Inl BaselineNewline else Inr content))"

text \<open>\<^verbatim>\<open>b"".join(_line(row.payload) for row in rows)\<close>, stopping at the first payload that raises.\<close>

fun join_lines :: "(rat \<Rightarrow> string) \<Rightarrow> json list \<Rightarrow> render_error + string" where
  "join_lines fr [] = Inr []"
| "join_lines fr (p # ps) = res_bind (render_line fr p) (\<lambda>l. res_bind (join_lines fr ps) (\<lambda>ls. Inr (l @ ls)))"

definition seq_in :: "int \<Rightarrow> int \<Rightarrow> outbox_rec \<Rightarrow> bool" where
  "seq_in start stop x = (case ox_stream_seq x of None \<Rightarrow> False | Some s \<Rightarrow> start \<le> s \<and> s < stop)"

definition seq_outside :: "int \<Rightarrow> int \<Rightarrow> outbox_rec \<Rightarrow> bool" where
  "seq_outside start stop x = (case ox_stream_seq x of None \<Rightarrow> False | Some s \<Rightarrow> s < start \<or> stop \<le> s)"

text \<open>
  The comparison of the governed rows with the head: the range, if there is one, and the
  numbers of the range that no row carries.
\<close>

definition check_sequence :: "m3_db \<Rightarrow> string \<Rightarrow> render_error + (int \<times> int) option \<times> int list" where
  "check_sequence db tenant =
     (let rows = governed tenant db;
          anchor = Option.bind (find (\<lambda>h. hd_tenant_id h = tenant) (m3_heads db))
                     (\<lambda>h. map_option (\<lambda>start. (start, hd_next_seq h)) (hd_outbox_start_seq h))
      in case anchor of
           None \<Rightarrow> if rows \<noteq> [] then Inl AnchorMissing else Inr (None, [])
         | Some (start, stop) \<Rightarrow>
             if stop \<le> start then Inl (AnchorRange start stop)
             else if filter (seq_outside start stop) rows \<noteq> [] then Inl AnchorExcludes
             else (let observed = remdups (map (\<lambda>x. the (ox_stream_seq x)) (filter (seq_in start stop) rows))
                   in Inr (Some (start, stop),
                           if int (length observed) = stop - start then []
                           else filter (\<lambda>s. s \<notin> set observed) [start .. stop - 1])))"

definition destination_rows :: "m3_db \<Rightarrow> string \<Rightarrow> string \<Rightarrow> (int \<times> int) option \<Rightarrow> outbox_rec list" where
  "destination_rows db tenant destination anchor =
     (case anchor of
        None \<Rightarrow> []
      | Some (start, stop) \<Rightarrow>
          sort_key (\<lambda>x. (the (ox_stream_seq x), ox_id x))
            (filter (\<lambda>x. ox_destination x = Some destination \<and> seq_in start stop x) (governed tenant db)))"

definition project ::
    "(rat \<Rightarrow> string) \<Rightarrow> files \<Rightarrow> RenderTarget \<Rightarrow> outbox_rec list \<Rightarrow> render_error + (string \<times> nat)" where
  "project fr fs target rows =
     (if rt_projection target = ''append_jsonl''
      then res_bind (baseline_bytes fs target) (\<lambda>b.
             res_bind (join_lines fr (map ox_payload rows)) (\<lambda>ls. Inr (b @ ls, length rows)))
      else if rt_projection target = ''replace_text''
      then (if rt_baseline_path target \<noteq> None then Inl ReplaceBaseline
            else if rows = [] then Inl NoAuthoritativeRow
            else res_bind (render_replacement (ox_payload (last rows))) (\<lambda>t. Inr (t, 1)))
      else Inl UnknownProjection)"

definition mark_rendered :: "string \<Rightarrow> string \<Rightarrow> nat list \<Rightarrow> m3_db \<Rightarrow> m3_db" where
  "mark_rendered tenant destination ids db =
     db\<lparr>m3_outbox := map (\<lambda>x.
          if ox_tenant_id x = tenant \<and> ox_destination x = Some destination \<and> ox_id x \<in> set ids
          then x\<lparr>ox_status := ''rendered'', ox_attempts := ox_attempts x + 1, ox_last_error := []\<rparr> else x)
        (m3_outbox db)\<rparr>"

definition render_destination ::
    "(rat \<Rightarrow> string) \<Rightarrow> m3_db \<Rightarrow> files \<Rightarrow> string \<Rightarrow> RenderTarget \<Rightarrow> bool
     \<Rightarrow> render_error + (m3_db \<times> files \<times> RenderResult)" where
  "render_destination fr db fs tenant target require_contiguous =
     (if \<not> nonblank tenant \<or> \<not> nonblank (rt_destination target) then Inl BlankArguments
      else res_bind (check_sequence db tenant) (\<lambda>(anchor, gaps).
        if require_contiguous \<and> gaps \<noteq> [] then Inl (SequenceGap gaps)
        else (let rows = destination_rows db tenant (rt_destination target) anchor;
                  seqs = map (\<lambda>x. the (ox_stream_seq x)) rows
              in res_bind (project fr fs target rows) (\<lambda>(content, content_rows).
                   Inr (mark_rendered tenant (rt_destination target) (map ox_id rows) db,
                        fs(rt_path target \<mapsto> content),
                        \<lparr>rr_rows = length rows, rr_content_rows = content_rows,
                         rr_first_stream_seq = (if seqs = [] then None else Some (hd seqs)),
                         rr_last_stream_seq = (if seqs = [] then None else Some (last seqs)),
                         rr_bytes_written = length content, rr_global_sequence_gaps = gaps\<rparr>)))))"

section \<open>Lemmas\<close>

lemma governed_seqs:
  assumes "map ox_stream_seq (governed t db) = map Some [a .. b]" and "x \<in> set (governed t db)"
  shows "\<exists>s. ox_stream_seq x = Some s \<and> a \<le> s \<and> s \<le> b"
proof -
  have "ox_stream_seq x \<in> set (map Some [a .. b])" using assms by (metis image_eqI list.set_map)
  then show ?thesis by auto
qed

text \<open>A stream that the appends left in order passes the comparison without a gap.\<close>

lemma check_sequence_ok:
  assumes "stream_ok t db"
  obtains "check_sequence db t = Inr (None, [])" "governed t db = []"
    | start stop where "check_sequence db t = Inr (Some (start, stop), [])"
        "map ox_stream_seq (governed t db) = map Some [start .. stop - 1]"
        "\<forall>x \<in> set (governed t db). seq_in start stop x"
proof (cases "Option.bind (find (\<lambda>h. hd_tenant_id h = t) (m3_heads db))
    (\<lambda>h. map_option (\<lambda>start. (start, hd_next_seq h)) (hd_outbox_start_seq h))")
  case None
  then have "governed t db = []"
    using assms by (auto simp: stream_ok_def split: option.splits)
  with None that(1) show thesis by (simp add: check_sequence_def)
next
  case (Some p)
  obtain start stop where p: "p = (start, stop)" by (cases p)
  from Some p assms have lt: "start < stop" and g: "map ox_stream_seq (governed t db) = map Some [start .. stop - 1]"
    by (auto simp: stream_ok_def bind_eq_Some_conv)
  have inr: "\<forall>x \<in> set (governed t db). seq_in start stop x \<and> \<not> seq_outside start stop x"
    using governed_seqs [OF g] by (fastforce simp: seq_in_def seq_outside_def)
  then have all: "filter (seq_in start stop) (governed t db) = governed t db"
    and out: "filter (seq_outside start stop) (governed t db) = []"
    by (auto simp: filter_empty_conv)
  have "map (\<lambda>x. the (ox_stream_seq x)) (governed t db) = map the (map ox_stream_seq (governed t db))" by simp
  also have "\<dots> = [start .. stop - 1]" unfolding g by (simp add: map_idI)
  finally have obs: "map (\<lambda>x. the (ox_stream_seq x)) (governed t db) = [start .. stop - 1]" .
  have "check_sequence db t = Inr (Some (start, stop), [])"
    using lt by (simp add: check_sequence_def Some p all out obs distinct_remdups_id)
  then show thesis using that(2) g inr by blast
qed

lemma join_lines_Inr:
  assumes "\<forall>p \<in> set ps. render_line fr p = Inr (f p)"
  shows "join_lines fr ps = Inr (concat (map f ps))"
  using assms by (induction ps) auto

lemma sort_key_sorted: "sorted (map f xs) \<Longrightarrow> sort_key f xs = xs"
  by (induction xs) (auto simp: insort_is_Cons)

lemma sorted_filter_seqs:
  assumes "map ox_stream_seq (governed t db) = map Some [a .. b]"
  shows "sorted (map (\<lambda>x. (the (ox_stream_seq x), ox_id x)) (filter P (governed t db)))"
proof -
  have "map (\<lambda>x. the (ox_stream_seq x)) (governed t db) = [a .. b]"
    using arg_cong [OF assms, of "map the"] by (simp add: comp_def map_idI)
  then have "sorted_wrt (\<lambda>x y. the (ox_stream_seq x) < the (ox_stream_seq y)) (governed t db)"
    using sorted_wrt_map [of "(<)" "\<lambda>x. the (ox_stream_seq x)" "governed t db"]
    by (metis sorted_wrt_upto)
  then have "sorted_wrt (\<lambda>x y. the (ox_stream_seq x) < the (ox_stream_seq y)) (filter P (governed t db))"
    by (rule sorted_wrt_filter)
  then show ?thesis
    unfolding sorted_map by (rule sorted_wrt_mono_rel [rotated]) simp
qed

text \<open>The rows of a destination, in the order of the appends.\<close>

definition rows_for :: "string \<Rightarrow> string \<Rightarrow> m3_db \<Rightarrow> outbox_rec list" where
  "rows_for tenant destination db = filter (\<lambda>x. ox_destination x = Some destination) (governed tenant db)"

lemma destination_rows_ok:
  assumes "map ox_stream_seq (governed t db) = map Some [start .. stop - 1]"
    and "\<forall>x \<in> set (governed t db). seq_in start stop x"
  shows "destination_rows db t d (Some (start, stop)) = rows_for t d db"
proof -
  have "filter (\<lambda>x. ox_destination x = Some d \<and> seq_in start stop x) (governed t db) = rows_for t d db"
    unfolding rows_for_def using assms(2) by (intro filter_cong) auto
  then show ?thesis
    unfolding destination_rows_def by (simp add: rows_for_def sort_key_sorted [OF sorted_filter_seqs [OF assms(1)]])
qed

lemma check_rows_ok:
  assumes "stream_ok t db"
  shows "\<exists>anchor. check_sequence db t = Inr (anchor, []) \<and> destination_rows db t d anchor = rows_for t d db"
  using assms
proof (cases rule: check_sequence_ok)
  case 1
  then show ?thesis by (simp add: destination_rows_def rows_for_def)
next
  case (2 start stop)
  then show ?thesis using destination_rows_ok by blast
qed

lemma governed_mark:
  "governed t (mark_rendered t' d ids db) = map (\<lambda>x.
     if ox_tenant_id x = t' \<and> ox_destination x = Some d \<and> ox_id x \<in> set ids
     then x\<lparr>ox_status := ''rendered'', ox_attempts := ox_attempts x + 1, ox_last_error := []\<rparr> else x) (governed t db)"
  unfolding governed_def mark_rendered_def by (simp add: filter_map comp_def) (metis (no_types, lifting))

lemma stream_ok_mark: "stream_ok t db \<Longrightarrow> stream_ok t (mark_rendered t' d ids db)"
proof -
  have "map ox_stream_seq (governed t (mark_rendered t' d ids db)) = map ox_stream_seq (governed t db)"
    by (simp add: governed_mark)
  moreover have "governed t (mark_rendered t' d ids db) = [] \<longleftrightarrow> governed t db = []" by (simp add: governed_mark)
  moreover have "m3_heads (mark_rendered t' d ids db) = m3_heads db" by (simp add: mark_rendered_def)
  ultimately show "stream_ok t db \<Longrightarrow> stream_ok t (mark_rendered t' d ids db)"
    unfolding stream_ok_def by (auto split: option.splits)
qed

lemma payloads_mark: "map ox_payload (rows_for t d (mark_rendered t' d' ids db)) = map ox_payload (rows_for t d db)"
  unfolding rows_for_def governed_mark filter_map map_map
  by (auto simp: comp_def intro!: arg_cong2 [where f = map] filter_cong)

lemma render_append_ok:
  assumes "stream_ok t db" and "nonblank t" and "nonblank (rt_destination target)"
    and "rt_projection target = ''append_jsonl''" and "baseline_bytes fs target = Inr b"
    and "\<forall>p \<in> set (map ox_payload (rows_for t (rt_destination target) db)). render_line fr p = Inr (f p)"
  shows "\<exists>r. render_destination fr db fs t target contiguous =
      Inr (mark_rendered t (rt_destination target) (map ox_id (rows_for t (rt_destination target) db)) db,
           fs(rt_path target \<mapsto> b @ concat (map f (map ox_payload (rows_for t (rt_destination target) db)))), r)
      \<and> rr_global_sequence_gaps r = [] \<and> rr_rows r = length (rows_for t (rt_destination target) db)"
proof -
  obtain anchor where a: "check_sequence db t = Inr (anchor, [])"
    "destination_rows db t (rt_destination target) anchor = rows_for t (rt_destination target) db"
    using check_rows_ok [OF assms(1)] by blast
  show ?thesis
    using assms(2-5) by (simp add: render_destination_def a project_def Let_def join_lines_Inr [OF assms(6)])
qed

section \<open>Properties\<close>


text \<open>
  C27. A lost row is never rendered over: when any governed rows of the tenant are missing from an
  otherwise orderly outbox, whatever their destination, the render of every destination is refused
  with the list of exactly the missing numbers, and neither the file nor a row is touched.
\<close>

theorem lost_rows_are_loud:
  assumes "stream_ok t db" and "x \<in> set (governed t db)" and "\<not> P x"
    and "nonblank t" and "nonblank (rt_destination target)"
  shows "\<exists>gaps. render_destination fr (db\<lparr>m3_outbox := filter P (m3_outbox db)\<rparr>) fs t target True = Inl (SequenceGap gaps)
    \<and> Some ` set gaps = ox_stream_seq ` {y \<in> set (governed t db). \<not> P y}"
proof -
  let ?db = "db\<lparr>m3_outbox := filter P (m3_outbox db)\<rparr>"
  have gov: "governed t ?db = filter P (governed t db)"
    by (simp add: governed_def conj_commute)
  from assms(1) obtain start stop where
    a: "Option.bind (find (\<lambda>h. hd_tenant_id h = t) (m3_heads db))
      (\<lambda>h. map_option (\<lambda>start. (start, hd_next_seq h)) (hd_outbox_start_seq h)) = Some (start, stop)"
    and lt: "start < stop" and g: "map ox_stream_seq (governed t db) = map Some [start .. stop - 1]"
    using assms(2) by (auto simp: stream_ok_def split: option.splits)
  have inr: "\<forall>x \<in> set (governed t db). seq_in start stop x \<and> \<not> seq_outside start stop x"
    using governed_seqs [OF g] by (fastforce simp: seq_in_def seq_outside_def)
  let ?seq = "\<lambda>x. the (ox_stream_seq x)"
  have obs: "map ?seq (governed t db) = [start .. stop - 1]"
    using arg_cong [OF g, of "map the"] by (simp add: comp_def map_idI)
  then have inj: "inj_on ?seq (set (governed t db))" and dist: "distinct (governed t db)"
    using distinct_map [of ?seq "governed t db"] by simp_all
  let ?left = "map ?seq (filter P (governed t db))"
  have left: "remdups (map ?seq (filter (seq_in start stop) (governed t ?db))) = ?left"
  proof -
    have "filter (seq_in start stop) (governed t ?db) = filter P (governed t db)"
      unfolding gov filter_filter using inr by (intro filter_cong) auto
    moreover have "distinct ?left"
      using inj dist by (auto simp: distinct_map intro: inj_on_subset)
    ultimately show ?thesis by (simp add: distinct_remdups_id)
  qed
  have "length (filter P (governed t db)) < length (governed t db)"
    using assms(2, 3) by (rule length_filter_less)
  moreover have "int (length (governed t db)) = stop - start"
    using arg_cong [OF obs, of length] lt by simp
  ultimately have len: "int (length ?left) \<noteq> stop - start" by simp
  define gaps where "gaps = filter (\<lambda>s. s \<notin> set ?left) [start .. stop - 1]"
  have mem: "set [start .. stop - 1] = ?seq ` set (governed t db)" using arg_cong [OF obs, of set] by simp
  then have gset: "set gaps = ?seq ` {y \<in> set (governed t db). \<not> P y}"
    unfolding gaps_def using inj by (auto simp del: set_upto dest: inj_onD)
  then have ne: "gaps \<noteq> []" using assms(2, 3) by auto
  have "filter (seq_outside start stop) (governed t ?db) = []"
    unfolding gov using inr by (auto simp: filter_empty_conv)
  then have "check_sequence ?db t = Inr (Some (start, stop), gaps)"
    using lt len left a by (simp add: check_sequence_def Let_def gaps_def)
  then have "render_destination fr ?db fs t target True = Inl (SequenceGap gaps)"
    using assms(4, 5) ne by (simp add: render_destination_def)
  moreover have "Some ` set gaps = ox_stream_seq ` {y \<in> set (governed t db). \<not> P y}"
    unfolding gset image_image using governed_seqs [OF g] by (intro image_cong) fastforce+
  ultimately show ?thesis by blast
qed

definition sample_target :: RenderTarget where
  "sample_target = \<lparr>rt_destination = ''log'', rt_path = ''out'', rt_baseline_path = None, rt_projection = ''append_jsonl''\<rparr>"

definition sample_stream :: m3_db where
  "sample_stream = run_appends length sample_m3_db [sample_append ''a'', sample_append ''bb'']"

lemma sample_m3_ok: "stream_ok t sample_m3_db"
  by (simp add: stream_ok_def sample_m3_db_def governed_def)

definition sample_row :: "string \<Rightarrow> outbox_rec" where
  "sample_row key = \<lparr>ox_id = 10 + length key, ox_tenant_id = ''t1'', ox_event_id = Some (9 + length key),
     ox_stream_seq = Some (int (length key)), ox_destination = Some ''log'',
     ox_payload = JObj [(''line_text'', JStr key)], ox_idempotency_key = key, ox_status = ''pending'',
     ox_attempts = 0, ox_last_error = []\<rparr>"

lemma sample_stream_rows: "governed ''t1'' sample_stream = [sample_row ''a'', sample_row ''bb'']"
  by (simp add: sample_stream_def run_appends_def append_event_with_outbox_def require_identity_def
      sample_append_def sample_m3_db_def py_space_def existing_row_def Let_def next_head_def BIGINT_MAX_def
      id_of_def governed_def sample_row_def)

lemma sample_line: "key \<in> {''a'', ''bb''} \<Longrightarrow> render_line fr (JObj [(''line_text'', JStr key)]) = Inr (key @ [newline])"
  by (auto simp: render_line_def newline_def utf8_encode_def)


theorem lost_rows_are_loud_witness:
  "\<exists>gaps. render_destination (\<lambda>_. []) (sample_stream\<lparr>m3_outbox := filter (\<lambda>x. ox_id x \<noteq> 11) (m3_outbox sample_stream)\<rparr>)
      (\<lambda>_. None) ''t1'' sample_target True = Inl (SequenceGap gaps) \<and> Some ` set gaps = {Some 1}"
proof -
  have "{y \<in> set (governed ''t1'' sample_stream). \<not> ox_id y \<noteq> 11} = {sample_row ''a''}"
    by (auto simp: sample_stream_rows sample_row_def)
  moreover have "stream_ok ''t1'' sample_stream"
    unfolding sample_stream_def by (rule run_appends_stream_ok [OF sample_m3_ok])
  ultimately show ?thesis
    using lost_rows_are_loud [of "''t1''" sample_stream "sample_row ''a''" "\<lambda>x. ox_id x \<noteq> 11" sample_target
        "\<lambda>_. []" "\<lambda>_. None"]
    by (auto simp: sample_stream_rows sample_row_def sample_target_def py_space_def)
qed

end
