(* ===== verification/Parity_Gate.thy ===== *)
theory Parity_Gate
  imports Runtime_Store "HOL-Library.Product_Lexorder"
begin

text \<open>
  The parity window of the migration (\<^verbatim>\<open>fleet_kernel/m3/parity.py\<close>): the comparison of a legacy cycle
  with the kernel's, the immutable record of its verdict, and the gate over the most recent
  cycles. A money value is what \<^verbatim>\<open>Decimal(str(value))\<close> makes of it; amounts have at most 26 significant
  digits, so that the product with 100 is exact.
\<close>

definition REQUIRED_CONTROL_TAGS :: "string list" where
  "REQUIRED_CONTROL_TAGS = [''quota_park_resume'', ''america_chicago_midnight_reset'']"

datatype money_value = NotDecimal | NotFinite | Amount rat

datatype parity_error = InvalidMoney | QuantizeOverflow | ParityImmutable | ParityUnique | ParityCheck

definition cents :: "money_value \<Rightarrow> parity_error + int" where
  "cents value = (case value of
     NotDecimal \<Rightarrow> Inl InvalidMoney
   | NotFinite \<Rightarrow> Inl InvalidMoney
   | Amount x \<Rightarrow> let n = dec_round (x * 100) in if 10 ^ 28 \<le> \<bar>n\<bar> then Inl QuantizeOverflow else Inr n)"

definition intent_set :: "(rat \<Rightarrow> string) \<Rightarrow> json list \<Rightarrow> string set" where
  "intent_set fr values = set (map (json_dumps fr) values)"

record ParityVerdict =
  pv_verdict :: string
  pv_differences :: "json list"

definition sorted_texts :: "string list \<Rightarrow> string set \<Rightarrow> json" where
  "sorted_texts texts others = JList (map JStr (sort (remdups (filter (\<lambda>t. t \<notin> others) texts))))"

definition compare_cycle ::
    "(rat \<Rightarrow> string) \<Rightarrow> bool \<Rightarrow> bool \<Rightarrow> money_value \<Rightarrow> money_value \<Rightarrow> json list \<Rightarrow> json list \<Rightarrow> int list
     \<Rightarrow> parity_error + ParityVerdict" where
  "compare_cycle fr legacy_seen kernel_seen legacy_usd kernel_usd legacy_intents kernel_intents gap_values =
     res_bind (cents legacy_usd) (\<lambda>legacy_cents.
     res_bind (cents kernel_usd) (\<lambda>kernel_cents.
       let legacy = map (json_dumps fr) legacy_intents;
           kernel = map (json_dumps fr) kernel_intents;
           gaps = sort (remdups gap_values);
           differences =
             (if legacy_seen \<noteq> kernel_seen
              then [JObj [(''field'', JStr ''run_seen''), (''legacy'', JBool legacy_seen), (''kernel'', JBool kernel_seen)]]
              else []) @
             (if legacy_cents \<noteq> kernel_cents
              then [JObj [(''field'', JStr ''spend_cents''), (''legacy'', JInt legacy_cents), (''kernel'', JInt kernel_cents)]]
              else []) @
             (if intent_set fr legacy_intents \<noteq> intent_set fr kernel_intents
              then [JObj [(''field'', JStr ''intent_set''), (''legacy_only'', sorted_texts legacy (set kernel)),
                          (''kernel_only'', sorted_texts kernel (set legacy))]]
              else []) @
             (if gaps \<noteq> []
              then [JObj [(''field'', JStr ''sequence_gaps''), (''values'', JList (map JInt gaps))]]
              else [])
       in Inr \<lparr>pv_verdict = (if differences = [] then ''clean'' else ''diverged''), pv_differences = differences\<rparr>))"

record parity_row =
  pr_id :: nat
  pr_tenant_id :: string
  pr_run_id :: nat
  pr_cycle_key :: string
  pr_input_manifest_sha256 :: string
  pr_verdict :: string
  pr_differences :: "json list"
  pr_control_tags :: "string list"
  pr_compared_at :: int

text \<open>\<open>u5\<close> is \<^verbatim>\<open>uuid.uuid5\<close> in the URL namespace, \<open>now\<close> the time of the transaction.\<close>

definition record_parity_result ::
    "(string \<Rightarrow> nat) \<Rightarrow> int \<Rightarrow> parity_row list \<Rightarrow> string \<Rightarrow> nat \<Rightarrow> string \<Rightarrow> string \<Rightarrow> ParityVerdict \<Rightarrow> string list
     \<Rightarrow> parity_error + (parity_row list \<times> nat)" where
  "record_parity_result u5 now db tenant run_id cycle_key sha verdict control_tags =
     (let result_id = u5 (''mise:m3:parity:'' @ tenant @ '':'' @ cycle_key);
          tags = sort (remdups control_tags)
      in case find (\<lambda>r. pr_tenant_id r = tenant \<and> pr_cycle_key r = cycle_key) db of
           Some r \<Rightarrow>
             if pr_id r \<noteq> result_id \<or> pr_run_id r \<noteq> run_id \<or> pr_input_manifest_sha256 r \<noteq> sha
                \<or> pr_verdict r \<noteq> pv_verdict verdict
                \<or> map json_canon (pr_differences r) \<noteq> map json_canon (pv_differences verdict)
                \<or> pr_control_tags r \<noteq> tags
             then Inl ParityImmutable else Inr (db, result_id)
         | None \<Rightarrow>
             if pv_verdict verdict \<notin> {''clean'', ''diverged''} then Inl ParityCheck
             else if list_ex (\<lambda>r. pr_id r = result_id) db then Inl ParityUnique
             else Inr (db @ [\<lparr>pr_id = result_id, pr_tenant_id = tenant, pr_run_id = run_id, pr_cycle_key = cycle_key,
                          pr_input_manifest_sha256 = sha, pr_verdict = pv_verdict verdict,
                          pr_differences = pv_differences verdict, pr_control_tags = tags,
                          pr_compared_at = now\<rparr>], result_id))"

record gate_status =
  gs_ready :: bool
  gs_consecutive_clean :: nat
  gs_required_cycles :: int
  gs_missing_controls :: "string list"

text \<open>\<^verbatim>\<open>xs[:n]\<close>, which counts from the end when \<open>n\<close> is negative.\<close>

definition slice_to :: "int \<Rightarrow> 'a list \<Rightarrow> 'a list" where
  "slice_to n xs = (if 0 \<le> n then take (nat n) xs else take (nat (int (length xs) + n)) xs)"

text \<open>The tenant's results, most recent first.\<close>

definition recent_first :: "parity_row list \<Rightarrow> string \<Rightarrow> parity_row list" where
  "recent_first db tenant =
     rev (sort_key (\<lambda>r. (pr_compared_at r, pr_id r)) (filter (\<lambda>r. pr_tenant_id r = tenant) db))"

definition parity_gate_status :: "parity_row list \<Rightarrow> string \<Rightarrow> int \<Rightarrow> gate_status" where
  "parity_gate_status db tenant required_cycles =
     (let consecutive = takeWhile (\<lambda>r. pr_verdict r = ''clean'') (recent_first db tenant);
          window = slice_to required_cycles consecutive;
          tags = concat (map pr_control_tags window);
          missing = sort (filter (\<lambda>t. t \<notin> set tags) REQUIRED_CONTROL_TAGS)
      in \<lparr>gs_ready = (required_cycles \<le> int (length window) \<and> missing = []),
          gs_consecutive_clean = length consecutive, gs_required_cycles = required_cycles,
          gs_missing_controls = missing\<rparr>)"

definition kernel_run_seen :: "m3_db \<Rightarrow> string \<Rightarrow> nat \<Rightarrow> bool" where
  "kernel_run_seen db tenant run_id = list_ex (\<lambda>r. rn_tenant_id r = tenant \<and> rn_id r = run_id) (m3_runs db)"

section \<open>Lemmas\<close>

lemma sort_Nil_iff [simp]: "sort xs = [] \<longleftrightarrow> xs = []"
  by (metis length_0_conv length_sort)

lemma compare_cycle_clean:
  "compare_cycle fr ls ks lu ku li ki gv = Inr v \<Longrightarrow>
     pv_verdict v = ''clean'' \<longleftrightarrow> ls = ks \<and> cents lu = cents ku \<and> intent_set fr li = intent_set fr ki \<and> gv = []"
  by (cases "cents lu"; cases "cents ku") (auto simp: compare_cycle_def Let_def split: if_splits)

text \<open>A recorded verdict stays: no later call changes or removes a row.\<close>

lemma record_parity_keeps:
  "record_parity_result u5 now db t r ck sha v tags = Inr (db', i) \<Longrightarrow> \<exists>new. db' = db @ new"
  by (auto simp: record_parity_result_def Let_def split: option.splits if_splits)

lemma record_parity_replay:
  assumes "record_parity_result u5 now db t r ck sha v tags = Inr (db', i)"
  shows "record_parity_result u5 later db' t r ck sha v tags = Inr (db', i)"
proof (cases "find (\<lambda>r. pr_tenant_id r = t \<and> pr_cycle_key r = ck) db")
  case None
  then have n: "\<not> list_ex (\<lambda>r. pr_tenant_id r = t \<and> pr_cycle_key r = ck) db"
    by (auto simp: find_None_iff list_ex_iff)
  from assms None find_append_None [OF n] show ?thesis
    by (auto simp: record_parity_result_def Let_def split: if_splits)
next
  case (Some x)
  with assms show ?thesis by (auto simp: record_parity_result_def Let_def split: if_splits)
qed

lemma takeWhile_enough: "n \<le> length (takeWhile P xs) \<longleftrightarrow> n \<le> length xs \<and> (\<forall>x \<in> set (take n xs). P x)"
proof (induction xs arbitrary: n)
  case (Cons x xs)
  then show ?case by (cases n) auto
qed simp

lemma take_takeWhile: "n \<le> length (takeWhile P xs) \<Longrightarrow> take n (takeWhile P xs) = take n xs"
proof (induction xs arbitrary: n)
  case (Cons x xs)
  then show ?case by (cases n) (auto split: if_splits)
qed simp

lemma set_recent_first: "set (recent_first db t) = {r \<in> set db. pr_tenant_id r = t}"
  by (auto simp: recent_first_def)

section \<open>Properties\<close>

text \<open>
  C39. The gate opens exactly on an unbroken window: it is ready for \<open>n\<close> required cycles if and only if the
  tenant has at least \<open>n\<close> recorded results, the \<open>n\<close> most recent ones are all clean, and each required
  control was exercised in one of them; an older divergence does not count and a recent one
  closes the gate.
\<close>

theorem gate_ready_iff:
  "gs_ready (parity_gate_status db t (int n)) \<longleftrightarrow>
     n \<le> length (filter (\<lambda>r. pr_tenant_id r = t) db)
     \<and> (\<forall>r \<in> set (take n (recent_first db t)). pr_verdict r = ''clean'')
     \<and> (\<forall>tag \<in> set REQUIRED_CONTROL_TAGS. \<exists>r \<in> set (take n (recent_first db t)). tag \<in> set (pr_control_tags r))"
proof -
  let ?clean = "takeWhile (\<lambda>r. pr_verdict r = ''clean'') (recent_first db t)"
  have len: "length (recent_first db t) = length (filter (\<lambda>r. pr_tenant_id r = t) db)"
    by (simp add: recent_first_def)

  have "gs_ready (parity_gate_status db t (int n)) \<longleftrightarrow>
      n \<le> length ?clean \<and> (\<forall>tag \<in> set REQUIRED_CONTROL_TAGS. \<exists>r \<in> set (take n ?clean). tag \<in> set (pr_control_tags r))"
    by (auto simp: parity_gate_status_def slice_to_def filter_empty_conv Let_def)
  also have "\<dots> \<longleftrightarrow> n \<le> length ?clean
      \<and> (\<forall>tag \<in> set REQUIRED_CONTROL_TAGS. \<exists>r \<in> set (take n (recent_first db t)). tag \<in> set (pr_control_tags r))"
    using take_takeWhile [of n "\<lambda>r. pr_verdict r = ''clean''" "recent_first db t"] by auto
  finally show ?thesis by (simp add: takeWhile_enough len)
qed

definition sample_parity :: "string \<Rightarrow> int \<Rightarrow> parity_row" where
  "sample_parity verdict time = \<lparr>pr_id = nat time, pr_tenant_id = ''t1'', pr_run_id = 1, pr_cycle_key = ''c'',
     pr_input_manifest_sha256 = [], pr_verdict = verdict, pr_differences = [],
     pr_control_tags = REQUIRED_CONTROL_TAGS, pr_compared_at = time\<rparr>"

theorem gate_ready_iff_witness:
  "gs_ready (parity_gate_status [sample_parity ''diverged'' 1, sample_parity ''clean'' 2] ''t1'' (int 1))
   \<and> \<not> gs_ready (parity_gate_status [sample_parity ''clean'' 1, sample_parity ''diverged'' 2] ''t1'' (int 1))"
  unfolding gate_ready_iff by (simp add: recent_first_def sample_parity_def)

end
