(* ===== verification/Durable_Inbox.thy ===== *)
theory Durable_Inbox
  imports Json_Parser Py_Regex
begin

text \<open>
  The cursor-based reader of a role's queue (\<^verbatim>\<open>mcp_servers/channel_relay/durable_inbox.py\<close>): cursors with a
  content anchor, the role checkpoint, the torn-line guard, and the drain with its handler.

  The shared directory is an association list from file names to contents; a file is read as
  text, with the universal newlines of text mode, or is not decodable. Failing writes are not
  modelled. The first 16 hexadecimal digits of SHA-1 are the parameter \<open>sha1_16\<close>. The handler keeps a
  state of its own: \<^const>\<open>Inr\<close> is a normal return and \<^const>\<open>Inl\<close> a raise. Log output is left out.
\<close>

section \<open>Files\<close>

datatype file_content = Text string | Undecodable

type_synonym shared_dir = "(string \<times> file_content) list"

text \<open>Universal newlines.\<close>

fun univ_nl :: "string \<Rightarrow> string" where
  "univ_nl [] = []"
| "univ_nl [c] = [if c = CHR 0x0D then newline else c]"
| "univ_nl (c # d # s) =
     (if c = CHR 0x0D then newline # univ_nl (if d = newline then s else d # s) else c # univ_nl (d # s))"

definition read_text :: "shared_dir \<Rightarrow> string \<Rightarrow> string option" where
  "read_text fs name = (case map_of fs name of Some (Text s) \<Rightarrow> Some (univ_nl s) | _ \<Rightarrow> None)"

definition file_exists :: "shared_dir \<Rightarrow> string \<Rightarrow> bool" where
  "file_exists fs name \<longleftrightarrow> map_of fs name \<noteq> None"

section \<open>Cursors\<close>

record Cursor =
  cu_line :: int
  cu_pid :: int
  cu_role :: string
  cu_anchor :: string

record DrainResult =
  dr_processed :: nat
  dr_held :: bool

text \<open>\<^verbatim>\<open>int(v) if isinstance(v, int) else 0\<close> and the same for text; a \<^verbatim>\<open>bool\<close> is an \<^verbatim>\<open>int\<close>.\<close>

definition int_field :: "(string \<times> json) list \<Rightarrow> string \<Rightarrow> int" where
  "int_field kvs k = (case map_of kvs k of Some (JInt i) \<Rightarrow> i | Some (JBool b) \<Rightarrow> if b then 1 else 0 | _ \<Rightarrow> 0)"

definition str_field :: "(string \<times> json) list \<Rightarrow> string \<Rightarrow> string" where
  "str_field kvs k = (case map_of kvs k of Some (JStr s) \<Rightarrow> s | _ \<Rightarrow> [])"

definition loaded_object :: "json_env \<Rightarrow> shared_dir \<Rightarrow> string \<Rightarrow> (string \<times> json) list option" where
  "loaded_object J fs name =
     (case read_text fs name of
        None \<Rightarrow> None
      | Some raw \<Rightarrow> (case json_loads J raw of Loaded (JObj kvs) \<Rightarrow> Some kvs | _ \<Rightarrow> None))"

definition load_cursor :: "json_env \<Rightarrow> shared_dir \<Rightarrow> string \<Rightarrow> Cursor" where
  "load_cursor J fs name =
     (case loaded_object J fs name of
        None \<Rightarrow> \<lparr>cu_line = 0, cu_pid = 0, cu_role = [], cu_anchor = []\<rparr>
      | Some kvs \<Rightarrow> \<lparr>cu_line = int_field kvs ''line'', cu_pid = int_field kvs ''pid'',
                     cu_role = str_field kvs ''role'', cu_anchor = str_field kvs ''anchor''\<rparr>)"

text \<open>\<^verbatim>\<open>path.write_text(json.dumps(value))\<close> inside a \<^verbatim>\<open>try\<close> that ignores every error.\<close>

definition write_json :: "shared_dir \<Rightarrow> string \<Rightarrow> json \<Rightarrow> shared_dir" where
  "write_json fs name j = (if json_ok j then dict_set name (Text (json_text (\<lambda>_. []) j)) fs else fs)"

definition save_cursor :: "shared_dir \<Rightarrow> string \<Rightarrow> int \<Rightarrow> int \<Rightarrow> string \<Rightarrow> string \<Rightarrow> shared_dir" where
  "save_cursor fs name line pid role anchor =
     write_json fs name (JObj [(''line'', JInt line), (''pid'', JInt pid), (''role'', JStr role), (''anchor'', JStr anchor)])"

section \<open>Lines\<close>

text \<open>\<^verbatim>\<open>s.split("\\n")\<close>.\<close>

fun split_nl :: "string \<Rightarrow> string list" where
  "split_nl [] = [[]]"
| "split_nl (c # s) = (if c = newline then [] # split_nl s else (case split_nl s of x # xs \<Rightarrow> (c # x) # xs))"

text \<open>The text up to and with its last newline.\<close>

definition up_to_last_nl :: "string \<Rightarrow> string" where
  "up_to_last_nl raw = rev (dropWhile (\<lambda>c. c \<noteq> newline) (rev raw))"

datatype inbox_error = InboxUndecodable | LineIntLimit

definition complete_lines :: "shared_dir \<Rightarrow> string \<Rightarrow> inbox_error + string list" where
  "complete_lines fs inbox =
     (if \<not> file_exists fs inbox then Inr []
      else (case read_text fs inbox of
          None \<Rightarrow> Inl InboxUndecodable
        | Some raw \<Rightarrow>
            let safe = (if raw \<noteq> [] \<and> last raw = newline then raw else up_to_last_nl raw)
            in Inr (filter nonblank (split_nl safe))))"

text \<open>\<^verbatim>\<open>xs[n:]\<close>, which counts from the end when \<open>n\<close> is negative.\<close>

definition slice_from :: "int \<Rightarrow> 'a list \<Rightarrow> 'a list" where
  "slice_from n xs = (if 0 \<le> n then drop (nat n) xs else drop (nat (int (length xs) + n)) xs)"

definition read_from_cursor :: "shared_dir \<Rightarrow> string \<Rightarrow> int \<Rightarrow> inbox_error + (string list \<times> nat)" where
  "read_from_cursor fs inbox cursor_line =
     res_bind (complete_lines fs inbox) (\<lambda>lines. Inr (slice_from cursor_line lines, length lines))"

section \<open>The role checkpoint\<close>

definition role_checkpoint_file :: "string \<Rightarrow> string" where
  "role_checkpoint_file role = ''cursor_'' @ role @ ''_role.json''"

definition load_role_checkpoint :: "json_env \<Rightarrow> shared_dir \<Rightarrow> string \<Rightarrow> int" where
  "load_role_checkpoint J fs name =
     (case loaded_object J fs name of None \<Rightarrow> 0 | Some kvs \<Rightarrow> int_field kvs ''line'')"

definition save_role_checkpoint :: "json_env \<Rightarrow> shared_dir \<Rightarrow> string \<Rightarrow> int \<Rightarrow> bool \<Rightarrow> shared_dir" where
  "save_role_checkpoint J fs name line force =
     (if force \<or> load_role_checkpoint J fs name < line then write_json fs name (JObj [(''line'', JInt line)]) else fs)"

section \<open>The drain\<close>

type_synonym event = "json \<times> json \<times> json"
type_synonym 'h handler = "'h \<Rightarrow> event \<Rightarrow> 'h + 'h"

fun truthy :: "json \<Rightarrow> bool" where
  "truthy JNull = False"
| "truthy (JBool b) = b"
| "truthy (JInt i) = (i \<noteq> 0)"
| "truthy (JFloat q) = (q \<noteq> 0)"
| "truthy (JStr s) = (s \<noteq> [])"
| "truthy (JList xs) = (xs \<noteq> [])"
| "truthy (JObj kvs) = (kvs \<noteq> [])"

definition get_or :: "(string \<times> json) list \<Rightarrow> string \<Rightarrow> json \<Rightarrow> json" where
  "get_or kvs k fallback = (case map_of kvs k of Some v \<Rightarrow> if truthy v then v else fallback | None \<Rightarrow> fallback)"

definition event_of :: "(string \<times> json) list \<Rightarrow> event" where
  "event_of kvs = (get_or kvs ''event_type'' (JStr ''slack_message''), get_or kvs ''content'' (JStr []),
                   get_or kvs ''meta'' (JObj []))"

text \<open>
  The loop over the new lines: the handler's state, the number of lines done, whether the
  handler raised, and \<^const>\<open>None\<close> for a line whose reading raises outside the caught class.
\<close>

fun drain_loop :: "json_env \<Rightarrow> 'h handler \<Rightarrow> 'h \<Rightarrow> string list \<Rightarrow> nat \<Rightarrow> 'h \<times> DrainResult option" where
  "drain_loop J on_event h [] n = (h, Some \<lparr>dr_processed = n, dr_held = False\<rparr>)"
| "drain_loop J on_event h (line # lines) n =
     (case json_loads J line of
        IntLimitError \<Rightarrow> (h, None)
      | DecodeError \<Rightarrow> drain_loop J on_event h lines (n + 1)
      | Loaded (JObj kvs) \<Rightarrow>
          (case on_event h (event_of kvs) of
             Inr h' \<Rightarrow> drain_loop J on_event h' lines (n + 1)
           | Inl h' \<Rightarrow> (h', Some \<lparr>dr_processed = n, dr_held = True\<rparr>))
      | Loaded _ \<Rightarrow> drain_loop J on_event h lines (n + 1))"

definition anchor_at :: "(string \<Rightarrow> string) \<Rightarrow> string list \<Rightarrow> int \<Rightarrow> string" where
  "anchor_at sha1_16 lines line =
     (if 0 < line \<and> line - 1 < int (length lines) then sha1_16 (lines ! nat (line - 1)) else [])"

definition start_of :: "json_env \<Rightarrow> shared_dir \<Rightarrow> string \<Rightarrow> string \<Rightarrow> Cursor option \<times> int" where
  "start_of J fs cursor_file role_cp =
     (let own = (if file_exists fs cursor_file then Some (load_cursor J fs cursor_file) else None)
      in (own, case own of
                 Some c \<Rightarrow> cu_line c
               | None \<Rightarrow> if file_exists fs role_cp then load_role_checkpoint J fs role_cp else 0))"

definition desynced :: "(string \<Rightarrow> string) \<Rightarrow> Cursor option \<Rightarrow> int \<Rightarrow> string list \<Rightarrow> bool" where
  "desynced sha1_16 own start lines \<longleftrightarrow>
     int (length lines) < start
     \<or> (case own of
          None \<Rightarrow> False
        | Some c \<Rightarrow> cu_anchor c \<noteq> [] \<and> 0 < start \<and> sha1_16 (lines ! nat (start - 1)) \<noteq> cu_anchor c)"

definition drain_queue ::
    "json_env \<Rightarrow> (string \<Rightarrow> string) \<Rightarrow> shared_dir \<Rightarrow> string \<Rightarrow> string \<Rightarrow> int \<Rightarrow> string \<Rightarrow> 'h handler \<Rightarrow> 'h
     \<Rightarrow> shared_dir \<times> 'h \<times> (inbox_error + DrainResult)" where
  "drain_queue J sha1_16 fs inbox cursor_file pid role on_event h =
     (let role_cp = role_checkpoint_file role
      in case start_of J fs cursor_file role_cp of (own, start) \<Rightarrow>
         (case complete_lines fs inbox of
            Inl e \<Rightarrow> (fs, h, Inl e)
          | Inr lines \<Rightarrow>
              let desync = desynced sha1_16 own start lines;
                  fs = (if desync then save_role_checkpoint J fs role_cp 0 True else fs);
                  start = (if desync then 0 else start);
                  new_lines = slice_from start lines
              in if new_lines = []
                 then (save_role_checkpoint J (save_cursor fs cursor_file start pid role (anchor_at sha1_16 lines start))
                         role_cp start False,
                       h, Inr \<lparr>dr_processed = 0, dr_held = False\<rparr>)
                 else (case drain_loop J on_event h new_lines 0 of
                     (h', None) \<Rightarrow> (fs, h', Inl LineIntLimit)
                   | (h', Some r) \<Rightarrow>
                       let new_line = start + int (dr_processed r)
                       in (save_role_checkpoint J
                             (save_cursor fs cursor_file new_line pid role (anchor_at sha1_16 lines new_line))
                             role_cp new_line False,
                           h', Inr r))))"

section \<open>File names and clean-up\<close>

datatype name_error = BadKind

definition cursor_filename :: "string \<Rightarrow> int \<Rightarrow> string \<Rightarrow> name_error + string" where
  "cursor_filename role pid kind =
     (let letters = (if kind \<noteq> [] \<and> last kind = newline then butlast kind else kind)
      in if letters = [] \<or> \<not> list_all chr_lower letters then Inl BadKind
         else Inr (''cursor_'' @ role @ ''_'' @ kind @ ''_'' @ show_int pid @ ''.json''))"

definition session_cursor_filename :: "string \<Rightarrow> string \<Rightarrow> string" where
  "session_cursor_filename role session_id =
     (let sid = filter (\<lambda>c. chr_lower c \<or> chr_digit c) (py_lower session_id)
      in ''cursor_'' @ role @ ''_session_'' @ (if sid = [] then ''unknown'' else sid) @ ''.json'')"

text \<open>
  The process id in a cursor's name, with or without the kind segment. A trailing newline in the
  name is accepted by the pattern's \<open>$\<close>.
\<close>

definition json_tail :: "string \<Rightarrow> bool" where
  "json_tail s \<longleftrightarrow> s = ''.json'' \<or> s = ''.json'' @ [newline]"

definition cursor_pid :: "string \<Rightarrow> string \<Rightarrow> nat option" where
  "cursor_pid role name =
     (let prefix = ''cursor_'' @ role @ ''_'';
          rest = drop (length prefix) name;
          kind = takeWhile chr_lower rest;
          numbered = (if kind \<noteq> [] \<and> starts_with (drop (length kind) rest) ''_'' then drop (length kind + 1) rest else rest);
          digits = takeWhile is_digit numbered
      in if starts_with name prefix \<and> digits \<noteq> [] \<and> json_tail (drop (length digits) numbered) then read_nat digits else None)"

text \<open>What \<^verbatim>\<open>os.kill(pid, 0)\<close> shows; any other exception ends the clean-up.\<close>

datatype kill_answer = ProcAlive | ProcDead | ProcForeign | KillRaises

fun cleanup_loop ::
    "(nat \<Rightarrow> kill_answer) \<Rightarrow> string \<Rightarrow> nat \<Rightarrow> string list \<Rightarrow> shared_dir \<Rightarrow> nat \<Rightarrow> shared_dir \<times> nat" where
  "cleanup_loop kill role my_pid [] fs removed = (fs, removed)"
| "cleanup_loop kill role my_pid (name # names) fs removed =
     (case cursor_pid role name of
        None \<Rightarrow> cleanup_loop kill role my_pid names fs removed
      | Some pid \<Rightarrow>
          if pid = my_pid then cleanup_loop kill role my_pid names fs removed
          else (case kill pid of
              ProcDead \<Rightarrow> cleanup_loop kill role my_pid names (filter (\<lambda>(n, _). n \<noteq> name) fs) (removed + 1)
            | KillRaises \<Rightarrow> (fs, removed)
            | _ \<Rightarrow> cleanup_loop kill role my_pid names fs removed))"

definition cleanup_dead_cursors ::
    "(nat \<Rightarrow> kill_answer) \<Rightarrow> shared_dir \<Rightarrow> string \<Rightarrow> nat \<Rightarrow> shared_dir \<times> nat" where
  "cleanup_dead_cursors kill fs role my_pid = cleanup_loop kill role my_pid (map fst fs) fs 0"

definition is_session_cursor :: "string \<Rightarrow> string \<Rightarrow> bool" where
  "is_session_cursor role name =
     (let prefix = ''cursor_'' @ role @ ''_session_'';
          rest = drop (length prefix) name;
          sid = takeWhile (\<lambda>c. chr_lower c \<or> chr_digit c) rest
      in starts_with name prefix \<and> sid \<noteq> [] \<and> json_tail (drop (length sid) rest))"

text \<open>\<open>mtime\<close> is the modification time of a file.\<close>

definition cleanup_stale_session_cursors ::
    "(string \<Rightarrow> int) \<Rightarrow> int \<Rightarrow> shared_dir \<Rightarrow> string \<Rightarrow> int \<Rightarrow> shared_dir \<times> nat" where
  "cleanup_stale_session_cursors mtime now fs role max_age =
     (let stale = (\<lambda>(name, _). is_session_cursor role name \<and> max_age < now - mtime name)
      in (filter (\<lambda>f. \<not> stale f) fs, length (filter stale fs)))"

section \<open>Lemmas on lines\<close>

lemma univ_nl_id: "CHR 0x0D \<notin> set s \<Longrightarrow> univ_nl s = s"
  by (induction s rule: univ_nl.induct) auto

lemma split_nl_ne [simp]: "split_nl s \<noteq> []"
  by (induction s) (auto split: list.splits)

lemma split_nl_append: "split_nl (a @ newline # b) = split_nl a @ split_nl b"
proof (induction a)
  case (Cons c a)
  then show ?case using split_nl_ne [of a] by (cases "split_nl a") auto
qed simp

lemma up_to_last_nl_append:
  "up_to_last_nl (c @ s) = (if newline \<in> set s then c @ up_to_last_nl s else up_to_last_nl c)"
proof (cases "newline \<in> set s")
  case True
  then have "dropWhile (\<lambda>c. c \<noteq> newline) (rev s @ rev c) = dropWhile (\<lambda>c. c \<noteq> newline) (rev s) @ rev c"
    by (intro dropWhile_append1 [of newline]) auto
  with True show ?thesis by (simp add: up_to_last_nl_def)
next
  case False
  then have "dropWhile (\<lambda>c. c \<noteq> newline) (rev s @ rev c) = dropWhile (\<lambda>c. c \<noteq> newline) (rev c)"
    by (intro dropWhile_append2) auto
  with False show ?thesis by (simp add: up_to_last_nl_def)
qed

lemma up_to_last_nl_cases:
  obtains "newline \<notin> set c" "up_to_last_nl c = []"
    | a torn where "c = a @ newline # torn" "newline \<notin> set torn" "up_to_last_nl c = a @ [newline]"
proof (cases "newline \<in> set c")
  case False
  then show thesis using that(1) by (simp add: up_to_last_nl_def) (metis dropWhile_eq_Nil_conv rev_is_Nil_conv set_rev)
next
  case True
  then obtain a torn where c: "c = a @ newline # torn" "newline \<notin> set torn" by (metis split_list_last)
  have "up_to_last_nl c = a @ [newline]"
    using c(2) up_to_last_nl_append [of "a @ [newline]" torn] by (simp add: c(1)) (simp add: up_to_last_nl_def)
  with c that(2) show thesis by blast
qed

text \<open>The complete lines of a queue's text.\<close>

definition qlines :: "string \<Rightarrow> string list" where
  "qlines c = filter nonblank (split_nl (up_to_last_nl c))"

lemma up_to_last_nl_closed: "c \<noteq> [] \<Longrightarrow> last c = newline \<Longrightarrow> up_to_last_nl c = c"
  by (cases c rule: rev_cases) (simp_all add: up_to_last_nl_def)

lemma complete_lines_qlines:
  assumes "map_of fs inbox = Some (Text c)" and "CHR 0x0D \<notin> set c"
  shows "complete_lines fs inbox = Inr (qlines c)"
  using assms up_to_last_nl_closed [of c]
  by (simp add: complete_lines_def file_exists_def read_text_def univ_nl_id qlines_def Let_def)

text \<open>Growing the queue only adds complete lines behind the ones that are there.\<close>

lemma qlines_append: "\<exists>more. qlines (c @ s) = qlines c @ more"
proof (cases "newline \<in> set s")
  case False
  then show ?thesis by (simp add: qlines_def up_to_last_nl_append)
next
  case True
  show ?thesis
  proof (cases c rule: up_to_last_nl_cases)
    case 1
    then show ?thesis by (simp add: qlines_def)
  next
    case (2 a torn)
    have "up_to_last_nl (c @ s) = a @ newline # (torn @ up_to_last_nl s)"
      using True 2(1) up_to_last_nl_append [of c s] by simp
    then have "qlines (c @ s) = filter nonblank (split_nl a) @ filter nonblank (split_nl (torn @ up_to_last_nl s))"
      by (simp add: qlines_def split_nl_append)
    moreover have "qlines c = filter nonblank (split_nl a)" by (simp add: qlines_def 2(3) split_nl_append)
    ultimately show ?thesis by simp
  qed
qed

section \<open>Lemmas on cursors\<close>

lemma json_text_clean: "c \<in> set (json_str s) \<Longrightarrow> 32 \<le> (of_char c :: nat)"
proof -
  have "c \<in> set (json_esc d) \<Longrightarrow> 32 \<le> (of_char c :: nat)" for d
  proof -
    have h: "n < 16 \<Longrightarrow> 32 \<le> (of_char (hex_chr n) :: nat)" for n
      by (auto simp: less_Suc_eq numeral_nat hex_chr_def hex_digits_def)
    show "c \<in> set (json_esc d) \<Longrightarrow> 32 \<le> (of_char c :: nat)"
      using h [OF of_char_div_lt [of d]] h [of "of_char d mod 16"]
      by (auto simp: json_esc_def Let_def chr_quote_def chr_backslash_def split: if_splits)
  qed
  then show "c \<in> set (json_str s) \<Longrightarrow> 32 \<le> (of_char c :: nat)"
    by (auto simp: json_str_def chr_quote_def)
qed

lemma show_int_clean: "c \<in> set (show_int i) \<Longrightarrow> 32 \<le> (of_char c :: nat)"
  using show_nat_digits [of c "nat i"] show_nat_digits [of c "nat (- i)"]
  by (auto simp: show_int_def is_digit_iff split: if_splits)

definition cursor_json :: "int \<Rightarrow> int \<Rightarrow> string \<Rightarrow> string \<Rightarrow> json" where
  "cursor_json line pid role anchor =
     JObj [(''line'', JInt line), (''pid'', JInt pid), (''role'', JStr role), (''anchor'', JStr anchor)]"

lemma no_CR: "(\<forall>c \<in> set s. 32 \<le> (of_char c :: nat)) \<Longrightarrow> CHR 0x0D \<notin> set s"
  by (auto dest!: bspec)

lemma univ_nl_cursor: "univ_nl (json_text fr (cursor_json line pid role anchor)) = json_text fr (cursor_json line pid role anchor)"
proof (rule univ_nl_id, rule no_CR)
  show "\<forall>c \<in> set (json_text fr (cursor_json line pid role anchor)). 32 \<le> (of_char c :: nat)"
    using json_text_clean show_int_clean by (auto simp: cursor_json_def)
qed

lemma univ_nl_line: "univ_nl (json_text fr (JObj [(''line'', JInt line)])) = json_text fr (JObj [(''line'', JInt line)])"
proof (rule univ_nl_id, rule no_CR)
  show "\<forall>c \<in> set (json_text fr (JObj [(''line'', JInt line)])). 32 \<le> (of_char c :: nat)"
    using json_text_clean show_int_clean by auto
qed

text \<open>A cursor that was saved is loaded as it was.\<close>

lemma load_cursor_text:
  assumes "map_of fs name = Some (Text (json_text fr (cursor_json line pid role anchor)))"
    and "json_ok (cursor_json line pid role anchor)"
  shows "load_cursor J fs name = \<lparr>cu_line = line, cu_pid = pid, cu_role = role, cu_anchor = anchor\<rparr>"
proof -
  have "loaded_object J fs name = Some [(''line'', JInt line), (''pid'', JInt pid), (''role'', JStr role), (''anchor'', JStr anchor)]"
    using assms loads_text [OF assms(2), of J fr]
    by (simp add: loaded_object_def read_text_def univ_nl_cursor) (simp add: cursor_json_def)
  then show ?thesis by (simp add: load_cursor_def int_field_def str_field_def)
qed

lemma save_cursor_text:
  assumes "json_ok (cursor_json line pid role anchor)"
  shows "save_cursor fs name line pid role anchor = dict_set name (Text (json_text (\<lambda>_. []) (cursor_json line pid role anchor))) fs"
  using assms by (simp add: save_cursor_def write_json_def cursor_json_def)

lemma load_save_cursor:
  assumes "json_ok (cursor_json line pid role anchor)"
  shows "load_cursor J (save_cursor fs name line pid role anchor) name
    = \<lparr>cu_line = line, cu_pid = pid, cu_role = role, cu_anchor = anchor\<rparr>"
  by (rule load_cursor_text [OF _ assms]) (simp add: save_cursor_text [OF assms] map_of_dict_set)

text \<open>The checkpoint of a role never moves back without \<open>force\<close>, and only its own file is written.\<close>

lemma save_role_checkpoint_other: "n \<noteq> name \<Longrightarrow> map_of (save_role_checkpoint J fs name line force) n = map_of fs n"
  by (simp add: save_role_checkpoint_def write_json_def map_of_dict_set)

lemma load_save_checkpoint:
  assumes "json_ok (JInt line)"
  shows "load_role_checkpoint J (save_role_checkpoint J fs name line False) name = max line (load_role_checkpoint J fs name)"
proof (cases "load_role_checkpoint J fs name < line")
  case True
  let ?j = "JObj [(''line'', JInt line)]"
  have ok: "json_ok ?j" using assms by simp
  have "loaded_object J (dict_set name (Text (json_text (\<lambda>_. []) ?j)) fs) name = Some [(''line'', JInt line)]"
    using loads_text [OF ok, of J "\<lambda>_. []"] univ_nl_line [of "\<lambda>_. []" line]
    by (simp add: loaded_object_def read_text_def map_of_dict_set)
  then show ?thesis
    using True ok by (simp add: save_role_checkpoint_def write_json_def load_role_checkpoint_def int_field_def)
next
  case False
  then show ?thesis by (simp add: save_role_checkpoint_def)
qed

section \<open>One consumer of a growing queue\<close>

text \<open>
  A handler that records the events it handled and may refuse any of them, depending on what it
  handled before.
\<close>

definition recorder :: "(event list \<Rightarrow> event \<Rightarrow> bool) \<Rightarrow> event list handler" where
  "recorder accepts h e = (if accepts h e then Inr (h @ [e]) else Inl h)"

lemma recorder_simps [simp]:
  "accepts h e \<Longrightarrow> recorder accepts h e = Inr (h @ [e])" "\<not> accepts h e \<Longrightarrow> recorder accepts h e = Inl h"
  by (simp_all add: recorder_def)

definition line_events :: "json_env \<Rightarrow> string \<Rightarrow> event list" where
  "line_events J line = (case json_loads J line of Loaded (JObj kvs) \<Rightarrow> [event_of kvs] | _ \<Rightarrow> [])"

definition events_of :: "json_env \<Rightarrow> string list \<Rightarrow> event list" where
  "events_of J lines = concat (map (line_events J) lines)"

lemma events_of_simps [simp]:
  "events_of J [] = []" "events_of J (l # ls) = line_events J l @ events_of J ls"
  "events_of J (ls @ ms) = events_of J ls @ events_of J ms"
  by (simp_all add: events_of_def)

lemma drain_loop_recorder:
  assumes "\<forall>l \<in> set lines. json_loads J l \<noteq> IntLimitError"
  shows "\<exists>k. k \<le> length lines \<and> ((\<forall>h e. accepts h e) \<longrightarrow> k = length lines)
    \<and> drain_loop J (recorder accepts) h lines n
        = (h @ events_of J (take k lines), Some \<lparr>dr_processed = n + k, dr_held = (k < length lines)\<rparr>)"
  using assms
proof (induction lines arbitrary: h n)
  case (Cons l ls)
  have go: "\<exists>k. k \<le> length (l # ls) \<and> ((\<forall>h e. accepts h e) \<longrightarrow> k = length (l # ls))
      \<and> drain_loop J (recorder accepts) h' ls (n + 1)
          = (h @ events_of J (take k (l # ls)), Some \<lparr>dr_processed = n + k, dr_held = (k < length (l # ls))\<rparr>)"
    if h': "h' = h @ line_events J l" for h'
  proof -
    have "\<forall>l \<in> set ls. json_loads J l \<noteq> IntLimitError" using Cons.prems by simp
    from Cons.IH [OF this, of h' "n + 1"] obtain k where "k \<le> length ls" "(\<forall>h e. accepts h e) \<longrightarrow> k = length ls"
      "drain_loop J (recorder accepts) h' ls (n + 1)
        = (h' @ events_of J (take k ls), Some \<lparr>dr_processed = n + 1 + k, dr_held = (k < length ls)\<rparr>)" by blast
    then show ?thesis using h' by (intro exI [of _ "Suc k"]) simp
  qed
  show ?case
  proof (cases "json_loads J l")
    case (Loaded j)
    show ?thesis
    proof (cases j)
      case (JObj kvs)
      show ?thesis
      proof (cases "accepts h (event_of kvs)")
        case True
        with go [of "h @ [event_of kvs]"] Loaded JObj show ?thesis by (simp add: line_events_def)
      next
        case False
        then have "\<not> (\<forall>h e. accepts h e)" by blast
        with False show ?thesis by (intro exI [of _ 0]) (simp add: Loaded JObj)
      qed
    qed (use go [of h] Loaded in \<open>simp_all add: line_events_def\<close>)
  qed (use go [of h] Cons.prems in \<open>simp_all add: line_events_def\<close>)
qed simp

text \<open>What happens to the queue and its consumer: someone appends text, or the consumer drains.\<close>

datatype inbox_op = Grow string | Drain "event list \<Rightarrow> event \<Rightarrow> bool"

definition inbox_step ::
    "json_env \<Rightarrow> (string \<Rightarrow> string) \<Rightarrow> string \<Rightarrow> string \<Rightarrow> int \<Rightarrow> string \<Rightarrow> shared_dir \<times> event list \<Rightarrow> inbox_op
     \<Rightarrow> shared_dir \<times> event list" where
  "inbox_step J sha inbox cursor_file pid role st op =
     (case (st, op) of
        ((fs, h), Grow s) \<Rightarrow>
          (dict_set inbox (Text ((case map_of fs inbox of Some (Text c) \<Rightarrow> c | _ \<Rightarrow> []) @ s)) fs, h)
      | ((fs, h), Drain accepts) \<Rightarrow>
          (case drain_queue J sha fs inbox cursor_file pid role (recorder accepts) h of (fs', h', _) \<Rightarrow> (fs', h')))"

definition inbox_run ::
    "json_env \<Rightarrow> (string \<Rightarrow> string) \<Rightarrow> string \<Rightarrow> string \<Rightarrow> int \<Rightarrow> string \<Rightarrow> shared_dir \<times> event list \<Rightarrow> inbox_op list
     \<Rightarrow> shared_dir \<times> event list" where
  "inbox_run J sha inbox cursor_file pid role st ops = fold (\<lambda>op st. inbox_step J sha inbox cursor_file pid role st op) ops st"

fun grown :: "inbox_op list \<Rightarrow> string" where
  "grown [] = []"
| "grown (Grow s # ops) = s @ grown ops"
| "grown (Drain _ # ops) = grown ops"

text \<open>
  The consumer has handled exactly the events of the first \<open>n\<close> complete lines, and its cursor, if it
  has one, says so.
\<close>

definition consumer_at ::
    "json_env \<Rightarrow> (string \<Rightarrow> string) \<Rightarrow> string \<Rightarrow> string \<Rightarrow> int \<Rightarrow> string \<Rightarrow> string \<Rightarrow> nat \<Rightarrow> shared_dir \<times> event list \<Rightarrow> bool" where
  "consumer_at J sha inbox cursor_file pid role c n st \<longleftrightarrow>
     map_of (fst st) inbox = Some (Text c) \<and> n \<le> length (qlines c) \<and> snd st = events_of J (take n (qlines c))
     \<and> ((map_of (fst st) cursor_file = None \<and> map_of (fst st) (role_checkpoint_file role) = None \<and> n = 0)
        \<or> map_of (fst st) cursor_file
            = Some (Text (json_text (\<lambda>_. []) (cursor_json (int n) pid role (anchor_at sha (qlines c) (int n))))))"

lemma anchor_at_append:
  "n \<le> length ls \<Longrightarrow> anchor_at sha (ls @ ms) (int n) = anchor_at sha ls (int n)"
  by (cases n) (auto simp: anchor_at_def nth_append)

lemma grow_consumer:
  assumes "consumer_at J sha inbox cur pid role c n st" and "inbox \<noteq> cur" and "inbox \<noteq> role_checkpoint_file role"
  shows "consumer_at J sha inbox cur pid role (c @ s) n (inbox_step J sha inbox cur pid role st (Grow s))"
proof -
  obtain fs h where st: "st = (fs, h)" by (cases st)
  obtain more where "qlines (c @ s) = qlines c @ more" using qlines_append by blast
  then show ?thesis
    using assms by (auto simp: st consumer_at_def inbox_step_def map_of_dict_set anchor_at_append)
qed

lemma cursor_json_ok:
  assumes "n < 10 ^ INT_MAX_STR_DIGITS" and "json_ok (JInt pid)"
  shows "json_ok (cursor_json (int n) pid role anchor)"
proof -
  have "0 < INT_MAX_STR_DIGITS" by (simp add: INT_MAX_STR_DIGITS_def)
  from show_nat_length [OF assms(1) this] assms(2) show ?thesis by (simp add: cursor_json_def)
qed

lemma drain_synced:
  assumes "start_of J fs cur (role_checkpoint_file role) = (own, start)" and "complete_lines fs inbox = Inr lines"
    and "\<not> desynced sha own start lines"
  shows "slice_from start lines = [] \<Longrightarrow> drain_queue J sha fs inbox cur pid role f h =
      (save_role_checkpoint J (save_cursor fs cur start pid role (anchor_at sha lines start))
         (role_checkpoint_file role) start False, h, Inr \<lparr>dr_processed = 0, dr_held = False\<rparr>)"
    and "slice_from start lines \<noteq> [] \<Longrightarrow> drain_loop J f h (slice_from start lines) 0 = (h', Some r) \<Longrightarrow>
      drain_queue J sha fs inbox cur pid role f h =
      (save_role_checkpoint J (save_cursor fs cur (start + int (dr_processed r)) pid role
           (anchor_at sha lines (start + int (dr_processed r))))
         (role_checkpoint_file role) (start + int (dr_processed r)) False, h', Inr r)"
  using assms by (simp_all add: drain_queue_def Let_def)

lemma drain_consumer:
  assumes at: "consumer_at J sha inbox cur pid role c n st"
    and names: "inbox \<noteq> cur" "inbox \<noteq> role_checkpoint_file role" "cur \<noteq> role_checkpoint_file role"
    and lim: "\<forall>l \<in> set (qlines c). json_loads J l \<noteq> IntLimitError"
    and size: "length (qlines c) < 10 ^ INT_MAX_STR_DIGITS" and pid: "json_ok (JInt pid)"
    and cr: "CHR 0x0D \<notin> set c"
  shows "\<exists>m \<ge> n. ((\<forall>h e. accepts h e) \<longrightarrow> m = length (qlines c))
    \<and> consumer_at J sha inbox cur pid role c m (inbox_step J sha inbox cur pid role st (Drain accepts))"
proof -
  obtain fs h where st: "st = (fs, h)" by (cases st)
  let ?ls = "qlines c" and ?cp = "role_checkpoint_file role"
  from at have inb: "map_of fs inbox = Some (Text c)" and n: "n \<le> length ?ls" and h: "h = events_of J (take n ?ls)"
    by (simp_all add: consumer_at_def st)
  have ok: "json_ok (cursor_json (int m) pid role a)" if "m \<le> length ?ls" for m a
    using that size pid by (intro cursor_json_ok) simp_all
  have cl: "complete_lines fs inbox = Inr ?ls" using inb cr by (rule complete_lines_qlines)
  obtain own where start: "start_of J fs cur ?cp = (own, int n)"
    and des: "\<not> desynced sha own (int n) ?ls"
  proof (cases "map_of fs cur = None")
    case True
    with at that [of None] n show thesis by (simp add: consumer_at_def st start_of_def file_exists_def desynced_def)
  next
    case False
    with at have f: "map_of fs cur = Some (Text (json_text (\<lambda>_. []) (cursor_json (int n) pid role (anchor_at sha ?ls (int n)))))"
      by (auto simp: consumer_at_def st)
    note lc = load_cursor_text [OF f ok [OF n], of J]
    show thesis
      by (rule that [of "Some (load_cursor J fs cur)"])
         (use n f lc in \<open>auto simp: start_of_def file_exists_def desynced_def anchor_at_def split: if_splits\<close>)
  qed
  have save: "consumer_at J sha inbox cur pid role c m
      (save_role_checkpoint J (save_cursor fs cur (int m) pid role (anchor_at sha ?ls (int m))) ?cp x False,
       events_of J (take m ?ls))" if "m \<le> length ?ls" for m x
    using that inb names ok [OF that]
    by (simp add: consumer_at_def save_role_checkpoint_other save_cursor_text map_of_dict_set)
  have sl: "slice_from (int n) ?ls = drop n ?ls" by (simp add: slice_from_def)
  show ?thesis
  proof (cases "drop n ?ls = []")
    case True
    have "inbox_step J sha inbox cur pid role st (Drain accepts) =
      (save_role_checkpoint J (save_cursor fs cur (int n) pid role (anchor_at sha ?ls (int n))) ?cp (int n) False, h)"
      unfolding inbox_step_def st prod.case inbox_op.case drain_synced(1) [OF start cl des, unfolded sl, OF True] ..
    then show ?thesis using save [OF n, of "int n"] h True n by (intro exI [of _ n]) simp
  next
    case False
    have "\<forall>l \<in> set (drop n ?ls). json_loads J l \<noteq> IntLimitError" using lim in_set_dropD by fast
    from drain_loop_recorder [OF this, of accepts h 0] obtain k where k: "k \<le> length (drop n ?ls)"
      "(\<forall>h e. accepts h e) \<longrightarrow> k = length (drop n ?ls)"
      "drain_loop J (recorder accepts) h (drop n ?ls) 0
        = (h @ events_of J (take k (drop n ?ls)), Some \<lparr>dr_processed = 0 + k, dr_held = (k < length (drop n ?ls))\<rparr>)" by blast
    have m: "n + k \<le> length ?ls" using k(1) n by simp
    have "h @ events_of J (take k (drop n ?ls)) = events_of J (take (n + k) ?ls)" by (simp add: h take_add)
    then have "inbox_step J sha inbox cur pid role st (Drain accepts) =
      (save_role_checkpoint J (save_cursor fs cur (int (n + k)) pid role (anchor_at sha ?ls (int (n + k)))) ?cp
         (int (n + k)) False, events_of J (take (n + k) ?ls))"
      using drain_synced(2) [OF start cl des, unfolded sl, OF False k(3)] by (simp add: inbox_step_def st)
    then show ?thesis using save [OF m] k(2) n by (intro exI [of _ "n + k"]) auto
  qed
qed

lemma run_consumer:
  assumes "consumer_at J sha inbox cur pid role c n st"
    and "inbox \<noteq> cur" "inbox \<noteq> role_checkpoint_file role" "cur \<noteq> role_checkpoint_file role"
    and "\<forall>l \<in> set (qlines (c @ grown ops)). json_loads J l \<noteq> IntLimitError"
    and "length (qlines (c @ grown ops)) < 10 ^ INT_MAX_STR_DIGITS" and "json_ok (JInt pid)"
    and "CHR 0x0D \<notin> set (c @ grown ops)"
  shows "\<exists>m. consumer_at J sha inbox cur pid role (c @ grown ops) m (inbox_run J sha inbox cur pid role st ops)"
  using assms
proof (induction ops arbitrary: c n st)
  case Nil
  then show ?case by (auto simp: inbox_run_def)
next
  case (Cons op ops)
  show ?case
  proof (cases op)
    case (Grow s)
    from grow_consumer [OF Cons.prems(1-3), of s] Cons.IH [of "c @ s" n "inbox_step J sha inbox cur pid role st op"]
      Cons.prems show ?thesis by (auto simp: Grow inbox_run_def)
  next
    case (Drain accepts)
    obtain more where more: "qlines (c @ grown ops) = qlines c @ more" using qlines_append by blast
    have "\<forall>l \<in> set (qlines c). json_loads J l \<noteq> IntLimitError" "length (qlines c) < 10 ^ INT_MAX_STR_DIGITS"
      "CHR 0x0D \<notin> set c"
      using Cons.prems(5, 6, 8) unfolding Drain grown.simps more by (simp_all add: order.strict_trans1 [rotated])
    from drain_consumer [OF Cons.prems(1-4) this(1, 2) Cons.prems(7) this(3), of accepts]
    obtain m where "consumer_at J sha inbox cur pid role c m (inbox_step J sha inbox cur pid role st op)"
      unfolding Drain by blast
    from Cons.IH [OF this] Cons.prems show ?thesis by (simp add: Drain inbox_run_def)
  qed
qed

section \<open>Properties\<close>


text \<open>
  A truncated queue is not skipped: when the cursor points beyond the end of the queue, or its
  anchor does not match the line before it, as after a truncation that grew past the cursor, one
  drain with a handler that refuses nothing handles every complete line of the queue, from its
  first, and leaves the cursor at its end.
\<close>

theorem truncated_queue_redelivered:
  assumes "map_of fs inbox = Some (Text c)" and "CHR 0x0D \<notin> set c"
    and "map_of fs cur = Some (Text (json_text (\<lambda>_. []) (cursor_json line pid role anchor)))"
    and "json_ok (cursor_json line pid role anchor)"
    and "int (length (qlines c)) < line
      \<or> anchor \<noteq> [] \<and> 0 < line \<and> line \<le> int (length (qlines c)) \<and> sha (qlines c ! nat (line - 1)) \<noteq> anchor"
    and "qlines c \<noteq> []" and "\<forall>l \<in> set (qlines c). json_loads J l \<noteq> IntLimitError"
    and "length (qlines c) < 10 ^ INT_MAX_STR_DIGITS" and "cur \<noteq> role_checkpoint_file role"
  shows "\<exists>fs'. drain_queue J sha fs inbox cur pid role (recorder (\<lambda>_ _. True)) h
        = (fs', h @ events_of J (qlines c), Inr \<lparr>dr_processed = length (qlines c), dr_held = False\<rparr>)
      \<and> cu_line (load_cursor J fs' cur) = int (length (qlines c))"
proof -
  let ?ls = "qlines c" and ?cp = "role_checkpoint_file role"
  have cl: "complete_lines fs inbox = Inr ?ls" using assms(1, 2) by (rule complete_lines_qlines)
  have start: "start_of J fs cur ?cp = (Some \<lparr>cu_line = line, cu_pid = pid, cu_role = role, cu_anchor = anchor\<rparr>, line)"
    using load_cursor_text [OF assms(3, 4), of J] assms(3) by (simp add: start_of_def file_exists_def)
  have des: "desynced sha (Some \<lparr>cu_line = line, cu_pid = pid, cu_role = role, cu_anchor = anchor\<rparr>) line ?ls"
    using assms(5) by (auto simp: desynced_def)
  have loop: "drain_loop J (recorder (\<lambda>_ _. True)) h ?ls 0
      = (h @ events_of J ?ls, Some \<lparr>dr_processed = length ?ls, dr_held = False\<rparr>)"
    using drain_loop_recorder [OF assms(7), of "\<lambda>_ _. True" h 0] by auto
  let ?a = "anchor_at sha ?ls (int (length ?ls))"
  let ?fs = "save_role_checkpoint J (save_cursor (save_role_checkpoint J fs ?cp 0 True) cur (int (length ?ls)) pid role ?a)
    ?cp (int (length ?ls)) False"
  have "slice_from 0 ?ls = ?ls" by (simp add: slice_from_def)
  then have d: "drain_queue J sha fs inbox cur pid role (recorder (\<lambda>_ _. True)) h
      = (?fs, h @ events_of J ?ls, Inr \<lparr>dr_processed = length ?ls, dr_held = False\<rparr>)"
    using assms(6) by (simp add: drain_queue_def Let_def start cl des loop)
  have "json_ok (JInt pid)" using assms(4) by (simp add: cursor_json_def)
  from cursor_json_ok [OF assms(8) this] have ok: "json_ok (cursor_json (int (length ?ls)) pid role ?a)" .
  have "map_of ?fs cur = Some (Text (json_text (\<lambda>_. []) (cursor_json (int (length ?ls)) pid role ?a)))"
    using assms(9) by (simp add: save_role_checkpoint_other save_cursor_text [OF ok] map_of_dict_set)
  from load_cursor_text [OF this ok, of J] d show ?thesis by simp
qed

lemma replicate_digits:
  assumes "4300 < k"
  shows "json_loads J (replicate k CHR ''1'') = IntLimitError"
proof -
  let ?s = "replicate k CHR ''1''"
  obtain j where k: "k = Suc j" using assms by (cases k) auto
  have dg: "is_digit CHR ''1''" by (simp add: is_digit_def)
  have "scan_int ?s = Some (?s, [])"
    using dg by (simp add: scan_int_def k dropWhile_replicate takeWhile_replicate)
  moreover have "int_strip ?s = ?s"
    using int_strip_solid [of ?s "[]"] assms by (simp add: int_space_def k)
  then have "py_int ?s = None"
    using dg assms by (simp add: py_int_def INT_MAX_STR_DIGITS_def)
  ultimately have "scan_number J ?s = Some (THuge, [])"
    by (simp add: scan_number_def k scan_frac_def scan_exp_def)
  then have "scan_token J ?s = Some (THuge, [])"
    by (simp add: scan_token_def k chr_quote_def)
  then have "tokens J ?s = THuge # tokens J []"
    by (rule tokens_step) (simp add: k json_ws_def)
  then show ?thesis by (simp add: json_loads_def value_expected_def)
qed

lemma drain_loop_blocked:
  assumes "\<forall>l \<in> set pre. json_loads J l \<noteq> IntLimitError" and "json_loads J l = IntLimitError"
  shows "drain_loop J (recorder (\<lambda>_ _. True)) h (pre @ l # post) n = (h @ events_of J pre, None)"
  using assms
proof (induction pre arbitrary: h n)
  case (Cons x xs)
  then show ?case
    by (cases "json_loads J x") (auto simp: line_events_def split: json.splits)
qed simp

text \<open>
  One line can block the queue: an integer literal of more digits than the interpreter converts
  is no decoding error, so a drain that reaches such a line raises instead of passing it; it
  saves no cursor, so the events before the line are handled again by the next drain, which
  raises again.
\<close>

theorem overlong_integer_blocks_queue:
  assumes "map_of fs inbox = Some (Text c)" and "CHR 0x0D \<notin> set c"
    and "map_of fs cur = None" and "map_of fs (role_checkpoint_file role) = None"
    and "qlines c = pre @ replicate k CHR ''1'' # post" and "4300 < k"
    and "\<forall>l \<in> set pre. json_loads J l \<noteq> IntLimitError"
  shows "drain_queue J sha fs inbox cur pid role (recorder (\<lambda>_ _. True)) h
    = (fs, h @ events_of J pre, Inl LineIntLimit)"
proof -
  have "complete_lines fs inbox = Inr (qlines c)" using assms(1, 2) by (rule complete_lines_qlines)
  moreover have "start_of J fs cur (role_checkpoint_file role) = (None, 0)"
    using assms(3, 4) by (simp add: start_of_def file_exists_def)
  moreover have "slice_from 0 (qlines c) = qlines c" by (simp add: slice_from_def)
  ultimately show ?thesis
    using drain_loop_blocked [OF assms(7) replicate_digits [OF assms(6)], of h post 0]
    by (simp add: drain_queue_def Let_def desynced_def assms(5))
qed

section \<open>Concrete runs\<close>

definition sample_json_env :: json_env where
  "sample_json_env = \<lparr>float_of = (\<lambda>_. 0), wide = (\<lambda>_. CHR ''?'')\<rparr>"

definition sample_line :: string where
  "sample_line = json_text (\<lambda>_. []) (JObj [(''content'', JStr ''hi'')]) @ [newline]"

lemma sample_line_loads:
  "json_loads sample_json_env (butlast sample_line) = Loaded (JObj [(''content'', JStr ''hi'')])"
  unfolding sample_line_def butlast_snoc by (rule loads_text) simp

lemma sample_line_text: "sample_line = chr_quote_text @ [newline]"
  if "chr_quote_text = CHR ''{'' # chr_quote # ''content'' @ [chr_quote] @ '': '' @ [chr_quote] @ ''hi'' @ [chr_quote] @ ''}''"
  using that by (simp add: sample_line_def json_str_def json_esc_def chr_quote_def chr_backslash_def Let_def)

lemma sample_qlines: "qlines sample_line = [butlast sample_line]" "CHR 0x0D \<notin> set sample_line"
  unfolding sample_line_text [OF refl]
  by (simp_all add: qlines_def up_to_last_nl_def newline_def chr_quote_def py_space_def)

lemma one_line: "1 < (10 :: nat) ^ INT_MAX_STR_DIGITS"
  by (rule one_less_power) (simp_all add: INT_MAX_STR_DIGITS_def)

lemma sample_pid_ok: "json_ok (JInt 7)"
  by (simp add: show_nat.simps [of 7] INT_MAX_STR_DIGITS_def)


theorem truncated_queue_redelivered_witness:
  "\<exists>fs'. drain_queue sample_json_env (\<lambda>s. s)
        [(''q'', Text sample_line), (''c'', Text (json_text (\<lambda>_. []) (cursor_json 7 7 ''r'' [])))] ''q'' ''c'' 7 ''r''
        (recorder (\<lambda>_ _. True)) [] =
      (fs', [] @ events_of sample_json_env (qlines sample_line), Inr \<lparr>dr_processed = length (qlines sample_line), dr_held = False\<rparr>)
    \<and> cu_line (load_cursor sample_json_env fs' ''c'') = int (length (qlines sample_line))"
proof (rule truncated_queue_redelivered)
  show "length (qlines sample_line) < 10 ^ INT_MAX_STR_DIGITS"
    using one_line by (simp only: sample_qlines list.size One_nat_def add_0)
  show "json_ok (cursor_json 7 7 ''r'' [])" using sample_pid_ok by (simp add: cursor_json_def)
qed (simp_all add: sample_qlines sample_line_loads role_checkpoint_file_def)

theorem overlong_integer_blocks_queue_witness:
  "drain_queue sample_json_env (\<lambda>s. s) [(''q'', Text (replicate 4301 CHR ''1'' @ [newline]))] ''q'' ''c'' 7 ''r''
      (recorder (\<lambda>_ _. True)) [] =
     ([(''q'', Text (replicate 4301 CHR ''1'' @ [newline]))], [] @ events_of sample_json_env [], Inl LineIntLimit)"
proof (rule overlong_integer_blocks_queue)
  let ?s = "replicate 4301 CHR ''1''"
  have "up_to_last_nl (?s @ [newline]) = ?s @ [newline]" by (rule up_to_last_nl_closed) simp_all
  moreover have "split_nl (?s @ [newline]) = split_nl ?s @ [[]]" using split_nl_append [of ?s "[]"] by simp
  moreover have "split_nl (replicate n CHR ''1'') = [replicate n CHR ''1'']" for n
    by (induction n) (simp_all add: newline_def)
  moreover have "nonblank (replicate (Suc n) CHR ''1'')" for n by (simp add: py_space_def)
  from this [of 4300] have "nonblank ?s" by (simp only: eval_nat_numeral)
  ultimately show "qlines (?s @ [newline]) = [] @ ?s # []" by (simp only: qlines_def filter.simps append_Nil append_Cons nonblank_Nil if_True if_False)
  show "CHR 0x0D \<notin> set (?s @ [newline])" by (simp add: newline_def)
qed (simp_all add: role_checkpoint_file_def)

end
