(* ===== verification/Py_Path.thy ===== *)
theory Py_Path
  imports Prelude Py_Regex
begin

text \<open>
  Pure paths of \<^verbatim>\<open>pathlib\<close> on POSIX: a path is the list of its \<^verbatim>\<open>parts\<close>, where an absolute path starts
  with the part \<^verbatim>\<open>/\<close> (or \<^verbatim>\<open>//\<close>, which POSIX keeps apart). Also the characters that a regular
  expression can consume, by which names that match a pattern are shown to be single parts.
\<close>

type_synonym path = "string list"

fun split_on :: "char \<Rightarrow> string \<Rightarrow> string list" where
  "split_on d [] = [[]]"
| "split_on d (c # s) = (if c = d then [] # split_on d s else (case split_on d s of x # xs \<Rightarrow> (c # x) # xs))"

definition path_root :: "string \<Rightarrow> string" where
  "path_root s = (if starts_with s ''//'' \<and> \<not> starts_with s ''///'' then ''//''
                  else if starts_with s ''/'' then ''/'' else [])"

text \<open>\<^verbatim>\<open>Path(text).parts\<close>: empty components and single dots are dropped, double dots are kept.\<close>

definition path_of :: "string \<Rightarrow> path" where
  "path_of s = (if path_root s = [] then [] else [path_root s])
     @ filter (\<lambda>p. p \<noteq> [] \<and> p \<noteq> ''.'') (split_on (CHR ''/'') s)"

definition is_absolute :: "path \<Rightarrow> bool" where
  "is_absolute p \<longleftrightarrow> (case p of [] \<Rightarrow> False | r # _ \<Rightarrow> starts_with r ''/'')"

fun join_slash :: "string list \<Rightarrow> string" where
  "join_slash [] = []"
| "join_slash [x] = x"
| "join_slash (x # y # xs) = x @ ''/'' @ join_slash (y # xs)"

definition as_posix :: "path \<Rightarrow> string" where
  "as_posix p = (if p = [] then ''.'' else if is_absolute p then hd p @ join_slash (tl p) else join_slash p)"

text \<open>\<^verbatim>\<open>candidate == ancestor or candidate.is_relative_to(ancestor)\<close>.\<close>

definition is_within :: "path \<Rightarrow> path \<Rightarrow> bool" where
  "is_within candidate ancestor \<longleftrightarrow>
     take (length ancestor) candidate = ancestor \<and> (ancestor = [] \<longrightarrow> \<not> is_absolute candidate)"

section \<open>Lemmas\<close>

lemma is_within_iff: "a \<noteq> [] \<Longrightarrow> is_within c a \<longleftrightarrow> (\<exists>t. c = a @ t)"
  by (auto simp: is_within_def) (metis append_take_drop_id)

lemma is_within_refl [simp]: "p \<noteq> [] \<Longrightarrow> is_within p p"
  by (simp add: is_within_def)

lemma is_within_append [simp]: "p \<noteq> [] \<Longrightarrow> is_within (p @ q) p"
  by (simp add: is_within_def)

lemma is_within_trans: "is_within a b \<Longrightarrow> is_within b c \<Longrightarrow> b \<noteq> [] \<Longrightarrow> c \<noteq> [] \<Longrightarrow> is_within a c"
  by (auto simp: is_within_iff)

text \<open>Two paths with a common descendant lie one within the other.\<close>

lemma is_within_comparable:
  "is_within c a \<Longrightarrow> is_within c b \<Longrightarrow> a \<noteq> [] \<Longrightarrow> b \<noteq> [] \<Longrightarrow> is_within a b \<or> is_within b a"
  by (auto simp: is_within_iff append_eq_append_conv2)

lemma split_on_ne [simp]: "split_on d s \<noteq> []"
  by (induction s) (auto split: list.splits)

lemma split_on_whole: "d \<notin> set s \<Longrightarrow> split_on d s = [s]"
  by (induction s) auto

lemma split_on_join: "d \<notin> set x \<Longrightarrow> split_on d (x @ d # s) = x # split_on d s"
  by (induction x) auto

text \<open>The characters a pattern can consume.\<close>

fun re_within :: "(char \<Rightarrow> bool) \<Rightarrow> regex \<Rightarrow> bool" where
  "re_within P (Cls f) \<longleftrightarrow> (\<forall>c. f c \<longrightarrow> P c)"
| "re_within P (Seq r t) \<longleftrightarrow> re_within P r \<and> re_within P t"
| "re_within P (Alt r t) \<longleftrightarrow> re_within P r \<and> re_within P t"
| "re_within P (Star r) \<longleftrightarrow> re_within P r"
| "re_within P _ \<longleftrightarrow> True"

lemma star_matches_chars:
  assumes "\<And>p q. q \<in> set (f p) \<Longrightarrow> \<exists>u. snd p = u @ snd q \<and> list_all P u"
  shows "q \<in> set (star_matches f n p) \<Longrightarrow> \<exists>u. snd p = u @ snd q \<and> list_all P u"
proof (induction n arbitrary: p)
  case (Suc n)
  then consider "q = p" | m where "m \<in> set (f p)" "q \<in> set (star_matches f n m)"
    by (auto split: if_splits)
  then show ?case
  proof cases
    case 2
    from assms [OF 2(1)] obtain u where u: "snd p = u @ snd m" "list_all P u" by blast
    from Suc.IH [OF 2(2)] obtain v where "snd m = v @ snd q" "list_all P v" by blast
    with u show ?thesis by (intro exI [of _ "u @ v"]) simp
  qed simp
qed simp

lemma re_matches_chars:
  "re_within P r \<Longrightarrow> q \<in> set (re_matches r p) \<Longrightarrow> \<exists>u. snd p = u @ snd q \<and> list_all P u"
proof (induction r arbitrary: p q)
  case (Cls f)
  then show ?case by (cases "(Cls f, p)" rule: re_matches.cases) (auto split: if_splits)
next
  case (Seq r t)
  then obtain m where m: "m \<in> set (re_matches r p)" "q \<in> set (re_matches t m)" by auto
  from Seq.IH(1) [OF _ m(1)] Seq.IH(2) [OF _ m(2)] Seq.prems(1)
  obtain u v where "snd p = u @ snd m" "list_all P u" "snd m = v @ snd q" "list_all P v" by auto
  then show ?case by (intro exI [of _ "u @ v"]) simp
next
  case (Star r)
  show ?case
    by (rule star_matches_chars [of "re_matches r" P]) (use Star in auto)
next
  case (WordB)
  then show ?case by (cases p) (auto split: if_splits)
next
  case (LookAt f)
  then show ?case by (cases p) (auto split: if_splits)
qed auto

lemma re_fullmatch_chars: "re_within P r \<Longrightarrow> re_fullmatch r s \<Longrightarrow> list_all P s"
  using re_matches_chars [of P r _ "(None, s)"] by (fastforce simp: re_fullmatch_def)

lemma re_within_seq [simp]: "re_within P (re_seq rs) \<longleftrightarrow> list_all (re_within P) rs"
  by (induction rs) (auto simp: re_seq_def)

lemma re_within_lit [simp]: "re_within P (re_lit s) \<longleftrightarrow> list_all P s"
  by (induction s) (auto simp: re_lit_def)

lemma re_within_at_least [simp]: "re_within P r \<Longrightarrow> re_within P (re_at_least n r)"
  by (induction n) (auto simp: re_at_least_def re_times_def)

end
