(* ===== verification/Holdout.thy ===== *)
theory Holdout
  imports Json_Parser Py_Path
begin

text \<open>
  Evaluator-isolated holdouts (\<^verbatim>\<open>fleet_kernel/eval_plane/holdout_provider.py\<close>): the case identifiers, the
  principal under evaluation with the grants of its sandbox, the fetch authorization, and the
  filesystem store with its placement check and its isolation report.

  The operating system's part is the record \<open>holdout_env\<close>: the resolution of paths, the kind of a file
  and its decoded text. \<open>nonfinite\<close> marks the values that stand for NaN and the infinities, which
  \<^verbatim>\<open>json.loads\<close> reads and \<^verbatim>\<open>json.dumps(allow_nan=False)\<close> refuses.
\<close>

section \<open>Vocabulary\<close>

datatype holdout_error =
    BadCaseId
  | UnknownPart
  | StagingWithoutSandbox
  | NoReadableRoots
  | OsRootsMissing "string list"
  | NoStagingRoot
  | StagingNotDeclared
  | StagingInOsRoots
  | NoAuthorization
  | NotSealed
  | StoreReachable
  | RootTarget
  | NotProvisioned
  | StoreUnreadable
  | StoreNotDirectory
  | StoreInRepository
  | StoreInOsRoot
  | StoreInJobRoot
  | BundleUnreadable
  | BundleNotJson
  | BundleParts
  | BundlePartNotObject
  | TextDecode
  | IntegerLimit
  | NotSerializable

datatype text_read = TextMissing | TextOsError | TextNotUtf8 | TextIs string

record holdout_env = py_env +
  os_resolve :: "path \<Rightarrow> path"
  os_resolve_strict :: "path \<Rightarrow> path option"
  os_is_dir :: "path \<Rightarrow> bool"
  os_is_file :: "path \<Rightarrow> bool"
  os_read_text :: "path \<Rightarrow> text_read"
  nonfinite :: "rat \<Rightarrow> bool"
  reader :: json_env

definition HOLDOUT_SCHEME :: string where
  "HOLDOUT_SCHEME = ''holdout://''"

definition chr_id :: "char \<Rightarrow> bool" where
  "chr_id c \<longleftrightarrow> chr_lower c \<or> chr_digit c"

definition chr_idw :: "char \<Rightarrow> bool" where
  "chr_idw c \<longleftrightarrow> chr_id c \<or> c = CHR ''_''"

definition CASE_ID_PATTERN :: regex where
  "CASE_ID_PATTERN = re_seq [Cls chr_id, Star (Cls chr_idw),
     Star (re_seq [Cls (chr_in ''.-''), re_at_least 1 (Cls chr_idw)])]"

definition MAX_CASE_ID_LENGTH :: nat where
  "MAX_CASE_ID_LENGTH = 200"

definition BROKER_SANDBOX_READ_ROOTS :: "path list" where
  "BROKER_SANDBOX_READ_ROOTS = map path_of
     [''/System'', ''/usr'', ''/bin'', ''/sbin'', ''/Library/Apple'', ''/opt/homebrew/Cellar'']"

definition RESOLVED_BROKER_READ_ROOTS :: "'a holdout_env_scheme \<Rightarrow> path list" where
  "RESOLVED_BROKER_READ_ROOTS E = map (os_resolve E) BROKER_SANDBOX_READ_ROOTS"

definition BUNDLE_PARTS :: "string list" where
  "BUNDLE_PARTS = [''expected'', ''graders'', ''fixture'']"

datatype Confinement = BROKER_SANDBOX | UNCONFINED

definition normalize_case_id :: "string \<Rightarrow> holdout_error + string" where
  "normalize_case_id v =
     (let case_id = py_strip v
      in if case_id = [] \<or> MAX_CASE_ID_LENGTH < length case_id \<or> \<not> re_fullmatch CASE_ID_PATTERN case_id
         then Inl BadCaseId else Inr case_id)"

definition holdout_ref :: "string \<Rightarrow> string \<Rightarrow> holdout_error + string" where
  "holdout_ref case_id part =
     (if part \<notin> set BUNDLE_PARTS then Inl UnknownPart
      else res_bind (normalize_case_id case_id) (\<lambda>i. Inr (HOLDOUT_SCHEME @ i @ ''/'' @ part)))"

definition canonical_json_bytes :: "('a holdout_env_scheme) \<Rightarrow> json \<Rightarrow> string option" where
  "canonical_json_bytes E j =
     (if json_serializable (nonfinite E) j then Some (json_print_utf8 (float_repr E) (json_canon j)) else None)"

definition digest :: "('a holdout_env_scheme) \<Rightarrow> json \<Rightarrow> string option" where
  "digest E j = map_option (sha256 E) (canonical_json_bytes E j)"

section \<open>The principal under evaluation\<close>

record TargetPrincipal =
  tp_role_type :: string
  tp_os_uid :: int
  tp_confinement :: Confinement
  tp_workspace_root :: "path option"
  tp_readable_roots :: "path list"
  tp_staging_root :: "path option"

definition missing_roots :: "('a holdout_env_scheme) \<Rightarrow> path list \<Rightarrow> string list" where
  "missing_roots E declared =
     sort (map as_posix (filter (\<lambda>r. r \<notin> set declared) (RESOLVED_BROKER_READ_ROOTS E)))"

definition TargetPrincipal_check ::
    "('a holdout_env_scheme) \<Rightarrow> TargetPrincipal \<Rightarrow> holdout_error + TargetPrincipal" where
  "TargetPrincipal_check E t =
     (case tp_confinement t of
        UNCONFINED \<Rightarrow> if tp_staging_root t \<noteq> None then Inl StagingWithoutSandbox else Inr t
      | BROKER_SANDBOX \<Rightarrow>
          if tp_readable_roots t = [] then Inl NoReadableRoots
          else if missing_roots E (tp_readable_roots t) \<noteq> []
          then Inl (OsRootsMissing (missing_roots E (tp_readable_roots t)))
          else (case tp_staging_root t of
              None \<Rightarrow> Inl NoStagingRoot
            | Some staging \<Rightarrow>
                if \<not> is_absolute staging \<or> staging \<notin> set (tp_readable_roots t) then Inl StagingNotDeclared
                else if list_ex (is_within staging) (RESOLVED_BROKER_READ_ROOTS E) then Inl StagingInOsRoots
                else Inr t))"

definition broker_confined ::
    "('a holdout_env_scheme) \<Rightarrow> string \<Rightarrow> int \<Rightarrow> path \<Rightarrow> path \<Rightarrow> holdout_error + TargetPrincipal" where
  "broker_confined E role_type os_uid workspace_root staging_root =
     (let staging = os_resolve E staging_root
      in TargetPrincipal_check E
           \<lparr>tp_role_type = role_type, tp_os_uid = os_uid, tp_confinement = BROKER_SANDBOX,
             tp_workspace_root = Some workspace_root,
             tp_readable_roots = RESOLVED_BROKER_READ_ROOTS E @ [staging],
             tp_staging_root = Some staging\<rparr>)"

definition unconfined ::
    "('a holdout_env_scheme) \<Rightarrow> string \<Rightarrow> int \<Rightarrow> path option \<Rightarrow> holdout_error + TargetPrincipal" where
  "unconfined E role_type os_uid workspace_root =
     TargetPrincipal_check E
       \<lparr>tp_role_type = role_type, tp_os_uid = os_uid, tp_confinement = UNCONFINED,
         tp_workspace_root = workspace_root, tp_readable_roots = [], tp_staging_root = None\<rparr>"

section \<open>Fetch authorization\<close>

text \<open>
  The secret is the identity of the object that the gate closes over; \<^const>\<open>None\<close> is any object
  that is not a \<^verbatim>\<open>FetchAuthorization\<close>.
\<close>

record FetchAuthorization =
  fa_case_id :: string
  fa_attempt_id :: string
  fa_secret :: nat

definition mint_authorization :: "nat \<Rightarrow> string \<Rightarrow> string \<Rightarrow> FetchAuthorization" where
  "mint_authorization secret case_id attempt_id =
     \<lparr>fa_case_id = case_id, fa_attempt_id = attempt_id, fa_secret = secret\<rparr>"

definition verify_authorization ::
    "nat \<Rightarrow> FetchAuthorization option \<Rightarrow> string \<Rightarrow> holdout_error + unit" where
  "verify_authorization secret authorization case_id =
     (case authorization of
        None \<Rightarrow> Inl NoAuthorization
      | Some a \<Rightarrow> if fa_secret a \<noteq> secret \<or> fa_case_id a \<noteq> case_id then Inl NoAuthorization else Inr ())"

record HoldoutContext =
  hc_attempt_id :: string
  hc_target :: TargetPrincipal
  hc_trajectory_sealed :: bool

record IsolationReport =
  ir_isolated :: bool
  ir_mechanism :: string

record HoldoutBundle =
  hb_case_id :: string
  hb_content_sha256 :: string
  hb_expected :: "(string \<times> json) list"
  hb_graders :: "(string \<times> json) list"
  hb_fixture :: "(string \<times> json) list"

definition bundle_repr :: "('a holdout_env_scheme) \<Rightarrow> HoldoutBundle \<Rightarrow> string" where
  "bundle_repr E b = ''HoldoutBundle(case_id='' @ py_repr E (hb_case_id b) @ '', content_sha256=''
     @ py_repr E (hb_content_sha256 b) @ '', contents=<redacted>)''"

definition redacted_summary :: "('a holdout_env_scheme) \<Rightarrow> HoldoutBundle \<Rightarrow> holdout_error + json" where
  "redacted_summary E b =
     (case (digest E (JObj (hb_expected b)), digest E (JObj (hb_graders b)), digest E (JObj (hb_fixture b))) of
        (Some e, Some g, Some f) \<Rightarrow> Inr (JObj
          [(''case_id'', JStr (hb_case_id b)), (''content_sha256'', JStr (hb_content_sha256 b)),
           (''part_digests'', JObj [(''expected'', JStr e), (''graders'', JStr g), (''fixture'', JStr f)])])
      | _ \<Rightarrow> Inl NotSerializable)"

section \<open>The filesystem store\<close>

text \<open>The resolved root is all the state a constructed provider has.\<close>

definition open_store ::
    "('a holdout_env_scheme) \<Rightarrow> path \<Rightarrow> path \<Rightarrow> path list \<Rightarrow> holdout_error + path" where
  "open_store E store repo_root broker_job_roots =
     (case os_resolve_strict E store of
        None \<Rightarrow> Inl StoreUnreadable
      | Some resolved \<Rightarrow>
          let repo = os_resolve E repo_root
          in if \<not> os_is_dir E resolved then Inl StoreNotDirectory
             else if is_within resolved repo \<or> is_within repo resolved then Inl StoreInRepository
             else if list_ex (is_within resolved) BROKER_SANDBOX_READ_ROOTS then Inl StoreInOsRoot
             else if list_ex (\<lambda>j. is_within resolved (os_resolve E j) \<or> is_within (os_resolve E j) resolved)
                       broker_job_roots
             then Inl StoreInJobRoot
             else Inr resolved)"

definition bundle_path :: "path \<Rightarrow> string \<Rightarrow> holdout_error + path" where
  "bundle_path store case_id =
     res_bind (normalize_case_id case_id) (\<lambda>i. Inr (store @ [i @ ''.holdout.json'']))"

definition read_payload ::
    "('a holdout_env_scheme) \<Rightarrow> path \<Rightarrow> string \<Rightarrow> holdout_error + (string \<times> json) list" where
  "read_payload E store case_id =
     res_bind (bundle_path store case_id) (\<lambda>path.
       case os_read_text E path of
         TextMissing \<Rightarrow> Inl NotProvisioned
       | TextOsError \<Rightarrow> Inl BundleUnreadable
       | TextNotUtf8 \<Rightarrow> Inl TextDecode
       | TextIs raw \<Rightarrow>
           (case json_loads (reader E) raw of
              DecodeError \<Rightarrow> Inl BundleNotJson
            | IntLimitError \<Rightarrow> Inl IntegerLimit
            | Loaded (JObj payload) \<Rightarrow>
                if set (map fst payload) \<noteq> set BUNDLE_PARTS then Inl BundleParts
                else if list_ex (\<lambda>part. case map_of payload part of Some (JObj _) \<Rightarrow> False | _ \<Rightarrow> True) BUNDLE_PARTS
                then Inl BundlePartNotObject
                else Inr payload
            | Loaded _ \<Rightarrow> Inl BundleParts))"

definition has_case :: "('a holdout_env_scheme) \<Rightarrow> path \<Rightarrow> string \<Rightarrow> holdout_error + bool" where
  "has_case E store case_id = res_bind (bundle_path store case_id) (\<lambda>path. Inr (os_is_file E path))"

definition payload_digest :: "('a holdout_env_scheme) \<Rightarrow> (string \<times> json) list \<Rightarrow> holdout_error + string" where
  "payload_digest E payload =
     (case digest E (JObj payload) of None \<Rightarrow> Inl NotSerializable | Some d \<Rightarrow> Inr d)"

definition bundle_digest :: "('a holdout_env_scheme) \<Rightarrow> path \<Rightarrow> string \<Rightarrow> holdout_error + string" where
  "bundle_digest E store case_id =
     res_bind (normalize_case_id case_id) (\<lambda>i.
     res_bind (read_payload E store i) (payload_digest E))"

definition isolation_report ::
    "('a holdout_env_scheme) \<Rightarrow> path \<Rightarrow> TargetPrincipal \<Rightarrow> holdout_error + IsolationReport" where
  "isolation_report E store t =
     (if tp_os_uid t = 0 then Inl RootTarget
      else if (case tp_workspace_root t of None \<Rightarrow> False | Some w \<Rightarrow> is_within store (os_resolve E w))
      then Inr \<lparr>ir_isolated = False, ir_mechanism = ''workspace_containment''\<rparr>
      else (case tp_confinement t of
          BROKER_SANDBOX \<Rightarrow>
            if (case tp_staging_root t of None \<Rightarrow> True | Some s \<Rightarrow> s \<notin> set (tp_readable_roots t))
            then Inl NoStagingRoot
            else if missing_roots E (tp_readable_roots t) \<noteq> []
            then Inl (OsRootsMissing (missing_roots E (tp_readable_roots t)))
            else Inr \<lparr>ir_isolated = \<not> list_ex (is_within store) (tp_readable_roots t),
                       ir_mechanism = ''broker_sandbox_confinement''\<rparr>
        | UNCONFINED \<Rightarrow> Inr \<lparr>ir_isolated = False, ir_mechanism = ''unconfined_role_unevaluable''\<rparr>))"

definition load_bundle ::
    "('a holdout_env_scheme) \<Rightarrow> nat \<Rightarrow> path \<Rightarrow> string \<Rightarrow> FetchAuthorization option \<Rightarrow> holdout_error + HoldoutBundle" where
  "load_bundle E secret store case_id authorization =
     res_bind (verify_authorization secret authorization case_id) (\<lambda>_.
     res_bind (read_payload E store case_id) (\<lambda>payload.
     res_bind (payload_digest E payload) (\<lambda>d.
       let part = (\<lambda>p. case map_of payload p of Some (JObj kvs) \<Rightarrow> kvs | _ \<Rightarrow> [])
       in Inr \<lparr>hb_case_id = case_id, hb_content_sha256 = d, hb_expected = part ''expected'',
                 hb_graders = part ''graders'', hb_fixture = part ''fixture''\<rparr>)))"

text \<open>
  \<^verbatim>\<open>HoldoutProvider.fetch_by_case_id\<close> over the two hooks that an implementation supplies.
\<close>

definition fetch_with ::
    "(TargetPrincipal \<Rightarrow> holdout_error + IsolationReport)
     \<Rightarrow> (string \<Rightarrow> FetchAuthorization option \<Rightarrow> holdout_error + HoldoutBundle)
     \<Rightarrow> nat \<Rightarrow> string \<Rightarrow> HoldoutContext \<Rightarrow> holdout_error + HoldoutBundle" where
  "fetch_with report load secret case_id grading =
     res_bind (normalize_case_id case_id) (\<lambda>normalized.
       if \<not> hc_trajectory_sealed grading then Inl NotSealed
       else res_bind (report (hc_target grading)) (\<lambda>r.
         if \<not> ir_isolated r then Inl StoreReachable
         else load normalized (Some (mint_authorization secret normalized (hc_attempt_id grading)))))"

definition fetch_by_case_id ::
    "('a holdout_env_scheme) \<Rightarrow> nat \<Rightarrow> path \<Rightarrow> string \<Rightarrow> HoldoutContext \<Rightarrow> holdout_error + HoldoutBundle" where
  "fetch_by_case_id E secret store =
     fetch_with (isolation_report E store) (load_bundle E secret store) secret"

section \<open>Lemmas on identifiers and paths\<close>

lemma case_id_chars: "re_fullmatch CASE_ID_PATTERN s \<Longrightarrow> list_all (\<lambda>c. chr_idw c \<or> c = CHR ''.'' \<or> c = CHR ''-'') s"
  by (rule re_fullmatch_chars [of _ CASE_ID_PATTERN]) (auto simp: CASE_ID_PATTERN_def chr_idw_def chr_in_def)

lemma id_chr_solid: "chr_idw c \<or> c = CHR ''.'' \<or> c = CHR ''-'' \<Longrightarrow> \<not> py_space c \<and> c \<noteq> CHR ''/''"
  by (auto simp: chr_idw_def chr_id_def chr_lower_def chr_digit_def chr_range_def py_space_def)

lemma normalize_case_id_Inr:
  assumes "normalize_case_id v = Inr i"
  shows "i = py_strip v" "i \<noteq> []" "length i \<le> 200" "CHR ''/'' \<notin> set i" "normalize_case_id i = Inr i"
proof -
  have i: "i = py_strip v" "i \<noteq> []" "re_fullmatch CASE_ID_PATTERN i" "length i \<le> 200"
    using assms by (auto simp: normalize_case_id_def Let_def MAX_CASE_ID_LENGTH_def split: if_splits)
  then show "i = py_strip v" "i \<noteq> []" "length i \<le> 200" by simp_all
  have solid: "\<forall>c \<in> set i. \<not> py_space c \<and> c \<noteq> CHR ''/''"
    using case_id_chars [OF i(3)] id_chr_solid by (auto simp: list_all_iff)
  then show "CHR ''/'' \<notin> set i" by auto
  have "py_strip i = i" using strip_solid [of i "[]"] i(2) solid by simp
  then show "normalize_case_id i = Inr i"
    using i by (simp add: normalize_case_id_def Let_def MAX_CASE_ID_LENGTH_def)
qed

lemma bundle_path_Inr:
  "bundle_path store v = Inr p \<longleftrightarrow> (\<exists>i. normalize_case_id v = Inr i \<and> p = store @ [i @ ''.holdout.json''])"
  by (auto simp: bundle_path_def res_bind_Inr_iff)

text \<open>Two different cases never share a bundle file, and the file is a direct child of the store.\<close>

lemma bundle_path_inj:
  "bundle_path store v = Inr p \<Longrightarrow> bundle_path store w = Inr p \<Longrightarrow> normalize_case_id v = normalize_case_id w"
  by (auto simp: bundle_path_Inr)

lemma within_child:
  assumes "is_within (store @ [f]) r" and "\<not> is_within store r" and "r \<noteq> []"
  shows "r = store @ [f]"
proof -
  obtain t where t: "store @ [f] = r @ t" using assms(1,3) by (auto simp: is_within_iff)
  show ?thesis
  proof (cases t rule: rev_exhaust)
    case (snoc u x)
    then have "store = r @ u" using t by simp
    with assms(2,3) show ?thesis by simp
  qed (use t in simp)
qed

section \<open>The provider's contract\<close>

text \<open>
  What a grader may rely on when it names a case: the bundle it is handed belongs to the named
  case and hashes to the digest the store answers for it, and it is handed out only after the
  turn is sealed and to a target from which the store is isolated.
\<close>

locale holdout_provider =
  fixes bundle_digest :: "string \<Rightarrow> holdout_error + string"
    and report :: "TargetPrincipal \<Rightarrow> holdout_error + IsolationReport"
    and fetch :: "string \<Rightarrow> HoldoutContext \<Rightarrow> holdout_error + HoldoutBundle"
  assumes fetch_digest: "fetch c g = Inr b \<Longrightarrow> bundle_digest c = Inr (hb_content_sha256 b)"
    and fetch_sealed: "fetch c g = Inr b \<Longrightarrow> hc_trajectory_sealed g"
    and fetch_isolated: "fetch c g = Inr b \<Longrightarrow> \<exists>r. report (hc_target g) = Inr r \<and> ir_isolated r"
    and fetch_case: "fetch c g = Inr b \<Longrightarrow> normalize_case_id c = Inr (hb_case_id b)"
begin

text \<open>A case that was pinned at a digest is graded on that content, whoever asks and however often.\<close>

lemma pinned_content:
  "bundle_digest c = Inr d \<Longrightarrow> fetch c g = Inr b \<Longrightarrow> hb_content_sha256 b = d"
  using fetch_digest by fastforce

lemma refused_before_seal: "\<not> hc_trajectory_sealed g \<Longrightarrow> \<exists>e. fetch c g = Inl e"
  using fetch_sealed by (cases "fetch c g") auto

end

lemma fetch_with_Inr:
  "fetch_with report load secret c g = Inr b \<longleftrightarrow>
     (\<exists>i r. normalize_case_id c = Inr i \<and> hc_trajectory_sealed g \<and> report (hc_target g) = Inr r
        \<and> ir_isolated r \<and> load i (Some (mint_authorization secret i (hc_attempt_id g))) = Inr b)"
  by (auto simp: fetch_with_def res_bind_Inr_iff)

lemma load_bundle_Inr:
  "load_bundle E secret store i a = Inr b \<Longrightarrow>
     \<exists>payload. verify_authorization secret a i = Inr () \<and> read_payload E store i = Inr payload
       \<and> payload_digest E payload = Inr (hb_content_sha256 b) \<and> hb_case_id b = i"
  by (auto simp: load_bundle_def res_bind_Inr_iff Let_def)

lemma verify_minted [simp]: "verify_authorization secret (Some (mint_authorization secret i a)) i = Inr ()"
  by (simp add: verify_authorization_def mint_authorization_def)

interpretation file_store: holdout_provider "bundle_digest E store" "isolation_report E store"
    "fetch_by_case_id E secret store" for E :: "'a holdout_env_scheme" and store secret
proof
  fix c g b
  assume f: "fetch_by_case_id E secret store c g = Inr b"
  then obtain i r where i: "normalize_case_id c = Inr i" "hc_trajectory_sealed g"
      "isolation_report E store (hc_target g) = Inr r" "ir_isolated r"
      "load_bundle E secret store i (Some (mint_authorization secret i (hc_attempt_id g))) = Inr b"
    by (auto simp: fetch_by_case_id_def fetch_with_Inr)
  note b = load_bundle_Inr [OF i(5)]
  show "bundle_digest E store c = Inr (hb_content_sha256 b)"
    using b i(1) by (auto simp: bundle_digest_def)
  show "hc_trajectory_sealed g" by (rule i(2))
  show "\<exists>r. isolation_report E store (hc_target g) = Inr r \<and> ir_isolated r" using i(3,4) by blast
  show "normalize_case_id c = Inr (hb_case_id b)" using b i(1) by auto
qed

lemma missing_roots_Nil:
  "missing_roots E declared = [] \<longleftrightarrow> set (RESOLVED_BROKER_READ_ROOTS E) \<subseteq> set declared"
proof -
  have "missing_roots E declared = [] \<longleftrightarrow> set (missing_roots E declared) = {}" by simp
  then show ?thesis unfolding missing_roots_def set_sort by auto
qed

lemma isolation_report_True:
  "isolation_report E store t = Inr r \<and> ir_isolated r \<longleftrightarrow>
     tp_os_uid t \<noteq> 0 \<and> tp_confinement t = BROKER_SANDBOX
     \<and> (\<forall>w. tp_workspace_root t = Some w \<longrightarrow> \<not> is_within store (os_resolve E w))
     \<and> (\<exists>s. tp_staging_root t = Some s \<and> s \<in> set (tp_readable_roots t))
     \<and> set (RESOLVED_BROKER_READ_ROOTS E) \<subseteq> set (tp_readable_roots t)
     \<and> (\<forall>q \<in> set (tp_readable_roots t). \<not> is_within store q)
     \<and> r = \<lparr>ir_isolated = True, ir_mechanism = ''broker_sandbox_confinement''\<rparr>"
  by (cases "tp_confinement t")
    (auto simp: isolation_report_def missing_roots_Nil list_ex_iff split: option.splits if_splits)

section \<open>Properties\<close>

text \<open>
  C11. Labels are handed out only where the target cannot follow: when the store was opened and a
  fetch returns a bundle, the target's turn is sealed, the target is not root and is confined
  by the broker's sandbox with all grants of the profile declared, and the file that was read,
  one direct child of the store named after the case, lies outside the repository, outside every
  broker job root, and under none of the target's readable roots and its workspace (unless such
  a grant names that very file). The bundle carries the digest the store answers for the case.
\<close>

theorem fetched_bundle_out_of_reach:
  assumes "open_store E base repo jobs = Inr store"
    and "fetch_by_case_id E secret store c g = Inr b"
    and "\<forall>r \<in> set (tp_readable_roots (hc_target g)). r \<noteq> []" and "\<forall>p. os_resolve E p \<noteq> []"
  shows "hc_trajectory_sealed g \<and> tp_os_uid (hc_target g) \<noteq> 0
    \<and> tp_confinement (hc_target g) = BROKER_SANDBOX
    \<and> set (RESOLVED_BROKER_READ_ROOTS E) \<subseteq> set (tp_readable_roots (hc_target g))
    \<and> \<not> is_within store (os_resolve E repo)
    \<and> (\<forall>j \<in> set jobs. \<not> is_within store (os_resolve E j) \<and> \<not> is_within (os_resolve E j) store)
    \<and> bundle_digest E store c = Inr (hb_content_sha256 b)
    \<and> (\<exists>p name. bundle_path store c = Inr p \<and> p = store @ [name] \<and> CHR ''/'' \<notin> set name
         \<and> (\<forall>r. r \<in> set (tp_readable_roots (hc_target g))
                \<or> (\<exists>w. tp_workspace_root (hc_target g) = Some w \<and> r = os_resolve E w)
              \<longrightarrow> is_within p r \<longrightarrow> r = p))"
proof -
  obtain r where r: "isolation_report E store (hc_target g) = Inr r" "ir_isolated r"
    using file_store.fetch_isolated [OF assms(2)] by blast
  note iso = isolation_report_True [THEN iffD1, OF conjI [OF r]]
  note i = file_store.fetch_case [OF assms(2)]
  let ?name = "hb_case_id b @ ''.holdout.json''"
  have place: "\<not> is_within store (os_resolve E repo)"
      "\<forall>j \<in> set jobs. \<not> is_within store (os_resolve E j) \<and> \<not> is_within (os_resolve E j) store"
    using assms(1) by (auto simp: open_store_def Let_def list_ex_iff split: option.splits if_splits)
  have "bundle_path store c = Inr (store @ [?name])" using i by (auto simp: bundle_path_Inr)
  moreover have "CHR ''/'' \<notin> set ?name" using normalize_case_id_Inr(4) [OF i] by simp
  moreover have "q = store @ [?name]"
    if "q \<in> set (tp_readable_roots (hc_target g))
      \<or> (\<exists>w. tp_workspace_root (hc_target g) = Some w \<and> q = os_resolve E w)"
      and "is_within (store @ [?name]) q" for q
    using iso assms(3,4) that within_child [OF that(2)] by blast
  ultimately have "\<exists>p name. bundle_path store c = Inr p \<and> p = store @ [name] \<and> CHR ''/'' \<notin> set name
      \<and> (\<forall>r. r \<in> set (tp_readable_roots (hc_target g))
             \<or> (\<exists>w. tp_workspace_root (hc_target g) = Some w \<and> r = os_resolve E w)
           \<longrightarrow> is_within p r \<longrightarrow> r = p)" by blast
  with iso place file_store.fetch_sealed [OF assms(2)] file_store.fetch_digest [OF assms(2)]
  show ?thesis by simp
qed

definition sample_payload :: "(string \<times> json) list" where
  "sample_payload = [(''expected'', JObj []), (''graders'', JObj []), (''fixture'', JObj [])]"

definition sample_store :: path where
  "sample_store = [''/'', ''srv'', ''holdouts'']"

definition sample_holdout_env :: holdout_env where
  "sample_holdout_env = \<lparr>sha256 = (\<lambda>s. s), float_repr = (\<lambda>_. ''0.0''), float_fixed3 = (\<lambda>_. ''0.000''),
     float_sum = sum_list, py_repr = (\<lambda>s. s), uuid_str = show_nat, isoformat = (\<lambda>_. ''now''),
     os_resolve = (\<lambda>p. if p = [] then [''/''] else p), os_resolve_strict = Some, os_is_dir = (\<lambda>_. True),
     os_is_file = (\<lambda>p. p = sample_store @ [''c.holdout.json'']),
     os_read_text = (\<lambda>p. if p = sample_store @ [''c.holdout.json'']
        then TextIs (json_text (\<lambda>_. []) (JObj sample_payload)) else TextMissing),
     nonfinite = (\<lambda>_. False), reader = \<lparr>float_of = (\<lambda>_. 0), wide = (\<lambda>_. CHR ''?'')\<rparr>\<rparr>"

definition sample_principal :: TargetPrincipal where
  "sample_principal = \<lparr>tp_role_type = ''bookkeeper'', tp_os_uid = 501, tp_confinement = BROKER_SANDBOX,
     tp_workspace_root = Some [''/'', ''work''],
     tp_readable_roots = RESOLVED_BROKER_READ_ROOTS sample_holdout_env @ [[''/'', ''jobs'', ''1'']],
     tp_staging_root = Some [''/'', ''jobs'', ''1'']\<rparr>"

definition sample_sealed :: HoldoutContext where
  "sample_sealed = \<lparr>hc_attempt_id = ''a'', hc_target = sample_principal, hc_trajectory_sealed = True\<rparr>"

lemma sample_case_id: "normalize_case_id ''c'' = Inr ''c''"
  by code_simp

lemma sample_os_roots:
  "RESOLVED_BROKER_READ_ROOTS sample_holdout_env = [[''/'', ''System''], [''/'', ''usr''], [''/'', ''bin''],
     [''/'', ''sbin''], [''/'', ''Library'', ''Apple''], [''/'', ''opt'', ''homebrew'', ''Cellar'']]"
  by code_simp

lemma sample_payload_loads: "json_loads J (json_text fr (JObj sample_payload)) = Loaded (JObj sample_payload)"
  by (rule loads_text) (simp add: sample_payload_def)

lemma sample_payload_read: "read_payload sample_holdout_env sample_store ''c'' = Inr sample_payload"
proof -
  have "set (map fst sample_payload) = set BUNDLE_PARTS"
    by (simp add: sample_payload_def BUNDLE_PARTS_def)
  moreover have "\<not> list_ex (\<lambda>part. case map_of sample_payload part of Some (JObj _) \<Rightarrow> False | _ \<Rightarrow> True) BUNDLE_PARTS"
    by (simp add: sample_payload_def BUNDLE_PARTS_def)
  ultimately show ?thesis
    by (simp add: read_payload_def bundle_path_def sample_case_id sample_holdout_env_def sample_payload_loads
        del: json_text.simps)
qed

lemma sample_bundle_digest: "\<exists>d. payload_digest sample_holdout_env sample_payload = Inr d"
  by (simp add: payload_digest_def digest_def canonical_json_bytes_def sample_payload_def)

lemma sample_isolated:
  "isolation_report sample_holdout_env sample_store sample_principal
     = Inr \<lparr>ir_isolated = True, ir_mechanism = ''broker_sandbox_confinement''\<rparr>"
  by code_simp

lemma sample_fetch: "\<exists>b. fetch_by_case_id sample_holdout_env 7 sample_store ''c'' sample_sealed = Inr b"
  using sample_bundle_digest sample_isolated
  by (auto simp: fetch_by_case_id_def fetch_with_def sample_case_id sample_sealed_def load_bundle_def
      sample_payload_read Let_def)

lemma sample_opened: "open_store sample_holdout_env sample_store [''/'', ''repo''] [[''/'', ''jobs'']] = Inr sample_store"
  by code_simp

theorem fetched_bundle_out_of_reach_witness:
  "\<exists>b. fetch_by_case_id sample_holdout_env 7 sample_store ''c'' sample_sealed = Inr b
     \<and> bundle_digest sample_holdout_env sample_store ''c'' = Inr (hb_content_sha256 b)
     \<and> tp_confinement (hc_target sample_sealed) = BROKER_SANDBOX"
proof -
  obtain b where b: "fetch_by_case_id sample_holdout_env 7 sample_store ''c'' sample_sealed = Inr b"
    using sample_fetch by blast
  have "\<forall>r \<in> set (tp_readable_roots (hc_target sample_sealed)). r \<noteq> []"
    by (auto simp: sample_sealed_def sample_principal_def sample_os_roots)
  moreover have "\<forall>p. os_resolve sample_holdout_env p \<noteq> []" by (simp add: sample_holdout_env_def)
  ultimately show ?thesis
    using fetched_bundle_out_of_reach [OF sample_opened b] b by blast
qed

end
