(* ===== verification/Suite_Package.thy ===== *)
theory Suite_Package
  imports Graders Holdout "HOL-Library.Product_Lexorder"
begin

text \<open>
  Versioned suite and case packages (\<^verbatim>\<open>fleet_kernel/eval_plane/suite_package.py\<close>): the field readers, the
  definitions of suites and cases with their parsers, the package lints (lineage, policy, holdout
  containment, grader coverage, pinned files), and the loading of packages and registries.

  A payload is what \<^verbatim>\<open>json.loads\<close> returned. The location prefix
  \<^verbatim>\<open>where\<close> of the messages is left out. \<open>date_of\<close> is \<^verbatim>\<open>date.fromisoformat\<close>, with a date as its ordinal, and
  \<open>os_read_bytes\<close> reads a file.
\<close>

section \<open>Vocabulary\<close>

datatype bytes_read = BytesMissing | BytesOsError | BytesAre string

record package_env = holdout_env +
  os_read_bytes :: "path \<Rightarrow> bytes_read"
  date_of :: "string \<Rightarrow> int option"

text \<open>
  The module's one exception by the fixed words of its message and the keys or references it names;
  the exceptions of the modules it calls; and the \<^verbatim>\<open>ValueError\<close> of an overlong integer literal, which
  is not caught.
\<close>

datatype package_error =
    EvalPackageError string "string list"
  | GraderPolicy policy_error
  | ProviderError holdout_error
  | UncaughtValueError

definition id_pattern :: regex where
  "id_pattern = re_seq [Cls chr_id, Star (Cls chr_idw), Star (re_seq [re_lit ''.'', re_at_least 1 (Cls chr_idw)])]"

definition SUITE_ID_PATTERN :: regex where
  "SUITE_ID_PATTERN = id_pattern"

definition CAPABILITY_PATTERN :: regex where
  "CAPABILITY_PATTERN = id_pattern"

definition SHA256_PATTERN :: regex where
  "SHA256_PATTERN = re_times 64 (Cls (\<lambda>c. c \<in> set hex_digits))"

definition TENANT_PATTERN :: regex where
  "TENANT_PATTERN = re_seq [Cls chr_id, Star (Cls (\<lambda>c. chr_idw c \<or> c = CHR ''-''))]"

definition SUITE_FILE_SUFFIX :: string where
  "SUITE_FILE_SUFFIX = ''.suite.json''"

definition CASE_FILE_SUFFIX :: string where
  "CASE_FILE_SUFFIX = ''.case.json''"

definition SKILL_SELECTION_CAPABILITY_PREFIX :: string where
  "SKILL_SELECTION_CAPABILITY_PREFIX = ''skill_selection''"

definition MAX_TEXT_LENGTH :: nat where
  "MAX_TEXT_LENGTH = 4096"

definition MAX_ATTEMPTS :: int where
  "MAX_ATTEMPTS = 25"

datatype OwningScope = COMPANY_FLEET | SHARED_RESTAURANT_FLEET | INTEGRATION | WORKFLOW | TENANT

datatype RiskClass = Risk_LOW | Risk_MODERATE | Risk_HIGH | Risk_CRITICAL

datatype CaseSourceType =
  INCIDENT | ACCEPTED_SUCCESS | Source_SYNTHETIC | GOLDEN_FIXTURE | Source_HOLDOUT | MUTATION | PRODUCTION_SAMPLE

datatype Visibility = DEVELOPMENT | HOLDOUT

datatype PrivacyClass = Privacy_SYNTHETIC | DEIDENTIFIED | TENANT_PRIVATE

datatype LifecycleState = DRAFT | ACTIVE | DEPRECATED | RETIRED

datatype AggregateRule = ALL_ATTEMPTS_PASS | MAJORITY_ATTEMPTS_PASS | ANY_ATTEMPT_PASSES

datatype CriticalFailureRule = SINGLE_OCCURRENCE_FAILS | MAJORITY_OCCURRENCE_FAILS

definition OwningScopes :: "(OwningScope \<times> string) list" where
  "OwningScopes = [(COMPANY_FLEET, ''company_fleet''), (SHARED_RESTAURANT_FLEET, ''shared_restaurant_fleet''),
     (INTEGRATION, ''integration''), (WORKFLOW, ''workflow''), (TENANT, ''tenant'')]"

definition RiskClasses :: "(RiskClass \<times> string) list" where
  "RiskClasses = [(Risk_LOW, ''low''), (Risk_MODERATE, ''moderate''), (Risk_HIGH, ''high''), (Risk_CRITICAL, ''critical'')]"

definition CaseSourceTypes :: "(CaseSourceType \<times> string) list" where
  "CaseSourceTypes = [(INCIDENT, ''incident''), (ACCEPTED_SUCCESS, ''accepted_success''),
     (Source_SYNTHETIC, ''synthetic''), (GOLDEN_FIXTURE, ''golden_fixture''), (Source_HOLDOUT, ''holdout''),
     (MUTATION, ''mutation''), (PRODUCTION_SAMPLE, ''production_sample'')]"

definition Visibilities :: "(Visibility \<times> string) list" where
  "Visibilities = [(DEVELOPMENT, ''development''), (HOLDOUT, ''holdout'')]"

definition PrivacyClasses :: "(PrivacyClass \<times> string) list" where
  "PrivacyClasses = [(Privacy_SYNTHETIC, ''synthetic''), (DEIDENTIFIED, ''deidentified''),
     (TENANT_PRIVATE, ''tenant_private'')]"

definition LifecycleStates :: "(LifecycleState \<times> string) list" where
  "LifecycleStates = [(DRAFT, ''draft''), (ACTIVE, ''active''), (DEPRECATED, ''deprecated''), (RETIRED, ''retired'')]"

definition AggregateRules :: "(AggregateRule \<times> string) list" where
  "AggregateRules = [(ALL_ATTEMPTS_PASS, ''all_attempts_pass''), (MAJORITY_ATTEMPTS_PASS, ''majority_attempts_pass''),
     (ANY_ATTEMPT_PASSES, ''any_attempt_passes'')]"

definition CriticalFailureRules :: "(CriticalFailureRule \<times> string) list" where
  "CriticalFailureRules = [(SINGLE_OCCURRENCE_FAILS, ''single_occurrence_fails''),
     (MAJORITY_OCCURRENCE_FAILS, ''majority_occurrence_fails'')]"

definition Criticalities :: "(Criticality \<times> string) list" where
  "Criticalities = map (\<lambda>c. (c, Criticality_value c)) [CRITICAL, NONCRITICAL, ADVISORY]"

definition GraderTypes :: "(GraderKind \<times> string) list" where
  "GraderTypes = map (\<lambda>k. (k, GraderKind_value k)) [STRUCTURAL, TRAJECTORY, OUTCOME, SEMANTIC, HUMAN]"

definition GateIntents :: "(GateMode \<times> string) list" where
  "GateIntents = map (\<lambda>g. (g, GateMode_value g)) [Gate_ADVISORY, Gate_WARNING, Gate_BLOCKING]"

definition InconclusivePolicies :: "(InconclusivePolicy \<times> string) list" where
  "InconclusivePolicies = map (\<lambda>p. (p, InconclusivePolicy_value p)) [Policy_BLOCK, Policy_REVIEW]"

definition RETIRED_STATES :: "LifecycleState list" where
  "RETIRED_STATES = [DEPRECATED, RETIRED]"

fun ATTEMPT_FLOOR :: "RiskClass \<Rightarrow> int" where
  "ATTEMPT_FLOOR Risk_LOW = 1"
| "ATTEMPT_FLOOR Risk_MODERATE = 3"
| "ATTEMPT_FLOOR Risk_HIGH = 5"
| "ATTEMPT_FLOOR Risk_CRITICAL = 5"

section \<open>Field readers\<close>

type_synonym fields = "(string \<times> json) list"

text \<open>\<^verbatim>\<open>payload.get(key)\<close> and \<^verbatim>\<open>payload.get(key, default)\<close>.\<close>

definition get :: "fields \<Rightarrow> string \<Rightarrow> json" where
  "get kvs key = (case map_of kvs key of None \<Rightarrow> JNull | Some v \<Rightarrow> v)"

definition get_or :: "fields \<Rightarrow> string \<Rightarrow> json \<Rightarrow> json" where
  "get_or kvs key d = (case map_of kvs key of None \<Rightarrow> d | Some v \<Rightarrow> v)"

definition fields_of :: "json \<Rightarrow> string list \<Rightarrow> string list \<Rightarrow> package_error + fields" where
  "fields_of payload required optional =
     (case payload of
        JObj kvs \<Rightarrow>
          (let unknown = sort (filter (\<lambda>k. k \<notin> set (required @ optional)) (map fst kvs));
               missing = sort (filter (\<lambda>k. k \<notin> fst ` set kvs) required)
           in if unknown \<noteq> [] then Inl (EvalPackageError ''has unknown keys'' unknown)
              else if missing \<noteq> [] then Inl (EvalPackageError ''is missing required keys'' missing)
              else Inr kvs)
      | _ \<Rightarrow> Inl (EvalPackageError ''must be a JSON object'' []))"

definition text_field :: "fields \<Rightarrow> string \<Rightarrow> regex option \<Rightarrow> package_error + string" where
  "text_field kvs key pattern =
     (case get kvs key of
        JStr v \<Rightarrow>
          if \<not> nonblank v \<or> MAX_TEXT_LENGTH < length v then Inl (EvalPackageError ''must be a non-empty string'' [key])
          else (let v = py_strip v
                in if list_ex (\<lambda>c. (of_char c :: nat) < 32) v then Inl (EvalPackageError ''contains control characters'' [key])
                   else (case pattern of
                       None \<Rightarrow> Inr v
                     | Some r \<Rightarrow> if re_fullmatch r v then Inr v else Inl (EvalPackageError ''is not a well-formed identifier'' [key])))
      | _ \<Rightarrow> Inl (EvalPackageError ''must be a non-empty string'' [key]))"

definition optional_text :: "fields \<Rightarrow> string \<Rightarrow> regex option \<Rightarrow> package_error + string option" where
  "optional_text kvs key pattern =
     (if get kvs key = JNull then Inr None else res_bind (text_field kvs key pattern) (\<lambda>v. Inr (Some v)))"

definition integer_field :: "fields \<Rightarrow> string \<Rightarrow> int \<Rightarrow> int \<Rightarrow> package_error + int" where
  "integer_field kvs key minimum maximum =
     (case get kvs key of
        JInt v \<Rightarrow> if minimum \<le> v \<and> v \<le> maximum then Inr v else Inl (EvalPackageError ''must be an integer in range'' [key])
      | _ \<Rightarrow> Inl (EvalPackageError ''must be an integer in range'' [key]))"

text \<open>A NaN or an infinity fails the comparison with the bounds.\<close>

definition ratio_field :: "(rat \<Rightarrow> bool) \<Rightarrow> fields \<Rightarrow> string \<Rightarrow> package_error + rat" where
  "ratio_field nf kvs key =
     (case get kvs key of
        JInt v \<Rightarrow> if 0 \<le> v \<and> v \<le> 1 then Inr (of_int v) else Inl (EvalPackageError ''must be a number in [0.0, 1.0]'' [key])
      | JFloat v \<Rightarrow> if \<not> nf v \<and> 0 \<le> v \<and> v \<le> 1 then Inr v else Inl (EvalPackageError ''must be a number in [0.0, 1.0]'' [key])
      | _ \<Rightarrow> Inl (EvalPackageError ''must be a number in [0.0, 1.0]'' [key]))"

definition str_item :: "json \<Rightarrow> string option" where
  "str_item j = (case j of
     JStr v \<Rightarrow> if \<not> nonblank v \<or> MAX_TEXT_LENGTH < length v then None else Some (py_strip v)
   | _ \<Rightarrow> None)"

definition string_tuple :: "fields \<Rightarrow> string \<Rightarrow> package_error + string list" where
  "string_tuple kvs key =
     (case get_or kvs key (JList []) of
        JList vs \<Rightarrow>
          if list_ex (\<lambda>v. str_item v = None) vs then Inl (EvalPackageError ''must be a list of non-empty strings'' [key])
          else (let items = map (\<lambda>v. the (str_item v)) vs
                in if distinct items then Inr items else Inl (EvalPackageError ''contains duplicate entries'' [key]))
      | _ \<Rightarrow> Inl (EvalPackageError ''must be a list of non-empty strings'' [key]))"

definition string_map :: "fields \<Rightarrow> string \<Rightarrow> package_error + (string \<times> string) list" where
  "string_map kvs key =
     (case get_or kvs key (JObj []) of
        JObj m \<Rightarrow>
          if list_ex (\<lambda>(k, v). \<not> nonblank k \<or> (case v of JStr t \<Rightarrow> \<not> nonblank t | _ \<Rightarrow> True)) m
          then Inl (EvalPackageError ''must be an object of non-empty string values'' [key])
          else Inr (sort_key fst (map (\<lambda>(k, v). (k, case v of JStr t \<Rightarrow> t | _ \<Rightarrow> [])) m))
      | _ \<Rightarrow> Inl (EvalPackageError ''must be an object of non-empty string values'' [key]))"

definition object_map :: "(rat \<Rightarrow> bool) \<Rightarrow> fields \<Rightarrow> string \<Rightarrow> package_error + (string \<times> json) list" where
  "object_map nf kvs key =
     (case get_or kvs key (JObj []) of
        JObj m \<Rightarrow> if json_serializable nf (JObj m) then Inr (sort_key fst m) else Inl (EvalPackageError ''must be canonically serializable'' [key])
      | _ \<Rightarrow> Inl (EvalPackageError ''must be an object with string keys'' [key]))"

definition enum_field :: "('m \<times> string) list \<Rightarrow> fields \<Rightarrow> string \<Rightarrow> package_error + 'm" where
  "enum_field members kvs key =
     (case get kvs key of
        JStr s \<Rightarrow> (case find (\<lambda>(m, v). v = s) members of Some (m, _) \<Rightarrow> Inr m | None \<Rightarrow> Inl (EvalPackageError ''must be one of the allowed values'' [key]))
      | _ \<Rightarrow> Inl (EvalPackageError ''must be one of the allowed values'' [key]))"

definition date_field :: "('a package_env_scheme) \<Rightarrow> fields \<Rightarrow> string \<Rightarrow> package_error + int" where
  "date_field E kvs key =
     (case get kvs key of
        JStr s \<Rightarrow> (case date_of E s of Some d \<Rightarrow> Inr d | None \<Rightarrow> Inl (EvalPackageError ''is not an ISO date'' [key]))
      | _ \<Rightarrow> Inl (EvalPackageError ''must be an ISO date string'' [key]))"

section \<open>References and policies\<close>

record ManifestReference =
  mr_ref :: string
  mr_sha256 :: string

definition ref_is_holdout :: "ManifestReference \<Rightarrow> bool" where
  "ref_is_holdout m \<longleftrightarrow> starts_with (mr_ref m) HOLDOUT_SCHEME"

definition resolve_ref :: "ManifestReference \<Rightarrow> path \<Rightarrow> package_error + path" where
  "resolve_ref m repo_root =
     (if ref_is_holdout m then Inl (EvalPackageError ''has no repository path'' []) else Inr (repo_root @ path_of (mr_ref m)))"

text \<open>The part of a holdout reference before its first slash, and whether and what follows.\<close>

definition holdout_case_of :: "string \<Rightarrow> string" where
  "holdout_case_of ref = takeWhile (\<lambda>c. c \<noteq> CHR ''/'') (drop (length HOLDOUT_SCHEME) ref)"

definition holdout_part_of :: "string \<Rightarrow> string" where
  "holdout_part_of ref = drop 1 (dropWhile (\<lambda>c. c \<noteq> CHR ''/'') (drop (length HOLDOUT_SCHEME) ref))"

definition parse_reference :: "json \<Rightarrow> package_error + ManifestReference" where
  "parse_reference payload =
     res_bind (fields_of payload [''ref'', ''sha256''] []) (\<lambda>f.
     res_bind (text_field f ''ref'' None) (\<lambda>ref.
     res_bind (text_field f ''sha256'' (Some SHA256_PATTERN)) (\<lambda>sha.
       if starts_with ref HOLDOUT_SCHEME
       then (if \<not> re_fullmatch CASE_ID_PATTERN (holdout_case_of ref) \<or> holdout_part_of ref = []
             then Inl (EvalPackageError ''must look like holdout://<case_id>/<part>'' []) else Inr \<lparr>mr_ref = ref, mr_sha256 = sha\<rparr>)
       else (if ref \<noteq> as_posix (path_of ref) \<or> starts_with ref ''/'' \<or> chr_backslash \<in> set ref
                \<or> ''..'' \<in> set (path_of ref) \<or> is_absolute (path_of ref)
             then Inl (EvalPackageError ''must be a normalized repository-relative path'' []) else Inr \<lparr>mr_ref = ref, mr_sha256 = sha\<rparr>))))"

definition reference_list :: "fields \<Rightarrow> string \<Rightarrow> package_error + ManifestReference list" where
  "reference_list f key =
     (case get_or f key (JList []) of JList vs \<Rightarrow> map_res parse_reference vs | _ \<Rightarrow> Inl (EvalPackageError ''must be a list'' [key]))"

record ManifestPolicy =
  mp_attempts :: int
  mp_sampling :: "(string \<times> json) list"
  mp_seed :: "int option"
  mp_infra_retry_limit :: int
  mp_aggregate_rule :: AggregateRule
  mp_critical_failure_rule :: CriticalFailureRule

definition parse_policy :: "('a package_env_scheme) \<Rightarrow> json \<Rightarrow> package_error + ManifestPolicy" where
  "parse_policy E payload =
     res_bind (fields_of payload [''attempts'', ''infra_retry_limit'', ''aggregate_rule'', ''critical_failure_rule'']
                 [''sampling'', ''seed'']) (\<lambda>f.
     res_bind (case get f ''seed'' of JNull \<Rightarrow> Inr None | JInt i \<Rightarrow> Inr (Some i) | _ \<Rightarrow> Inl (EvalPackageError ''must be an integer or null'' [])) (\<lambda>seed.
     res_bind (integer_field f ''attempts'' 1 MAX_ATTEMPTS) (\<lambda>attempts.
     res_bind (object_map (nonfinite E) f ''sampling'') (\<lambda>sampling.
     res_bind (integer_field f ''infra_retry_limit'' 0 10) (\<lambda>retries.
     res_bind (enum_field AggregateRules f ''aggregate_rule'') (\<lambda>rule.
     res_bind (enum_field CriticalFailureRules f ''critical_failure_rule'') (\<lambda>crit.
       Inr \<lparr>mp_attempts = attempts, mp_sampling = sampling, mp_seed = seed, mp_infra_retry_limit = retries,
             mp_aggregate_rule = rule, mp_critical_failure_rule = crit\<rparr>)))))))"

text \<open>The digest of a policy that was parsed never fails: its sampling was tested when it was read.\<close>

definition sampling_digest :: "('a package_env_scheme) \<Rightarrow> ManifestPolicy \<Rightarrow> string option" where
  "sampling_digest E p = digest E (JObj [(''sampling'', JObj (mp_sampling p)),
     (''seed'', case mp_seed p of None \<Rightarrow> JNull | Some i \<Rightarrow> JInt i)])"

definition to_grader_attempt_policy ::
    "('a package_env_scheme) \<Rightarrow> ManifestPolicy \<Rightarrow> Criticality \<Rightarrow> package_error + AttemptPolicy" where
  "to_grader_attempt_policy E p criticality =
     (if criticality = CRITICAL \<and> mp_aggregate_rule p \<noteq> ALL_ATTEMPTS_PASS then Inl (EvalPackageError ''a critical case cannot aggregate on this rule'' [])
      else (let n = nat (mp_attempts p);
                rule = (if mp_aggregate_rule p = ALL_ATTEMPTS_PASS then ALL_MUST_PASS else THRESHOLD);
                rate = (case mp_aggregate_rule p of
                          ALL_ATTEMPTS_PASS \<Rightarrow> None
                        | MAJORITY_ATTEMPTS_PASS \<Rightarrow> Some (py_truediv (n div 2 + 1) n)
                        | ANY_ATTEMPT_PASSES \<Rightarrow> Some (py_truediv 1 n))
            in case sampling_digest E p of
                 None \<Rightarrow> Inl UncaughtValueError
               | Some d \<Rightarrow>
                   (case AttemptPolicy_check
                       \<lparr>ap_attempts = mp_attempts p, ap_aggregate_rule = rule, ap_min_pass_rate = rate,
                         ap_sampling_config_digest = d, ap_infrastructure_retry_limit = mp_infra_retry_limit p\<rparr> of
                      Inl e \<Rightarrow> Inl (GraderPolicy e)
                    | Inr q \<Rightarrow> Inr q)))"

record ExpectedBehavior =
  xb_must :: "string list"
  xb_must_not :: "string list"
  xb_may :: "string list"
  xb_acceptable_outcomes :: "string list"
  xb_escalation_conditions :: "string list"
  xb_forbidden_effects :: "string list"

definition expected_is_empty :: "ExpectedBehavior \<Rightarrow> bool" where
  "expected_is_empty x \<longleftrightarrow> xb_must x = [] \<and> xb_must_not x = [] \<and> xb_may x = []
     \<and> xb_acceptable_outcomes x = [] \<and> xb_escalation_conditions x = [] \<and> xb_forbidden_effects x = []"

definition parse_expected :: "json \<Rightarrow> package_error + ExpectedBehavior" where
  "parse_expected payload =
     res_bind (fields_of payload [] [''must'', ''must_not'', ''may'', ''acceptable_outcomes'',
                 ''escalation_conditions'', ''forbidden_effects'']) (\<lambda>f.
     res_bind (string_tuple f ''must'') (\<lambda>must.
     res_bind (string_tuple f ''must_not'') (\<lambda>must_not.
     res_bind (string_tuple f ''may'') (\<lambda>may.
     res_bind (string_tuple f ''acceptable_outcomes'') (\<lambda>acceptable.
     res_bind (string_tuple f ''escalation_conditions'') (\<lambda>escalation.
     res_bind (string_tuple f ''forbidden_effects'') (\<lambda>forbidden.
       Inr \<lparr>xb_must = must, xb_must_not = must_not, xb_may = may, xb_acceptable_outcomes = acceptable,
             xb_escalation_conditions = escalation, xb_forbidden_effects = forbidden\<rparr>)))))))"

record GraderAssignment =
  ga_grader_id :: string
  ga_grader_version :: int
  ga_grader_type :: GraderKind
  ga_manifest :: ManifestReference
  ga_criticality :: Criticality

definition grader_qualified_id :: "GraderAssignment \<Rightarrow> string" where
  "grader_qualified_id g = ga_grader_id g @ ''.v'' @ show_int (ga_grader_version g)"

definition parse_grader :: "json \<Rightarrow> package_error + GraderAssignment" where
  "parse_grader payload =
     res_bind (fields_of payload [''grader_id'', ''grader_version'', ''grader_type'', ''manifest'', ''criticality''] []) (\<lambda>f.
     res_bind (enum_field GraderTypes f ''grader_type'') (\<lambda>ty.
     res_bind (enum_field Criticalities f ''criticality'') (\<lambda>crit.
       if ty = SEMANTIC \<and> crit \<noteq> ADVISORY then Inl (EvalPackageError ''a semantic grader assignment must be criticality=advisory'' [])
       else res_bind (text_field f ''grader_id'' (Some CAPABILITY_PATTERN)) (\<lambda>i.
            res_bind (integer_field f ''grader_version'' 1 9999) (\<lambda>v.
            res_bind (parse_reference (get f ''manifest'')) (\<lambda>m.
              Inr \<lparr>ga_grader_id = i, ga_grader_version = v, ga_grader_type = ty, ga_manifest = m,
                    ga_criticality = crit\<rparr>))))))"

record SkillSelectionTarget =
  st_skill_descriptions :: "(string \<times> string) list"
  st_tool_descriptions :: "(string \<times> string) list"
  st_host_instructions :: "ManifestReference list"
  st_available_tools :: "string list"
  st_model_configuration :: "(string \<times> json) list"
  st_harness_version :: string

definition jstrs :: "(string \<times> string) list \<Rightarrow> json" where
  "jstrs m = JObj (map (\<lambda>(k, v). (k, JStr v)) m)"

definition target_content_sha256 :: "('a package_env_scheme) \<Rightarrow> SkillSelectionTarget \<Rightarrow> string option" where
  "target_content_sha256 E t = digest E (JObj
     [(''skill_descriptions'', jstrs (st_skill_descriptions t)),
      (''tool_descriptions'', jstrs (st_tool_descriptions t)),
      (''host_instructions'', JList (map (\<lambda>m. JObj [(''ref'', JStr (mr_ref m)), (''sha256'', JStr (mr_sha256 m))])
          (st_host_instructions t))),
      (''available_tools'', JList (map JStr (st_available_tools t))),
      (''model_configuration'', JObj (st_model_configuration t)),
      (''harness_version'', JStr (st_harness_version t))])"

definition parse_target :: "('a package_env_scheme) \<Rightarrow> json \<Rightarrow> package_error + SkillSelectionTarget" where
  "parse_target E payload =
     res_bind (fields_of payload [''skill_descriptions'', ''tool_descriptions'', ''host_instructions'',
                 ''available_tools'', ''model_configuration'', ''harness_version''] []) (\<lambda>f.
     res_bind (string_map f ''skill_descriptions'') (\<lambda>skills.
     res_bind (string_map f ''tool_descriptions'') (\<lambda>tools.
     res_bind (reference_list f ''host_instructions'') (\<lambda>instructions.
     res_bind (string_tuple f ''available_tools'') (\<lambda>available.
     res_bind (object_map (nonfinite E) f ''model_configuration'') (\<lambda>model.
       let empty = (if skills = [] then [''skill_descriptions''] else [])
                 @ (if tools = [] then [''tool_descriptions''] else [])
                 @ (if instructions = [] then [''host_instructions''] else [])
                 @ (if available = [] then [''available_tools''] else [])
                 @ (if model = [] then [''model_configuration''] else [])
       in if empty \<noteq> [] then Inl (EvalPackageError ''must declare every section 7(C) input'' (sort empty))
          else res_bind (text_field f ''harness_version'' None) (\<lambda>harness.
            Inr \<lparr>st_skill_descriptions = skills, st_tool_descriptions = tools,
                  st_host_instructions = instructions, st_available_tools = available,
                  st_model_configuration = model, st_harness_version = harness\<rparr>)))))))"

section \<open>Cases\<close>

record EvalCaseDefinition =
  ec_case_id :: string
  ec_case_version :: int
  ec_suite_id :: string
  ec_source_type :: CaseSourceType
  ec_visibility :: Visibility
  ec_source_evidence :: "string list"
  ec_input_fixture :: "ManifestReference option"
  ec_environment_fixtures :: "ManifestReference list"
  ec_policy_fixtures :: "ManifestReference list"
  ec_expected :: ExpectedBehavior
  ec_graders :: "GraderAssignment list"
  ec_criticality :: Criticality
  ec_risk_class :: RiskClass
  ec_tenant_scope :: "string option"
  ec_privacy_class :: PrivacyClass
  ec_attempt_policy :: ManifestPolicy
  ec_skill_selection_target :: "SkillSelectionTarget option"
  ec_holdout_bundle_sha256 :: "string option"
  ec_owner :: string
  ec_created_at :: int
  ec_last_reviewed_at :: int
  ec_lifecycle_state :: LifecycleState
  ec_supersedes :: "string list"
  ec_superseded_by :: "string option"
  ec_manifest_sha256 :: string

definition case_qualified_id :: "EvalCaseDefinition \<Rightarrow> string" where
  "case_qualified_id c = ec_case_id c @ ''.v'' @ show_int (ec_case_version c)"

definition case_is_holdout :: "EvalCaseDefinition \<Rightarrow> bool" where
  "case_is_holdout c \<longleftrightarrow> ec_visibility c = HOLDOUT"

definition all_references :: "EvalCaseDefinition \<Rightarrow> ManifestReference list" where
  "all_references c =
     (case ec_input_fixture c of None \<Rightarrow> [] | Some r \<Rightarrow> [r])
     @ ec_environment_fixtures c @ ec_policy_fixtures c @ map ga_manifest (ec_graders c)
     @ (case ec_skill_selection_target c of None \<Rightarrow> [] | Some t \<Rightarrow> st_host_instructions t)"

definition CASE_REQUIRED :: "string list" where
  "CASE_REQUIRED = [''case_id'', ''case_version'', ''suite_id'', ''source_type'', ''visibility'',
     ''graders'', ''criticality'', ''risk_class'', ''privacy_class'', ''attempt_policy'',
     ''owner'', ''created_at'', ''last_reviewed_at'', ''lifecycle_state'']"

definition CASE_OPTIONAL :: "string list" where
  "CASE_OPTIONAL = [''source_evidence'', ''input_fixture'', ''environment_fixtures'',
     ''policy_fixtures'', ''expected'', ''tenant_scope'', ''skill_selection_target'',
     ''holdout_bundle_sha256'', ''supersedes'', ''superseded_by'']"

text \<open>\<^verbatim>\<open>None if value is None else parse(value)\<close>.\<close>

definition parse_optional :: "(json \<Rightarrow> package_error + 'v) \<Rightarrow> json \<Rightarrow> package_error + 'v option" where
  "parse_optional read j = (if j = JNull then Inr None else res_bind (read j) (\<lambda>v. Inr (Some v)))"

definition parse_graders :: "fields \<Rightarrow> package_error + GraderAssignment list" where
  "parse_graders f =
     (case get f ''graders'' of
        JList vs \<Rightarrow>
          if vs = [] then Inl (EvalPackageError ''must be a non-empty list'' [])
          else res_bind (map_res parse_grader vs) (\<lambda>gs.
            if distinct (map grader_qualified_id gs) then Inr gs else Inl (EvalPackageError ''assigns the same grader version twice'' []))
      | _ \<Rightarrow> Inl (EvalPackageError ''must be a non-empty list'' []))"

definition parse_dates :: "('a package_env_scheme) \<Rightarrow> fields \<Rightarrow> package_error + int \<times> int" where
  "parse_dates E f =
     res_bind (date_field E f ''created_at'') (\<lambda>created.
     res_bind (date_field E f ''last_reviewed_at'') (\<lambda>reviewed.
       if reviewed < created then Inl (EvalPackageError ''precedes created_at'' []) else Inr (created, reviewed)))"

definition parse_case :: "('a package_env_scheme) \<Rightarrow> json \<Rightarrow> string \<Rightarrow> package_error + EvalCaseDefinition" where
  "parse_case E payload manifest_sha256 =
     res_bind (fields_of payload CASE_REQUIRED CASE_OPTIONAL) (\<lambda>f.
     res_bind (parse_graders f) (\<lambda>graders.
     res_bind (parse_optional parse_reference (get f ''input_fixture'')) (\<lambda>input_fixture.
     res_bind (parse_dates E f) (\<lambda>(created, reviewed).
     res_bind (optional_text f ''holdout_bundle_sha256'' (Some SHA256_PATTERN)) (\<lambda>holdout_sha.
     res_bind (parse_optional (parse_target E) (get f ''skill_selection_target'')) (\<lambda>skill_target.
     res_bind (text_field f ''case_id'' (Some CASE_ID_PATTERN)) (\<lambda>case_id.
     res_bind (integer_field f ''case_version'' 1 9999) (\<lambda>case_version.
     res_bind (text_field f ''suite_id'' (Some SUITE_ID_PATTERN)) (\<lambda>suite_id.
     res_bind (enum_field CaseSourceTypes f ''source_type'') (\<lambda>source_type.
     res_bind (enum_field Visibilities f ''visibility'') (\<lambda>visibility.
     res_bind (string_tuple f ''source_evidence'') (\<lambda>evidence.
     res_bind (reference_list f ''environment_fixtures'') (\<lambda>environment.
     res_bind (reference_list f ''policy_fixtures'') (\<lambda>policy_fixtures.
     res_bind (parse_expected (get_or f ''expected'' (JObj []))) (\<lambda>expected.
     res_bind (enum_field Criticalities f ''criticality'') (\<lambda>criticality.
     res_bind (enum_field RiskClasses f ''risk_class'') (\<lambda>risk.
     res_bind (optional_text f ''tenant_scope'' (Some TENANT_PATTERN)) (\<lambda>tenant.
     res_bind (enum_field PrivacyClasses f ''privacy_class'') (\<lambda>privacy.
     res_bind (parse_policy E (get f ''attempt_policy'')) (\<lambda>policy.
     res_bind (text_field f ''owner'' None) (\<lambda>owner.
     res_bind (enum_field LifecycleStates f ''lifecycle_state'') (\<lambda>state.
     res_bind (string_tuple f ''supersedes'') (\<lambda>supersedes.
     res_bind (optional_text f ''superseded_by'' (Some CASE_ID_PATTERN)) (\<lambda>superseded_by.
       Inr \<lparr>ec_case_id = case_id, ec_case_version = case_version, ec_suite_id = suite_id,
             ec_source_type = source_type, ec_visibility = visibility, ec_source_evidence = evidence,
             ec_input_fixture = input_fixture, ec_environment_fixtures = environment,
             ec_policy_fixtures = policy_fixtures, ec_expected = expected, ec_graders = graders,
             ec_criticality = criticality, ec_risk_class = risk, ec_tenant_scope = tenant,
             ec_privacy_class = privacy, ec_attempt_policy = policy,
             ec_skill_selection_target = skill_target, ec_holdout_bundle_sha256 = holdout_sha,
             ec_owner = owner, ec_created_at = created, ec_last_reviewed_at = reviewed,
             ec_lifecycle_state = state, ec_supersedes = supersedes, ec_superseded_by = superseded_by,
             ec_manifest_sha256 = manifest_sha256\<rparr>))))))))))))))))))))))))"

section \<open>Suites\<close>

record QualificationThresholds =
  qt_min_case_pass_rate :: rat
  qt_max_critical_failures :: int
  qt_max_error_rate :: rat

definition parse_thresholds :: "('a package_env_scheme) \<Rightarrow> json \<Rightarrow> package_error + QualificationThresholds" where
  "parse_thresholds E payload =
     res_bind (fields_of payload [''min_case_pass_rate'', ''max_critical_failures'', ''max_error_rate''] []) (\<lambda>f.
     res_bind (integer_field f ''max_critical_failures'' 0 9999) (\<lambda>failures.
     res_bind (ratio_field (nonfinite E) f ''max_error_rate'') (\<lambda>errors.
       let unsatisfiable = (if failures \<noteq> 0 then [''max_critical_failures''] else [])
                         @ (if errors \<noteq> 0 then [''max_error_rate''] else [])
       in if unsatisfiable \<noteq> [] then Inl (EvalPackageError ''must be 0'' (sort unsatisfiable))
          else res_bind (ratio_field (nonfinite E) f ''min_case_pass_rate'') (\<lambda>rate.
            Inr \<lparr>qt_min_case_pass_rate = rate, qt_max_critical_failures = failures, qt_max_error_rate = errors\<rparr>))))"

record EvalSuiteDefinition =
  es_suite_id :: string
  es_suite_version :: int
  es_owning_scope :: OwningScope
  es_capability_under_test :: string
  es_risk_class :: RiskClass
  es_case_manifests :: "ManifestReference list"
  es_grader_manifests :: "ManifestReference list"
  es_attempt_policy :: ManifestPolicy
  es_gate_intent :: GateMode
  es_inconclusive_policy :: InconclusivePolicy
  es_qualification_thresholds :: QualificationThresholds
  es_dependencies :: "string list"
  es_tenant_scope :: "string option"
  es_privacy_class :: PrivacyClass
  es_owner :: string
  es_created_at :: int
  es_last_reviewed_at :: int
  es_lifecycle_state :: LifecycleState
  es_manifest_sha256 :: string

definition suite_qualified_id :: "EvalSuiteDefinition \<Rightarrow> string" where
  "suite_qualified_id s = es_suite_id s @ ''.v'' @ show_int (es_suite_version s)"

definition is_skill_selection :: "EvalSuiteDefinition \<Rightarrow> bool" where
  "is_skill_selection s \<longleftrightarrow> starts_with (es_capability_under_test s) SKILL_SELECTION_CAPABILITY_PREFIX"

definition to_suite_policy :: "EvalSuiteDefinition \<Rightarrow> SuitePolicy" where
  "to_suite_policy s = \<lparr>sp_gate_mode = es_gate_intent s, sp_inconclusive_policy = es_inconclusive_policy s,
     sp_noncritical_pass_threshold = qt_min_case_pass_rate (es_qualification_thresholds s)\<rparr>"

definition SUITE_REQUIRED :: "string list" where
  "SUITE_REQUIRED = [''suite_id'', ''suite_version'', ''owning_scope'', ''capability_under_test'',
     ''risk_class'', ''case_manifests'', ''grader_manifests'', ''attempt_policy'',
     ''gate_intent'', ''qualification_thresholds'', ''privacy_class'', ''owner'',
     ''created_at'', ''last_reviewed_at'', ''lifecycle_state'']"

definition SUITE_OPTIONAL :: "string list" where
  "SUITE_OPTIONAL = [''dependencies'', ''tenant_scope'', ''inconclusive_policy'']"

definition case_manifests_of :: "fields \<Rightarrow> package_error + ManifestReference list" where
  "case_manifests_of f =
     res_bind (reference_list f ''case_manifests'') (\<lambda>cases.
       if cases = [] then Inl (EvalPackageError ''must not be empty'' [])
       else if \<not> distinct (map mr_ref cases) then Inl (EvalPackageError ''references the same file twice'' [])
       else if list_ex ref_is_holdout cases then Inl (EvalPackageError ''must be repository files'' [])
       else Inr cases)"

definition grader_manifests_of :: "fields \<Rightarrow> package_error + ManifestReference list" where
  "grader_manifests_of f =
     res_bind (reference_list f ''grader_manifests'') (\<lambda>graders.
       if list_ex ref_is_holdout graders then Inl (EvalPackageError ''must list only in-repo graders'' []) else Inr graders)"

definition parse_suite :: "('a package_env_scheme) \<Rightarrow> json \<Rightarrow> string \<Rightarrow> package_error + EvalSuiteDefinition" where
  "parse_suite E payload manifest_sha256 =
     res_bind (fields_of payload SUITE_REQUIRED SUITE_OPTIONAL) (\<lambda>f.
     res_bind (case_manifests_of f) (\<lambda>cases.
     res_bind (grader_manifests_of f) (\<lambda>graders.
     res_bind (parse_dates E f) (\<lambda>(created, reviewed).
     res_bind (text_field f ''suite_id'' (Some SUITE_ID_PATTERN)) (\<lambda>suite_id.
     res_bind (integer_field f ''suite_version'' 1 9999) (\<lambda>suite_version.
     res_bind (enum_field OwningScopes f ''owning_scope'') (\<lambda>scope.
     res_bind (text_field f ''capability_under_test'' (Some CAPABILITY_PATTERN)) (\<lambda>capability.
     res_bind (enum_field RiskClasses f ''risk_class'') (\<lambda>risk.
     res_bind (parse_policy E (get f ''attempt_policy'')) (\<lambda>policy.
     res_bind (enum_field GateIntents f ''gate_intent'') (\<lambda>gate.
     res_bind (if get f ''inconclusive_policy'' = JNull then Inr Policy_BLOCK
               else enum_field InconclusivePolicies f ''inconclusive_policy'') (\<lambda>inconclusive.
     res_bind (parse_thresholds E (get f ''qualification_thresholds'')) (\<lambda>thresholds.
     res_bind (string_tuple f ''dependencies'') (\<lambda>dependencies.
     res_bind (optional_text f ''tenant_scope'' (Some TENANT_PATTERN)) (\<lambda>tenant.
     res_bind (enum_field PrivacyClasses f ''privacy_class'') (\<lambda>privacy.
     res_bind (text_field f ''owner'' None) (\<lambda>owner.
     res_bind (enum_field LifecycleStates f ''lifecycle_state'') (\<lambda>state.
       if (scope = TENANT) \<noteq> (tenant \<noteq> None) then Inl (EvalPackageError ''tenant-scoped suites declare tenant_scope and only those may'' [])
       else Inr \<lparr>es_suite_id = suite_id, es_suite_version = suite_version, es_owning_scope = scope,
             es_capability_under_test = capability, es_risk_class = risk, es_case_manifests = cases,
             es_grader_manifests = graders, es_attempt_policy = policy, es_gate_intent = gate,
             es_inconclusive_policy = inconclusive, es_qualification_thresholds = thresholds,
             es_dependencies = dependencies, es_tenant_scope = tenant, es_privacy_class = privacy,
             es_owner = owner, es_created_at = created, es_last_reviewed_at = reviewed,
             es_lifecycle_state = state, es_manifest_sha256 = manifest_sha256\<rparr>))))))))))))))))))"

section \<open>Packages\<close>

record EvalSuitePackage =
  pk_suite :: EvalSuiteDefinition
  pk_cases :: "EvalCaseDefinition list"
  pk_package_sha256 :: string
  pk_holdout_binding_verified :: bool

definition holdout_cases :: "EvalSuitePackage \<Rightarrow> EvalCaseDefinition list" where
  "holdout_cases p = filter case_is_holdout (pk_cases p)"

definition package_case :: "EvalSuitePackage \<Rightarrow> string \<Rightarrow> package_error + EvalCaseDefinition" where
  "package_case p case_id =
     (case find (\<lambda>c. ec_case_id c = case_id) (pk_cases p) of
        Some c \<Rightarrow> Inr c
      | None \<Rightarrow> Inl (EvalPackageError ''is not part of the suite'' [case_id]))"

definition registry_package :: "EvalSuitePackage list \<Rightarrow> string \<Rightarrow> package_error + EvalSuitePackage" where
  "registry_package packages qualified =
     (case find (\<lambda>p. suite_qualified_id (pk_suite p) = qualified) packages of
        Some p \<Rightarrow> Inr p
      | None \<Rightarrow> Inl (EvalPackageError ''no suite in registry'' [qualified]))"

definition read_manifest :: "('a package_env_scheme) \<Rightarrow> path \<Rightarrow> package_error + json \<times> string" where
  "read_manifest E path =
     (case os_read_bytes E path of
        BytesMissing \<Rightarrow> Inl (EvalPackageError ''references missing file'' [])
      | BytesOsError \<Rightarrow> Inl (EvalPackageError ''references unreadable file'' [])
      | BytesAre raw \<Rightarrow>
          (case utf8_decode raw of
             None \<Rightarrow> Inl (EvalPackageError ''references non-JSON file'' [])
           | Some text \<Rightarrow>
               (case json_loads (reader E) text of
                  DecodeError \<Rightarrow> Inl (EvalPackageError ''references non-JSON file'' [])
                | IntLimitError \<Rightarrow> Inl UncaughtValueError
                | Loaded payload \<Rightarrow> Inr (payload, sha256 E raw))))"

section \<open>Lints\<close>

definition validate_holdout_containment :: "EvalCaseDefinition \<Rightarrow> package_error + unit" where
  "validate_holdout_containment c =
     (let refs = all_references c;
          names = (\<lambda>P. map mr_ref (filter P refs))
      in if ec_source_type c = Source_HOLDOUT \<and> \<not> case_is_holdout c
         then Inl (EvalPackageError ''has source_type holdout but visibility is development'' [])
         else if \<not> case_is_holdout c
         then (if names ref_is_holdout \<noteq> []
               then Inl (EvalPackageError ''may not use holdout references'' (names ref_is_holdout))
               else if ec_holdout_bundle_sha256 c \<noteq> None
               then Inl (EvalPackageError ''is a development case and declares a holdout bundle'' [])
               else Inr ())
         else (case ec_holdout_bundle_sha256 c of
             None \<Rightarrow> Inl (EvalPackageError ''must declare holdout_bundle_sha256'' [])
           | Some bundle \<Rightarrow>
               let in_repo = names (\<lambda>r. \<not> ref_is_holdout r);
                   mismatched = names (\<lambda>r. mr_sha256 r \<noteq> bundle);
                   foreign = names (\<lambda>r. holdout_case_of (mr_ref r) \<noteq> ec_case_id c)
               in if \<not> expected_is_empty (ec_expected c)
                  then Inl (EvalPackageError ''expected behavior is the answer key'' [])
                  else if ec_source_evidence c \<noteq> []
                  then Inl (EvalPackageError ''source evidence describes the exam'' [])
                  else if ec_skill_selection_target c \<noteq> None
                  then Inl (EvalPackageError ''the evaluated skill-selection target is bundle-served'' [])
                  else if ec_input_fixture c = None
                  then Inl (EvalPackageError ''must declare a holdout input fixture'' [])
                  else if in_repo \<noteq> [] then Inl (EvalPackageError ''these resolve inside the repository'' in_repo)
                  else if mismatched \<noteq> []
                  then Inl (EvalPackageError ''must be bound to holdout_bundle_sha256'' mismatched)
                  else if foreign \<noteq> []
                  then Inl (EvalPackageError ''may only reference its own holdout bundle'' foreign)
                  else Inr ()))"

definition validate_case_policy :: "EvalSuiteDefinition \<Rightarrow> EvalCaseDefinition \<Rightarrow> package_error + unit" where
  "validate_case_policy s c =
     (if ec_suite_id c \<noteq> es_suite_id s then Inl (EvalPackageError ''sits in another suite'' [])
      else if mp_attempts (ec_attempt_policy c) < ATTEMPT_FLOOR (ec_risk_class c)
      then Inl (EvalPackageError ''requires more retained attempts'' [])
      else if ec_criticality c = CRITICAL
          \<and> mp_critical_failure_rule (ec_attempt_policy c) \<noteq> SINGLE_OCCURRENCE_FAILS
      then Inl (EvalPackageError ''a critical case must fail the target on a single occurrence'' [])
      else if ec_criticality c = CRITICAL \<and> mp_aggregate_rule (ec_attempt_policy c) \<noteq> ALL_ATTEMPTS_PASS
      then Inl (EvalPackageError ''a critical case must aggregate on all_attempts_pass'' [])
      else if (ec_privacy_class c = TENANT_PRIVATE) \<noteq> (ec_tenant_scope c \<noteq> None)
      then Inl (EvalPackageError ''tenant-private cases declare tenant_scope and only those may'' [])
      else if ec_privacy_class c = TENANT_PRIVATE \<and> es_owning_scope s \<noteq> TENANT
      then Inl (EvalPackageError ''a tenant-private case cannot live in a shared suite'' [])
      else if ec_privacy_class c = TENANT_PRIVATE \<and> ec_tenant_scope c \<noteq> es_tenant_scope s
      then Inl (EvalPackageError ''does not match suite tenant'' [])
      else if is_skill_selection s \<and> ec_lifecycle_state c = ACTIVE \<and> \<not> case_is_holdout c
          \<and> ec_skill_selection_target c = None
      then Inl (EvalPackageError ''a skill-selection case must record the evaluated target manifest'' [])
      else Inr ())"

definition is_live :: "EvalCaseDefinition \<Rightarrow> bool" where
  "is_live c \<longleftrightarrow> ec_lifecycle_state c \<notin> set RETIRED_STATES"

definition validate_version :: "string list \<Rightarrow> EvalCaseDefinition \<Rightarrow> package_error + unit" where
  "validate_version known c =
     (if \<not> is_live c \<and> ec_superseded_by c = None
      then Inl (EvalPackageError ''must name the case that superseded it'' [])
      else if (case ec_superseded_by c of None \<Rightarrow> False | Some i \<Rightarrow> i \<notin> set known)
      then Inl (EvalPackageError ''is superseded by unknown case'' [])
      else if filter (\<lambda>i. i \<notin> set known) (ec_supersedes c) \<noteq> []
      then Inl (EvalPackageError ''supersedes unknown cases'' (filter (\<lambda>i. i \<notin> set known) (ec_supersedes c)))
      else Inr ())"

text \<open>The keys of \<^verbatim>\<open>by_id\<close> are in the order of their first case.\<close>

definition validate_lineage :: "EvalCaseDefinition list \<Rightarrow> package_error + unit" where
  "validate_lineage cases =
     (let known = map ec_case_id cases;
          ids = map fst (dict_of (map (\<lambda>c. (ec_case_id c, ())) cases))
      in if \<not> distinct (map (\<lambda>c. (ec_case_id c, ec_case_version c)) cases)
         then Inl (EvalPackageError ''is declared twice in one suite'' [])
         else all_res (\<lambda>i. let versions = filter (\<lambda>c. ec_case_id c = i) cases
                in if 1 < length (filter is_live versions)
                   then Inl (EvalPackageError ''exactly one may be live'' [i])
                   else all_res (validate_version known) versions) ids)"

definition validate_grader_coverage :: "EvalSuiteDefinition \<Rightarrow> EvalCaseDefinition list \<Rightarrow> package_error + unit" where
  "validate_grader_coverage s cases =
     (let declared = dict_of (map (\<lambda>m. (mr_ref m, mr_sha256 m)) (es_grader_manifests s))
      in all_res (\<lambda>c. if case_is_holdout c then Inr ()
           else all_res (\<lambda>g. case map_of declared (mr_ref (ga_manifest g)) of
                    None \<Rightarrow> Inl (EvalPackageError ''uses a grader manifest the suite does not declare'' [mr_ref (ga_manifest g)])
                  | Some expected \<Rightarrow>
                      if expected \<noteq> mr_sha256 (ga_manifest g)
                      then Inl (EvalPackageError ''pins a grader at a different hash'' [mr_ref (ga_manifest g)])
                      else Inr ()) (ec_graders c)) cases)"

definition validate_referenced_file ::
    "('a package_env_scheme) \<Rightarrow> path \<Rightarrow> ManifestReference \<Rightarrow> package_error + unit" where
  "validate_referenced_file E repo_root m =
     (if ref_is_holdout m then Inr ()
      else res_bind (resolve_ref m repo_root) (\<lambda>path.
        case os_read_bytes E path of
          BytesMissing \<Rightarrow> Inl (EvalPackageError ''does not exist'' [mr_ref m])
        | BytesOsError \<Rightarrow> Inl (EvalPackageError ''references unreadable file'' [mr_ref m])
        | BytesAre raw \<Rightarrow>
            if sha256 E raw \<noteq> mr_sha256 m then Inl (EvalPackageError ''pins a file that hashes otherwise'' [mr_ref m])
            else Inr ()))"

text \<open>What the lints use of a \<^verbatim>\<open>HoldoutProvider\<close>.\<close>

record bundle_source =
  bs_has_case :: "string \<Rightarrow> holdout_error + bool"
  bs_bundle_digest :: "string \<Rightarrow> holdout_error + string"

definition provider_call :: "holdout_error + 'v \<Rightarrow> package_error + 'v" where
  "provider_call m = (case m of Inl e \<Rightarrow> Inl (ProviderError e) | Inr v \<Rightarrow> Inr v)"

definition validate_bundle :: "bundle_source \<Rightarrow> EvalCaseDefinition \<Rightarrow> package_error + unit" where
  "validate_bundle provider c =
     res_bind (provider_call (bs_has_case provider (ec_case_id c))) (\<lambda>present.
       if \<not> present then Inl (EvalPackageError ''is a holdout but no bundle is provisioned'' [])
       else res_bind (provider_call (bs_bundle_digest provider (ec_case_id c))) (\<lambda>d.
         if Some d \<noteq> ec_holdout_bundle_sha256 c
         then Inl (EvalPackageError ''the provisioned bundle hashes otherwise'' [])
         else Inr ()))"

definition validate_package ::
    "('a package_env_scheme) \<Rightarrow> path \<Rightarrow> bundle_source option \<Rightarrow> EvalSuiteDefinition \<Rightarrow> EvalCaseDefinition list
     \<Rightarrow> package_error + bool" where
  "validate_package E repo_root provider s cases =
     res_bind (validate_lineage cases) (\<lambda>_.
     res_bind (all_res (\<lambda>c. res_bind (validate_case_policy s c) (\<lambda>_. validate_holdout_containment c)) cases) (\<lambda>_.
     res_bind (validate_grader_coverage s cases) (\<lambda>_.
       if es_gate_intent s = Gate_BLOCKING
          \<and> \<not> list_ex (\<lambda>c. ec_criticality c = CRITICAL \<and> ec_lifecycle_state c = ACTIVE) cases
       then Inl (EvalPackageError ''is blocking but declares no active critical case'' [])
       else res_bind (all_res (validate_referenced_file E repo_root)
                        (es_grader_manifests s @ concat (map all_references cases))) (\<lambda>_.
         if filter case_is_holdout cases = [] then Inr True
         else (case provider of
             None \<Rightarrow> Inr False
           | Some p \<Rightarrow>
               res_bind (all_res (validate_bundle p) (filter case_is_holdout cases)) (\<lambda>_. Inr True))))))"

section \<open>Loading\<close>

definition ends_with :: "string \<Rightarrow> string \<Rightarrow> bool" where
  "ends_with s t \<longleftrightarrow> starts_with (rev s) (rev t)"

definition load_case ::
    "('a package_env_scheme) \<Rightarrow> path \<Rightarrow> ManifestReference \<Rightarrow> package_error + EvalCaseDefinition" where
  "load_case E repo_root m =
     (if \<not> ends_with (mr_ref m) CASE_FILE_SUFFIX
      then Inl (EvalPackageError ''case manifests must end in .case.json'' [mr_ref m])
      else res_bind (resolve_ref m repo_root) (\<lambda>path.
           res_bind (read_manifest E path) (\<lambda>(payload, sha).
             if sha \<noteq> mr_sha256 m then Inl (EvalPackageError ''pinned at another hash'' [mr_ref m])
             else parse_case E payload sha)))"

definition package_json :: "EvalSuiteDefinition \<Rightarrow> EvalCaseDefinition list \<Rightarrow> json" where
  "package_json s cases = JObj
     [(''suite'', JStr (suite_qualified_id s)), (''suite_sha256'', JStr (es_manifest_sha256 s)),
      (''cases'', JList (map (\<lambda>(i, v, h). JList [JStr i, JInt v, JStr h])
          (sort (map (\<lambda>c. (ec_case_id c, ec_case_version c, ec_manifest_sha256 c)) cases))))]"

definition load_suite_package ::
    "('a package_env_scheme) \<Rightarrow> path \<Rightarrow> bundle_source option \<Rightarrow> path \<Rightarrow> package_error + EvalSuitePackage" where
  "load_suite_package E repo_root provider suite_path =
     (if suite_path = [] \<or> \<not> ends_with (last suite_path) SUITE_FILE_SUFFIX
      then Inl (EvalPackageError ''suite manifests must end in .suite.json'' [])
      else res_bind (read_manifest E suite_path) (\<lambda>(payload, sha).
           res_bind (parse_suite E payload sha) (\<lambda>s.
           res_bind (map_res (load_case E repo_root) (es_case_manifests s)) (\<lambda>cases.
           res_bind (validate_package E repo_root provider s cases) (\<lambda>bound.
             case digest E (package_json s cases) of
               None \<Rightarrow> Inl UncaughtValueError
             | Some d \<Rightarrow> Inr \<lparr>pk_suite = s, pk_cases = cases, pk_package_sha256 = d,
                               pk_holdout_binding_verified = bound\<rparr>)))))"

record registry_state =
  rg_packages :: "EvalSuitePackage list"
  rg_suites :: "string list"
  rg_case_owners :: "(string \<times> string) list"
  rg_case_hashes :: "((string \<times> int) \<times> string) list"

text \<open>\<^verbatim>\<open>d.setdefault(key, value)\<close>: the dict and the value it now holds.\<close>

definition dict_default :: "'k \<Rightarrow> 'v \<Rightarrow> ('k \<times> 'v) list \<Rightarrow> ('k \<times> 'v) list \<times> 'v" where
  "dict_default k v d = (case map_of d k of None \<Rightarrow> (d @ [(k, v)], v) | Some w \<Rightarrow> (d, w))"

definition register_case :: "string \<Rightarrow> registry_state \<Rightarrow> EvalCaseDefinition \<Rightarrow> package_error + registry_state" where
  "register_case qualified g c =
     (case dict_default (ec_case_id c) qualified (rg_case_owners g) of (owners, owner) \<Rightarrow>
        if owner \<noteq> qualified then Inl (EvalPackageError ''is claimed by two suites'' [ec_case_id c])
        else (case dict_default (ec_case_id c, ec_case_version c) (ec_manifest_sha256 c) (rg_case_hashes g) of
            (hashes, known) \<Rightarrow>
              if known \<noteq> ec_manifest_sha256 c
              then Inl (EvalPackageError ''has contradictory definitions across the registry'' [])
              else Inr (g\<lparr>rg_case_owners := owners, rg_case_hashes := hashes\<rparr>)))"

definition register_suite ::
    "('a package_env_scheme) \<Rightarrow> path \<Rightarrow> bundle_source option \<Rightarrow> registry_state \<Rightarrow> path \<Rightarrow> package_error + registry_state" where
  "register_suite E repo_root provider g suite_path =
     res_bind (load_suite_package E repo_root provider suite_path) (\<lambda>p.
       let qualified = suite_qualified_id (pk_suite p)
       in if qualified \<in> set (rg_suites g) then Inl (EvalPackageError ''is declared more than once'' [qualified])
          else res_bind (fold_res (register_case qualified) (g\<lparr>rg_suites := rg_suites g @ [qualified]\<rparr>) (pk_cases p))
                 (\<lambda>g. Inr (g\<lparr>rg_packages := rg_packages g @ [p]\<rparr>)))"

text \<open>\<open>suite_paths\<close> are the files that \<^verbatim>\<open>rglob\<close> finds below the registry's root.\<close>

definition load_suite_registry ::
    "('a package_env_scheme) \<Rightarrow> path \<Rightarrow> bundle_source option \<Rightarrow> path list \<Rightarrow> package_error + EvalSuitePackage list" where
  "load_suite_registry E repo_root provider suite_paths =
     res_bind (fold_res (register_suite E repo_root provider)
                 \<lparr>rg_packages = [], rg_suites = [], rg_case_owners = [], rg_case_hashes = []\<rparr> (sort suite_paths))
       (\<lambda>g. Inr (rg_packages g))"

end
