(* ===== verification/Suite_Checks.thy ===== *)
theory Suite_Checks
  imports Suite_Package
begin

text \<open>
  What a loaded package guarantees (\<^verbatim>\<open>fleet_kernel/eval_plane/suite_package.py\<close>): its definitions are well
  formed, every file it names is pinned and lies in the repository, holdouts carry no answers, its
  attempt policies mean in the grading layer what they say, and a registry has no collisions.
\<close>

section \<open>Lemmas on the field readers\<close>

lemma re_times_fullmatch: "re_fullmatch (re_times n (Cls P)) s \<longleftrightarrow> length s = n \<and> list_all P s"
proof -
  have "(\<exists>q \<in> set (re_matches (re_times n (Cls P)) (b, s)). snd q = []) \<longleftrightarrow> length s = n \<and> list_all P s" for b
  proof (induction n arbitrary: b s)
    case (Suc n)
    then show ?case by (cases s) (auto simp: re_times_def)
  qed (auto simp: re_times_def)
  then show ?thesis by (simp add: re_fullmatch_def)
qed

lemma sha256_pattern [simp]: "re_fullmatch SHA256_PATTERN s \<longleftrightarrow> is_hex64 s"
  by (simp add: SHA256_PATTERN_def re_times_fullmatch is_hex64_def)

lemma text_field_Inr:
  assumes "text_field f key pattern = Inr v"
  shows "v \<noteq> []" and "length v \<le> 4096" and "list_all (\<lambda>c. 32 \<le> (of_char c :: nat)) v"
    and "pattern = Some r \<Longrightarrow> re_fullmatch r v"
proof -
  obtain w where "get f key = JStr w" using assms by (auto simp: text_field_def split: json.splits)
  then have w: "nonblank w" "v = py_strip w" "length w \<le> 4096" "\<not> list_ex (\<lambda>c. (of_char c :: nat) < 32) v"
      "pred_option (\<lambda>r. re_fullmatch r v) pattern"
    using assms by (auto simp: text_field_def MAX_TEXT_LENGTH_def Let_def split: if_splits option.splits)
  then show "v \<noteq> []" by (simp add: py_strip_blank)
  have "length (py_strip w) \<le> length w"
    using length_dropWhile_le [of py_space "rev (dropWhile py_space w)"] length_dropWhile_le [of py_space w]
    by (simp add: py_strip_def)
  then show "length v \<le> 4096" using w by simp
  show "list_all (\<lambda>c. 32 \<le> (of_char c :: nat)) v" using w(4) by (auto simp: list_all_iff list_ex_iff not_less)
  show "pattern = Some r \<Longrightarrow> re_fullmatch r v" using w(5) by simp
qed

lemma optional_text_Inr:
  "optional_text f key pattern = Inr (Some v) \<Longrightarrow> text_field f key pattern = Inr v"
  by (auto simp: optional_text_def res_bind_Inr_iff split: if_splits)

lemma integer_field_Inr: "integer_field f key lo hi = Inr v \<Longrightarrow> lo \<le> v \<and> v \<le> hi"
  by (auto simp: integer_field_def split: json.splits if_splits)

lemma ratio_field_Inr: "ratio_field nf f key = Inr v \<Longrightarrow> 0 \<le> v \<and> v \<le> 1"
  by (auto simp: ratio_field_def split: json.splits if_splits)

lemma string_tuple_distinct: "string_tuple f key = Inr vs \<Longrightarrow> distinct vs"
  by (auto simp: string_tuple_def Let_def split: json.splits if_splits)

lemma parse_optional_Inr: "parse_optional read j = Inr (Some v) \<Longrightarrow> read j = Inr v"
  by (auto simp: parse_optional_def res_bind_Inr_iff split: if_splits)

section \<open>Well-formed definitions\<close>

definition ref_ok :: "ManifestReference \<Rightarrow> bool" where
  "ref_ok m \<longleftrightarrow> is_hex64 (mr_sha256 m)
     \<and> (if ref_is_holdout m
        then re_fullmatch CASE_ID_PATTERN (holdout_case_of (mr_ref m)) \<and> holdout_part_of (mr_ref m) \<noteq> []
        else \<not> is_absolute (path_of (mr_ref m)) \<and> ''..'' \<notin> set (path_of (mr_ref m))
          \<and> mr_ref m = as_posix (path_of (mr_ref m)))"

definition policy_ok :: "('a package_env_scheme) \<Rightarrow> ManifestPolicy \<Rightarrow> bool" where
  "policy_ok E p \<longleftrightarrow> 1 \<le> mp_attempts p \<and> mp_attempts p \<le> 25
     \<and> 0 \<le> mp_infra_retry_limit p \<and> mp_infra_retry_limit p \<le> 10
     \<and> json_serializable (nonfinite E) (JObj (mp_sampling p))
     \<and> pred_option (\<lambda>i. py_str_int i \<noteq> None) (mp_seed p)"

definition grader_ok :: "GraderAssignment \<Rightarrow> bool" where
  "grader_ok g \<longleftrightarrow> re_fullmatch CAPABILITY_PATTERN (ga_grader_id g) \<and> 1 \<le> ga_grader_version g
     \<and> ga_grader_version g \<le> 9999 \<and> ref_ok (ga_manifest g)
     \<and> (ga_grader_type g = SEMANTIC \<longrightarrow> ga_criticality g = ADVISORY)"

definition target_ok :: "SkillSelectionTarget \<Rightarrow> bool" where
  "target_ok t \<longleftrightarrow> st_skill_descriptions t \<noteq> [] \<and> st_tool_descriptions t \<noteq> []
     \<and> st_host_instructions t \<noteq> [] \<and> list_all ref_ok (st_host_instructions t)
     \<and> st_available_tools t \<noteq> [] \<and> st_model_configuration t \<noteq> [] \<and> st_harness_version t \<noteq> []"

definition case_ok :: "('a package_env_scheme) \<Rightarrow> EvalCaseDefinition \<Rightarrow> bool" where
  "case_ok E c \<longleftrightarrow> re_fullmatch CASE_ID_PATTERN (ec_case_id c) \<and> re_fullmatch SUITE_ID_PATTERN (ec_suite_id c)
     \<and> 1 \<le> ec_case_version c \<and> ec_case_version c \<le> 9999
     \<and> ec_graders c \<noteq> [] \<and> list_all grader_ok (ec_graders c) \<and> distinct (map grader_qualified_id (ec_graders c))
     \<and> list_all ref_ok (all_references c) \<and> policy_ok E (ec_attempt_policy c)
     \<and> pred_option target_ok (ec_skill_selection_target c) \<and> pred_option is_hex64 (ec_holdout_bundle_sha256 c)
     \<and> ec_created_at c \<le> ec_last_reviewed_at c \<and> ec_owner c \<noteq> []"

definition suite_ok :: "('a package_env_scheme) \<Rightarrow> EvalSuiteDefinition \<Rightarrow> bool" where
  "suite_ok E s \<longleftrightarrow> re_fullmatch SUITE_ID_PATTERN (es_suite_id s) \<and> 1 \<le> es_suite_version s \<and> es_suite_version s \<le> 9999
     \<and> es_case_manifests s \<noteq> [] \<and> distinct (map mr_ref (es_case_manifests s))
     \<and> list_all (\<lambda>m. ref_ok m \<and> \<not> ref_is_holdout m) (es_case_manifests s @ es_grader_manifests s)
     \<and> policy_ok E (es_attempt_policy s)
     \<and> 0 \<le> qt_min_case_pass_rate (es_qualification_thresholds s)
     \<and> qt_min_case_pass_rate (es_qualification_thresholds s) \<le> 1
     \<and> qt_max_critical_failures (es_qualification_thresholds s) = 0
     \<and> qt_max_error_rate (es_qualification_thresholds s) = 0
     \<and> (es_owning_scope s = TENANT \<longleftrightarrow> es_tenant_scope s \<noteq> None)
     \<and> es_created_at s \<le> es_last_reviewed_at s \<and> es_owner s \<noteq> []"

lemma parse_reference_ok: "parse_reference j = Inr m \<Longrightarrow> ref_ok m"
  by (auto simp: parse_reference_def res_bind_Inr_iff ref_ok_def ref_is_holdout_def
      dest: text_field_Inr(4) split: if_splits)

lemma map_res_list_all:
  "map_res f xs = Inr ys \<Longrightarrow> (\<And>x y. f x = Inr y \<Longrightarrow> P y) \<Longrightarrow> list_all P ys"
  by (auto simp: list_all_iff dest: map_res_all)

lemma reference_list_ok: "reference_list f key = Inr ms \<Longrightarrow> list_all ref_ok ms"
  by (auto simp: reference_list_def split: json.splits elim: map_res_list_all intro: parse_reference_ok)

lemma json_serializable_sort:
  "json_serializable nf (JObj (sort_key fst m)) \<longleftrightarrow> json_serializable nf (JObj m)"
  by (simp add: list_all_iff)

lemma object_map_ok: "object_map nf f key = Inr m \<Longrightarrow> json_serializable nf (JObj m)"
  by (auto simp: object_map_def json_serializable_sort simp del: json_serializable.simps
      split: json.splits if_splits)

lemma get_printable: "fields_of j req opt = Inr f \<Longrightarrow> printable_json j \<Longrightarrow> printable_json (get f key)"
  by (cases j) (auto simp: fields_of_def get_def list_all_iff Let_def split: if_splits option.splits dest!: map_of_SomeD)

lemma parse_policy_ok:
  assumes "parse_policy E j = Inr p" and "printable_json j"
  shows "policy_ok E p"
proof -
  obtain f where f: "fields_of j [''attempts'', ''infra_retry_limit'', ''aggregate_rule'', ''critical_failure_rule'']
      [''sampling'', ''seed''] = Inr f"
    and s: "(case get f ''seed'' of JNull \<Rightarrow> Inr None | JInt i \<Rightarrow> Inr (Some i)
      | _ \<Rightarrow> Inl (EvalPackageError ''must be an integer or null'' [])) = Inr (mp_seed p)"
    using assms(1) by (auto simp: parse_policy_def res_bind_Inr_iff)
  have "pred_option (\<lambda>i. py_str_int i \<noteq> None) (mp_seed p)"
    using get_printable [OF f assms(2), of "''seed''"] s by (cases "get f ''seed''"; cases "mp_seed p") auto
  then show ?thesis
    using assms(1) by (auto simp: parse_policy_def res_bind_Inr_iff policy_ok_def MAX_ATTEMPTS_def
        simp del: json_serializable.simps dest: integer_field_Inr object_map_ok)
qed

lemma parse_grader_ok: "parse_grader j = Inr g \<Longrightarrow> grader_ok g"
  by (auto simp: parse_grader_def res_bind_Inr_iff grader_ok_def
      dest: text_field_Inr(4) integer_field_Inr parse_reference_ok split: if_splits)

lemma parse_target_ok: "parse_target E j = Inr t \<Longrightarrow> target_ok t"
  by (auto simp: parse_target_def res_bind_Inr_iff target_ok_def Let_def
      dest: text_field_Inr(1) reference_list_ok split: if_splits)

lemma parse_graders_ok:
  "parse_graders f = Inr gs \<Longrightarrow> gs \<noteq> [] \<and> list_all grader_ok gs \<and> distinct (map grader_qualified_id gs)"
  by (auto simp: parse_graders_def res_bind_Inr_iff parse_grader_ok dest: map_res_length
      intro: map_res_list_all split: json.splits if_splits)

lemma parse_thresholds_ok:
  "parse_thresholds E j = Inr q \<Longrightarrow> 0 \<le> qt_min_case_pass_rate q \<and> qt_min_case_pass_rate q \<le> 1
     \<and> qt_max_critical_failures q = 0 \<and> qt_max_error_rate q = 0"
  by (auto simp: parse_thresholds_def res_bind_Inr_iff Let_def dest!: ratio_field_Inr split: if_splits)

lemma parse_dates_ok: "parse_dates E f = Inr (created, reviewed) \<Longrightarrow> created \<le> reviewed"
  by (auto simp: parse_dates_def res_bind_Inr_iff split: if_splits)

lemma parse_case_ok:
  assumes "parse_case E j sha = Inr c" and "printable_json j"
  shows "case_ok E c" and "ec_manifest_sha256 c = sha"
proof -
  obtain f gs input created reviewed holdout target env pol where
    "parse_graders f = Inr gs" "parse_optional parse_reference (get f ''input_fixture'') = Inr input"
    "parse_dates E f = Inr (created, reviewed)"
    "optional_text f ''holdout_bundle_sha256'' (Some SHA256_PATTERN) = Inr holdout"
    "parse_optional (parse_target E) (get f ''skill_selection_target'') = Inr target"
    "text_field f ''case_id'' (Some CASE_ID_PATTERN) = Inr (ec_case_id c)"
    "integer_field f ''case_version'' 1 9999 = Inr (ec_case_version c)"
    "text_field f ''suite_id'' (Some SUITE_ID_PATTERN) = Inr (ec_suite_id c)"
    "reference_list f ''environment_fixtures'' = Inr env" "reference_list f ''policy_fixtures'' = Inr pol"
    "parse_policy E (get f ''attempt_policy'') = Inr (ec_attempt_policy c)"
    "text_field f ''owner'' None = Inr (ec_owner c)" "fields_of j CASE_REQUIRED CASE_OPTIONAL = Inr f"
    and c: "ec_graders c = gs" "ec_input_fixture c = input" "ec_created_at c = created"
    "ec_last_reviewed_at c = reviewed" "ec_holdout_bundle_sha256 c = holdout"
    "ec_skill_selection_target c = target" "ec_environment_fixtures c = env" "ec_policy_fixtures c = pol"
    "ec_manifest_sha256 c = sha"
    using assms(1) by (auto simp: parse_case_def res_bind_Inr_iff)
  note parsed = this
  have g: "gs \<noteq> []" "list_all grader_ok gs" "distinct (map grader_qualified_id gs)"
    using parse_graders_ok [OF parsed(1)] by simp_all
  have i: "list_all ref_ok (case input of None \<Rightarrow> [] | Some r \<Rightarrow> [r])"
    using parsed(2) parse_reference_ok parse_optional_Inr by (cases input) fastforce+
  have t: "pred_option target_ok target"
    using parsed(5) parse_target_ok parse_optional_Inr by (cases target) fastforce+
  have h: "pred_option is_hex64 holdout"
    using parsed(4) optional_text_Inr text_field_Inr(4) sha256_pattern by (cases holdout) fastforce+
  have r: "list_all ref_ok (all_references c)"
    using i t g(2) reference_list_ok [OF parsed(9)] reference_list_ok [OF parsed(10)]
    unfolding all_references_def c
    by (cases target) (auto simp: list_all_iff grader_ok_def target_ok_def)
  show "case_ok E c"
    using g t h r c text_field_Inr(4) [OF parsed(6) refl] integer_field_Inr [OF parsed(7)]
      text_field_Inr(4) [OF parsed(8) refl] parse_policy_ok [OF parsed(11) get_printable [OF parsed(13) assms(2)]] text_field_Inr(1) [OF parsed(12)]
      parse_dates_ok [OF parsed(3)]
    by (simp add: case_ok_def)
  show "ec_manifest_sha256 c = sha" by (rule c(9))
qed

lemma parse_suite_ok:
  assumes "parse_suite E j sha = Inr s" and "printable_json j"
  shows "suite_ok E s" and "es_manifest_sha256 s = sha"
proof -
  obtain f created reviewed where
    "case_manifests_of f = Inr (es_case_manifests s)" "grader_manifests_of f = Inr (es_grader_manifests s)"
    "parse_dates E f = Inr (created, reviewed)"
    "text_field f ''suite_id'' (Some SUITE_ID_PATTERN) = Inr (es_suite_id s)"
    "integer_field f ''suite_version'' 1 9999 = Inr (es_suite_version s)"
    "parse_policy E (get f ''attempt_policy'') = Inr (es_attempt_policy s)"
    "parse_thresholds E (get f ''qualification_thresholds'') = Inr (es_qualification_thresholds s)"
    "text_field f ''owner'' None = Inr (es_owner s)" "fields_of j SUITE_REQUIRED SUITE_OPTIONAL = Inr f"
    and s: "es_created_at s = created" "es_last_reviewed_at s = reviewed" "es_manifest_sha256 s = sha"
    "es_owning_scope s = TENANT \<longleftrightarrow> es_tenant_scope s \<noteq> None"
    using assms(1) by (auto simp: parse_suite_def res_bind_Inr_iff split: if_splits)
  note parsed = this
  have "es_case_manifests s \<noteq> [] \<and> distinct (map mr_ref (es_case_manifests s))
      \<and> list_all (\<lambda>m. ref_ok m \<and> \<not> ref_is_holdout m) (es_case_manifests s)"
    using parsed(1) by (auto simp: case_manifests_of_def res_bind_Inr_iff list_all_iff list_ex_iff
        dest!: reference_list_ok split: if_splits)
  moreover have "list_all (\<lambda>m. ref_ok m \<and> \<not> ref_is_holdout m) (es_grader_manifests s)"
    using parsed(2) by (auto simp: grader_manifests_of_def res_bind_Inr_iff list_all_iff list_ex_iff
        dest!: reference_list_ok split: if_splits)
  ultimately show "suite_ok E s"
    using s text_field_Inr(4) [OF parsed(4) refl] integer_field_Inr [OF parsed(5)]
      parse_policy_ok [OF parsed(6) get_printable [OF parsed(9) assms(2)]] parse_thresholds_ok [OF parsed(7)] text_field_Inr(1) [OF parsed(8)]
      parse_dates_ok [OF parsed(3)]
    by (simp add: suite_ok_def)
  show "es_manifest_sha256 s = sha" by (rule s(3))
qed

section \<open>What loading a package establishes\<close>

lemma read_manifest_Inr:
  assumes "read_manifest E p = Inr (payload, sha)"
  shows "\<exists>raw. os_read_bytes E p = BytesAre raw \<and> sha = sha256 E raw" and "printable_json payload"
  using assms json_loads_printable
  by (auto simp: read_manifest_def split: bytes_read.splits option.splits loads_result.splits)

lemma load_case_Inr:
  assumes "load_case E repo m = Inr c"
  shows "case_ok E c" and "ec_manifest_sha256 c = mr_sha256 m"
    and "\<exists>raw. os_read_bytes E (repo @ path_of (mr_ref m)) = BytesAre raw \<and> sha256 E raw = mr_sha256 m"
proof -
  obtain p payload where "resolve_ref m repo = Inr p" "read_manifest E p = Inr (payload, mr_sha256 m)"
      "parse_case E payload (mr_sha256 m) = Inr c"
    using assms by (auto simp: load_case_def res_bind_Inr_iff split: if_splits)
  note l = this
  show "case_ok E c" "ec_manifest_sha256 c = mr_sha256 m" using parse_case_ok [OF l(3) read_manifest_Inr(2) [OF l(2)]] by simp_all
  have "p = repo @ path_of (mr_ref m)" using l(1) by (auto simp: resolve_ref_def split: if_splits)
  then show "\<exists>raw. os_read_bytes E (repo @ path_of (mr_ref m)) = BytesAre raw \<and> sha256 E raw = mr_sha256 m"
    using read_manifest_Inr(1) [OF l(2)] by auto
qed

lemma load_suite_package_Inr:
  assumes "load_suite_package E repo provider path = Inr p"
  obtains raw where "os_read_bytes E path = BytesAre raw" and "es_manifest_sha256 (pk_suite p) = sha256 E raw"
    and "suite_ok E (pk_suite p)"
    and "list_all2 (\<lambda>m c. load_case E repo m = Inr c) (es_case_manifests (pk_suite p)) (pk_cases p)"
    and "validate_package E repo provider (pk_suite p) (pk_cases p) = Inr (pk_holdout_binding_verified p)"
    and "digest E (package_json (pk_suite p) (pk_cases p)) = Some (pk_package_sha256 p)"
proof -
  obtain payload sha where p: "read_manifest E path = Inr (payload, sha)"
      "parse_suite E payload sha = Inr (pk_suite p)"
      "map_res (load_case E repo) (es_case_manifests (pk_suite p)) = Inr (pk_cases p)"
      "validate_package E repo provider (pk_suite p) (pk_cases p) = Inr (pk_holdout_binding_verified p)"
      "digest E (package_json (pk_suite p) (pk_cases p)) = Some (pk_package_sha256 p)"
    using assms by (auto simp: load_suite_package_def res_bind_Inr_iff split: if_splits option.splits)
  obtain raw where "os_read_bytes E path = BytesAre raw" "sha = sha256 E raw"
    using read_manifest_Inr(1) [OF p(1)] by blast
  with p parse_suite_ok [OF p(2) read_manifest_Inr(2) [OF p(1)]] that show ?thesis by (auto simp: map_res_Inr)
qed

lemma loaded_case:
  assumes "load_suite_package E repo provider path = Inr p" and "c \<in> set (pk_cases p)"
  shows "\<exists>m \<in> set (es_case_manifests (pk_suite p)). load_case E repo m = Inr c"
proof -
  have "list_all2 (\<lambda>m c. load_case E repo m = Inr c) (es_case_manifests (pk_suite p)) (pk_cases p)"
    using assms(1) by (rule load_suite_package_Inr)
  with assms(2) show ?thesis by (auto simp: list_all2_conv_all_nth in_set_conv_nth) (metis nth_mem)
qed

text \<open>The lints as one conjunction.\<close>

lemma validate_package_Inr:
  assumes "validate_package E repo provider s cases = Inr bound"
  shows "validate_lineage cases = Inr ()" and "validate_grader_coverage s cases = Inr ()"
    and "\<forall>c \<in> set cases. validate_case_policy s c = Inr () \<and> validate_holdout_containment c = Inr ()"
    and "\<forall>m \<in> set (es_grader_manifests s). validate_referenced_file E repo m = Inr ()"
    and "\<forall>c \<in> set cases. \<forall>m \<in> set (all_references c). validate_referenced_file E repo m = Inr ()"
    and "es_gate_intent s = Gate_BLOCKING \<longrightarrow>
      (\<exists>c \<in> set cases. ec_criticality c = CRITICAL \<and> ec_lifecycle_state c = ACTIVE)"
    and "bound \<Longrightarrow> c \<in> set cases \<Longrightarrow> case_is_holdout c \<Longrightarrow>
      \<exists>src. provider = Some src \<and> validate_bundle src c = Inr ()"
proof -
  obtain u1 u2 u3 u4 where
    v: "validate_lineage cases = Inr u1" "validate_grader_coverage s cases = Inr u2"
      "all_res (\<lambda>c. res_bind (validate_case_policy s c) (\<lambda>_. validate_holdout_containment c)) cases = Inr u3"
      "all_res (validate_referenced_file E repo) (es_grader_manifests s @ concat (map all_references cases)) = Inr u4"
      "es_gate_intent s = Gate_BLOCKING \<longrightarrow>
         list_ex (\<lambda>c. ec_criticality c = CRITICAL \<and> ec_lifecycle_state c = ACTIVE) cases"
      "if filter case_is_holdout cases = [] then bound
       else (case provider of None \<Rightarrow> \<not> bound
             | Some src \<Rightarrow> \<exists>u. all_res (validate_bundle src) (filter case_is_holdout cases) = Inr u)"
    using assms by (fastforce simp: validate_package_def res_bind_Inr_iff guard_Inr split: if_splits option.splits)
  show "validate_lineage cases = Inr ()" "validate_grader_coverage s cases = Inr ()" using v(1,2) by simp_all
  show "\<forall>c \<in> set cases. validate_case_policy s c = Inr () \<and> validate_holdout_containment c = Inr ()"
    using v(3) by (auto simp: all_res_Inr res_bind_Inr_iff)
  show "\<forall>m \<in> set (es_grader_manifests s). validate_referenced_file E repo m = Inr ()"
    "\<forall>c \<in> set cases. \<forall>m \<in> set (all_references c). validate_referenced_file E repo m = Inr ()"
    using v(4) by (auto simp: all_res_Inr)
  show "es_gate_intent s = Gate_BLOCKING \<longrightarrow>
      (\<exists>c \<in> set cases. ec_criticality c = CRITICAL \<and> ec_lifecycle_state c = ACTIVE)"
    using v(5) by (auto simp: list_ex_iff)
  show "\<exists>src. provider = Some src \<and> validate_bundle src c = Inr ()"
    if "bound" "c \<in> set cases" "case_is_holdout c"
    using v(6) that by (auto simp: all_res_Inr filter_empty_conv split: option.splits if_splits)
qed

lemma validate_lineage_Inr:
  assumes "validate_lineage cases = Inr ()"
  shows "distinct (map (\<lambda>c. (ec_case_id c, ec_case_version c)) cases)"
    and "length (filter (\<lambda>c. ec_case_id c = i \<and> is_live c) cases) \<le> 1"
    and "c \<in> set cases \<Longrightarrow> validate_version (map ec_case_id cases) c = Inr ()"
proof -
  let ?ids = "map fst (dict_of (map (\<lambda>c. (ec_case_id c, ())) cases))"
  have keys: "set (map fst (dict_of kvs)) = fst ` set kvs" for kvs :: "('k \<times> 'v) list"
  proof -
    have "fst ` set (fold (\<lambda>(k, v) d. dict_set k v d) kvs d) = fst ` set kvs \<union> fst ` set d" for d
      by (induction kvs arbitrary: d) (auto simp: keys_dict_set split: prod.splits)
    then show ?thesis by (simp add: dict_of_def)
  qed
  have ids: "set ?ids = ec_case_id ` set cases" unfolding keys by (auto simp: image_image)
  have v: "distinct (map (\<lambda>c. (ec_case_id c, ec_case_version c)) cases)"
    "\<forall>i \<in> set ?ids. length (filter is_live (filter (\<lambda>c. ec_case_id c = i) cases)) \<le> 1
       \<and> (\<forall>c \<in> set cases. ec_case_id c = i \<longrightarrow> validate_version (map ec_case_id cases) c = Inr ())"
    using assms unfolding validate_lineage_def Let_def guard_Inr all_res_Inr by auto
  show "distinct (map (\<lambda>c. (ec_case_id c, ec_case_version c)) cases)" by (rule v(1))
  have flip: "filter (\<lambda>c. ec_case_id c = i \<and> is_live c) cases = filter is_live (filter (\<lambda>c. ec_case_id c = i) cases)"
    by (simp add: conj_commute)
  show "length (filter (\<lambda>c. ec_case_id c = i \<and> is_live c) cases) \<le> 1"
  proof (cases "i \<in> set ?ids")
    case True
    then show ?thesis unfolding flip using v(2) by blast
  next
    case False
    then have "filter (\<lambda>c. ec_case_id c = i) cases = []" using ids by (auto simp: filter_empty_conv)
    then show ?thesis unfolding flip by simp
  qed
  show "validate_version (map ec_case_id cases) c = Inr ()" if "c \<in> set cases"
    using v(2) ids that by blast
qed

lemma validate_containment_holdout:
  assumes "validate_holdout_containment c = Inr ()" and "case_is_holdout c"
  shows "\<exists>d. ec_holdout_bundle_sha256 c = Some d \<and> expected_is_empty (ec_expected c) \<and> ec_source_evidence c = []
    \<and> ec_skill_selection_target c = None \<and> ec_input_fixture c \<noteq> None
    \<and> (\<forall>r \<in> set (all_references c). ref_is_holdout r \<and> mr_sha256 r = d \<and> holdout_case_of (mr_ref r) = ec_case_id c)"
  using assms
  by (cases "ec_holdout_bundle_sha256 c")
    (auto simp: validate_holdout_containment_def Let_def filter_empty_conv split: if_splits)

lemma validate_containment_development:
  assumes "validate_holdout_containment c = Inr ()" and "\<not> case_is_holdout c"
  shows "ec_source_type c \<noteq> Source_HOLDOUT \<and> ec_holdout_bundle_sha256 c = None
    \<and> (\<forall>r \<in> set (all_references c). \<not> ref_is_holdout r)"
  using assms by (auto simp: validate_holdout_containment_def Let_def filter_empty_conv split: if_splits)

lemma referenced_file_pinned:
  assumes "validate_referenced_file E repo m = Inr ()" and "\<not> ref_is_holdout m"
  shows "\<exists>raw. os_read_bytes E (repo @ path_of (mr_ref m)) = BytesAre raw \<and> sha256 E raw = mr_sha256 m"
  using assms
  by (auto simp: validate_referenced_file_def resolve_ref_def split: bytes_read.splits if_splits)

lemma validate_case_policy_Inr:
  assumes "validate_case_policy s c = Inr ()"
  shows "ec_suite_id c = es_suite_id s" and "ATTEMPT_FLOOR (ec_risk_class c) \<le> mp_attempts (ec_attempt_policy c)"
    and "ec_criticality c = CRITICAL \<Longrightarrow> mp_aggregate_rule (ec_attempt_policy c) = ALL_ATTEMPTS_PASS
      \<and> mp_critical_failure_rule (ec_attempt_policy c) = SINGLE_OCCURRENCE_FAILS"
    and "ec_privacy_class c = TENANT_PRIVATE \<longleftrightarrow> ec_tenant_scope c \<noteq> None"
    and "ec_privacy_class c = TENANT_PRIVATE \<Longrightarrow> es_owning_scope s = TENANT \<and> ec_tenant_scope c = es_tenant_scope s"
  using assms unfolding validate_case_policy_def guard_Inr by (blast | simp add: not_less)+

section \<open>Attempt policies\<close>

lemma sampling_digest_Some:
  assumes "policy_ok E p"
  shows "\<exists>d. sampling_digest E p = Some d"
  using assms by (cases "mp_seed p") (auto simp: policy_ok_def sampling_digest_def digest_def canonical_json_bytes_def)

text \<open>The policy of the grading layer that a declared policy stands for.\<close>

definition grading_policy :: "ManifestPolicy \<Rightarrow> string \<Rightarrow> AttemptPolicy" where
  "grading_policy p d =
     \<lparr>ap_attempts = mp_attempts p,
       ap_aggregate_rule = (if mp_aggregate_rule p = ALL_ATTEMPTS_PASS then ALL_MUST_PASS else THRESHOLD),
       ap_min_pass_rate = (case mp_aggregate_rule p of
           ALL_ATTEMPTS_PASS \<Rightarrow> None
         | MAJORITY_ATTEMPTS_PASS \<Rightarrow> Some (py_truediv (nat (mp_attempts p) div 2 + 1) (nat (mp_attempts p)))
         | ANY_ATTEMPT_PASSES \<Rightarrow> Some (py_truediv 1 (nat (mp_attempts p)))),
       ap_sampling_config_digest = d, ap_infrastructure_retry_limit = mp_infra_retry_limit p\<rparr>"

lemma grading_policy_check:
  assumes "policy_ok E p"
  shows "AttemptPolicy_check (grading_policy p d) = Inr (grading_policy p d)"
proof -
  define n where "n = nat (mp_attempts p)"
  have n: "0 < n" "n < 2 ^ 52" "n div 2 + 1 \<le> n" and b: "\<not> mp_attempts p < 1" "\<not> mp_infra_retry_limit p < 0"
    using assms by (auto simp: policy_ok_def n_def)
  have r: "0 < py_truediv q n \<and> py_truediv q n \<le> 1" if "0 < q" "q \<le> n" for q
  proof -
    have "py_truediv q n \<le> py_truediv n n" by (rule py_truediv_le_iff [OF that(2) order_refl n(2), THEN iffD2, OF that(2)])
    moreover have "py_truediv q n \<noteq> 0" using py_truediv_eq_0 [OF n(1), of q] that(1) by blast
    ultimately show ?thesis unfolding py_truediv_full [OF n(1)] using py_truediv_nonneg [of q n] by linarith
  qed
  have rate: "0 < py_truediv (n div 2 + 1) n \<and> py_truediv (n div 2 + 1) n \<le> 1" "0 < py_truediv 1 n \<and> py_truediv 1 n \<le> 1"
    by (rule r, simp, rule n(3)) (rule r, simp, use n(1) in linarith)
  show ?thesis
    unfolding grading_policy_def AttemptPolicy_check_def n_def [symmetric]
    by (cases "mp_aggregate_rule p") (simp_all add: b rate del: One_nat_def)
qed

lemma attempt_policy_converts:
  assumes "policy_ok E p" and "criticality = CRITICAL \<longrightarrow> mp_aggregate_rule p = ALL_ATTEMPTS_PASS"
  shows "\<exists>d. to_grader_attempt_policy E p criticality = Inr (grading_policy p d)"
proof -
  obtain d where d: "sampling_digest E p = Some d" using sampling_digest_Some [OF assms(1)] by blast
  have "to_grader_attempt_policy E p criticality =
      (case AttemptPolicy_check (grading_policy p d) of Inl e \<Rightarrow> Inl (GraderPolicy e) | Inr q \<Rightarrow> Inr q)"
    using assms(2) by (auto simp: to_grader_attempt_policy_def grading_policy_def Let_def d)
  then show ?thesis using grading_policy_check [OF assms(1)] by auto
qed

lemma rate_reached_iff:
  assumes "0 < q" "q \<le> length (cr_attempts r)" "length (cr_attempts r) < 2 ^ 52"
  shows "(py_truediv q (length (cr_attempts r)) \<le> pass_rate r) \<longleftrightarrow> q \<le> length (filter (\<lambda>a. attempt_state a = PASS) (cr_attempts r))"
  unfolding pass_rate_def using assms by (intro py_truediv_le_iff) simp_all

lemma policy_threshold:
  assumes "policy_ok E p" and "criticality = CRITICAL \<longrightarrow> mp_aggregate_rule p = ALL_ATTEMPTS_PASS"
  shows "\<exists>q. to_grader_attempt_policy E p criticality = Inr q
    \<and> (\<forall>r. cr_policy r = q \<and> int (retained_attempts r) = mp_attempts p \<longrightarrow>
        (meets_threshold r \<longleftrightarrow> (case mp_aggregate_rule p of
            ALL_ATTEMPTS_PASS \<Rightarrow> \<forall>a \<in> set (cr_attempts r). attempt_state a \<noteq> FAIL
          | MAJORITY_ATTEMPTS_PASS \<Rightarrow>
              retained_attempts r < 2 * length (filter (\<lambda>a. attempt_state a = PASS) (cr_attempts r))
          | ANY_ATTEMPT_PASSES \<Rightarrow> \<exists>a \<in> set (cr_attempts r). attempt_state a = PASS)))"
proof -
  obtain q where q: "to_grader_attempt_policy E p criticality = Inr q"
      "ap_aggregate_rule q = (if mp_aggregate_rule p = ALL_ATTEMPTS_PASS then ALL_MUST_PASS else THRESHOLD)"
      "ap_min_pass_rate q = (case mp_aggregate_rule p of
            ALL_ATTEMPTS_PASS \<Rightarrow> None
          | MAJORITY_ATTEMPTS_PASS \<Rightarrow> Some (py_truediv (nat (mp_attempts p) div 2 + 1) (nat (mp_attempts p)))
          | ANY_ATTEMPT_PASSES \<Rightarrow> Some (py_truediv 1 (nat (mp_attempts p))))"
    using attempt_policy_converts [OF assms] by (auto simp: grading_policy_def)
  have "meets_threshold r \<longleftrightarrow> (case mp_aggregate_rule p of
            ALL_ATTEMPTS_PASS \<Rightarrow> \<forall>a \<in> set (cr_attempts r). attempt_state a \<noteq> FAIL
          | MAJORITY_ATTEMPTS_PASS \<Rightarrow>
              retained_attempts r < 2 * length (filter (\<lambda>a. attempt_state a = PASS) (cr_attempts r))
          | ANY_ATTEMPT_PASSES \<Rightarrow> \<exists>a \<in> set (cr_attempts r). attempt_state a = PASS)"
    if r: "cr_policy r = q" "int (retained_attempts r) = mp_attempts p" for r
  proof -
    let ?n = "length (cr_attempts r)" and ?ok = "length (filter (\<lambda>a. attempt_state a = PASS) (cr_attempts r))"
    have n: "nat (mp_attempts p) = ?n" "0 < ?n" "?n < 2 ^ 52"
      using r(2) assms(1) by (auto simp: retained_attempts_def policy_ok_def)
    have pos: "py_truediv k ?n \<noteq> 0" if "0 < k" for k using that n py_truediv_eq_0 by simp
    have major: "?n div 2 + 1 \<le> ?ok \<longleftrightarrow> ?n < 2 * ?ok" by linarith
    have some: "1 \<le> ?ok \<longleftrightarrow> (\<exists>a \<in> set (cr_attempts r). attempt_state a = PASS)"
      by (simp add: Suc_le_eq filter_empty_conv)
    have half: "?n div 2 + 1 \<le> ?n" using n(2) by linarith
    show ?thesis
    proof (cases "mp_aggregate_rule p")
      case ALL_ATTEMPTS_PASS
      then show ?thesis using r(1) q(2) by (auto simp: meets_threshold_def failed_attempts_def filter_empty_conv)
    next
      case MAJORITY_ATTEMPTS_PASS
      then have "meets_threshold r \<longleftrightarrow> py_truediv (?n div 2 + 1) ?n \<le> pass_rate r"
        using r(1) q(2,3) n(1) pos [of "?n div 2 + 1"] by (simp add: meets_threshold_def)
      then show ?thesis
        using MAJORITY_ATTEMPTS_PASS rate_reached_iff [OF _ half n(3)] major by (simp add: retained_attempts_def)
    next
      case ANY_ATTEMPT_PASSES
      then have "meets_threshold r \<longleftrightarrow> py_truediv 1 ?n \<le> pass_rate r"
        using r(1) q(2,3) n(1) pos [of 1] by (simp add: meets_threshold_def)
      then show ?thesis
        using ANY_ATTEMPT_PASSES rate_reached_iff [OF _ _ n(3), of 1] n(2) some by (simp add: Suc_le_eq)
    qed
  qed
  with q(1) show ?thesis by blast
qed

section \<open>The registry\<close>

lemma dict_default_Some:
  assumes "dict_default k v d = (d', w)"
  shows "map_of d \<subseteq>\<^sub>m map_of d'" and "map_of d' k = Some w"
  using assms by (auto simp: dict_default_def map_le_def map_add_def split: option.splits)

lemma register_case_Inr:
  assumes "register_case q g c = Inr g'"
  shows "map_of (rg_case_owners g) \<subseteq>\<^sub>m map_of (rg_case_owners g')"
    and "map_of (rg_case_hashes g) \<subseteq>\<^sub>m map_of (rg_case_hashes g')"
    and "map_of (rg_case_owners g') (ec_case_id c) = Some q"
    and "map_of (rg_case_hashes g') (ec_case_id c, ec_case_version c) = Some (ec_manifest_sha256 c)"
    and "rg_packages g' = rg_packages g" and "rg_suites g' = rg_suites g"
  using assms
  by (auto simp: register_case_def split: prod.splits if_splits dest: dict_default_Some)

text \<open>The owners and digests a registry has recorded cover the cases of its packages.\<close>

definition recorded :: "registry_state \<Rightarrow> string \<Rightarrow> EvalCaseDefinition list \<Rightarrow> bool" where
  "recorded g q cs \<longleftrightarrow> (\<forall>c \<in> set cs. map_of (rg_case_owners g) (ec_case_id c) = Some q
     \<and> map_of (rg_case_hashes g) (ec_case_id c, ec_case_version c) = Some (ec_manifest_sha256 c))"

lemma register_cases_Inr:
  "fold_res (register_case q) g cs = Inr g' \<Longrightarrow>
     map_of (rg_case_owners g) \<subseteq>\<^sub>m map_of (rg_case_owners g') \<and> map_of (rg_case_hashes g) \<subseteq>\<^sub>m map_of (rg_case_hashes g')
     \<and> recorded g' q cs \<and> rg_packages g' = rg_packages g \<and> rg_suites g' = rg_suites g"
proof (induction cs arbitrary: g)
  case (Cons c cs)
  then obtain g1 where g1: "register_case q g c = Inr g1" "fold_res (register_case q) g1 cs = Inr g'"
    by (auto split: sum.splits)
  note 1 = register_case_Inr [OF g1(1)] and 2 = Cons.IH [OF g1(2)]
  then have "recorded g' q (c # cs)" by (auto simp: recorded_def map_le_def dom_def)
  with 1 2 show ?case by (simp add: map_le_trans [OF 1(1)] map_le_trans [OF 1(2)])
qed (simp add: recorded_def)

definition registry_inv ::
    "('a package_env_scheme) \<Rightarrow> path \<Rightarrow> bundle_source option \<Rightarrow> path list \<Rightarrow> registry_state \<Rightarrow> bool" where
  "registry_inv E repo provider paths g \<longleftrightarrow> rg_suites g = map (suite_qualified_id \<circ> pk_suite) (rg_packages g) \<and> distinct (rg_suites g)
     \<and> (\<forall>p \<in> set (rg_packages g). recorded g (suite_qualified_id (pk_suite p)) (pk_cases p)
          \<and> (\<exists>path \<in> set paths. load_suite_package E repo provider path = Inr p))"

lemma recorded_mono:
  "recorded g q cs \<Longrightarrow> map_of (rg_case_owners g) \<subseteq>\<^sub>m map_of (rg_case_owners g') \<Longrightarrow>
     map_of (rg_case_hashes g) \<subseteq>\<^sub>m map_of (rg_case_hashes g') \<Longrightarrow> recorded g' q cs"
  by (auto simp: recorded_def map_le_def dom_def)

lemma register_suite_inv:
  assumes "registry_inv E repo provider paths g" and "path \<in> set paths" and "register_suite E repo provider g path = Inr g'"
  shows "registry_inv E repo provider paths g'"
proof -
  obtain p g1 where p: "load_suite_package E repo provider path = Inr p"
      "suite_qualified_id (pk_suite p) \<notin> set (rg_suites g)"
      "fold_res (register_case (suite_qualified_id (pk_suite p)))
         (g\<lparr>rg_suites := rg_suites g @ [suite_qualified_id (pk_suite p)]\<rparr>) (pk_cases p) = Inr g1"
      "g' = g1\<lparr>rg_packages := rg_packages g1 @ [p]\<rparr>"
    using assms(3) by (auto simp: register_suite_def res_bind_Inr_iff Let_def split: if_splits)
  note g1 = register_cases_Inr [OF p(3)]
  have "recorded g' (suite_qualified_id (pk_suite p)) (pk_cases p)" using g1 p(4) by (simp add: recorded_def)
  moreover have "recorded g' q cs" if "recorded g q cs" for q cs
    using that g1 p(4) by (intro recorded_mono [OF that]) simp_all
  ultimately show ?thesis using assms(1,2) p(1,2,4) g1 by (auto simp: registry_inv_def)
qed

lemma registry_loaded:
  assumes "load_suite_registry E repo provider paths = Inr packages"
  obtains g where "registry_inv E repo provider paths g" and "rg_packages g = packages"
proof -
  let ?g0 = "\<lparr>rg_packages = [], rg_suites = [], rg_case_owners = [], rg_case_hashes = []\<rparr>"
  obtain g where g: "fold_res (register_suite E repo provider) ?g0 (sort paths) = Inr g" "rg_packages g = packages"
    using assms by (auto simp: load_suite_registry_def res_bind_Inr_iff)
  have "registry_inv E repo provider paths g"
    by (rule fold_res_invariant [OF _ _ g(1), where I = "registry_inv E repo provider paths"])
      (rule register_suite_inv, assumption, simp, assumption, simp add: registry_inv_def)
  with g(2) that show ?thesis by blast
qed

end
