(* ===== verification/Suite_Properties.thy ===== *)
theory Suite_Properties
  imports Suite_Checks
begin

text \<open>
  The properties of packages and registries (\<^verbatim>\<open>fleet_kernel/eval_plane/suite_package.py\<close>), and the sample
  package of their witnesses: one development case and one holdout case whose bundle the file
  store serves.
\<close>

section \<open>A sample package\<close>

definition sample_sha :: string where
  "sample_sha = replicate 64 (CHR ''a'')"

definition sample_reference :: "string \<Rightarrow> json" where
  "sample_reference r = JObj [(''ref'', JStr r), (''sha256'', JStr sample_sha)]"

definition pkg_policy_json :: json where
  "pkg_policy_json = JObj [(''attempts'', JInt 5), (''infra_retry_limit'', JInt 0),
     (''aggregate_rule'', JStr ''all_attempts_pass''), (''critical_failure_rule'', JStr ''single_occurrence_fails'')]"

definition sample_grader_json :: "string \<Rightarrow> json" where
  "sample_grader_json r = JObj [(''grader_id'', JStr ''g''), (''grader_version'', JInt 1), (''grader_type'', JStr ''outcome''),
     (''manifest'', sample_reference r), (''criticality'', JStr ''critical'')]"

definition pkg_case_json :: "string \<Rightarrow> string \<Rightarrow> string \<Rightarrow> (string \<times> json) list \<Rightarrow> json" where
  "pkg_case_json i vis g extra = JObj ([(''case_id'', JStr i), (''case_version'', JInt 1), (''suite_id'', JStr ''s''),
     (''source_type'', JStr ''golden_fixture''), (''visibility'', JStr vis), (''graders'', JList [sample_grader_json g]),
     (''criticality'', JStr ''critical''), (''risk_class'', JStr ''high''), (''privacy_class'', JStr ''synthetic''),
     (''attempt_policy'', pkg_policy_json), (''owner'', JStr ''team''), (''created_at'', JStr ''2026-01-01''),
     (''last_reviewed_at'', JStr ''2026-01-01''), (''lifecycle_state'', JStr ''active'')] @ extra)"

definition sample_suite_json :: json where
  "sample_suite_json = JObj [(''suite_id'', JStr ''s''), (''suite_version'', JInt 1), (''owning_scope'', JStr ''company_fleet''),
     (''capability_under_test'', JStr ''books''), (''risk_class'', JStr ''high''),
     (''case_manifests'', JList [sample_reference ''a.case.json'', sample_reference ''c.case.json'']),
     (''grader_manifests'', JList [sample_reference ''g.json'']), (''attempt_policy'', pkg_policy_json),
     (''gate_intent'', JStr ''blocking''),
     (''qualification_thresholds'', JObj [(''min_case_pass_rate'', JInt 1), (''max_critical_failures'', JInt 0),
        (''max_error_rate'', JInt 0)]), (''privacy_class'', JStr ''synthetic''), (''owner'', JStr ''team''),
     (''created_at'', JStr ''2026-01-01''), (''last_reviewed_at'', JStr ''2026-01-01''), (''lifecycle_state'', JStr ''active'')]"

definition sample_development :: json where
  "sample_development = pkg_case_json ''a'' ''development'' ''g.json'' []"

definition sample_holdout :: json where
  "sample_holdout = pkg_case_json ''c'' ''holdout'' ''holdout://c/graders''
     [(''holdout_bundle_sha256'', JStr sample_sha), (''input_fixture'', sample_reference ''holdout://c/fixture'')]"

definition sample_read :: "path \<Rightarrow> bytes_read" where
  "sample_read p = (if p = [''/'', ''repo'', ''g.json''] then BytesAre []
     else if p = [''/'', ''repo'', ''s.suite.json''] then BytesAre (json_text (\<lambda>_. []) sample_suite_json)
     else if p = [''/'', ''repo'', ''a.case.json''] then BytesAre (json_text (\<lambda>_. []) sample_development)
     else if p = [''/'', ''repo'', ''c.case.json''] then BytesAre (json_text (\<lambda>_. []) sample_holdout)
     else BytesMissing)"

definition sample_package_env :: package_env where
  "sample_package_env = holdout_env.extend (sample_holdout_env\<lparr>sha256 := \<lambda>_. sample_sha\<rparr>)
     \<lparr>os_read_bytes = sample_read,
       date_of = (\<lambda>_. Some 0)\<rparr>"

definition sample_source :: bundle_source where
  "sample_source = \<lparr>bs_has_case = has_case sample_package_env sample_store, bs_bundle_digest = bundle_digest sample_package_env sample_store\<rparr>"

lemma read_manifest_text:
  assumes "os_read_bytes E p = BytesAre (json_text fr j)" and "json_ok j"
  shows "read_manifest E p = Inr (j, sha256 E (json_text fr j))"
  using assms utf8_decode_ascii json_text_ascii [OF assms(2)] loads_text [OF assms(2)]
  by (simp add: read_manifest_def)

definition pkg_policy :: ManifestPolicy where
  "pkg_policy = \<lparr>mp_attempts = 5, mp_sampling = [], mp_seed = None, mp_infra_retry_limit = 0,
     mp_aggregate_rule = ALL_ATTEMPTS_PASS, mp_critical_failure_rule = SINGLE_OCCURRENCE_FAILS\<rparr>"

definition pkg_case :: "string \<Rightarrow> Visibility \<Rightarrow> string \<Rightarrow> string option \<Rightarrow> EvalCaseDefinition" where
  "pkg_case i vis grader fixture = \<lparr>ec_case_id = i, ec_case_version = 1, ec_suite_id = ''s'',
     ec_source_type = GOLDEN_FIXTURE, ec_visibility = vis, ec_source_evidence = [],
     ec_input_fixture = map_option (\<lambda>r. \<lparr>mr_ref = r, mr_sha256 = sample_sha\<rparr>) fixture,
     ec_environment_fixtures = [], ec_policy_fixtures = [],
     ec_expected = \<lparr>xb_must = [], xb_must_not = [], xb_may = [], xb_acceptable_outcomes = [],
       xb_escalation_conditions = [], xb_forbidden_effects = []\<rparr>,
     ec_graders = [\<lparr>ga_grader_id = ''g'', ga_grader_version = 1, ga_grader_type = OUTCOME,
       ga_manifest = \<lparr>mr_ref = grader, mr_sha256 = sample_sha\<rparr>, ga_criticality = CRITICAL\<rparr>],
     ec_criticality = CRITICAL, ec_risk_class = Risk_HIGH, ec_tenant_scope = None,
     ec_privacy_class = Privacy_SYNTHETIC, ec_attempt_policy = pkg_policy,
     ec_skill_selection_target = None, ec_holdout_bundle_sha256 = map_option (\<lambda>_. sample_sha) fixture,
     ec_owner = ''team'', ec_created_at = 0, ec_last_reviewed_at = 0, ec_lifecycle_state = ACTIVE,
     ec_supersedes = [], ec_superseded_by = None, ec_manifest_sha256 = sample_sha\<rparr>"

definition sample_suite :: EvalSuiteDefinition where
  "sample_suite = \<lparr>es_suite_id = ''s'', es_suite_version = 1, es_owning_scope = COMPANY_FLEET,
     es_capability_under_test = ''books'', es_risk_class = Risk_HIGH,
     es_case_manifests = map (\<lambda>r. \<lparr>mr_ref = r, mr_sha256 = sample_sha\<rparr>) [''a.case.json'', ''c.case.json''],
     es_grader_manifests = [\<lparr>mr_ref = ''g.json'', mr_sha256 = sample_sha\<rparr>],
     es_attempt_policy = pkg_policy, es_gate_intent = Gate_BLOCKING, es_inconclusive_policy = Policy_BLOCK,
     es_qualification_thresholds = \<lparr>qt_min_case_pass_rate = 1, qt_max_critical_failures = 0, qt_max_error_rate = 0\<rparr>,
     es_dependencies = [], es_tenant_scope = None, es_privacy_class = Privacy_SYNTHETIC, es_owner = ''team'',
     es_created_at = 0, es_last_reviewed_at = 0, es_lifecycle_state = ACTIVE, es_manifest_sha256 = sample_sha\<rparr>"

definition case_a :: EvalCaseDefinition where
  "case_a = pkg_case ''a'' DEVELOPMENT ''g.json'' None"

definition case_c :: EvalCaseDefinition where
  "case_c = pkg_case ''c'' HOLDOUT ''holdout://c/graders'' (Some ''holdout://c/fixture'')"

lemma sample_parse_a: "parse_case sample_package_env sample_development sample_sha = Inr case_a"
  by code_simp

lemma sample_parse_c: "parse_case sample_package_env sample_holdout sample_sha = Inr case_c"
  by code_simp

lemma sample_parse_suite: "parse_suite sample_package_env sample_suite_json sample_sha = Inr sample_suite"
  by code_simp

lemma sample_validates:
  "validate_package sample_package_env [''/'', ''repo''] (Some sample_source) sample_suite [case_a, case_c] = Inr True"
proof -
  have "validate_lineage [case_a, case_c] = Inr ()" by code_simp
  moreover have "validate_case_policy sample_suite case_a = Inr ()" "validate_holdout_containment case_a = Inr ()" 
   "validate_case_policy sample_suite case_c = Inr ()" "validate_holdout_containment case_c = Inr ()" by code_simp+
  moreover have "validate_grader_coverage sample_suite [case_a, case_c] = Inr ()" by code_simp
  moreover have "es_gate_intent sample_suite = Gate_BLOCKING" "ec_criticality case_a = CRITICAL" "ec_lifecycle_state case_a = ACTIVE" by code_simp+
  moreover have "all_res (validate_referenced_file sample_package_env [''/'', ''repo'']) (es_grader_manifests sample_suite @ concat (map all_references [case_a, case_c])) = Inr ()" by code_simp
  moreover have "filter case_is_holdout [case_a, case_c] = [case_c]" by code_simp
  moreover have "validate_bundle sample_source case_c = Inr ()" by code_simp
  ultimately show ?thesis by (simp add: validate_package_def)
qed

lemma sample_json_ok: "json_ok sample_suite_json" "json_ok sample_development" "json_ok sample_holdout"
  by code_simp+

lemma sample_bytes:
  "os_read_bytes sample_package_env [''/'', ''repo'', ''s.suite.json''] = BytesAre (json_text (\<lambda>_. []) sample_suite_json)"
  "os_read_bytes sample_package_env [''/'', ''repo'', ''a.case.json''] = BytesAre (json_text (\<lambda>_. []) sample_development)"
  "os_read_bytes sample_package_env [''/'', ''repo'', ''c.case.json''] = BytesAre (json_text (\<lambda>_. []) sample_holdout)"
  by (simp_all add: sample_package_env_def holdout_env.defs sample_holdout_env_def sample_read_def)

lemma sample_sha256: "sha256 sample_package_env s = sample_sha"
  by (simp add: sample_package_env_def holdout_env.defs sample_holdout_env_def)

lemmas sample_reads = sample_bytes [THEN read_manifest_text, unfolded sample_sha256] 

abbreviation sample_repo :: path where
  "sample_repo \<equiv> [''/'', ''repo'']"

abbreviation sample_path :: path where
  "sample_path \<equiv> [''/'', ''repo'', ''s.suite.json'']"

lemma sample_load_a: "load_case sample_package_env sample_repo \<lparr>mr_ref = ''a.case.json'', mr_sha256 = sample_sha\<rparr> = Inr case_a"
proof -
  have "ends_with ''a.case.json'' CASE_FILE_SUFFIX"
    and "resolve_ref \<lparr>mr_ref = ''a.case.json'', mr_sha256 = sample_sha\<rparr> sample_repo = Inr [''/'', ''repo'', ''a.case.json'']"
    by code_simp+
  then show ?thesis by (simp add: load_case_def sample_reads sample_json_ok sample_parse_a)
qed

lemma sample_load_c: "load_case sample_package_env sample_repo \<lparr>mr_ref = ''c.case.json'', mr_sha256 = sample_sha\<rparr> = Inr case_c"
proof -
  have "ends_with ''c.case.json'' CASE_FILE_SUFFIX"
    and "resolve_ref \<lparr>mr_ref = ''c.case.json'', mr_sha256 = sample_sha\<rparr> sample_repo = Inr [''/'', ''repo'', ''c.case.json'']"
    by code_simp+
  then show ?thesis by (simp add: load_case_def sample_reads sample_json_ok sample_parse_c)
qed

definition sample_package :: EvalSuitePackage where
  "sample_package = \<lparr>pk_suite = sample_suite, pk_cases = [case_a, case_c], pk_package_sha256 = sample_sha,
     pk_holdout_binding_verified = True\<rparr>"

lemma sample_package_cases: "set (pk_cases sample_package) = {case_a, case_c}"
  by (simp add: sample_package_def)

lemma sample_package_loads:
  "load_suite_package sample_package_env sample_repo (Some sample_source) sample_path = Inr sample_package"
proof -
  have "ends_with ''s.suite.json'' SUITE_FILE_SUFFIX" by code_simp
  moreover have "digest sample_package_env (package_json sample_suite [case_a, case_c]) = Some sample_sha" by code_simp
  moreover have "map_res (load_case sample_package_env sample_repo) (es_case_manifests sample_suite) = Inr [case_a, case_c]"
    by (simp add: sample_suite_def sample_load_a sample_load_c)
  ultimately show ?thesis
    by (simp add: load_suite_package_def sample_reads sample_json_ok sample_parse_suite sample_validates sample_package_def)
qed

lemma sample_registry_loads:
  "load_suite_registry sample_package_env sample_repo (Some sample_source) [sample_path] = Inr [sample_package]"
proof -
  have "ec_case_id case_a = ''a''" "ec_case_id case_c = ''c''" by code_simp+
  then show ?thesis
    by (simp add: load_suite_registry_def register_suite_def sample_package_loads Let_def)
      (simp add: sample_package_def register_case_def dict_default_def)
qed

lemma sample_cases:
  "case_is_holdout case_c" "\<not> case_is_holdout case_a" "ec_holdout_bundle_sha256 case_c = Some sample_sha"
  "ec_case_id case_c = ''c''" "mp_attempts (ec_attempt_policy case_a) = 5"
  "mp_aggregate_rule (ec_attempt_policy case_a) = ALL_ATTEMPTS_PASS"
  by code_simp+

section \<open>Properties\<close>

text \<open>
  C12. Whatever bytes the manifest files hold, a package that loads is well formed: identifiers follow
  their patterns, versions lie in 1 to 9999 and attempt counts in the range from the floor of the
  case's risk class to 25, digests are 64 hexadecimal digits, budgets for critical failures and
  errors are 0, every case names its suite, no case version is declared twice and at most one
  version of a case is live, and a blocking suite has an active critical case.
\<close>

theorem loaded_package_well_formed:
  assumes "load_suite_package E repo provider path = Inr p"
  shows "suite_ok E (pk_suite p)
    \<and> (\<forall>c \<in> set (pk_cases p). case_ok E c \<and> ec_suite_id c = es_suite_id (pk_suite p)
         \<and> ATTEMPT_FLOOR (ec_risk_class c) \<le> mp_attempts (ec_attempt_policy c)
         \<and> (ec_criticality c = CRITICAL \<longrightarrow> mp_aggregate_rule (ec_attempt_policy c) = ALL_ATTEMPTS_PASS
              \<and> mp_critical_failure_rule (ec_attempt_policy c) = SINGLE_OCCURRENCE_FAILS))
    \<and> distinct (map (\<lambda>c. (ec_case_id c, ec_case_version c)) (pk_cases p))
    \<and> (\<forall>i. length (filter (\<lambda>c. ec_case_id c = i \<and> is_live c) (pk_cases p)) \<le> 1)
    \<and> (es_gate_intent (pk_suite p) = Gate_BLOCKING \<longrightarrow>
         (\<exists>c \<in> set (pk_cases p). ec_criticality c = CRITICAL \<and> ec_lifecycle_state c = ACTIVE))"
proof -
  have v: "validate_package E repo provider (pk_suite p) (pk_cases p) = Inr (pk_holdout_binding_verified p)"
    and s: "suite_ok E (pk_suite p)" using assms by (rule load_suite_package_Inr, simp)+
  note lint = validate_package_Inr [OF v]
  have "case_ok E c" if "c \<in> set (pk_cases p)" for c
    using loaded_case [OF assms that] load_case_Inr(1) by blast
  moreover have "ec_suite_id c = es_suite_id (pk_suite p)
      \<and> ATTEMPT_FLOOR (ec_risk_class c) \<le> mp_attempts (ec_attempt_policy c)
      \<and> (ec_criticality c = CRITICAL \<longrightarrow> mp_aggregate_rule (ec_attempt_policy c) = ALL_ATTEMPTS_PASS
           \<and> mp_critical_failure_rule (ec_attempt_policy c) = SINGLE_OCCURRENCE_FAILS)"
    if "c \<in> set (pk_cases p)" for c
    using validate_case_policy_Inr(1-3) [of "pk_suite p" c] lint(3) that by blast
  ultimately show ?thesis using s lint(6) validate_lineage_Inr(1,2) [OF lint(1)] by blast
qed

theorem loaded_package_well_formed_witness:
  "suite_ok sample_package_env sample_suite \<and> case_ok sample_package_env case_a \<and> case_ok sample_package_env case_c"
  using loaded_package_well_formed [OF sample_package_loads] by (simp add: sample_package_def)

text \<open>
  C13. A holdout cannot leak through its package: in every package that loads, a holdout case carries
  no expected behaviour, no source evidence and no skill-selection target, and every fixture and
  grader it references is served by the holdout store from the case's own bundle, bound to the
  bundle's digest; and a development case references nothing of the holdout store.
\<close>

theorem loaded_holdouts_carry_no_answers:
  assumes "load_suite_package E repo provider path = Inr p" and "c \<in> set (pk_cases p)"
  shows "if case_is_holdout c
    then expected_is_empty (ec_expected c) \<and> ec_source_evidence c = [] \<and> ec_skill_selection_target c = None
      \<and> (\<exists>d. ec_holdout_bundle_sha256 c = Some d \<and> is_hex64 d
           \<and> (\<forall>r \<in> set (all_references c). ref_is_holdout r \<and> mr_sha256 r = d
                \<and> holdout_case_of (mr_ref r) = ec_case_id c))
    else ec_source_type c \<noteq> Source_HOLDOUT \<and> ec_holdout_bundle_sha256 c = None
      \<and> (\<forall>r \<in> set (all_references c). \<not> ref_is_holdout r)"
proof -
  have v: "validate_package E repo provider (pk_suite p) (pk_cases p) = Inr (pk_holdout_binding_verified p)"
    using assms(1) by (rule load_suite_package_Inr)
  have "case_ok E c" using loaded_case [OF assms] load_case_Inr(1) by blast
  then have "pred_option is_hex64 (ec_holdout_bundle_sha256 c)" by (simp add: case_ok_def)
  moreover have "validate_holdout_containment c = Inr ()" using validate_package_Inr(3) [OF v] assms(2) by blast
  ultimately show ?thesis
    using validate_containment_holdout [of c] validate_containment_development [of c] by auto
qed

theorem loaded_holdouts_carry_no_answers_witness:
  "case_is_holdout case_c \<and> list_all (\<lambda>r. ref_is_holdout r \<and> mr_sha256 r = sample_sha) (all_references case_c)
     \<and> \<not> case_is_holdout case_a \<and> list_all (\<lambda>r. \<not> ref_is_holdout r) (all_references case_a)"
  using loaded_holdouts_carry_no_answers [OF sample_package_loads, of case_a]
    loaded_holdouts_carry_no_answers [OF sample_package_loads, of case_c]
  by (simp add: sample_package_cases sample_cases list_all_iff)

text \<open>
  A loaded package is exactly the files it pins: each case is read from a file that the suite
  lists at the digest of the file's bytes, every grader manifest of the suite and every repository
  file that a case references exists and hashes to its pin, and each of these files lies below
  the repository root, on a relative path without \<^verbatim>\<open>..\<close>.
\<close>

theorem loaded_files_are_pinned:
  assumes "load_suite_package E repo provider path = Inr p"
    and "m \<in> set (es_case_manifests (pk_suite p)) \<or> m \<in> set (es_grader_manifests (pk_suite p))
      \<or> (\<exists>c \<in> set (pk_cases p). m \<in> set (all_references c) \<and> \<not> case_is_holdout c)"
  shows "''..'' \<notin> set (path_of (mr_ref m)) \<and> \<not> is_absolute (path_of (mr_ref m))
    \<and> (\<exists>raw. os_read_bytes E (repo @ path_of (mr_ref m)) = BytesAre raw \<and> sha256 E raw = mr_sha256 m)"
proof -
  have v: "validate_package E repo provider (pk_suite p) (pk_cases p) = Inr (pk_holdout_binding_verified p)"
    and s: "suite_ok E (pk_suite p)"
    and l: "list_all2 (\<lambda>m c. load_case E repo m = Inr c) (es_case_manifests (pk_suite p)) (pk_cases p)"
    using assms(1) by (rule load_suite_package_Inr, simp)+
  note lint = validate_package_Inr [OF v]
  have "ref_ok m \<and> \<not> ref_is_holdout m"
    using assms(2)
  proof (elim disjE bexE conjE)
    fix c assume c: "c \<in> set (pk_cases p)" "m \<in> set (all_references c)" "\<not> case_is_holdout c"
    have "case_ok E c" using loaded_case [OF assms(1) c(1)] load_case_Inr(1) by blast
    then show ?thesis
      using validate_containment_development [OF _ c(3)] lint(3) c by (auto simp: case_ok_def list_all_iff)
  qed (use s in \<open>auto simp: suite_ok_def list_all_iff\<close>)
  moreover have "\<exists>raw. os_read_bytes E (repo @ path_of (mr_ref m)) = BytesAre raw \<and> sha256 E raw = mr_sha256 m"
    using assms(2)
  proof (elim disjE bexE conjE)
    assume "m \<in> set (es_case_manifests (pk_suite p))"
    then obtain c where "load_case E repo m = Inr c"
      using l by (auto simp: list_all2_conv_all_nth in_set_conv_nth)
    then show ?thesis by (rule load_case_Inr(3))
  qed (use lint(4,5) referenced_file_pinned calculation in blast)+
  ultimately show ?thesis by (simp add: ref_ok_def)
qed

theorem loaded_files_are_pinned_witness:
  "\<exists>raw. os_read_bytes sample_package_env (sample_repo @ path_of ''a.case.json'') = BytesAre raw
     \<and> sha256 sample_package_env raw = sample_sha"
  using loaded_files_are_pinned [OF sample_package_loads, of "\<lparr>mr_ref = ''a.case.json'', mr_sha256 = sample_sha\<rparr>"]
  by (simp add: sample_package_def sample_suite_def)

text \<open>
  C32. A declared attempt policy means in the grading layer what it says. For every case of a package
  that loads, the conversion to the grading layer's policy succeeds, and a case result that holds the declared
  number of attempts meets that policy's threshold exactly when no attempt failed
  (\<^verbatim>\<open>all_attempts_pass\<close>), more than half of the attempts passed (\<^verbatim>\<open>majority_attempts_pass\<close>), or one
  attempt passed (\<^verbatim>\<open>any_attempt_passes\<close>): the rounding of the two floats that the grading layer
  compares never changes the answer.
\<close>

theorem declared_policy_means_what_it_says:
  assumes "load_suite_package E repo provider path = Inr p" and "c \<in> set (pk_cases p)"
  shows "\<exists>q. to_grader_attempt_policy E (ec_attempt_policy c) (ec_criticality c) = Inr q
    \<and> (\<forall>r. cr_policy r = q \<and> int (retained_attempts r) = mp_attempts (ec_attempt_policy c) \<longrightarrow>
        (meets_threshold r \<longleftrightarrow> (case mp_aggregate_rule (ec_attempt_policy c) of
            ALL_ATTEMPTS_PASS \<Rightarrow> \<forall>a \<in> set (cr_attempts r). attempt_state a \<noteq> FAIL
          | MAJORITY_ATTEMPTS_PASS \<Rightarrow>
              retained_attempts r < 2 * length (filter (\<lambda>a. attempt_state a = PASS) (cr_attempts r))
          | ANY_ATTEMPT_PASSES \<Rightarrow> \<exists>a \<in> set (cr_attempts r). attempt_state a = PASS)))"
proof -
  have v: "validate_package E repo provider (pk_suite p) (pk_cases p) = Inr (pk_holdout_binding_verified p)"
    using assms(1) by (rule load_suite_package_Inr)
  have "case_ok E c" using loaded_case [OF assms] load_case_Inr(1) by blast
  moreover have "validate_case_policy (pk_suite p) c = Inr ()" using validate_package_Inr(3) [OF v] assms(2) by blast
  ultimately show ?thesis
    using validate_case_policy_Inr(3) by (intro policy_threshold) (auto simp: case_ok_def)
qed

theorem declared_policy_means_what_it_says_witness:
  "\<exists>q. to_grader_attempt_policy sample_package_env (ec_attempt_policy case_a) (ec_criticality case_a) = Inr q
     \<and> meets_threshold ((sample_case [PASS, PASS, PASS, PASS, PASS])\<lparr>cr_policy := q\<rparr>)
     \<and> \<not> meets_threshold ((sample_case [PASS, FAIL, PASS, PASS, PASS])\<lparr>cr_policy := q\<rparr>)"
proof -
  obtain q where q: "to_grader_attempt_policy sample_package_env (ec_attempt_policy case_a) (ec_criticality case_a) = Inr q"
    and m: "cr_policy r = q \<Longrightarrow> int (retained_attempts r) = 5 \<Longrightarrow>
      meets_threshold r \<longleftrightarrow> (\<forall>a \<in> set (cr_attempts r). attempt_state a \<noteq> FAIL)" for r
    using declared_policy_means_what_it_says [OF sample_package_loads, of case_a]
    by (auto simp: sample_package_cases sample_cases)
  have "meets_threshold ((sample_case [PASS, PASS, PASS, PASS, PASS])\<lparr>cr_policy := q\<rparr>)"
    by (subst m) (simp_all add: sample_defs case_eval Let_def)
  moreover have "\<not> meets_threshold ((sample_case [PASS, FAIL, PASS, PASS, PASS])\<lparr>cr_policy := q\<rparr>)"
    by (subst m) (simp_all add: sample_defs case_eval Let_def)
  ultimately show ?thesis using q by blast
qed

text \<open>
  C30. A registry that loads has no collisions: each suite version occurs once and is what a lookup by its
  identifier returns, each package in it was loaded from one of the files found, a case identifier belongs to one
  suite only, and a case version has one definition in the whole registry.
\<close>

theorem registry_has_no_collisions:
  assumes "load_suite_registry E repo provider paths = Inr packages"
  shows "distinct (map (suite_qualified_id \<circ> pk_suite) packages)
    \<and> (\<forall>p \<in> set packages. registry_package packages (suite_qualified_id (pk_suite p)) = Inr p
         \<and> (\<exists>path \<in> set paths. load_suite_package E repo provider path = Inr p))
    \<and> (\<forall>p \<in> set packages. \<forall>q \<in> set packages. \<forall>c \<in> set (pk_cases p). \<forall>d \<in> set (pk_cases q).
         ec_case_id c = ec_case_id d \<longrightarrow> p = q \<and> (ec_case_version c = ec_case_version d \<longrightarrow> c = d))"
proof -
  obtain g where g: "registry_inv E repo provider paths g" "rg_packages g = packages" using assms by (rule registry_loaded)
  have d: "distinct (map (suite_qualified_id \<circ> pk_suite) packages)" using g by (auto simp: registry_inv_def)
  have same: "p = q" if "p \<in> set packages" "q \<in> set packages" "suite_qualified_id (pk_suite p) = suite_qualified_id (pk_suite q)" for p q
    using d that by (auto simp: distinct_map inj_on_def)
  have look: "registry_package packages (suite_qualified_id (pk_suite p)) = Inr p" if "p \<in> set packages" for p
  proof -
    have "find (\<lambda>q. suite_qualified_id (pk_suite q) = suite_qualified_id (pk_suite p)) packages \<noteq> None"
      using that by (auto simp: find_None_iff)
    then obtain q where "find (\<lambda>q. suite_qualified_id (pk_suite q) = suite_qualified_id (pk_suite p)) packages = Some q"
      by blast
    moreover from this have "q = p" using same [of q p] that by (auto simp: find_Some_iff)
    ultimately show ?thesis by (simp add: registry_package_def)
  qed
  have one: "p = q" if "p \<in> set packages" "q \<in> set packages" "c \<in> set (pk_cases p)" "d \<in> set (pk_cases q)"
      "ec_case_id c = ec_case_id d" for p q c d
    using g that same [of p q] by (auto simp: registry_inv_def recorded_def) (metis option.inject)
  have "c = d" if p: "p \<in> set packages" "c \<in> set (pk_cases p)" "d \<in> set (pk_cases p)"
      "ec_case_id c = ec_case_id d" "ec_case_version c = ec_case_version d" for p c d
  proof -
    obtain path where "load_suite_package E repo provider path = Inr p" using g p(1) by (auto simp: registry_inv_def)
    then have "validate_package E repo provider (pk_suite p) (pk_cases p) = Inr (pk_holdout_binding_verified p)"
      by (rule load_suite_package_Inr)
    from validate_lineage_Inr(1) [OF validate_package_Inr(1) [OF this]] p show ?thesis
      by (auto simp: distinct_map inj_on_def)
  qed
  with one look d g show ?thesis by (auto simp: registry_inv_def) (metis one)+
qed

theorem registry_has_no_collisions_witness:
  "registry_package [sample_package] (suite_qualified_id sample_suite) = Inr sample_package"
proof -
  have "pk_suite sample_package = sample_suite" by (simp add: sample_package_def)
  with registry_has_no_collisions [OF sample_registry_loads] show ?thesis by simp
qed



end
