(* ===== verification/Target_Fingerprint.thy ===== *)
theory Target_Fingerprint
  imports Holdout "HOL-Library.Multiset"
begin

text \<open>
  The fingerprint of an evaluated target (\<^verbatim>\<open>fleet_kernel/eval_plane/target_fingerprint.py\<close>): the payloads of
  code identity, model route, skills, tools, tenant policy, runtime and exemption, the manifest with its
  check, the hash basis and the digest, and the readers of skill bundles and instruction
  documents from a checkout.

  Fields that the source annotates as \<^verbatim>\<open>str\<close> are texts. The record \<open>target_env\<close> adds to the operating system's part the
  bytes of a file (\<open>None\<close> for an \<^verbatim>\<open>OSError\<close>), the paths that \<^verbatim>\<open>rglob("SKILL.md")\<close> finds below a
  directory, and \<^verbatim>\<open>bytes.decode("utf-8", errors="replace")\<close>, whose replacement character is not a \<^typ>\<open>char\<close>.
\<close>

section \<open>Vocabulary\<close>

record target_env = holdout_env +
  file_bytes :: "path \<Rightarrow> string option"
  rglob_skill :: "path \<Rightarrow> path list"
  decode_replace :: "string \<Rightarrow> string"

text \<open>
  The module's one exception by the fixed words of its message and the names it carries; \<open>Uncaught\<close> is
  an exception of the library that is not caught.
\<close>

datatype target_error = EvalTargetFingerprintError string "string list" | Uncaught

definition EVAL_TARGET_MANIFEST_SCHEMA :: string where
  "EVAL_TARGET_MANIFEST_SCHEMA = ''mise.eval-target-manifest.v1''"

definition RESOLVER_MANIFEST_NOT_APPLICABLE :: "(string \<times> json) list" where
  "RESOLVER_MANIFEST_NOT_APPLICABLE =
     [(''status'', JStr ''not_applicable''),
      (''reason'', JStr (''No skill resolver, index, or routing registry exists in this repository. ''
        @ ''Skill selection is host-native description matching, so the skill and ''
        @ ''tool descriptions carried in this manifest are the behaviorally relevant ''
        @ ''inputs (Gate A packet section 7(C)).''))]"

definition HASH_EXCLUDED_FIELDS :: "string list" where
  "HASH_EXCLUDED_FIELDS = [''generated_at'', ''generated_by'', ''notes'']"

definition SECTION_7C_REQUIRED_INPUTS :: "string list" where
  "SECTION_7C_REQUIRED_INPUTS = [''instructions'', ''skills'', ''tools'']"

definition SHA256 :: regex where
  "SHA256 = re_times 64 (Cls (\<lambda>c. c \<in> set hex_digits))"

definition GIT_SHA :: regex where
  "GIT_SHA = re_times 40 (Cls (\<lambda>c. c \<in> set hex_digits))"

definition fp_text :: "string \<Rightarrow> string \<Rightarrow> target_error + string" where
  "fp_text v field =
     (let text = py_strip v
      in if text = [] \<or> list_ex (\<lambda>c. (of_char c :: nat) < 32) text
         then Inl (EvalTargetFingerprintError ''is missing or invalid'' [field]) else Inr text)"

definition fp_digest :: "string \<Rightarrow> string \<Rightarrow> regex \<Rightarrow> target_error + string" where
  "fp_digest v field pattern =
     res_bind (fp_text v field) (\<lambda>text.
       if re_fullmatch pattern text then Inr text
       else Inl (EvalTargetFingerprintError ''is not an exact digest'' [field]))"

text \<open>\<^verbatim>\<open>None if value is None else read(value)\<close>.\<close>

definition optional_of :: "('v \<Rightarrow> target_error + 'w) \<Rightarrow> 'v option \<Rightarrow> target_error + 'w option" where
  "optional_of read v = (case v of None \<Rightarrow> Inr None | Some x \<Rightarrow> res_bind (read x) (\<lambda>y. Inr (Some y)))"

definition optional_digest :: "string option \<Rightarrow> string \<Rightarrow> regex \<Rightarrow> target_error + string option" where
  "optional_digest v field pattern = optional_of (\<lambda>x. fp_digest x field pattern) v"

definition compact :: "(string \<times> json option) list \<Rightarrow> (string \<times> json) list" where
  "compact kvs = map (\<lambda>(k, v). (k, the v)) (filter (\<lambda>(k, v). v \<noteq> None) kvs)"

text \<open>\<^verbatim>\<open>json.dumps\<close> refuses integers beyond the interpreter's digit limit.\<close>

definition sha256_canonical :: "('a holdout_env_scheme) \<Rightarrow> json \<Rightarrow> target_error + string" where
  "sha256_canonical E j =
     (if printable_json j then Inr (sha256 E (json_print_utf8 (float_repr E) (json_canon j))) else Inl Uncaught)"

section \<open>The parts of a target\<close>

record CodeIdentity =
  ci_source_commit_sha :: string
  ci_source_tree_sha :: string
  ci_kernel_release_sha256 :: "string option"
  ci_package_sha256 :: "string option"
  ci_agent_release_sha256 :: "string option"

definition code_payload :: "CodeIdentity \<Rightarrow> target_error + (string \<times> json) list" where
  "code_payload c =
     res_bind (fp_digest (ci_source_commit_sha c) ''source_commit_sha'' GIT_SHA) (\<lambda>commit.
     res_bind (fp_digest (ci_source_tree_sha c) ''source_tree_sha'' GIT_SHA) (\<lambda>tree.
     res_bind (optional_digest (ci_kernel_release_sha256 c) ''kernel_release_sha256'' SHA256) (\<lambda>kernel.
     res_bind (optional_digest (ci_package_sha256 c) ''package_sha256'' SHA256) (\<lambda>package.
     res_bind (optional_digest (ci_agent_release_sha256 c) ''agent_release_sha256'' SHA256) (\<lambda>agent.
       Inr (compact [(''source_commit_sha'', Some (JStr commit)), (''source_tree_sha'', Some (JStr tree)),
         (''kernel_release_sha256'', map_option JStr kernel), (''package_sha256'', map_option JStr package),
         (''agent_release_sha256'', map_option JStr agent)]))))))"

record ModelRoute =
  mo_provider :: string
  mo_model_id :: string
  mo_sampling :: "(string \<times> json) list"
  mo_effort_level :: "string option"

definition sampling_of :: "(string \<times> json) list \<Rightarrow> target_error + (string \<times> json) list" where
  "sampling_of kvs =
     res_bind (map_res (\<lambda>(k, v). res_bind (fp_text k ''sampling parameter name'') (\<lambda>k. Inr (k, v)))
                 (filter (\<lambda>(k, v). v \<noteq> JNull) kvs)) (\<lambda>items.
       Inr (sort_key fst (dict_of items)))"

definition model_payload :: "ModelRoute \<Rightarrow> target_error + (string \<times> json) list" where
  "model_payload m =
     res_bind (sampling_of (mo_sampling m)) (\<lambda>sampling.
     res_bind (fp_text (mo_provider m) ''model provider'') (\<lambda>provider.
     res_bind (fp_text (mo_model_id m) ''model id'') (\<lambda>model_id.
     res_bind (optional_of (\<lambda>e. fp_text e ''effort level'') (mo_effort_level m)) (\<lambda>effort.
       Inr (compact [(''provider'', Some (JStr provider)), (''model_id'', Some (JStr model_id)),
         (''sampling'', Some (JObj sampling)), (''effort_level'', map_option JStr effort)])))))"

record SkillRecord =
  sk_path :: string
  sk_content_sha256 :: string
  sk_name :: "string option"
  sk_description :: "string option"

definition skill_payload :: "SkillRecord \<Rightarrow> target_error + (string \<times> json) list" where
  "skill_payload s =
     res_bind (fp_text (sk_path s) ''skill path'') (\<lambda>path.
     res_bind (fp_digest (sk_content_sha256 s) ''skill content_sha256'' SHA256) (\<lambda>content.
     res_bind (optional_of (\<lambda>n. fp_text n ''skill name'') (sk_name s)) (\<lambda>name.
     res_bind (optional_of (\<lambda>d. fp_text d ''skill description'') (sk_description s)) (\<lambda>description.
       Inr (compact [(''path'', Some (JStr path)), (''content_sha256'', Some (JStr content)),
         (''name'', map_option JStr name), (''description'', map_option JStr description)])))))"

record ToolDefinition =
  td_name :: string
  td_description :: string
  td_input_schema_sha256 :: string
  td_permission :: "string option"

definition tool_payload :: "ToolDefinition \<Rightarrow> target_error + (string \<times> json) list" where
  "tool_payload t =
     res_bind (fp_text (td_name t) ''tool name'') (\<lambda>name.
     res_bind (fp_text (td_description t) ''tool description'') (\<lambda>description.
     res_bind (fp_digest (td_input_schema_sha256 t) ''tool input_schema_sha256'' SHA256) (\<lambda>schema.
     res_bind (optional_of (\<lambda>p. fp_text p ''tool permission'') (td_permission t)) (\<lambda>permission.
       Inr (compact [(''name'', Some (JStr name)), (''description'', Some (JStr description)),
         (''input_schema_sha256'', Some (JStr schema)), (''permission'', map_option JStr permission)])))))"

record ToolSurface =
  ts_tools :: "ToolDefinition list"
  ts_workspace_binding_sha256 :: "string option"
  ts_mcp_config_sha256 :: "string option"

text \<open>\<^verbatim>\<open>payload[key]\<close> of a payload that has the text at its key.\<close>

definition text_at :: "string \<Rightarrow> (string \<times> json) list \<Rightarrow> string" where
  "text_at key kvs = (case map_of kvs key of Some (JStr s) \<Rightarrow> s | _ \<Rightarrow> [])"

definition surface_payload :: "ToolSurface \<Rightarrow> target_error + (string \<times> json) list" where
  "surface_payload t =
     res_bind (map_res tool_payload (ts_tools t)) (\<lambda>payloads.
       if \<not> distinct (map (text_at ''name'') payloads)
       then Inl (EvalTargetFingerprintError ''tool surface names must be unique'' [])
       else res_bind (optional_digest (ts_workspace_binding_sha256 t) ''workspace_binding_sha256'' SHA256) (\<lambda>binding.
            res_bind (optional_digest (ts_mcp_config_sha256 t) ''mcp_config_sha256'' SHA256) (\<lambda>mcp.
              Inr (compact [(''tools'', Some (JList (map JObj (sort_key (text_at ''name'') payloads)))),
                (''workspace_binding_sha256'', map_option JStr binding),
                (''mcp_config_sha256'', map_option JStr mcp)]))))"

record TenantPolicySnapshot =
  tn_tenant_id :: string
  tn_policy_sha256 :: string
  tn_manifest_sha256 :: "string option"

definition tenant_payload :: "TenantPolicySnapshot \<Rightarrow> target_error + (string \<times> json) list" where
  "tenant_payload t =
     res_bind (fp_text (tn_tenant_id t) ''tenant_id'') (\<lambda>tenant.
     res_bind (fp_digest (tn_policy_sha256 t) ''policy_sha256'' SHA256) (\<lambda>policy.
     res_bind (optional_digest (tn_manifest_sha256 t) ''tenant manifest_sha256'' SHA256) (\<lambda>manifest.
       Inr (compact [(''tenant_id'', Some (JStr tenant)), (''policy_sha256'', Some (JStr policy)),
         (''manifest_sha256'', map_option JStr manifest)]))))"

record RuntimeManifest =
  rt_harness :: string
  rt_harness_version :: string
  rt_python_version :: string
  rt_dependencies :: "(string \<times> string) list"

definition runtime_payload :: "RuntimeManifest \<Rightarrow> target_error + (string \<times> json) list" where
  "runtime_payload r =
     res_bind (map_res (\<lambda>(name, version).
         res_bind (fp_text name ''dependency name'') (\<lambda>n.
         res_bind (fp_text version (name @ '' version'')) (\<lambda>v. Inr (n, JStr v)))) (rt_dependencies r)) (\<lambda>items.
     res_bind (fp_text (rt_harness r) ''harness'') (\<lambda>harness.
     res_bind (fp_text (rt_harness_version r) ''harness_version'') (\<lambda>harness_version.
     res_bind (fp_text (rt_python_version r) ''python_version'') (\<lambda>python_version.
       Inr [(''harness'', JStr harness), (''harness_version'', JStr harness_version),
         (''python_version'', JStr python_version), (''dependencies'', JObj (sort_key fst (dict_of items)))]))))"

record BehavioralInputExemption =
  bx_absent_inputs :: "string list"
  bx_reason :: string
  bx_authorized_by :: string

text \<open>The checked names of an exemption, in their declared order.\<close>

definition exempted_names :: "BehavioralInputExemption \<Rightarrow> target_error + string list" where
  "exempted_names x =
     res_bind (map_res (\<lambda>n. fp_text n ''exempted input name'') (bx_absent_inputs x)) (\<lambda>names.
       if names = [] then Inl (EvalTargetFingerprintError ''exemption declares no absent input'' [])
       else if \<not> distinct names then Inl (EvalTargetFingerprintError ''exemption repeats an absent input'' [])
       else (let unknown = sort (filter (\<lambda>n. n \<notin> set SECTION_7C_REQUIRED_INPUTS) names)
             in if unknown \<noteq> []
                then Inl (EvalTargetFingerprintError ''exemption names inputs that section 7(C) does not mandate'' unknown)
                else Inr names))"

definition exemption_payload :: "BehavioralInputExemption \<Rightarrow> target_error + (string \<times> json) list" where
  "exemption_payload x =
     res_bind (exempted_names x) (\<lambda>names.
     res_bind (fp_text (bx_reason x) ''exemption reason'') (\<lambda>reason.
     res_bind (fp_text (bx_authorized_by x) ''exemption authorized_by'') (\<lambda>by.
       Inr [(''absent_inputs'', JList (map JStr (sort names))), (''reason'', JStr reason),
         (''authorized_by'', JStr by)])))"

section \<open>The manifest\<close>

record EvalTargetManifest =
  tm_target_id :: string
  tm_fleet_type :: string
  tm_role_type :: string
  tm_code :: CodeIdentity
  tm_model :: ModelRoute
  tm_runtime :: RuntimeManifest
  tm_instructions :: "(string \<times> string) list"
  tm_skills :: "SkillRecord list"
  tm_tools :: ToolSurface
  tm_tenant_policy :: "TenantPolicySnapshot option"
  tm_behavioral_input_exemption :: "BehavioralInputExemption option"
  tm_resolver_manifest :: "(string \<times> json) list"
  tm_generated_at :: "py_datetime option"
  tm_generated_by :: "string option"
  tm_notes :: "string option"

definition absent_inputs :: "EvalTargetManifest \<Rightarrow> string list" where
  "absent_inputs m = map fst (filter (\<lambda>(name, filled). \<not> filled)
     [(''instructions'', tm_instructions m \<noteq> []), (''skills'', tm_skills m \<noteq> []),
      (''tools'', ts_tools (tm_tools m) \<noteq> [])])"

text \<open>\<^verbatim>\<open>exemption.canonical_payload()["absent_inputs"]\<close>: the whole payload is built for its one entry.\<close>

definition declared_inputs :: "EvalTargetManifest \<Rightarrow> target_error + string list" where
  "declared_inputs m =
     (case tm_behavioral_input_exemption m of
        None \<Rightarrow> Inr []
      | Some x \<Rightarrow> res_bind (exemption_payload x) (\<lambda>_. exempted_names x))"

definition EvalTargetManifest_check :: "EvalTargetManifest \<Rightarrow> target_error + EvalTargetManifest" where
  "EvalTargetManifest_check m =
     res_bind (declared_inputs m) (\<lambda>declared.
       let omitted = sort (filter (\<lambda>n. n \<notin> set declared) (absent_inputs m));
           carried = sort (filter (\<lambda>n. n \<notin> set (absent_inputs m)) declared)
       in if omitted \<noteq> []
          then Inl (EvalTargetFingerprintError ''target manifest omits section 7(C) inputs'' omitted)
          else if carried \<noteq> []
          then Inl (EvalTargetFingerprintError ''exemption claims inputs the manifest actually carries'' carried)
          else Inr m)"

text \<open>\<^verbatim>\<open>None if part is None else part.canonical_payload()\<close>, as a JSON value.\<close>

definition payload_or_none :: "('p \<Rightarrow> target_error + (string \<times> json) list) \<Rightarrow> 'p option \<Rightarrow> target_error + json" where
  "payload_or_none payload p =
     (case p of None \<Rightarrow> Inr JNull | Some x \<Rightarrow> res_bind (payload x) (\<lambda>kvs. Inr (JObj kvs)))"

definition str_or_none :: "string option \<Rightarrow> json" where
  "str_or_none s = (case s of None \<Rightarrow> JNull | Some t \<Rightarrow> JStr t)"

definition instructions_of :: "(string \<times> string) list \<Rightarrow> target_error + (string \<times> json) list" where
  "instructions_of kvs =
     res_bind (map_res (\<lambda>(name, d).
         res_bind (fp_text name ''instruction name'') (\<lambda>n.
         res_bind (fp_digest d (''instruction digest for '' @ name) SHA256) (\<lambda>v. Inr (n, JStr v)))) kvs) (\<lambda>items.
       Inr (sort_key fst (dict_of items)))"

definition manifest_record :: "('a holdout_env_scheme) \<Rightarrow> EvalTargetManifest \<Rightarrow> target_error + (string \<times> json) list" where
  "manifest_record E m =
     res_bind (instructions_of (tm_instructions m)) (\<lambda>instructions.
     res_bind (map_res skill_payload (tm_skills m)) (\<lambda>skills.
       if \<not> distinct (map (text_at ''path'') skills)
       then Inl (EvalTargetFingerprintError ''skill bundle paths must be unique'' [])
       else
         res_bind (fp_text (tm_target_id m) ''target_id'') (\<lambda>target_id.
         res_bind (fp_text (tm_fleet_type m) ''fleet_type'') (\<lambda>fleet_type.
         res_bind (fp_text (tm_role_type m) ''role_type'') (\<lambda>role_type.
         res_bind (code_payload (tm_code m)) (\<lambda>code.
         res_bind (model_payload (tm_model m)) (\<lambda>model.
         res_bind (surface_payload (tm_tools m)) (\<lambda>tools.
         res_bind (payload_or_none tenant_payload (tm_tenant_policy m)) (\<lambda>tenant.
         res_bind (runtime_payload (tm_runtime m)) (\<lambda>runtime.
         res_bind (payload_or_none exemption_payload (tm_behavioral_input_exemption m)) (\<lambda>exemption.
           Inr [(''schema'', JStr EVAL_TARGET_MANIFEST_SCHEMA), (''target_id'', JStr target_id),
             (''fleet_type'', JStr fleet_type), (''role_type'', JStr role_type), (''code'', JObj code),
             (''model'', JObj model), (''instructions'', JObj instructions),
             (''skills'', JList (map JObj (sort_key (text_at ''path'') skills))),
             (''resolver_manifest'', JObj (tm_resolver_manifest m)), (''tools'', JObj tools),
             (''tenant_policy'', tenant), (''runtime'', JObj runtime),
             (''behavioral_input_exemption'', exemption),
             (''generated_at'', str_or_none (map_option (isoformat E) (tm_generated_at m))),
             (''generated_by'', str_or_none (tm_generated_by m)), (''notes'', str_or_none (tm_notes m))])))))))))))"

definition canonical_payload :: "('a holdout_env_scheme) \<Rightarrow> EvalTargetManifest \<Rightarrow> target_error + (string \<times> json) list" where
  "canonical_payload E m =
     res_bind (manifest_record E m) (\<lambda>kvs. Inr (filter (\<lambda>(k, v). k \<notin> set HASH_EXCLUDED_FIELDS) kvs))"

definition fingerprint_sha256 :: "('a holdout_env_scheme) \<Rightarrow> EvalTargetManifest \<Rightarrow> target_error + string" where
  "fingerprint_sha256 E m = res_bind (canonical_payload E m) (\<lambda>kvs. sha256_canonical E (JObj kvs))"

definition envelope :: "('a holdout_env_scheme) \<Rightarrow> EvalTargetManifest \<Rightarrow> target_error + (string \<times> json) list" where
  "envelope E m =
     res_bind (manifest_record E m) (\<lambda>kvs.
     res_bind (fingerprint_sha256 E m) (\<lambda>d. Inr (kvs @ [(''target_fingerprint_sha256'', JStr d)])))"

section \<open>Reading a checkout\<close>

text \<open>\<^verbatim>\<open>\r?\n\<close> at the head of a text, and what follows it.\<close>

definition line_end :: "string \<Rightarrow> string option" where
  "line_end s = (case s of
     [] \<Rightarrow> None
   | c # t \<Rightarrow> if c = newline then Some t
              else if c = CHR 0x0D \<and> starts_with t [newline] then Some (tl t) else None)"

definition fence :: "string \<Rightarrow> string option" where
  "fence s = (if starts_with s ''---'' then line_end (drop 3 s) else None)"

text \<open>The lazy body of the frontmatter: up to the first line end that a closing fence follows.\<close>

fun front_body :: "string \<Rightarrow> string option" where
  "front_body [] = None"
| "front_body (c # s) =
     (if Option.bind (line_end (c # s)) fence \<noteq> None then Some []
      else map_option ((#) c) (front_body s))"

definition FRONTMATTER :: "string \<Rightarrow> string option" where
  "FRONTMATTER s = Option.bind (fence s) front_body"

text \<open>
  One match of \<^verbatim>\<open>(name|description):\s*(.+?)\s*$\<close> at the head of a text, in the order in which the
  matcher backtracks: the longest run of white space first, then the shortest value, then the
  longest run again, which has to end at the end of a line. The result is the key, the value and
  the rest of the text.
\<close>

definition space_cuts :: "string \<Rightarrow> string list" where
  "space_cuts s = (let n = length (takeWhile py_space s) in map (\<lambda>k. drop (n - k) s) [0..<Suc n])"

definition value_cuts :: "string \<Rightarrow> (string \<times> string) list" where
  "value_cuts s = (let n = length (takeWhile (\<lambda>c. c \<noteq> newline) s) in map (\<lambda>k. (take (Suc k) s, drop (Suc k) s)) [0..<n])"

definition at_line_end :: "string \<Rightarrow> bool" where
  "at_line_end s \<longleftrightarrow> s = [] \<or> starts_with s [newline]"

definition key_matches :: "string \<Rightarrow> string \<Rightarrow> (string \<times> string \<times> string) list" where
  "key_matches s key =
     (if starts_with s (key @ '':'')
      then concat (map (\<lambda>u. concat (map (\<lambda>(v, w). map (\<lambda>r. (key, v, r)) (filter at_line_end (space_cuts w)))
             (value_cuts u))) (space_cuts (drop (length key + 1) s)))
      else [])"

definition field_matches :: "string \<Rightarrow> (string \<times> string \<times> string) list" where
  "field_matches s = concat (map (key_matches s) [''name'', ''description''])"

text \<open>\<^verbatim>\<open>finditer\<close>: the first match at each start of a line, then on from its end.\<close>

fun field_iter :: "nat \<Rightarrow> bool \<Rightarrow> string \<Rightarrow> (string \<times> string) list" where
  "field_iter 0 bol s = []"
| "field_iter (Suc n) bol s =
     (case (if bol then field_matches s else []) of
        (key, v, r) # _ \<Rightarrow> (key, v) # field_iter n (s \<noteq> [] \<and> s ! (length s - length r - 1) = newline) r
      | [] \<Rightarrow> (case s of [] \<Rightarrow> [] | c # t \<Rightarrow> field_iter n (c = newline) t))"

definition FRONTMATTER_FIELD :: "string \<Rightarrow> (string \<times> string) list" where
  "FRONTMATTER_FIELD s = field_iter (Suc (length s)) True s"

definition strip_quotes :: "string \<Rightarrow> string" where
  "strip_quotes s = (let q = (\<lambda>c. c = CHR 0x27 \<or> c = chr_quote) in rev (dropWhile q (rev (dropWhile q s))))"

text \<open>\<^verbatim>\<open>repo / relative\<close>.\<close>

definition path_join :: "path \<Rightarrow> string \<Rightarrow> path" where
  "path_join p s = (if is_absolute (path_of s) then path_of s else p @ path_of s)"

definition skill_record :: "('a target_env_scheme) \<Rightarrow> path \<Rightarrow> string \<Rightarrow> target_error + SkillRecord" where
  "skill_record E repo relative =
     (let source = os_resolve E (path_join repo relative)
      in if \<not> os_is_file E source then Inl (EvalTargetFingerprintError ''skill file is absent'' [relative])
         else (case file_bytes E source of
             None \<Rightarrow> Inl Uncaught
           | Some raw \<Rightarrow>
               let fields = (case FRONTMATTER (decode_replace E raw) of
                       None \<Rightarrow> []
                     | Some header \<Rightarrow> dict_of (map (\<lambda>(k, v). (k, strip_quotes (py_strip v))) (FRONTMATTER_FIELD header)))
               in Inr \<lparr>sk_path = as_posix (path_of relative), sk_content_sha256 = sha256 E raw,
                        sk_name = map_of fields ''name'', sk_description = map_of fields ''description''\<rparr>))"

definition SKILL_ROOTS :: "string list" where
  "SKILL_ROOTS = [''.agents/skills'', ''.claude/skills'']"

text \<open>The files of the bundle, by their path below the repository.\<close>

definition bundle_files :: "('a target_env_scheme) \<Rightarrow> path \<Rightarrow> string list \<Rightarrow> string list" where
  "bundle_files E repo roots =
     concat (map (\<lambda>root. let base = path_join repo root
         in if os_is_dir E base then map (\<lambda>p. as_posix (drop (length repo) p)) (rglob_skill E base) else []) roots)"

definition skill_bundle :: "('a target_env_scheme) \<Rightarrow> path \<Rightarrow> string list \<Rightarrow> target_error + SkillRecord list" where
  "skill_bundle E repo roots =
     res_bind (fold_res (\<lambda>records relative.
         res_bind (skill_record E repo relative) (\<lambda>r. Inr (dict_set relative r records))) [] (bundle_files E repo roots)) (\<lambda>records.
       Inr (map snd (sort_key fst records)))"

definition tool_definition ::
    "('a holdout_env_scheme) \<Rightarrow> string \<Rightarrow> string \<Rightarrow> (string \<times> json) list \<Rightarrow> string option \<Rightarrow> target_error + ToolDefinition" where
  "tool_definition E name description input_schema permission =
     res_bind (sha256_canonical E (JObj input_schema)) (\<lambda>d.
       Inr \<lparr>td_name = name, td_description = description, td_input_schema_sha256 = d, td_permission = permission\<rparr>)"

text \<open>The values of a package manifest that are read here are texts.\<close>

definition code_identity_from_package_manifest :: "(string \<times> string) list \<Rightarrow> target_error + CodeIdentity" where
  "code_identity_from_package_manifest manifest =
     (let missing = sort (filter (\<lambda>k. k \<notin> fst ` set manifest) [''source_commit_sha'', ''source_tree_sha'', ''package_sha256''])
      in if missing \<noteq> [] then Inl (EvalTargetFingerprintError ''package manifest omits code identity'' missing)
         else Inr \<lparr>ci_source_commit_sha = the (map_of manifest ''source_commit_sha''),
                ci_source_tree_sha = the (map_of manifest ''source_tree_sha''),
                ci_kernel_release_sha256 = map_of manifest ''kernel_release_sha256'',
                ci_package_sha256 = map_of manifest ''package_sha256'',
                ci_agent_release_sha256 = map_of manifest ''agent_release_sha256''\<rparr>)"

definition instruction_digests ::
    "('a target_env_scheme) \<Rightarrow> path \<Rightarrow> (string \<times> string) list \<Rightarrow> target_error + (string \<times> string) list" where
  "instruction_digests E repo paths =
     fold_res (\<lambda>digests (name, relative).
       let source = os_resolve E (path_join repo relative)
       in if \<not> os_is_file E source then Inl (EvalTargetFingerprintError ''instruction file is absent'' [relative])
          else (case file_bytes E source of
              None \<Rightarrow> Inl Uncaught
            | Some raw \<Rightarrow> Inr (dict_set name (sha256 E raw) digests))) [] paths"


section \<open>Lemmas\<close>

lemma sort_key_cong_mset: "sort_key fst xs = sort_key fst ys \<Longrightarrow> set xs = set ys"
  by (metis set_sort)

lemma canon_fields:
  assumes "json_canon (JObj a) = json_canon (JObj b)" and "distinct (map fst a)" and "distinct (map fst b)"
  shows "map_option json_canon (map_of a k) = map_option json_canon (map_of b k)"
proof -
  let ?c = "\<lambda>kvs. map (\<lambda>(k, v). (k, json_canon v)) kvs"
  have "set (?c a) = set (?c b)" using assms(1) by (intro sort_key_cong_mset) simp
  moreover have "map fst (?c kvs) = map fst kvs" for kvs :: "(string \<times> json) list"
    by (induction kvs) auto
  ultimately have "map_of (?c a) = map_of (?c b)"
    by (intro map_of_inject_set [THEN iffD2]) (simp_all only: assms(2,3))
  moreover have "map_of (?c kvs) k = map_option json_canon (map_of kvs k)" for kvs by (simp add: map_of_map)
  ultimately show ?thesis by metis
qed

text \<open>The text at a key of a payload, where it has one.\<close>

definition text_opt :: "string \<Rightarrow> (string \<times> json) list \<Rightarrow> string option" where
  "text_opt key kvs = (case map_of kvs key of Some (JStr s) \<Rightarrow> Some s | _ \<Rightarrow> None)"

lemma text_canon:
  assumes "map_option json_canon (map_of a k) = map_option json_canon (map_of b k)"
  shows "text_opt k a = text_opt k b" and "text_at k a = text_at k b"
proof -
  have c: "json_canon v = JStr s \<longleftrightarrow> v = JStr s" for v s by (cases v) auto
  have d: "map_of kvs k = Some (JStr s) \<longleftrightarrow> map_option json_canon (map_of kvs k) = Some (JStr s)" for kvs s
    by (cases "map_of kvs k") (simp_all add: c)
  have "map_of a k = Some (JStr s) \<longleftrightarrow> map_of b k = Some (JStr s)" for s
    unfolding d [of a] d [of b] assms ..
  moreover have "text_opt k kvs = Some s \<longleftrightarrow> map_of kvs k = Some (JStr s)" for kvs s
    by (auto simp: text_opt_def split: option.splits json.splits)
  ultimately show o: "text_opt k a = text_opt k b" by (metis option.exhaust)
  have "text_at k kvs = (case text_opt k kvs of None \<Rightarrow> [] | Some s \<Rightarrow> s)" for kvs
    by (simp add: text_at_def text_opt_def split: option.splits json.splits)
  with o show "text_at k a = text_at k b" by simp
qed

lemma compact_simps:
  "compact [] = []"
  "compact ((k, None) # kvs) = compact kvs"
  "compact ((k, Some v) # kvs) = (k, v) # compact kvs"
  by (simp_all add: compact_def)

lemma compact_absent: "k \<notin> fst ` set kvs \<Longrightarrow> map_of (compact kvs) k = None"
  by (force simp: compact_def map_of_eq_None_iff)

lemma compact_text:
  "text_at k (compact ((k, Some (JStr s)) # kvs)) = s"
  "k \<noteq> k' \<Longrightarrow> text_at k (compact ((k', v) # kvs)) = text_at k (compact kvs)"
  "k \<noteq> k' \<Longrightarrow> text_opt k (compact ((k', v) # kvs)) = text_opt k (compact kvs)"
  "k \<notin> fst ` set kvs \<Longrightarrow> text_opt k (compact ((k, map_option JStr x) # kvs)) = x"
  "k \<noteq> k' \<Longrightarrow> map_of (compact ((k', v) # kvs)) k = map_of (compact kvs) k"
  "map_of (compact ((k, Some j) # kvs)) k = Some j"
  by (cases v; cases x; simp add: text_at_def text_opt_def compact_simps compact_absent)+

lemma distinct_compact: "distinct (map fst kvs) \<Longrightarrow> distinct (map fst (compact kvs))"
proof (induction kvs)
  case (Cons kv kvs)
  obtain k v where kv: "kv = (k, v)" by (cases kv)
  have "fst ` set (compact kvs) \<subseteq> fst ` set kvs" by (force simp: compact_def)
  with Cons kv show ?case by (cases v) (auto simp: compact_simps)
qed (simp add: compact_simps)

lemma fp_text_Inr: "fp_text v field = Inr t \<longleftrightarrow> t = py_strip v \<and> t \<noteq> [] \<and> \<not> list_ex (\<lambda>c. (of_char c :: nat) < 32) t"
  by (auto simp: fp_text_def Let_def)

lemma fp_digest_Inr: "fp_digest v field r = Inr t \<Longrightarrow> t = py_strip v"
  by (auto simp: fp_digest_def fp_text_Inr res_bind_Inr_iff split: if_splits)

lemma optional_of_Inr:
  assumes "optional_of read v = Inr t" and "\<And>x y. read x = Inr y \<Longrightarrow> y = f x"
  shows "t = map_option f v"
  using assms by (auto simp: optional_of_def res_bind_Inr_iff split: option.splits)

lemma optional_text_strip: "optional_of (\<lambda>x. fp_text x field) v = Inr t \<Longrightarrow> t = map_option py_strip v"
  by (erule optional_of_Inr) (simp add: fp_text_Inr)

lemma optional_digest_strip: "optional_digest v field r = Inr t \<Longrightarrow> t = map_option py_strip v"
  unfolding optional_digest_def by (erule optional_of_Inr) (rule fp_digest_Inr)

text \<open>The parts of a target up to the white space around their texts.\<close>

definition code_norm :: "CodeIdentity \<Rightarrow> CodeIdentity" where
  "code_norm c = \<lparr>ci_source_commit_sha = py_strip (ci_source_commit_sha c),
     ci_source_tree_sha = py_strip (ci_source_tree_sha c),
     ci_kernel_release_sha256 = map_option py_strip (ci_kernel_release_sha256 c),
     ci_package_sha256 = map_option py_strip (ci_package_sha256 c),
     ci_agent_release_sha256 = map_option py_strip (ci_agent_release_sha256 c)\<rparr>"

definition skill_norm :: "SkillRecord \<Rightarrow> SkillRecord" where
  "skill_norm s = \<lparr>sk_path = py_strip (sk_path s), sk_content_sha256 = py_strip (sk_content_sha256 s),
     sk_name = map_option py_strip (sk_name s), sk_description = map_option py_strip (sk_description s)\<rparr>"

definition tool_norm :: "ToolDefinition \<Rightarrow> ToolDefinition" where
  "tool_norm t = \<lparr>td_name = py_strip (td_name t), td_description = py_strip (td_description t),
     td_input_schema_sha256 = py_strip (td_input_schema_sha256 t),
     td_permission = map_option py_strip (td_permission t)\<rparr>"

definition tenant_norm :: "TenantPolicySnapshot \<Rightarrow> TenantPolicySnapshot" where
  "tenant_norm t = \<lparr>tn_tenant_id = py_strip (tn_tenant_id t), tn_policy_sha256 = py_strip (tn_policy_sha256 t),
     tn_manifest_sha256 = map_option py_strip (tn_manifest_sha256 t)\<rparr>"

text \<open>What can be read back from a payload is the part in this normal form.\<close>

definition code_read :: "(string \<times> json) list \<Rightarrow> CodeIdentity" where
  "code_read kvs = \<lparr>ci_source_commit_sha = text_at ''source_commit_sha'' kvs,
     ci_source_tree_sha = text_at ''source_tree_sha'' kvs,
     ci_kernel_release_sha256 = text_opt ''kernel_release_sha256'' kvs,
     ci_package_sha256 = text_opt ''package_sha256'' kvs,
     ci_agent_release_sha256 = text_opt ''agent_release_sha256'' kvs\<rparr>"

definition skill_read :: "(string \<times> json) list \<Rightarrow> SkillRecord" where
  "skill_read kvs = \<lparr>sk_path = text_at ''path'' kvs, sk_content_sha256 = text_at ''content_sha256'' kvs,
     sk_name = text_opt ''name'' kvs, sk_description = text_opt ''description'' kvs\<rparr>"

definition tool_read :: "(string \<times> json) list \<Rightarrow> ToolDefinition" where
  "tool_read kvs = \<lparr>td_name = text_at ''name'' kvs, td_description = text_at ''description'' kvs,
     td_input_schema_sha256 = text_at ''input_schema_sha256'' kvs, td_permission = text_opt ''permission'' kvs\<rparr>"

definition tenant_read :: "(string \<times> json) list \<Rightarrow> TenantPolicySnapshot" where
  "tenant_read kvs = \<lparr>tn_tenant_id = text_at ''tenant_id'' kvs, tn_policy_sha256 = text_at ''policy_sha256'' kvs,
     tn_manifest_sha256 = text_opt ''manifest_sha256'' kvs\<rparr>"


lemma code_payload_read:
  assumes "code_payload c = Inr kvs"
  shows "code_read kvs = code_norm c" and "distinct (map fst kvs)"
proof -
  have "kvs = compact [(''source_commit_sha'', Some (JStr (py_strip (ci_source_commit_sha c)))),
      (''source_tree_sha'', Some (JStr (py_strip (ci_source_tree_sha c)))),
      (''kernel_release_sha256'', map_option JStr (map_option py_strip (ci_kernel_release_sha256 c))),
      (''package_sha256'', map_option JStr (map_option py_strip (ci_package_sha256 c))),
      (''agent_release_sha256'', map_option JStr (map_option py_strip (ci_agent_release_sha256 c)))]"
    using assms unfolding code_payload_def res_bind_Inr_iff by (blast dest: fp_digest_Inr optional_digest_strip)
  then show "code_read kvs = code_norm c" "distinct (map fst kvs)"
    by (simp_all add: code_read_def code_norm_def compact_text distinct_compact del: option.map_comp)
qed


lemma skill_payload_read:
  assumes "skill_payload s = Inr kvs"
  shows "skill_read kvs = skill_norm s" and "distinct (map fst kvs)"
proof -
  have "kvs = compact [(''path'', Some (JStr (py_strip (sk_path s)))),
      (''content_sha256'', Some (JStr (py_strip (sk_content_sha256 s)))),
      (''name'', map_option JStr (map_option py_strip (sk_name s))),
      (''description'', map_option JStr (map_option py_strip (sk_description s)))]"
    using assms unfolding skill_payload_def res_bind_Inr_iff fp_text_Inr
    by (blast dest: fp_digest_Inr optional_text_strip)
  then show "skill_read kvs = skill_norm s" "distinct (map fst kvs)"
    by (simp_all add: skill_read_def skill_norm_def compact_text distinct_compact del: option.map_comp)
qed

lemma tool_payload_read:
  assumes "tool_payload t = Inr kvs"
  shows "tool_read kvs = tool_norm t" and "distinct (map fst kvs)"
proof -
  have "kvs = compact [(''name'', Some (JStr (py_strip (td_name t)))),
      (''description'', Some (JStr (py_strip (td_description t)))),
      (''input_schema_sha256'', Some (JStr (py_strip (td_input_schema_sha256 t)))),
      (''permission'', map_option JStr (map_option py_strip (td_permission t)))]"
    using assms unfolding tool_payload_def res_bind_Inr_iff fp_text_Inr
    by (blast dest: fp_digest_Inr optional_text_strip)
  then show "tool_read kvs = tool_norm t" "distinct (map fst kvs)"
    by (simp_all add: tool_read_def tool_norm_def compact_text distinct_compact del: option.map_comp)
qed

lemma tenant_payload_read:
  assumes "tenant_payload t = Inr kvs"
  shows "tenant_read kvs = tenant_norm t" and "distinct (map fst kvs)"
proof -
  have "kvs = compact [(''tenant_id'', Some (JStr (py_strip (tn_tenant_id t)))),
      (''policy_sha256'', Some (JStr (py_strip (tn_policy_sha256 t)))),
      (''manifest_sha256'', map_option JStr (map_option py_strip (tn_manifest_sha256 t)))]"
    using assms unfolding tenant_payload_def res_bind_Inr_iff fp_text_Inr
    by (blast dest: fp_digest_Inr optional_digest_strip)
  then show "tenant_read kvs = tenant_norm t" "distinct (map fst kvs)"
    by (simp_all add: tenant_read_def tenant_norm_def compact_text distinct_compact del: option.map_comp)
qed


text \<open>A dict of texts and values with its keys stripped, as it enters the hash basis.\<close>

definition dict_norm :: "(string \<times> json) list \<Rightarrow> json" where
  "dict_norm kvs = json_canon (JObj (sort_key fst (dict_of (map (\<lambda>(k, v). (py_strip k, v)) kvs))))"

definition model_norm :: "ModelRoute \<Rightarrow> string \<times> string \<times> string option \<times> json option" where
  "model_norm m = (py_strip (mo_provider m), py_strip (mo_model_id m), map_option py_strip (mo_effort_level m),
     Some (dict_norm (filter (\<lambda>(k, v). v \<noteq> JNull) (mo_sampling m))))"

definition model_read :: "(string \<times> json) list \<Rightarrow> string \<times> string \<times> string option \<times> json option" where
  "model_read kvs = (text_at ''provider'' kvs, text_at ''model_id'' kvs, text_opt ''effort_level'' kvs,
     map_option json_canon (map_of kvs ''sampling''))"

definition runtime_norm :: "RuntimeManifest \<Rightarrow> string \<times> string \<times> string \<times> json option" where
  "runtime_norm r = (py_strip (rt_harness r), py_strip (rt_harness_version r), py_strip (rt_python_version r),
     Some (dict_norm (map (\<lambda>(k, v). (k, JStr (py_strip v))) (rt_dependencies r))))"

definition runtime_read :: "(string \<times> json) list \<Rightarrow> string \<times> string \<times> string \<times> json option" where
  "runtime_read kvs = (text_at ''harness'' kvs, text_at ''harness_version'' kvs, text_at ''python_version'' kvs,
     map_option json_canon (map_of kvs ''dependencies''))"

definition exemption_norm :: "BehavioralInputExemption \<Rightarrow> string \<times> string \<times> json option" where
  "exemption_norm x = (py_strip (bx_reason x), py_strip (bx_authorized_by x),
     Some (JList (map JStr (sort (map py_strip (bx_absent_inputs x))))))"

definition exemption_read :: "(string \<times> json) list \<Rightarrow> string \<times> string \<times> json option" where
  "exemption_read kvs = (text_at ''reason'' kvs, text_at ''authorized_by'' kvs,
     map_option json_canon (map_of kvs ''absent_inputs''))"

definition surface_norm :: "ToolSurface \<Rightarrow> string option \<times> string option" where
  "surface_norm t = (map_option py_strip (ts_workspace_binding_sha256 t), map_option py_strip (ts_mcp_config_sha256 t))"

definition surface_read :: "(string \<times> json) list \<Rightarrow> string option \<times> string option" where
  "surface_read kvs = (text_opt ''workspace_binding_sha256'' kvs, text_opt ''mcp_config_sha256'' kvs)"

lemma sampling_of_Inr:
  assumes "sampling_of kvs = Inr s"
  shows "json_canon (JObj s) = dict_norm (filter (\<lambda>(k, v). v \<noteq> JNull) kvs)"
proof -
  obtain items where i: "map_res (\<lambda>(k, v). res_bind (fp_text k ''sampling parameter name'') (\<lambda>k. Inr (k, v)))
      (filter (\<lambda>(k, v). v \<noteq> JNull) kvs) = Inr items" and s: "s = sort_key fst (dict_of items)"
    using assms by (auto simp: sampling_of_def res_bind_Inr_iff)
  have "items = map (\<lambda>(k, v). (py_strip k, v)) (filter (\<lambda>(k, v). v \<noteq> JNull) kvs)"
    by (rule map_res_fun [OF i]) (auto simp: res_bind_Inr_iff fp_text_Inr)
  then show ?thesis by (simp add: s dict_norm_def)
qed

lemma instructions_of_Inr:
  assumes "instructions_of kvs = Inr s"
  shows "json_canon (JObj s) = dict_norm (map (\<lambda>(k, v). (k, JStr (py_strip v))) kvs)"
proof -
  obtain items where i: "map_res (\<lambda>(name, d).
         res_bind (fp_text name ''instruction name'') (\<lambda>n.
         res_bind (fp_digest d (''instruction digest for '' @ name) SHA256) (\<lambda>v. Inr (n, JStr v)))) kvs = Inr items"
      and s: "s = sort_key fst (dict_of items)"
    using assms by (auto simp: instructions_of_def res_bind_Inr_iff)
  have "items = map (\<lambda>(k, v). (py_strip k, JStr (py_strip v))) kvs"
    by (rule map_res_fun [OF i]) (auto simp: res_bind_Inr_iff fp_text_Inr dest: fp_digest_Inr)
  then show ?thesis by (simp add: s dict_norm_def case_prod_unfold comp_def)
qed

lemma model_payload_read:
  assumes "model_payload m = Inr kvs"
  shows "model_read kvs = model_norm m" and "distinct (map fst kvs)"
proof -
  obtain s where s: "sampling_of (mo_sampling m) = Inr s"
      and k: "kvs = compact [(''provider'', Some (JStr (py_strip (mo_provider m)))),
      (''model_id'', Some (JStr (py_strip (mo_model_id m)))), (''sampling'', Some (JObj s)),
      (''effort_level'', map_option JStr (map_option py_strip (mo_effort_level m)))]"
    using assms unfolding model_payload_def res_bind_Inr_iff fp_text_Inr by (blast dest: optional_text_strip)
  show "model_read kvs = model_norm m" "distinct (map fst kvs)"
    using sampling_of_Inr [OF s]
    by (simp_all add: k model_read_def model_norm_def compact_text distinct_compact del: option.map_comp json_canon.simps)
qed

lemma runtime_payload_read:
  assumes "runtime_payload r = Inr kvs"
  shows "runtime_read kvs = runtime_norm r" and "distinct (map fst kvs)"
proof -
  obtain items where i: "map_res (\<lambda>(name, version).
         res_bind (fp_text name ''dependency name'') (\<lambda>n.
         res_bind (fp_text version (name @ '' version'')) (\<lambda>v. Inr (n, JStr v)))) (rt_dependencies r) = Inr items"
      and k: "kvs = [(''harness'', JStr (py_strip (rt_harness r))), (''harness_version'', JStr (py_strip (rt_harness_version r))),
         (''python_version'', JStr (py_strip (rt_python_version r))), (''dependencies'', JObj (sort_key fst (dict_of items)))]"
    using assms unfolding runtime_payload_def res_bind_Inr_iff fp_text_Inr by blast
  have "items = map (\<lambda>(k, v). (py_strip k, JStr (py_strip v))) (rt_dependencies r)"
    by (rule map_res_fun [OF i]) (auto simp: res_bind_Inr_iff fp_text_Inr)
  then show "runtime_read kvs = runtime_norm r" "distinct (map fst kvs)"
    by (simp_all add: k runtime_read_def runtime_norm_def dict_norm_def text_at_def case_prod_unfold comp_def
        del: json_canon.simps)
qed

lemma exempted_names_Inr: "exempted_names x = Inr names \<Longrightarrow> names = map py_strip (bx_absent_inputs x)"
  by (auto simp: exempted_names_def res_bind_Inr_iff Let_def split: if_splits elim!: map_res_fun simp: fp_text_Inr)

lemma exemption_payload_read:
  assumes "exemption_payload x = Inr kvs"
  shows "exemption_read kvs = exemption_norm x" and "distinct (map fst kvs)"
proof -
  have "kvs = [(''absent_inputs'', JList (map JStr (sort (map py_strip (bx_absent_inputs x))))),
      (''reason'', JStr (py_strip (bx_reason x))), (''authorized_by'', JStr (py_strip (bx_authorized_by x)))]"
    using assms unfolding exemption_payload_def res_bind_Inr_iff fp_text_Inr by (blast dest: exempted_names_Inr)
  then show "exemption_read kvs = exemption_norm x" "distinct (map fst kvs)"
    by (simp_all add: exemption_read_def exemption_norm_def text_at_def comp_def)
qed

lemma surface_payload_Inr:
  assumes "surface_payload t = Inr kvs"
  obtains ps where "map_res tool_payload (ts_tools t) = Inr ps"
    and "distinct (map (text_at ''name'') ps)"
    and "kvs = compact [(''tools'', Some (JList (map JObj (sort_key (text_at ''name'') ps)))),
      (''workspace_binding_sha256'', map_option JStr (map_option py_strip (ts_workspace_binding_sha256 t))),
      (''mcp_config_sha256'', map_option JStr (map_option py_strip (ts_mcp_config_sha256 t)))]"
  using assms unfolding surface_payload_def res_bind_Inr_iff
  by (auto split: if_splits simp: res_bind_Inr_iff simp del: option.map_comp dest!: optional_digest_strip)

lemma surface_payload_read:
  assumes "surface_payload t = Inr kvs"
  shows "surface_read kvs = surface_norm t" and "distinct (map fst kvs)"
proof -
  obtain ps where "kvs = compact [(''tools'', Some (JList (map JObj (sort_key (text_at ''name'') ps)))),
      (''workspace_binding_sha256'', map_option JStr (map_option py_strip (ts_workspace_binding_sha256 t))),
      (''mcp_config_sha256'', map_option JStr (map_option py_strip (ts_mcp_config_sha256 t)))]"
    using assms by (rule surface_payload_Inr)
  then show "surface_read kvs = surface_norm t" "distinct (map fst kvs)"
    by (simp_all add: surface_read_def surface_norm_def compact_text distinct_compact del: option.map_comp)
qed

section \<open>The contract of a payload\<close>

text \<open>
  A part of the target can be read back from its payload, up to white space, and the reading does not
  depend on the order of keys. What the hash basis then determines of parts, of lists of parts and
  of optional parts is shown once.
\<close>

locale part_payload =
  fixes payload :: "'p \<Rightarrow> target_error + (string \<times> json) list"
    and part_read :: "(string \<times> json) list \<Rightarrow> 'n" and norm :: "'p \<Rightarrow> 'n"
  assumes payload_read: "payload x = Inr kvs \<Longrightarrow> part_read kvs = norm x"
    and payload_keys: "payload x = Inr kvs \<Longrightarrow> distinct (map fst kvs)"
    and read_canon: "(\<And>k. map_option json_canon (map_of a k) = map_option json_canon (map_of b k)) \<Longrightarrow> part_read a = part_read b"
begin

lemma canon_eq:
  "payload x = Inr a \<Longrightarrow> payload y = Inr b \<Longrightarrow> json_canon (JObj a) = json_canon (JObj b) \<Longrightarrow> norm x = norm y"
  using canon_fields payload_keys payload_read read_canon by metis

lemma canon_list_subset:
  assumes "map_res payload xs = Inr as" and "map_res payload ys = Inr bs"
    and "json_canon (JList (map JObj (sort_key f as))) = json_canon (JList (map JObj (sort_key f bs)))"
  shows "norm ` set xs \<subseteq> norm ` set ys"
proof
  fix n
  assume "n \<in> norm ` set xs"
  then obtain x where x: "x \<in> set xs" "n = norm x" by blast
  then obtain a where a: "payload x = Inr a" "a \<in> set as" using map_res_mem [OF assms(1)] by blast
  have "(\<lambda>a. json_canon (JObj a)) ` set as = (\<lambda>a. json_canon (JObj a)) ` set bs"
  proof -
    have "map json_canon (map JObj (sort_key f as)) = map json_canon (map JObj (sort_key f bs))"
      using assms(3) by (simp only: json_canon.simps json.inject)
    then have "json_canon ` JObj ` set as = json_canon ` JObj ` set bs" by (metis list.set_map set_sort)
    then show ?thesis unfolding image_image .
  qed
  then obtain b where b: "b \<in> set bs" "json_canon (JObj a) = json_canon (JObj b)" using a(2) by blast
  then obtain y where "y \<in> set ys" "payload y = Inr b" using map_res_all [OF assms(2)] by blast
  with x a b show "n \<in> norm ` set ys" using canon_eq by blast
qed

lemma canon_list:
  assumes "map_res payload xs = Inr as" and "map_res payload ys = Inr bs"
    and "json_canon (JList (map JObj (sort_key f as))) = json_canon (JList (map JObj (sort_key f bs)))"
  shows "norm ` set xs = norm ` set ys"
  using canon_list_subset [OF assms] canon_list_subset [OF assms(2,1) assms(3) [symmetric]] by blast

lemma canon_optional:
  assumes "payload_or_none payload p = Inr i" and "payload_or_none payload q = Inr j" and "json_canon i = json_canon j"
  shows "map_option norm p = map_option norm q"
proof (cases p; cases q)
  fix x y
  assume "p = Some x" "q = Some y"
  then show ?thesis using assms canon_eq by (auto simp: payload_or_none_def res_bind_Inr_iff simp del: json_canon.simps)
qed (use assms in \<open>auto simp: payload_or_none_def res_bind_Inr_iff\<close>)

end

interpretation code: part_payload code_payload code_read code_norm
  by unfold_locales (simp_all only: code_payload_read, simp add: code_read_def cong: text_canon)

interpretation model: part_payload model_payload model_read model_norm
  by unfold_locales (simp_all only: model_payload_read, simp add: model_read_def cong: text_canon)

interpretation skill: part_payload skill_payload skill_read skill_norm
  by unfold_locales (simp_all only: skill_payload_read, simp add: skill_read_def cong: text_canon)

interpretation tool: part_payload tool_payload tool_read tool_norm
  by unfold_locales (simp_all only: tool_payload_read, simp add: tool_read_def cong: text_canon)

interpretation surface: part_payload surface_payload surface_read surface_norm
  by unfold_locales (simp_all only: surface_payload_read, simp add: surface_read_def cong: text_canon)

interpretation tenant: part_payload tenant_payload tenant_read tenant_norm
  by unfold_locales (simp_all only: tenant_payload_read, simp add: tenant_read_def cong: text_canon)

interpretation runtime: part_payload runtime_payload runtime_read runtime_norm
  by unfold_locales (simp_all only: runtime_payload_read, simp add: runtime_read_def cong: text_canon)

interpretation exemption: part_payload exemption_payload exemption_read exemption_norm
  by unfold_locales (simp_all only: exemption_payload_read, simp add: exemption_read_def cong: text_canon)

text \<open>The hash basis, entry by entry.\<close>

definition basis ::
    "EvalTargetManifest \<Rightarrow> (string \<times> json) list \<Rightarrow> (string \<times> json) list list \<Rightarrow> (string \<times> json) list \<Rightarrow> (string \<times> json) list
     \<Rightarrow> (string \<times> json) list \<Rightarrow> json \<Rightarrow> (string \<times> json) list \<Rightarrow> json \<Rightarrow> (string \<times> json) list" where
  "basis m instructions skills code model tools tenant runtime exemption =
     [(''schema'', JStr EVAL_TARGET_MANIFEST_SCHEMA), (''target_id'', JStr (py_strip (tm_target_id m))),
       (''fleet_type'', JStr (py_strip (tm_fleet_type m))), (''role_type'', JStr (py_strip (tm_role_type m))),
       (''code'', JObj code), (''model'', JObj model), (''instructions'', JObj instructions),
       (''skills'', JList (map JObj (sort_key (text_at ''path'') skills))),
       (''resolver_manifest'', JObj (tm_resolver_manifest m)), (''tools'', JObj tools),
       (''tenant_policy'', tenant), (''runtime'', JObj runtime), (''behavioral_input_exemption'', exemption)]"

lemma basis_filter:
  "filter (\<lambda>(k, v). k \<notin> set HASH_EXCLUDED_FIELDS)
     (basis m i s c mo t te r x @ [(''generated_at'', a), (''generated_by'', b), (''notes'', n)])
   = basis m i s c mo t te r x"
  by (simp add: basis_def HASH_EXCLUDED_FIELDS_def)

lemma manifest_record_Inr:
  "manifest_record E m = Inr kvs \<longleftrightarrow>
     (\<exists>instructions skills code model tools tenant runtime exemption.
        instructions_of (tm_instructions m) = Inr instructions \<and> map_res skill_payload (tm_skills m) = Inr skills
        \<and> distinct (map (text_at ''path'') skills)
        \<and> fp_text (tm_target_id m) ''target_id'' = Inr (py_strip (tm_target_id m))
        \<and> fp_text (tm_fleet_type m) ''fleet_type'' = Inr (py_strip (tm_fleet_type m))
        \<and> fp_text (tm_role_type m) ''role_type'' = Inr (py_strip (tm_role_type m))
        \<and> code_payload (tm_code m) = Inr code \<and> model_payload (tm_model m) = Inr model
        \<and> surface_payload (tm_tools m) = Inr tools
        \<and> payload_or_none tenant_payload (tm_tenant_policy m) = Inr tenant
        \<and> runtime_payload (tm_runtime m) = Inr runtime
        \<and> payload_or_none exemption_payload (tm_behavioral_input_exemption m) = Inr exemption
        \<and> kvs = basis m instructions skills code model tools tenant runtime exemption
            @ [(''generated_at'', str_or_none (map_option (isoformat E) (tm_generated_at m))),
               (''generated_by'', str_or_none (tm_generated_by m)), (''notes'', str_or_none (tm_notes m))])"
proof -
  have strip: "fp_text v f = Inr t \<longleftrightarrow> t = py_strip v \<and> fp_text v f = Inr (py_strip v)" for v f t
    by (auto simp: fp_text_Inr)
  show ?thesis
    unfolding manifest_record_def res_bind_Inr_iff guard_Inr basis_def append_Cons append_Nil sum.inject not_not
    by (subst (1 2 3) strip) (auto simp del: append.simps)
qed


lemma canonical_payload_Inr:
  "canonical_payload E m = Inr kvs \<longleftrightarrow>
     (\<exists>instructions skills code model tools tenant runtime exemption.
        instructions_of (tm_instructions m) = Inr instructions \<and> map_res skill_payload (tm_skills m) = Inr skills
        \<and> distinct (map (text_at ''path'') skills)
        \<and> fp_text (tm_target_id m) ''target_id'' = Inr (py_strip (tm_target_id m))
        \<and> fp_text (tm_fleet_type m) ''fleet_type'' = Inr (py_strip (tm_fleet_type m))
        \<and> fp_text (tm_role_type m) ''role_type'' = Inr (py_strip (tm_role_type m))
        \<and> code_payload (tm_code m) = Inr code \<and> model_payload (tm_model m) = Inr model
        \<and> surface_payload (tm_tools m) = Inr tools
        \<and> payload_or_none tenant_payload (tm_tenant_policy m) = Inr tenant
        \<and> runtime_payload (tm_runtime m) = Inr runtime
        \<and> payload_or_none exemption_payload (tm_behavioral_input_exemption m) = Inr exemption
        \<and> kvs = basis m instructions skills code model tools tenant runtime exemption)"
  unfolding canonical_payload_def res_bind_Inr_iff manifest_record_Inr
  by (auto simp: basis_filter simp del: filter_append)

lemma basis_keys: "distinct (map fst (basis m i s c mo t te r x))"
  by (simp add: basis_def)

lemma basis_at:
  "map_of (basis m i s c mo t te r x) ''target_id'' = Some (JStr (py_strip (tm_target_id m)))"
  "map_of (basis m i s c mo t te r x) ''fleet_type'' = Some (JStr (py_strip (tm_fleet_type m)))"
  "map_of (basis m i s c mo t te r x) ''role_type'' = Some (JStr (py_strip (tm_role_type m)))"
  "map_of (basis m i s c mo t te r x) ''code'' = Some (JObj c)"
  "map_of (basis m i s c mo t te r x) ''model'' = Some (JObj mo)"
  "map_of (basis m i s c mo t te r x) ''instructions'' = Some (JObj i)"
  "map_of (basis m i s c mo t te r x) ''skills'' = Some (JList (map JObj (sort_key (text_at ''path'') s)))"
  "map_of (basis m i s c mo t te r x) ''resolver_manifest'' = Some (JObj (tm_resolver_manifest m))"
  "map_of (basis m i s c mo t te r x) ''tools'' = Some (JObj t)"
  "map_of (basis m i s c mo t te r x) ''tenant_policy'' = Some te"
  "map_of (basis m i s c mo t te r x) ''runtime'' = Some (JObj r)"
  "map_of (basis m i s c mo t te r x) ''behavioral_input_exemption'' = Some x"
  by (simp_all add: basis_def)

lemma surface_tools:
  assumes "surface_payload t = Inr a" and "surface_payload u = Inr b" and "json_canon (JObj a) = json_canon (JObj b)"
  shows "tool_norm ` set (ts_tools t) = tool_norm ` set (ts_tools u)"
proof -
  obtain ps where p: "map_res tool_payload (ts_tools t) = Inr ps"
      "map_of a ''tools'' = Some (JList (map JObj (sort_key (text_at ''name'') ps)))"
    using assms(1) by (rule surface_payload_Inr) (simp add: compact_text)
  obtain qs where q: "map_res tool_payload (ts_tools u) = Inr qs"
      "map_of b ''tools'' = Some (JList (map JObj (sort_key (text_at ''name'') qs)))"
    using assms(2) by (rule surface_payload_Inr) (simp add: compact_text)
  have "json_canon (JList (map JObj (sort_key (text_at ''name'') ps))) = json_canon (JList (map JObj (sort_key (text_at ''name'') qs)))"
    using canon_fields [OF assms(3) surface_payload_read(2) [OF assms(1)] surface_payload_read(2) [OF assms(2)], of "''tools''"]
    unfolding p(2) q(2) by (simp only: option.map option.inject)
  with p(1) q(1) show ?thesis by (rule tool.canon_list)
qed

text \<open>What two targets have in common: every behavioural input, up to white space around texts and up to order.\<close>

definition same_target :: "EvalTargetManifest \<Rightarrow> EvalTargetManifest \<Rightarrow> bool" where
  "same_target a b \<longleftrightarrow>
     py_strip (tm_target_id a) = py_strip (tm_target_id b) \<and> py_strip (tm_fleet_type a) = py_strip (tm_fleet_type b)
     \<and> py_strip (tm_role_type a) = py_strip (tm_role_type b)
     \<and> code_norm (tm_code a) = code_norm (tm_code b) \<and> model_norm (tm_model a) = model_norm (tm_model b)
     \<and> dict_norm (map (\<lambda>(k, v). (k, JStr (py_strip v))) (tm_instructions a))
       = dict_norm (map (\<lambda>(k, v). (k, JStr (py_strip v))) (tm_instructions b))
     \<and> skill_norm ` set (tm_skills a) = skill_norm ` set (tm_skills b)
     \<and> json_canon (JObj (tm_resolver_manifest a)) = json_canon (JObj (tm_resolver_manifest b))
     \<and> tool_norm ` set (ts_tools (tm_tools a)) = tool_norm ` set (ts_tools (tm_tools b))
     \<and> surface_norm (tm_tools a) = surface_norm (tm_tools b)
     \<and> map_option tenant_norm (tm_tenant_policy a) = map_option tenant_norm (tm_tenant_policy b)
     \<and> runtime_norm (tm_runtime a) = runtime_norm (tm_runtime b)
     \<and> map_option exemption_norm (tm_behavioral_input_exemption a)
       = map_option exemption_norm (tm_behavioral_input_exemption b)"

lemma basis_determines_target:
  assumes "canonical_payload E a = Inr ka" and "canonical_payload E b = Inr kb"
    and "json_canon (JObj ka) = json_canon (JObj kb)"
  shows "same_target a b"
proof -
  obtain i s c mo t te r x where a: "instructions_of (tm_instructions a) = Inr i"
      "map_res skill_payload (tm_skills a) = Inr s" "code_payload (tm_code a) = Inr c"
      "model_payload (tm_model a) = Inr mo" "surface_payload (tm_tools a) = Inr t"
      "payload_or_none tenant_payload (tm_tenant_policy a) = Inr te" "runtime_payload (tm_runtime a) = Inr r"
      "payload_or_none exemption_payload (tm_behavioral_input_exemption a) = Inr x"
    and ka: "ka = basis a i s c mo t te r x"
    using assms(1) unfolding canonical_payload_Inr by blast
  obtain i' s' c' mo' t' te' r' x' where b: "instructions_of (tm_instructions b) = Inr i'"
      "map_res skill_payload (tm_skills b) = Inr s'" "code_payload (tm_code b) = Inr c'"
      "model_payload (tm_model b) = Inr mo'" "surface_payload (tm_tools b) = Inr t'"
      "payload_or_none tenant_payload (tm_tenant_policy b) = Inr te'" "runtime_payload (tm_runtime b) = Inr r'"
      "payload_or_none exemption_payload (tm_behavioral_input_exemption b) = Inr x'"
    and kb: "kb = basis b i' s' c' mo' t' te' r' x'"
    using assms(2) unfolding canonical_payload_Inr by blast
  note eq = canon_fields [OF assms(3) [unfolded ka kb] basis_keys basis_keys]
  note entry = eq [of "''target_id''"] eq [of "''fleet_type''"] eq [of "''role_type''"] eq [of "''code''"]
    eq [of "''model''"] eq [of "''instructions''"] eq [of "''skills''"] eq [of "''resolver_manifest''"]
    eq [of "''tools''"] eq [of "''tenant_policy''"] eq [of "''runtime''"] eq [of "''behavioral_input_exemption''"]
  note e = entry [unfolded basis_at option.map option.inject]
  have "py_strip (tm_target_id a) = py_strip (tm_target_id b)" "py_strip (tm_fleet_type a) = py_strip (tm_fleet_type b)"
      "py_strip (tm_role_type a) = py_strip (tm_role_type b)"
    using e(1-3) by simp_all
  moreover have "dict_norm (map (\<lambda>(k, v). (k, JStr (py_strip v))) (tm_instructions a))
       = dict_norm (map (\<lambda>(k, v). (k, JStr (py_strip v))) (tm_instructions b))"
    using e(6) unfolding instructions_of_Inr [OF a(1)] instructions_of_Inr [OF b(1)] .
  ultimately show ?thesis
    unfolding same_target_def
    using code.canon_eq [OF a(3) b(3) e(4)] model.canon_eq [OF a(4) b(4) e(5)] skill.canon_list [OF a(2) b(2) e(7)]
      surface_tools [OF a(5) b(5) e(9)] surface.canon_eq [OF a(5) b(5) e(9)] tenant.canon_optional [OF a(6) b(6) e(10)]
      runtime.canon_eq [OF a(7) b(7) e(11)] exemption.canon_optional [OF a(8) b(8) e(12)] e(8)
    by blast
qed


lemma sorted_payloads:
  assumes "mset xs = mset ys" and "map_res payload ys = Inr qs" and "distinct (map f qs)"
  shows "\<exists>ps. map_res payload xs = Inr ps \<and> distinct (map f ps) \<and> sort_key f ps = sort_key f qs"
proof -
  define g where "g x = projr (payload x)" for x
  have ok: "\<forall>y \<in> set ys. payload y = Inr (g y)" using map_res_mem [OF assms(2)] by (fastforce simp: g_def)
  have q: "qs = map g ys" by (rule map_res_fun [OF assms(2)]) (simp add: g_def)
  have "set xs = set ys" using assms(1) by (metis set_mset_mset)
  then have "\<forall>x \<in> set xs. payload x = Inr (g x)" using ok by blast
  then have "map_res payload xs = Inr (map g xs)" by (simp add: map_res_Inr list_all2_conv_all_nth)
  moreover have m: "mset (map g xs) = mset qs" using assms(1) by (simp add: q)
  moreover have "distinct (map f (map g xs))" using assms(3) m by (metis mset_map distinct_count_atmost_1 mset_eq_imp_distinct_iff)
  moreover have "sort_key f (map g xs) = sort_key f qs"
  proof (rule sort_key_inj_key_eq)
    show "inj_on f (set (map g xs))" using assms(3) mset_eq_setD [OF m] by (simp only: distinct_map)
  qed (use m in simp_all)
  ultimately show ?thesis by blast
qed


lemma surface_permuted:
  assumes "surface_payload t = Inr kvs" and "mset tools = mset (ts_tools t)"
  shows "surface_payload (t\<lparr>ts_tools := tools\<rparr>) = Inr kvs"
proof -
  obtain qs where q: "map_res tool_payload (ts_tools t) = Inr qs" "distinct (map (text_at ''name'') qs)"
    using assms(1) by (rule surface_payload_Inr)
  obtain ps where "map_res tool_payload tools = Inr ps" "distinct (map (text_at ''name'') ps)"
      "sort_key (text_at ''name'') ps = sort_key (text_at ''name'') qs"
    using sorted_payloads [OF assms(2) q] by blast
  with q assms(1) show ?thesis by (simp add: surface_payload_def)
qed

lemma canonical_payload_permuted:
  assumes "canonical_payload E m = Inr kvs" and "mset skills = mset (tm_skills m)"
    and "mset tools = mset (ts_tools (tm_tools m))"
  shows "canonical_payload E (m\<lparr>tm_skills := skills, tm_tools := (tm_tools m)\<lparr>ts_tools := tools\<rparr>,
    tm_generated_at := time, tm_generated_by := author, tm_notes := notes\<rparr>) = Inr kvs"
proof -
  obtain i s c mo t te r x where a: "instructions_of (tm_instructions m) = Inr i"
      "map_res skill_payload (tm_skills m) = Inr s" "distinct (map (text_at ''path'') s)"
      "fp_text (tm_target_id m) ''target_id'' = Inr (py_strip (tm_target_id m))"
      "fp_text (tm_fleet_type m) ''fleet_type'' = Inr (py_strip (tm_fleet_type m))"
      "fp_text (tm_role_type m) ''role_type'' = Inr (py_strip (tm_role_type m))"
      "code_payload (tm_code m) = Inr c"
      "model_payload (tm_model m) = Inr mo" "surface_payload (tm_tools m) = Inr t"
      "payload_or_none tenant_payload (tm_tenant_policy m) = Inr te" "runtime_payload (tm_runtime m) = Inr r"
      "payload_or_none exemption_payload (tm_behavioral_input_exemption m) = Inr x"
    and k: "kvs = basis m i s c mo t te r x"
    using assms(1) unfolding canonical_payload_Inr by blast
  obtain s' where s': "map_res skill_payload skills = Inr s'" "distinct (map (text_at ''path'') s')"
      "sort_key (text_at ''path'') s' = sort_key (text_at ''path'') s"
    using sorted_payloads [OF assms(2) a(2,3)] by blast
  show ?thesis
    unfolding canonical_payload_Inr
    by (rule exI [of _ i], rule exI [of _ s'], rule exI [of _ c], rule exI [of _ mo], rule exI [of _ t],
        rule exI [of _ te], rule exI [of _ r], rule exI [of _ x])
      (use a s' surface_permuted [OF a(9) assms(3)] in \<open>simp add: k basis_def\<close>)
qed

text \<open>The budget of \<open>FRONTMATTER_FIELD\<close> is enough: every step consumes a character.\<close>

lemma space_cuts_length: "r \<in> set (space_cuts w) \<Longrightarrow> length r \<le> length w"
  by (auto simp: space_cuts_def Let_def)

lemma value_cuts_length: "(v, w) \<in> set (value_cuts u) \<Longrightarrow> length w \<le> length u"
  by (auto simp: value_cuts_def Let_def)

lemma key_matches_shorter: "(key, v, r) \<in> set (key_matches s k) \<Longrightarrow> length r < length s"
proof -
  assume "(key, v, r) \<in> set (key_matches s k)"
  then have start: "starts_with s (k @ '':'')"
      and "\<exists>u w. u \<in> set (space_cuts (drop (length k + 1) s)) \<and> (v, w) \<in> set (value_cuts u) \<and> r \<in> set (space_cuts w)"
    by (auto simp: key_matches_def split: if_splits)
  then obtain u w where u: "u \<in> set (space_cuts (drop (length k + 1) s))"
      "(v, w) \<in> set (value_cuts u)" "r \<in> set (space_cuts w)"
    by blast
  have "s \<noteq> []" using start by (auto simp: starts_with_def)
  then have "length (drop (length k + 1) s) < length s" by (cases s) auto
  with space_cuts_length [OF u(1)] value_cuts_length [OF u(2)] space_cuts_length [OF u(3)] show ?thesis by linarith
qed

lemma field_matches_shorter: "(key, v, r) \<in> set (field_matches s) \<Longrightarrow> length r < length s"
  unfolding field_matches_def using key_matches_shorter by auto

lemma field_iter_budget: "length s < n \<Longrightarrow> length s < k \<Longrightarrow> field_iter n bol s = field_iter k bol s"
proof (induction n arbitrary: k bol s)
  case (Suc n)
  then obtain k' where k: "k = Suc k'" by (cases k) auto
  show ?case
  proof (cases "if bol then field_matches s else []")
    case Nil
    note none = this
    show ?thesis
    proof (cases s)
      case (Cons c t)
      then have "field_iter n b t = field_iter k' b t" for b using Suc.prems k by (intro Suc.IH) simp_all
      then show ?thesis unfolding k field_iter.simps none by (simp add: Cons)
    next
      case Nil
      then show ?thesis unfolding k field_iter.simps none by simp
    qed
  next
    case (Cons m ms)
    obtain key v r where m: "m = (key, v, r)" by (cases m)
    have "length r < length s"
      using Cons m by (intro field_matches_shorter [of key v]) (auto split: if_splits)
    then have "field_iter n b r = field_iter k' b r" for b using Suc.prems k by (intro Suc.IH) simp_all
    then show ?thesis unfolding k field_iter.simps Cons m by simp
  qed
qed simp

section \<open>Properties\<close>

text \<open>
  C7. Any behaviourally relevant change moves the fingerprint. When two manifests have the same
  fingerprint, and the hash does not collide on the two texts, they describe the same target: the same
  identifiers and code digests, the same model route with its sampling parameters, the same
  instructions, skills with their descriptions, tools, bindings, tenant policy, runtime and
  dependencies and the same exemption, up to white space around texts and the order of
  entries.
\<close>

theorem fingerprint_determines_target:
  assumes "canonical_payload E a = Inr ka" and "canonical_payload E b = Inr kb"
    and "fingerprint_sha256 E a = Inr d" and "fingerprint_sha256 E b = Inr d"
    and "inj_on (sha256 E) {json_print_utf8 (float_repr E) (json_canon (JObj ka)),
           json_print_utf8 (float_repr E) (json_canon (JObj kb))}"
    and "float_free (JObj ka) \<and> float_free (JObj kb) \<or> float_repr_ok (float_repr E)"
  shows "same_target a b"
proof -
  have "sha256 E (json_print_utf8 (float_repr E) (json_canon (JObj ka))) = sha256 E (json_print_utf8 (float_repr E) (json_canon (JObj kb)))"
    using assms(1-4) by (auto simp: fingerprint_sha256_def sha256_canonical_def split: if_splits simp del: json_canon.simps)
  then have "json_print_utf8 (float_repr E) (json_canon (JObj ka)) = json_print_utf8 (float_repr E) (json_canon (JObj kb))"
    using assms(5) by (auto simp del: json_canon.simps)
  then have "json_canon (JObj ka) = json_canon (JObj kb)" by (rule json_utf8_inj) (rule assms(6))
  with assms(1,2) show ?thesis by (rule basis_determines_target)
qed

text \<open>
  C31. Identical targets fingerprint identically: the order in which skills and tools are listed and
  the bookkeeping fields (when and by whom the manifest was generated, and notes) do not enter the
  digest.
\<close>

theorem fingerprint_ignores_order_and_bookkeeping:
  assumes "fingerprint_sha256 E m = Inr d" and "mset skills = mset (tm_skills m)"
    and "mset tools = mset (ts_tools (tm_tools m))"
  shows "fingerprint_sha256 E (m\<lparr>tm_skills := skills, tm_tools := (tm_tools m)\<lparr>ts_tools := tools\<rparr>,
    tm_generated_at := time, tm_generated_by := author, tm_notes := notes\<rparr>) = Inr d"
proof -
  obtain kvs where k: "canonical_payload E m = Inr kvs" "sha256_canonical E (JObj kvs) = Inr d"
    using assms(1) by (auto simp: fingerprint_sha256_def res_bind_Inr_iff)
  then show ?thesis
    using canonical_payload_permuted [OF k(1) assms(2,3)] by (simp add: fingerprint_sha256_def)
qed


text \<open>
  The mandated inputs are present or their absence is declared: the manifest's check accepts exactly the
  manifests that carry instructions, skills and tools, or that have a valid exemption which names the
  empty inputs and no others.
\<close>

theorem mandated_inputs_present_or_exempt:
  "EvalTargetManifest_check m = Inr m \<longleftrightarrow>
     (case tm_behavioral_input_exemption m of
        None \<Rightarrow> tm_instructions m \<noteq> [] \<and> tm_skills m \<noteq> [] \<and> ts_tools (tm_tools m) \<noteq> []
      | Some x \<Rightarrow> \<exists>kvs names. exemption_payload x = Inr kvs \<and> exempted_names x = Inr names
          \<and> (''instructions'' \<in> set names \<longleftrightarrow> tm_instructions m = [])
          \<and> (''skills'' \<in> set names \<longleftrightarrow> tm_skills m = [])
          \<and> (''tools'' \<in> set names \<longleftrightarrow> ts_tools (tm_tools m) = []))"
proof -
  let ?inputs = "{''instructions'', ''skills'', ''tools''} :: string set"
  have absent: "set (absent_inputs m) \<subseteq> ?inputs" "''instructions'' \<in> set (absent_inputs m) \<longleftrightarrow> tm_instructions m = []"
      "''skills'' \<in> set (absent_inputs m) \<longleftrightarrow> tm_skills m = []"
      "''tools'' \<in> set (absent_inputs m) \<longleftrightarrow> ts_tools (tm_tools m) = []"
    by (auto simp: absent_inputs_def split: if_splits)
  have same: "S = set (absent_inputs m) \<longleftrightarrow> (''instructions'' \<in> S \<longleftrightarrow> tm_instructions m = [])
      \<and> (''skills'' \<in> S \<longleftrightarrow> tm_skills m = []) \<and> (''tools'' \<in> S \<longleftrightarrow> ts_tools (tm_tools m) = [])" if "S \<subseteq> ?inputs" for S
    unfolding absent(2-4) [symmetric] using that absent(1) by blast
  have check: "EvalTargetManifest_check m = Inr m \<longleftrightarrow> (\<exists>ds. declared_inputs m = Inr ds \<and> set ds = set (absent_inputs m))"
    unfolding EvalTargetManifest_check_def res_bind_Inr_iff Let_def guard_Inr sort_eq_Nil filter_empty_conv by blast
  have known: "set names \<subseteq> ?inputs" if "exempted_names x = Inr names" for x names
  proof -
    have "set SECTION_7C_REQUIRED_INPUTS = ?inputs" by (simp add: SECTION_7C_REQUIRED_INPUTS_def)
    then show ?thesis
      using that unfolding exempted_names_def res_bind_Inr_iff Let_def guard_Inr sort_eq_Nil filter_empty_conv by auto
  qed
  show ?thesis
  proof (cases "tm_behavioral_input_exemption m")
    case None
    then have "EvalTargetManifest_check m = Inr m \<longleftrightarrow> {} = set (absent_inputs m)"
      unfolding check by (auto simp: declared_inputs_def)
    then show ?thesis using None same [of "{}"] by simp
  next
    case (Some x)
    then have "EvalTargetManifest_check m = Inr m \<longleftrightarrow> (\<exists>kvs names. exemption_payload x = Inr kvs
        \<and> exempted_names x = Inr names \<and> set names = set (absent_inputs m))"
      unfolding check by (simp add: declared_inputs_def res_bind_Inr_iff)
    then show ?thesis using Some same [OF known] by simp blast
  qed
qed


section \<open>A sample target\<close>

definition sample_hex :: "nat \<Rightarrow> string" where
  "sample_hex n = replicate n (CHR ''a'')"

definition sample_skill :: "string \<Rightarrow> SkillRecord" where
  "sample_skill p = \<lparr>sk_path = p, sk_content_sha256 = sample_hex 64, sk_name = Some ''close'', sk_description = None\<rparr>"

definition sample_tool :: "string \<Rightarrow> ToolDefinition" where
  "sample_tool n = \<lparr>td_name = n, td_description = ''reads'', td_input_schema_sha256 = sample_hex 64, td_permission = None\<rparr>"

definition sample_target :: EvalTargetManifest where
  "sample_target = \<lparr>tm_target_id = ''t'', tm_fleet_type = ''company'', tm_role_type = ''ccfo'',
     tm_code = \<lparr>ci_source_commit_sha = sample_hex 40, ci_source_tree_sha = sample_hex 40,
       ci_kernel_release_sha256 = None, ci_package_sha256 = Some (sample_hex 64), ci_agent_release_sha256 = None\<rparr>,
     tm_model = \<lparr>mo_provider = ''p'', mo_model_id = ''m'', mo_sampling = [(''top_k'', JInt 1)], mo_effort_level = None\<rparr>,
     tm_runtime = \<lparr>rt_harness = ''h'', rt_harness_version = ''1'', rt_python_version = ''3'', rt_dependencies = []\<rparr>,
     tm_instructions = [(''core'', sample_hex 64)], tm_skills = [sample_skill ''a'', sample_skill ''b''],
     tm_tools = \<lparr>ts_tools = [sample_tool ''x'', sample_tool ''y''], ts_workspace_binding_sha256 = None,
       ts_mcp_config_sha256 = None\<rparr>,
     tm_tenant_policy = None, tm_behavioral_input_exemption = None, tm_resolver_manifest = [],
     tm_generated_at = None, tm_generated_by = None, tm_notes = None\<rparr>"

definition sample_reordered :: EvalTargetManifest where
  "sample_reordered = sample_target\<lparr>tm_skills := [sample_skill ''b'', sample_skill ''a''],
     tm_tools := (tm_tools sample_target)\<lparr>ts_tools := [sample_tool ''y'', sample_tool ''x'']\<rparr>,
     tm_generated_at := None, tm_generated_by := Some ''ci'', tm_notes := None\<rparr>"

lemma sample_basis:
  "\<exists>kvs. canonical_payload sample_holdout_env sample_target = Inr kvs
     \<and> canonical_payload sample_holdout_env sample_reordered = Inr kvs \<and> float_free (JObj kvs) \<and> printable_json (JObj kvs)"
proof -
  let ?p = "canonical_payload sample_holdout_env sample_target"
  have "case ?p of Inl _ \<Rightarrow> False | Inr kvs \<Rightarrow> float_free (JObj kvs) \<and> printable_json (JObj kvs)" by code_simp
  then obtain kvs where k: "?p = Inr kvs" "float_free (JObj kvs)" "printable_json (JObj kvs)"
    by (auto split: sum.splits)
  have "canonical_payload sample_holdout_env sample_reordered = Inr kvs"
    unfolding sample_reordered_def by (rule canonical_payload_permuted [OF k(1)]) (simp_all add: sample_target_def)
  with k show ?thesis by blast
qed

theorem fingerprint_ignores_order_and_bookkeeping_witness:
  "\<exists>d. fingerprint_sha256 sample_holdout_env sample_target = Inr d
     \<and> fingerprint_sha256 sample_holdout_env sample_reordered = Inr d"
proof -
  obtain d where d: "fingerprint_sha256 sample_holdout_env sample_target = Inr d"
    using sample_basis by (auto simp: fingerprint_sha256_def sha256_canonical_def simp del: json_serializable.simps)
  have "fingerprint_sha256 sample_holdout_env sample_reordered = Inr d"
    unfolding sample_reordered_def
    by (rule fingerprint_ignores_order_and_bookkeeping [OF d]) (simp_all add: sample_target_def)
  with d show ?thesis by blast
qed

theorem fingerprint_determines_target_witness: "same_target sample_target sample_reordered"
proof -
  obtain kvs where k: "canonical_payload sample_holdout_env sample_target = Inr kvs"
      "canonical_payload sample_holdout_env sample_reordered = Inr kvs" "float_free (JObj kvs)" "printable_json (JObj kvs)"
    using sample_basis by blast
  define d where "d = sha256 sample_holdout_env (json_print_utf8 (float_repr sample_holdout_env) (json_canon (JObj kvs)))"
  have "fingerprint_sha256 sample_holdout_env sample_target = Inr d"
      "fingerprint_sha256 sample_holdout_env sample_reordered = Inr d"
    using k by (simp_all add: fingerprint_sha256_def sha256_canonical_def d_def del: json_serializable.simps json_canon.simps)
  from fingerprint_determines_target [OF k(1,2) this] k(3) show ?thesis
    by (simp del: float_free.simps json_canon.simps)
qed

text \<open>
  Every match of the field pattern consumes text, so the scan's budget of one step per character is
  enough and any larger budget gives the same fields.
\<close>

lemma frontmatter_scan_ends: "length s < n \<Longrightarrow> field_iter n True s = FRONTMATTER_FIELD s"
  unfolding FRONTMATTER_FIELD_def by (intro field_iter_budget) simp_all

end
