(* ===== verification/Qualification_Store.thy ===== *)
theory Qualification_Store
  imports Qualification Suite_Package
begin

text \<open>
  Qualifications from run history (\<^verbatim>\<open>fleet_kernel/eval_plane/qualification_store.py\<close>): the candidate runs of
  a suite, the harvest of a run from its attempts and grader rows, the exam identity of a suite
  package, the issuing of a certificate from two green runs, the release of a lapsed
  certificate's slot, and the read-only check of a certificate.

  The database is a record of the four tables the module reads, with the rows of \<open>Eval_Domain\<close>; timestamps
  are instants. A call issues its SQL statements one by one under READ COMMITTED, each on a
  snapshot of its own; \<open>others i\<close>, an argument, is what other sessions do before the statement of number
  \<open>i\<close>, and the identity for a session alone. An insert with its row trigger is one statement. \<open>collate\<close> is the sort key of the database's collation
  and \<open>str_of\<close> the interpreter's \<^verbatim>\<open>str\<close> of a JSON value that is not a text.
\<close>

section \<open>The tables\<close>

record qdb =
  qd_runs :: "EvalRun list"
  qd_attempts :: "EvalCaseAttempt list"
  qd_graders :: "GraderRow list"
  qd_quals :: "EvalQualification list"

record store_env = package_env +
  collate :: "string \<Rightarrow> string"
  str_of :: "json \<Rightarrow> string"
  suite_files :: "path list"

datatype store_error =
    QualificationStoreError string
  | StoreValueError string
  | HarvestContract string
  | QualificationRefused qualification_error
  | SuitePackage package_error
  | UniqueViolation
  | ConstraintViolation
  | StoreTypeError
  | StoreUncaught

definition REQUIRED_CONSECUTIVE_GREENS :: nat where
  "REQUIRED_CONSECUTIVE_GREENS = 2"

text \<open>Fourteen days in microseconds.\<close>

definition QUALIFICATION_VALIDITY :: int where
  "QUALIFICATION_VALIDITY = 14 * 24 * 3600 * 1000000"

abbreviation py :: "('a store_env_scheme) \<Rightarrow> py_env" where
  "py E \<equiv> py_env.truncate E"

fun instant :: "py_datetime \<Rightarrow> int" where
  "instant (Naive t) = t"
| "instant (Aware t) = t"

definition tenant_scope :: "string \<Rightarrow> store_error + string" where
  "tenant_scope current =
     (if \<not> nonblank current
      then Inl (QualificationStoreError ''the database session has no Evaluation Plane tenant scope'')
      else Inr current)"

section \<open>Candidate runs\<close>

definition run_order_key :: "EvalRun \<Rightarrow> int \<times> int" where
  "run_order_key r =
     (instant (case er_started_at r of None \<Rightarrow> er_created_at r | Some t \<Rightarrow> t), instant (er_created_at r))"

definition candidate_runs :: "qdb \<Rightarrow> string \<Rightarrow> string \<Rightarrow> string option \<Rightarrow> EvalRun list" where
  "candidate_runs db tenant suite_id target =
     take (REQUIRED_CONSECUTIVE_GREENS + 1)
       (rev (sort_key (\<lambda>r. (run_order_key r, row_id r))
          (filter (\<lambda>r. tenant_id r = tenant \<and> er_suite_id r = suite_id
             \<and> (case target of None \<Rightarrow> True | Some t \<Rightarrow> er_target_fingerprint r = t)) (qd_runs db))))"

definition ambiguous_streak_order :: "EvalRun list \<Rightarrow> bool" where
  "ambiguous_streak_order runs =
     (let relevant = take (REQUIRED_CONSECUTIVE_GREENS + 1) runs
      in list_ex (\<lambda>(l, r). run_order_key l = run_order_key r) (zip relevant (drop 1 relevant)))"

section \<open>Harvesting a run\<close>

definition subject_family :: "GraderRow list \<Rightarrow> store_error + string" where
  "subject_family rows =
     (case remdups (map gr_subject_family rows) of
        [f] \<Rightarrow> Inr f
      | _ \<Rightarrow> Inl (QualificationStoreError ''the qualifying run must record exactly one subject_family''))"

definition text_of :: "string option \<Rightarrow> string" where
  "text_of v = (case v of None \<Rightarrow> [] | Some s \<Rightarrow> s)"

text \<open>The exceptions of the grading layer's constructors are \<^verbatim>\<open>ValueError\<close>s.\<close>

definition contract :: "string \<Rightarrow> 'e + 'v \<Rightarrow> store_error + 'v" where
  "contract what m = (case m of Inl _ \<Rightarrow> Inl (HarvestContract what) | Inr v \<Rightarrow> Inr v)"

definition grader_result :: "GraderRow \<Rightarrow> store_error + GraderResult" where
  "grader_result g = contract ''GraderResult'' (GraderResult_check
     \<lparr>gv_grader_id = gr_grader_id g, gv_grader_version = gr_grader_version g, gv_kind = gr_grader_kind g,
       gv_state = gr_result g, gv_reason = gr_reason g, gv_criticality = gr_criticality g,
       gv_evidence_ref = gr_evidence_ref g, gv_evidence_sha256 = text_of (gr_evidence_sha256 g),
       gv_error_detail = gr_error_detail g, gv_grader_family = gr_grader_family g,
       gv_judge_model_id = gr_judge_model_id g, gv_rubric_id = gr_rubric_id g,
       gv_rubric_version = gr_rubric_version g, gv_rubric_sha256 = text_of (gr_rubric_sha256 g),
       gv_adjudicator_identity = gr_adjudicator_identity g, gv_adjudicator_family = gr_adjudicator_family g,
       gv_adjudicated_at = gr_adjudicated_at g\<rparr>)"

definition case_criticality :: "GraderResult list \<Rightarrow> Criticality" where
  "case_criticality results = (if list_ex (\<lambda>r. gv_criticality r = CRITICAL) results then CRITICAL else NONCRITICAL)"

definition run_attempts :: "('a store_env_scheme) \<Rightarrow> qdb \<Rightarrow> string \<Rightarrow> nat \<Rightarrow> EvalCaseAttempt list" where
  "run_attempts E db tenant run =
     sort_key (\<lambda>a. (collate E (ea_case_id a), ea_attempt_number a, row_id a))
       (filter (\<lambda>a. tenant_id a = tenant \<and> ea_run_id a = run) (qd_attempts db))"

text \<open>The join: a grader row with its attempt of the run, in the order of the query.\<close>

definition run_grader_rows :: "('a store_env_scheme) \<Rightarrow> qdb \<Rightarrow> string \<Rightarrow> nat \<Rightarrow> GraderRow list" where
  "run_grader_rows E db tenant run =
     map snd (sort_key (\<lambda>(a, g). (collate E (ea_case_id a), ea_attempt_number a,
         collate E (gr_grader_id g), collate E (gr_grader_version g)))
       (concat (map (\<lambda>g. map (\<lambda>a. (a, g))
           (filter (\<lambda>a. row_id a = gr_attempt_id g \<and> tenant_id a = tenant_id g
              \<and> tenant_id a = tenant \<and> ea_run_id a = run) (qd_attempts db))) (qd_graders db))))"

definition blocking_row :: "GraderRow \<Rightarrow> bool" where
  "blocking_row g \<longleftrightarrow> gr_criticality g \<in> {CRITICAL, NONCRITICAL}"

text \<open>The checks on the rows of a run, before its results are built.\<close>

definition harvest_checks :: "EvalCaseAttempt list \<Rightarrow> EvalCaseAttempt list \<Rightarrow> GraderRow list \<Rightarrow> store_error + unit" where
  "harvest_checks all_attempts attempts grader_rows =
     (if attempts = [] then Inl (QualificationStoreError ''has no counted case attempts'')
      else if list_ex (\<lambda>a. ea_result a \<noteq> PASS) attempts then Inl (QualificationStoreError ''attempt has another result'')
      else if list_ex (\<lambda>a. 0 < ea_forbidden_effect_attempts a) all_attempts
      then Inl (QualificationStoreError ''attempt records forbidden effects'')
      else if list_ex (\<lambda>g. gr_result g = ERROR) grader_rows then Inl (QualificationStoreError ''has a grader error'')
      else if list_ex (\<lambda>g. blocking_row g \<and> gr_result g \<noteq> PASS) grader_rows
      then Inl (QualificationStoreError ''has a blocking-eligible grader verdict'')
      else if grader_rows = [] then Inl (QualificationStoreError ''has no grader results'')
      else Inr ())"

text \<open>The grader results of the counted rows with the attempts they belong to, in the order of the rows.\<close>

definition harvest_results :: "GraderRow list \<Rightarrow> store_error + (nat \<times> GraderResult) list" where
  "harvest_results rows = map_res (\<lambda>g. res_bind (grader_result g) (\<lambda>r. Inr (gr_attempt_id g, r))) rows"

definition results_for :: "(nat \<times> GraderResult) list \<Rightarrow> nat \<Rightarrow> GraderResult list" where
  "results_for by_attempt i = map snd (filter (\<lambda>(j, r). j = i) by_attempt)"

definition attempt_result ::
    "(nat \<times> GraderResult) list \<Rightarrow> EvalCaseAttempt \<Rightarrow> store_error + CaseAttemptResult" where
  "attempt_result by_attempt a = contract ''CaseAttemptResult'' (CaseAttemptResult_check
     \<lparr>ca_case_id = ea_case_id a, ca_attempt_number = ea_attempt_number a,
       ca_grader_results = results_for by_attempt (row_id a),
       ca_forbidden_effect_attempted = (0 < ea_forbidden_effect_attempts a),
       ca_forbidden_effect_detail =
         (if 0 < ea_forbidden_effect_attempts a
          then ''persisted attempt recorded '' @ show_int (ea_forbidden_effect_attempts a) @ '' forbidden effect attempt(s)''
          else []),
       ca_cost_usd = py_truediv (nat (ea_cost_microusd a)) 1000000, ca_latency_ms = ea_latency_ms a\<rparr>)"

definition case_result :: "string \<Rightarrow> CaseAttemptResult list \<Rightarrow> store_error + CaseResult" where
  "case_result case_id attempts =
     res_bind (contract ''AttemptPolicy'' (AttemptPolicy_check
       \<lparr>ap_attempts = Max (set (map ca_attempt_number attempts)), ap_aggregate_rule = ALL_MUST_PASS,
         ap_min_pass_rate = None, ap_sampling_config_digest = [], ap_infrastructure_retry_limit = 0\<rparr>)) (\<lambda>policy.
       contract ''CaseResult'' (CaseResult_check
         \<lparr>cr_case_id = case_id, cr_required = True,
           cr_criticality = case_criticality (concat (map ca_grader_results attempts)),
           cr_policy = policy, cr_attempts = attempts\<rparr>))"

definition case_results :: "CaseAttemptResult list \<Rightarrow> store_error + CaseResult list" where
  "case_results attempts =
     map_res (\<lambda>i. case_result i (filter (\<lambda>a. ca_case_id a = i) attempts)) (sort (remdups (map ca_case_id attempts)))"

definition HARVEST_POLICY :: SuitePolicy where
  "HARVEST_POLICY = \<lparr>sp_gate_mode = Gate_ADVISORY, sp_inconclusive_policy = Policy_BLOCK,
     sp_noncritical_pass_threshold = 1\<rparr>"

definition version_step ::
    "(string \<times> string) list \<times> (string \<times> string) list \<Rightarrow> GraderRow
     \<Rightarrow> store_error + ((string \<times> string) list \<times> (string \<times> string) list)" where
  "version_step vs g =
     (case vs of (graders, rubrics) \<Rightarrow>
        if map_of graders (gr_grader_id g) \<notin> {None, Some (gr_grader_version g)}
        then Inl (QualificationStoreError ''grader has multiple versions in one run'')
        else Inr (dict_set (gr_grader_id g) (gr_grader_version g) graders,
               if gr_rubric_id g = [] then rubrics else dict_set (gr_rubric_id g) (gr_rubric_version g) rubrics))"

definition exam_of :: "ExamIdentity \<Rightarrow> store_error + ExamIdentity" where
  "exam_of x = contract ''ExamIdentity'' (ExamIdentity_check x)"

definition with_metric :: "string \<Rightarrow> json \<Rightarrow> AggregateOutcome \<Rightarrow> AggregateOutcome" where
  "with_metric key v out =
     out\<lparr>ao_metrics := (case ao_metrics out of JObj kvs \<Rightarrow> JObj (dict_set key v kvs) | j \<Rightarrow> j)\<rparr>"

fun EvalRunState_value :: "EvalRunState \<Rightarrow> string" where
  "EvalRunState_value Run_CREATED = ''created''"
| "EvalRunState_value Run_TARGET_FROZEN = ''target_frozen''"
| "EvalRunState_value Run_READY = ''ready''"
| "EvalRunState_value Run_RUNNING = ''running''"
| "EvalRunState_value Run_GRADING = ''grading''"
| "EvalRunState_value Run_REVIEW_REQUIRED = ''review_required''"
| "EvalRunState_value Run_COMPLETED = ''completed''"
| "EvalRunState_value Run_CANCELLED = ''cancelled''"
| "EvalRunState_value Run_ERROR = ''error''"
| "EvalRunState_value Run_BLOCKED = ''blocked''"

definition harvest_snapshot ::
    "('a store_env_scheme) \<Rightarrow> EvalRun \<Rightarrow> EvalCaseAttempt list \<Rightarrow> GraderRow list \<Rightarrow> json" where
  "harvest_snapshot E run attempts graders = JObj
     [(''run'', JObj [(''id'', JStr (uuid_str E (row_id run))), (''suite_id'', JStr (er_suite_id run)),
        (''suite_version'', JStr (er_suite_version run)),
        (''suite_manifest_sha256'', JStr (er_suite_manifest_sha256 run)),
        (''target_fingerprint'', JStr (er_target_fingerprint run)),
        (''state'', JStr (EvalRunState_value (er_state run))),
        (''attempt_policy'', er_attempt_policy run),
        (''evidence_sha256'', JStr (text_of (er_evidence_sha256 run)))]),
      (''attempts'', JList (map (\<lambda>a. JObj [(''id'', JStr (uuid_str E (row_id a))), (''case_id'', JStr (ea_case_id a)),
        (''attempt_number'', JInt (ea_attempt_number a)), (''result'', JStr (ResultState_value (ea_result a))),
        (''counted_in_aggregate'', JBool (ea_counted_in_aggregate a)),
        (''forbidden_effect_attempts'', JInt (ea_forbidden_effect_attempts a)),
        (''input_sha256'', JStr (ea_input_sha256 a)), (''fixture_sha256'', JStr (ea_fixture_sha256 a)),
        (''trajectory_sha256'', JStr (ea_trajectory_sha256 a))]) attempts)),
      (''graders'', JList (map (\<lambda>g. JObj [(''id'', JStr (uuid_str E (row_id g))),
        (''attempt_id'', JStr (uuid_str E (gr_attempt_id g))), (''grader_id'', JStr (gr_grader_id g)),
        (''grader_version'', JStr (gr_grader_version g)), (''result'', JStr (ResultState_value (gr_result g))),
        (''criticality'', JStr (Criticality_value (gr_criticality g))),
        (''evidence_sha256'', JStr (text_of (gr_evidence_sha256 g))), (''rubric_id'', JStr (gr_rubric_id g)),
        (''rubric_version'', JStr (gr_rubric_version g)),
        (''rubric_sha256'', JStr (text_of (gr_rubric_sha256 g)))]) graders))]"

definition counted_attempts :: "('a store_env_scheme) \<Rightarrow> qdb \<Rightarrow> string \<Rightarrow> nat \<Rightarrow> EvalCaseAttempt list" where
  "counted_attempts E db tenant run = filter ea_counted_in_aggregate (run_attempts E db tenant run)"

text \<open>
  A harvest reads twice, the attempts in \<open>da\<close> and then the grader rows joined with their attempts in
  \<open>dg\<close>: under READ COMMITTED each query sees the database as it is when the query starts.
\<close>

definition counted_graders :: "('a store_env_scheme) \<Rightarrow> qdb \<Rightarrow> qdb \<Rightarrow> string \<Rightarrow> nat \<Rightarrow> GraderRow list" where
  "counted_graders E da dg tenant run =
     filter (\<lambda>g. gr_attempt_id g \<in> set (map row_id (counted_attempts E da tenant run))) (run_grader_rows E dg tenant run)"

definition harvest_outcome ::
    "('a store_env_scheme) \<Rightarrow> qdb \<Rightarrow> qdb \<Rightarrow> string \<Rightarrow> EvalRun \<Rightarrow> store_error + AggregateOutcome \<times> ExamIdentity \<times> json" where
  "harvest_outcome E da dg tenant run =
     (let all_attempts = run_attempts E da tenant (row_id run);
          attempts = counted_attempts E da tenant (row_id run);
          all_graders = run_grader_rows E dg tenant (row_id run);
          graders = counted_graders E da dg tenant (row_id run)
      in res_bind (harvest_checks all_attempts attempts graders) (\<lambda>_.
         res_bind (harvest_results graders) (\<lambda>by_attempt.
           if list_ex (\<lambda>a. \<not> list_ex blocking_eligible (results_for by_attempt (row_id a))) attempts
           then Inl (QualificationStoreError ''attempt has no blocking-eligible grader result'')
           else
             res_bind (map_res (attempt_result by_attempt) attempts) (\<lambda>results.
             res_bind (case_results results) (\<lambda>cases.
             res_bind (subject_family graders) (\<lambda>family.
             res_bind (contract ''aggregate'' (aggregate (py E) cases HARVEST_POLICY (er_suite_id run) (er_suite_version run) family)) (\<lambda>out.
             res_bind (fold_res version_step ([], []) graders) (\<lambda>(grader_versions, rubric_versions).
             res_bind (exam_of \<lparr>ex_suite_id = er_suite_id run, ex_suite_version = er_suite_version run,
                 ex_grader_versions = grader_versions, ex_rubric_versions = rubric_versions,
                 ex_thresholds = [(''noncritical_pass_threshold'', JFloat 1)],
                 ex_attempt_policy_digest = sha256_hex (py E) (er_attempt_policy run)\<rparr>) (\<lambda>exam.
               Inr (with_metric ''qualification_exam'' (exam_to_dict (py E) exam) out, exam,
                    harvest_snapshot E run all_attempts all_graders))))))))))"

section \<open>Certificates on record\<close>

definition qualifying_row :: "string \<Rightarrow> string \<Rightarrow> string \<Rightarrow> string \<Rightarrow> EvalQualification \<Rightarrow> bool" where
  "qualifying_row tenant suite ver target q \<longleftrightarrow> tenant_id q = tenant \<and> eq_suite_id q = suite
     \<and> eq_suite_version q = ver \<and> eq_target_fingerprint q = target \<and> eq_state q \<in> QUALIFYING_STATES"

text \<open>The first row in the order of a query that sorts descending by creation and id.\<close>

definition latest_by :: "(EvalQualification \<Rightarrow> 'k::linorder) \<Rightarrow> EvalQualification list \<Rightarrow> EvalQualification option" where
  "latest_by key rows = (case rev (sort_key key rows) of [] \<Rightarrow> None | q # _ \<Rightarrow> Some q)"

definition live_equivalent :: "qdb \<Rightarrow> string \<Rightarrow> string \<Rightarrow> string \<Rightarrow> string \<Rightarrow> EvalQualification option" where
  "live_equivalent db tenant suite ver target =
     latest_by (\<lambda>q. (instant (eq_created_at q), row_id q)) (filter (qualifying_row tenant suite ver target) (qd_quals db))"

definition EXPIRY_REASON :: string where
  "EXPIRY_REASON = ''expired by clock; live slot released for renewal''"

definition expire_row :: "py_datetime \<Rightarrow> EvalQualification \<Rightarrow> EvalQualification" where
  "expire_row now q = q\<lparr>eq_state := EXPIRED, eq_invalidated_at := Some now, eq_invalidation_reason := EXPIRY_REASON\<rparr>"

text \<open>
  The database and whether this call expired the row; comparing a zoned expiry with a naive clock raises
  \<^verbatim>\<open>TypeError\<close>.
\<close>

definition expire_lapsed :: "qdb \<Rightarrow> EvalQualification \<Rightarrow> py_datetime \<Rightarrow> store_error + qdb \<times> bool" where
  "expire_lapsed db row now =
     (case eq_expires_at row of
        None \<Rightarrow> Inr (db, False)
      | Some t \<Rightarrow>
          (case dt_le t now of
             None \<Rightarrow> Inl StoreTypeError
           | Some False \<Rightarrow> Inr (db, False)
           | Some True \<Rightarrow>
               (let hit = (\<lambda>q. row_id q = row_id row \<and> tenant_id q = tenant_id row \<and> eq_state q \<in> QUALIFYING_STATES)
                in Inr (db\<lparr>qd_quals := map (\<lambda>q. if hit q then expire_row now q else q) (qd_quals db)\<rparr>,
                     length (filter hit (qd_quals db)) = 1))))"

text \<open>The row trigger on certificates, and the unique constraints of the table.\<close>

definition evidence_supports :: "qdb \<Rightarrow> EvalQualification \<Rightarrow> bool" where
  "evidence_supports db q \<longleftrightarrow>
     (let counted = filter (\<lambda>a. ea_run_id a = eq_run_id q \<and> tenant_id a = tenant_id q \<and> ea_counted_in_aggregate a) (qd_attempts db)
      in counted \<noteq> []
         \<and> \<not> list_ex (\<lambda>g. list_ex (\<lambda>a. row_id a = gr_attempt_id g \<and> tenant_id a = tenant_id g) counted
               \<and> gr_criticality g = CRITICAL \<and> gr_result g \<in> {FAIL, ERROR}) (qd_graders db)
         \<and> \<not> list_ex (\<lambda>a. ea_result a = ERROR \<or> 0 < ea_forbidden_effect_attempts a) counted)"


definition same_slot :: "EvalQualification \<Rightarrow> EvalQualification \<Rightarrow> bool" where
  "same_slot p q \<longleftrightarrow> tenant_id p = tenant_id q \<and> eq_suite_id p = eq_suite_id q
     \<and> eq_suite_version p = eq_suite_version q \<and> eq_target_fingerprint p = eq_target_fingerprint q
     \<and> eq_state p \<in> QUALIFYING_STATES \<and> eq_state q \<in> QUALIFYING_STATES"

definition insert_qualification :: "qdb \<Rightarrow> EvalQualification \<Rightarrow> store_error + qdb" where
  "insert_qualification db q =
     (if eq_state q \<in> QUALIFYING_STATES \<and> \<not> evidence_supports db q then Inl ConstraintViolation
      else if \<not> ddl_qualification_checks q \<or> \<not> ddl_qualification_identity q then Inl ConstraintViolation
      else if list_ex (\<lambda>p. row_id p = row_id q \<or> (tenant_id p = tenant_id q \<and> eq_run_id p = eq_run_id q) \<or> same_slot p q)
                (qd_quals db) then Inl UniqueViolation
      else if \<not> list_ex (\<lambda>r. row_id r = eq_run_id q \<and> tenant_id r = tenant_id q) (qd_runs db) then Inl ConstraintViolation
      else Inr (db\<lparr>qd_quals := qd_quals db @ [q]\<rparr>))"

section \<open>The exam of a suite package\<close>

definition suite_path_from_input ::
    "('a store_env_scheme) \<Rightarrow> path \<Rightarrow> string \<Rightarrow> store_error + path" where
  "suite_path_from_input E repo_root text =
     (if os_is_file E (path_of text) then Inr (os_resolve E (path_of text))
      else if \<not> re_fullmatch SHA256_PATTERN text
      then Inl (QualificationStoreError ''current-suite must be a suite package path or a 64-hex manifest sha'')
      else res_bind (map_res (\<lambda>p. case load_suite_package E repo_root None p of
               Inl e \<Rightarrow> Inl (SuitePackage e) | Inr pk \<Rightarrow> Inr (p, es_manifest_sha256 (pk_suite pk))) (sort (suite_files E))) (\<lambda>found.
        case filter (\<lambda>(p, sha). sha = text) found of
          [(p, _)] \<Rightarrow> Inr p
        | _ \<Rightarrow> Inl (QualificationStoreError ''current-suite manifest sha resolved to another number of suite packages'')))"

definition falsy :: "json \<Rightarrow> bool" where
  "falsy j = (case j of JNull \<Rightarrow> True | JBool b \<Rightarrow> \<not> b | JInt i \<Rightarrow> i = 0 | JFloat q \<Rightarrow> q = 0
     | JStr s \<Rightarrow> s = [] | JList xs \<Rightarrow> xs = [] | JObj kvs \<Rightarrow> kvs = [])"

text \<open>\<^verbatim>\<open>str(value or "")\<close>.\<close>

definition str_or_empty :: "('a store_env_scheme) \<Rightarrow> json \<Rightarrow> string" where
  "str_or_empty E j = (if falsy j then [] else (case j of JStr s \<Rightarrow> s | _ \<Rightarrow> str_of E j))"

definition rubric_step ::
    "('a store_env_scheme) \<Rightarrow> path \<Rightarrow> (string \<times> string) list \<Rightarrow> ManifestReference \<Rightarrow> store_error + (string \<times> string) list" where
  "rubric_step E repo_root rubrics m =
     (case resolve_ref m repo_root of
        Inl e \<Rightarrow> Inl (SuitePackage e)
      | Inr path \<Rightarrow>
          (case os_read_text E path of
             TextIs text \<Rightarrow>
               (case json_loads (reader E) text of
                  Loaded (JObj payload) \<Rightarrow>
                    let rubric = str_or_empty E (get payload ''rubric_id'')
                    in Inr (if rubric = [] then rubrics
                            else dict_set rubric (str_or_empty E (get payload ''rubric_version'')) rubrics)
                | _ \<Rightarrow> Inl StoreUncaught)
           | _ \<Rightarrow> Inl StoreUncaught))"

definition assign_step :: "(string \<times> string) list \<Rightarrow> GraderAssignment \<Rightarrow> store_error + (string \<times> string) list" where
  "assign_step versions g =
     (case dict_default (ga_grader_id g) (show_int (ga_grader_version g)) versions of (versions', previous) \<Rightarrow>
        if previous \<noteq> show_int (ga_grader_version g)
        then Inl (QualificationStoreError ''suite assigns grader multiple versions'') else Inr versions')"

definition AggregateRule_value :: "AggregateRule \<Rightarrow> string" where
  "AggregateRule_value r = (case r of ALL_ATTEMPTS_PASS \<Rightarrow> ''all_attempts_pass''
     | MAJORITY_ATTEMPTS_PASS \<Rightarrow> ''majority_attempts_pass'' | ANY_ATTEMPT_PASSES \<Rightarrow> ''any_attempt_passes'')"

definition CriticalFailureRule_value :: "CriticalFailureRule \<Rightarrow> string" where
  "CriticalFailureRule_value r = (case r of SINGLE_OCCURRENCE_FAILS \<Rightarrow> ''single_occurrence_fails''
     | MAJORITY_OCCURRENCE_FAILS \<Rightarrow> ''majority_occurrence_fails'')"

definition suite_exam_fields ::
    "('a store_env_scheme) \<Rightarrow> EvalSuiteDefinition \<Rightarrow> (string \<times> string) list \<Rightarrow> (string \<times> string) list \<Rightarrow> ExamIdentity" where
  "suite_exam_fields E s graders rubrics =
     (let q = es_qualification_thresholds s; p = es_attempt_policy s in
      \<lparr>ex_suite_id = es_suite_id s, ex_suite_version = show_int (es_suite_version s),
        ex_grader_versions = graders, ex_rubric_versions = rubrics,
        ex_thresholds = [(''min_case_pass_rate'', JFloat (qt_min_case_pass_rate q)),
          (''max_critical_failures'', JInt (qt_max_critical_failures q)),
          (''max_error_rate'', JFloat (qt_max_error_rate q)),
          (''gate_intent'', JStr (GateMode_value (es_gate_intent s))),
          (''inconclusive_policy'', JStr (InconclusivePolicy_value (es_inconclusive_policy s)))],
        ex_attempt_policy_digest = sha256_hex (py E) (JObj
          [(''attempts'', JInt (mp_attempts p)), (''sampling'', JObj (mp_sampling p)),
           (''seed'', case mp_seed p of None \<Rightarrow> JNull | Some i \<Rightarrow> JInt i),
           (''infra_retry_limit'', JInt (mp_infra_retry_limit p)),
           (''aggregate_rule'', JStr (AggregateRule_value (mp_aggregate_rule p))),
           (''critical_failure_rule'', JStr (CriticalFailureRule_value (mp_critical_failure_rule p)))])\<rparr>)"

definition exam_identity_from_suite ::
    "('a store_env_scheme) \<Rightarrow> path \<Rightarrow> string \<Rightarrow> store_error + EvalSuitePackage \<times> ExamIdentity" where
  "exam_identity_from_suite E repo_root current =
     res_bind (suite_path_from_input E repo_root current) (\<lambda>path.
     res_bind (case load_suite_package E repo_root None path of Inl e \<Rightarrow> Inl (SuitePackage e) | Inr pk \<Rightarrow> Inr pk) (\<lambda>pk.
     res_bind (fold_res assign_step [] (concat (map ec_graders (pk_cases pk)))) (\<lambda>graders.
     res_bind (fold_res (rubric_step E repo_root) [] (es_grader_manifests (pk_suite pk))) (\<lambda>rubrics.
     res_bind (exam_of (suite_exam_fields E (pk_suite pk) graders rubrics)) (\<lambda>exam.
       Inr (pk, exam))))))"

section \<open>Issuing from history\<close>

datatype current_suite = CurrentExam ExamIdentity | CurrentSuite string

datatype refusal =
    TooFewRuns nat
  | AmbiguousOrder
  | RunNotCompleted EvalRunState
  | DifferentTargets
  | DifferentVersions
  | RunRed store_error
  | DifferentExams
  | DomainRefused QualificationState

datatype issuance_status = ISSUED | ALREADY_ISSUED | REFUSED refusal

record IssuanceResult =
  ir_status :: issuance_status
  ir_qualification_id :: "nat option"
  ir_run_id :: "nat option"
  ir_suite_id :: string
  ir_suite_version :: string
  ir_target_fingerprint :: string
  ir_state :: "QualificationState option"

definition ir_issued :: "IssuanceResult \<Rightarrow> bool" where
  "ir_issued r \<longleftrightarrow> ir_status r \<in> {ISSUED, ALREADY_ISSUED}"

definition already_issued :: "EvalQualification \<Rightarrow> IssuanceResult" where
  "already_issued q = \<lparr>ir_status = ALREADY_ISSUED, ir_qualification_id = Some (row_id q),
     ir_run_id = Some (eq_run_id q), ir_suite_id = eq_suite_id q, ir_suite_version = eq_suite_version q,
     ir_target_fingerprint = eq_target_fingerprint q, ir_state = Some (eq_state q)\<rparr>"

definition refused :: "refusal \<Rightarrow> nat option \<Rightarrow> string \<Rightarrow> string \<Rightarrow> string \<Rightarrow> QualificationState option \<Rightarrow> IssuanceResult" where
  "refused why run suite ver target st = \<lparr>ir_status = REFUSED why, ir_qualification_id = None, ir_run_id = run,
     ir_suite_id = suite, ir_suite_version = ver, ir_target_fingerprint = target, ir_state = st\<rparr>"

text \<open>The gates on the two selected runs that need only their rows.\<close>

definition streak_refusal :: "string \<Rightarrow> string option \<Rightarrow> EvalRun list \<Rightarrow> IssuanceResult option" where
  "streak_refusal suite_id target runs =
     (if length runs < REQUIRED_CONSECUTIVE_GREENS
      then Some (refused (TooFewRuns (length runs)) None suite_id [] (text_of target) None)
      else
        (let newest = hd runs; selected = take REQUIRED_CONSECUTIVE_GREENS runs in
         if ambiguous_streak_order runs
         then Some (refused AmbiguousOrder None suite_id (er_suite_version newest) (er_target_fingerprint newest) None)
         else (case find (\<lambda>r. er_state r \<noteq> Run_COMPLETED) selected of
             Some b \<Rightarrow> Some (refused (RunNotCompleted (er_state b)) (Some (row_id b)) suite_id
                         (er_suite_version b) (er_target_fingerprint b) None)
           | None \<Rightarrow>
               if \<not> list_all (\<lambda>r. er_target_fingerprint r = er_target_fingerprint newest) selected
               then Some (refused DifferentTargets None suite_id [] (er_target_fingerprint newest) None)
               else if \<not> list_all (\<lambda>r. er_suite_version r = er_suite_version newest) selected
               then Some (refused DifferentVersions None suite_id (er_suite_version newest) (er_target_fingerprint newest) None)
               else None)))"

text \<open>Only \<^verbatim>\<open>QualificationStoreError\<close> and \<^verbatim>\<open>ValueError\<close> turn a run red; anything else escapes.\<close>

definition caught :: "store_error \<Rightarrow> bool" where
  "caught e = (case e of QualificationStoreError _ \<Rightarrow> True | StoreValueError _ \<Rightarrow> True | HarvestContract _ \<Rightarrow> True | _ \<Rightarrow> False)"

text \<open>
  The argument \<open>others\<close> is what the other sessions do: \<open>others i\<close> runs before the statement of number
  \<open>i\<close>. The harvests are statements 3 and 4 for the older run, 5 and 6 for the newest.
\<close>

fun harvest_runs ::
    "('a store_env_scheme) \<Rightarrow> (nat \<Rightarrow> qdb \<Rightarrow> qdb) \<Rightarrow> nat \<Rightarrow> qdb \<Rightarrow> string \<Rightarrow> EvalRun list
     \<Rightarrow> qdb \<times> ((EvalRun \<times> store_error) + (AggregateOutcome \<times> ExamIdentity \<times> json) list)" where
  "harvest_runs E others i db tenant [] = (db, Inr [])"
| "harvest_runs E others i db tenant (r # rs) =
     (let da = others i db; dg = others (i + 1) da
      in case harvest_outcome E da dg tenant r of
           Inl e \<Rightarrow> (dg, Inl (r, e))
         | Inr h \<Rightarrow>
             (case harvest_runs E others (i + 2) dg tenant rs of
                (d, Inl e) \<Rightarrow> (d, Inl e)
              | (d, Inr hs) \<Rightarrow> (d, Inr (h # hs))))"

text \<open>Equality of two dicts.\<close>

definition same_dict :: "(string \<times> string) list \<Rightarrow> (string \<times> string) list \<Rightarrow> bool" where
  "same_dict a b \<longleftrightarrow> list_all (\<lambda>(k, v). map_of a k = map_of b k) (a @ b)"

text \<open>The exam a certificate is bound to.\<close>

definition current_exam ::
    "('a store_env_scheme) \<Rightarrow> path \<Rightarrow> string \<Rightarrow> EvalRun \<Rightarrow> ExamIdentity \<Rightarrow> current_suite \<Rightarrow> store_error + ExamIdentity" where
  "current_exam E repo_root suite_id newest harvested current =
     (case current of
        CurrentExam exam \<Rightarrow>
          if ex_suite_id exam \<noteq> suite_id \<or> ex_suite_version exam \<noteq> er_suite_version newest
          then Inl (QualificationStoreError ''current exam identity does not match the newest qualifying run'')
          else if \<not> same_dict (ex_grader_versions exam) (ex_grader_versions harvested)
              \<or> \<not> same_dict (ex_rubric_versions exam) (ex_rubric_versions harvested)
          then Inl (QualificationStoreError ''current exam identity disagrees with the harvested runs'')
          else Inr exam
      | CurrentSuite text \<Rightarrow>
          res_bind (exam_identity_from_suite E repo_root text) (\<lambda>(pk, exam).
            if es_suite_id (pk_suite pk) \<noteq> suite_id \<or> show_int (es_suite_version (pk_suite pk)) \<noteq> er_suite_version newest
            then Inl (QualificationStoreError ''current suite identity does not match the newest qualifying run'')
            else if es_manifest_sha256 (pk_suite pk) \<noteq> er_suite_manifest_sha256 newest
            then Inl (QualificationStoreError ''current suite manifest does not match the newest qualifying run'')
            else Inr exam))"

definition issue_args ::
    "string \<Rightarrow> EvalRun \<Rightarrow> ExamIdentity \<Rightarrow> AggregateOutcome \<Rightarrow> py_datetime \<Rightarrow> issue_request" where
  "issue_args qualification_id newest exam out issued_at =
     \<lparr>iq_qualification_id = qualification_id, iq_target_fingerprint = er_target_fingerprint newest, iq_exam = exam,
       iq_outcome = out, iq_gate_mode = Gate_ADVISORY, iq_reviewer_identity = ''eval-plane-qualification-issuer'',
       iq_reviewer_family = ''qualification-control'', iq_subject_family = ao_subject_family out,
       iq_issued_at = issued_at,
       iq_expires_at = (case issued_at of Aware t \<Rightarrow> Aware (t + QUALIFICATION_VALIDITY) | Naive t \<Rightarrow> Naive (t + QUALIFICATION_VALIDITY)),
       iq_waivers = [], iq_baseline = None, iq_release_id = [], iq_human_review_completed = False,
       iq_regression_acknowledged = False\<rparr>"

text \<open>The two fresh UUIDs of a call: of the receipt and of the row.\<close>

definition persist_certificate ::
    "('a store_env_scheme) \<Rightarrow> qdb \<Rightarrow> (qdb \<Rightarrow> qdb) \<Rightarrow> (qdb \<Rightarrow> qdb) \<Rightarrow> string \<Rightarrow> string \<Rightarrow> EvalRun \<Rightarrow> ExamIdentity
     \<Rightarrow> (AggregateOutcome \<times> ExamIdentity \<times> json) list \<Rightarrow> py_datetime \<Rightarrow> nat \<Rightarrow> nat
     \<Rightarrow> qdb \<times> (store_error + IssuanceResult)" where
  "persist_certificate E db before_insert before_reread tenant suite_id newest exam harvests issued_at receipt_id new_id =
     (let out = with_metric ''qualification_exam'' (exam_to_dict (py E) exam) (fst (last harvests)) in
      case issue_qualification (py E) (issue_args (uuid_str E receipt_id) newest exam out issued_at) of
        Inl e \<Rightarrow> (db, Inl (QualificationRefused e))
      | Inr q \<Rightarrow>
          if ql_state q \<notin> QUALIFYING_STATES
          then (db, Inr (refused (DomainRefused (ql_state q)) (Some (row_id newest)) suite_id
                 (er_suite_version newest) (er_target_fingerprint newest) (Some (ql_state q))))
          else (case to_domain_qualification (py E) q new_id tenant (row_id newest)
                  (sha256_hex (py E) (JObj [(''harvested_runs'', JList (map (\<lambda>(_, _, s). s) harvests))]))
                  (''eval-qualification://'' @ ql_qualification_id q) None of
              Inl e \<Rightarrow> (db, Inl (QualificationRefused e))
            | Inr row \<Rightarrow>
                (let db1 = before_insert db in
                 case insert_qualification db1 row of
                   Inr db2 \<Rightarrow> (db2, Inr \<lparr>ir_status = ISSUED, ir_qualification_id = Some (row_id row),
                     ir_run_id = Some (row_id newest), ir_suite_id = suite_id,
                     ir_suite_version = er_suite_version newest,
                     ir_target_fingerprint = er_target_fingerprint newest, ir_state = Some (eq_state row)\<rparr>)
                 | Inl UniqueViolation \<Rightarrow>
                     (let db3 = before_reread db1 in
                      case live_equivalent db3 tenant suite_id (er_suite_version newest) (er_target_fingerprint newest) of
                        Some live \<Rightarrow> (db3, Inr (already_issued live))
                      | None \<Rightarrow> (db3, Inl UniqueViolation))
                 | Inl e \<Rightarrow> (db1, Inl e))))"

text \<open>
  The certificate in force for the newest run, once a lapsed one has released its slot: the database
  and the answer, if there is one. The lookup is statement 0, the release 1, the second lookup 2.
\<close>

definition live_answer ::
    "qdb \<Rightarrow> (nat \<Rightarrow> qdb \<Rightarrow> qdb) \<Rightarrow> string \<Rightarrow> string \<Rightarrow> EvalRun list \<Rightarrow> py_datetime
     \<Rightarrow> qdb \<times> (store_error + IssuanceResult option)" where
  "live_answer db others tenant suite_id runs now =
     (case runs of
        [] \<Rightarrow> (db, Inr None)
      | newest # _ \<Rightarrow>
          (let d0 = others 0 db in
           case live_equivalent d0 tenant suite_id (er_suite_version newest) (er_target_fingerprint newest) of
             None \<Rightarrow> (d0, Inr None)
           | Some existing \<Rightarrow>
               (let d1 = others 1 d0 in
                case expire_lapsed d1 existing now of
                  Inl e \<Rightarrow> (d1, Inl e)
                | Inr (db1, True) \<Rightarrow> (db1, Inr None)
                | Inr (db1, False) \<Rightarrow>
                    (let db2 = others 2 db1 in
                     (db2, Inr (map_option already_issued
                       (live_equivalent db2 tenant suite_id (er_suite_version newest) (er_target_fingerprint newest))))))))"

text \<open>The query of the runs reads \<open>db\<close>; the insert is statement 7 and the lookup after its failure 8.\<close>

definition issue_from_history ::
    "('a store_env_scheme) \<Rightarrow> path \<Rightarrow> qdb \<Rightarrow> (nat \<Rightarrow> qdb \<Rightarrow> qdb) \<Rightarrow> string \<Rightarrow> string \<Rightarrow> string option
     \<Rightarrow> current_suite option \<Rightarrow> py_datetime \<Rightarrow> nat \<Rightarrow> nat \<Rightarrow> qdb \<times> (store_error + IssuanceResult)" where
  "issue_from_history E repo_root db others session_tenant suite_id target current now receipt_id new_id =
     (if \<not> nonblank suite_id then (db, Inl (StoreValueError ''suite_id may not be blank''))
      else (case current of
          None \<Rightarrow> (db, Inl (QualificationStoreError ''current_suite is required at issuance''))
        | Some suite \<Rightarrow>
            (case tenant_scope session_tenant of
               Inl e \<Rightarrow> (db, Inl e)
             | Inr tenant \<Rightarrow>
                 (let runs = candidate_runs db tenant suite_id target in
                  case live_answer db others tenant suite_id runs now of
                    (db1, Inl e) \<Rightarrow> (db1, Inl e)
                  | (db1, Inr (Some r)) \<Rightarrow> (db1, Inr r)
                  | (db1, Inr None) \<Rightarrow>
                      (case streak_refusal suite_id target runs of
                         Some r \<Rightarrow> (db1, Inr r)
                       | None \<Rightarrow>
                           (let newest = hd runs in
                            case harvest_runs E others 3 db1 tenant (rev (take REQUIRED_CONSECUTIVE_GREENS runs)) of
                              (db2, Inl (r, e)) \<Rightarrow>
                                if caught e
                                then (db2, Inr (refused (RunRed e) (Some (row_id r)) suite_id (er_suite_version r)
                                       (er_target_fingerprint r) None))
                                else (db2, Inl e)
                            | (db2, Inr harvests) \<Rightarrow>
                                if \<not> list_all (\<lambda>(_, x, _). exam_digest (py E) x = exam_digest (py E) (fst (snd (hd harvests)))) harvests
                                then (db2, Inr (refused DifferentExams None suite_id (er_suite_version newest)
                                       (er_target_fingerprint newest) None))
                                else (case current_exam E repo_root suite_id newest (fst (snd (last harvests))) suite of
                                    Inl e \<Rightarrow> (db2, Inl e)
                                  | Inr exam \<Rightarrow>
                                      persist_certificate E db2 (others 7) (others 8) tenant suite_id newest exam
                                        harvests now receipt_id new_id)))))))"

section \<open>Checking a certificate\<close>

record CheckResult =
  ck_verdict :: string
  ck_qualification_id :: "nat option"
  ck_run_id :: "nat option"
  ck_suite_id :: string
  ck_suite_version :: string
  ck_requested_suite_version :: string
  ck_qualification_target :: string
  ck_requested_target :: string
  ck_state :: "QualificationState option"
  ck_scope :: string

text \<open>
  The exam that a certificate persisted. The rows are written by this module, so the entries of the
  two version dicts are texts.
\<close>

definition version_dict :: "json \<Rightarrow> (string \<times> string) list option" where
  "version_dict j = (case j of
     JObj kvs \<Rightarrow> if list_all (\<lambda>(k, v). case v of JStr _ \<Rightarrow> True | _ \<Rightarrow> False) kvs
                 then Some (map (\<lambda>(k, v). (k, case v of JStr s \<Rightarrow> s | _ \<Rightarrow> [])) kvs) else None
   | _ \<Rightarrow> None)"

definition exam_from_metrics :: "('a store_env_scheme) \<Rightarrow> EvalQualification \<Rightarrow> store_error + ExamIdentity" where
  "exam_from_metrics E q =
     (case eq_aggregate_metrics q of
        JObj metrics \<Rightarrow>
          (case map_of metrics ''qualification_exam'' of
             Some (JObj raw) \<Rightarrow>
               (case (map_of raw ''suite_id'', map_of raw ''suite_version'',
                      version_dict (get_or raw ''grader_versions'' (JObj [])),
                      version_dict (get_or raw ''rubric_versions'' (JObj [])),
                      get_or raw ''thresholds'' (JObj [])) of
                  (Some i, Some v, Some graders, Some rubrics, JObj thresholds) \<Rightarrow>
                    exam_of \<lparr>ex_suite_id = (case i of JStr s \<Rightarrow> s | _ \<Rightarrow> str_of E i),
                      ex_suite_version = (case v of JStr s \<Rightarrow> s | _ \<Rightarrow> str_of E v),
                      ex_grader_versions = graders, ex_rubric_versions = rubrics, ex_thresholds = thresholds,
                      ex_attempt_policy_digest = (case get_or raw ''attempt_policy_digest'' (JStr []) of
                          JStr s \<Rightarrow> s | j \<Rightarrow> str_of E j)\<rparr>
                | _ \<Rightarrow> Inl (StoreValueError ''malformed exam identity''))
           | _ \<Rightarrow> Inl (QualificationStoreError ''qualification has no persisted exam identity''))
      | _ \<Rightarrow> Inl (QualificationStoreError ''qualification has no persisted exam identity''))"

text \<open>
  \<^verbatim>\<open>evaluate_staleness\<close> on the subject's four fields; a certificate without an expiry is compared with
  the clock only when target and exam agree, which raises \<^verbatim>\<open>TypeError\<close>.
\<close>

definition staleness :: "('a store_env_scheme) \<Rightarrow> EvalQualification \<Rightarrow> ExamIdentity \<Rightarrow> string \<Rightarrow> ExamIdentity \<Rightarrow> py_datetime
     \<Rightarrow> store_error + QualificationState" where
  "staleness E q exam target current now =
     (if \<not> sha256_re_match target then Inl (QualificationRefused (BadFingerprint ''current_target_fingerprint''))
      else if \<not> is_aware now then Inl (QualificationRefused (NotAware ''now''))
      else if target \<noteq> eq_target_fingerprint q then Inr STALE
      else if exam_digest (py E) current \<noteq> exam_digest (py E) exam then Inr STALE
      else (case eq_expires_at q of
          None \<Rightarrow> Inl StoreTypeError
        | Some t \<Rightarrow> (case dt_le t now of None \<Rightarrow> Inl StoreTypeError
            | Some True \<Rightarrow> Inr EXPIRED | Some False \<Rightarrow> Inr (eq_state q))))"

definition py_upper :: "string \<Rightarrow> string" where
  "py_upper = map (\<lambda>c. if 97 \<le> (of_char c :: nat) \<and> (of_char c :: nat) \<le> 122 then char_of ((of_char c :: nat) - 32) else c)"

definition certificate_row :: "qdb \<Rightarrow> string \<Rightarrow> string \<Rightarrow> string \<Rightarrow> string \<Rightarrow> EvalQualification option" where
  "certificate_row db tenant suite_id ver target =
     latest_by (\<lambda>q. (eq_suite_version q = ver, eq_target_fingerprint q = target, instant (eq_created_at q), row_id q))
       (filter (\<lambda>q. tenant_id q = tenant \<and> eq_suite_id q = suite_id) (qd_quals db))"

definition check_result :: "string \<Rightarrow> EvalQualification \<Rightarrow> string \<Rightarrow> string \<Rightarrow> string \<Rightarrow> CheckResult" where
  "check_result verdict q ver target scope = \<lparr>ck_verdict = verdict, ck_qualification_id = Some (row_id q),
     ck_run_id = Some (eq_run_id q), ck_suite_id = eq_suite_id q, ck_suite_version = eq_suite_version q,
     ck_requested_suite_version = ver, ck_qualification_target = eq_target_fingerprint q,
     ck_requested_target = target, ck_state = Some (eq_state q), ck_scope = scope\<rparr>"

text \<open>The verdict on a live row whose exam could be read.\<close>

definition check_live ::
    "('a store_env_scheme) \<Rightarrow> path \<Rightarrow> string \<Rightarrow> string \<Rightarrow> string \<Rightarrow> string option \<Rightarrow> py_datetime
     \<Rightarrow> EvalQualification \<Rightarrow> ExamIdentity \<Rightarrow> store_error + string" where
  "check_live E repo_root suite_id ver target current now q exam =
     res_bind (case current of
         None \<Rightarrow> Inr exam
       | Some text \<Rightarrow> res_bind (exam_identity_from_suite E repo_root text) (\<lambda>(pk, x).
           if es_suite_id (pk_suite pk) \<noteq> suite_id \<or> show_int (es_suite_version (pk_suite pk)) \<noteq> ver
           then Inl (QualificationStoreError ''current suite identity does not match the requested suite and version'')
           else Inr x)) (\<lambda>current_exam.
       if eq_suite_version q \<noteq> ver then Inr ''STALE''
       else res_bind (staleness E q exam target current_exam now) (\<lambda>st.
         if st = STALE then Inr ''STALE''
         else if st \<in> QUALIFYING_STATES then Inr ''VALID''
         else Inr (py_upper (QualificationState_value st))))"

definition check_qualification ::
    "('a store_env_scheme) \<Rightarrow> path \<Rightarrow> qdb \<Rightarrow> string \<Rightarrow> string \<Rightarrow> string \<Rightarrow> string \<Rightarrow> string option \<Rightarrow> py_datetime
     \<Rightarrow> store_error + CheckResult" where
  "check_qualification E repo_root db session_tenant suite_id ver target current now =
     (if \<not> nonblank suite_id \<or> \<not> nonblank ver then Inl (StoreValueError ''suite_id and suite_version may not be blank'')
      else
        (let scope = (if current = None then ''fingerprint-only'' else ''full'') in
         res_bind (tenant_scope session_tenant) (\<lambda>tenant.
           case certificate_row db tenant suite_id ver target of
             None \<Rightarrow> Inr \<lparr>ck_verdict = ''ABSENT'', ck_qualification_id = None, ck_run_id = None, ck_suite_id = suite_id,
                 ck_suite_version = [], ck_requested_suite_version = ver, ck_qualification_target = [],
                 ck_requested_target = target, ck_state = None, ck_scope = scope\<rparr>
           | Some q \<Rightarrow>
               if eq_state q \<notin> QUALIFYING_STATES
               then Inr (check_result (py_upper (QualificationState_value (eq_state q))) q ver target scope)
               else (case exam_from_metrics E q of
                   Inl _ \<Rightarrow> Inr (check_result ''ERROR'' q ver target scope)
                 | Inr exam \<Rightarrow>
                     res_bind (check_live E repo_root suite_id ver target current now q exam) (\<lambda>verdict.
                       Inr (check_result verdict q ver target scope))))))"

section \<open>The identity of a connection\<close>

text \<open>The catalog row of the connection's own role, if the catalog has one.\<close>

record role_row =
  rr_session_user :: string
  rr_current_user :: string
  rr_database_name :: string
  rr_super :: bool
  rr_replication :: bool
  rr_bypassrls :: bool
  rr_server_version :: int

definition assert_connection_identity :: "role_row option \<Rightarrow> string \<Rightarrow> string \<Rightarrow> store_error + unit" where
  "assert_connection_identity row expected_principal expected_database =
     (if \<not> nonblank expected_principal \<or> \<not> nonblank expected_database
      then Inl (StoreValueError ''expected principal and database may not be blank'')
      else (case row of
          None \<Rightarrow> Inl (QualificationStoreError ''connected PostgreSQL principal does not match --expected-principal'')
        | Some r \<Rightarrow>
            if rr_session_user r \<noteq> expected_principal \<or> rr_current_user r \<noteq> expected_principal
            then Inl (QualificationStoreError ''connected PostgreSQL principal does not match --expected-principal'')
            else if rr_database_name r \<noteq> expected_database
            then Inl (QualificationStoreError ''connected PostgreSQL database does not match --expected-database'')
            else if rr_super r \<or> rr_replication r \<or> rr_bypassrls r
            then Inl (QualificationStoreError ''connected PostgreSQL principal has unsafe elevated flags'')
            else if \<not> (160000 \<le> rr_server_version r \<and> rr_server_version r < 170000)
            then Inl (QualificationStoreError ''qualification CLIs require PostgreSQL 16'')
            else Inr ()))"

end
