(* ===== verification/Store_Checks.thy ===== *)
theory Store_Checks
  imports Qualification_Store
begin

text \<open>
  The lemmas on issuing from run history: what a harvest shows of a run, the decision of the domain
  layer on it, the row that is inserted, the keys of the certificate table, the exam read back
  from a certificate, and the read-only check.
\<close>

section \<open>Green runs\<close>

text \<open>
  A run is green when its counted attempts exist and all pass, each under at least one
  blocking-eligible verdict and only passing ones, no counted attempt has a grader error, and no
  attempt at all, counted or not, has a forbidden effect. The attempts are those of the database
  \<open>da\<close>, the verdicts those of \<open>dg\<close>, where both queries see one database the same.
\<close>

definition of_run :: "string \<Rightarrow> EvalRun \<Rightarrow> EvalCaseAttempt \<Rightarrow> bool" where
  "of_run tenant run a \<longleftrightarrow> tenant_id a = tenant \<and> ea_run_id a = row_id run"

definition grades :: "GraderRow \<Rightarrow> EvalCaseAttempt \<Rightarrow> bool" where
  "grades g a \<longleftrightarrow> gr_attempt_id g = row_id a \<and> tenant_id g = tenant_id a"

text \<open>The grader rows that the join of \<open>dg\<close> gives an attempt of the run.\<close>

definition graded_by :: "qdb \<Rightarrow> string \<Rightarrow> EvalRun \<Rightarrow> EvalCaseAttempt \<Rightarrow> GraderRow set" where
  "graded_by dg tenant run a =
     {g \<in> set (qd_graders dg). grades g a \<and> (\<exists>b \<in> set (qd_attempts dg). grades g b \<and> of_run tenant run b)}"

definition green_run :: "qdb \<Rightarrow> qdb \<Rightarrow> string \<Rightarrow> EvalRun \<Rightarrow> bool" where
  "green_run da dg tenant run \<longleftrightarrow>
     (\<exists>a \<in> set (qd_attempts da). of_run tenant run a \<and> ea_counted_in_aggregate a)
     \<and> (\<forall>a \<in> set (qd_attempts da). of_run tenant run a \<longrightarrow> ea_forbidden_effect_attempts a \<le> 0
          \<and> (ea_counted_in_aggregate a \<longrightarrow> ea_result a = PASS
               \<and> (\<exists>g \<in> graded_by dg tenant run a. blocking_row g)
               \<and> (\<forall>g \<in> graded_by dg tenant run a.
                    gr_result g \<noteq> ERROR \<and> (blocking_row g \<longrightarrow> gr_result g = PASS))))"

lemma contract_Inr [simp]: "contract what m = Inr v \<longleftrightarrow> m = Inr v"
  by (cases m) (simp_all add: contract_def)

lemma run_attempts_set:
  "set (run_attempts E db tenant i) = {a \<in> set (qd_attempts db). tenant_id a = tenant \<and> ea_run_id a = i}"
  by (auto simp: run_attempts_def)

lemma run_grader_rows_set:
  "set (run_grader_rows E db tenant i) =
     {g \<in> set (qd_graders db). \<exists>a \<in> set (qd_attempts db). grades g a \<and> tenant_id a = tenant \<and> ea_run_id a = i}"
  by (auto simp: run_grader_rows_def grades_def image_iff) metis

lemma GraderResult_fields:
  assumes "grader_result g = Inr r"
  shows "gv_state r = gr_result g" "gv_criticality r = gr_criticality g"
  using assms by (auto simp: grader_result_def dest: GraderResult_check_same)

lemma blocking_row_iff: "grader_result g = Inr r \<Longrightarrow> blocking_eligible r \<longleftrightarrow> blocking_row g"
  by (cases "gr_criticality g") (simp_all add: blocking_eligible_def blocking_row_def GraderResult_fields)

lemma results_for_mem:
  assumes "harvest_results rows = Inr rs"
  shows "r \<in> set (results_for rs i) \<longleftrightarrow> (\<exists>g \<in> set rows. gr_attempt_id g = i \<and> grader_result g = Inr r)"
proof -
  have "(i, r) \<in> set rs \<longleftrightarrow> (\<exists>g \<in> set rows. gr_attempt_id g = i \<and> grader_result g = Inr r)"
    using map_res_all [OF assms [unfolded harvest_results_def]] map_res_mem [OF assms [unfolded harvest_results_def]]
    by (fastforce simp: res_bind_Inr_iff)
  then show ?thesis by (force simp: results_for_def)
qed

lemma harvest_checks_Inr:
  "harvest_checks all_attempts attempts rows = Inr u \<longleftrightarrow> attempts \<noteq> []
     \<and> (\<forall>a \<in> set attempts. ea_result a = PASS)
     \<and> (\<forall>a \<in> set all_attempts. ea_forbidden_effect_attempts a \<le> 0)
     \<and> (\<forall>g \<in> set rows. gr_result g \<noteq> ERROR \<and> (blocking_row g \<longrightarrow> gr_result g = PASS))
     \<and> rows \<noteq> []"
  by (auto simp: harvest_checks_def guard_Inr list_ex_iff linorder_not_less)

text \<open>The parts of a harvest: the results by attempt, the attempts, the cases, the aggregate and the exam.\<close>

lemma harvest_outcome_Inr:
  assumes "harvest_outcome E da dg tenant run = Inr (out, exam, snap)"
  obtains rs results cs family out0 where
    "harvest_checks (run_attempts E da tenant (row_id run)) (counted_attempts E da tenant (row_id run))
       (counted_graders E da dg tenant (row_id run)) = Inr ()"
    "harvest_results (counted_graders E da dg tenant (row_id run)) = Inr rs"
    "\<forall>a \<in> set (counted_attempts E da tenant (row_id run)). \<exists>r \<in> set (results_for rs (row_id a)). blocking_eligible r"
    "map_res (attempt_result rs) (counted_attempts E da tenant (row_id run)) = Inr results"
    "case_results results = Inr cs"
    "aggregate (py E) cs HARVEST_POLICY (er_suite_id run) (er_suite_version run) family = Inr out0"
    "out = with_metric ''qualification_exam'' (exam_to_dict (py E) exam) out0"
    "ex_suite_id exam = er_suite_id run" "ex_suite_version exam = er_suite_version run"
  using assms
  unfolding harvest_outcome_def Let_def res_bind_Inr_iff guard_Inr
  by (auto simp: exam_of_def ExamIdentity_check_def guard_Inr list_ex_iff res_bind_Inr_iff)

lemma harvest_green:
  assumes "harvest_outcome E da dg tenant run = Inr h"
  shows "green_run da dg tenant run"
proof -
  obtain out exam snap where h: "h = (out, exam, snap)" by (cases h)
  from assms [unfolded h] obtain rs where
    c: "harvest_checks (run_attempts E da tenant (row_id run)) (counted_attempts E da tenant (row_id run))
       (counted_graders E da dg tenant (row_id run)) = Inr ()"
    and rs: "harvest_results (counted_graders E da dg tenant (row_id run)) = Inr rs"
    and b: "\<forall>a \<in> set (counted_attempts E da tenant (row_id run)). \<exists>r \<in> set (results_for rs (row_id a)). blocking_eligible r"
    by (rule harvest_outcome_Inr) blast
  have att: "a \<in> set (counted_attempts E da tenant (row_id run))
      \<longleftrightarrow> a \<in> set (qd_attempts da) \<and> of_run tenant run a \<and> ea_counted_in_aggregate a" for a
    by (auto simp: counted_attempts_def run_attempts_set of_run_def)
  have grd: "g \<in> set (counted_graders E da dg tenant (row_id run))"
    if "g \<in> graded_by dg tenant run a" "a \<in> set (counted_attempts E da tenant (row_id run))" for g a
  proof -
    from that(1) obtain b' where "g \<in> set (qd_graders dg)" "grades g a" "b' \<in> set (qd_attempts dg)" "grades g b'"
      "of_run tenant run b'" by (auto simp: graded_by_def)
    moreover from this have "g \<in> set (run_grader_rows E dg tenant (row_id run))"
      by (auto simp: run_grader_rows_set of_run_def)
    moreover have "gr_attempt_id g \<in> row_id ` set (counted_attempts E da tenant (row_id run))"
      using that by (intro image_eqI [OF _ that(2)]) (simp add: graded_by_def grades_def)
    ultimately show ?thesis by (simp add: counted_graders_def)
  qed
  have "\<exists>g \<in> graded_by dg tenant run a. blocking_row g"
    if a: "a \<in> set (counted_attempts E da tenant (row_id run))" for a
  proof -
    obtain r where "r \<in> set (results_for rs (row_id a))" "blocking_eligible r" using b a by blast
    then obtain g where g: "g \<in> set (counted_graders E da dg tenant (row_id run))" "gr_attempt_id g = row_id a" "blocking_row g"
      using results_for_mem [OF rs] blocking_row_iff by blast
    then obtain b' where "g \<in> set (qd_graders dg)" "b' \<in> set (qd_attempts dg)" "grades g b'" "of_run tenant run b'"
      by (auto simp: counted_graders_def run_grader_rows_set of_run_def)
    moreover from this have "grades g a" using g(2) a by (simp add: grades_def of_run_def att)
    ultimately have "g \<in> graded_by dg tenant run a" unfolding graded_by_def by blast
    then show ?thesis using g(3) by blast
  qed
  moreover have "gr_result g \<noteq> ERROR \<and> (blocking_row g \<longrightarrow> gr_result g = PASS)"
    if "g \<in> graded_by dg tenant run a" "a \<in> set (counted_attempts E da tenant (row_id run))" for g a
    using c grd [OF that] by (simp add: harvest_checks_Inr)
  moreover have "\<exists>a. a \<in> set (counted_attempts E da tenant (row_id run))"
    using c by (auto simp: harvest_checks_Inr neq_Nil_conv)
  moreover have "\<forall>a \<in> set (qd_attempts da). of_run tenant run a \<longrightarrow> ea_forbidden_effect_attempts a \<le> 0"
    using c by (auto simp: harvest_checks_Inr run_attempts_set of_run_def)
  moreover have "ea_result a = PASS" if "a \<in> set (counted_attempts E da tenant (row_id run))" for a
    using c that by (simp add: harvest_checks_Inr)
  ultimately show ?thesis unfolding green_run_def att by blast
qed

section \<open>The domain's decision on a green harvest\<close>

lemma AttemptPolicy_check_same: "AttemptPolicy_check p = Inr q \<Longrightarrow> q = p"
  by (auto simp: AttemptPolicy_check_def split: if_splits option.splits)

lemma CaseResult_check_same: "CaseResult_check c = Inr d \<Longrightarrow> d = c"
  by (auto simp: CaseResult_check_def Let_def split: if_splits)

lemma attempt_result_fields:
  assumes "attempt_result rs a = Inr x"
  shows "ca_grader_results x = results_for rs (row_id a)"
    and "ca_forbidden_effect_attempted x \<longleftrightarrow> 0 < ea_forbidden_effect_attempts a"
  using assms by (auto simp: attempt_result_def CaseAttemptResult_check_def guard_Inr)

lemma case_results_mem:
  assumes "case_results results = Inr cs" and "c \<in> set cs"
  shows "set (cr_attempts c) \<subseteq> set results" and "ap_aggregate_rule (cr_policy c) = ALL_MUST_PASS"
proof -
  obtain i where "case_result i (filter (\<lambda>a. ca_case_id a = i) results) = Inr c"
    using map_res_all [OF assms(1) [unfolded case_results_def] assms(2)] by blast
  then show "set (cr_attempts c) \<subseteq> set results" and "ap_aggregate_rule (cr_policy c) = ALL_MUST_PASS"
    by (auto simp: case_result_def res_bind_Inr_iff dest!: AttemptPolicy_check_same CaseResult_check_same)
qed

text \<open>Every attempt of a harvest passes in the grading layer's own reading of its verdicts.\<close>

lemma harvested_attempt_passes:
  assumes "harvest_checks all_attempts attempts rows = Inr ()" and "harvest_results rows = Inr rs"
    and "\<forall>a \<in> set attempts. \<exists>r \<in> set (results_for rs (row_id a)). blocking_eligible r"
    and "set attempts \<subseteq> set all_attempts"
    and "map_res (attempt_result rs) attempts = Inr results" and "x \<in> set results"
  shows "attempt_state x = PASS" and "\<not> ca_forbidden_effect_attempted x"
proof -
  obtain a where a: "a \<in> set attempts" "attempt_result rs a = Inr x"
    using map_res_all [OF assms(5,6)] by blast
  have "gv_state r = PASS" if "r \<in> set (results_for rs (row_id a))" "blocking_eligible r" for r
    using that results_for_mem [OF assms(2)] blocking_row_iff assms(1)
    by (auto simp: harvest_checks_Inr GraderResult_fields)
  then show "attempt_state x = PASS"
    using a assms(3) by (auto simp: attempt_state_PASS blocking_results_def attempt_result_fields filter_empty_conv)
  show "\<not> ca_forbidden_effect_attempted x"
    using a assms(1,4) attempt_result_fields(2) [OF a(2)] by (fastforce simp: harvest_checks_Inr)
qed

lemma counters_all_pass:
  assumes "\<forall>c \<in> set cs. case_state c = PASS \<and> (\<forall>a \<in> set (cr_attempts c). \<not> ca_forbidden_effect_attempted a)"
  shows "domain_counters_of cs = \<lparr>dc_critical_failure_count = 0, dc_error_count = 0, dc_inconclusive_count = 0,
    dc_forbidden_effect_count = 0\<rparr>"
  using assms
  by (auto simp: domain_counters_of_def count_if_def forbidden_effect_attempts_def filter_empty_conv sum_list_eq_0_iff)

lemma metrics_of_obj: "\<exists>kvs. metrics_of E cs = JObj kvs \<and> distinct (map fst kvs)"
  unfolding metrics_of_def Let_def by (intro exI conjI, rule refl) simp

lemma harvest_clean:
  assumes "harvest_outcome E da dg tenant run = Inr (out, exam, snap)"
  shows "domain_counters_of (ao_case_results out) = \<lparr>dc_critical_failure_count = 0, dc_error_count = 0,
      dc_inconclusive_count = 0, dc_forbidden_effect_count = 0\<rparr>"
    and "\<not> ao_requires_human_review out" and "ao_policy out = HARVEST_POLICY"
    and "ao_suite_id out = er_suite_id run" and "ao_suite_version out = er_suite_version run"
    and "\<exists>kvs. ao_metrics out = JObj kvs \<and> distinct (map fst kvs)" and "nonblank (er_suite_version run)"
proof -
  obtain rs results cs family out0 where
    c: "harvest_checks (run_attempts E da tenant (row_id run)) (counted_attempts E da tenant (row_id run))
       (counted_graders E da dg tenant (row_id run)) = Inr ()"
    and rs: "harvest_results (counted_graders E da dg tenant (row_id run)) = Inr rs"
    and b: "\<forall>a \<in> set (counted_attempts E da tenant (row_id run)). \<exists>r \<in> set (results_for rs (row_id a)). blocking_eligible r"
    and at: "map_res (attempt_result rs) (counted_attempts E da tenant (row_id run)) = Inr results"
    and cs: "case_results results = Inr cs"
    and ag: "aggregate (py E) cs HARVEST_POLICY (er_suite_id run) (er_suite_version run) family = Inr out0"
    and out: "out = with_metric ''qualification_exam'' (exam_to_dict (py E) exam) out0"
    using assms by (rule harvest_outcome_Inr)
  have "set (counted_attempts E da tenant (row_id run)) \<subseteq> set (run_attempts E da tenant (row_id run))"
    by (auto simp: counted_attempts_def)
  note pass = harvested_attempt_passes [OF c rs b this at]
  have p: "\<forall>c \<in> set cs. case_state c = PASS \<and> (\<forall>a \<in> set (cr_attempts c). \<not> ca_forbidden_effect_attempted a)"
    using case_results_mem [OF cs] pass by (simp add: case_state_all_must_pass subset_iff)
  have "ao_metrics out0 = metrics_of (py E) cs" using ag by (auto simp: aggregate_def split: if_splits)
  then obtain kvs where kvs: "ao_metrics out0 = JObj kvs" "distinct (map fst kvs)" using metrics_of_obj by metis
  then show "\<exists>kvs. ao_metrics out = JObj kvs \<and> distinct (map fst kvs)"
    by (simp add: out with_metric_def distinct_dict_set)
  note ag = aggregate_Inr [OF ag]
  show "nonblank (er_suite_version run)" using ag by simp
  show "domain_counters_of (ao_case_results out) = \<lparr>dc_critical_failure_count = 0, dc_error_count = 0,
      dc_inconclusive_count = 0, dc_forbidden_effect_count = 0\<rparr>"
    using ag counters_all_pass [OF p] by (simp add: out with_metric_def)
  show "\<not> ao_requires_human_review out"
    using ag p by (auto simp: out with_metric_def list_ex_iff case_needs_review_def)
  show "ao_policy out = HARVEST_POLICY" "ao_suite_id out = er_suite_id run" "ao_suite_version out = er_suite_version run"
    using ag by (simp_all add: out with_metric_def)
qed

section \<open>From the streak to the row\<close>

lemma issue_fields:
  assumes "issue_qualification E rq = Inr q"
  shows "ql_issued_at q = iq_issued_at rq" and "ql_expires_at q = iq_expires_at rq"
    and "ql_qualification_id q = iq_qualification_id rq" and "is_aware (iq_issued_at rq)"
    and "ql_baseline_comparison q = compare_to_baseline (iq_outcome rq) (exam_digest E (iq_exam rq))
      (map_option (\<lambda>b. (ql_qualification_id b, ql_exam_digest b, ql_aggregate b)) (iq_baseline rq))"
proof -
  obtain app where app: "apply_waivers (ao_findings (iq_outcome rq)) (iq_waivers rq) (iq_target_fingerprint rq)
       (iq_issued_at rq) (iq_release_id rq) = Inr app"
    and q: "q = (draft_qualification E rq app)\<lparr>ql_receipt_sha256 := compute_receipt E (draft_qualification E rq app)\<rparr>"
    using assms by (auto simp: issue_qualification_def res_bind_Inr_iff dest!: Qualification_check_same)
  from app have "require_aware (iq_issued_at rq) ''now'' = Inr ()" by (auto simp: apply_waivers_def res_bind_Inr_iff)
  then show "is_aware (iq_issued_at rq)" by (simp add: require_aware_def split: if_splits)
  show "ql_issued_at q = iq_issued_at rq" "ql_expires_at q = iq_expires_at rq"
    "ql_qualification_id q = iq_qualification_id rq"
    "ql_baseline_comparison q = compare_to_baseline (iq_outcome rq) (exam_digest E (iq_exam rq))
      (map_option (\<lambda>b. (ql_qualification_id b, ql_exam_digest b, ql_aggregate b)) (iq_baseline rq))"
    by (simp_all add: q draft_qualification_def Let_def)
qed

text \<open>An aggregate without counters and without a call for review qualifies under an advisory gate.\<close>

lemma advisory_issue_qualifies:
  assumes "issue_qualification E rq = Inr q"
    and "domain_counters_of (ao_case_results (iq_outcome rq)) = \<lparr>dc_critical_failure_count = 0, dc_error_count = 0,
      dc_inconclusive_count = 0, dc_forbidden_effect_count = 0\<rparr>"
    and "\<not> ao_requires_human_review (iq_outcome rq)" and "iq_gate_mode rq = Gate_ADVISORY"
    and "iq_waivers rq = []"
  shows "ql_state q = ADVISORY_QUALIFIED"
proof -
  obtain app where app: "apply_waivers (ao_findings (iq_outcome rq)) (iq_waivers rq) (iq_target_fingerprint rq)
       (iq_issued_at rq) (iq_release_id rq) = Inr app"
    and st: "ql_state q = derive_state (iq_gate_mode rq) (domain_counters_of (ao_case_results (iq_outcome rq)))
       (sp_inconclusive_policy (ao_policy (iq_outcome rq))) (iq_reviewer_identity rq)
       (wa_remaining app) (wa_applied app) (ao_requires_human_review (iq_outcome rq))
       (iq_human_review_completed rq) (material_regression (ql_baseline_comparison q))
       (iq_regression_acknowledged rq)"
    using assms(1) by (rule issue_qualification_Inr) blast
  have "wa_applied app = []" using apply_waivers_Inr(3) [OF app] assms(5) by (cases "wa_applied app") auto
  then show ?thesis using assms(2-4) unfolding st derive_state_def by (simp add: qualifying_refusal_def)
qed

lemma to_domain_row:
  assumes "to_domain_qualification E q i tenant run snapshot ref base = Inr row" and "ql_state q \<in> QUALIFYING_STATES"
  shows "row = (domain_qualification E q i tenant run snapshot ref base)
    \<lparr>eq_state := ql_state q, eq_decided_at := Some (ql_issued_at q)\<rparr>"
proof -
  have "ql_state q \<noteq> WAIVED" "ql_state q \<noteq> PENDING" using assms(2) by (auto simp: QUALIFYING_STATES_def)
  then have tr: "qualification_transition (domain_qualification E q i tenant run snapshot ref base) (ql_state q)
      (ql_issued_at q) [] = Inr row"
    using assms(1)
    by (simp add: to_domain_qualification_def guard_Inr res_bind_Inr_iff persist_error_Inr)
  have "ql_state q \<notin> {STALE, EXPIRED}" "ql_state q \<noteq> PENDING" using assms(2) by (auto simp: QUALIFYING_STATES_def)
  then show ?thesis using tr
    unfolding qualification_transition_def Let_def by (simp split: sum.split_asm if_split_asm)
qed

lemma streak_refusal_None:
  assumes "streak_refusal suite_id target runs = None"
  obtains newest previous rest where "runs = newest # previous # rest"
    "er_state newest = Run_COMPLETED" "er_state previous = Run_COMPLETED"
    "er_target_fingerprint previous = er_target_fingerprint newest"
    "er_suite_version previous = er_suite_version newest"
    "run_order_key newest \<noteq> run_order_key previous"
proof -
  from assms have "\<not> length runs < 2" by (auto simp: streak_refusal_def REQUIRED_CONSECUTIVE_GREENS_def)
  then obtain newest previous rest where runs: "runs = newest # previous # rest"
    by (metis One_nat_def length_Cons less_numeral_extra(1) list.size(3) neq_Nil_conv numeral_2_eq_2 less_Suc_eq zero_less_Suc)
  from assms [unfolded streak_refusal_def runs REQUIRED_CONSECUTIVE_GREENS_def Let_def]
  have "\<not> ambiguous_streak_order (newest # previous # rest)"
    and f: "find (\<lambda>r. er_state r \<noteq> Run_COMPLETED) [newest, previous] = None"
    and same: "er_target_fingerprint previous = er_target_fingerprint newest
      \<and> er_suite_version previous = er_suite_version newest"
    by (simp_all split: if_split_asm option.split_asm)
  then have "run_order_key newest \<noteq> run_order_key previous"
    by (simp add: ambiguous_streak_order_def REQUIRED_CONSECUTIVE_GREENS_def Let_def)
  moreover have "er_state newest = Run_COMPLETED" "er_state previous = Run_COMPLETED"
    using f by (simp_all split: if_split_asm)
  ultimately show thesis using that runs same by blast
qed

lemma harvest_runs_two:
  assumes "harvest_runs E others 3 db tenant [previous, newest] = (d, Inr hs)"
  obtains h0 h1 where "hs = [h0, h1]"
    "harvest_outcome E (others 3 db) (others 4 (others 3 db)) tenant previous = Inr h0"
    "harvest_outcome E (others 5 (others 4 (others 3 db))) d tenant newest = Inr h1"
    "d = others 6 (others 5 (others 4 (others 3 db)))"
  using assms by (auto simp: Let_def split: sum.splits prod.splits)

lemma candidate_runs_mem:
  "r \<in> set (candidate_runs db tenant suite_id target) \<Longrightarrow> er_suite_id r = suite_id \<and> tenant_id r = tenant \<and> r \<in> set (qd_runs db)"
  unfolding candidate_runs_def by (drule in_set_takeD) simp

lemma candidate_runs_order:
  assumes "candidate_runs db tenant suite_id target = newest # previous # rest"
  shows "run_order_key previous \<le> run_order_key newest"
proof -
  let ?k = "\<lambda>r. (run_order_key r, row_id r)"
  let ?rows = "filter (\<lambda>r. tenant_id r = tenant \<and> er_suite_id r = suite_id
             \<and> (case target of None \<Rightarrow> True | Some t \<Rightarrow> er_target_fingerprint r = t)) (qd_runs db)"
  let ?down = "rev (sort_key ?k ?rows)"
  have "take 3 ?down = newest # previous # rest"
    using assms by (simp add: candidate_runs_def REQUIRED_CONSECUTIVE_GREENS_def)
  then have down: "?down = newest # previous # rest @ drop 3 ?down"
    using append_take_drop_id [of 3 ?down] by simp
  have "sorted_wrt (\<ge>) (map ?k ?down)"
    using sorted_sort_key [of ?k ?rows] by (simp only: sorted_wrt_rev rev_map [symmetric])
  then have "sorted_wrt (\<ge>) (map ?k (newest # previous # rest @ drop 3 ?down))" by (subst down [symmetric])
  then have "?k previous \<le> ?k newest" by (simp only: list.map sorted_wrt.simps list.set insert_iff) blast
  then show ?thesis unfolding less_eq_prod_simp by (auto dest: less_imp_le)
qed

text \<open>What a call of issuing did when it issued, and the row it inserted.\<close>

definition certificate_of ::
    "('a store_env_scheme) \<Rightarrow> string \<Rightarrow> EvalRun \<Rightarrow> ExamIdentity \<Rightarrow> py_datetime \<Rightarrow> nat \<Rightarrow> EvalQualification \<Rightarrow> bool" where
  "certificate_of E tenant newest exam now new_id row \<longleftrightarrow>
     row_id row = new_id \<and> tenant_id row = tenant \<and> eq_run_id row = row_id newest
     \<and> eq_suite_id row = er_suite_id newest \<and> eq_suite_version row = er_suite_version newest
     \<and> eq_target_fingerprint row = er_target_fingerprint newest \<and> eq_state row = ADVISORY_QUALIFIED
     \<and> eq_created_at row = now
     \<and> (\<exists>t. now = Aware t \<and> eq_expires_at row = Some (Aware (t + QUALIFICATION_VALIDITY)))
     \<and> (\<exists>kvs. distinct (map fst kvs) \<and> eq_aggregate_metrics row
            = json_canon (JObj (dict_set ''qualification_exam'' (exam_to_dict (py E) exam) kvs)))"

lemma certificate_row_of_issue:
  assumes iss: "issue_qualification (py E) (issue_args receipt newest exam
      (with_metric ''qualification_exam'' (exam_to_dict (py E) exam) out0) now) = Inr q"
    and dom: "to_domain_qualification (py E) q new_id tenant (row_id newest) snapshot ref None = Inr row"
    and h: "harvest_outcome E da dg tenant newest = Inr (out0, harvested, snap)"
  shows "certificate_of E tenant newest exam now new_id row" and "ql_state q = ADVISORY_QUALIFIED"
proof -
  let ?out = "with_metric ''qualification_exam'' (exam_to_dict (py E) exam) out0"
  have keep: "ao_case_results ?out = ao_case_results out0" "ao_requires_human_review ?out = ao_requires_human_review out0"
    "ao_suite_id ?out = ao_suite_id out0" "ao_suite_version ?out = ao_suite_version out0"
    by (simp_all add: with_metric_def)
  have args: "iq_outcome (issue_args receipt newest exam ?out now) = ?out"
    "iq_gate_mode (issue_args receipt newest exam ?out now) = Gate_ADVISORY"
    "iq_waivers (issue_args receipt newest exam ?out now) = []"
    "iq_target_fingerprint (issue_args receipt newest exam ?out now) = er_target_fingerprint newest"
    "iq_issued_at (issue_args receipt newest exam ?out now) = now"
    "iq_expires_at (issue_args receipt newest exam ?out now) = (case now of Aware t \<Rightarrow> Aware (t + QUALIFICATION_VALIDITY)
       | Naive t \<Rightarrow> Naive (t + QUALIFICATION_VALIDITY))"
    by (simp_all add: issue_args_def)
  show st: "ql_state q = ADVISORY_QUALIFIED"
    using advisory_issue_qualifies [OF iss] harvest_clean [OF h] by (simp add: args keep)
  have row: "row = (domain_qualification (py E) q new_id tenant (row_id newest) snapshot ref None)
      \<lparr>eq_state := ADVISORY_QUALIFIED, eq_decided_at := Some (ql_issued_at q)\<rparr>"
    using to_domain_row [OF dom] st by (simp add: QUALIFYING_STATES_def)
  obtain app :: WaiverApplication where q: "ql_aggregate q = ?out" "ql_target_fingerprint q = er_target_fingerprint newest"
    using iss by (rule issue_qualification_Inr) (simp add: args)
  obtain kvs where "ao_metrics out0 = JObj kvs" "distinct (map fst kvs)" using harvest_clean(6) [OF h] by blast
  then have metrics: "\<exists>kvs. distinct (map fst kvs)
      \<and> json_canon (ao_metrics ?out) = json_canon (JObj (dict_set ''qualification_exam'' (exam_to_dict (py E) exam) kvs))"
    by (intro exI [of _ kvs]) (simp add: with_metric_def)
  have "is_aware now" using issue_fields(4) [OF iss] by (simp add: args)
  then obtain t where "now = Aware t" by (cases now) simp_all
  then show "certificate_of E tenant newest exam now new_id row"
    using issue_fields(1,2) [OF iss] harvest_clean(4,5) [OF h] q metrics
    by (auto simp: certificate_of_def row domain_qualification_def Let_def args keep issue_args_def)
qed

lemma persist_issued:
  assumes "persist_certificate E db before_insert before_reread tenant suite_id newest exam hs now rid nid = (db', Inr r)"
    and "ir_status r = ISSUED" and "hs \<noteq> []" and "harvest_outcome E da dg tenant newest = Inr (last hs)"
  obtains row where "insert_qualification (before_insert db) row = Inr db'"
    "certificate_of E tenant newest exam now nid row"
    "r = \<lparr>ir_status = ISSUED, ir_qualification_id = Some nid, ir_run_id = Some (row_id newest), ir_suite_id = suite_id,
       ir_suite_version = er_suite_version newest, ir_target_fingerprint = er_target_fingerprint newest,
       ir_state = Some ADVISORY_QUALIFIED\<rparr>"
proof -
  obtain out0 harvested snap where l: "last hs = (out0, harvested, snap)" by (cases "last hs")
  let ?out = "with_metric ''qualification_exam'' (exam_to_dict (py E) exam) out0"
  obtain q where q: "issue_qualification (py E) (issue_args (uuid_str E rid) newest exam ?out now) = Inr q"
    using assms(1) by (auto simp: persist_certificate_def l Let_def split: sum.splits)
  obtain row where row: "to_domain_qualification (py E) q nid tenant (row_id newest)
                  (sha256_hex (py E) (JObj [(''harvested_runs'', JList (map (\<lambda>(_, _, s). s) hs))]))
                  (''eval-qualification://'' @ ql_qualification_id q) None = Inr row"
    using assms(1,2)
    by (auto simp: persist_certificate_def l Let_def q refused_def split: sum.split_asm if_split_asm)
  note c = certificate_row_of_issue [OF q row, of da dg harvested snap]
  have c: "certificate_of E tenant newest exam now nid row" "ql_state q \<in> QUALIFYING_STATES"
    using c assms(4) l by (simp_all add: QUALIFYING_STATES_def)
  have "insert_qualification (before_insert db) row = Inr db'
    \<and> r = \<lparr>ir_status = ISSUED, ir_qualification_id = Some (row_id row), ir_run_id = Some (row_id newest), ir_suite_id = suite_id,
       ir_suite_version = er_suite_version newest, ir_target_fingerprint = er_target_fingerprint newest,
       ir_state = Some (eq_state row)\<rparr>"
    using assms(1) assms(2)
    unfolding persist_certificate_def l fst_conv Let_def q sum.case row c(2) not_True_eq_False if_False
    by (auto simp: already_issued_def c(2) split: sum.split_asm store_error.split_asm option.split_asm)
  moreover have "row_id row = nid" "eq_state row = ADVISORY_QUALIFIED" using c(1) by (simp_all add: certificate_of_def)
  ultimately show thesis using that [OF _ c(1)] by simp
qed

lemma live_answer_already:
  "live_answer db others tenant suite_id runs now = (db1, Inr (Some r)) \<Longrightarrow> ir_status r = ALREADY_ISSUED"
  by (auto simp: live_answer_def Let_def already_issued_def split: list.splits option.splits sum.splits bool.splits)

lemma streak_refusal_status: "streak_refusal suite_id target runs = Some r \<Longrightarrow> \<exists>why. ir_status r = REFUSED why"
  by (auto simp: streak_refusal_def Let_def refused_def split: if_split_asm option.split_asm)

lemma issue_reaches_persist:
  assumes "issue_from_history E repo db others session suite_id target current now rid nid = (db', Inr r)"
    and "ir_status r \<in> {ISSUED, REFUSED (DomainRefused st)}"
  obtains db1 newest previous rest h0 h1 exam where
    "candidate_runs db session suite_id target = newest # previous # rest"
    "live_answer db others session suite_id (newest # previous # rest) now = (db1, Inr None)"
    "streak_refusal suite_id target (newest # previous # rest) = None"
    "harvest_outcome E (others 3 db1) (others 4 (others 3 db1)) session previous = Inr h0"
    "harvest_outcome E (others 5 (others 4 (others 3 db1))) (others 6 (others 5 (others 4 (others 3 db1)))) session newest = Inr h1"
    "persist_certificate E (others 6 (others 5 (others 4 (others 3 db1)))) (others 7) (others 8) session suite_id newest
       exam [h0, h1] now rid nid = (db', Inr r)"
    "nonblank suite_id" "nonblank session"
    "\<exists>suite. current_exam E repo suite_id newest (fst (snd h1)) suite = Inr exam"
proof -
  let ?runs = "candidate_runs db session suite_id target"
  obtain suite where nb: "nonblank suite_id" "current = Some suite" "tenant_scope session = Inr session"
    and ns: "nonblank session"
    using assms(1) by (auto simp: issue_from_history_def tenant_scope_def split: if_split_asm option.split_asm)
  obtain db1 where l: "live_answer db others session suite_id ?runs now = (db1, Inr None)"
  proof (cases "live_answer db others session suite_id ?runs now")
    case (Pair db1 a)
    then show thesis using assms that live_answer_already [of db others session suite_id ?runs now db1]
      by (auto simp: issue_from_history_def nb Let_def split: sum.split_asm option.split_asm)
  qed
  have s: "streak_refusal suite_id target ?runs = None"
  proof (rule ccontr)
    assume "streak_refusal suite_id target ?runs \<noteq> None"
    then obtain r' where r': "streak_refusal suite_id target ?runs = Some r'" by blast
    then have "r = r'" using assms(1) by (simp add: issue_from_history_def nb l Let_def)
    moreover have "\<exists>why. ir_status r' = REFUSED why \<and> why \<noteq> DomainRefused st"
      using r' by (auto simp: streak_refusal_def Let_def refused_def split: if_split_asm option.split_asm)
    ultimately show False using assms(2) by auto
  qed
  then obtain newest previous rest where runs: "?runs = newest # previous # rest" by (rule streak_refusal_None)
  let ?sel = "rev (take REQUIRED_CONSECUTIVE_GREENS ?runs)"
  have sel: "?sel = [previous, newest]" by (simp add: runs REQUIRED_CONSECUTIVE_GREENS_def)
  obtain d hs where hs: "harvest_runs E others 3 db1 session [previous, newest] = (d, Inr hs)"
  proof (cases "harvest_runs E others 3 db1 session [previous, newest]")
    case (Pair d a)
    then show thesis using assms s that
      by (cases a) (auto simp: issue_from_history_def nb l Let_def sel refused_def simp del: harvest_runs.simps
          split: if_split_asm)
  qed
  then obtain h0 h1 where h: "hs = [h0, h1]"
    "harvest_outcome E (others 3 db1) (others 4 (others 3 db1)) session previous = Inr h0"
    "harvest_outcome E (others 5 (others 4 (others 3 db1))) d session newest = Inr h1"
    and d: "d = others 6 (others 5 (others 4 (others 3 db1)))"
    by (rule harvest_runs_two)
  obtain exam where "persist_certificate E d (others 7) (others 8) session suite_id newest exam hs now rid nid = (db', Inr r)"
    and "current_exam E repo suite_id newest (fst (snd (last hs))) suite = Inr exam"
    using assms(1,2) s hs runs
    by (auto simp: issue_from_history_def nb l [unfolded runs] Let_def sel [unfolded runs] refused_def
        simp del: harvest_runs.simps
        split: sum.split_asm if_split_asm option.split_asm)
  then show thesis using that runs l s h nb(1) ns unfolding d by (metis last.simps list.distinct(1))
qed

lemma current_exam_fields:
  assumes "current_exam E repo suite_id newest harvested suite = Inr exam"
    and "nonblank suite_id" and "nonblank (er_suite_version newest)"
  shows "nonblank (ex_suite_id exam)" and "nonblank (ex_suite_version exam)"
  using assms
  by (auto simp: current_exam_def guard_Inr res_bind_Inr_iff exam_identity_from_suite_def exam_of_def
      ExamIdentity_check_def split: current_suite.splits)

text \<open>The row behind an answer ISSUED.\<close>

lemma issued_row:
  assumes "issue_from_history E repo db others session suite_id target current now rid nid = (db', Inr r)"
    and "ir_status r = ISSUED"
  obtains db1 d1 d2 d3 d4 newest previous rest exam row where
    "candidate_runs db session suite_id target = newest # previous # rest"
    "live_answer db others session suite_id (newest # previous # rest) now = (db1, Inr None)"
    "streak_refusal suite_id target (newest # previous # rest) = None"
    "d1 = others 3 db1" "d2 = others 4 d1" "d3 = others 5 d2" "d4 = others 6 d3"
    "green_run d1 d2 session previous" "green_run d3 d4 session newest" "er_suite_id newest = suite_id"
    "insert_qualification (others 7 d4) row = Inr db'" "certificate_of E session newest exam now nid row"
    "ir_qualification_id r = Some nid" "ir_suite_version r = er_suite_version newest"
    "ir_target_fingerprint r = er_target_fingerprint newest"
    "nonblank session" "nonblank suite_id" "nonblank (er_suite_version newest)"
    "nonblank (ex_suite_id exam)" "nonblank (ex_suite_version exam)"
proof -
  have m: "ir_status r \<in> {ISSUED, REFUSED (DomainRefused PENDING)}" using assms(2) by simp
  obtain db1 newest previous rest h0 h1 exam where
    runs: "candidate_runs db session suite_id target = newest # previous # rest"
    and live: "live_answer db others session suite_id (newest # previous # rest) now = (db1, Inr None)"
    and streak: "streak_refusal suite_id target (newest # previous # rest) = None"
    and h: "harvest_outcome E (others 3 db1) (others 4 (others 3 db1)) session previous = Inr h0"
      "harvest_outcome E (others 5 (others 4 (others 3 db1))) (others 6 (others 5 (others 4 (others 3 db1)))) session newest = Inr h1"
    and p: "persist_certificate E (others 6 (others 5 (others 4 (others 3 db1)))) (others 7) (others 8) session suite_id newest
       exam [h0, h1] now rid nid = (db', Inr r)"
    and nb: "nonblank suite_id" "nonblank session"
    and cur: "\<exists>suite. current_exam E repo suite_id newest (fst (snd h1)) suite = Inr exam"
    using assms(1) m by (rule issue_reaches_persist)
  obtain row where row: "insert_qualification (others 7 (others 6 (others 5 (others 4 (others 3 db1))))) row = Inr db'"
      "certificate_of E session newest exam now nid row"
    and r: "r = \<lparr>ir_status = ISSUED, ir_qualification_id = Some nid, ir_run_id = Some (row_id newest), ir_suite_id = suite_id,
       ir_suite_version = er_suite_version newest, ir_target_fingerprint = er_target_fingerprint newest,
       ir_state = Some ADVISORY_QUALIFIED\<rparr>"
    using p assms(2) by (rule persist_issued) (use h in simp_all)
  have ver: "nonblank (er_suite_version newest)" using h(2) harvest_clean(7) by (metis prod_cases3)
  have ex: "nonblank (ex_suite_id exam)" "nonblank (ex_suite_version exam)"
    using cur current_exam_fields nb(1) ver by blast+
  have suite: "er_suite_id newest = suite_id" using candidate_runs_mem [of newest db session suite_id target] runs by simp
  show thesis
    by (rule that [OF runs live streak refl refl refl refl harvest_green [OF h(1)] harvest_green [OF h(2)] suite row
          _ _ _ nb(2,1) ver ex])
      (simp_all add: r)
qed

section \<open>The certificate table\<close>

text \<open>The unique keys of the table: identifiers, one certificate for a run, one live certificate for a slot.\<close>

definition slot :: "EvalQualification \<Rightarrow> string \<times> string \<times> string \<times> string" where
  "slot q = (tenant_id q, eq_suite_id q, eq_suite_version q, eq_target_fingerprint q)"

definition table_ok :: "EvalQualification list \<Rightarrow> bool" where
  "table_ok qs \<longleftrightarrow> distinct (map row_id qs) \<and> distinct (map (\<lambda>q. (tenant_id q, eq_run_id q)) qs)
     \<and> distinct (map slot (filter (\<lambda>q. eq_state q \<in> QUALIFYING_STATES) qs))"

text \<open>The table after the slots of some certificates are released.\<close>

definition release :: "(EvalQualification \<Rightarrow> bool) \<Rightarrow> py_datetime \<Rightarrow> EvalQualification \<Rightarrow> EvalQualification" where
  "release hit now q = (if hit q then expire_row now q else q)"

lemma release_same [simp]: "row_id (release hit now q) = row_id q" "tenant_id (release hit now q) = tenant_id q"
  "eq_run_id (release hit now q) = eq_run_id q" "slot (release hit now q) = slot q"
  "eq_state (release hit now q) \<in> QUALIFYING_STATES \<longleftrightarrow> eq_state q \<in> QUALIFYING_STATES \<and> \<not> hit q"
  by (simp_all add: release_def expire_row_def slot_def QUALIFYING_STATES_def)

lemma expire_lapsed_Inr:
  assumes "expire_lapsed db row now = Inr (db', expired)"
  shows "db' = db \<and> \<not> expired \<or> (\<exists>t. eq_expires_at row = Some t \<and> dt_le t now = Some True
    \<and> db' = db\<lparr>qd_quals := map (release (\<lambda>q. row_id q = row_id row \<and> tenant_id q = tenant_id row
        \<and> eq_state q \<in> QUALIFYING_STATES) now) (qd_quals db)\<rparr>)"
  using assms by (auto simp: expire_lapsed_def release_def [abs_def] Let_def split: option.splits bool.splits)

lemma persist_state:
  "fst (persist_certificate E db f g tenant suite_id newest exam hs now rid nid) \<in>
     {db, f db, g (f db)} \<union> {d. \<exists>row. insert_qualification (f db) row = Inr d}"
proof -
  have ins: "fst (case insert_qualification d row of Inr d2 \<Rightarrow> (d2, a d2) | Inl UniqueViolation \<Rightarrow> b | Inl e \<Rightarrow> (d, c e))
     \<in> {d, fst b} \<union> {d'. \<exists>row. insert_qualification d row = Inr d'}" for d row a b c
    by (auto split: sum.splits store_error.splits)
  show ?thesis
    unfolding persist_certificate_def Let_def
    by (auto split: sum.split option.split if_split store_error.split simp: Let_def)
qed

lemma harvest_runs_alone: "fst (harvest_runs E (\<lambda>_ d. d) i db tenant rs) = db"
proof (induction rs arbitrary: i)
  case (Cons r rs)
  obtain h where "harvest_runs E (\<lambda>_ d. d) (i + 2) db tenant rs = (db, h)"
    using Cons.IH [of "i + 2"] by (metis prod.collapse)
  then show ?case by (simp add: Let_def split: sum.split)
qed simp

text \<open>What a session alone can leave behind.\<close>

lemma issue_state_alone:
  "fst (issue_from_history E repo db (\<lambda>_ d. d) session suite_id target current now rid nid) \<in>
     (let db1 = fst (live_answer db (\<lambda>_ d. d) session suite_id (candidate_runs db session suite_id target) now)
      in {db, db1} \<union> {d. \<exists>row. insert_qualification db1 row = Inr d})"
proof -
  let ?runs = "candidate_runs db session suite_id target"
  let ?sel = "rev (take REQUIRED_CONSECUTIVE_GREENS ?runs)"
  obtain db1 a where l: "live_answer db (\<lambda>_ d. d) session suite_id ?runs now = (db1, a)" by fastforce
  obtain h where h: "harvest_runs E (\<lambda>_ d. d) 3 db1 session ?sel = (db1, h)"
    using harvest_runs_alone [of E 3 db1 session ?sel] by (metis prod.collapse)
  have p: "fst (persist_certificate E db1 (\<lambda>d. d) (\<lambda>d. d) t s n e hs now rid nid)
     \<in> {db, db1} \<union> {d. \<exists>row. insert_qualification db1 row = Inr d}" for t s n e hs
    using persist_state [of E db1 "\<lambda>d. d" "\<lambda>d. d" t s n e hs now rid nid] by blast
  have t: "tenant_scope session = Inr t \<longleftrightarrow> t = session \<and> nonblank session" for t
    by (auto simp: tenant_scope_def)
  show ?thesis
    unfolding issue_from_history_def Let_def
    using p by (auto simp: l h t split: option.split sum.split if_split prod.split)
qed

lemma latest_by_Some:
  assumes "latest_by key rows = Some q"
  shows "q \<in> set rows" and "\<forall>p \<in> set rows. key p \<le> key q"
proof -
  obtain rest where r: "rev (sort_key key rows) = q # rest"
    using assms by (auto simp: latest_by_def split: list.splits)
  then have "set rows = set (q # rest)" by (metis set_rev set_sort)
  moreover have "sorted_wrt (\<ge>) (map key (q # rest))"
    using sorted_sort_key [of key rows] by (simp only: r [symmetric] sorted_wrt_rev rev_map [symmetric])
  ultimately show "q \<in> set rows" and "\<forall>p \<in> set rows. key p \<le> key q" by auto
qed

lemma live_equivalent_Some:
  "live_equivalent db tenant suite_id ver target = Some q \<Longrightarrow>
     q \<in> set (qd_quals db) \<and> qualifying_row tenant suite_id ver target q"
  unfolding live_equivalent_def by (drule latest_by_Some(1)) simp

text \<open>Live by its state and expired by the clock.\<close>

definition lapsed :: "py_datetime \<Rightarrow> EvalQualification \<Rightarrow> bool" where
  "lapsed now q \<longleftrightarrow> eq_state q \<in> QUALIFYING_STATES \<and> (case eq_expires_at q of None \<Rightarrow> False | Some t \<Rightarrow> dt_le t now = Some True)"

lemma live_answer_alone:
  assumes "distinct (map row_id (qd_quals db))"
  shows "\<exists>hit. fst (live_answer db (\<lambda>_ d. d) session suite_id runs now) = db\<lparr>qd_quals := map (release hit now) (qd_quals db)\<rparr>
    \<and> (\<forall>q \<in> set (qd_quals db). hit q \<longrightarrow> lapsed now q)"
proof -
  have same: "map (release (\<lambda>q. False) now) qs = qs" for qs by (induction qs) (simp_all add: release_def)
  have keep: "\<exists>hit. db = db\<lparr>qd_quals := map (release hit now) (qd_quals db)\<rparr> \<and> (\<forall>q \<in> set (qd_quals db). hit q \<longrightarrow> lapsed now q)"
    by (rule exI [of _ "\<lambda>q. False"]) (simp add: same)
  have "\<exists>hit. db' = db\<lparr>qd_quals := map (release hit now) (qd_quals db)\<rparr> \<and> (\<forall>q \<in> set (qd_quals db). hit q \<longrightarrow> lapsed now q)"
    if "live_equivalent db session suite_id ver tgt = Some row" "expire_lapsed db row now = Inr (db', b)" for db' b row ver tgt
  proof -
    have row: "row \<in> set (qd_quals db)" using live_equivalent_Some [OF that(1)] by blast
    from expire_lapsed_Inr [OF that(2)] keep show ?thesis
    proof (elim disjE exE conjE)
      fix t assume t: "eq_expires_at row = Some t" "dt_le t now = Some True"
        and d: "db' = db\<lparr>qd_quals := map (release (\<lambda>q. row_id q = row_id row \<and> tenant_id q = tenant_id row
          \<and> eq_state q \<in> QUALIFYING_STATES) now) (qd_quals db)\<rparr>"
      have "lapsed now q" if "q \<in> set (qd_quals db)" "row_id q = row_id row" "eq_state q \<in> QUALIFYING_STATES" for q
      proof -
        have "q = row" using assms row that(1,2) by (meson distinct_map inj_onD)
        then show ?thesis using that(3) t by (simp add: lapsed_def)
      qed
      then show ?thesis using d by blast
    qed auto
  qed
  with keep show ?thesis
    by (auto simp: live_answer_def Let_def split: list.split option.split sum.split bool.split)
qed

section \<open>Reading a certificate back\<close>

lemma map_of_canon:
  assumes "distinct (map fst kvs)" and "json_canon (JObj kvs) = JObj cs"
  shows "map_of cs k = map_option json_canon (map_of kvs k)"
proof -
  let ?c = "map (\<lambda>(k, v). (k, json_canon v)) kvs"
  have keys: "map fst ?c = map fst kvs" by (induction kvs) auto
  have d: "distinct (map fst ?c)" unfolding keys by (rule assms(1))
  have "cs = sort_key fst ?c" using assms(2) by simp
  moreover have "distinct (map fst (sort_key fst ?c))"
    using d unfolding distinct_map set_sort distinct_sort .
  ultimately have "map_of cs = map_of ?c" by (metis d map_of_inject_set set_sort)
  then show ?thesis by (simp add: map_of_map)
qed

lemma version_dict_canon:
  "\<exists>vs'. version_dict (json_canon (JObj (map (\<lambda>(k, v). (k, JStr v)) vs))) = Some vs'"
  by (auto simp: version_dict_def list_all_iff)

lemma exam_from_certificate:
  assumes "distinct (map fst kvs)"
    and "eq_aggregate_metrics q = json_canon (JObj (dict_set ''qualification_exam'' (exam_to_dict (py E) exam) kvs))"
    and "nonblank (ex_suite_id exam)" and "nonblank (ex_suite_version exam)"
  shows "\<exists>exam'. exam_from_metrics E q = Inr exam'"
proof -
  obtain ms where ms: "json_canon (JObj (dict_set ''qualification_exam'' (exam_to_dict (py E) exam) kvs)) = JObj ms" by simp
  have "map_of ms ''qualification_exam'' = Some (json_canon (exam_to_dict (py E) exam))"
    using map_of_canon [OF _ ms, of "''qualification_exam''"] assms(1) by (simp add: distinct_dict_set map_of_dict_set)
  moreover obtain raw where raw: "json_canon (exam_to_dict (py E) exam) = JObj raw" by (simp add: exam_to_dict_def)
  ultimately have x: "map_of ms ''qualification_exam'' = Some (JObj raw)" by simp
  have r: "map_of raw k = map_option json_canon (map_of (exam_fields exam @ [(''exam_digest'', JStr (exam_digest (py E) exam))]) k)" for k
    using raw unfolding exam_to_dict_def by (rule map_of_canon [rotated]) (simp add: exam_fields_def)
  obtain g where g: "version_dict (json_canon (JObj (map (\<lambda>(k, v). (k, JStr v)) (ex_grader_versions exam)))) = Some g"
    using version_dict_canon by blast
  obtain b where b: "version_dict (json_canon (JObj (map (\<lambda>(k, v). (k, JStr v)) (ex_rubric_versions exam)))) = Some b"
    using version_dict_canon by blast
  have "map_of raw ''suite_id'' = Some (JStr (ex_suite_id exam))"
    "map_of raw ''suite_version'' = Some (JStr (ex_suite_version exam))"
    "version_dict (Suite_Package.get_or raw ''grader_versions'' (JObj [])) = Some g"
    "version_dict (Suite_Package.get_or raw ''rubric_versions'' (JObj [])) = Some b"
    "Suite_Package.get_or raw ''thresholds'' (JObj []) = json_canon (JObj (ex_thresholds exam))"
    "Suite_Package.get_or raw ''attempt_policy_digest'' (JStr []) = JStr (ex_attempt_policy_digest exam)"
    using g b by (simp_all add: Suite_Package.get_or_def r exam_fields_def)
  moreover have "eq_aggregate_metrics q = JObj ms" unfolding assms(2) by (rule ms)
  ultimately show ?thesis using assms(3,4) x
    by (simp add: exam_from_metrics_def exam_of_def ExamIdentity_check_def)
qed

lemma py_upper_not_valid: "py_upper (QualificationState_value st) \<noteq> ''VALID''"
  by (cases st; simp only: QualificationState_value.simps; code_simp)

lemma certificate_row_Some:
  assumes "certificate_row db tenant suite_id ver target = Some q"
  shows "q \<in> set (qd_quals db)" and "tenant_id q = tenant" and "eq_suite_id q = suite_id"
    and "\<forall>p \<in> set (qd_quals db). tenant_id p = tenant \<and> eq_suite_id p = suite_id \<longrightarrow>
      (eq_suite_version p = ver, eq_target_fingerprint p = target, instant (eq_created_at p), row_id p)
        \<le> (eq_suite_version q = ver, eq_target_fingerprint q = target, instant (eq_created_at q), row_id q)"
  using latest_by_Some [OF assms [unfolded certificate_row_def]] by auto

lemma check_qualification_Inr:
  assumes "check_qualification E repo db session suite_id ver target current now = Inr c" and "ck_verdict c = ''VALID''"
  obtains q exam where "certificate_row db session suite_id ver target = Some q"
    "eq_state q \<in> QUALIFYING_STATES" "exam_from_metrics E q = Inr exam"
    "check_live E repo suite_id ver target current now q exam = Inr ''VALID''"
    "ck_qualification_id c = Some (row_id q)"
proof -
  have t: "tenant_scope session = Inr t \<longleftrightarrow> t = session \<and> nonblank session" for t by (auto simp: tenant_scope_def)
  from assms(1) have c: "(case certificate_row db session suite_id ver target of
             None \<Rightarrow> Inr \<lparr>ck_verdict = ''ABSENT'', ck_qualification_id = None, ck_run_id = None, ck_suite_id = suite_id,
                 ck_suite_version = [], ck_requested_suite_version = ver, ck_qualification_target = [],
                 ck_requested_target = target, ck_state = None, ck_scope = (if current = None then ''fingerprint-only'' else ''full'')\<rparr>
           | Some q \<Rightarrow>
               if eq_state q \<notin> QUALIFYING_STATES
               then Inr (check_result (py_upper (QualificationState_value (eq_state q))) q ver target (if current = None then ''fingerprint-only'' else ''full''))
               else (case exam_from_metrics E q of
                   Inl _ \<Rightarrow> Inr (check_result ''ERROR'' q ver target (if current = None then ''fingerprint-only'' else ''full''))
                 | Inr exam \<Rightarrow>
                     res_bind (check_live E repo suite_id ver target current now q exam) (\<lambda>verdict.
                       Inr (check_result verdict q ver target (if current = None then ''fingerprint-only'' else ''full''))))) = Inr c"
    by (auto simp: check_qualification_def Let_def res_bind_Inr_iff t guard_Inr)
  show thesis
  proof (cases "certificate_row db session suite_id ver target")
    case (Some q)
    with c assms(2) py_upper_not_valid show thesis
      by (cases "exam_from_metrics E q")
        (auto simp: check_result_def res_bind_Inr_iff split: if_split_asm intro: that [OF Some])
  qed (use c assms(2) in auto)
qed

lemma check_live_valid:
  assumes "check_live E repo suite_id ver target current now q exam = Inr ''VALID''"
  shows "eq_suite_version q = ver" and "eq_target_fingerprint q = target"
    and "\<exists>t. eq_expires_at q = Some t \<and> dt_le t now = Some False"
    and "\<forall>text. current = Some text \<longrightarrow> (\<exists>pk x. exam_identity_from_suite E repo text = Inr (pk, x)
      \<and> es_suite_id (pk_suite pk) = suite_id \<and> show_int (es_suite_version (pk_suite pk)) = ver
      \<and> exam_digest (py E) x = exam_digest (py E) exam)"
proof -
  obtain x st where x: "(case current of
         None \<Rightarrow> Inr exam
       | Some text \<Rightarrow> res_bind (exam_identity_from_suite E repo text) (\<lambda>(pk, x).
           if es_suite_id (pk_suite pk) \<noteq> suite_id \<or> show_int (es_suite_version (pk_suite pk)) \<noteq> ver
           then Inl (QualificationStoreError ''current suite identity does not match the requested suite and version'')
           else Inr x)) = Inr x"
    and s: "eq_suite_version q = ver" "staleness E q exam target x now = Inr st" "st \<in> QUALIFYING_STATES"
    using assms py_upper_not_valid by (auto simp: check_live_def res_bind_Inr_iff split: if_split_asm)
  have st: "st \<noteq> STALE" "st \<noteq> EXPIRED" using s(3) by (auto simp: QUALIFYING_STATES_def)
  show "eq_suite_version q = ver" by (rule s)
  have d: "eq_target_fingerprint q = target \<and> exam_digest (py E) x = exam_digest (py E) exam
      \<and> (\<exists>t. eq_expires_at q = Some t \<and> dt_le t now = Some False)"
    using s(2) st by (auto simp: staleness_def split: if_split_asm option.split_asm bool.split_asm)
  then show "eq_target_fingerprint q = target" "\<exists>t. eq_expires_at q = Some t \<and> dt_le t now = Some False" by auto
  show "\<forall>text. current = Some text \<longrightarrow> (\<exists>pk x. exam_identity_from_suite E repo text = Inr (pk, x)
      \<and> es_suite_id (pk_suite pk) = suite_id \<and> show_int (es_suite_version (pk_suite pk)) = ver
      \<and> exam_digest (py E) x = exam_digest (py E) exam)"
    using x d by (auto simp: res_bind_Inr_iff split: if_split_asm)
qed

lemma latest_by_None: "latest_by key rows = None \<longleftrightarrow> rows = []"
proof -
  have "rev (sort_key key rows) = [] \<longleftrightarrow> rows = []" by (metis length_0_conv length_rev length_sort)
  then show ?thesis by (auto simp: latest_by_def split: list.splits)
qed

lemma upper_expired: "py_upper ''expired'' = ''EXPIRED''"
  by code_simp

lemma issued_row_is_latest:
  assumes "insert_qualification d row = Inr db'" and "row_id row = nid" and "instant (eq_created_at row) = t"
    and "\<forall>q \<in> set (qd_quals db'). row_id q \<noteq> nid \<longrightarrow> instant (eq_created_at q) < t"
  shows "certificate_row db' (tenant_id row) (eq_suite_id row) (eq_suite_version row) (eq_target_fingerprint row) = Some row"
proof -
  have quals: "qd_quals db' = qd_quals d @ [row]" and fresh: "\<forall>p \<in> set (qd_quals d). row_id p \<noteq> row_id row"
    using assms(1) by (auto simp: insert_qualification_def guard_Inr list_ex_iff)
  have mem: "row \<in> set (qd_quals db')" by (simp add: quals)
  obtain q where q: "certificate_row db' (tenant_id row) (eq_suite_id row) (eq_suite_version row) (eq_target_fingerprint row) = Some q"
  proof (cases "certificate_row db' (tenant_id row) (eq_suite_id row) (eq_suite_version row) (eq_target_fingerprint row)")
    case None
    then have "filter (\<lambda>q. tenant_id q = tenant_id row \<and> eq_suite_id q = eq_suite_id row) (qd_quals db') = []"
      by (simp only: certificate_row_def latest_by_None)
    then show thesis using mem by (auto simp: filter_empty_conv)
  qed blast
  have "row_id q = nid"
  proof (rule ccontr)
    assume "row_id q \<noteq> nid"
    then have "instant (eq_created_at q) < t" using assms(4) certificate_row_Some(1) [OF q] by blast
    then show False using bspec [OF certificate_row_Some(4) [OF q] mem] assms(2,3) by auto
  qed
  then have "q = row" using certificate_row_Some(1) [OF q] fresh assms(2) by (auto simp: quals)
  then show ?thesis using q by simp
qed

text \<open>The check of a certificate just inserted.\<close>

lemma certificate_checks:
  assumes ins: "insert_qualification d row = Inr db'" and c: "certificate_of E session newest exam (Aware t) nid row"
    and nb: "nonblank session" "nonblank (er_suite_id newest)" "nonblank (er_suite_version newest)"
      "nonblank (ex_suite_id exam)" "nonblank (ex_suite_version exam)"
    and latest: "\<forall>q \<in> set (qd_quals db'). row_id q \<noteq> nid \<longrightarrow> instant (eq_created_at q) < t"
  shows "\<exists>c. check_qualification E repo db' session (er_suite_id newest) (er_suite_version newest)
      (er_target_fingerprint newest) None (Aware u) = Inr c
    \<and> ck_qualification_id c = Some nid
    \<and> ck_verdict c = (if u < t + QUALIFICATION_VALIDITY then ''VALID'' else ''EXPIRED'')"
proof -
  have row: "row_id row = nid" "tenant_id row = session" "eq_suite_id row = er_suite_id newest"
    "eq_suite_version row = er_suite_version newest" "eq_target_fingerprint row = er_target_fingerprint newest"
    "eq_state row = ADVISORY_QUALIFIED" "eq_created_at row = Aware t"
    "eq_expires_at row = Some (Aware (t + QUALIFICATION_VALIDITY))"
    using c by (auto simp: certificate_of_def)
  have sel: "certificate_row db' session (er_suite_id newest) (er_suite_version newest) (er_target_fingerprint newest) = Some row"
    using issued_row_is_latest [OF ins row(1) _ latest] row by simp
  obtain exam' where exam': "exam_from_metrics E row = Inr exam'"
    using c exam_from_certificate nb(4,5) unfolding certificate_of_def by blast
  have "is_hex64 (er_target_fingerprint newest)"
    using ins row(5) by (auto simp: insert_qualification_def guard_Inr ddl_qualification_identity_def)
  then have "staleness E row exam' (er_target_fingerprint newest) exam' (Aware u)
      = Inr (if u < t + QUALIFICATION_VALIDITY then ADVISORY_QUALIFIED else EXPIRED)"
    using row by (simp add: staleness_def)
  then have "check_live E repo (er_suite_id newest) (er_suite_version newest) (er_target_fingerprint newest) None (Aware u) row exam'
      = Inr (if u < t + QUALIFICATION_VALIDITY then ''VALID'' else ''EXPIRED'')"
    using row by (simp add: check_live_def QUALIFYING_STATES_def upper_expired)
  then show ?thesis
    using sel exam' nb row(1,6)
    by (simp add: check_qualification_def tenant_scope_def QUALIFYING_STATES_def check_result_def)
qed

section \<open>When issuing succeeds\<close>

text \<open>What the functions of the environment promise: digests are 64 hex digits, an identifier's text is not blank.\<close>

definition sound_env :: "('a store_env_scheme) \<Rightarrow> bool" where
  "sound_env E \<longleftrightarrow> (\<forall>s. is_hex64 (sha256 E s)) \<and> (\<forall>i. nonblank (uuid_str E i))"

lemma sound_env_digest: "sound_env E \<Longrightarrow> is_hex64 (sha256_hex (py E) j)"
  "sound_env E \<Longrightarrow> is_hex64 (exam_digest (py E) x)" "sound_env E \<Longrightarrow> is_hex64 (compute_receipt (py E) q)"
  by (simp_all add: sound_env_def sha256_hex_def exam_digest_def compute_receipt_def py_env.truncate_def)

lemma apply_no_waivers:
  assumes "sha256_re_match target" and "is_aware now"
  shows "\<exists>app. apply_waivers fs [] target now release_id = Inr app"
proof -
  have "\<exists>s'. apply_loop target now release_id [] fs s = Inr s'" for s by (induction fs arbitrary: s) simp_all
  then obtain s' where "apply_loop target now release_id [] fs \<lparr>wl_remaining = [], wl_applied = [],
      wl_unused = dict_of [], wl_reasons = []\<rparr> = Inr s'" by blast
  then show ?thesis using assms by (simp add: apply_waivers_def require_fingerprint_def require_aware_def)
qed

lemma issue_succeeds:
  assumes "sound_env E" and "sha256_re_match (er_target_fingerprint newest)"
    and "nonblank (ao_subject_family out)" and "ao_subject_family out \<noteq> ''qualification-control''"
  shows "\<exists>q. issue_qualification (py E) (issue_args (uuid_str E rid) newest exam out (Aware t)) = Inr q
    \<and> is_hex64 (ql_receipt_sha256 q)"
proof -
  let ?rq = "issue_args (uuid_str E rid) newest exam out (Aware t)"
  obtain app where app: "apply_waivers (ao_findings (iq_outcome ?rq)) (iq_waivers ?rq) (iq_target_fingerprint ?rq)
      (iq_issued_at ?rq) (iq_release_id ?rq) = Inr app"
    using apply_no_waivers [OF assms(2), of "Aware t"] by (auto simp: issue_args_def)
  let ?d = "draft_qualification (py E) ?rq app"
  have ok: "Qualification_check (?d\<lparr>ql_receipt_sha256 := h\<rparr>) = Inr (?d\<lparr>ql_receipt_sha256 := h\<rparr>)" for h
    using assms sound_env_digest(2) [OF assms(1)]
    by (simp add: Qualification_check_def draft_qualification_def Let_def issue_args_def QUALIFICATION_VALIDITY_def
        sound_env_def py_space_def)
  have "?d\<lparr>ql_receipt_sha256 := []\<rparr> = ?d" by (simp add: draft_qualification_def Let_def)
  then have "Qualification_check ?d = Inr ?d" using ok [of "[]"] by simp
  then show ?thesis using app ok sound_env_digest(3) [OF assms(1)] by (simp add: issue_qualification_def)
qed

lemma advisory_row:
  assumes "issue_qualification E rq = Inr q" and "nonblank tenant" and "sha256_re_match snapshot"
    and "ql_state q = ADVISORY_QUALIFIED"
    and "domain_counters_of (ao_case_results (iq_outcome rq)) = \<lparr>dc_critical_failure_count = 0, dc_error_count = 0,
      dc_inconclusive_count = 0, dc_forbidden_effect_count = 0\<rparr>"
  shows "\<exists>row. to_domain_qualification E q i tenant run snapshot ref None = Inr row \<and> ddl_qualification_checks row"
proof -
  let ?row = "domain_qualification E q i tenant run snapshot ref None"
  have agg: "ql_aggregate q = iq_outcome rq" using assms(1) by (rule issue_qualification_Inr) simp
  have row: "eq_state ?row = PENDING" "eq_critical_failure_count ?row = 0" "eq_error_count ?row = 0"
    "eq_forbidden_effect_count ?row = 0" "eq_inconclusive_count ?row = 0" "eq_invalidated_at ?row = None"
    "eq_invalidation_reason ?row = []"
    using assms(5) by (simp_all add: domain_qualification_def Let_def agg)
  have tenant: "require_tenant tenant = Inr ()" using assms(2) by (simp add: require_tenant_def py_simps)
  have "to_domain_qualification E q i tenant run snapshot ref None
      = Inr (?row\<lparr>eq_state := ADVISORY_QUALIFIED, eq_decided_at := Some (ql_issued_at q)\<rparr>)"
    using assms(2-4) tenant transition_from_pending [OF row(1), of ADVISORY_QUALIFIED] row
    by (simp add: to_domain_qualification_def require_fingerprint_def persist_error_def)
  moreover have "\<not> btrim_nonempty []" by (simp add: btrim_nonempty_def)
  ultimately show ?thesis using row by (auto simp: ddl_qualification_checks_def)
qed

lemma graded_by_same:
  "a \<in> set (qd_attempts d) \<Longrightarrow> of_run tenant run a \<Longrightarrow> graded_by d tenant run a = {g \<in> set (qd_graders d). grades g a}"
  by (auto simp: graded_by_def)

lemma green_run_supports:
  assumes "green_run d d tenant run" and "tenant_id q = tenant" and "eq_run_id q = row_id run"
  shows "evidence_supports d q"
proof -
  let ?counted = "filter (\<lambda>a. ea_run_id a = eq_run_id q \<and> tenant_id a = tenant_id q \<and> ea_counted_in_aggregate a) (qd_attempts d)"
  have ne: "?counted \<noteq> []"
    using assms by (auto simp: green_run_def of_run_def filter_empty_conv)
  have ok: "ea_result a = PASS" "ea_forbidden_effect_attempts a \<le> 0"
    "\<forall>g \<in> set (qd_graders d). grades g a \<longrightarrow> blocking_row g \<longrightarrow> gr_result g = PASS"
    if "a \<in> set ?counted" for a
  proof -
    have a: "a \<in> set (qd_attempts d)" "of_run tenant run a" "ea_counted_in_aggregate a"
      using that assms(2,3) by (simp_all add: of_run_def)
    then show "ea_result a = PASS" "ea_forbidden_effect_attempts a \<le> 0"
      "\<forall>g \<in> set (qd_graders d). grades g a \<longrightarrow> blocking_row g \<longrightarrow> gr_result g = PASS"
      using assms(1) by (simp_all add: green_run_def graded_by_same)
  qed
  have "gr_criticality g \<noteq> CRITICAL \<or> gr_result g \<notin> {FAIL, ERROR}"
    if "g \<in> set (qd_graders d)" "a \<in> set ?counted" "row_id a = gr_attempt_id g" "tenant_id a = tenant_id g" for g a
    using ok(3) [OF that(2)] that(1,3,4) by (auto simp: grades_def blocking_row_def)
  moreover have "\<not> (ea_result a = ERROR \<or> 0 < ea_forbidden_effect_attempts a)" if "a \<in> set ?counted" for a
    using ok(1,2) [OF that] by simp
  ultimately show ?thesis using ne unfolding evidence_supports_def Let_def list_ex_iff by blast
qed

lemma harvest_ignores_certificates [simp]:
  "harvest_outcome E (da\<lparr>qd_quals := qs\<rparr>) (dg\<lparr>qd_quals := qs'\<rparr>) tenant run = harvest_outcome E da dg tenant run"
proof -
  have a: "run_attempts E (db\<lparr>qd_quals := qs\<rparr>) tenant i = run_attempts E db tenant i" for i db qs
    by (simp add: run_attempts_def)
  have g: "run_grader_rows E (db\<lparr>qd_quals := qs\<rparr>) tenant i = run_grader_rows E db tenant i" for i db qs
    by (simp add: run_grader_rows_def)
  have "counted_attempts E (db\<lparr>qd_quals := qs\<rparr>) tenant i = counted_attempts E db tenant i" for i db qs
    by (simp add: counted_attempts_def a)
  then show ?thesis by (simp only: harvest_outcome_def counted_graders_def a g)
qed

lemma live_answer_clears:
  assumes "table_ok (qd_quals db)"
    and "\<forall>q \<in> set (qd_quals db). qualifying_row session suite_id (er_suite_version newest) (er_target_fingerprint newest) q
      \<longrightarrow> lapsed now q"
  shows "\<exists>hit. live_answer db (\<lambda>_ d. d) session suite_id (newest # rest) now
        = (db\<lparr>qd_quals := map (release hit now) (qd_quals db)\<rparr>, Inr None)
    \<and> (\<forall>q \<in> set (qd_quals db).
         \<not> qualifying_row session suite_id (er_suite_version newest) (er_target_fingerprint newest) (release hit now q))"
proof (cases "live_equivalent db session suite_id (er_suite_version newest) (er_target_fingerprint newest)")
  case None
  then have "\<forall>q \<in> set (qd_quals db). \<not> qualifying_row session suite_id (er_suite_version newest) (er_target_fingerprint newest) q"
    by (simp add: live_equivalent_def latest_by_None filter_empty_conv)
  moreover have "map (release (\<lambda>q. False) now) qs = qs" for qs by (induction qs) (simp_all add: release_def)
  ultimately show ?thesis using None
    by (intro exI [of _ "\<lambda>q. False"]) (simp add: live_answer_def release_def)
next
  case (Some old)
  let ?hit = "\<lambda>q. row_id q = row_id old \<and> tenant_id q = tenant_id old \<and> eq_state q \<in> QUALIFYING_STATES"
  have old: "old \<in> set (qd_quals db)"
    and oldq: "qualifying_row session suite_id (er_suite_version newest) (er_target_fingerprint newest) old"
    using live_equivalent_Some [OF Some] by blast+
  then have "lapsed now old" using assms(2) by blast
  then obtain t where t: "eq_expires_at old = Some t" "dt_le t now = Some True"
    by (auto simp: lapsed_def split: option.splits)
  have ids: "distinct (map row_id (qd_quals db))" using assms(1) by (simp add: table_ok_def)
  have uniq: "q = old" if "q \<in> set (qd_quals db)" "row_id q = row_id old" for q
    using ids old that by (meson distinct_map inj_onD)
  have "distinct (qd_quals db)" using ids by (simp add: distinct_map)
  moreover have "{q. ?hit q} \<inter> set (qd_quals db) = {old}"
    using old oldq uniq by (auto simp: qualifying_row_def)
  ultimately have "length (filter ?hit (qd_quals db)) = 1" by (simp add: distinct_length_filter)
  then have "expire_lapsed db old now = Inr (db\<lparr>qd_quals := map (release ?hit now) (qd_quals db)\<rparr>, True)"
    using t by (simp add: expire_lapsed_def release_def [abs_def] Let_def)
  then have live: "live_answer db (\<lambda>_ d. d) session suite_id (newest # rest) now
      = (db\<lparr>qd_quals := map (release ?hit now) (qd_quals db)\<rparr>, Inr None)"
    using Some by (simp add: live_answer_def)
  have "\<not> qualifying_row session suite_id (er_suite_version newest) (er_target_fingerprint newest) (release ?hit now q)"
    if "q \<in> set (qd_quals db)" for q
  proof
    assume a: "qualifying_row session suite_id (er_suite_version newest) (er_target_fingerprint newest) (release ?hit now q)"
    then have "eq_state (release ?hit now q) \<in> QUALIFYING_STATES" by (simp only: qualifying_row_def)
    then have st: "eq_state q \<in> QUALIFYING_STATES" "\<not> ?hit q" unfolding release_same(5) by blast+
    have "release ?hit now q = q" unfolding release_def by (rule if_not_P [OF st(2)])
    then have "slot q = slot old" using a oldq by (simp add: qualifying_row_def slot_def)
    moreover have "inj_on slot {q \<in> set (qd_quals db). eq_state q \<in> QUALIFYING_STATES}"
      using assms(1) unfolding table_ok_def distinct_map set_filter by blast
    moreover have "eq_state old \<in> QUALIFYING_STATES" using oldq by (simp add: qualifying_row_def)
    ultimately have "q = old" using that st(1) old by (auto dest: inj_onD)
    then show False using st oldq by (simp add: qualifying_row_def)
  qed
  with live show ?thesis by blast
qed

lemma persist_succeeds:
  assumes "sound_env E" and "nonblank session" and "nonblank suite_id"
    and h: "harvest_outcome E d d session newest = Inr (out, x, snap)" and l: "last hs = (out, x, snap)"
    and f: "is_hex64 (er_target_fingerprint newest)" "nonblank (ao_subject_family out)"
      "ao_subject_family out \<noteq> ''qualification-control''"
    and run: "newest \<in> set (qd_runs d)" "tenant_id newest = session" "er_suite_id newest = suite_id"
    and fresh: "\<forall>q \<in> set (qd_quals d). row_id q \<noteq> nid \<and> \<not> (tenant_id q = session \<and> eq_run_id q = row_id newest)
       \<and> \<not> qualifying_row session suite_id (er_suite_version newest) (er_target_fingerprint newest) q"
  shows "\<exists>db' r. persist_certificate E d (\<lambda>d. d) (\<lambda>d. d) session suite_id newest exam hs (Aware t) rid nid = (db', Inr r)
    \<and> ir_status r = ISSUED"
proof -
  let ?out = "with_metric ''qualification_exam'' (exam_to_dict (py E) exam) out"
  have keep: "ao_subject_family ?out = ao_subject_family out" "ao_case_results ?out = ao_case_results out"
    "ao_requires_human_review ?out = ao_requires_human_review out"
    by (simp_all add: with_metric_def)
  obtain q where q: "issue_qualification (py E) (issue_args (uuid_str E rid) newest exam ?out (Aware t)) = Inr q"
    and rc: "is_hex64 (ql_receipt_sha256 q)"
    using issue_succeeds [OF assms(1), of newest ?out rid exam t] f by (auto simp: keep)
  let ?rq = "issue_args (uuid_str E rid) newest exam ?out (Aware t)"
  have args: "iq_outcome ?rq = ?out" by (simp add: issue_args_def)
  have st: "ql_state q = ADVISORY_QUALIFIED"
    using advisory_issue_qualifies [OF q] harvest_clean(1,2) [OF h] by (simp add: issue_args_def keep)
  let ?snap = "sha256_hex (py E) (JObj [(''harvested_runs'', JList (map (\<lambda>(_, _, s). s) hs))])"
  let ?ref = "''eval-qualification://'' @ ql_qualification_id q"
  have hex: "is_hex64 ?snap" by (rule sound_env_digest(1) [OF assms(1)])
  obtain row where row: "to_domain_qualification (py E) q nid session (row_id newest) ?snap ?ref None = Inr row"
    and checks: "ddl_qualification_checks row"
    using advisory_row [OF q assms(2) is_hex64_imp_re_match [OF hex] st, of nid "row_id newest" ?ref]
      harvest_clean(1) [OF h] by (auto simp: args keep)
  have c: "certificate_of E session newest exam (Aware t) nid row"
    by (rule certificate_row_of_issue [OF q row h])
  note shape = to_domain_row [OF row]
  have "ql_reviewer_identity q = iq_reviewer_identity ?rq" "ql_aggregate q = ?out"
    using q by (rule issue_qualification_Inr, simp add: args)+
  moreover have "ql_subject_family q = ao_subject_family out \<and> ql_reviewer_family q = ''qualification-control''
      \<and> ql_target_fingerprint q = er_target_fingerprint newest"
    using q by (auto simp: issue_qualification_def res_bind_Inr_iff draft_qualification_def Let_def issue_args_def keep
        dest!: Qualification_check_same)
  ultimately have "ddl_qualification_identity row"
    using assms(2,3) f rc hex run harvest_clean(4,5,7) [OF h] st
    by (auto simp: ddl_qualification_identity_def shape QUALIFYING_STATES_def domain_qualification_def Let_def issue_args_def
        text_or_null_def with_metric_def intro: nonblank_btrim)
  moreover have "evidence_supports d row"
    using green_run_supports [OF harvest_green [OF h]] c by (simp add: certificate_of_def)
  moreover have "\<not> list_ex (\<lambda>p. row_id p = row_id row \<or> (tenant_id p = tenant_id row \<and> eq_run_id p = eq_run_id row) \<or> same_slot p row) (qd_quals d)"
    using fresh c run by (auto simp: list_ex_iff certificate_of_def same_slot_def qualifying_row_def)
  moreover have "list_ex (\<lambda>r. row_id r = eq_run_id row \<and> tenant_id r = tenant_id row) (qd_runs d)"
    using run c by (auto simp: list_ex_iff certificate_of_def)
  ultimately have "\<exists>db'. insert_qualification d row = Inr db'" using checks by (simp add: insert_qualification_def)
  then show ?thesis using q row st l by (auto simp: persist_certificate_def Let_def QUALIFYING_STATES_def)
qed

end
