(* ===== verification/Store_Properties.thy ===== *)
theory Store_Properties
  imports Store_Checks
begin

text \<open>
  What a certificate issued from run history means: the green runs behind it, as the statements of the
  call saw them, that a session alone rewrites no certificate, that two green runs do get one, and the
  verdicts of the read-only check; with a small database as their concrete instance.
\<close>

section \<open>A database\<close>

definition hex_a :: string where
  "hex_a = replicate 64 (CHR ''a'')"

definition sample_store_env :: store_env where
  "sample_store_env = package_env.extend (holdout_env.extend (sample_holdout_env\<lparr>sha256 := \<lambda>_. hex_a, uuid_str := \<lambda>_. ''u''\<rparr>)
     \<lparr>os_read_bytes = (\<lambda>_. BytesMissing), date_of = (\<lambda>_. None)\<rparr>)
     \<lparr>collate = (\<lambda>s. s), str_of = (\<lambda>_. []), suite_files = []\<rparr>"

text \<open>Two completed runs of the suite \<open>s\<close>, each with one counted attempt that one critical verdict passes.\<close>

definition green_sample :: "nat \<Rightarrow> int \<Rightarrow> EvalRun" where
  "green_sample i t = sample_run\<lparr>row_id := i, er_target_fingerprint := hex_a, er_state := Run_COMPLETED,
     er_created_at := Aware t, er_started_at := Some (Aware t), er_ended_at := Some (Aware (t + 5))\<rparr>"

definition passed_sample :: "nat \<Rightarrow> nat \<Rightarrow> EvalCaseAttempt" where
  "passed_sample i run = sample_attempt\<lparr>row_id := i, ea_run_id := run, ea_result := PASS,
     ea_counted_in_aggregate := True, ea_exclusion_reason := []\<rparr>"

definition verdict_sample :: "nat \<Rightarrow> nat \<Rightarrow> GraderRow" where
  "verdict_sample i attempt = sample_grader_row\<lparr>row_id := i, gr_attempt_id := attempt, gr_result := PASS,
     gr_evidence_ref := ''e'', gr_evidence_sha256 := Some hex_a\<rparr>"

definition sample_db :: qdb where
  "sample_db = \<lparr>qd_runs = [green_sample 3 0, green_sample 4 100], qd_attempts = [passed_sample 13 3, passed_sample 14 4],
     qd_graders = [verdict_sample 23 13, verdict_sample 24 14], qd_quals = []\<rparr>"

definition sample_exam :: ExamIdentity where
  "sample_exam = \<lparr>ex_suite_id = ''s'', ex_suite_version = ''1'', ex_grader_versions = [(''g'', ''1'')],
     ex_rubric_versions = [], ex_thresholds = [], ex_attempt_policy_digest = []\<rparr>"

definition sample_issue :: "qdb \<times> (store_error + IssuanceResult)" where
  "sample_issue = issue_from_history sample_store_env [''repo''] sample_db (\<lambda>_ d. d) ''t'' ''s'' None
     (Some (CurrentExam sample_exam)) (Aware 200) 7 9"

lemma sample_env_eval: "sha256_hex (py sample_store_env) j = hex_a" "exam_digest (py sample_store_env) x = hex_a"
  by (simp_all add: sha256_hex_def exam_digest_def sample_store_env_def py_env.truncate_def package_env.extend_def holdout_env.extend_def)

lemma sample_candidates: "candidate_runs sample_db ''t'' ''s'' None = [green_sample 4 100, green_sample 3 0]"
  by code_simp

lemma sample_streak: "streak_refusal ''s'' None [green_sample 4 100, green_sample 3 0] = None"
  by code_simp

lemma sample_rows:
  "counted_attempts sample_store_env sample_db ''t'' 3 = [passed_sample 13 3]"
  "counted_attempts sample_store_env sample_db ''t'' 4 = [passed_sample 14 4]"
  "counted_graders sample_store_env sample_db sample_db ''t'' 3 = [verdict_sample 23 13]"
  "counted_graders sample_store_env sample_db sample_db ''t'' 4 = [verdict_sample 24 14]"
  "run_attempts sample_store_env sample_db ''t'' 3 = [passed_sample 13 3]"
  "run_attempts sample_store_env sample_db ''t'' 4 = [passed_sample 14 4]"
  by code_simp+

text \<open>What a harvest makes of a run.\<close>

definition graded_sample :: GraderResult where
  "graded_sample = \<lparr>gv_grader_id = ''g'', gv_grader_version = ''1'', gv_kind = OUTCOME, gv_state = PASS,
     gv_reason = ''no data'', gv_criticality = CRITICAL, gv_evidence_ref = ''e'', gv_evidence_sha256 = hex_a,
     gv_error_detail = [], gv_grader_family = ''deterministic'', gv_judge_model_id = [], gv_rubric_id = [],
     gv_rubric_version = [], gv_rubric_sha256 = [], gv_adjudicator_identity = [], gv_adjudicator_family = [],
     gv_adjudicated_at = None\<rparr>"

definition harvested_attempt :: CaseAttemptResult where
  "harvested_attempt = \<lparr>ca_case_id = ''c'', ca_attempt_number = 1, ca_grader_results = [graded_sample],
     ca_forbidden_effect_attempted = False, ca_forbidden_effect_detail = [], ca_cost_usd = py_truediv 0 1000000, ca_latency_ms = 0\<rparr>"

definition harvested_case :: CaseResult where
  "harvested_case = \<lparr>cr_case_id = ''c'', cr_required = True, cr_criticality = CRITICAL,
     cr_policy = \<lparr>ap_attempts = 1, ap_aggregate_rule = ALL_MUST_PASS, ap_min_pass_rate = None,
       ap_sampling_config_digest = [], ap_infrastructure_retry_limit = 0\<rparr>, cr_attempts = [harvested_attempt]\<rparr>"

definition harvested_exam :: ExamIdentity where
  "harvested_exam = sample_exam\<lparr>ex_thresholds := [(''noncritical_pass_threshold'', JFloat 1)],
     ex_attempt_policy_digest := hex_a\<rparr>"

lemma sample_steps:
  "harvest_checks [passed_sample 13 3] [passed_sample 13 3] [verdict_sample 23 13] = Inr ()"
  "harvest_checks [passed_sample 14 4] [passed_sample 14 4] [verdict_sample 24 14] = Inr ()"
  "harvest_results [verdict_sample 23 13] = Inr [(13, graded_sample)]"
  "harvest_results [verdict_sample 24 14] = Inr [(14, graded_sample)]"
  "subject_family [verdict_sample 23 13] = Inr ''anthropic''" "subject_family [verdict_sample 24 14] = Inr ''anthropic''"
  "version_step ([], []) (verdict_sample 23 13) = Inr ([(''g'', ''1'')], [])"
  "version_step ([], []) (verdict_sample 24 14) = Inr ([(''g'', ''1'')], [])"
  "list_ex blocking_eligible (results_for [(13, graded_sample)] (row_id (passed_sample 13 3))) = True"
  "list_ex blocking_eligible (results_for [(14, graded_sample)] (row_id (passed_sample 14 4))) = True"
  by code_simp+

lemma sample_case_results: "case_results [harvested_attempt] = Inr [harvested_case]"
  by (simp add: case_results_def case_result_def AttemptPolicy_check_def CaseResult_check_def contract_def
      harvested_attempt_def harvested_case_def case_criticality_def graded_sample_def py_space_def)

lemma sample_attempts:
  "attempt_result [(13, graded_sample)] (passed_sample 13 3) = Inr harvested_attempt"
  "attempt_result [(14, graded_sample)] (passed_sample 14 4) = Inr harvested_attempt"
  by (simp_all add: attempt_result_def passed_sample_def sample_attempt_def results_for_def harvested_attempt_def
      CaseAttemptResult_check_def contract_def py_space_def)

lemma sample_aggregate:
  "\<exists>out. aggregate E [harvested_case] HARVEST_POLICY ''s'' ''1'' ''anthropic'' = Inr out \<and> ao_subject_family out = ''anthropic''"
  by (simp add: aggregate_def py_space_def)

lemma green_sample_fields: "row_id (green_sample i t) = i" "er_suite_id (green_sample i t) = ''s''"
  "er_suite_version (green_sample i t) = ''1''" "er_target_fingerprint (green_sample i t) = hex_a"
  by (simp_all add: green_sample_def sample_run_def)

lemma sample_harvest:
  assumes "i = 3 \<or> i = 4"
  shows "\<exists>out snap. harvest_outcome sample_store_env sample_db sample_db ''t'' (green_sample i t) = Inr (out, harvested_exam, snap)
    \<and> ao_subject_family out = ''anthropic''"
proof -
  obtain out where out: "aggregate (py sample_store_env) [harvested_case] HARVEST_POLICY ''s'' ''1'' ''anthropic'' = Inr out"
    "ao_subject_family out = ''anthropic''" using sample_aggregate by blast
  have exam: "exam_of \<lparr>ex_suite_id = ''s'', ex_suite_version = ''1'', ex_grader_versions = [(''g'', ''1'')], ex_rubric_versions = [],
      ex_thresholds = [(''noncritical_pass_threshold'', JFloat 1)], ex_attempt_policy_digest = hex_a\<rparr> = Inr harvested_exam"
    by (simp add: exam_of_def ExamIdentity_check_def harvested_exam_def sample_exam_def contract_def py_space_def)
  from assms show ?thesis
  proof
    assume i: "i = 3"
    then show ?thesis unfolding harvest_outcome_def Let_def
      using out exam by (simp add: i green_sample_fields sample_rows sample_steps sample_attempts sample_case_results sample_env_eval contract_def with_metric_def)
  next
    assume i: "i = 4"
    then show ?thesis unfolding harvest_outcome_def Let_def
      using out exam by (simp add: i green_sample_fields sample_rows sample_steps sample_attempts sample_case_results sample_env_eval contract_def with_metric_def)
  qed
qed

lemma sample_sound: "sound_env sample_store_env"
  by (simp add: sound_env_def sample_store_env_def hex_a_def is_hex64_replicate hex_digits_def
      package_env.extend_def holdout_env.extend_def sample_holdout_env_def py_space_def)

lemma sample_current: "current_exam sample_store_env repo ''s'' (green_sample 4 100) harvested_exam (CurrentExam sample_exam) = Inr sample_exam"
  by (simp add: current_exam_def sample_exam_def harvested_exam_def green_sample_fields same_dict_def)

lemma sample_db_runs: "green_sample 4 100 \<in> set (qd_runs sample_db)" "qd_quals sample_db = []"
  "tenant_id (green_sample i t) = ''t''"
  by (simp_all add: sample_db_def green_sample_def sample_run_def)

lemma sample_live: "live_answer sample_db (\<lambda>_ d. d) ''t'' ''s'' runs now = (sample_db, Inr None)"
  by (simp add: live_answer_def live_equivalent_def sample_db_runs latest_by_def split: list.split)

lemma sample_issued: "\<exists>db' r. sample_issue = (db', Inr r) \<and> ir_status r = ISSUED"
proof -
  obtain out1 snap1 where h1: "harvest_outcome sample_store_env sample_db sample_db ''t'' (green_sample 3 0) = Inr (out1, harvested_exam, snap1)"
    using sample_harvest [of 3 0] by auto
  obtain out2 snap2 where h2: "harvest_outcome sample_store_env sample_db sample_db ''t'' (green_sample 4 100) = Inr (out2, harvested_exam, snap2)"
    and f: "ao_subject_family out2 = ''anthropic''"
    using sample_harvest [of 4 100] by auto
  let ?hs = "[(out1, harvested_exam, snap1), (out2, harvested_exam, snap2)]"
  have "\<exists>db' r. persist_certificate sample_store_env sample_db (\<lambda>d. d) (\<lambda>d. d) ''t'' ''s'' (green_sample 4 100) sample_exam ?hs
      (Aware 200) 7 9 = (db', Inr r) \<and> ir_status r = ISSUED"
    by (rule persist_succeeds [OF sample_sound _ _ h2])
      (simp_all add: f green_sample_fields sample_db_runs py_space_def is_hex64_replicate hex_a_def hex_digits_def)
  then show ?thesis
    using h1 h2 sample_current
    by (simp add: sample_issue_def issue_from_history_def tenant_scope_def sample_candidates sample_streak sample_live
        Let_def REQUIRED_CONSECUTIVE_GREENS_def py_space_def)
qed


lemma sample_certificate:
  "\<exists>db' r row. sample_issue = (db', Inr r) \<and> ir_status r = ISSUED \<and> qd_quals db' = [row] \<and> row_id row = 9
     \<and> ir_suite_version r = ''1'' \<and> ir_target_fingerprint r = hex_a
     \<and> (\<exists>c. check_qualification sample_store_env [''repo''] db' ''t'' ''s'' ''1'' hex_a None (Aware 300) = Inr c
          \<and> ck_verdict c = ''VALID'')"
proof -
  obtain db' r where s: "sample_issue = (db', Inr r)" "ir_status r = ISSUED" using sample_issued by blast
  obtain db1 d1 d2 d3 d4 newest previous rest exam row where
    runs: "candidate_runs sample_db ''t'' ''s'' None = newest # previous # rest"
    and live: "live_answer sample_db (\<lambda>_ d. d) ''t'' ''s'' (newest # previous # rest) (Aware 200) = (db1, Inr None)"
    and "streak_refusal ''s'' None (newest # previous # rest) = None"
    and d: "d1 = db1" "d2 = d1" "d3 = d2" "d4 = d3"
    and "green_run d1 d2 ''t'' previous" "green_run d3 d4 ''t'' newest" and suite: "er_suite_id newest = ''s''"
    and ins: "insert_qualification d4 row = Inr db'"
    and row: "certificate_of sample_store_env ''t'' newest exam (Aware 200) 9 row"
    and r: "ir_qualification_id r = Some 9" "ir_suite_version r = er_suite_version newest"
      "ir_target_fingerprint r = er_target_fingerprint newest"
    and nb: "nonblank ''t''" "nonblank ''s''" "nonblank (er_suite_version newest)"
      "nonblank (ex_suite_id exam)" "nonblank (ex_suite_version exam)"
    using s(1) [unfolded sample_issue_def] s(2) by (rule issued_row)
  have newest: "newest = green_sample 4 100" and db1: "d4 = sample_db"
    using runs live d by (simp_all add: sample_candidates sample_live)
  have quals: "qd_quals db' = [row]" using ins by (auto simp: insert_qualification_def guard_Inr db1 sample_db_runs)
  have id: "row_id row = 9" using row by (simp add: certificate_of_def)
  have "\<exists>c. check_qualification sample_store_env [''repo''] db' ''t'' ''s'' ''1'' hex_a None (Aware 300) = Inr c
      \<and> ck_verdict c = ''VALID''"
    using certificate_checks [OF ins row nb(1) _ nb(3-5), of "[''repo'']" 300] nb(2) quals id
    by (auto simp: newest green_sample_fields QUALIFICATION_VALIDITY_def)
  moreover have "ir_suite_version r = ''1''" "ir_target_fingerprint r = hex_a"
    using r by (simp_all add: newest green_sample_fields)
  ultimately show ?thesis using s quals id by blast
qed

section \<open>Properties\<close>

text \<open>
  C3. A certificate is backed by two green runs, each as the call's own queries saw it. When issuing
  from history issues, the query of the runs returned as the two newest runs of the suite (of the
  named target, if one is named) completed runs of one target and one suite version in a strict order
  of time. Each was green in the snapshots that its two harvest queries read, its attempts in the one
  and its verdicts in the next: every counted attempt passes under at least one blocking-eligible
  verdict and only passing ones, and no attempt has a forbidden effect. The table gains exactly one
  row: an advisory certificate of that target, suite version and newest run, in force from now for
  fourteen days, whose run the trigger found supported at the insert. Other sessions may change the
  database before every one of these statements, so the snapshots need not be one database.
\<close>

theorem issued_certificate_backed_by_green_runs:
  assumes "issue_from_history E repo db others session suite_id target current now rid nid = (db', Inr r)"
    and "ir_status r = ISSUED"
  shows "\<exists>newest previous rest d1 d2 d3 d4 exam row.
     candidate_runs db session suite_id target = newest # previous # rest
   \<and> er_state newest = Run_COMPLETED \<and> er_state previous = Run_COMPLETED
   \<and> er_target_fingerprint previous = er_target_fingerprint newest
   \<and> er_suite_version previous = er_suite_version newest
   \<and> run_order_key previous < run_order_key newest
   \<and> d1 = others 3 (fst (live_answer db others session suite_id (newest # previous # rest) now))
   \<and> d2 = others 4 d1 \<and> d3 = others 5 d2 \<and> d4 = others 6 d3
   \<and> green_run d1 d2 session previous \<and> green_run d3 d4 session newest
   \<and> qd_quals db' = qd_quals (others 7 d4) @ [row] \<and> evidence_supports (others 7 d4) row
   \<and> certificate_of E session newest exam now nid row
   \<and> er_suite_id newest = suite_id \<and> ir_qualification_id r = Some (row_id row)"
proof -
  obtain db1 d1 d2 d3 d4 newest previous rest exam row where
    runs: "candidate_runs db session suite_id target = newest # previous # rest"
    and live: "live_answer db others session suite_id (newest # previous # rest) now = (db1, Inr None)"
    and s: "streak_refusal suite_id target (newest # previous # rest) = None"
    and d: "d1 = others 3 db1" "d2 = others 4 d1" "d3 = others 5 d2" "d4 = others 6 d3"
    and green: "green_run d1 d2 session previous" "green_run d3 d4 session newest" and suite: "er_suite_id newest = suite_id"
    and ins: "insert_qualification (others 7 d4) row = Inr db'" and row: "certificate_of E session newest exam now nid row"
    and r: "ir_qualification_id r = Some nid"
    using assms by (rule issued_row)
  have streak: "er_state newest = Run_COMPLETED \<and> er_state previous = Run_COMPLETED
      \<and> er_target_fingerprint previous = er_target_fingerprint newest
      \<and> er_suite_version previous = er_suite_version newest \<and> run_order_key newest \<noteq> run_order_key previous"
    using s by (rule streak_refusal_None) simp
  have "run_order_key previous < run_order_key newest"
    using candidate_runs_order [OF runs] streak by (metis order_le_imp_less_or_eq)
  moreover have "row_id row = nid" "eq_state row \<in> QUALIFYING_STATES"
    using row by (simp_all add: certificate_of_def QUALIFYING_STATES_def)
  moreover from this have "qd_quals db' = qd_quals (others 7 d4) @ [row]" "evidence_supports (others 7 d4) row"
    using ins by (auto simp: insert_qualification_def guard_Inr)
  ultimately show ?thesis using runs streak row r live green suite d
    by (intro exI [of _ newest] exI [of _ previous] exI [of _ rest] exI [of _ d1] exI [of _ d2] exI [of _ d3]
        exI [of _ d4] exI [of _ exam] exI [of _ row]) simp
qed

theorem issued_certificate_backed_by_green_runs_witness:
  "\<exists>db' r row. sample_issue = (db', Inr r) \<and> qd_quals db' = [row] \<and> eq_state row = ADVISORY_QUALIFIED
     \<and> eq_expires_at row = Some (Aware (200 + QUALIFICATION_VALIDITY))"
proof -
  obtain db' r where s: "sample_issue = (db', Inr r)" "ir_status r = ISSUED" using sample_issued by blast
  then show ?thesis
    using issued_certificate_backed_by_green_runs [OF s(1) [unfolded sample_issue_def] s(2)]
    by (auto simp: sample_live sample_db_runs certificate_of_def)
qed

text \<open>
  The domain layer never overrules a green harvest: once both runs are harvested, the decision of the
  qualification module is to qualify, so issuing never answers with a refusal of the domain.
\<close>

theorem green_harvest_never_refused:
  assumes "issue_from_history E repo db others session suite_id target current now rid nid = (db', Inr r)"
  shows "ir_status r \<noteq> REFUSED (DomainRefused st)"
proof
  assume st: "ir_status r = REFUSED (DomainRefused st)"
  have m: "ir_status r \<in> {ISSUED, REFUSED (DomainRefused st)}" using st by simp
  obtain db1 newest previous rest h0 h1 exam where
    "candidate_runs db session suite_id target = newest # previous # rest"
    "live_answer db others session suite_id (newest # previous # rest) now = (db1, Inr None)"
    "streak_refusal suite_id target (newest # previous # rest) = None"
    "harvest_outcome E (others 3 db1) (others 4 (others 3 db1)) session previous = Inr h0"
    and hs: "harvest_outcome E (others 5 (others 4 (others 3 db1))) (others 6 (others 5 (others 4 (others 3 db1)))) session newest = Inr h1"
    and p: "persist_certificate E (others 6 (others 5 (others 4 (others 3 db1)))) (others 7) (others 8) session suite_id newest
       exam [h0, h1] now rid nid = (db', Inr r)"
    and "nonblank suite_id" "nonblank session"
    and "\<exists>suite. current_exam E repo suite_id newest (fst (snd h1)) suite = Inr exam"
    using assms m by (rule issue_reaches_persist)
  define both where "both = [h0, h1]"
  obtain out0 harvested snap where h1: "h1 = (out0, harvested, snap)" by (cases h1)
  then have l: "last both = (out0, harvested, snap)" by (simp add: both_def)
  note p = p [folded both_def]
  note h = hs [unfolded h1]
  let ?out = "with_metric ''qualification_exam'' (exam_to_dict (py E) exam) out0"
  obtain q where q: "issue_qualification (py E) (issue_args (uuid_str E rid) newest exam ?out now) = Inr q"
    using p by (auto simp: persist_certificate_def l Let_def split: sum.splits)
  have "ql_state q = ADVISORY_QUALIFIED"
    using advisory_issue_qualifies [OF q] harvest_clean [OF h] by (simp add: issue_args_def with_metric_def)
  then have qual: "ql_state q \<in> QUALIFYING_STATES" by (simp add: QUALIFYING_STATES_def)
  show False using p st
    unfolding persist_certificate_def l fst_conv Let_def q sum.case qual not_True_eq_False if_False
    by (auto simp: already_issued_def qual split: sum.split_asm store_error.split_asm option.split_asm)
qed

theorem green_harvest_never_refused_witness:
  "\<exists>db' r. sample_issue = (db', Inr r) \<and> ir_status r \<noteq> REFUSED (DomainRefused REJECTED)"
proof -
  obtain db' r where s: "sample_issue = (db', Inr r)" using sample_issued by blast
  then show ?thesis using green_harvest_never_refused [OF s [unfolded sample_issue_def]] by blast
qed

text \<open>
  C28. Certificates are never rewritten. What a session alone changes by a call of issuing, whatever its
  answer, is at most one new certificate and the release of certificates that are live by their state
  and lapsed by the clock; every other certificate, and the whole history of runs, attempts and
  verdicts, is as before.
\<close>

theorem certificates_never_rewritten:
  assumes "table_ok (qd_quals db)"
    and "issue_from_history E repo db (\<lambda>_ d. d) session suite_id target current now rid nid = (db', res)"
  shows "\<exists>hit new. qd_quals db' = map (release hit now) (qd_quals db) @ new \<and> length new \<le> 1
    \<and> (\<forall>q \<in> set (qd_quals db). hit q \<longrightarrow> lapsed now q)
    \<and> qd_runs db' = qd_runs db \<and> qd_attempts db' = qd_attempts db \<and> qd_graders db' = qd_graders db"
proof -
  have same: "map (release (\<lambda>q. False) now) qs = qs" for qs by (induction qs) (simp_all add: release_def)
  let ?P = "\<lambda>d. \<exists>hit new. qd_quals d = map (release hit now) (qd_quals db) @ new \<and> length new \<le> 1
    \<and> (\<forall>q \<in> set (qd_quals db). hit q \<longrightarrow> lapsed now q)
    \<and> qd_runs d = qd_runs db \<and> qd_attempts d = qd_attempts db \<and> qd_graders d = qd_graders db"
  obtain hit where h: "fst (live_answer db (\<lambda>_ d. d) session suite_id (candidate_runs db session suite_id target) now)
      = db\<lparr>qd_quals := map (release hit now) (qd_quals db)\<rparr>" (is "?d1 = _")
    and lap: "\<forall>q \<in> set (qd_quals db). hit q \<longrightarrow> lapsed now q"
    using live_answer_alone [of db session suite_id "candidate_runs db session suite_id target" now] assms(1)
    by (auto simp: table_ok_def)
  have P0: "?P db" by (rule exI [of _ "\<lambda>q. False"]) (simp add: same)
  have P1: "?P ?d1" unfolding h using lap by (intro exI [of _ hit]) simp
  have P2: "?P d" if "insert_qualification ?d1 row = Inr d" for row d
    using that lap unfolding h by (intro exI [of _ hit]) (auto simp: insert_qualification_def guard_Inr)
  consider (same) "db' = db" | (released) "db' = ?d1" | (issued) row where "insert_qualification ?d1 row = Inr db'"
    using issue_state_alone [of E repo db session suite_id target current now rid nid]
    unfolding assms(2) Let_def by auto
  then show ?thesis
  proof cases
    case same
    show ?thesis unfolding same by (rule P0)
  next
    case released
    show ?thesis unfolding released by (rule P1)
  next
    case issued
    then show ?thesis by (rule P2)
  qed
qed

theorem certificates_never_rewritten_witness: "length (qd_quals (fst sample_issue)) \<le> 1"
proof -
  obtain db' res where s: "sample_issue = (db', res)" by fastforce
  then show ?thesis
    using certificates_never_rewritten [OF _ s [unfolded sample_issue_def]] by (auto simp: sample_db_runs table_ok_def s)
qed



text \<open>
  C8. A VALID verdict is earned: the read-only check answers VALID only for a certificate on record of the same tenant,
  suite, suite version and target, in a qualifying state, with an expiry that has not passed and a readable exam; and when
  a current suite is given, the suite loads, is the one asked for, and its exam has the digest of the
  certificate's.
\<close>

theorem valid_verdict_means_bound:
  assumes "check_qualification E repo db session suite_id ver target current now = Inr c" and "ck_verdict c = ''VALID''"
  shows "\<exists>q \<in> set (qd_quals db). \<exists>exam. ck_qualification_id c = Some (row_id q)
    \<and> tenant_id q = session \<and> eq_suite_id q = suite_id \<and> eq_suite_version q = ver \<and> eq_target_fingerprint q = target
    \<and> eq_state q \<in> QUALIFYING_STATES \<and> (\<exists>t. eq_expires_at q = Some t \<and> dt_le t now = Some False)
    \<and> exam_from_metrics E q = Inr exam
    \<and> (\<forall>text. current = Some text \<longrightarrow> (\<exists>pk x. exam_identity_from_suite E repo text = Inr (pk, x)
         \<and> es_suite_id (pk_suite pk) = suite_id \<and> show_int (es_suite_version (pk_suite pk)) = ver
         \<and> exam_digest (py E) x = exam_digest (py E) exam))"
proof -
  obtain q exam where q: "certificate_row db session suite_id ver target = Some q"
    and e: "eq_state q \<in> QUALIFYING_STATES" "exam_from_metrics E q = Inr exam"
    and l: "check_live E repo suite_id ver target current now q exam = Inr ''VALID''"
    and i: "ck_qualification_id c = Some (row_id q)"
    using assms by (rule check_qualification_Inr)
  show ?thesis
    using certificate_row_Some(1-3) [OF q] e i check_live_valid [OF l]
    by (intro bexI [of _ q] exI [of _ exam]) simp_all
qed

theorem valid_verdict_means_bound_witness:
  "\<exists>q. qd_quals (fst sample_issue) = [q] \<and> eq_state q \<in> QUALIFYING_STATES \<and> eq_target_fingerprint q = hex_a"
proof -
  obtain db' r row c where s: "sample_issue = (db', Inr r)" and q: "qd_quals db' = [row]"
    and "check_qualification sample_store_env [''repo''] db' ''t'' ''s'' ''1'' hex_a None (Aware 300) = Inr c"
      "ck_verdict c = ''VALID''"
    using sample_certificate by blast
  from valid_verdict_means_bound [OF this(3,4)] show ?thesis by (intro exI [of _ row]) (auto simp: s q)
qed

text \<open>
  C10. What issuing wrote, the check reads back: right after a certificate is issued, and as long as the
  clock did not run backwards over the certificates on record, the check of its suite version
  and target finds it and answers VALID at every moment before its expiry, and EXPIRED from then on.
\<close>

theorem issued_certificate_valid_until_expiry:
  assumes "issue_from_history E repo db others session suite_id target current (Aware t) rid nid = (db', Inr r)"
    and "ir_status r = ISSUED"
    and "\<forall>q \<in> set (qd_quals db'). row_id q \<noteq> nid \<longrightarrow> instant (eq_created_at q) < t"
  shows "\<exists>c. check_qualification E repo db' session suite_id (ir_suite_version r) (ir_target_fingerprint r) None (Aware u) = Inr c
    \<and> ck_qualification_id c = ir_qualification_id r
    \<and> ck_verdict c = (if u < t + QUALIFICATION_VALIDITY then ''VALID'' else ''EXPIRED'')"
proof -
  obtain db1 d1 d2 d3 d4 newest previous rest exam row where
    "candidate_runs db session suite_id target = newest # previous # rest"
    "live_answer db others session suite_id (newest # previous # rest) (Aware t) = (db1, Inr None)"
    "streak_refusal suite_id target (newest # previous # rest) = None"
    "d1 = others 3 db1" "d2 = others 4 d1" "d3 = others 5 d2" "d4 = others 6 d3"
    "green_run d1 d2 session previous" "green_run d3 d4 session newest" and suite: "er_suite_id newest = suite_id"
    and ins: "insert_qualification (others 7 d4) row = Inr db'" and row: "certificate_of E session newest exam (Aware t) nid row"
    and r: "ir_qualification_id r = Some nid" "ir_suite_version r = er_suite_version newest"
      "ir_target_fingerprint r = er_target_fingerprint newest"
    and nb: "nonblank session" "nonblank suite_id" "nonblank (er_suite_version newest)"
      "nonblank (ex_suite_id exam)" "nonblank (ex_suite_version exam)"
    using assms(1,2) by (rule issued_row)
  show ?thesis
    using certificate_checks [OF ins row nb(1) _ nb(3-5) assms(3), of repo u] nb(2) by (simp add: suite r)
qed

theorem issued_certificate_valid_until_expiry_witness:
  "\<exists>c d. check_qualification sample_store_env [''repo''] (fst sample_issue) ''t'' ''s'' ''1'' hex_a None (Aware 300) = Inr c
     \<and> ck_verdict c = ''VALID''
     \<and> check_qualification sample_store_env [''repo''] (fst sample_issue) ''t'' ''s'' ''1'' hex_a None (Aware 9999999999999) = Inr d
     \<and> ck_verdict d = ''EXPIRED''"
proof -
  obtain db' r row where s: "sample_issue = (db', Inr r)" "ir_status r = ISSUED" and q: "qd_quals db' = [row]" "row_id row = 9"
    and v: "ir_suite_version r = ''1''" "ir_target_fingerprint r = hex_a"
    using sample_certificate by blast
  note verdict = issued_certificate_valid_until_expiry [OF s(1) [unfolded sample_issue_def] s(2)]
  show ?thesis using verdict [of 300] verdict [of 9999999999999] q v by (auto simp: QUALIFICATION_VALIDITY_def s)
qed

end
