(* ===== verification/Py_Values.thy ===== *)
theory Py_Values
  imports Json_Parser
begin

text \<open>
  Python's operations on the values that a JSON text stands for, as the authority modules use
  them: \<^verbatim>\<open>==\<close>, \<^verbatim>\<open>str\<close> and \<^verbatim>\<open>int\<close>, and the standard library's \<^verbatim>\<open>uuid.UUID(text)\<close>,
  \<^verbatim>\<open>date.fromisoformat\<close> and \<^verbatim>\<open>str.replace\<close>. A UUID is its 128-bit number; its text is computed here.
\<close>

section \<open>Equality, text and integers\<close>

text \<open>
  \<^verbatim>\<open>a == b\<close>: booleans and numbers are compared as numbers, dicts without regard to the order of
  their keys.
\<close>

fun num_of :: "json \<Rightarrow> rat option" where
  "num_of (JBool b) = Some (if b then 1 else 0)"
| "num_of (JInt i) = Some (of_int i)"
| "num_of (JFloat q) = Some q"
| "num_of _ = None"

function (sequential) py_eq :: "json \<Rightarrow> json \<Rightarrow> bool" where
  "py_eq (JStr s) (JStr t) \<longleftrightarrow> s = t"
| "py_eq JNull JNull \<longleftrightarrow> True"
| "py_eq (JList xs) (JList ys) \<longleftrightarrow> length xs = length ys \<and> list_all (\<lambda>(x, y). py_eq x y) (zip xs ys)"
| "py_eq (JObj kvs) (JObj kws) \<longleftrightarrow> length kvs = length kws
     \<and> list_all (\<lambda>(k, v). case map_of kws k of None \<Rightarrow> False | Some w \<Rightarrow> py_eq v w) kvs"
| "py_eq a b \<longleftrightarrow> num_of a \<noteq> None \<and> num_of a = num_of b"
  by pat_completeness auto
termination
proof (relation "measure (\<lambda>(a, b). size a)")
  fix xs ys :: "json list" and p x y assume "p \<in> set (zip xs ys)" "(x, y) = p"
  then have "x \<in> set xs" using set_zip_leftD by metis
  then show "((x, y), JList xs, JList ys) \<in> measure (\<lambda>(a, b). size a)"
    by (auto dest!: size_list_estimation' [where y = "size x" and f = size])
next
  fix kvs kws :: "(string \<times> json) list" and p k v w
  assume "p \<in> set kvs" "(k, v) = p"
  then show "((v, w), JObj kvs, JObj kws) \<in> measure (\<lambda>(a, b). size a)"
    using size_list_estimation' [of p kvs "size v" "size_prod (\<lambda>_. 0) size"] by auto
qed simp

text \<open>\<^verbatim>\<open>str(value)\<close>; inside a container a text has its \<^verbatim>\<open>repr\<close>.\<close>

fun py_repr_json :: "py_env \<Rightarrow> json \<Rightarrow> string" where
  "py_repr_json P JNull = ''None''"
| "py_repr_json P (JBool b) = (if b then ''True'' else ''False'')"
| "py_repr_json P (JInt i) = show_int i"
| "py_repr_json P (JFloat q) = float_repr P q"
| "py_repr_json P (JStr s) = py_repr P s"
| "py_repr_json P (JList xs) = ''['' @ join_with '', '' (map (py_repr_json P) xs) @ '']''"
| "py_repr_json P (JObj kvs) =
     ''{'' @ join_with '', '' (map (\<lambda>(k, v). py_repr P k @ '': '' @ py_repr_json P v) kvs) @ ''}''"

definition py_str :: "py_env \<Rightarrow> json \<Rightarrow> string" where
  "py_str P j = (case j of JStr s \<Rightarrow> s | _ \<Rightarrow> py_repr_json P j)"

text \<open>\<^verbatim>\<open>int(value)\<close>; \<^const>\<open>None\<close> is the \<^verbatim>\<open>TypeError\<close> or \<^verbatim>\<open>ValueError\<close>. A finite float is truncated.\<close>

definition py_int_of :: "json \<Rightarrow> int option" where
  "py_int_of j = (case j of
     JBool b \<Rightarrow> Some (if b then 1 else 0)
   | JInt i \<Rightarrow> Some i
   | JFloat q \<Rightarrow> Some (if 0 \<le> q then \<lfloor>q\<rfloor> else - \<lfloor>- q\<rfloor>)
   | JStr s \<Rightarrow> py_int s
   | _ \<Rightarrow> None)"

text \<open>\<^verbatim>\<open>text.replace(old, new)\<close> for a non-empty \<open>old\<close>.\<close>

fun py_replace :: "string \<Rightarrow> string \<Rightarrow> string \<Rightarrow> string" where
  "py_replace old new [] = []"
| "py_replace old new (c # s) =
     (if starts_with (c # s) old then new @ py_replace old new (drop (length old - 1) s)
      else c # py_replace old new s)"

section \<open>UUIDs\<close>

text \<open>
  The hexadecimal literal that \<^verbatim>\<open>int(text, 16)\<close> reads: white space around it, a sign, \<^verbatim>\<open>0x\<close> (after
  which an underscore may stand), digits with single underscores between them.
\<close>

fun read_hex :: "string \<Rightarrow> nat \<Rightarrow> nat option" where
  "read_hex [] acc = Some acc"
| "read_hex (c # s) acc =
     (case hex_val c of
        Some d \<Rightarrow> read_hex s (16 * acc + d)
      | None \<Rightarrow> if c = CHR ''_''
          then (case s of
              [] \<Rightarrow> None
            | e # t \<Rightarrow> (case hex_val e of None \<Rightarrow> None | Some d \<Rightarrow> read_hex t (16 * acc + d)))
          else None)"

definition hex_body :: "string \<Rightarrow> string" where
  "hex_body s =
     (let t = int_strip s;
          u = (if starts_with t ''+'' then drop 1 t else t);
          v = (if starts_with u ''0x'' \<or> starts_with u ''0X'' then drop 2 u else u)
      in if v \<noteq> u \<and> starts_with v ''_'' then drop 1 v else v)"

definition int_hex :: "string \<Rightarrow> nat option" where
  "int_hex s = (case hex_body s of [] \<Rightarrow> None | c # t \<Rightarrow> Option.bind (hex_val c) (read_hex t))"

text \<open>
  \<^verbatim>\<open>uuid.UUID(text)\<close>. After the hyphens are gone the literal has no minus sign, so the number is below
  \<open>2\<^sup>1\<^sup>2\<^sup>8\<close> and non-negative, and the constructor's range check never fails.
\<close>

definition strip_braces :: "string \<Rightarrow> string" where
  "strip_braces s = (let brace = (\<lambda>c. c = CHR ''{'' \<or> c = CHR ''}'')
     in rev (dropWhile brace (rev (dropWhile brace s))))"

definition uuid_hex :: "string \<Rightarrow> string" where
  "uuid_hex s = filter (\<lambda>c. c \<noteq> CHR ''-'') (strip_braces (py_replace ''uuid:'' [] (py_replace ''urn:'' [] s)))"

definition uuid_parse :: "string \<Rightarrow> nat option" where
  "uuid_parse s = (if length (uuid_hex s) = 32 then int_hex (uuid_hex s) else None)"

text \<open>\<^verbatim>\<open>str(uuid)\<close>: 32 hexadecimal digits in five groups.\<close>

primrec hex_fixed :: "nat \<Rightarrow> nat \<Rightarrow> string" where
  "hex_fixed 0 n = []"
| "hex_fixed (Suc k) n = hex_fixed k (n div 16) @ [hex_chr (n mod 16)]"

definition uuid_text :: "nat \<Rightarrow> string" where
  "uuid_text n = (let h = hex_fixed 32 n
     in take 8 h @ ''-'' @ take 4 (drop 8 h) @ ''-'' @ take 4 (drop 12 h) @ ''-'' @ take 4 (drop 16 h) @ ''-'' @ drop 20 h)"

section \<open>Dates\<close>

text \<open>The proleptic Gregorian calendar of \<^verbatim>\<open>datetime\<close>: day 1 is the Monday 0001-01-01.\<close>

definition is_leap :: "nat \<Rightarrow> bool" where
  "is_leap y \<longleftrightarrow> y mod 4 = 0 \<and> (y mod 100 \<noteq> 0 \<or> y mod 400 = 0)"

definition days_in_month :: "nat \<Rightarrow> nat \<Rightarrow> nat" where
  "days_in_month y m = (if m = 2 \<and> is_leap y then 29 else [31, 28, 31, 30, 31, 30, 31, 31, 30, 31, 30, 31] ! (m - 1))"

definition days_before_year :: "nat \<Rightarrow> nat" where
  "days_before_year y = (let p = y - 1 in p * 365 + p div 4 - p div 100 + p div 400)"

definition ymd_to_ord :: "nat \<Rightarrow> nat \<Rightarrow> nat \<Rightarrow> nat" where
  "ymd_to_ord y m d = days_before_year y + sum_list (map (days_in_month y) [1..<m]) + d"

definition weekday :: "nat \<Rightarrow> nat" where
  "weekday ord = (ord + 6) mod 7"

text \<open>The ordinal of the Monday of ISO week 1, and of a day of an ISO week; the last ordinal is 9999-12-31.\<close>

definition MAX_ORDINAL :: nat where
  "MAX_ORDINAL = 3652059"

definition iso_week1_monday :: "nat \<Rightarrow> int" where
  "iso_week1_monday y =
     (let first = int (ymd_to_ord y 1 1); wd = (first + 6) mod 7; monday = first - wd
      in if 3 < wd then monday + 7 else monday)"

definition long_iso_year :: "nat \<Rightarrow> bool" where
  "long_iso_year y = (let first = weekday (ymd_to_ord y 1 1) in first = 3 \<or> (first = 2 \<and> is_leap y))"

definition iso_ord :: "nat \<Rightarrow> nat \<Rightarrow> nat \<Rightarrow> nat option" where
  "iso_ord y w d =
     (if y < 1 \<or> w < 1 \<or> 53 < w \<or> (w = 53 \<and> \<not> long_iso_year y) \<or> d < 1 \<or> 7 < d then None
      else let n = iso_week1_monday y + int (w - 1) * 7 + int (d - 1)
           in if n < 1 \<or> int MAX_ORDINAL < n then None else Some (nat n))"

definition read_fixed :: "nat \<Rightarrow> string \<Rightarrow> (nat \<times> string) option" where
  "read_fixed k s =
     (if length (take k s) = k \<and> list_all is_digit (take k s)
      then Some (foldl (\<lambda>n c. 10 * n + digit_val c) 0 (take k s), drop k s) else None)"

text \<open>
  \<^verbatim>\<open>date.fromisoformat(text)\<close> as the ordinal of the day; \<^const>\<open>None\<close> is the \<^verbatim>\<open>ValueError\<close>. The texts are
  \<^verbatim>\<open>YYYY-MM-DD\<close>, \<^verbatim>\<open>YYYYMMDD\<close> and the ISO weeks \<^verbatim>\<open>YYYY-Www[-D]\<close> and \<^verbatim>\<open>YYYYWww[D]\<close>; the library does not
  look at what follows the weekday of a text of ten characters.
\<close>

definition date_week :: "bool \<Rightarrow> nat \<Rightarrow> string \<Rightarrow> nat option" where
  "date_week sep y r =
     (case read_fixed 2 r of
        None \<Rightarrow> None
      | Some (w, []) \<Rightarrow> iso_ord y w 1
      | Some (w, c # r') \<Rightarrow>
          if sep \<and> c \<noteq> CHR ''-'' then None
          else (case read_fixed 1 (if sep then r' else c # r') of
              None \<Rightarrow> None
            | Some (d, _) \<Rightarrow> iso_ord y w d))"

definition date_month :: "bool \<Rightarrow> nat \<Rightarrow> string \<Rightarrow> nat option" where
  "date_month sep y r =
     (case read_fixed 2 r of
        None \<Rightarrow> None
      | Some (m, r') \<Rightarrow>
          if sep \<and> \<not> starts_with r' ''-'' then None
          else (case read_fixed 2 (if sep then drop 1 r' else r') of
              Some (d, []) \<Rightarrow>
                if y < 1 \<or> m < 1 \<or> 12 < m \<or> d < 1 \<or> days_in_month y m < d then None else Some (ymd_to_ord y m d)
            | _ \<Rightarrow> None))"

definition date_fromisoformat :: "string \<Rightarrow> nat option" where
  "date_fromisoformat s =
     (if length s \<notin> {7, 8, 10} then None
      else case read_fixed 4 s of
          None \<Rightarrow> None
        | Some (y, r) \<Rightarrow>
            (let sep = starts_with r ''-''; r' = (if sep then drop 1 r else r)
             in if starts_with r' ''W'' then date_week sep y (drop 1 r') else date_month sep y r'))"

section \<open>The text of a UUID is read back\<close>

lemma py_replace_absent: "c \<notin> set s \<Longrightarrow> py_replace (c # old) new s = s"
  by (induction s) (auto simp: starts_with_def)

lemma hex_fixed_length [simp]: "length (hex_fixed k n) = k"
  by (induction k arbitrary: n) auto

lemma hex_fixed_digits: "c \<in> set (hex_fixed k n) \<Longrightarrow> \<exists>d < 16. c = hex_chr d"
proof (induction k arbitrary: n)
  case (Suc k)
  have "n mod 16 < 16" by simp
  with Suc show ?case by (auto simp del: mod_less_divisor)
qed simp

lemma hex_fixed_chars: "c \<in> set (hex_fixed k n) \<Longrightarrow> c \<in> set ''0123456789abcdef''"
proof -
  assume "c \<in> set (hex_fixed k n)"
  then obtain d where d: "d < 16" "c = hex_chr d" using hex_fixed_digits by blast
  from d(1) have "d < length ''0123456789abcdef''" by simp
  then have "''0123456789abcdef'' ! d \<in> set ''0123456789abcdef''" by (rule nth_mem)
  then show ?thesis by (simp only: d(2) hex_chr_def hex_digits_def)
qed

lemma read_hex_append:
  "(\<forall>c \<in> set s. hex_val c \<noteq> None) \<Longrightarrow> read_hex (s @ t) acc = Option.bind (read_hex s acc) (read_hex t)"
  by (induction s arbitrary: acc) auto

lemma read_hex_fixed: "read_hex (hex_fixed k n) acc = Some (acc * 16 ^ k + n mod 16 ^ k)"
proof (induction k arbitrary: n)
  case (Suc k)
  have v: "\<forall>c \<in> set (hex_fixed k (n div 16)). hex_val c \<noteq> None"
    using hex_fixed_digits hex_val_chr by fastforce
  have "n mod (16 * 16 ^ k) = 16 * (n div 16 mod 16 ^ k) + n mod 16"
    by (rule mod_mult2_eq)
  then show ?case
    by (simp add: read_hex_append [OF v] Suc.IH hex_val_chr algebra_simps)
qed simp

lemma hex_char_solid:
  assumes "c \<in> set ''0123456789abcdef''"
  shows "\<not> int_space c \<and> c \<noteq> CHR ''-'' \<and> c \<noteq> CHR ''{'' \<and> c \<noteq> CHR ''}'' \<and> c \<noteq> CHR ''+'' \<and> c \<noteq> CHR ''x''
    \<and> c \<noteq> CHR ''X'' \<and> c \<noteq> CHR ''_'' \<and> c \<noteq> CHR ''u''"
  using assms by (auto simp: int_space_def)

lemmas hex_fixed_solid = hex_char_solid [OF hex_fixed_chars]

lemma int_hex_fixed: "int_hex (hex_fixed 32 n) = Some (n mod 16 ^ 32)"
proof -
  let ?h = "hex_fixed 32 n"
  have sol: "\<not> int_space c \<and> c \<noteq> CHR ''+'' \<and> c \<noteq> CHR ''x'' \<and> c \<noteq> CHR ''X'' \<and> c \<noteq> CHR ''_''" if "c \<in> set ?h" for c
    using hex_fixed_solid [OF that] by blast
  have ne: "?h \<noteq> []" using hex_fixed_length [of 32 n] by (metis list.size(3) zero_neq_numeral)
  have st: "int_strip ?h = ?h"
    using int_strip_solid [OF ne, of "[]"] sol hd_in_set [OF ne] last_in_set [OF ne] by simp
  have "Suc (Suc 0) \<le> length ?h" by simp
  then obtain c d t where h: "?h = c # d # t" by (metis Suc_le_length_iff)
  have "hex_body ?h = ?h"
    using sol [of c] sol [of d] st [unfolded h] by (simp add: hex_body_def h starts_with_def)
  moreover have "read_hex ?h 0 = Option.bind (hex_val c) (read_hex (d # t))"
    using sol [of c] by (simp add: h split: option.split)
  ultimately show ?thesis using read_hex_fixed [of 32 n 0] by (simp add: int_hex_def h)
qed

lemma uuid_groups: "take 8 s @ take 4 (drop 8 s) @ take 4 (drop 12 s) @ take 4 (drop 16 s) @ drop 20 s = s"
proof -
  have cut: "take k (drop i s) @ drop (k + i) s = drop i s" for i k
    by (metis append_take_drop_id drop_drop)
  have "take 4 (drop 16 s) @ drop 20 s = drop 16 s" "take 4 (drop 12 s) @ drop 16 s = drop 12 s"
      "take 4 (drop 8 s) @ drop 12 s = drop 8 s"
    using cut [of 4 16] cut [of 4 12] cut [of 4 8] by simp_all
  then show ?thesis by (simp only: append_take_drop_id)
qed

lemma uuid_hex_text: "uuid_hex (uuid_text n) = hex_fixed 32 n"
proof -
  let ?h = "hex_fixed 32 n" and ?u = "uuid_text n"
  have sub: "c \<in> set ?h \<or> c = CHR ''-''" if "c \<in> set ?u" for c
    using that by (auto simp: uuid_text_def Let_def dest: in_set_takeD in_set_dropD)
  have sol: "c \<noteq> CHR ''u'' \<and> c \<noteq> CHR ''{'' \<and> c \<noteq> CHR ''}''" if "c \<in> set ?u" for c
  proof (cases "c \<in> set ?h")
    case True
    from hex_fixed_solid [OF this] show ?thesis by blast
  next
    case False
    with sub [OF that] show ?thesis by simp
  qed
  have ne: "?u \<noteq> []" by (simp add: uuid_text_def Let_def)
  have u: "CHR ''u'' \<notin> set ?u" using sol by blast
  have "strip_braces ?u = ?u"
    using strip_by_solid [OF ne, where t = "[]" and P = "\<lambda>c. c = CHR ''{'' \<or> c = CHR ''}''"]
      sol [OF hd_in_set [OF ne]] sol [OF last_in_set [OF ne]] by (simp add: strip_braces_def)
  moreover have "filter (\<lambda>c. c \<noteq> CHR ''-'') ?u = ?h"
  proof -
    have f: "filter (\<lambda>c. c \<noteq> CHR ''-'') s = s" if "set s \<subseteq> set ?h" for s
    proof (rule filter_True, rule ballI)
      fix c assume "c \<in> set s"
      with that have "c \<in> set ?h" by blast
      from hex_fixed_solid [OF this] show "c \<noteq> CHR ''-''" by blast
    qed
    have g: "filter (\<lambda>c. c \<noteq> CHR ''-'') (take k (drop i ?h)) = take k (drop i ?h)" for i k
      by (rule f) (meson subset_trans set_take_subset set_drop_subset)
    have "filter (\<lambda>c. c \<noteq> CHR ''-'') ?u = take 8 ?h @ take 4 (drop 8 ?h) @ take 4 (drop 12 ?h) @ take 4 (drop 16 ?h) @ drop 20 ?h"
      by (simp add: uuid_text_def Let_def g f [OF set_take_subset] f [OF set_drop_subset])
    also have "\<dots> = ?h" by (rule uuid_groups)
    finally show ?thesis .
  qed
  ultimately show ?thesis by (simp add: uuid_hex_def py_replace_absent u)
qed

lemma uuid_parse_text: "n < 2 ^ 128 \<Longrightarrow> uuid_parse (uuid_text n) = Some n"
  by (simp add: uuid_parse_def uuid_hex_text int_hex_fixed)

text \<open>Every UUID that is read fits in 128 bits.\<close>

lemma hex_val_less: "hex_val c = Some d \<Longrightarrow> d < 16"
  by (auto simp: hex_val_def Let_def split: if_splits)

lemma read_hex_bound: "read_hex s acc = Some n \<Longrightarrow> n < (acc + 1) * 16 ^ length s"
proof (induction s acc rule: read_hex.induct)
  case (2 c s acc)
  have step: "m < (acc + 1) * 16 ^ j" if "m < (16 * acc + d + 1) * 16 ^ k" "d < 16" "Suc k \<le> j" for m d k j
  proof -
    have "(16 * acc + d + 1) * 16 ^ k \<le> (16 * (acc + 1)) * 16 ^ k" using that(2) by (intro mult_le_mono1) simp
    also have "\<dots> = (acc + 1) * 16 ^ Suc k" by (simp only: power_Suc mult.assoc mult.left_commute)
    also have "\<dots> \<le> (acc + 1) * 16 ^ j" using that(3) by (intro mult_le_mono2 power_increasing) simp_all
    finally show ?thesis using that(1) by simp
  qed
  show ?case
  proof (cases "hex_val c")
    case (Some d)
    with 2 have "n < (16 * acc + d + 1) * 16 ^ length s" by simp
    then show ?thesis by (rule step) (simp_all add: hex_val_less [OF Some])
  next
    case None
    with "2.prems" obtain e t d where t: "c = CHR ''_''" "s = e # t" "hex_val e = Some d" "read_hex t (16 * acc + d) = Some n"
      by (auto split: if_splits list.splits option.splits)
    with "2.IH"(1) [OF None t(1, 2, 3)] have "n < (16 * acc + d + 1) * 16 ^ length t" by simp
    then show ?thesis by (rule step) (simp_all add: hex_val_less [OF t(3)] t(2))
  qed
qed simp

lemma hex_body_length: "length (hex_body s) \<le> length s"
proof -
  have "length (int_strip s) \<le> length s"
    unfolding int_strip_def by (metis length_dropWhile_le length_rev order_trans)
  then show ?thesis by (auto simp: hex_body_def Let_def)
qed

lemma uuid_parse_bound: "uuid_parse s = Some n \<Longrightarrow> n < 2 ^ 128"
proof -
  assume "uuid_parse s = Some n"
  then obtain h where h: "length h = 32" "int_hex h = Some n" by (auto simp: uuid_parse_def split: if_splits)
  then obtain c t d where t: "hex_body h = c # t" "hex_val c = Some d" "read_hex t d = Some n"
    by (auto simp: int_hex_def split: list.splits bind_splits)
  have "n < (d + 1) * 16 ^ length t" by (rule read_hex_bound [OF t(3)])
  also have "\<dots> \<le> 16 * 16 ^ length t" using hex_val_less [OF t(2)] by (intro mult_le_mono1) simp
  also have "\<dots> = 16 ^ length (hex_body h)" using t(1) by simp
  also have "\<dots> \<le> 16 ^ 32" using hex_body_length [of h] h(1) by (intro power_increasing) simp_all
  also have "\<dots> = (2 :: nat) ^ 128" by simp
  finally show ?thesis .
qed

section \<open>Canonical forms and equality\<close>

fun py_dict :: "json \<Rightarrow> bool" where
  "py_dict (JList xs) = list_all py_dict xs"
| "py_dict (JObj kvs) = (distinct (map fst kvs) \<and> list_all (\<lambda>(k, v). py_dict v) kvs)"
| "py_dict j = True"

lemma insort_key_map: "(\<And>x. f (g x) = f x) \<Longrightarrow> insort_key f (g x) (map g xs) = map g (insort_key f x xs)"
  by (induction xs) auto

lemma sort_key_map: "(\<And>x. f (g x) = f x) \<Longrightarrow> sort_key f (map g xs) = map g (sort_key f xs)"
  by (induction xs) (simp_all add: insort_key_map)

lemma json_canon_idem [simp]: "json_canon (json_canon j) = json_canon j"
proof (induction j)
  case (JObj kvs)
  let ?g = "\<lambda>(k, v). (k, json_canon v)"
  have g: "map ?g (map ?g kvs) = map ?g kvs" using JObj by (auto intro!: map_cong)
  have "map ?g (sort_key fst (map ?g kvs)) = sort_key fst (map ?g (map ?g kvs))"
    by (rule sort_key_map [symmetric]) auto
  then show ?case unfolding json_canon.simps g by (simp add: sort_key_id_if_sorted)
qed (simp_all cong: map_cong)

lemma py_eq_JStr [simp]: "py_eq v (JStr s) \<longleftrightarrow> v = JStr s" "py_eq (JStr s) v \<longleftrightarrow> v = JStr s"
  by (cases v; auto)+

lemma sort_key_unique:
  assumes "distinct (map fst kvs)" and "distinct (map fst kws)" and "set kvs = set kws"
  shows "sort_key fst kvs = sort_key fst kws"
proof (rule map_sorted_distinct_set_unique)
  show "inj_on fst (set (sort_key fst kvs) \<union> set (sort_key fst kws))"
    using assms by (simp add: distinct_map)
qed (use assms in \<open>simp_all add: distinct_map\<close>)

lemma py_eq_texts:
  assumes "py_eq (JObj kvs) (JObj (map (\<lambda>(k, v). (k, JStr v)) kws))"
    and "distinct (map fst kvs)" and "distinct (map fst kws)"
  shows "sort_key fst kvs = sort_key fst (map (\<lambda>(k, v). (k, JStr v)) kws)"
proof (rule sort_key_unique [OF assms(2)])
  let ?t = "map (\<lambda>(k, v). (k, JStr v)) kws"
  show d: "distinct (map fst ?t)" using assms(3) by (simp add: case_prod_unfold comp_def)
  have sub: "set kvs \<subseteq> set ?t"
  proof
    fix kv assume "kv \<in> set kvs"
    then obtain k v w where kv: "kv = (k, v)" "map_of ?t k = Some w" "py_eq v w"
      using assms(1) by (cases kv) (auto simp: list_all_iff split: option.splits)
    from map_of_SomeD [OF kv(2)] have m: "(k, w) \<in> set ?t" .
    then obtain s where "w = JStr s" by auto
    with kv m show "kv \<in> set ?t" by simp
  qed
  have "card (set kvs) = length kvs" "card (set ?t) = length ?t"
    using assms(2) d by (simp_all only: distinct_map distinct_card)
  moreover have "length kvs = length ?t" using assms(1) by simp
  ultimately show "set kvs = set ?t" using sub by (intro card_subset_eq) simp_all
qed

end
