(* ===== verification/Configuration.thy ===== *)
theory Configuration
  imports Py_Values Py_Path
begin

text \<open>
  \<^verbatim>\<open>fleet_kernel/configuration.py\<close>: the explicit identity of a deployment. A process reads its company
  and Scribe deployment from the environment at every call, and its authority bindings once from
  the file that the environment names; a binding that is absent is Python's \<^verbatim>\<open>None\<close>.
\<close>

section \<open>State and operations\<close>

text \<open>
  What the module sees of its host: \<open>os.environ\<close>, which paths are symbolic links, the text of a file
  (\<^const>\<open>None\<close> is an \<^verbatim>\<open>OSError\<close> or \<^verbatim>\<open>UnicodeDecodeError\<close> of \<^verbatim>\<open>read_text\<close>), and the JSON reader.
\<close>

record cfg_host =
  environ :: "string \<Rightarrow> string option"
  is_symlink :: "path \<Rightarrow> bool"
  file_text :: "path \<Rightarrow> string option"
  json_reader :: json_env

datatype config_error = ConfigurationError | UnreadableFile | JSONDecodeError | IntegerLimit

text \<open>\<^verbatim>\<open>re.fullmatch(r'[A-Za-z0-9][A-Za-z0-9._-]{0,127}', value)\<close>.\<close>

definition identifier_match :: "string \<Rightarrow> bool" where
  "identifier_match s \<longleftrightarrow> s \<noteq> [] \<and> chr_alnum (hd s) \<and> length s \<le> 128
     \<and> list_all (\<lambda>c. chr_alnum c \<or> chr_in ''._-'' c) (tl s)"

definition cfg_identity :: "(string \<Rightarrow> string option) \<Rightarrow> string \<Rightarrow> config_error + string" where
  "cfg_identity env name =
     (let value = (case env name of None \<Rightarrow> [] | Some v \<Rightarrow> v)
      in if identifier_match value then Inr value else Inl ConfigurationError)"

definition company_id :: "(string \<Rightarrow> string option) \<Rightarrow> config_error + string" where
  "company_id env = cfg_identity env ''CC_SUITE_COMPANY_ID''"

definition scribe_deployment_id :: "(string \<Rightarrow> string option) \<Rightarrow> config_error + string" where
  "scribe_deployment_id env = cfg_identity env ''CC_SUITE_SCRIBE_DEPLOYMENT_ID''"

definition BINDINGS_FILE :: string where
  "BINDINGS_FILE = ''CC_SUITE_AUTHORITY_BINDINGS_FILE''"

fun nonempty_text :: "json \<Rightarrow> string option" where
  "nonempty_text (JStr s) = (if s = [] then None else Some s)"
| "nonempty_text _ = None"

text \<open>\<open>load_bindings\<close> is \<^verbatim>\<open>_bindings()\<close>; the cache keeps the first result that is not an exception.\<close>

definition load_bindings :: "cfg_host \<Rightarrow> config_error + (string \<times> string) list" where
  "load_bindings H =
     (case environ H BINDINGS_FILE of
        None \<Rightarrow> Inr []
      | Some [] \<Rightarrow> Inr []
      | Some configured \<Rightarrow>
          (let p = path_of configured
           in if \<not> is_absolute p \<or> is_symlink H p then Inl ConfigurationError
              else (case file_text H p of
                  None \<Rightarrow> Inl UnreadableFile
                | Some text \<Rightarrow>
                    (case json_loads (json_reader H) text of
                       DecodeError \<Rightarrow> Inl JSONDecodeError
                     | IntLimitError \<Rightarrow> Inl IntegerLimit
                     | Loaded (JObj kvs) \<Rightarrow>
                         if list_all (\<lambda>(k, v). nonempty_text v \<noteq> None) kvs
                         then Inr (map (\<lambda>(k, v). (k, the (nonempty_text v))) kvs)
                         else Inl ConfigurationError
                     | Loaded _ \<Rightarrow> Inl ConfigurationError))))"

definition deployment_binding :: "(string \<times> string) list \<Rightarrow> string \<Rightarrow> string option" where
  "deployment_binding bindings name = map_of bindings name"

definition authority_issuer :: "(string \<times> string) list \<Rightarrow> string option" where
  "authority_issuer bindings = deployment_binding bindings ''AUTHORITY_ISSUER''"

definition identity_environment :: "(string \<Rightarrow> string option) \<Rightarrow> config_error + (string \<times> string) list" where
  "identity_environment env =
     res_bind (company_id env) (\<lambda>c.
     res_bind (scribe_deployment_id env) (\<lambda>s.
       Inr [(''CC_SUITE_COMPANY_ID'', c), (''CC_SUITE_SCRIBE_DEPLOYMENT_ID'', s)]))"

definition trusted_deployment_environment :: "cfg_host \<Rightarrow> config_error + (string \<times> string) list" where
  "trusted_deployment_environment H =
     res_bind (identity_environment (environ H)) (\<lambda>result.
       case environ H BINDINGS_FILE of
         None \<Rightarrow> Inr result
       | Some [] \<Rightarrow> Inr result
       | Some configured \<Rightarrow> res_bind (load_bindings H) (\<lambda>_. Inr (dict_set BINDINGS_FILE configured result)))"

section \<open>What a loaded configuration guarantees\<close>

lemma cfg_identity_Inr: "cfg_identity env name = Inr v \<longleftrightarrow> env name = Some v \<and> identifier_match v"
  by (auto simp: cfg_identity_def Let_def identifier_match_def split: option.splits)

lemma load_bindings_unset: "environ H BINDINGS_FILE = None \<Longrightarrow> load_bindings H = Inr []"
  by (simp add: load_bindings_def)

text \<open>Bindings that come from a file come from the absolute, regular path that the environment names.\<close>

lemma load_bindings_source:
  assumes "load_bindings H = Inr B" and "deployment_binding B name = Some v"
  obtains f body kvs where "environ H BINDINGS_FILE = Some f" "is_absolute (path_of f)" "\<not> is_symlink H (path_of f)"
    "file_text H (path_of f) = Some body" "json_loads (json_reader H) body = Loaded (JObj kvs)"
    "map_of kvs name = Some (JStr v)" "v \<noteq> []"
proof -
  obtain f body kvs where f: "environ H BINDINGS_FILE = Some f" "is_absolute (path_of f)" "\<not> is_symlink H (path_of f)"
      "file_text H (path_of f) = Some body" "json_loads (json_reader H) body = Loaded (JObj kvs)"
      and ok: "list_all (\<lambda>(k, v). nonempty_text v \<noteq> None) kvs"
      and B: "B = map (\<lambda>(k, v). (k, the (nonempty_text v))) kvs"
    using assms
    by (auto simp: load_bindings_def deployment_binding_def Let_def
        split: option.splits list.splits loads_result.splits json.splits if_splits)
  have "map_of B name = map_option (\<lambda>v. the (nonempty_text v)) (map_of kvs name)" unfolding B by (induction kvs) auto
  then obtain j where j: "map_of kvs name = Some j" "v = the (nonempty_text j)"
    using assms(2) by (auto simp: deployment_binding_def)
  from j(1) ok have "nonempty_text j \<noteq> None" by (auto simp: list_all_iff dest: map_of_SomeD)
  then have "j = JStr v \<and> v \<noteq> []" using j(2) by (cases j) (auto split: if_splits)
  then show thesis using that f j(1) by blast
qed

end
