(* ===== verification/Founder_Mandate.thy ===== *)
theory Founder_Mandate
  imports Configuration
begin

text \<open>
  \<^verbatim>\<open>fleet_kernel/founder_authority.py\<close>, first part: the validators of text, digests, UUIDs,
  integers and timestamps, and the three founder mandates with their loaders. A mandate is accepted
  only as an exact, closed artifact whose bytes hash to what the deployment pins.
\<close>

section \<open>Environment and errors\<close>

text \<open>
  What the module takes from its process: the interpreter's library (the digest, \<^verbatim>\<open>repr\<close> and float texts,
  \<^verbatim>\<open>datetime.fromisoformat\<close>, the ISO text of a UTC instant, \<^const>\<open>None\<close> where \<^verbatim>\<open>astimezone\<close> overflows, and
  the local zone of a naive time), the decoding that \<^verbatim>\<open>json.loads\<close> applies to bytes, the floats that stand
  for NaN and the infinities, the environment and the bindings of the configuration, and the bytes
  of a file (\<^const>\<open>None\<close> is an \<^verbatim>\<open>OSError\<close>).
\<close>

record founder_env =
  fe_py :: py_env
  fe_json :: json_env
  fe_bytes_text :: "string \<Rightarrow> string option"
  fe_nonfinite :: "rat \<Rightarrow> bool"
  fe_parse_iso :: "string \<Rightarrow> py_datetime option"
  fe_utc_text :: "int \<Rightarrow> string option"
  fe_local_utc :: "int \<Rightarrow> int"
  fe_environ :: "string \<Rightarrow> string option"
  fe_bindings :: "(string \<times> string) list"
  fe_read_bytes :: "path \<Rightarrow> string option"

text \<open>
  The refusals, and what escapes the module: a \<^verbatim>\<open>ConfigurationError\<close>, the interpreter's integer limit
  inside \<^verbatim>\<open>json.loads\<close>, an overflowing time, an unreadable file, a \<^verbatim>\<open>ValueError\<close> of \<^verbatim>\<open>fromisoformat\<close>,
  the \<^verbatim>\<open>KeyError\<close> of an unknown step.
\<close>

datatype authority_error =
    FounderAuthorityError
  | BadConfiguration config_error
  | IntegerDigitsLimit
  | TimeOverflow
  | FileError
  | IsoValueError
  | StepKeyError

section \<open>Validators\<close>

definition required :: "json \<Rightarrow> authority_error + string" where
  "required v =
     (case v of
        JStr s \<Rightarrow>
          if py_strip s = [] \<or> py_strip s \<noteq> s \<or> list_ex (\<lambda>c. (of_char c :: nat) < 32) (py_strip s)
          then Inl FounderAuthorityError else Inr s
      | _ \<Rightarrow> Inl FounderAuthorityError)"

definition git_sha_match :: "string \<Rightarrow> bool" where
  "git_sha_match s \<longleftrightarrow> length s = 40 \<and> list_all (\<lambda>c. c \<in> set hex_digits) s"

text \<open>\<^verbatim>\<open>_MANDATE_ID.fullmatch(text)\<close>.\<close>

definition MANDATE_PREFIX :: string where
  "MANDATE_PREFIX = ''activation-mandate-''"

definition mandate_id_match :: "string \<Rightarrow> bool" where
  "mandate_id_match s \<longleftrightarrow> starts_with s MANDATE_PREFIX \<and> length MANDATE_PREFIX < length s
     \<and> list_all (\<lambda>c. chr_alnum c \<or> chr_in ''._-'' c) (drop (length MANDATE_PREFIX) s)"

definition exact_digest :: "(string \<Rightarrow> bool) \<Rightarrow> json \<Rightarrow> authority_error + string" where
  "exact_digest pattern v =
     res_bind (required v) (\<lambda>t. if pattern t then Inr t else Inl FounderAuthorityError)"

definition uuid_arg :: "founder_env \<Rightarrow> json \<Rightarrow> authority_error + string" where
  "uuid_arg F v =
     (case uuid_parse (py_str (fe_py F) v) of None \<Rightarrow> Inl FounderAuthorityError | Some n \<Rightarrow> Inr (uuid_text n))"

definition positive :: "json \<Rightarrow> authority_error + int" where
  "positive v =
     (case py_int_of v of
        None \<Rightarrow> Inl FounderAuthorityError
      | Some i \<Rightarrow> if i \<le> 0 then Inl FounderAuthorityError else Inr i)"

definition timestamp :: "founder_env \<Rightarrow> json \<Rightarrow> authority_error + string" where
  "timestamp F v =
     res_bind (required v) (\<lambda>t.
       case fe_parse_iso F (py_replace ''Z'' ''+00:00'' t) of
         Some (Aware i) \<Rightarrow>
           (case fe_utc_text F i of
              None \<Rightarrow> Inl TimeOverflow
            | Some u \<Rightarrow> Inr (py_replace ''+00:00'' ''Z'' u))
       | _ \<Rightarrow> Inl FounderAuthorityError)"

text \<open>
  The dump with sorted keys that is read back is the value with its keys sorted: a float's text is read
  as that float, and the texts and integers are those of \<open>loads_text\<close>.
\<close>

definition canonical_mapping :: "founder_env \<Rightarrow> json \<Rightarrow> authority_error + (string \<times> json) list" where
  "canonical_mapping F v =
     (case v of
        JObj kvs \<Rightarrow>
          if kvs = [] \<or> \<not> json_serializable (fe_nonfinite F) v then Inl FounderAuthorityError
          else (case json_canon v of JObj r \<Rightarrow> Inr r | _ \<Rightarrow> Inl FounderAuthorityError)
      | _ \<Rightarrow> Inl FounderAuthorityError)"

definition closed_mapping :: "founder_env \<Rightarrow> string list \<Rightarrow> json \<Rightarrow> authority_error + (string \<times> json) list" where
  "closed_mapping F keys v =
     res_bind (canonical_mapping F v) (\<lambda>r.
       if set (map fst r) = set keys then Inr r else Inl FounderAuthorityError)"

definition authority_bytes :: "founder_env \<Rightarrow> (string \<times> json) list \<Rightarrow> string" where
  "authority_bytes F kvs = json_print_utf8 (float_repr (fe_py F)) (json_canon (JObj kvs))"

text \<open>\<^verbatim>\<open>mapping.get(key)\<close>; after \<^const>\<open>closed_mapping\<close> every key that is read is present.\<close>

definition dget :: "(string \<times> json) list \<Rightarrow> string \<Rightarrow> json" where
  "dget kvs k = (case map_of kvs k of None \<Rightarrow> JNull | Some v \<Rightarrow> v)"

text \<open>\<^verbatim>\<open>json.loads(raw)\<close> on bytes, where the callers catch the decoding errors only.\<close>

definition loads_bytes :: "founder_env \<Rightarrow> string \<Rightarrow> authority_error + json" where
  "loads_bytes F raw =
     (case fe_bytes_text F raw of
        None \<Rightarrow> Inl FounderAuthorityError
      | Some t \<Rightarrow>
          (case json_loads (fe_json F) t of
             Loaded j \<Rightarrow> Inr j
           | DecodeError \<Rightarrow> Inl FounderAuthorityError
           | IntLimitError \<Rightarrow> Inl IntegerDigitsLimit))"

definition ensure :: "bool \<Rightarrow> authority_error + unit" where
  "ensure b = (if b then Inr () else Inl FounderAuthorityError)"

definition configured :: "config_error + 'a \<Rightarrow> authority_error + 'a" where
  "configured r = (case r of Inl e \<Rightarrow> Inl (BadConfiguration e) | Inr x \<Rightarrow> Inr x)"

section \<open>The pinned identities\<close>

definition pin :: "founder_env \<Rightarrow> string \<Rightarrow> string option" where
  "pin F name = deployment_binding (fe_bindings F) name"

text \<open>A binding as the value that it is compared with: an absent one is \<^verbatim>\<open>None\<close>, which is JSON's \<^verbatim>\<open>null\<close>.\<close>

definition pinned :: "founder_env \<Rightarrow> string \<Rightarrow> json" where
  "pinned F name = (case pin F name of None \<Rightarrow> JNull | Some s \<Rightarrow> JStr s)"

definition MANDATE_SCHEMA :: string where "MANDATE_SCHEMA = ''mise.activation-mandate.v1''"
definition PHASE4_MANDATE_SCHEMA :: string where "PHASE4_MANDATE_SCHEMA = ''mise.cc-suite-activation-mandate.v1''"
definition UTILITY_MANDATE_SCHEMA :: string where "UTILITY_MANDATE_SCHEMA = ''mise.utility-activation-mandate.v1''"

definition PHASE4_MANDATE_KEYS :: "string list" where [table_simps]:
  "PHASE4_MANDATE_KEYS =
     [''schema'', ''mandate_id'', ''status'', ''issuer'', ''source_kind'', ''quoted_instruction'', ''recorded_at'',
      ''governing_canon'', ''executable_plan'', ''company_id'', ''host_kind'', ''preserved_live_subject'',
      ''ordered_roles'', ''ordered_scope'', ''constraints'', ''requires_additional_founder_go_within_scope'',
      ''terminal_condition'', ''rollback_policy'', ''receipt_requirements'']"

definition PHASE4_COMPANY_ROLE_TYPES :: "string list" where [table_simps]:
  "PHASE4_COMPANY_ROLE_TYPES =
     [''cos'', ''ccto'', ''ccpo'', ''ccde'', ''ccro'', ''ccfo'', ''ccmo'', ''cclo'', ''ccgo'', ''ccco'']"

definition MANDATE_KEYS :: "string list" where [table_simps]:
  "MANDATE_KEYS =
     [''schema'', ''mandate_id'', ''status'', ''issuer'', ''source_kind'', ''quoted_instruction'', ''recorded_at'',
      ''governing_canon'', ''executable_plan'', ''ordered_scope'', ''constraints'',
      ''requires_additional_founder_go_within_scope'', ''terminal_condition'']"

definition MANDATE_ORDERED_SCOPE :: "string list" where [table_simps]:
  "MANDATE_ORDERED_SCOPE =
     [''finish_review_package_and_install_exact_kernel_release'',
      ''remove_and_verify_absent_mini_nopasswd_rule_after_last_privileged_operation'',
      ''earn_three_consecutive_real_shadow_mondays'',
      ''run_one_fenced_supervised_live_workflow'',
      ''transfer_exact_mini_authority_pointer'',
      ''verify_mini_canary_real_workflow_and_reconciliation'',
      ''admit_exactly_one_macbook_scribe_after_mini_activation'',
      ''verify_scribe_singleton_persistence_and_first_workflow'',
      ''verify_mini_and_scribe_restart_recovery_rollback_and_terminal_receipts'']"

definition MANDATE_CONSTRAINTS :: "string list" where [table_simps]:
  "MANDATE_CONSTRAINTS =
     [''no_gatef_evidence'',
      ''mini_kernel_before_macbook_scribe'',
      ''exact_technical_subject_and_receipt_per_step'',
      ''one_effect_path'',
      ''one_writable_scribe'',
      ''company_and_restaurant_fleet_data_isolation'',
      ''operator_approval_remains_required_where_the_workflow_requires_it'',
      ''nopasswd_must_be_absent_before_shadow_credit'',
      ''phase_4_remaining_cc_suite_migration_is_out_of_scope'',
      ''no_scope_expansion_beyond_ordered_scope'']"

definition MANDATE_TERMINAL_CONDITION :: json where [table_simps]:
  "MANDATE_TERMINAL_CONDITION = JObj
     [(''when'', JStr (''all_ordered_scope_steps_have_verified_completion_receipts_and_final_'' @
         ''combined_recovery_receipt_is_verified'')),
      (''terminal_status'', JStr ''completed''),
      (''authorization_valid_after_terminal'', JBool False),
      (''deterministic_recovery_contract'', JObj
         [(''survives_terminal'', JBool True),
          (''requires_additional_founder_go'', JBool False),
          (''scope'', JStr (''same_exact_release_same_hosts_same_deployments_same_authority_'' @
             ''root_monotonic_recovery_epochs_only'')),
          (''forbids'', JStr (''new_release_new_host_new_deployment_scope_expansion_or_new_'' @
             ''effect_authority''))])]"

section \<open>The founder activation mandate\<close>

record mandate =
  md_mandate_id :: string
  md_artifact :: "(string \<times> json) list"
  md_artifact_sha256 :: string
  md_artifact_bytes :: string

definition artifact_exact :: "founder_env \<Rightarrow> string \<Rightarrow> (string \<times> json) list \<Rightarrow> bool" where
  "artifact_exact F mandate_id artifact \<longleftrightarrow>
     py_eq (dget artifact ''schema'') (JStr MANDATE_SCHEMA)
   \<and> py_eq (JStr mandate_id) (pinned F ''MANDATE_ID'')
   \<and> py_eq (dget artifact ''mandate_id'') (pinned F ''MANDATE_ID'')
   \<and> py_eq (dget artifact ''status'') (JStr ''active'')
   \<and> py_eq (dget artifact ''issuer'') (pinned F ''AUTHORITY_ISSUER'')
   \<and> py_eq (dget artifact ''source_kind'') (JStr ''direct_founder_instruction'')
   \<and> py_eq (dget artifact ''quoted_instruction'') (pinned F ''MANDATE_QUOTED_INSTRUCTION'')
   \<and> py_eq (dget artifact ''recorded_at'') (pinned F ''MANDATE_RECORDED_AT'')
   \<and> py_eq (dget artifact ''governing_canon'') (pinned F ''MANDATE_GOVERNING_CANON'')
   \<and> py_eq (dget artifact ''executable_plan'') (pinned F ''MANDATE_EXECUTABLE_PLAN'')
   \<and> py_eq (dget artifact ''ordered_scope'') (JList (map JStr MANDATE_ORDERED_SCOPE))
   \<and> py_eq (dget artifact ''constraints'') (JList (map JStr MANDATE_CONSTRAINTS))
   \<and> dget artifact ''requires_additional_founder_go_within_scope'' = JBool False
   \<and> py_eq (dget artifact ''terminal_condition'') MANDATE_TERMINAL_CONDITION"

definition founder_mandate ::
    "founder_env \<Rightarrow> string \<Rightarrow> json \<Rightarrow> string \<Rightarrow> string \<Rightarrow> authority_error + mandate" where
  "founder_mandate F mandate_id0 artifact0 artifact_sha256 artifact_bytes =
     res_bind (required (JStr mandate_id0)) (\<lambda>mandate_id.
     res_bind (ensure (mandate_id_match mandate_id)) (\<lambda>_.
     res_bind (closed_mapping F MANDATE_KEYS artifact0) (\<lambda>artifact.
     res_bind (loads_bytes F artifact_bytes) (\<lambda>raw_artifact.
     res_bind (ensure (artifact_exact F mandate_id artifact
         \<and> py_eq raw_artifact (JObj artifact)
         \<and> py_eq (JStr (sha256 (fe_py F) artifact_bytes)) (pinned F ''MANDATE_ARTIFACT_SHA256'')
         \<and> py_eq (JStr artifact_sha256) (pinned F ''MANDATE_ARTIFACT_SHA256''))) (\<lambda>_.
     res_bind (timestamp F (dget artifact ''recorded_at'')) (\<lambda>_.
     res_bind (exact_digest is_hex64 (JStr artifact_sha256)) (\<lambda>digest.
       Inr \<lparr>md_mandate_id = mandate_id, md_artifact = artifact, md_artifact_sha256 = digest,
         md_artifact_bytes = artifact_bytes\<rparr>)))))))"

text \<open>The three classes read an artifact from bytes in the same way and differ in the constructor.\<close>

definition mandate_from_bytes ::
    "(founder_env \<Rightarrow> string \<Rightarrow> json \<Rightarrow> string \<Rightarrow> string \<Rightarrow> authority_error + mandate) \<Rightarrow> founder_env \<Rightarrow> string
       \<Rightarrow> authority_error + mandate" where
  "mandate_from_bytes cls F raw =
     res_bind (loads_bytes F raw) (\<lambda>artifact.
       case artifact of
         JObj kvs \<Rightarrow>
           cls F (case map_of kvs ''mandate_id'' of None \<Rightarrow> [] | Some v \<Rightarrow> py_str (fe_py F) v)
             artifact (sha256 (fe_py F) raw) raw
       | _ \<Rightarrow> Inl FounderAuthorityError)"

definition founder_from_bytes :: "founder_env \<Rightarrow> string \<Rightarrow> authority_error + mandate" where
  "founder_from_bytes = mandate_from_bytes founder_mandate"

definition founder_from_path :: "founder_env \<Rightarrow> string \<Rightarrow> authority_error + mandate" where
  "founder_from_path F p =
     (case fe_read_bytes F (path_of p) of None \<Rightarrow> Inl FileError | Some raw \<Rightarrow> founder_from_bytes F raw)"

definition issued_at :: "founder_env \<Rightarrow> mandate \<Rightarrow> authority_error + int" where
  "issued_at F m =
     (case fe_parse_iso F (py_replace ''Z'' ''+00:00'' (py_str (fe_py F) (dget (md_artifact m) ''recorded_at''))) of
        None \<Rightarrow> Inl IsoValueError
      | Some t \<Rightarrow>
          (let i = (case t of Aware i \<Rightarrow> i | Naive n \<Rightarrow> fe_local_utc F n)
           in if fe_utc_text F i = None then Inl TimeOverflow else Inr i))"

definition authority_ref :: "mandate \<Rightarrow> string" where
  "authority_ref m = ''founder://activation-mandate/'' @ md_mandate_id m"

end
