(* ===== verification/Founder_Subject.thy ===== *)
theory Founder_Subject
  imports Founder_Mandate
begin

text \<open>
  \<^verbatim>\<open>fleet_kernel/founder_authority.py\<close>, third part: the activation steps with their outcomes, roles,
  states and binding keys, and \<^verbatim>\<open>ActivationStepSubject\<close>, the exact subject of one step, with its
  canonical payload and digest.
\<close>

section \<open>Steps and outcomes\<close>

datatype activation_step =
    FINAL_RELEASE_INSTALL
  | PRIVILEGE_CLEANUP
  | SHADOW_MONDAY_1
  | SHADOW_MONDAY_2
  | SHADOW_MONDAY_3
  | SUPERVISED_LIVE_UPLOAD
  | MINI_CUTOVER
  | MINI_VERIFICATION
  | SCRIBE_ADMISSION
  | SCRIBE_VERIFICATION

fun step_value :: "activation_step \<Rightarrow> string" where
  "step_value FINAL_RELEASE_INSTALL = ''final-release-install''"
| "step_value PRIVILEGE_CLEANUP = ''privilege-cleanup''"
| "step_value SHADOW_MONDAY_1 = ''shadow-monday-1''"
| "step_value SHADOW_MONDAY_2 = ''shadow-monday-2''"
| "step_value SHADOW_MONDAY_3 = ''shadow-monday-3''"
| "step_value SUPERVISED_LIVE_UPLOAD = ''supervised-live-upload''"
| "step_value MINI_CUTOVER = ''mini-cutover''"
| "step_value MINI_VERIFICATION = ''mini-verification''"
| "step_value SCRIBE_ADMISSION = ''scribe-admission''"
| "step_value SCRIBE_VERIFICATION = ''scribe-verification''"

definition ALL_STEPS :: "activation_step list" where [table_simps]:
  "ALL_STEPS = [FINAL_RELEASE_INSTALL, PRIVILEGE_CLEANUP, SHADOW_MONDAY_1, SHADOW_MONDAY_2, SHADOW_MONDAY_3,
     SUPERVISED_LIVE_UPLOAD, MINI_CUTOVER, MINI_VERIFICATION, SCRIBE_ADMISSION, SCRIBE_VERIFICATION]"

datatype activation_outcome = OUT_INSTALL | OUT_PREPARE | OUT_APPROVE | OUT_DELIVER | OUT_VERIFY

definition STEP_OUTCOMES :: "(string \<times> activation_outcome) list" where [table_simps]:
  "STEP_OUTCOMES =
     [(''final-release-install'', OUT_INSTALL), (''privilege-cleanup'', OUT_INSTALL),
      (''shadow-monday-1'', OUT_PREPARE), (''shadow-monday-2'', OUT_PREPARE), (''shadow-monday-3'', OUT_PREPARE),
      (''supervised-live-upload'', OUT_DELIVER), (''mini-cutover'', OUT_APPROVE),
      (''mini-verification'', OUT_VERIFY), (''scribe-admission'', OUT_INSTALL), (''scribe-verification'', OUT_VERIFY)]"

text \<open>A step is given as the enum member or as any text.\<close>

datatype step_arg = StepMember activation_step | StepText string

definition step_outcome :: "step_arg \<Rightarrow> authority_error + activation_outcome" where
  "step_outcome a =
     (case map_of STEP_OUTCOMES (case a of StepMember s \<Rightarrow> step_value s | StepText t \<Rightarrow> t) of
        None \<Rightarrow> Inl FounderAuthorityError
      | Some out \<Rightarrow> Inr out)"

definition MANDATE_SEQUENCE :: "string list" where [table_simps]:
  "MANDATE_SEQUENCE = map step_value [FINAL_RELEASE_INSTALL, PRIVILEGE_CLEANUP, SUPERVISED_LIVE_UPLOAD,
     MINI_CUTOVER, MINI_VERIFICATION, SCRIBE_ADMISSION, SCRIBE_VERIFICATION]"

text \<open>\<^verbatim>\<open>ActivationStep(text)\<close>.\<close>

definition step_of :: "step_arg \<Rightarrow> activation_step option" where
  "step_of a = (case a of StepMember s \<Rightarrow> Some s | StepText t \<Rightarrow> find (\<lambda>s. step_value s = t) ALL_STEPS)"

section \<open>The tables of a step\<close>

definition STABLE_KEYS :: "string list" where [table_simps]:
  "STABLE_KEYS = [''approval_id'', ''runtime_host_identity_sha256'', ''runtime_executable_sha256'']"

definition COMMON_KEYS :: "string list" where [table_simps]:
  "COMMON_KEYS = STABLE_KEYS @ [''runtime_boot_id_sha256'']"

definition SHADOW_KEYS :: "string list" where [table_simps]:
  "SHADOW_KEYS = COMMON_KEYS @
     [''shadow_ordinal'', ''service_date'', ''shadow_input_sha256'', ''shadow_plan_sha256'', ''fence_mode'']"

fun STEP_BINDING_KEYS :: "activation_step \<Rightarrow> string list" where
  "STEP_BINDING_KEYS FINAL_RELEASE_INSTALL = COMMON_KEYS @
     [''review_receipt_sha256'', ''installation_root_sha256'', ''installer_plan_sha256'']"
| "STEP_BINDING_KEYS PRIVILEGE_CLEANUP = COMMON_KEYS @
     [''sudoers_rule_sha256'', ''cleanup_plan_sha256'', ''absence_probe_plan_sha256'']"
| "STEP_BINDING_KEYS SHADOW_MONDAY_1 = SHADOW_KEYS"
| "STEP_BINDING_KEYS SHADOW_MONDAY_2 = SHADOW_KEYS"
| "STEP_BINDING_KEYS SHADOW_MONDAY_3 = SHADOW_KEYS"
| "STEP_BINDING_KEYS SUPERVISED_LIVE_UPLOAD = COMMON_KEYS @
     [''operator_approval_id'', ''objective_id'', ''run_id'', ''attempt_id'', ''idempotency_key'',
      ''effect_payload_sha256'', ''prepared_output_sha256'', ''legacy_authority_sha256'', ''mode'']"
| "STEP_BINDING_KEYS MINI_CUTOVER = STABLE_KEYS @
     [''migration_id'', ''legacy_disable_receipt_sha256'', ''host_attestation_sha256'', ''authority_root_sha256'',
      ''cutover_pointer_before_sha256'', ''cutover_pointer_after_sha256'']"
| "STEP_BINDING_KEYS MINI_VERIFICATION = COMMON_KEYS @
     [''migration_id'', ''canary_receipt_sha256'', ''real_workflow_receipt_sha256'', ''reconciliation_receipt_sha256'',
      ''restart_receipt_sha256'', ''rollback_receipt_sha256'', ''final_transition_receipt_sha256'']"
| "STEP_BINDING_KEYS SCRIBE_ADMISSION = COMMON_KEYS @
     [''admission_id'', ''deployment_id'', ''worker_id'', ''worker_session_id'', ''agent_release_sha256'', ''task_id'',
      ''claude_session_id'', ''process_id'', ''process_start_fingerprint_sha256'', ''admission_epoch'',
      ''lease_expires_at'', ''runtime_executable_path'', ''runtime_lock_path'', ''authority_mode'',
      ''authority_root_admission_id'', ''prior_admission_id'', ''recovery_intent_id'',
      ''prior_rollback_receipt_sha256'', ''restart_intent_sha256'']"
| "STEP_BINDING_KEYS SCRIBE_VERIFICATION = COMMON_KEYS @
     [''admission_id'', ''deployment_id'', ''worker_id'', ''admission_epoch'', ''admission_receipt_sha256'',
      ''singleton_probe_sha256'', ''persistence_probe_sha256'', ''restart_probe_sha256'', ''receipts_manifest_sha256'']"

text \<open>The states are objects of texts.\<close>

definition texts :: "(string \<times> string) list \<Rightarrow> json" where
  "texts kvs = JObj (map (\<lambda>(k, v). (k, JStr v)) kvs)"

fun PRE_STATES :: "activation_step \<Rightarrow> json" where
  "PRE_STATES FINAL_RELEASE_INSTALL = texts [(''release_state'', ''reviewed-held''), (''effect_state'', ''not-started'')]"
| "PRE_STATES PRIVILEGE_CLEANUP = texts [(''prior_step'', ''final-release-install''), (''nopasswd_rule'', ''present'')]"
| "PRE_STATES SHADOW_MONDAY_1 = texts [(''prior_step'', ''privilege-cleanup''), (''effect_state'', ''fenced'')]"
| "PRE_STATES SHADOW_MONDAY_2 = texts [(''prior_step'', ''shadow-monday-1''), (''effect_state'', ''fenced'')]"
| "PRE_STATES SHADOW_MONDAY_3 = texts [(''prior_step'', ''shadow-monday-2''), (''effect_state'', ''fenced'')]"
| "PRE_STATES SUPERVISED_LIVE_UPLOAD = texts [(''prior_step'', ''privilege-cleanup''),
     (''upload_effect'', ''not-started''), (''submit_effect'', ''fenced'')]"
| "PRE_STATES MINI_CUTOVER = texts [(''prior_step'', ''supervised-live-upload''),
     (''restaurant_fleet_authority'', ''legacy-runtime''), (''mini_kernel_authority'', ''installed-held'')]"
| "PRE_STATES MINI_VERIFICATION = texts [(''prior_step'', ''mini-cutover''),
     (''restaurant_fleet_authority'', ''mini-kernel''), (''verification_state'', ''unverified'')]"
| "PRE_STATES SCRIBE_ADMISSION = texts [(''company_fleet'', ''active''), (''scribe_authority'', ''absent'')]"
| "PRE_STATES SCRIBE_VERIFICATION = texts [(''prior_step'', ''scribe-admission''), (''scribe_authority'', ''live''),
     (''verification_state'', ''unverified'')]"

text \<open>\<open>scribe\<close> is the Scribe deployment that the table reads when the module is loaded.\<close>

fun POST_STATES :: "string \<Rightarrow> activation_step \<Rightarrow> json" where
  "POST_STATES scribe FINAL_RELEASE_INSTALL = texts [(''release_state'', ''installed-held''), (''effect_state'', ''completed'')]"
| "POST_STATES scribe PRIVILEGE_CLEANUP = texts [(''step_state'', ''completed''), (''nopasswd_rule'', ''absent'')]"
| "POST_STATES scribe SHADOW_MONDAY_1 = texts [(''step_state'', ''completed''), (''external_effect'', ''none'')]"
| "POST_STATES scribe SHADOW_MONDAY_2 = texts [(''step_state'', ''completed''), (''external_effect'', ''none'')]"
| "POST_STATES scribe SHADOW_MONDAY_3 = texts [(''step_state'', ''completed''), (''external_effect'', ''none'')]"
| "POST_STATES scribe SUPERVISED_LIVE_UPLOAD = texts [(''step_state'', ''completed-never-submit''),
     (''external_effect'', ''upload-completed''), (''submission_effect'', ''none'')]"
| "POST_STATES scribe MINI_CUTOVER = texts [(''restaurant_fleet_authority'', ''mini-kernel''), (''legacy_runtime'', ''disabled'')]"
| "POST_STATES scribe MINI_VERIFICATION = texts [(''restaurant_fleet_authority'', ''mini-kernel''),
     (''canary'', ''passed''), (''real_workflow'', ''reconciled''), (''reconciliation'', ''passed''),
     (''restart'', ''passed''), (''rollback'', ''passed''), (''recutover'', ''passed''), (''final_route'', ''kernel'')]"
| "POST_STATES scribe SCRIBE_ADMISSION = texts [(''company_fleet'', ''active''), (''scribe_authority'', ''live''),
     (''deployment_id'', scribe)]"
| "POST_STATES scribe SCRIBE_VERIFICATION = texts [(''scribe_authority'', ''live''), (''singleton'', ''verified''),
     (''persistence'', ''verified''), (''restart'', ''passed''), (''receipts'', ''verified'')]"

fun STEP_ROLES :: "activation_step \<Rightarrow> string" where
  "STEP_ROLES SUPERVISED_LIVE_UPLOAD = ''browser_navigator''"
| "STEP_ROLES SCRIBE_ADMISSION = ''scribe''"
| "STEP_ROLES SCRIBE_VERIFICATION = ''scribe''"
| "STEP_ROLES _ = ''ccto''"

section \<open>The bindings of a step\<close>

definition uuids :: "founder_env \<Rightarrow> (string \<times> json) list \<Rightarrow> string list \<Rightarrow> authority_error + unit" where
  "uuids F b = all_res (\<lambda>field. res_bind (uuid_arg F (dget b field)) (\<lambda>_. Inr ()))"

definition digests :: "(string \<times> json) list \<Rightarrow> string list \<Rightarrow> authority_error + unit" where
  "digests b = all_res (\<lambda>field. res_bind (exact_digest is_hex64 (dget b field)) (\<lambda>_. Inr ()))"

definition configured_scribe :: "founder_env \<Rightarrow> (string \<times> json) list \<Rightarrow> authority_error + unit" where
  "configured_scribe F b =
     res_bind (configured (scribe_deployment_id (fe_environ F))) (\<lambda>scribe.
       ensure (py_eq (dget b ''deployment_id'') (JStr scribe)))"

fun shadow_ordinal :: "activation_step \<Rightarrow> int" where
  "shadow_ordinal SHADOW_MONDAY_1 = 1"
| "shadow_ordinal SHADOW_MONDAY_2 = 2"
| "shadow_ordinal SHADOW_MONDAY_3 = 3"
| "shadow_ordinal _ = 0"

definition validate_shadow :: "activation_step \<Rightarrow> (string \<times> json) list \<Rightarrow> authority_error + unit" where
  "validate_shadow step b =
     res_bind (positive (dget b ''shadow_ordinal'')) (\<lambda>n.
     res_bind (ensure (n = shadow_ordinal step)) (\<lambda>_.
     res_bind (required (dget b ''service_date'')) (\<lambda>t.
       case date_fromisoformat t of
         None \<Rightarrow> Inl FounderAuthorityError
       | Some day \<Rightarrow>
           res_bind (ensure (weekday day = 0)) (\<lambda>_.
           res_bind (digests b [''shadow_input_sha256'', ''shadow_plan_sha256'']) (\<lambda>_.
             ensure (py_eq (dget b ''fence_mode'') (JStr ''shadow-no-effect'')))))))"

definition validate_upload :: "founder_env \<Rightarrow> (string \<times> json) list \<Rightarrow> authority_error + unit" where
  "validate_upload F b =
     res_bind (uuids F b [''operator_approval_id'', ''objective_id'', ''run_id'']) (\<lambda>_.
     res_bind (required (dget b ''attempt_id'')) (\<lambda>_.
     res_bind (required (dget b ''idempotency_key'')) (\<lambda>key.
     res_bind (ensure (16 \<le> length key)) (\<lambda>_.
     res_bind (digests b [''effect_payload_sha256'', ''prepared_output_sha256'', ''legacy_authority_sha256'']) (\<lambda>_.
       ensure (py_eq (dget b ''mode'') (JStr ''never-submit'')))))))"

definition validate_cutover :: "founder_env \<Rightarrow> (string \<times> json) list \<Rightarrow> authority_error + unit" where
  "validate_cutover F b =
     res_bind (uuids F b [''migration_id'']) (\<lambda>_.
     res_bind (digests b [''legacy_disable_receipt_sha256'', ''host_attestation_sha256'', ''authority_root_sha256'',
        ''cutover_pointer_before_sha256'', ''cutover_pointer_after_sha256'']) (\<lambda>_.
       ensure (\<not> py_eq (dget b ''cutover_pointer_before_sha256'') (dget b ''cutover_pointer_after_sha256''))))"

definition safe_posix_path :: "json \<Rightarrow> authority_error + unit" where
  "safe_posix_path v =
     res_bind (required v) (\<lambda>t. ensure (is_absolute (path_of t) \<and> ''..'' \<notin> set (path_of t)))"

text \<open>The last part of a Scribe admission: it is initial, without any trace of a recovery, or a recovery.\<close>

definition RECOVERY_FIELDS :: "string list" where [table_simps]:
  "RECOVERY_FIELDS = [''prior_admission_id'', ''recovery_intent_id'', ''prior_rollback_receipt_sha256'', ''restart_intent_sha256'']"

definition validate_authority_mode :: "founder_env \<Rightarrow> (string \<times> json) list \<Rightarrow> authority_error + unit" where
  "validate_authority_mode F b =
     res_bind (uuid_arg F (dget b ''authority_root_admission_id'')) (\<lambda>root_id.
     res_bind (uuid_arg F (dget b ''admission_id'')) (\<lambda>admission_id.
       if py_eq (dget b ''authority_mode'') (JStr ''initial-local-activation'')
       then ensure (root_id = admission_id \<and> list_all (\<lambda>field. dget b field = JNull) RECOVERY_FIELDS)
       else if py_eq (dget b ''authority_mode'') (JStr ''standing-mandate-recovery'')
       then res_bind (ensure (root_id \<noteq> admission_id)) (\<lambda>_.
            res_bind (uuids F b [''prior_admission_id'', ''recovery_intent_id'']) (\<lambda>_.
              digests b [''prior_rollback_receipt_sha256'', ''restart_intent_sha256'']))
       else Inl FounderAuthorityError))"

definition validate_admission :: "founder_env \<Rightarrow> (string \<times> json) list \<Rightarrow> authority_error + unit" where
  "validate_admission F b =
     res_bind (uuids F b [''admission_id'', ''worker_id'', ''worker_session_id'']) (\<lambda>_.
     res_bind (configured_scribe F b) (\<lambda>_.
     res_bind (digests b [''agent_release_sha256'']) (\<lambda>_.
     res_bind (required (dget b ''task_id'')) (\<lambda>_.
     res_bind (required (dget b ''claude_session_id'')) (\<lambda>_.
     res_bind (positive (dget b ''process_id'')) (\<lambda>pid.
     res_bind (ensure (1 < pid)) (\<lambda>_.
     res_bind (digests b [''process_start_fingerprint_sha256'']) (\<lambda>_.
     res_bind (positive (dget b ''admission_epoch'')) (\<lambda>_.
     res_bind (timestamp F (dget b ''lease_expires_at'')) (\<lambda>_.
     res_bind (safe_posix_path (dget b ''runtime_executable_path'')) (\<lambda>_.
     res_bind (safe_posix_path (dget b ''runtime_lock_path'')) (\<lambda>_.
       validate_authority_mode F b))))))))))))"

definition validate_scribe_verification :: "founder_env \<Rightarrow> (string \<times> json) list \<Rightarrow> authority_error + unit" where
  "validate_scribe_verification F b =
     res_bind (uuids F b [''admission_id'', ''worker_id'']) (\<lambda>_.
     res_bind (configured_scribe F b) (\<lambda>_.
     res_bind (positive (dget b ''admission_epoch'')) (\<lambda>_.
       digests b [''admission_receipt_sha256'', ''singleton_probe_sha256'', ''persistence_probe_sha256'',
         ''restart_probe_sha256'', ''receipts_manifest_sha256''])))"

fun validate_step :: "founder_env \<Rightarrow> activation_step \<Rightarrow> (string \<times> json) list \<Rightarrow> authority_error + unit" where
  "validate_step F FINAL_RELEASE_INSTALL b =
     digests b [''review_receipt_sha256'', ''installation_root_sha256'', ''installer_plan_sha256'']"
| "validate_step F PRIVILEGE_CLEANUP b =
     digests b [''sudoers_rule_sha256'', ''cleanup_plan_sha256'', ''absence_probe_plan_sha256'']"
| "validate_step F SUPERVISED_LIVE_UPLOAD b = validate_upload F b"
| "validate_step F MINI_CUTOVER b = validate_cutover F b"
| "validate_step F MINI_VERIFICATION b =
     res_bind (uuids F b [''migration_id'']) (\<lambda>_.
       digests b [''canary_receipt_sha256'', ''real_workflow_receipt_sha256'', ''reconciliation_receipt_sha256'',
         ''restart_receipt_sha256'', ''rollback_receipt_sha256'', ''final_transition_receipt_sha256''])"
| "validate_step F SCRIBE_ADMISSION b = validate_admission F b"
| "validate_step F SCRIBE_VERIFICATION b = validate_scribe_verification F b"
| "validate_step F shadow_step b = validate_shadow shadow_step b"

definition validate_binding :: "founder_env \<Rightarrow> activation_step \<Rightarrow> (string \<times> json) list \<Rightarrow> authority_error + unit" where
  "validate_binding F step b =
     res_bind (uuids F b [''approval_id'']) (\<lambda>_.
     res_bind (digests b [''runtime_host_identity_sha256'', ''runtime_executable_sha256'']) (\<lambda>_.
     res_bind (if step = MINI_CUTOVER then Inr () else digests b [''runtime_boot_id_sha256'']) (\<lambda>_.
       validate_step F step b)))"

section \<open>The subject of a step\<close>

datatype uuid_value = UuidObject nat | UuidText string

record subject_args =
  sa_mandate_id :: string
  sa_step :: step_arg
  sa_tenant_id :: string
  sa_role :: string
  sa_release_commit_sha :: string
  sa_release_tree_sha :: string
  sa_release_digest_sha256 :: string
  sa_package_id :: uuid_value
  sa_package_sha256 :: string
  sa_attempt_key :: string
  sa_pre_state :: json
  sa_post_state :: json
  sa_activation_binding :: json

record step_subject =
  ss_mandate_id :: string
  ss_step :: activation_step
  ss_tenant_id :: string
  ss_role :: string
  ss_release_commit_sha :: string
  ss_release_tree_sha :: string
  ss_release_digest_sha256 :: string
  ss_package_id :: nat
  ss_package_sha256 :: string
  ss_attempt_key :: string
  ss_pre_state :: "(string \<times> json) list"
  ss_post_state :: "(string \<times> json) list"
  ss_activation_binding :: "(string \<times> json) list"

definition package_uuid :: "uuid_value \<Rightarrow> authority_error + nat" where
  "package_uuid v =
     (case v of
        UuidObject n \<Rightarrow> Inr n
      | UuidText t \<Rightarrow> (case uuid_parse t of None \<Rightarrow> Inl FounderAuthorityError | Some n \<Rightarrow> Inr n))"

text \<open>The first bind is the module's own loading, which evaluates \<^verbatim>\<open>_POST_STATES\<close>.\<close>

definition activation_step_subject :: "founder_env \<Rightarrow> subject_args \<Rightarrow> authority_error + step_subject" where
  "activation_step_subject F a =
     res_bind (configured (scribe_deployment_id (fe_environ F))) (\<lambda>scribe.
     res_bind (required (JStr (sa_mandate_id a))) (\<lambda>mandate_id.
     res_bind (ensure (mandate_id_match mandate_id)) (\<lambda>_.
     res_bind (case step_of (sa_step a) of None \<Rightarrow> Inl FounderAuthorityError | Some s \<Rightarrow> Inr s) (\<lambda>step.
     res_bind (required (JStr (sa_tenant_id a))) (\<lambda>tenant.
     res_bind (ensure (sa_role a = STEP_ROLES step)) (\<lambda>_.
     res_bind (exact_digest git_sha_match (JStr (sa_release_commit_sha a))) (\<lambda>commit.
     res_bind (exact_digest git_sha_match (JStr (sa_release_tree_sha a))) (\<lambda>tree.
     res_bind (exact_digest is_hex64 (JStr (sa_release_digest_sha256 a))) (\<lambda>release.
     res_bind (package_uuid (sa_package_id a)) (\<lambda>package.
     res_bind (exact_digest is_hex64 (JStr (sa_package_sha256 a))) (\<lambda>package_sha.
     res_bind (required (JStr (sa_attempt_key a))) (\<lambda>attempt.
     res_bind (ensure (16 \<le> length attempt)) (\<lambda>_.
     res_bind (canonical_mapping F (sa_pre_state a)) (\<lambda>pre.
     res_bind (canonical_mapping F (sa_post_state a)) (\<lambda>post.
     res_bind (ensure (py_eq (JObj pre) (PRE_STATES step) \<and> py_eq (JObj post) (POST_STATES scribe step))) (\<lambda>_.
     res_bind (closed_mapping F (STEP_BINDING_KEYS step) (sa_activation_binding a)) (\<lambda>binding.
     res_bind (validate_binding F step binding) (\<lambda>_.
       Inr \<lparr>ss_mandate_id = mandate_id, ss_step = step, ss_tenant_id = tenant, ss_role = sa_role a,
         ss_release_commit_sha = commit, ss_release_tree_sha = tree, ss_release_digest_sha256 = release,
         ss_package_id = package, ss_package_sha256 = package_sha, ss_attempt_key = attempt,
         ss_pre_state = pre, ss_post_state = post, ss_activation_binding = binding\<rparr>))))))))))))))))))"

text \<open>
  \<^verbatim>\<open>ActivationStepSubject.exact\<close>: the caller names the step, the tables give the rest. A step is a \<^verbatim>\<open>str\<close>, so its
  text finds the entry of the table too, and any other text is a \<^verbatim>\<open>KeyError\<close>.
\<close>

definition exact_subject :: "founder_env \<Rightarrow> subject_args \<Rightarrow> authority_error + step_subject" where
  "exact_subject F a =
     res_bind (configured (scribe_deployment_id (fe_environ F))) (\<lambda>scribe.
       case step_of (sa_step a) of
         None \<Rightarrow> Inl StepKeyError
       | Some step \<Rightarrow>
           activation_step_subject F (a\<lparr>sa_role := STEP_ROLES step, sa_pre_state := PRE_STATES step,
             sa_post_state := POST_STATES scribe step\<rparr>))"

definition SUBJECT_SCHEMA :: string where "SUBJECT_SCHEMA = ''mise.founder-activation-step-subject.v1''"

definition subject_payload :: "step_subject \<Rightarrow> (string \<times> json) list" where
  "subject_payload s =
     [(''schema'', JStr SUBJECT_SCHEMA),
      (''mandate_id'', JStr (ss_mandate_id s)),
      (''step'', JStr (step_value (ss_step s))),
      (''attempt_key'', JStr (ss_attempt_key s)),
      (''tenant_id'', JStr (ss_tenant_id s)),
      (''role'', JStr (ss_role s)),
      (''release'', JObj
         [(''commit_sha'', JStr (ss_release_commit_sha s)), (''tree_sha'', JStr (ss_release_tree_sha s)),
          (''digest_sha256'', JStr (ss_release_digest_sha256 s))]),
      (''package'', JObj [(''id'', JStr (uuid_text (ss_package_id s))), (''sha256'', JStr (ss_package_sha256 s))]),
      (''pre_state'', JObj (ss_pre_state s)),
      (''post_state'', JObj (ss_post_state s)),
      (''activation_binding'', JObj (ss_activation_binding s))]"

definition subject_sha256 :: "founder_env \<Rightarrow> step_subject \<Rightarrow> string" where
  "subject_sha256 F s = sha256 (fe_py F) (authority_bytes F (subject_payload s))"

definition subject_ref :: "founder_env \<Rightarrow> step_subject \<Rightarrow> string" where
  "subject_ref F s = ''founder://activation-step/'' @ ss_mandate_id s @ ''/'' @ step_value (ss_step s) @ ''/'' @ subject_sha256 F s"

definition subject_approval_id :: "founder_env \<Rightarrow> step_subject \<Rightarrow> nat option" where
  "subject_approval_id F s = uuid_parse (py_str (fe_py F) (dget (ss_activation_binding s) ''approval_id''))"

end
