(* ===== verification/Role_Mandate.thy ===== *)
theory Role_Mandate
  imports Founder_Mandate
begin

text \<open>
  \<^verbatim>\<open>fleet_kernel/founder_authority.py\<close>, second part: the Phase-4 mandate over the company roles, which
  cannot be recorded while its pins are unset, the mandate of the utility role, and
  \<^verbatim>\<open>load_company_role_mandate\<close>. The Phase-4 constructor is split into the checks of its parts, in the
  order of the code.
\<close>

section \<open>The parts of a Phase-4 artifact\<close>

definition is_json_bool :: "json \<Rightarrow> bool" where
  "is_json_bool v \<longleftrightarrow> (case v of JBool _ \<Rightarrow> True | _ \<Rightarrow> False)"

definition phase4_identity :: "founder_env \<Rightarrow> string \<Rightarrow> (string \<times> json) list \<Rightarrow> authority_error + unit" where
  "phase4_identity F mandate_id artifact =
     res_bind (ensure
        (py_eq (dget artifact ''schema'') (JStr PHASE4_MANDATE_SCHEMA)
       \<and> py_eq (dget artifact ''mandate_id'') (JStr mandate_id)
       \<and> py_eq (dget artifact ''status'') (JStr ''active'')
       \<and> py_eq (dget artifact ''issuer'') (pinned F ''AUTHORITY_ISSUER'')
       \<and> py_eq (dget artifact ''source_kind'') (JStr ''direct_founder_instruction''))) (\<lambda>_.
     res_bind (configured (company_id (fe_environ F))) (\<lambda>company.
       ensure
        (py_eq (dget artifact ''company_id'') (JStr company)
       \<and> py_eq (dget artifact ''host_kind'') (JStr ''macbook'')
       \<and> is_json_bool (dget artifact ''requires_additional_founder_go_within_scope''))))"

definition phase4_provenance :: "founder_env \<Rightarrow> (string \<times> json) list \<Rightarrow> authority_error + unit" where
  "phase4_provenance F artifact =
     res_bind (required (dget artifact ''quoted_instruction'')) (\<lambda>_.
     res_bind (timestamp F (dget artifact ''recorded_at'')) (\<lambda>_.
     res_bind (closed_mapping F [''path'', ''sha256''] (dget artifact ''governing_canon'')) (\<lambda>governing.
     res_bind (required (dget governing ''path'')) (\<lambda>_.
     res_bind (exact_digest is_hex64 (dget governing ''sha256'')) (\<lambda>_.
     res_bind (closed_mapping F [''path'', ''commit_sha'', ''tree_sha''] (dget artifact ''executable_plan'')) (\<lambda>plan.
     res_bind (required (dget plan ''path'')) (\<lambda>_.
     res_bind (exact_digest git_sha_match (dget plan ''commit_sha'')) (\<lambda>_.
     res_bind (exact_digest git_sha_match (dget plan ''tree_sha'')) (\<lambda>_. Inr ())))))))))"

definition phase4_preserved :: "founder_env \<Rightarrow> (string \<times> json) list \<Rightarrow> authority_error + unit" where
  "phase4_preserved F artifact =
     res_bind (closed_mapping F
        [''deployment_id'', ''package_sha256'', ''admission_epoch'', ''process_id'', ''preservation_rule'']
        (dget artifact ''preserved_live_subject'')) (\<lambda>preserved.
     res_bind (configured (scribe_deployment_id (fe_environ F))) (\<lambda>scribe.
     res_bind (ensure (py_eq (dget preserved ''deployment_id'') (JStr scribe))) (\<lambda>_.
     res_bind (exact_digest is_hex64 (dget preserved ''package_sha256'')) (\<lambda>_.
     res_bind (positive (dget preserved ''admission_epoch'')) (\<lambda>_.
     res_bind (positive (dget preserved ''process_id'')) (\<lambda>pid.
     res_bind (ensure (1 < pid)) (\<lambda>_.
     res_bind (required (dget preserved ''preservation_rule'')) (\<lambda>_. Inr ()))))))))"

text \<open>
  The loop over \<^verbatim>\<open>ordered_roles\<close>. Its state is the canonical roles so far; the three sets of what was
  seen are the columns of that list.
\<close>

record role_entry =
  re_role_type :: string
  re_deployment_id :: string
  re_worker_id :: string

definition phase4_role :: "founder_env \<Rightarrow> role_entry list \<Rightarrow> json \<Rightarrow> authority_error + role_entry list" where
  "phase4_role F seen item =
     res_bind (closed_mapping F [''role_type'', ''deployment_id'', ''worker_id''] item) (\<lambda>role.
     res_bind (required (dget role ''role_type'')) (\<lambda>role_type.
     res_bind (required (dget role ''deployment_id'')) (\<lambda>deployment_id.
     res_bind (uuid_arg F (dget role ''worker_id'')) (\<lambda>worker_id.
       if role_type \<notin> set PHASE4_COMPANY_ROLE_TYPES then Inl FounderAuthorityError
       else if role_type \<in> re_role_type ` set seen \<or> deployment_id \<in> re_deployment_id ` set seen
         \<or> worker_id \<in> re_worker_id ` set seen then Inl FounderAuthorityError
       else Inr (seen @ [\<lparr>re_role_type = role_type, re_deployment_id = deployment_id, re_worker_id = worker_id\<rparr>])))))"

definition phase4_roles :: "founder_env \<Rightarrow> json \<Rightarrow> authority_error + role_entry list" where
  "phase4_roles F v =
     (case v of
        JList items \<Rightarrow> if items = [] then Inl FounderAuthorityError else fold_res (phase4_role F) [] items
      | _ \<Rightarrow> Inl FounderAuthorityError)"

definition nonblank_json :: "json \<Rightarrow> bool" where
  "nonblank_json v \<longleftrightarrow> (case v of JStr s \<Rightarrow> nonblank s | _ \<Rightarrow> False)"

definition unique_strings :: "json \<Rightarrow> authority_error + unit" where
  "unique_strings v =
     (case v of
        JList items \<Rightarrow> ensure (items \<noteq> [] \<and> list_all nonblank_json items \<and> distinct items)
      | _ \<Rightarrow> Inl FounderAuthorityError)"

definition RECOVERY_AXES :: "string list" where [table_simps]:
  "RECOVERY_AXES =
     [''same_role'', ''same_deployment'', ''same_release'', ''same_host'', ''same_authority_root'', ''monotonic_epochs_only'']"

definition phase4_terminal :: "founder_env \<Rightarrow> (string \<times> json) list \<Rightarrow> authority_error + unit" where
  "phase4_terminal F artifact =
     res_bind (closed_mapping F
        [''completion_rule'', ''terminal_status'', ''authorization_valid_after_terminal'', ''recovery_only_contract'']
        (dget artifact ''terminal_condition'')) (\<lambda>terminal.
     res_bind (required (dget terminal ''completion_rule'')) (\<lambda>_.
     res_bind (ensure (py_eq (dget terminal ''terminal_status'') (JStr ''completed''))) (\<lambda>_.
     res_bind (ensure (dget terminal ''authorization_valid_after_terminal'' = JBool False)) (\<lambda>_.
     res_bind (closed_mapping F RECOVERY_AXES (dget terminal ''recovery_only_contract'')) (\<lambda>recovery.
       ensure (list_all (\<lambda>(k, v). v = JBool True) recovery))))))"

definition phase4_rollback :: "founder_env \<Rightarrow> (string \<times> json) list \<Rightarrow> authority_error + unit" where
  "phase4_rollback F artifact =
     res_bind (closed_mapping F [''per_role_target'', ''fence_order'', ''proof_required''] (dget artifact ''rollback_policy''))
       (all_res (\<lambda>(k, v). res_bind (required v) (\<lambda>_. Inr ())))"

section \<open>The Phase-4 mandate\<close>

definition phase4_mandate ::
    "founder_env \<Rightarrow> string \<Rightarrow> json \<Rightarrow> string \<Rightarrow> string \<Rightarrow> authority_error + mandate" where
  "phase4_mandate F mandate_id0 artifact0 artifact_sha256 artifact_bytes =
     res_bind (required (JStr mandate_id0)) (\<lambda>mandate_id.
     res_bind (ensure (mandate_id_match mandate_id)) (\<lambda>_.
     res_bind (closed_mapping F PHASE4_MANDATE_KEYS artifact0) (\<lambda>artifact.
     res_bind (loads_bytes F artifact_bytes) (\<lambda>raw_artifact.
     res_bind (ensure (py_eq raw_artifact (JObj artifact) \<and> sha256 (fe_py F) artifact_bytes = artifact_sha256)) (\<lambda>_.
     res_bind (phase4_identity F mandate_id artifact) (\<lambda>_.
     res_bind (phase4_provenance F artifact) (\<lambda>_.
     res_bind (phase4_preserved F artifact) (\<lambda>_.
     res_bind (phase4_roles F (dget artifact ''ordered_roles'')) (\<lambda>_.
     res_bind (all_res (\<lambda>field. unique_strings (dget artifact field))
        [''ordered_scope'', ''constraints'', ''receipt_requirements'']) (\<lambda>_.
     res_bind (phase4_terminal F artifact) (\<lambda>_.
     res_bind (phase4_rollback F artifact) (\<lambda>_.
     res_bind (exact_digest is_hex64 (JStr artifact_sha256)) (\<lambda>digest.
       Inr \<lparr>md_mandate_id = mandate_id, md_artifact = artifact, md_artifact_sha256 = digest,
         md_artifact_bytes = artifact_bytes\<rparr>)))))))))))))"

text \<open>Both recording guards compare the pins with the constructed mandate.\<close>

definition phase4_require_recordable :: "founder_env \<Rightarrow> mandate \<Rightarrow> authority_error + unit" where
  "phase4_require_recordable F m =
     (if pin F ''PHASE4_MANDATE_ID'' = None \<or> pin F ''PHASE4_MANDATE_ARTIFACT_SHA256'' = None
      then Inl FounderAuthorityError
      else ensure (Some (md_mandate_id m) = pin F ''PHASE4_MANDATE_ID''
        \<and> Some (md_artifact_sha256 m) = pin F ''PHASE4_MANDATE_ARTIFACT_SHA256''))"

definition phase4_from_bytes :: "founder_env \<Rightarrow> string \<Rightarrow> authority_error + mandate" where
  "phase4_from_bytes = mandate_from_bytes phase4_mandate"

text \<open>The two role mandates are read from an absolute path without \<^verbatim>\<open>..\<close>.\<close>

definition safe_path :: "string \<Rightarrow> bool" where
  "safe_path p \<longleftrightarrow> is_absolute (path_of p) \<and> ''..'' \<notin> set (path_of p)"

definition mandate_from_path ::
    "(founder_env \<Rightarrow> string \<Rightarrow> authority_error + mandate) \<Rightarrow> founder_env \<Rightarrow> string \<Rightarrow> authority_error + mandate" where
  "mandate_from_path from_bytes F p =
     (if \<not> safe_path p then Inl FounderAuthorityError
      else (case fe_read_bytes F (path_of p) of None \<Rightarrow> Inl FileError | Some raw \<Rightarrow> from_bytes F raw))"

definition phase4_from_path :: "founder_env \<Rightarrow> string \<Rightarrow> authority_error + mandate" where
  "phase4_from_path = mandate_from_path phase4_from_bytes"

section \<open>The utility mandate\<close>

definition utility_identity :: "founder_env \<Rightarrow> string \<Rightarrow> (string \<times> json) list \<Rightarrow> authority_error + unit" where
  "utility_identity F mandate_id artifact =
     res_bind (ensure
        (py_eq (dget artifact ''schema'') (JStr UTILITY_MANDATE_SCHEMA)
       \<and> py_eq (dget artifact ''mandate_id'') (JStr mandate_id)
       \<and> py_eq (dget artifact ''status'') (JStr ''active'')
       \<and> py_eq (dget artifact ''issuer'') (pinned F ''AUTHORITY_ISSUER'')
       \<and> py_eq (dget artifact ''source_kind'') (JStr ''direct_founder_instruction''))) (\<lambda>_.
     res_bind (configured (company_id (fe_environ F))) (\<lambda>company.
       ensure (py_eq (dget artifact ''company_id'') (JStr company) \<and> py_eq (dget artifact ''host_kind'') (JStr ''macbook''))))"

definition utility_role :: "founder_env \<Rightarrow> json \<Rightarrow> authority_error + unit" where
  "utility_role F v =
     (case v of
        JList [item] \<Rightarrow>
          res_bind (closed_mapping F [''role_type'', ''deployment_id'', ''worker_id''] item) (\<lambda>role.
            ensure (py_eq (dget role ''role_type'') (JStr ''utility'')
              \<and> py_eq (dget role ''deployment_id'') (pinned F ''UTILITY_DEPLOYMENT_ID'')
              \<and> Some (py_str (fe_py F) (dget role ''worker_id'')) = pin F ''UTILITY_WORKER_ID''))
      | _ \<Rightarrow> Inl FounderAuthorityError)"

definition utility_mandate ::
    "founder_env \<Rightarrow> string \<Rightarrow> json \<Rightarrow> string \<Rightarrow> string \<Rightarrow> authority_error + mandate" where
  "utility_mandate F mandate_id0 artifact0 artifact_sha256 artifact_bytes =
     res_bind (required (JStr mandate_id0)) (\<lambda>mandate_id.
     res_bind (ensure (Some mandate_id = pin F ''UTILITY_MANDATE_ID'')) (\<lambda>_.
     res_bind (closed_mapping F PHASE4_MANDATE_KEYS artifact0) (\<lambda>artifact.
     res_bind (loads_bytes F artifact_bytes) (\<lambda>raw_artifact.
     res_bind (ensure (py_eq raw_artifact (JObj artifact) \<and> sha256 (fe_py F) artifact_bytes = artifact_sha256)) (\<lambda>_.
     res_bind (utility_identity F mandate_id artifact) (\<lambda>_.
     res_bind (utility_role F (dget artifact ''ordered_roles'')) (\<lambda>_.
     res_bind (exact_digest is_hex64 (JStr artifact_sha256)) (\<lambda>digest.
       Inr \<lparr>md_mandate_id = mandate_id, md_artifact = artifact, md_artifact_sha256 = digest,
         md_artifact_bytes = artifact_bytes\<rparr>))))))))"

definition utility_require_recordable :: "founder_env \<Rightarrow> mandate \<Rightarrow> authority_error + unit" where
  "utility_require_recordable F m =
     ensure (Some (md_mandate_id m) = pin F ''UTILITY_MANDATE_ID''
       \<and> Some (md_artifact_sha256 m) = pin F ''UTILITY_MANDATE_ARTIFACT_SHA256'')"

definition utility_from_bytes :: "founder_env \<Rightarrow> string \<Rightarrow> authority_error + mandate" where
  "utility_from_bytes = mandate_from_bytes utility_mandate"

definition utility_from_path :: "founder_env \<Rightarrow> string \<Rightarrow> authority_error + mandate" where
  "utility_from_path = mandate_from_path utility_from_bytes"

definition load_company_role_mandate :: "founder_env \<Rightarrow> string \<Rightarrow> string \<Rightarrow> authority_error + mandate" where
  "load_company_role_mandate F p role_type =
     (if role_type = ''utility'' then utility_from_path F p else phase4_from_path F p)"

end
