(* ===== verification/Founder_Checks.thy ===== *)
theory Founder_Checks
  imports Founder_Subject Role_Mandate
begin

text \<open>
  Lemmas on the founder authority: what its validators accept, canonical forms of the state tables, the
  fields of a payload, the evidence of a binding, and the loop over the roles of a mandate.
\<close>

section \<open>What the validators accept\<close>

lemma required_Inr: "required v = Inr t \<Longrightarrow> v = JStr t"
  by (auto simp: required_def split: json.splits if_splits)

lemma ensure_Inr [simp]: "ensure b = Inr u \<longleftrightarrow> b"
  by (simp add: ensure_def)

lemma exact_digest_Inr: "exact_digest p v = Inr t \<Longrightarrow> v = JStr t \<and> p t"
  by (auto simp: exact_digest_def res_bind_Inr_iff dest!: required_Inr split: if_splits)

lemma serializable_canon [simp]: "json_serializable nf (json_canon j) = json_serializable nf j"
proof (induction j)
  case (JObj kvs)
  then have "list_all (\<lambda>(k, v). json_serializable nf v) (map (\<lambda>(k, v). (k, json_canon v)) kvs)
      \<longleftrightarrow> list_all (\<lambda>(k, v). json_serializable nf v) kvs"
    by (fastforce simp: list_all_iff)
  moreover have "list_all P (sort_key fst xs) = list_all P xs" for P and xs :: "(string \<times> json) list"
    by (simp add: list_all_iff)
  ultimately show ?case by simp
qed (auto simp: list_all_iff)

lemma canonical_mapping_Inr:
  "canonical_mapping F v = Inr r \<longleftrightarrow>
     (\<exists>kvs. v = JObj kvs \<and> kvs \<noteq> []) \<and> json_serializable (fe_nonfinite F) v \<and> json_canon v = JObj r"
  by (auto simp: canonical_mapping_def simp del: json_serializable.simps split: json.splits)

text \<open>A canonical mapping is its own canonical form.\<close>

lemma canonical_mapping_fixed:
  assumes "canonical_mapping F v = Inr r"
  shows "canonical_mapping F (JObj r) = Inr r" and "json_canon (JObj r) = JObj r" and "r \<noteq> []"
proof -
  from assms obtain kvs where v: "v = JObj kvs" "kvs \<noteq> []" "json_serializable (fe_nonfinite F) v"
      "json_canon v = JObj r" by (auto simp: canonical_mapping_Inr)
  have len: "length r = length kvs" using v by auto
  then show "r \<noteq> []" using v(2) by auto
  show c: "json_canon (JObj r) = JObj r" using json_canon_idem [of v] v(4) by simp
  have "json_serializable (fe_nonfinite F) (JObj r)" using serializable_canon [of "fe_nonfinite F" v] v(3, 4) by simp
  with c \<open>r \<noteq> []\<close> show "canonical_mapping F (JObj r) = Inr r" by (simp add: canonical_mapping_Inr del: json_canon.simps)
qed

lemma closed_mapping_Inr:
  "closed_mapping F keys v = Inr r \<longleftrightarrow> canonical_mapping F v = Inr r \<and> fst ` set r = set keys"
  by (auto simp: closed_mapping_def res_bind_Inr_iff)

lemma closed_mapping_fixed: "closed_mapping F keys v = Inr r \<Longrightarrow> closed_mapping F keys (JObj r) = Inr r"
  unfolding closed_mapping_Inr using canonical_mapping_fixed(1) by blast

lemma canonical_texts:
  assumes "kws \<noteq> []"
  shows "canonical_mapping F (texts kws) = Inr (sort_key fst (map (\<lambda>(k, v). (k, JStr v)) kws))"
proof -
  have c: "map (\<lambda>(k, v). (k, json_canon v)) (map (\<lambda>(k, v). (k, JStr v)) kws) = map (\<lambda>(k, v). (k, JStr v)) kws"
    by (induction kws) auto
  have "list_all (\<lambda>(k, v). json_serializable (fe_nonfinite F) v) (map (\<lambda>(k, v). (k, JStr v)) kws)"
    by (induction kws) auto
  then show ?thesis
    using assms unfolding canonical_mapping_Inr texts_def json_canon.simps(2) c by simp
qed

text \<open>A mapping of texts that equals a table has the table's canonical form.\<close>

lemma canonical_of_equal_texts:
  assumes "canonical_mapping F v = Inr r" and "py_dict v" and "py_eq (JObj r) (texts kws)" and "distinct (map fst kws)"
  shows "canonical_mapping F (texts kws) = Inr r"
proof -
  from assms(1) obtain kvs where v: "v = JObj kvs" "kvs \<noteq> []" "json_canon v = JObj r"
    by (auto simp: canonical_mapping_Inr)
  then have r: "r = sort_key fst (map (\<lambda>(k, v). (k, json_canon v)) kvs)" by simp
  have "map fst (map (\<lambda>(k, v). (k, json_canon v)) kvs) = map fst kvs" by auto
  moreover have "distinct (map fst kvs)" using assms(2) v(1) by simp
  ultimately have "distinct (map fst (map (\<lambda>(k, v). (k, json_canon v)) kvs))" by (simp only:)
  then have d: "distinct (map fst r)" unfolding r by (simp only: distinct_map distinct_sort set_sort)
  have len: "kws \<noteq> []"
    using assms(3) canonical_mapping_fixed(3) [OF assms(1)] by (auto simp: texts_def)
  have "r = sort_key fst r" unfolding r by (simp add: sort_key_id_if_sorted)
  also have "\<dots> = sort_key fst (map (\<lambda>(k, v). (k, JStr v)) kws)"
    using assms(3) d assms(4) unfolding texts_def by (rule py_eq_texts)
  finally show ?thesis using canonical_texts [OF len] by simp
qed

lemma states_are_texts:
  "\<exists>kws. PRE_STATES step = texts kws \<and> distinct (map fst kws)"
  "\<exists>kws. POST_STATES scribe step = texts kws \<and> distinct (map fst kws)"
  by (cases step; force)+

section \<open>What an accepted subject is\<close>

lemma subject_accepted:
  assumes "activation_step_subject F a = Inr s"
  obtains scribe where
    "configured (scribe_deployment_id (fe_environ F)) = Inr scribe"
    "required (JStr (sa_mandate_id a)) = Inr (ss_mandate_id s)" "mandate_id_match (ss_mandate_id s)"
    "step_of (sa_step a) = Some (ss_step s)"
    "required (JStr (sa_tenant_id a)) = Inr (ss_tenant_id s)"
    "sa_role a = STEP_ROLES (ss_step s)" "ss_role s = STEP_ROLES (ss_step s)"
    "exact_digest git_sha_match (JStr (sa_release_commit_sha a)) = Inr (ss_release_commit_sha s)"
    "exact_digest git_sha_match (JStr (sa_release_tree_sha a)) = Inr (ss_release_tree_sha s)"
    "exact_digest is_hex64 (JStr (sa_release_digest_sha256 a)) = Inr (ss_release_digest_sha256 s)"
    "package_uuid (sa_package_id a) = Inr (ss_package_id s)"
    "exact_digest is_hex64 (JStr (sa_package_sha256 a)) = Inr (ss_package_sha256 s)"
    "required (JStr (sa_attempt_key a)) = Inr (ss_attempt_key s)" "16 \<le> length (ss_attempt_key s)"
    "canonical_mapping F (sa_pre_state a) = Inr (ss_pre_state s)"
    "canonical_mapping F (sa_post_state a) = Inr (ss_post_state s)"
    "py_eq (JObj (ss_pre_state s)) (PRE_STATES (ss_step s))"
    "py_eq (JObj (ss_post_state s)) (POST_STATES scribe (ss_step s))"
    "closed_mapping F (STEP_BINDING_KEYS (ss_step s)) (sa_activation_binding a) = Inr (ss_activation_binding s)"
    "validate_binding F (ss_step s) (ss_activation_binding s) = Inr ()"
proof -
  from assms show thesis
    unfolding activation_step_subject_def res_bind_Inr_iff ensure_Inr
    by (elim exE conjE) (rule that; auto split: option.splits)
qed

section \<open>The payload determines the subject\<close>

text \<open>The fields of canonical objects.\<close>

lemma canon_field:
  assumes "json_canon (JObj kvs) = json_canon (JObj kws)" and "distinct (map fst kvs)" and "distinct (map fst kws)"
  shows "map_option json_canon (map_of kvs k) = map_option json_canon (map_of kws k)"
proof -
  let ?g = "map (\<lambda>(k, v). (k, json_canon v))"
  have "sort_key fst (?g kvs) = sort_key fst (?g kws)" using assms(1) by simp
  then have "set (?g kvs) = set (?g kws)" by (metis set_sort)
  moreover have "map fst (?g kvs) = map fst kvs" "map fst (?g kws) = map fst kws" by auto
  ultimately have "map_of (?g kvs) = map_of (?g kws)" using assms(2, 3) by (simp only: map_of_inject_set)
  moreover have "map_of (?g xs) k = map_option json_canon (map_of xs k)" for xs :: "(string \<times> json) list"
    by (induction xs) auto
  ultimately show ?thesis by metis
qed

lemma step_value_inj: "step_value x = step_value y \<Longrightarrow> x = y"
  by (cases x; cases y; simp)

lemma uuid_text_inj: "uuid_text m = uuid_text n \<Longrightarrow> m < 2 ^ 128 \<Longrightarrow> n < 2 ^ 128 \<Longrightarrow> m = n"
  by (metis uuid_parse_text option.inject)

lemma payload_distinct: "distinct (map fst (subject_payload s))"
  by (simp add: subject_payload_def)

lemma payload_fields:
  "map_of (subject_payload s) ''mandate_id'' = Some (JStr (ss_mandate_id s))"
  "map_of (subject_payload s) ''step'' = Some (JStr (step_value (ss_step s)))"
  "map_of (subject_payload s) ''attempt_key'' = Some (JStr (ss_attempt_key s))"
  "map_of (subject_payload s) ''tenant_id'' = Some (JStr (ss_tenant_id s))"
  "map_of (subject_payload s) ''role'' = Some (JStr (ss_role s))"
  "map_of (subject_payload s) ''release'' = Some (JObj
     [(''commit_sha'', JStr (ss_release_commit_sha s)), (''tree_sha'', JStr (ss_release_tree_sha s)),
      (''digest_sha256'', JStr (ss_release_digest_sha256 s))])"
  "map_of (subject_payload s) ''package'' = Some (JObj
     [(''id'', JStr (uuid_text (ss_package_id s))), (''sha256'', JStr (ss_package_sha256 s))])"
  "map_of (subject_payload s) ''pre_state'' = Some (JObj (ss_pre_state s))"
  "map_of (subject_payload s) ''post_state'' = Some (JObj (ss_post_state s))"
  "map_of (subject_payload s) ''activation_binding'' = Some (JObj (ss_activation_binding s))"
  by (simp_all add: subject_payload_def)

lemma payload_determines_subject:
  assumes "activation_step_subject F a = Inr s" and "activation_step_subject F b = Inr t"
    and "ss_package_id s < 2 ^ 128" and "ss_package_id t < 2 ^ 128"
    and "json_canon (JObj (subject_payload s)) = json_canon (JObj (subject_payload t))"
  shows "s = t"
proof -
  have d: "distinct (map fst (subject_payload x))" for x by (rule payload_distinct)
  note field = canon_field [OF assms(5) d d]
  have own: "json_canon (JObj (ss_pre_state x)) = JObj (ss_pre_state x)
      \<and> json_canon (JObj (ss_post_state x)) = JObj (ss_post_state x)
      \<and> json_canon (JObj (ss_activation_binding x)) = JObj (ss_activation_binding x)"
    if "activation_step_subject F c = Inr x" for c x
    using that by (rule subject_accepted) (auto simp: closed_mapping_Inr dest: canonical_mapping_fixed(2) simp del: json_canon.simps)
  note os = own [OF assms(1)] and ot = own [OF assms(2)]
  have flat: "ss_mandate_id s = ss_mandate_id t" "step_value (ss_step s) = step_value (ss_step t)"
      "ss_attempt_key s = ss_attempt_key t" "ss_tenant_id s = ss_tenant_id t" "ss_role s = ss_role t"
    using field [of "''mandate_id''"] field [of "''step''"] field [of "''attempt_key''"] field [of "''tenant_id''"]
      field [of "''role''"] by (simp_all add: payload_fields)
  have states: "ss_pre_state s = ss_pre_state t" "ss_post_state s = ss_post_state t"
      "ss_activation_binding s = ss_activation_binding t"
    using field [of "''pre_state''"] field [of "''post_state''"] field [of "''activation_binding''"] os ot
    by (simp_all add: payload_fields del: json_canon.simps)
  let ?rel = "\<lambda>x. [(''commit_sha'', JStr (ss_release_commit_sha x)), (''tree_sha'', JStr (ss_release_tree_sha x)),
      (''digest_sha256'', JStr (ss_release_digest_sha256 x))]"
  have "json_canon (JObj (?rel s)) = json_canon (JObj (?rel t))"
    using field [of "''release''"] by (simp add: payload_fields del: json_canon.simps)
  note rel = canon_field [OF this]
  have release: "ss_release_commit_sha s = ss_release_commit_sha t \<and> ss_release_tree_sha s = ss_release_tree_sha t
      \<and> ss_release_digest_sha256 s = ss_release_digest_sha256 t"
    using rel [of "''commit_sha''"] rel [of "''tree_sha''"] rel [of "''digest_sha256''"] by simp
  let ?pkg = "\<lambda>x. [(''id'', JStr (uuid_text (ss_package_id x))), (''sha256'', JStr (ss_package_sha256 x))]"
  have "json_canon (JObj (?pkg s)) = json_canon (JObj (?pkg t))"
    using field [of "''package''"] by (simp add: payload_fields del: json_canon.simps)
  note pkg = canon_field [OF this]
  have "uuid_text (ss_package_id s) = uuid_text (ss_package_id t) \<and> ss_package_sha256 s = ss_package_sha256 t"
    using pkg [of "''id''"] pkg [of "''sha256''"] by simp
  then have "ss_package_id s = ss_package_id t" "ss_package_sha256 s = ss_package_sha256 t"
    using uuid_text_inj assms(3, 4) by blast+
  with flat states release step_value_inj show ?thesis by (intro step_subject.equality) auto
qed

section \<open>Reading a payload back\<close>

definition text_or_empty :: "json \<Rightarrow> string" where
  "text_or_empty j = (case j of JStr s \<Rightarrow> s | _ \<Rightarrow> [])"

definition payload_member :: "json \<Rightarrow> string \<Rightarrow> json" where
  "payload_member j k = (case j of JObj kvs \<Rightarrow> dget kvs k | _ \<Rightarrow> JNull)"

definition args_of_payload :: "json \<Rightarrow> subject_args" where
  "args_of_payload p = \<lparr>sa_mandate_id = text_or_empty (payload_member p ''mandate_id''), sa_step = StepText (text_or_empty (payload_member p ''step'')),
     sa_tenant_id = text_or_empty (payload_member p ''tenant_id''), sa_role = text_or_empty (payload_member p ''role''),
     sa_release_commit_sha = text_or_empty (payload_member (payload_member p ''release'') ''commit_sha''),
     sa_release_tree_sha = text_or_empty (payload_member (payload_member p ''release'') ''tree_sha''),
     sa_release_digest_sha256 = text_or_empty (payload_member (payload_member p ''release'') ''digest_sha256''),
     sa_package_id = UuidText (text_or_empty (payload_member (payload_member p ''package'') ''id'')),
     sa_package_sha256 = text_or_empty (payload_member (payload_member p ''package'') ''sha256''),
     sa_attempt_key = text_or_empty (payload_member p ''attempt_key''),
     sa_pre_state = payload_member p ''pre_state'', sa_post_state = payload_member p ''post_state'',
     sa_activation_binding = payload_member p ''activation_binding''\<rparr>"

lemma args_of_subject_payload:
  "args_of_payload (JObj (subject_payload s)) = \<lparr>sa_mandate_id = ss_mandate_id s, sa_step = StepText (step_value (ss_step s)),
     sa_tenant_id = ss_tenant_id s, sa_role = ss_role s, sa_release_commit_sha = ss_release_commit_sha s,
     sa_release_tree_sha = ss_release_tree_sha s, sa_release_digest_sha256 = ss_release_digest_sha256 s,
     sa_package_id = UuidText (uuid_text (ss_package_id s)), sa_package_sha256 = ss_package_sha256 s,
     sa_attempt_key = ss_attempt_key s, sa_pre_state = JObj (ss_pre_state s), sa_post_state = JObj (ss_post_state s),
     sa_activation_binding = JObj (ss_activation_binding s)\<rparr>"
  by (simp add: args_of_payload_def payload_member_def text_or_empty_def dget_def payload_fields)

lemma step_of_value: "step_of (StepText (step_value step)) = Some step"
  by (cases step) (simp_all add: step_of_def ALL_STEPS_def)

lemma required_again: "required v = Inr t \<Longrightarrow> required (JStr t) = Inr t"
  using required_Inr by blast

lemma exact_digest_again: "exact_digest p v = Inr t \<Longrightarrow> exact_digest p (JStr t) = Inr t"
  using exact_digest_Inr by blast

section \<open>The bindings of a step\<close>

lemma digests_Inr: "digests b fs = Inr u \<Longrightarrow> list_all (\<lambda>f. \<exists>t. dget b f = JStr t \<and> is_hex64 t) fs"
  by (auto simp: digests_def all_res_Inr list_all_iff res_bind_Inr_iff dest!: exact_digest_Inr)

lemma uuid_arg_Inr: "uuid_arg F v = Inr t \<longleftrightarrow> (\<exists>n. uuid_parse (py_str (fe_py F) v) = Some n \<and> t = uuid_text n)"
  by (auto simp: uuid_arg_def split: option.splits)

lemma uuids_Inr: "uuids F b fs = Inr u \<Longrightarrow> list_all (\<lambda>f. uuid_parse (py_str (fe_py F) (dget b f)) \<noteq> None) fs"
  by (auto simp: uuids_def all_res_Inr list_all_iff res_bind_Inr_iff uuid_arg_Inr)

lemma subject_binding:
  assumes "activation_step_subject F a = Inr s"
  shows "validate_step F (ss_step s) (ss_activation_binding s) = Inr ()"
    and "fst ` set (ss_activation_binding s) = set (STEP_BINDING_KEYS (ss_step s))"
    and "ss_role s = STEP_ROLES (ss_step s)"
  by (rule subject_accepted [OF assms]; simp add: validate_binding_def res_bind_Inr_iff closed_mapping_Inr)+

text \<open>The UUID named by a field of a binding.\<close>

definition named_uuid :: "founder_env \<Rightarrow> (string \<times> json) list \<Rightarrow> string \<Rightarrow> nat option" where
  "named_uuid F b field = uuid_parse (py_str (fe_py F) (dget b field))"

definition initial_admission :: "founder_env \<Rightarrow> (string \<times> json) list \<Rightarrow> bool" where
  "initial_admission F b \<longleftrightarrow> dget b ''authority_mode'' = JStr ''initial-local-activation''
     \<and> named_uuid F b ''authority_root_admission_id'' = named_uuid F b ''admission_id''
     \<and> list_all (\<lambda>field. dget b field = JNull) RECOVERY_FIELDS"

definition recovered_admission :: "founder_env \<Rightarrow> (string \<times> json) list \<Rightarrow> bool" where
  "recovered_admission F b \<longleftrightarrow> dget b ''authority_mode'' = JStr ''standing-mandate-recovery''
     \<and> named_uuid F b ''authority_root_admission_id'' \<noteq> named_uuid F b ''admission_id''
     \<and> named_uuid F b ''prior_admission_id'' \<noteq> None \<and> named_uuid F b ''recovery_intent_id'' \<noteq> None
     \<and> list_all (\<lambda>field. \<exists>t. dget b field = JStr t \<and> is_hex64 t) [''prior_rollback_receipt_sha256'', ''restart_intent_sha256'']"

section \<open>What an accepted mandate is\<close>

lemma pinned_JStr: "pinned F name = JStr s \<longleftrightarrow> pin F name = Some s"
  by (auto simp: pinned_def split: option.splits)

lemma py_eq_pinned: "pin F name = Some s \<Longrightarrow> py_eq v (pinned F name) \<longleftrightarrow> v = JStr s"
  by (simp add: pinned_def)

lemma py_eq_texts_list: "py_eq v (JList (map JStr xs)) \<longleftrightarrow> v = JList (map JStr xs)"
proof (cases v)
  case (JList ys)
  have "length ys = length xs \<and> list_all (\<lambda>(x, y). py_eq x y) (zip ys (map JStr xs)) \<longleftrightarrow> ys = map JStr xs"
  proof (induction ys arbitrary: xs)
    case (Cons y ys)
    then show ?case by (cases xs) auto
  qed simp
  then show ?thesis using JList by simp
qed auto

text \<open>
  What an object of the artifact that stands for a role says: exactly the three keys, two texts and a UUID
  in any of its spellings.
\<close>

definition spells_role :: "founder_env \<Rightarrow> json \<Rightarrow> role_entry \<Rightarrow> bool" where
  "spells_role F item r \<longleftrightarrow>
     (case item of
        JObj kvs \<Rightarrow> fst ` set kvs = {''role_type'', ''deployment_id'', ''worker_id''}
          \<and> dget kvs ''role_type'' = JStr (re_role_type r) \<and> dget kvs ''deployment_id'' = JStr (re_deployment_id r)
          \<and> (case named_uuid F kvs ''worker_id'' of None \<Rightarrow> False | Some n \<Rightarrow> re_worker_id r = uuid_text n)
      | _ \<Rightarrow> False)"

text \<open>The values of a canonical mapping, and of the lists in it, are canonical.\<close>

lemma canonical_value:
  assumes "canonical_mapping F v = Inr r" and "(k, w) \<in> set r"
  shows "json_canon w = w"
proof -
  from assms(1) obtain kvs where "json_canon (JObj kvs) = JObj r" by (auto simp: canonical_mapping_Inr simp del: json_canon.simps)
  then have "set r = set (map (\<lambda>(k, v). (k, json_canon v)) kvs)" by auto
  with assms(2) show ?thesis by (auto simp: json_canon_idem)
qed

lemma canonical_item:
  assumes "canonical_mapping F v = Inr r" and "dget r k = JList items" and "item \<in> set items"
  shows "json_canon item = item"
proof -
  have "(k, JList items) \<in> set r" using assms(2) by (auto simp: dget_def dest: map_of_SomeD split: option.splits)
  from canonical_value [OF assms(1) this] have "map json_canon items = map (\<lambda>j. j) items" by simp
  with assms(3) show ?thesis by (simp only: map_eq_conv)
qed

text \<open>
  One round of the loop over the roles, on an object that is in canonical form, adds the role the object spells.
  After the whole loop the roles are those that the objects spell, one for each, in their order.
\<close>

definition roles_ok :: "role_entry list \<Rightarrow> bool" where
  "roles_ok rs \<longleftrightarrow> distinct (map re_role_type rs) \<and> distinct (map re_deployment_id rs) \<and> distinct (map re_worker_id rs)
     \<and> set (map re_role_type rs) \<subseteq> set PHASE4_COMPANY_ROLE_TYPES"

lemma phase4_role_Inr:
  assumes "phase4_role F rs item = Inr rs'" and "json_canon item = item"
  obtains r where "rs' = rs @ [r]" "spells_role F item r" "roles_ok rs \<Longrightarrow> roles_ok rs'"
proof -
  from assms(1) obtain kvs role_type deployment_id worker_id where
    k: "closed_mapping F [''role_type'', ''deployment_id'', ''worker_id''] item = Inr kvs"
      "required (dget kvs ''role_type'') = Inr role_type" "required (dget kvs ''deployment_id'') = Inr deployment_id"
      "uuid_arg F (dget kvs ''worker_id'') = Inr worker_id"
    and c: "(if role_type \<notin> set PHASE4_COMPANY_ROLE_TYPES then Inl FounderAuthorityError
       else if role_type \<in> re_role_type ` set rs \<or> deployment_id \<in> re_deployment_id ` set rs
         \<or> worker_id \<in> re_worker_id ` set rs then Inl FounderAuthorityError
       else Inr (rs @ [\<lparr>re_role_type = role_type, re_deployment_id = deployment_id, re_worker_id = worker_id\<rparr>])) = Inr rs'"
    unfolding phase4_role_def res_bind_Inr_iff by (elim exE conjE) (rule that)
  have new: "role_type \<in> set PHASE4_COMPANY_ROLE_TYPES" "role_type \<notin> re_role_type ` set rs"
      "deployment_id \<notin> re_deployment_id ` set rs" "worker_id \<notin> re_worker_id ` set rs"
    and rs': "rs' = rs @ [\<lparr>re_role_type = role_type, re_deployment_id = deployment_id, re_worker_id = worker_id\<rparr>]"
    using c by (simp_all split: if_splits)
  from k(1) assms(2) have item: "item = JObj kvs" "fst ` set kvs = {''role_type'', ''deployment_id'', ''worker_id''}"
    by (simp_all add: closed_mapping_Inr canonical_mapping_Inr del: json_canon.simps json_serializable.simps)
  have "spells_role F item \<lparr>re_role_type = role_type, re_deployment_id = deployment_id, re_worker_id = worker_id\<rparr>"
    using k(4) by (auto simp: spells_role_def named_uuid_def uuid_arg_Inr item required_Inr [OF k(2)] required_Inr [OF k(3)])
  moreover have "roles_ok rs \<Longrightarrow> roles_ok rs'" using new by (simp add: roles_ok_def rs')
  ultimately show thesis by (rule that [OF rs'])
qed

lemma phase4_fold_Inr:
  assumes "fold_res (phase4_role F) rs items = Inr roles" and "\<forall>item \<in> set items. json_canon item = item" and "roles_ok rs"
  shows "roles_ok roles \<and> (\<exists>rest. roles = rs @ rest \<and> list_all2 (spells_role F) items rest)"
  using assms
proof (induction items arbitrary: rs)
  case (Cons item items)
  from Cons.prems(1) obtain rs1 where rs1: "phase4_role F rs item = Inr rs1" "fold_res (phase4_role F) rs1 items = Inr roles"
    by (auto split: sum.splits)
  obtain r where r: "rs1 = rs @ [r]" "spells_role F item r" "roles_ok rs1"
    using phase4_role_Inr [OF rs1(1)] Cons.prems(2, 3) by auto
  from Cons.IH [OF rs1(2) _ r(3)] Cons.prems(2) obtain rest where
    "roles_ok roles" "roles = rs1 @ rest" "list_all2 (spells_role F) items rest" by auto
  with r(1, 2) show ?case by (intro conjI exI [of _ "r # rest"]) simp_all
qed simp

lemma phase4_roles_spelt:
  assumes "canonical_mapping F v = Inr artifact" and "phase4_roles F (dget artifact k) = Inr roles"
  obtains items where "dget artifact k = JList items" "items \<noteq> []" "list_all2 (spells_role F) items roles" "roles_ok roles"
proof -
  from assms(2) obtain items where items: "dget artifact k = JList items" "items \<noteq> []"
      "fold_res (phase4_role F) [] items = Inr roles"
    by (auto simp: phase4_roles_def split: json.splits if_splits)
  have "\<forall>item \<in> set items. json_canon item = item" using canonical_item [OF assms(1) items(1)] by blast
  moreover have "roles_ok []" by (simp add: roles_ok_def)
  ultimately show thesis using phase4_fold_Inr [OF items(3)] that items(1, 2) by auto
qed

lemma mandate_from_bytes_Inr:
  assumes "mandate_from_bytes cls F raw = Inr m"
  obtains kvs where "loads_bytes F raw = Inr (JObj kvs)"
    "cls F (case map_of kvs ''mandate_id'' of None \<Rightarrow> [] | Some v \<Rightarrow> py_str (fe_py F) v) (JObj kvs) (sha256 (fe_py F) raw) raw = Inr m"
proof -
  from assms obtain j where "loads_bytes F raw = Inr j" by (auto simp: mandate_from_bytes_def res_bind_Inr_iff)
  with assms that show thesis by (cases j) (auto simp: mandate_from_bytes_def)
qed

text \<open>
  The interface of a mandate class: whatever its constructor checks, the mandate it returns keeps the bytes
  it was given, their digest, and the identifier that stands in the artifact. The loaders rest on it.
\<close>

locale mandate_class =
  fixes cls :: "founder_env \<Rightarrow> string \<Rightarrow> json \<Rightarrow> string \<Rightarrow> string \<Rightarrow> authority_error + mandate"
  assumes accepted: "cls F i artifact sha raw = Inr m \<Longrightarrow>
    md_artifact_bytes m = raw \<and> md_artifact_sha256 m = sha256 (fe_py F) raw
      \<and> dget (md_artifact m) ''mandate_id'' = JStr (md_mandate_id m)"
begin

lemma from_bytes:
  assumes "mandate_from_bytes cls F raw = Inr m"
  shows "md_artifact_bytes m = raw \<and> md_artifact_sha256 m = sha256 (fe_py F) raw
    \<and> dget (md_artifact m) ''mandate_id'' = JStr (md_mandate_id m)"
  using assms by (rule mandate_from_bytes_Inr) (rule accepted)

lemma from_path:
  assumes "mandate_from_path (mandate_from_bytes cls) F p = Inr m"
  shows "safe_path p \<and> fe_read_bytes F (path_of p) = Some (md_artifact_bytes m)
    \<and> md_artifact_sha256 m = sha256 (fe_py F) (md_artifact_bytes m)
    \<and> dget (md_artifact m) ''mandate_id'' = JStr (md_mandate_id m)"
proof -
  from assms obtain raw where r: "safe_path p" "fe_read_bytes F (path_of p) = Some raw" "mandate_from_bytes cls F raw = Inr m"
    by (auto simp: mandate_from_path_def split: if_splits option.splits)
  from from_bytes [OF r(3)] r(1, 2) show ?thesis by simp
qed

end

interpretation founder: mandate_class founder_mandate
  by unfold_locales
    (auto simp: founder_mandate_def artifact_exact_def pinned_JStr py_eq_pinned res_bind_Inr_iff dest!: exact_digest_Inr)

interpretation phase4: mandate_class phase4_mandate
  by unfold_locales (auto simp: phase4_mandate_def phase4_identity_def res_bind_Inr_iff dest!: exact_digest_Inr)

interpretation utility: mandate_class utility_mandate
  by unfold_locales (auto simp: utility_mandate_def utility_identity_def res_bind_Inr_iff dest!: exact_digest_Inr)

definition require_recordable :: "founder_env \<Rightarrow> string \<Rightarrow> mandate \<Rightarrow> authority_error + unit" where
  "require_recordable F role_type m =
     (if role_type = ''utility'' then utility_require_recordable F m else phase4_require_recordable F m)"

lemma timestamp_Inr:
  assumes "timestamp F v = Inr u"
  obtains s i t where "v = JStr s" "fe_parse_iso F (py_replace ''Z'' ''+00:00'' s) = Some (Aware i)" "fe_utc_text F i = Some t"
proof -
  from assms obtain s where s: "required v = Inr s" by (auto simp: timestamp_def res_bind_Inr_iff)
  from assms s obtain i where i: "fe_parse_iso F (py_replace ''Z'' ''+00:00'' s) = Some (Aware i)"
    by (auto simp: timestamp_def split: option.splits py_datetime.splits)
  from assms s i obtain t where "fe_utc_text F i = Some t" by (auto simp: timestamp_def split: option.splits)
  with s i that show thesis using required_Inr by blast
qed

end
