(* ===== verification/Founder_Samples.thy ===== *)
theory Founder_Samples
  imports Founder_Checks
begin

text \<open>
  Concrete processes, subjects and mandates that the founder authority accepts. A UUID is written as the
  text of its number, so that reading it is the round trip of \<open>uuid_parse_text\<close>, and the bytes of an
  artifact are its JSON text, which \<open>loads_text\<close> reads back.
\<close>

section \<open>A sample process\<close>

definition hex_z :: string where "hex_z = replicate 64 (CHR ''a'')"
definition git_z :: string where "git_z = replicate 40 (CHR ''b'')"

lemma hex_solid: "list_all (\<lambda>c. c \<in> set hex_digits) s \<Longrightarrow> s \<noteq> [] \<Longrightarrow> required (JStr s) = Inr s"
proof -
  assume a: "list_all (\<lambda>c. c \<in> set hex_digits) s" "s \<noteq> []"
  have sp: "\<not> py_space c \<and> \<not> (of_char c :: nat) < 32" if "c \<in> set s" for c
  proof -
    have "c \<in> set hex_digits" using a(1) that by (simp add: list_all_iff)
    then show ?thesis by (auto simp: hex_digits_def py_space_def)
  qed
  have "py_strip s = s"
    using strip_solid [OF a(2), of "[]"] sp [OF hd_in_set [OF a(2)]] sp [OF last_in_set [OF a(2)]] by simp
  then show ?thesis using a(2) sp by (auto simp: required_def list_ex_iff)
qed

lemma hex_z_digest: "exact_digest is_hex64 (JStr hex_z) = Inr hex_z"
proof -
  have "is_hex64 hex_z" unfolding hex_z_def by (rule is_hex64_replicate) (simp add: hex_digits_def)
  then show ?thesis using hex_solid [of hex_z] by (auto simp: exact_digest_def is_hex64_def hex_z_def)
qed

lemma git_z_digest: "exact_digest git_sha_match (JStr git_z) = Inr git_z"
proof -
  have "git_sha_match git_z" by (simp add: git_z_def git_sha_match_def hex_digits_def list_all_iff)
  then show ?thesis using hex_solid [of git_z] by (auto simp: exact_digest_def git_sha_match_def git_z_def)
qed

lemma canon_sorted: "sorted (map fst kvs) \<Longrightarrow> list_all (\<lambda>(k, v). json_canon v = v) kvs \<Longrightarrow> json_canon (JObj kvs) = JObj kvs"
proof -
  assume s: "sorted (map fst kvs)" "list_all (\<lambda>(k, v). json_canon v = v) kvs"
  have "map (\<lambda>(k, v). (k, json_canon v)) kvs = kvs" using s(2) by (induction kvs) auto
  then show ?thesis using s(1) by (simp add: sort_key_id_if_sorted)
qed


definition sample_py :: py_env where
  "sample_py = \<lparr>sha256 = (\<lambda>s. s), float_repr = (\<lambda>_. ''0.5''), float_fixed3 = (\<lambda>_. ''0.500''), float_sum = sum_list,
     py_repr = (\<lambda>s. s), uuid_str = uuid_text, isoformat = (\<lambda>_. ''t'')\<rparr>"

definition sample_founder :: founder_env where
  "sample_founder = \<lparr>fe_py = sample_py, fe_json = \<lparr>float_of = (\<lambda>_. 0), wide = (\<lambda>_. CHR ''?'')\<rparr>, fe_bytes_text = Some,
     fe_nonfinite = (\<lambda>_. False), fe_parse_iso = (\<lambda>_. Some (Aware 0)), fe_utc_text = (\<lambda>_. Some ''2026-01-01T00:00:00+00:00''),
     fe_local_utc = (\<lambda>n. n),
     fe_environ = [''CC_SUITE_COMPANY_ID'' \<mapsto> ''co'', ''CC_SUITE_SCRIBE_DEPLOYMENT_ID'' \<mapsto> ''scribe''],
     fe_bindings = [], fe_read_bytes = (\<lambda>_. None)\<rparr>"

definition sample_args :: "activation_step \<Rightarrow> (string \<times> json) list \<Rightarrow> subject_args" where
  "sample_args step b = \<lparr>sa_mandate_id = ''activation-mandate-x'', sa_step = StepText (step_value step), sa_tenant_id = ''co'',
     sa_role = STEP_ROLES step, sa_release_commit_sha = git_z, sa_release_tree_sha = git_z, sa_release_digest_sha256 = hex_z,
     sa_package_id = UuidText (uuid_text 7), sa_package_sha256 = hex_z, sa_attempt_key = ''attempt-00000001'',
     sa_pre_state = PRE_STATES step, sa_post_state = POST_STATES ''scribe'' step, sa_activation_binding = JObj b\<rparr>"

lemma sample_scribe: "scribe_deployment_id (fe_environ sample_founder) = Inr ''scribe''"
  by (simp add: scribe_deployment_id_def cfg_identity_def sample_founder_def identifier_match_def chr_alnum_def chr_lower_def chr_digit_def chr_upper_def chr_range_def)

lemma sample_texts:
  "required (JStr ''activation-mandate-x'') = Inr ''activation-mandate-x''" "mandate_id_match ''activation-mandate-x''"
  "required (JStr ''co'') = Inr ''co''" "required (JStr ''attempt-00000001'') = Inr ''attempt-00000001''"
  by (simp_all add: required_def py_strip_def py_space_def mandate_id_match_def MANDATE_PREFIX_def starts_with_def
      chr_alnum_def chr_lower_def chr_digit_def chr_upper_def chr_range_def)

lemma canonical_texts_equal:
  assumes "distinct (map fst kws)"
  shows "py_eq (JObj (sort_key fst (map (\<lambda>(k, v). (k, JStr v)) kws))) (texts kws)"
proof -
  let ?t = "map (\<lambda>(k, v). (k, JStr v)) kws"
  have "distinct (map fst ?t)" using assms by (simp add: case_prod_unfold comp_def)
  then have m: "map_of ?t k = Some v" if "(k, v) \<in> set ?t" for k v using that by simp
  have "list_all (\<lambda>(k, v). case map_of ?t k of None \<Rightarrow> False | Some w \<Rightarrow> py_eq v w) (sort_key fst ?t)"
    unfolding list_all_iff set_sort
  proof
    fix kv assume kv: "kv \<in> set ?t"
    then obtain k x where e: "kv = (k, JStr x)" by auto
    show "case kv of (k, v) \<Rightarrow> (case map_of ?t k of None \<Rightarrow> False | Some w \<Rightarrow> py_eq v w)"
      using m [OF kv [unfolded e]] unfolding e prod.case by (simp only: option.case py_eq_JStr)
  qed
  then show ?thesis by (simp only: texts_def py_eq.simps length_sort simp_thms)
qed

lemma states_canonical:
  assumes "kws \<noteq> []" and "distinct (map fst kws)"
  shows "\<exists>r. canonical_mapping F (texts kws) = Inr r \<and> py_eq (JObj r) (texts kws) \<and> float_free (JObj r)"
proof -
  have "list_all (\<lambda>(k, v). float_free v) (map (\<lambda>(k, v). (k, JStr v)) kws)" by (induction kws) auto
  then have "float_free (JObj (sort_key fst (map (\<lambda>(k, v). (k, JStr v)) kws)))" by (simp only: float_free.simps list_all_iff set_sort)
  then show ?thesis using canonical_texts [OF assms(1)] canonical_texts_equal [OF assms(2)] by blast
qed

lemma state_tables:
  "\<exists>r. canonical_mapping F (PRE_STATES step) = Inr r \<and> py_eq (JObj r) (PRE_STATES step) \<and> float_free (JObj r)"
  "\<exists>r. canonical_mapping F (POST_STATES scribe step) = Inr r \<and> py_eq (JObj r) (POST_STATES scribe step) \<and> float_free (JObj r)"
  by (cases step; simp only: PRE_STATES.simps POST_STATES.simps; rule states_canonical; simp)+

lemma sample_accepts:
  assumes "sorted (map fst b)" and "list_all (\<lambda>(k, v). json_canon v = v \<and> json_serializable (\<lambda>_. False) v) b"
    and "set (map fst b) = set (STEP_BINDING_KEYS step)" and "validate_binding sample_founder step b = Inr ()"
  shows "\<exists>s. activation_step_subject sample_founder (sample_args step b) = Inr s \<and> ss_step s = step
    \<and> ss_activation_binding s = b \<and> ss_package_id s = 7 \<and> (float_free (JObj b) \<longrightarrow> float_free (JObj (subject_payload s)))"
proof -
  obtain pre where pre: "canonical_mapping sample_founder (PRE_STATES step) = Inr pre" "py_eq (JObj pre) (PRE_STATES step)"
      "float_free (JObj pre)" using state_tables(1) by blast
  obtain post where post: "canonical_mapping sample_founder (POST_STATES ''scribe'' step) = Inr post"
      "py_eq (JObj post) (POST_STATES ''scribe'' step)" "float_free (JObj post)" using state_tables(2) by blast
  have "b \<noteq> []" using assms(3) by (cases step; cases b) (auto simp: table_simps)
  moreover have "json_canon (JObj b) = JObj b"
    using assms(1, 2) by (intro canon_sorted) (auto simp: list_all_iff)
  moreover have "json_serializable (\<lambda>_. False) (JObj b)" using assms(2) by (auto simp: list_all_iff)
  ultimately have cl: "closed_mapping sample_founder (STEP_BINDING_KEYS step) (JObj b) = Inr b"
    using assms(3) by (simp add: closed_mapping_Inr canonical_mapping_Inr sample_founder_def del: json_canon.simps json_serializable.simps)
  have pk: "package_uuid (UuidText (uuid_text 7)) = Inr 7"
    using uuid_parse_text [of 7] by (simp add: package_uuid_def)
  show ?thesis
    unfolding activation_step_subject_def sample_args_def subject_args.simps step_of_value
    by (simp add: sample_scribe configured_def sample_texts hex_z_digest git_z_digest ensure_def pre post cl pk assms(4) subject_payload_def
        del: py_eq.simps float_free.simps(3)) (use pre(3) post(3) in simp)
qed

definition shadow_binding :: "(string \<times> json) list" where
  "shadow_binding =
     [(''approval_id'', JStr (uuid_text 8)), (''fence_mode'', JStr ''shadow-no-effect''),
      (''runtime_boot_id_sha256'', JStr hex_z), (''runtime_executable_sha256'', JStr hex_z),
      (''runtime_host_identity_sha256'', JStr hex_z), (''service_date'', JStr ''2026-07-13''),
      (''shadow_input_sha256'', JStr hex_z), (''shadow_ordinal'', JInt 1), (''shadow_plan_sha256'', JStr hex_z)]"

definition recovery_binding :: "(string \<times> json) list" where
  "recovery_binding =
     [(''admission_epoch'', JInt 2), (''admission_id'', JStr (uuid_text 20)), (''agent_release_sha256'', JStr hex_z),
      (''approval_id'', JStr (uuid_text 8)), (''authority_mode'', JStr ''standing-mandate-recovery''),
      (''authority_root_admission_id'', JStr (uuid_text 10)), (''claude_session_id'', JStr ''session''),
      (''deployment_id'', JStr ''scribe''), (''lease_expires_at'', JStr ''2026-07-13T00:00:00Z''),
      (''prior_admission_id'', JStr (uuid_text 10)), (''prior_rollback_receipt_sha256'', JStr hex_z),
      (''process_id'', JInt 4242), (''process_start_fingerprint_sha256'', JStr hex_z),
      (''recovery_intent_id'', JStr (uuid_text 21)), (''restart_intent_sha256'', JStr hex_z),
      (''runtime_boot_id_sha256'', JStr hex_z), (''runtime_executable_path'', JStr ''/opt/scribe''),
      (''runtime_executable_sha256'', JStr hex_z), (''runtime_host_identity_sha256'', JStr hex_z),
      (''runtime_lock_path'', JStr ''/run/lock''), (''task_id'', JStr ''task''),
      (''worker_id'', JStr (uuid_text 22)), (''worker_session_id'', JStr (uuid_text 23))]"

lemma uuid_arg_text: "n < 2 ^ 128 \<Longrightarrow> uuid_arg F (JStr (uuid_text n)) = Inr (uuid_text n)"
  by (simp only: uuid_arg_def py_str_def json.case uuid_parse_text option.case)

lemma small_uuids: "uuid_arg F (JStr (uuid_text 8)) = Inr (uuid_text 8)" "uuid_arg F (JStr (uuid_text 10)) = Inr (uuid_text 10)"
  "uuid_arg F (JStr (uuid_text 20)) = Inr (uuid_text 20)" "uuid_arg F (JStr (uuid_text 21)) = Inr (uuid_text 21)"
  "uuid_arg F (JStr (uuid_text 22)) = Inr (uuid_text 22)" "uuid_arg F (JStr (uuid_text 23)) = Inr (uuid_text 23)"
  by (rule uuid_arg_text; simp)+

lemmas sample_checks = validate_binding_def uuids_def digests_def hex_z_digest small_uuids dget_def ensure_def

lemma sample_date: "date_fromisoformat ''2026-07-13'' = Some 739810" "weekday 739810 = 0"
  by (simp_all add: date_fromisoformat_def read_fixed_def is_digit_def digit_val_def starts_with_def date_month_def
      days_in_month_def is_leap_def ymd_to_ord_def days_before_year_def weekday_def Let_def upt_rec)

lemma shadow_accepted: "\<exists>s. activation_step_subject sample_founder (sample_args SHADOW_MONDAY_1 shadow_binding) = Inr s
    \<and> ss_step s = SHADOW_MONDAY_1 \<and> ss_activation_binding s = shadow_binding \<and> ss_package_id s = 7 
    \<and> (float_free (JObj shadow_binding) \<longrightarrow> float_free (JObj (subject_payload s)))"
proof (rule sample_accepts)
  show "sorted (map fst shadow_binding)" unfolding shadow_binding_def list.map fst_conv by (simp only: sorted2_simps) simp
  show "list_all (\<lambda>(k, v). json_canon v = v \<and> json_serializable (\<lambda>_. False) v) shadow_binding"
    by (simp add: shadow_binding_def py_str_int_def show_nat.simps INT_MAX_STR_DIGITS_def)
  show "set (map fst shadow_binding) = set (STEP_BINDING_KEYS SHADOW_MONDAY_1)"
    by (auto simp: shadow_binding_def table_simps)
  have "required (JStr ''2026-07-13'') = Inr ''2026-07-13''" by (simp add: required_def py_strip_def py_space_def)
  then show "validate_binding sample_founder SHADOW_MONDAY_1 shadow_binding = Inr ()"
    by (simp add: sample_checks shadow_binding_def validate_shadow_def positive_def py_int_of_def sample_date)
qed

lemma sample_paths: "safe_posix_path (JStr ''/opt/scribe'') = Inr ()" "safe_posix_path (JStr ''/run/lock'') = Inr ()"
  by (simp_all add: safe_posix_path_def required_def py_strip_def py_space_def path_of_def path_root_def starts_with_def
      is_absolute_def ensure_def)

lemma sample_words: "required (JStr ''session'') = Inr ''session''" "required (JStr ''task'') = Inr ''task''"
  "required (JStr ''2026-07-13T00:00:00Z'') = Inr ''2026-07-13T00:00:00Z''"
  by (simp_all add: required_def py_strip_def py_space_def)

lemma sample_timestamp: "timestamp sample_founder (JStr ''2026-07-13T00:00:00Z'') = Inr (py_replace ''+00:00'' ''Z'' ''2026-01-01T00:00:00+00:00'')"
  by (simp only: timestamp_def sample_words res_bind_simps) (simp add: sample_founder_def)

lemma recovery_accepted: "\<exists>s. activation_step_subject sample_founder (sample_args SCRIBE_ADMISSION recovery_binding) = Inr s
    \<and> ss_step s = SCRIBE_ADMISSION \<and> ss_activation_binding s = recovery_binding \<and> ss_package_id s = 7 
    \<and> (float_free (JObj recovery_binding) \<longrightarrow> float_free (JObj (subject_payload s)))"
proof (rule sample_accepts)
  show "sorted (map fst recovery_binding)" unfolding recovery_binding_def list.map fst_conv by (simp only: sorted2_simps) simp
  show "list_all (\<lambda>(k, v). json_canon v = v \<and> json_serializable (\<lambda>_. False) v) recovery_binding"
    by (simp add: recovery_binding_def py_str_int_def show_nat.simps INT_MAX_STR_DIGITS_def)
  show "set (map fst recovery_binding) = set (STEP_BINDING_KEYS SCRIBE_ADMISSION)"
    by (auto simp: recovery_binding_def table_simps)
  have ne: "uuid_text 10 \<noteq> uuid_text 20" using uuid_text_inj [of 10 20] by fastforce
  have "validate_authority_mode sample_founder recovery_binding = Inr ()"
    using ne by (simp add: validate_authority_mode_def sample_checks recovery_binding_def)
  then show "validate_binding sample_founder SCRIBE_ADMISSION recovery_binding = Inr ()"
    by (simp add: validate_binding_def validate_admission_def uuids_def digests_def)
      (simp add: sample_checks recovery_binding_def configured_scribe_def sample_scribe configured_def
        sample_words sample_paths sample_timestamp positive_def py_int_of_def)
qed


text \<open>Values whose objects are sorted and whose numbers are single digits are their own canonical form.\<close>

fun tidy :: "json \<Rightarrow> bool" where
  "tidy (JFloat _) = False"
| "tidy (JInt i) = (0 \<le> i \<and> i < 10)"
| "tidy (JList xs) = list_all tidy xs"
| "tidy (JObj kvs) = (sorted (map fst kvs) \<and> distinct (map fst kvs) \<and> list_all (\<lambda>(k, v). tidy v) kvs)"
| "tidy j = True"

lemma tidy_ok: "tidy j \<Longrightarrow> json_canon j = j \<and> json_serializable nf j \<and> json_ok j \<and> py_eq j j"
proof (induction j)
  case (JInt i)
  then have "nat i < 10" by (simp add: nat_less_iff)
  then have "show_nat (nat i) = [digit_chr (nat i)]" by (subst show_nat.simps) simp
  with JInt show ?case by (simp add: py_str_int_def INT_MAX_STR_DIGITS_def)
next
  case (JList xs)
  have "list_all (\<lambda>(x, y). py_eq x y) (zip xs xs)"
    using JList by (auto simp: list_all_iff zip_same_conv_map)
  with JList show ?case by (auto simp: list_all_iff map_idI)
next
  case (JObj kvs)
  then have all: "json_canon v = v \<and> json_serializable nf v \<and> json_ok v \<and> py_eq v v" if "(k, v) \<in> set kvs" for k v
    using that by (fastforce simp: list_all_iff)
  have "json_canon (JObj kvs) = JObj kvs"
    using JObj.prems all by (intro canon_sorted) (auto simp: list_all_iff)
  moreover have "list_all (\<lambda>(k, v). case map_of kvs k of None \<Rightarrow> False | Some w \<Rightarrow> py_eq v w) kvs"
    using JObj.prems all by (auto simp: list_all_iff)
  ultimately show ?case using JObj.prems all by (auto simp: list_all_iff)
qed auto

lemma closed_tidy:
  assumes "tidy (JObj kvs)" and "kvs \<noteq> []" and "set (map fst kvs) = set keys"
  shows "closed_mapping F keys (JObj kvs) = Inr kvs"
  using assms tidy_ok [OF assms(1), of "fe_nonfinite F"]
  by (simp add: closed_mapping_Inr canonical_mapping_Inr del: tidy.simps json_canon.simps json_serializable.simps)

definition phase4_artifact :: "(string \<times> json) list" where
  "phase4_artifact =
     [(''company_id'', JStr ''co''),
      (''constraints'', JList [JStr ''one'']),
      (''executable_plan'', JObj [(''commit_sha'', JStr git_z), (''path'', JStr ''plan''), (''tree_sha'', JStr git_z)]),
      (''governing_canon'', JObj [(''path'', JStr ''canon''), (''sha256'', JStr hex_z)]),
      (''host_kind'', JStr ''macbook''),
      (''issuer'', JNull),
      (''mandate_id'', JStr ''activation-mandate-x''),
      (''ordered_roles'', JList
         [JObj [(''deployment_id'', JStr ''d1''), (''role_type'', JStr ''cos''), (''worker_id'', JStr (uuid_text 10))],
          JObj [(''deployment_id'', JStr ''d2''), (''role_type'', JStr ''ccto''), (''worker_id'', JStr (uuid_text 20))]]),
      (''ordered_scope'', JList [JStr ''one'']),
      (''preserved_live_subject'', JObj
         [(''admission_epoch'', JInt 1), (''deployment_id'', JStr ''scribe''), (''package_sha256'', JStr hex_z),
          (''preservation_rule'', JStr ''keep''), (''process_id'', JInt 7)]),
      (''quoted_instruction'', JStr ''go''),
      (''receipt_requirements'', JList [JStr ''one'']),
      (''recorded_at'', JStr ''2026-07-13T00:00:00Z''),
      (''requires_additional_founder_go_within_scope'', JBool False),
      (''rollback_policy'', JObj
         [(''fence_order'', JStr ''a''), (''per_role_target'', JStr ''b''), (''proof_required'', JStr ''c'')]),
      (''schema'', JStr PHASE4_MANDATE_SCHEMA),
      (''source_kind'', JStr ''direct_founder_instruction''),
      (''status'', JStr ''active''),
      (''terminal_condition'', JObj
         [(''authorization_valid_after_terminal'', JBool False), (''completion_rule'', JStr ''all''),
          (''recovery_only_contract'', JObj
             [(''monotonic_epochs_only'', JBool True), (''same_authority_root'', JBool True),
              (''same_deployment'', JBool True), (''same_host'', JBool True), (''same_release'', JBool True),
              (''same_role'', JBool True)]),
          (''terminal_status'', JStr ''completed'')])]"

definition mandate_bytes :: "(string \<times> json) list \<Rightarrow> string" where
  "mandate_bytes art = json_text (\<lambda>_. ''0.5'') (JObj art)"

definition sample_process :: founder_env where
  "sample_process = sample_founder\<lparr>fe_py := sample_py\<lparr>sha256 := \<lambda>_. hex_z\<rparr>,
     fe_bindings := [(''PHASE4_MANDATE_ID'', ''activation-mandate-x''), (''PHASE4_MANDATE_ARTIFACT_SHA256'', hex_z)],
     fe_read_bytes := (\<lambda>p. Some (mandate_bytes phase4_artifact))\<rparr>"

lemma tidy_phase4: "tidy (JObj phase4_artifact)"
  unfolding phase4_artifact_def tidy.simps list.map fst_conv list.pred_inject prod.case
  by (simp only: sorted2_simps) simp

lemma loads_tidy:
  assumes "tidy (JObj art)" and "fe_bytes_text F = Some"
  shows "loads_bytes F (mandate_bytes art) = Inr (JObj art)"
  using tidy_ok [OF assms(1)] loads_text [of "JObj art"] assms(2) by (simp add: loads_bytes_def mandate_bytes_def del: json_ok.simps)


text \<open>The lookups of a concrete object.\<close>

lemma sample_company: "company_id (fe_environ sample_founder) = Inr ''co''"
  by (simp add: company_id_def cfg_identity_def sample_founder_def identifier_match_def chr_alnum_def chr_lower_def chr_digit_def chr_upper_def chr_range_def)

lemma process_fields: "fe_environ sample_process = fe_environ sample_founder" "fe_bytes_text sample_process = Some"
  "sha256 (fe_py sample_process) = (\<lambda>_. hex_z)" "fe_read_bytes sample_process = (\<lambda>p. Some (mandate_bytes phase4_artifact))"
  "pin sample_process ''PHASE4_MANDATE_ID'' = Some ''activation-mandate-x''"
  "pin sample_process ''PHASE4_MANDATE_ARTIFACT_SHA256'' = Some hex_z" "pin sample_process ''AUTHORITY_ISSUER'' = None"
  by (simp_all add: sample_process_def sample_founder_def pin_def deployment_binding_def)

lemma process_timestamp: "\<exists>t. timestamp sample_process (JStr ''2026-07-13T00:00:00Z'') = Inr t"
  by (simp only: timestamp_def sample_words res_bind_simps) (simp add: sample_process_def sample_founder_def)

lemma small_words: "required (JStr ''plan'') = Inr ''plan''" "required (JStr ''canon'') = Inr ''canon''"
  "required (JStr ''keep'') = Inr ''keep''" "required (JStr ''go'') = Inr ''go''" "required (JStr ''all'') = Inr ''all''"
  "required (JStr ''a'') = Inr ''a''" "required (JStr ''b'') = Inr ''b''" "required (JStr ''c'') = Inr ''c''"
  "required (JStr ''d1'') = Inr ''d1''" "required (JStr ''d2'') = Inr ''d2''" "required (JStr ''cos'') = Inr ''cos''"
  "required (JStr ''ccto'') = Inr ''ccto''"
  by (simp_all add: required_def py_strip_def py_space_def)

lemma phase4_get:
  "dget phase4_artifact ''schema'' = JStr PHASE4_MANDATE_SCHEMA" "dget phase4_artifact ''mandate_id'' = JStr ''activation-mandate-x''"
  "dget phase4_artifact ''status'' = JStr ''active''" "dget phase4_artifact ''issuer'' = JNull"
  "dget phase4_artifact ''source_kind'' = JStr ''direct_founder_instruction''"
  "dget phase4_artifact ''company_id'' = JStr ''co''" "dget phase4_artifact ''host_kind'' = JStr ''macbook''"
  "dget phase4_artifact ''requires_additional_founder_go_within_scope'' = JBool False"
  "dget phase4_artifact ''quoted_instruction'' = JStr ''go''" "dget phase4_artifact ''recorded_at'' = JStr ''2026-07-13T00:00:00Z''"
  "dget phase4_artifact ''ordered_scope'' = JList [JStr ''one'']" "dget phase4_artifact ''constraints'' = JList [JStr ''one'']"
  "dget phase4_artifact ''receipt_requirements'' = JList [JStr ''one'']"
  by (simp_all add: dget_def phase4_artifact_def)

lemma phase4_identity_sample: "phase4_identity sample_process ''activation-mandate-x'' phase4_artifact = Inr ()"
  by (simp add: phase4_identity_def phase4_get pinned_def process_fields sample_company configured_def ensure_def is_json_bool_def)

lemma phase4_provenance_sample: "phase4_provenance sample_process phase4_artifact = Inr ()"
proof -
  obtain t where t: "timestamp sample_process (JStr ''2026-07-13T00:00:00Z'') = Inr t" using process_timestamp by blast
  have g: "closed_mapping sample_process [''path'', ''sha256''] (dget phase4_artifact ''governing_canon'')
      = Inr [(''path'', JStr ''canon''), (''sha256'', JStr hex_z)]"
    by (simp add: dget_def phase4_artifact_def closed_tidy)
  have p: "closed_mapping sample_process [''path'', ''commit_sha'', ''tree_sha''] (dget phase4_artifact ''executable_plan'')
      = Inr [(''commit_sha'', JStr git_z), (''path'', JStr ''plan''), (''tree_sha'', JStr git_z)]"
    by (simp add: dget_def phase4_artifact_def) (rule closed_tidy; auto)
  show ?thesis
    by (simp only: phase4_provenance_def phase4_get t g p small_words res_bind_simps)
      (simp add: dget_def small_words hex_z_digest git_z_digest)
qed

lemma phase4_preserved_sample: "phase4_preserved sample_process phase4_artifact = Inr ()"
proof -
  have c: "closed_mapping sample_process
      [''deployment_id'', ''package_sha256'', ''admission_epoch'', ''process_id'', ''preservation_rule'']
      (dget phase4_artifact ''preserved_live_subject'')
      = Inr [(''admission_epoch'', JInt 1), (''deployment_id'', JStr ''scribe''), (''package_sha256'', JStr hex_z),
          (''preservation_rule'', JStr ''keep''), (''process_id'', JInt 7)]"
    by (simp add: dget_def phase4_artifact_def) (rule closed_tidy; auto)
  show ?thesis
    by (simp only: phase4_preserved_def c res_bind_simps)
      (simp add: dget_def process_fields sample_scribe configured_def ensure_def small_words hex_z_digest positive_def py_int_of_def)
qed

lemma phase4_roles_sample: "\<exists>r. phase4_roles sample_process (dget phase4_artifact ''ordered_roles'') = Inr r"
proof -
  have c: "closed_mapping sample_process [''role_type'', ''deployment_id'', ''worker_id'']
      (JObj [(''deployment_id'', JStr d), (''role_type'', JStr t), (''worker_id'', JStr w)])
      = Inr [(''deployment_id'', JStr d), (''role_type'', JStr t), (''worker_id'', JStr w)]" for d t w
    by (rule closed_tidy) auto
  have ne: "uuid_text 20 \<noteq> uuid_text 10" using uuid_text_inj [of 10 20] by fastforce
  show ?thesis
    by (simp add: phase4_roles_def phase4_role_def dget_def phase4_artifact_def c small_words small_uuids table_simps ne)
qed

lemma phase4_terminal_sample: "phase4_terminal sample_process phase4_artifact = Inr ()"
proof -
  let ?r = "[(''monotonic_epochs_only'', JBool True), (''same_authority_root'', JBool True), (''same_deployment'', JBool True),
      (''same_host'', JBool True), (''same_release'', JBool True), (''same_role'', JBool True)]"
  have c: "closed_mapping sample_process
      [''completion_rule'', ''terminal_status'', ''authorization_valid_after_terminal'', ''recovery_only_contract'']
      (dget phase4_artifact ''terminal_condition'')
      = Inr [(''authorization_valid_after_terminal'', JBool False), (''completion_rule'', JStr ''all''),
          (''recovery_only_contract'', JObj ?r), (''terminal_status'', JStr ''completed'')]"
    by (simp add: dget_def phase4_artifact_def) (rule closed_tidy; auto)
  have r: "closed_mapping sample_process RECOVERY_AXES (JObj ?r) = Inr ?r"
    by (rule closed_tidy) (auto simp: table_simps)
  show ?thesis
    by (simp only: phase4_terminal_def c res_bind_simps) (simp add: dget_def small_words ensure_def r)
qed

lemma phase4_rollback_sample: "phase4_rollback sample_process phase4_artifact = Inr ()"
proof -
  have c: "closed_mapping sample_process [''per_role_target'', ''fence_order'', ''proof_required''] (dget phase4_artifact ''rollback_policy'')
      = Inr [(''fence_order'', JStr ''a''), (''per_role_target'', JStr ''b''), (''proof_required'', JStr ''c'')]"
    by (simp add: dget_def phase4_artifact_def) (rule closed_tidy; auto)
  show ?thesis by (simp add: phase4_rollback_def c small_words)
qed

lemma phase4_sample:
  "phase4_mandate sample_process ''activation-mandate-x'' (JObj phase4_artifact) hex_z (mandate_bytes phase4_artifact)
     = Inr \<lparr>md_mandate_id = ''activation-mandate-x'', md_artifact = phase4_artifact, md_artifact_sha256 = hex_z,
         md_artifact_bytes = mandate_bytes phase4_artifact\<rparr>"
proof -
  obtain r where r: "phase4_roles sample_process (dget phase4_artifact ''ordered_roles'') = Inr r" using phase4_roles_sample by blast
  have c: "closed_mapping sample_process PHASE4_MANDATE_KEYS (JObj phase4_artifact) = Inr phase4_artifact"
    by (rule closed_tidy [OF tidy_phase4]) (auto simp: phase4_artifact_def table_simps)
  have e: "py_eq (JObj phase4_artifact) (JObj phase4_artifact)" using tidy_ok [OF tidy_phase4] by blast
  have u: "all_res (\<lambda>field. unique_strings (dget phase4_artifact field)) [''ordered_scope'', ''constraints'', ''receipt_requirements''] = Inr ()"
    by (simp add: phase4_get unique_strings_def nonblank_json_def ensure_def py_space_def)
  show ?thesis
    by (simp only: phase4_mandate_def sample_texts res_bind_simps c e u r loads_tidy [OF tidy_phase4 process_fields(2)]
        process_fields phase4_identity_sample phase4_provenance_sample phase4_preserved_sample phase4_terminal_sample
        phase4_rollback_sample hex_z_digest ensure_def simp_thms if_True)
qed

definition founder_artifact :: "(string \<times> json) list" where
  "founder_artifact =
     [(''constraints'', JList (map JStr MANDATE_CONSTRAINTS)),
      (''executable_plan'', JStr ''plan''),
      (''governing_canon'', JStr ''canon''),
      (''issuer'', JStr ''founder''),
      (''mandate_id'', JStr ''activation-mandate-x''),
      (''ordered_scope'', JList (map JStr MANDATE_ORDERED_SCOPE)),
      (''quoted_instruction'', JStr ''go''),
      (''recorded_at'', JStr ''2026-07-13T00:00:00Z''),
      (''requires_additional_founder_go_within_scope'', JBool False),
      (''schema'', JStr MANDATE_SCHEMA),
      (''source_kind'', JStr ''direct_founder_instruction''),
      (''status'', JStr ''active''),
      (''terminal_condition'', json_canon MANDATE_TERMINAL_CONDITION)]"

definition pinned_process :: founder_env where
  "pinned_process = sample_process\<lparr>fe_bindings := [(''MANDATE_ID'', ''activation-mandate-x''),
     (''MANDATE_ARTIFACT_SHA256'', hex_z), (''AUTHORITY_ISSUER'', ''founder''), (''MANDATE_QUOTED_INSTRUCTION'', ''go''),
     (''MANDATE_RECORDED_AT'', ''2026-07-13T00:00:00Z''), (''MANDATE_GOVERNING_CANON'', ''canon''),
     (''MANDATE_EXECUTABLE_PLAN'', ''plan'')]\<rparr>"

lemma terminal_canonical: "json_canon MANDATE_TERMINAL_CONDITION = JObj
     [(''authorization_valid_after_terminal'', JBool False),
      (''deterministic_recovery_contract'', JObj
         [(''forbids'', JStr (''new_release_new_host_new_deployment_scope_expansion_or_new_'' @ ''effect_authority'')),
          (''requires_additional_founder_go'', JBool False),
          (''scope'', JStr (''same_exact_release_same_hosts_same_deployments_same_authority_'' @
             ''root_monotonic_recovery_epochs_only'')),
          (''survives_terminal'', JBool True)]),
      (''terminal_status'', JStr ''completed''),
      (''when'', JStr (''all_ordered_scope_steps_have_verified_completion_receipts_and_final_'' @
         ''combined_recovery_receipt_is_verified''))]"
  by (simp add: MANDATE_TERMINAL_CONDITION_def)

lemma tidy_founder: "tidy (JObj founder_artifact)"
  unfolding founder_artifact_def tidy.simps list.map fst_conv list.pred_inject prod.case terminal_canonical
  by (simp only: sorted2_simps) (simp add: table_simps)

lemma founder_exact: "artifact_exact pinned_process ''activation-mandate-x'' founder_artifact"
proof -
  have t: "py_eq (json_canon MANDATE_TERMINAL_CONDITION) MANDATE_TERMINAL_CONDITION"
    unfolding terminal_canonical by (simp add: MANDATE_TERMINAL_CONDITION_def)
  have p: "pinned pinned_process ''MANDATE_ID'' = JStr ''activation-mandate-x''" "pinned pinned_process ''AUTHORITY_ISSUER'' = JStr ''founder''"
    "pinned pinned_process ''MANDATE_QUOTED_INSTRUCTION'' = JStr ''go''"
    "pinned pinned_process ''MANDATE_RECORDED_AT'' = JStr ''2026-07-13T00:00:00Z''"
    "pinned pinned_process ''MANDATE_GOVERNING_CANON'' = JStr ''canon''" "pinned pinned_process ''MANDATE_EXECUTABLE_PLAN'' = JStr ''plan''"
    by (simp_all add: pinned_def pin_def deployment_binding_def pinned_process_def)
  have g: "dget founder_artifact ''schema'' = JStr MANDATE_SCHEMA" "dget founder_artifact ''mandate_id'' = JStr ''activation-mandate-x''"
    "dget founder_artifact ''status'' = JStr ''active''" "dget founder_artifact ''issuer'' = JStr ''founder''"
    "dget founder_artifact ''source_kind'' = JStr ''direct_founder_instruction''"
    "dget founder_artifact ''quoted_instruction'' = JStr ''go''" "dget founder_artifact ''recorded_at'' = JStr ''2026-07-13T00:00:00Z''"
    "dget founder_artifact ''governing_canon'' = JStr ''canon''" "dget founder_artifact ''executable_plan'' = JStr ''plan''"
    "dget founder_artifact ''ordered_scope'' = JList (map JStr MANDATE_ORDERED_SCOPE)"
    "dget founder_artifact ''constraints'' = JList (map JStr MANDATE_CONSTRAINTS)"
    "dget founder_artifact ''requires_additional_founder_go_within_scope'' = JBool False"
    "dget founder_artifact ''terminal_condition'' = json_canon MANDATE_TERMINAL_CONDITION"
    by (simp_all add: dget_def founder_artifact_def del: list.map json_canon.simps)
  show ?thesis
    by (simp only: artifact_exact_def p g py_eq_JStr py_eq_texts_list t simp_thms)
qed

lemma founder_sample: "\<exists>m. founder_from_bytes pinned_process (mandate_bytes founder_artifact) = Inr m"
proof -
  have l: "loads_bytes pinned_process (mandate_bytes founder_artifact) = Inr (JObj founder_artifact)"
    by (rule loads_tidy [OF tidy_founder]) (simp add: pinned_process_def process_fields)
  have i: "map_of founder_artifact ''mandate_id'' = Some (JStr ''activation-mandate-x'')"
    by (simp add: founder_artifact_def del: list.map json_canon.simps)
  have c: "closed_mapping pinned_process MANDATE_KEYS (JObj founder_artifact) = Inr founder_artifact"
    by (rule closed_tidy [OF tidy_founder]) (auto simp: founder_artifact_def table_simps)
  have e: "py_eq (JObj founder_artifact) (JObj founder_artifact)" using tidy_ok [OF tidy_founder] by blast
  have s: "sha256 (fe_py pinned_process) = (\<lambda>_. hex_z)" by (simp add: pinned_process_def process_fields)
  have p: "pinned pinned_process ''MANDATE_ARTIFACT_SHA256'' = JStr hex_z"
    by (simp add: pinned_def pin_def deployment_binding_def pinned_process_def)
  have g: "dget founder_artifact ''recorded_at'' = JStr ''2026-07-13T00:00:00Z''"
    by (simp add: dget_def founder_artifact_def del: list.map json_canon.simps)
  have f: "fe_parse_iso pinned_process = fe_parse_iso sample_process" "fe_utc_text pinned_process = fe_utc_text sample_process"
    by (simp_all add: pinned_process_def)
  obtain t where t: "timestamp pinned_process (JStr ''2026-07-13T00:00:00Z'') = Inr t"
    using process_timestamp f by (auto simp only: timestamp_def)
  show ?thesis
    by (simp only: founder_from_bytes_def mandate_from_bytes_def l res_bind_simps json.case i option.case py_str_def s
        founder_mandate_def sample_texts c e p py_eq_JStr founder_exact simp_thms ensure_def if_True g t hex_z_digest) blast
qed

lemma load_sample: "load_company_role_mandate sample_process ''/m'' ''cos'' = Inr \<lparr>md_mandate_id = ''activation-mandate-x'',
     md_artifact = phase4_artifact, md_artifact_sha256 = hex_z, md_artifact_bytes = mandate_bytes phase4_artifact\<rparr>"
proof -
  have p: "safe_path ''/m''" by (simp add: safe_path_def path_of_def path_root_def starts_with_def is_absolute_def)
  have i: "map_of phase4_artifact ''mandate_id'' = Some (JStr ''activation-mandate-x'')" by (simp add: phase4_artifact_def)
  show ?thesis
    by (simp add: load_company_role_mandate_def phase4_from_path_def mandate_from_path_def p process_fields phase4_from_bytes_def
        mandate_from_bytes_def loads_tidy [OF tidy_phase4] i py_str_def phase4_sample)
qed

end
