(* ===== verification/Founder_Properties.thy ===== *)
theory Founder_Properties
  imports Founder_Samples
begin

text \<open>
  The properties of the founder authority: of step subjects, of the role mandates and of the founder
  mandate.
\<close>

section \<open>Step subjects\<close>

text \<open>
  C22. The classmethod exact builds the only form of a step: whenever the constructor accepts a subject,
  from whatever states the caller passed, building it with exact, which takes role, pre-state and
  post-state from the tables of the step, gives the same subject. The two states are dicts, so
  their keys are distinct.
\<close>

theorem accepted_subject_has_exact_form:
  assumes "activation_step_subject F a = Inr s" and "py_dict (sa_pre_state a)" and "py_dict (sa_post_state a)"
  shows "exact_subject F a = Inr s"
proof -
  from assms(1) obtain scribe where acc:
    "configured (scribe_deployment_id (fe_environ F)) = Inr scribe"
    "required (JStr (sa_mandate_id a)) = Inr (ss_mandate_id s)" "mandate_id_match (ss_mandate_id s)"
    "step_of (sa_step a) = Some (ss_step s)"
    "required (JStr (sa_tenant_id a)) = Inr (ss_tenant_id s)"
    "sa_role a = STEP_ROLES (ss_step s)"
    "canonical_mapping F (sa_pre_state a) = Inr (ss_pre_state s)"
    "canonical_mapping F (sa_post_state a) = Inr (ss_post_state s)"
    "py_eq (JObj (ss_pre_state s)) (PRE_STATES (ss_step s))"
    "py_eq (JObj (ss_post_state s)) (POST_STATES scribe (ss_step s))"
    by (rule subject_accepted)
  obtain p where p: "PRE_STATES (ss_step s) = texts p" "distinct (map fst p)" using states_are_texts(1) by blast
  obtain q where q: "POST_STATES scribe (ss_step s) = texts q" "distinct (map fst q)" using states_are_texts(2) by blast
  have "canonical_mapping F (PRE_STATES (ss_step s)) = canonical_mapping F (sa_pre_state a)"
    using canonical_of_equal_texts [OF acc(7) assms(2) acc(9) [unfolded p] p(2)] acc(7) p(1) by simp
  moreover have "canonical_mapping F (POST_STATES scribe (ss_step s)) = canonical_mapping F (sa_post_state a)"
    using canonical_of_equal_texts [OF acc(8) assms(3) acc(10) [unfolded q] q(2)] acc(8) q(1) by simp
  ultimately show ?thesis
    using assms(1) acc(1, 4, 6) by (simp add: exact_subject_def activation_step_subject_def)
qed

theorem accepted_subject_has_exact_form_witness:
  "\<exists>s. exact_subject sample_founder (sample_args SHADOW_MONDAY_1 shadow_binding) = Inr s"
proof -
  obtain s where "activation_step_subject sample_founder (sample_args SHADOW_MONDAY_1 shadow_binding) = Inr s"
    using shadow_accepted by blast
  from accepted_subject_has_exact_form [OF this] show ?thesis by (auto simp: sample_args_def texts_def)
qed

text \<open>
  C19. The digest of a step subject binds every field of it: two different accepted subjects have different
  digests, unless the digest function confuses their two canonical texts. A UUID object has
  128 bits, and the texts of floats, if a binding has any, are those of Python.
\<close>

theorem subject_digest_binds_subject:
  assumes "activation_step_subject F a = Inr s" and "activation_step_subject F b = Inr t"
    and "ss_package_id s < 2 ^ 128" and "ss_package_id t < 2 ^ 128"
    and "float_free (JObj (subject_payload s)) \<and> float_free (JObj (subject_payload t)) \<or> float_repr_ok (float_repr (fe_py F))"
    and "inj_on (sha256 (fe_py F)) {authority_bytes F (subject_payload s), authority_bytes F (subject_payload t)}"
    and "s \<noteq> t"
  shows "subject_sha256 F s \<noteq> subject_sha256 F t"
proof
  assume "subject_sha256 F s = subject_sha256 F t"
  then have "authority_bytes F (subject_payload s) = authority_bytes F (subject_payload t)"
    unfolding subject_sha256_def by (rule inj_onD [OF assms(6)]) simp_all
  then have "json_canon (JObj (subject_payload s)) = json_canon (JObj (subject_payload t))"
    unfolding authority_bytes_def by (rule json_utf8_inj [OF _ assms(5)])
  then show False using payload_determines_subject [OF assms(1-4)] assms(7) by blast
qed

theorem subject_digest_binds_subject_witness:
  "\<exists>s t. activation_step_subject sample_founder (sample_args SHADOW_MONDAY_1 shadow_binding) = Inr s
     \<and> activation_step_subject sample_founder (sample_args SCRIBE_ADMISSION recovery_binding) = Inr t
     \<and> subject_sha256 sample_founder s \<noteq> subject_sha256 sample_founder t"
proof -
  obtain s where s: "activation_step_subject sample_founder (sample_args SHADOW_MONDAY_1 shadow_binding) = Inr s"
      "ss_step s = SHADOW_MONDAY_1" "ss_package_id s = 7" "float_free (JObj (subject_payload s))"
    using shadow_accepted by (auto simp: shadow_binding_def)
  obtain t where t: "activation_step_subject sample_founder (sample_args SCRIBE_ADMISSION recovery_binding) = Inr t"
      "ss_step t = SCRIBE_ADMISSION" "ss_package_id t = 7" "float_free (JObj (subject_payload t))"
    using recovery_accepted by (auto simp: recovery_binding_def)
  have ne: "s \<noteq> t" using s(2) t(2) by auto
  have inj: "inj_on (sha256 (fe_py sample_founder)) A" for A by (simp add: sample_founder_def sample_py_def inj_on_def)
  have "subject_sha256 sample_founder s \<noteq> subject_sha256 sample_founder t"
    by (rule subject_digest_binds_subject [OF s(1) t(1) _ _ disjI1 [OF conjI [OF s(4) t(4)]] inj ne]) (simp_all add: s(3) t(3))
  with s(1) t(1) show ?thesis by blast
qed

text \<open>
  C21. A subject survives its own record: an accepted subject's canonical payload, read back field by field
  with the step as text and the package as the text of its UUID, is accepted again and gives the
  same subject.
\<close>

theorem subject_rebuilt_from_payload:
  assumes "activation_step_subject F a = Inr s" and "ss_package_id s < 2 ^ 128"
  shows "activation_step_subject F (args_of_payload (JObj (subject_payload s))) = Inr s"
proof -
  from assms(1) obtain scribe where acc:
    "configured (scribe_deployment_id (fe_environ F)) = Inr scribe"
    "required (JStr (ss_mandate_id s)) = Inr (ss_mandate_id s)" "mandate_id_match (ss_mandate_id s)"
    "required (JStr (ss_tenant_id s)) = Inr (ss_tenant_id s)"
    "ss_role s = STEP_ROLES (ss_step s)"
    "exact_digest git_sha_match (JStr (ss_release_commit_sha s)) = Inr (ss_release_commit_sha s)"
    "exact_digest git_sha_match (JStr (ss_release_tree_sha s)) = Inr (ss_release_tree_sha s)"
    "exact_digest is_hex64 (JStr (ss_release_digest_sha256 s)) = Inr (ss_release_digest_sha256 s)"
    "exact_digest is_hex64 (JStr (ss_package_sha256 s)) = Inr (ss_package_sha256 s)"
    "required (JStr (ss_attempt_key s)) = Inr (ss_attempt_key s)" "16 \<le> length (ss_attempt_key s)"
    "canonical_mapping F (JObj (ss_pre_state s)) = Inr (ss_pre_state s)"
    "canonical_mapping F (JObj (ss_post_state s)) = Inr (ss_post_state s)"
    "py_eq (JObj (ss_pre_state s)) (PRE_STATES (ss_step s))"
    "py_eq (JObj (ss_post_state s)) (POST_STATES scribe (ss_step s))"
    "closed_mapping F (STEP_BINDING_KEYS (ss_step s)) (JObj (ss_activation_binding s)) = Inr (ss_activation_binding s)"
    "validate_binding F (ss_step s) (ss_activation_binding s) = Inr ()"
    by (rule subject_accepted) (rule that; (rule required_again exact_digest_again canonical_mapping_fixed(1) closed_mapping_fixed)?; assumption)
  have "package_uuid (UuidText (uuid_text (ss_package_id s))) = Inr (ss_package_id s)"
    using uuid_parse_text [OF assms(2)] by (simp add: package_uuid_def)
  then show ?thesis
    unfolding args_of_subject_payload activation_step_subject_def subject_args.simps step_of_value
    by (simp add: acc ensure_def)
qed

theorem subject_rebuilt_from_payload_witness:
  "\<exists>s. ss_step s = SCRIBE_ADMISSION
     \<and> activation_step_subject sample_founder (args_of_payload (JObj (subject_payload s))) = Inr s"
proof -
  obtain s where s: "activation_step_subject sample_founder (sample_args SCRIBE_ADMISSION recovery_binding) = Inr s"
      "ss_step s = SCRIBE_ADMISSION" "ss_package_id s = 7" using recovery_accepted by blast
  from subject_rebuilt_from_payload [OF s(1)] s(2, 3) show ?thesis by auto
qed

text \<open>
  C17. A Scribe admission is initial or a recovery, never both and never neither. An initial one is its own
  authority root and carries no trace of a recovery; a recovery names another root, the prior
  admission, the intent and the two digests. Either way only the configured Scribe deployment and
  the Scribe role are admitted.
\<close>

theorem scribe_admission_initial_or_recovered:
  assumes "activation_step_subject F a = Inr s" and "ss_step s = SCRIBE_ADMISSION"
  shows "ss_role s = ''scribe''
    \<and> scribe_deployment_id (fe_environ F) \<in> {Inr d | d. dget (ss_activation_binding s) ''deployment_id'' = JStr d}
    \<and> named_uuid F (ss_activation_binding s) ''admission_id'' \<noteq> None
    \<and> (initial_admission F (ss_activation_binding s) \<noteq> recovered_admission F (ss_activation_binding s))"
proof -
  let ?b = "ss_activation_binding s"
  have v: "validate_admission F ?b = Inr ()" using subject_binding(1) [OF assms(1)] assms(2) by simp
  then have scribe: "scribe_deployment_id (fe_environ F) \<in> {Inr d | d. dget ?b ''deployment_id'' = JStr d}"
    by (auto simp: validate_admission_def configured_scribe_def configured_def res_bind_Inr_iff split: sum.splits)
  from v have "validate_authority_mode F ?b = Inr ()"
    by (auto simp: validate_admission_def res_bind_Inr_iff)
  then obtain root own where ids: "named_uuid F ?b ''authority_root_admission_id'' = Some root"
      "named_uuid F ?b ''admission_id'' = Some own"
      and m: "if dget ?b ''authority_mode'' = JStr ''initial-local-activation''
        then uuid_text root = uuid_text own \<and> list_all (\<lambda>field. dget ?b field = JNull) RECOVERY_FIELDS
        else dget ?b ''authority_mode'' = JStr ''standing-mandate-recovery'' \<and> uuid_text root \<noteq> uuid_text own
          \<and> uuids F ?b [''prior_admission_id'', ''recovery_intent_id''] = Inr ()
          \<and> digests ?b [''prior_rollback_receipt_sha256'', ''restart_intent_sha256''] = Inr ()"
    by (auto simp: validate_authority_mode_def res_bind_Inr_iff uuid_arg_Inr named_uuid_def split: if_splits)
  have "initial_admission F ?b \<noteq> recovered_admission F ?b"
  proof (cases "dget ?b ''authority_mode'' = JStr ''initial-local-activation''")
    case True
    with m have "root = own" using uuid_text_inj ids uuid_parse_bound by (auto simp: named_uuid_def)
    with True m ids show ?thesis by (simp add: initial_admission_def recovered_admission_def)
  next
    case False
    with m have "root \<noteq> own" "list_all (\<lambda>f. named_uuid F ?b f \<noteq> None) [''prior_admission_id'', ''recovery_intent_id'']"
      by (auto simp: named_uuid_def dest!: uuids_Inr)
    with False m ids show ?thesis by (auto simp: initial_admission_def recovered_admission_def dest!: digests_Inr)
  qed
  then show ?thesis using scribe ids subject_binding(3) [OF assms(1)] assms(2) by simp
qed

theorem scribe_admission_initial_or_recovered_witness:
  "recovered_admission sample_founder recovery_binding \<and> \<not> initial_admission sample_founder recovery_binding"
proof -
  obtain s where s: "activation_step_subject sample_founder (sample_args SCRIBE_ADMISSION recovery_binding) = Inr s"
      "ss_step s = SCRIBE_ADMISSION" "ss_activation_binding s = recovery_binding" using recovery_accepted by blast
  have "dget recovery_binding ''authority_mode'' = JStr ''standing-mandate-recovery''"
    by (simp add: dget_def recovery_binding_def)
  then have "\<not> initial_admission sample_founder recovery_binding" by (simp add: initial_admission_def)
  with scribe_admission_initial_or_recovered [OF s(1, 2)] s(3) show ?thesis by simp
qed

text \<open>
  A shadow step counts one real Monday and has no effect: its service date is a date of the calendar
  that falls on a Monday, its ordinal is the one of the step, and its fence mode is no-effect.
\<close>

theorem shadow_steps_are_mondays_without_effect:
  assumes "activation_step_subject F a = Inr s" and "ss_step s \<in> {SHADOW_MONDAY_1, SHADOW_MONDAY_2, SHADOW_MONDAY_3}"
  shows "\<exists>t day. dget (ss_activation_binding s) ''service_date'' = JStr t \<and> date_fromisoformat t = Some day \<and> weekday day = 0
    \<and> py_int_of (dget (ss_activation_binding s) ''shadow_ordinal'') = Some (shadow_ordinal (ss_step s))
    \<and> dget (ss_activation_binding s) ''fence_mode'' = JStr ''shadow-no-effect'' \<and> ss_role s = ''ccto''"
proof -
  let ?b = "ss_activation_binding s"
  have v: "validate_shadow (ss_step s) ?b = Inr ()" and r: "ss_role s = ''ccto''"
    using subject_binding(1, 3) [OF assms(1)] assms(2) by auto
  then show ?thesis
    by (auto simp: validate_shadow_def res_bind_Inr_iff positive_def dest!: required_Inr split: option.splits if_splits)
qed

theorem shadow_steps_are_mondays_without_effect_witness:
  "\<exists>t day. dget shadow_binding ''service_date'' = JStr t \<and> date_fromisoformat t = Some day \<and> weekday day = 0"
proof -
  obtain s where s: "activation_step_subject sample_founder (sample_args SHADOW_MONDAY_1 shadow_binding) = Inr s"
      "ss_step s = SHADOW_MONDAY_1" "ss_activation_binding s = shadow_binding" using shadow_accepted by blast
  from shadow_steps_are_mondays_without_effect [OF s(1)] s(2, 3) show ?thesis by auto
qed

section \<open>Mandates\<close>

text \<open>
  C20. A Phase-4 mandate admits each company role once. The field \<^verbatim>\<open>ordered_roles\<close> of an accepted artifact is a
  nonempty array of at most ten objects; every one of them has exactly the keys of a role, with two texts and a
  UUID; and over all objects of the array, read one by one in the artifact's order, the role types are company
  roles and no role type, no deployment and no worker occurs twice, where workers are compared as UUIDs and not as
  texts. So an artifact that repeats a role, a deployment or a worker is refused.
\<close>

theorem phase4_roles_are_distinct:
  assumes "phase4_mandate F mandate_id artifact artifact_sha256 raw = Inr m"
  shows "\<exists>items (roles :: role_entry list). dget (md_artifact m) ''ordered_roles'' = JList items \<and> items \<noteq> [] \<and> length items \<le> 10
    \<and> list_all2 (\<lambda>item r. \<exists>kvs n. item = JObj kvs \<and> fst ` set kvs = {''role_type'', ''deployment_id'', ''worker_id''}
        \<and> dget kvs ''role_type'' = JStr (re_role_type r) \<and> dget kvs ''deployment_id'' = JStr (re_deployment_id r)
        \<and> uuid_parse (py_str (fe_py F) (dget kvs ''worker_id'')) = Some n \<and> re_worker_id r = uuid_text n) items roles
    \<and> distinct (map re_role_type roles) \<and> distinct (map re_deployment_id roles) \<and> distinct (map re_worker_id roles)
    \<and> set (map re_role_type roles) \<subseteq> set PHASE4_COMPANY_ROLE_TYPES"
proof -
  from assms obtain v roles where roles: "phase4_roles F (dget (md_artifact m) ''ordered_roles'') = Inr roles"
      and v: "canonical_mapping F v = Inr (md_artifact m)"
    by (auto simp: phase4_mandate_def res_bind_Inr_iff closed_mapping_Inr)
  from phase4_roles_spelt [OF v roles] obtain items where items: "dget (md_artifact m) ''ordered_roles'' = JList items"
      "items \<noteq> []" "list_all2 (spells_role F) items roles" "roles_ok roles" .
  note ok = items(4) [unfolded roles_ok_def]
  have "length roles = card (set (map re_role_type roles))" using ok by (metis distinct_card length_map)
  also have "\<dots> \<le> card (set PHASE4_COMPANY_ROLE_TYPES)" using ok by (intro card_mono) simp_all
  also have "\<dots> \<le> 10" using card_length [of PHASE4_COMPANY_ROLE_TYPES] by (simp add: PHASE4_COMPANY_ROLE_TYPES_def)
  finally have "length items \<le> 10" using list_all2_lengthD [OF items(3)] by simp
  moreover have "list_all2 (\<lambda>item r. \<exists>kvs n. item = JObj kvs \<and> fst ` set kvs = {''role_type'', ''deployment_id'', ''worker_id''}
        \<and> dget kvs ''role_type'' = JStr (re_role_type r) \<and> dget kvs ''deployment_id'' = JStr (re_deployment_id r)
        \<and> uuid_parse (py_str (fe_py F) (dget kvs ''worker_id'')) = Some n \<and> re_worker_id r = uuid_text n) items roles"
    using items(3) by (rule list_all2_mono) (auto simp: spells_role_def named_uuid_def split: json.splits option.splits)
  ultimately show ?thesis using items(1, 2) ok by blast
qed

theorem phase4_roles_are_distinct_witness:
  "\<exists>items (roles :: role_entry list). dget phase4_artifact ''ordered_roles'' = JList items \<and> length items = length roles
     \<and> distinct (map re_worker_id roles)"
  using phase4_roles_are_distinct [OF phase4_sample] by (auto dest: list_all2_lengthD)

text \<open>
  C18. Only the pinned artifact can be recorded: when a company role's mandate was loaded from a path and its
  recording guard passes, the path is absolute and free of dot-dots, the bytes found there hash
  to the deployment's pin, and the identifier in them is the pinned one. Without pins nothing
  can be recorded.
\<close>

theorem recordable_role_mandate_is_pinned:
  assumes "load_company_role_mandate F p role_type = Inr m" and "require_recordable F role_type m = Inr ()"
  shows "safe_path p \<and> fe_read_bytes F (path_of p) = Some (md_artifact_bytes m)
    \<and> dget (md_artifact m) ''mandate_id'' = JStr (md_mandate_id m)
    \<and> pin F (if role_type = ''utility'' then ''UTILITY_MANDATE_ID'' else ''PHASE4_MANDATE_ID'') = Some (md_mandate_id m)
    \<and> pin F (if role_type = ''utility'' then ''UTILITY_MANDATE_ARTIFACT_SHA256'' else ''PHASE4_MANDATE_ARTIFACT_SHA256'')
        = Some (sha256 (fe_py F) (md_artifact_bytes m))"
proof (cases "role_type = ''utility''")
  case True
  with assms(1) have "mandate_from_path (mandate_from_bytes utility_mandate) F p = Inr m"
    by (simp add: load_company_role_mandate_def utility_from_path_def utility_from_bytes_def)
  from utility.from_path [OF this] show ?thesis
    using True assms(2) by (auto simp: require_recordable_def utility_require_recordable_def)
next
  case False
  with assms(1) have "mandate_from_path (mandate_from_bytes phase4_mandate) F p = Inr m"
    by (simp add: load_company_role_mandate_def phase4_from_path_def phase4_from_bytes_def)
  from phase4.from_path [OF this] show ?thesis
    using False assms(2) by (auto simp: require_recordable_def phase4_require_recordable_def split: if_splits)
qed

theorem recordable_role_mandate_is_pinned_witness:
  "pin sample_process ''PHASE4_MANDATE_ARTIFACT_SHA256'' = Some (sha256 (fe_py sample_process) (mandate_bytes phase4_artifact))"
  using recordable_role_mandate_is_pinned [OF load_sample]
  by (simp add: require_recordable_def phase4_require_recordable_def process_fields ensure_def)

text \<open>
  A founder mandate that is read from bytes is the pinned one: its identifier and the digest of its
  bytes are the deployment's pins, its keys are closed, its scope and its constraints are the
  module's own lists in their order, it asks for no further founder go, and the time it was
  issued can be read.
\<close>

theorem founder_mandate_is_the_pinned_one:
  assumes "founder_from_bytes F raw = Inr m"
  shows "pin F ''MANDATE_ID'' = Some (md_mandate_id m) \<and> mandate_id_match (md_mandate_id m)
    \<and> pin F ''MANDATE_ARTIFACT_SHA256'' = Some (sha256 (fe_py F) raw) \<and> md_artifact_bytes m = raw
    \<and> fst ` set (md_artifact m) = set MANDATE_KEYS
    \<and> dget (md_artifact m) ''ordered_scope'' = JList (map JStr MANDATE_ORDERED_SCOPE)
    \<and> dget (md_artifact m) ''constraints'' = JList (map JStr MANDATE_CONSTRAINTS)
    \<and> dget (md_artifact m) ''requires_additional_founder_go_within_scope'' = JBool False
    \<and> (\<exists>t. issued_at F m = Inr t)"
proof -
  from assms obtain i art sha where "founder_mandate F i art sha raw = Inr m"
    unfolding founder_from_bytes_def by (rule mandate_from_bytes_Inr)
  then have acc: "artifact_exact F (md_mandate_id m) (md_artifact m)" "mandate_id_match (md_mandate_id m)"
      "pin F ''MANDATE_ARTIFACT_SHA256'' = Some (sha256 (fe_py F) raw)" "md_artifact_bytes m = raw"
      "closed_mapping F MANDATE_KEYS art = Inr (md_artifact m)"
      "\<exists>t. timestamp F (dget (md_artifact m) ''recorded_at'') = Inr t"
    by (auto simp: founder_mandate_def res_bind_Inr_iff pinned_JStr)
  from acc(6) have "\<exists>t. issued_at F m = Inr t"
    by (elim exE timestamp_Inr) (simp add: issued_at_def py_str_def)
  with acc(1-5) show ?thesis
    by (simp add: artifact_exact_def pinned_JStr py_eq_texts_list closed_mapping_Inr)
qed

theorem founder_mandate_is_the_pinned_one_witness:
  "\<exists>m t. founder_from_bytes pinned_process (mandate_bytes founder_artifact) = Inr m \<and> issued_at pinned_process m = Inr t"
  using founder_sample founder_mandate_is_the_pinned_one [of pinned_process "mandate_bytes founder_artifact"] by blast

text \<open>
  The comparison with an absent binding does not fail by itself: where no issuer is bound, an artifact whose
  issuer is \<^verbatim>\<open>null\<close> passes, is loaded and can be recorded.
\<close>

theorem unbound_issuer_accepts_null:
  "authority_issuer (fe_bindings sample_process) = None \<and> dget phase4_artifact ''issuer'' = JNull
   \<and> (\<exists>m. load_company_role_mandate sample_process ''/m'' ''cos'' = Inr m \<and> require_recordable sample_process ''cos'' m = Inr ())"
proof -
  have "authority_issuer (fe_bindings sample_process) = None" using process_fields(7) by (simp add: authority_issuer_def pin_def)
  then show ?thesis
    using load_sample
    by (simp add: phase4_get require_recordable_def phase4_require_recordable_def process_fields ensure_def)
qed

end
