(* ===== verification/Spec2Isabelle.thy ===== *)
theory Spec2Isabelle
  imports Lease Qualification Isolation Verification Outbox_Renderer Parity_Gate Durable_Inbox
    Suite_Properties Target_Fingerprint Store_Properties Founder_Properties
begin

text \<open>
  Verification of the coordination kernel of cc-suite, a governed multi-agent system. Agents of
  several model families do work on behalf of tenants; the kernel decides whether an agent is
  released (the evaluation plane), whether an action may happen (authority), what a worker may
  read and say (isolation), whether an objective is done (verification), and it keeps the durable
  records through which the parts speak to each other (leases, event log, outbox, role queues).

  \<^bold>\<open>Theories and the sources they model\<close> (paths below \<^verbatim>\<open>src/\<close>).

  \<^item> \<open>Prelude\<close>: Python text and time, results with errors, runs of a store, and the three interfaces
    that components implement. \<open>monotone_store\<close>: an operation that hands out numbers above a level
    that never falls (leases, fenced rows, the effect ledger, the event stream, the replay guard).
    \<open>retryable\<close>: a call that, once answered, is answered alike again without effect (event append,
    provider cost, cycle). \<open>lifecycle\<close>: a transition table with absorbing terminal states (runs,
    qualifications). Each is interpreted on the code's own operations in the theory that has them.
    Four more locales stand where their contract is: \<open>json_escape\<close> (\<open>Json\<close>, the escapes under which a
    printed value determines the value, for ASCII and for UTF-8 output), \<open>holdout_provider\<close> (\<open>Holdout\<close>, what
    a store of labels promises to a package), \<open>part_payload\<close> (\<open>Target_Fingerprint\<close>, a part of a manifest
    whose payload determines it up to a normal form; eight interpretations), \<open>mandate_class\<close>
    (\<open>Founder_Checks\<close>, what a mandate's constructor keeps of the bytes it is given; three interpretations).
  \<^item> \<open>Json\<close>, \<open>Json_Parser\<close>, \<open>Py_Text\<close>, \<open>Py_Float\<close>, \<open>Py_Regex\<close>, \<open>Py_Path\<close>, \<open>Py_Values\<close>: what the sources use of the standard
    library: canonical JSON and that it determines the value, \<^verbatim>\<open>json.loads\<close> and that it reads back what
    \<^verbatim>\<open>json.dumps\<close> wrote, UTF-8 and \<^verbatim>\<open>int(text)\<close>, correctly rounded division, backtracking regular
    expressions, the parts of a path, Python's equality, \<^verbatim>\<open>str\<close> and \<^verbatim>\<open>int\<close> on JSON values, UUIDs and their
    text, calendar dates.
  \<^item> \<open>Lease\<close> (\<^verbatim>\<open>fleet_kernel/m2/lease.py\<close>): the lease table, the fencing sequence, fenced writes. A stale
    owner is refused; a live lease cannot be taken.
  \<^item> \<open>Eval_Domain\<close> (\<^verbatim>\<open>fleet_kernel/eval_plane/domain.py\<close>, \<^verbatim>\<open>fleet_kernel/ddl/042_eval_plane_domain.sql\<close>):
    rows, validation, lifecycles. The in-process guards agree with the triggers, transitions keep
    the CHECKs, accepted rows are recordable, no failed attempt is discarded.
  \<^item> \<open>Effect_Control\<close> (\<^verbatim>\<open>fleet_kernel/eval_plane/effect_control.py\<close>): redaction, ledger, interceptor. An
    intercepted call never reaches the original callable, and it reaches the ledger whenever its evidence can be
    printed (an integer beyond the interpreter's digit limit cannot, and the call then raises before the ledger has
    an entry); install and uninstall are neutral.
  \<^item> \<open>Graders\<close> (\<^verbatim>\<open>fleet_kernel/eval_plane/graders.py\<close>): verdicts, \<^verbatim>\<open>run_grader\<close>, aggregation by R1 to R7.
    Grading fails closed, a clean aggregate is characterised, critical failures are not averaged
    away, advisory verdicts have no influence, the threshold comparison is exact.
  \<^item> \<open>Qualification\<close> (\<^verbatim>\<open>fleet_kernel/eval_plane/qualification.py\<close>): waivers, issuing, the bridge to the
    persisted row, staleness.
  \<^item> \<open>Holdout\<close> (\<^verbatim>\<open>fleet_kernel/eval_plane/holdout_provider.py\<close>): the store of labels; a label is handed out only
    after the trajectory is sealed and only where the target cannot read the store.
  \<^item> \<open>Suite_Package\<close>, \<open>Suite_Checks\<close>, \<open>Suite_Properties\<close> (\<^verbatim>\<open>fleet_kernel/eval_plane/suite_package.py\<close>): the manifests
    of suites and cases and the loading of packages and of the registry; what each check of a
    manifest establishes; that a loaded package is well formed, leaks no holdout, is the files it
    pins, means by its attempt policy what the grading layer does, and collides with no other.
  \<^item> \<open>Target_Fingerprint\<close> (\<^verbatim>\<open>fleet_kernel/eval_plane/target_fingerprint.py\<close>): the manifest of a target and its
    digest; the digest determines what the target is, and nothing else moves it.
  \<^item> \<open>Qualification_Store\<close>, \<open>Store_Checks\<close>, \<open>Store_Properties\<close> (\<^verbatim>\<open>fleet_kernel/eval_plane/qualification_store.py\<close> and
    the certificate table of \<^verbatim>\<open>ddl/042_eval_plane_domain.sql\<close>): the harvest of recorded runs, issuing, the
    read-only check. Issuing is a sequence of statements under READ COMMITTED, and other sessions may do anything
    before each of them (the argument \<open>others\<close>, one database transformer for each statement): a run's attempts and
    its grader rows are read in two databases. A certificate is backed by two runs whose two halves were green in
    the databases they were read in, two green runs get a certificate, no certificate is rewritten, and a VALID
    verdict is earned.
  \<^item> \<open>Authority\<close> (\<^verbatim>\<open>fleet_kernel/m8/authority.py\<close>): signed receipts bound to an intent, the matrix of
    checks, the gate.
  \<^item> \<open>Configuration\<close> (\<^verbatim>\<open>fleet_kernel/configuration.py\<close>): the identity of a deployment and its authority bindings.
  \<^item> \<open>Founder_Mandate\<close>, \<open>Role_Mandate\<close>, \<open>Founder_Subject\<close>, \<open>Founder_Checks\<close>, \<open>Founder_Samples\<close>, \<open>Founder_Properties\<close>
    (\<^verbatim>\<open>fleet_kernel/founder_authority.py\<close>): the founder's mandates and the exact subjects of the activation
    steps. Only pinned bytes are accepted or recorded, each company role is admitted once, a Scribe
    admission is initial or a recovery, and a subject's digest determines the subject.
  \<^item> \<open>Isolation\<close> (\<^verbatim>\<open>fleet_kernel/m8/isolation.py\<close>): worker files, credentials, egress, signed messages,
    the replay guard, shared learning.
  \<^item> \<open>Verification\<close> (\<^verbatim>\<open>fleet_kernel/m8/verification.py\<close>, \<^verbatim>\<open>fleet_kernel/ddl/009_m8_verification_observability.sql\<close>):
    obligations, attestations, completion. The step relation \<open>verif_step\<close> has a rule for each
    call, and two for enrolment and for completion, whose read and whose commit other sessions may separate. An
    invariant over its reachable states shows that completed objectives are verified, those set aside whose enrolment
    a completion overtook; \<open>enrolment_overtaken_by_completion\<close> shows that this happens.
  \<^item> \<open>Runtime_Store\<close>, \<open>Outbox_Renderer\<close>, \<open>Parity_Gate\<close> (\<^verbatim>\<open>fleet_kernel/m3/runtime_store.py\<close>,
    \<^verbatim>\<open>outbox_renderer.py\<close>, \<^verbatim>\<open>parity.py\<close>, \<^verbatim>\<open>fleet_kernel/ddl/003_m3_runtime.sql\<close>): the event log with its outbox,
    provider costs and quota parks; the rebuild of a file from the outbox; the parity window.
  \<^item> \<open>Durable_Inbox\<close> (\<^verbatim>\<open>mcp_servers/channel_relay/durable_inbox.py\<close>): cursors and the drain of a role's
    queue, delivered in order and once.

  This theory holds what spans components: from an intercepted call through the ledger, the
  attempt, the aggregate and the issuing of a qualification to the release decision.

  \<^bold>\<open>How the code is represented.\<close> A dataclass is a record and its \<^verbatim>\<open>__post_init__\<close> a check that
  returns the record or an error of a datatype per module; an enum is a datatype. A table is a
  list or map of rows, one call that runs in one transaction or under one lock is one function
  from state to result, and a raise leaves the state as it was. Where the code relies on no lock (enrolment of an
  objective, issuing from history) the statements are separate and other sessions act between them. A UUID is a natural number (its text
  is a parameter in the evaluation plane and computed in the founder authority), a
  time an integer of microseconds, a clock reading an argument. Code outside the repository is a
  parameter: SHA-256, SHA-1, Ed25519, \<^verbatim>\<open>uuid5\<close>, \<^verbatim>\<open>float.__repr__\<close>, \<^verbatim>\<open>datetime.fromisoformat\<close>,
  \<^verbatim>\<open>urlsplit\<close>, the operating system's answer to \<^verbatim>\<open>open\<close> and \<^verbatim>\<open>kill\<close>, and the adopter's callables. Laws of
  a parameter (a signature verifies under its own key, a digest does not collide on the two texts
  at hand) are hypotheses of the theorems that need them. Recursion is structural or has a measure (\<open>div_shift\<close>,
  which ends once 53 bits are reached, \<open>redact\<close>, the scanner of \<open>Json_Parser\<close>), with one exception: the scan
  for the fields of a skill's front matter has a budget of one step for each character and one more, and
  \<open>frontmatter_scan_ends\<close> shows that a larger budget gives the same fields.

  \<^bold>\<open>Not modelled.\<close> The Company Scribe (admission, supervisor, runtime, effect broker), the migrations
  m4 to m7, identity and key files, the database's roles and policies, the
  workspace, the lint of content and prose, the channel relay's servers, the handoff ledger, the
  conduct graders of the evaluation plane, and host scripts: they are process supervision, SQL
  executed by the database, network glue, or lists of patterns. Text is limited to code points
  below 256; threads inside one process, failing disk writes, log output and the recursion limit
  are left out.
\<close>

section \<open>From an intercepted call to the release decision\<close>

lemma attempt_from_run:
  assumes "ei_mode it \<in> V1_IMPLEMENTED_MODES" and "(spec, args, kw, now) \<in> set calls"
    and "should_intercept spec (call_args_of spec args) kw" and "printable_call E (call_args_of spec args) kw"
    and "0 \<le> el_sequence (ei_ledger it)"
    and "el_sequence (ei_ledger it) + int (length calls) < 10 ^ INT_MAX_STR_DIGITS"
    and "cp_name spec \<notin> set authorized"
    and "attempt_from_effect_ledger case_id n results (ei_ledger (run_calls E it calls)) authorized cost lat = Inr a"
  shows "ca_forbidden_effect_attempted a"
proof -
  have "cp_name spec \<in> set (map ae_chokepoint (el_entries (ei_ledger (run_calls E it calls))))"
    using assms(2-4) by (force simp: run_calls_chokepoints [OF assms(1,5,6)] image_iff)
  then have "ev_outcome (grade_effect_attempts (ei_ledger (run_calls E it calls)) authorized) \<noteq> ''PASS''"
    using assms(7) unfolding grade_pass_iff by blast
  then show ?thesis
    using assms(8)
    by (auto simp: attempt_from_effect_ledger_def CaseAttemptResult_check_def Let_def split: if_splits)
qed

lemma forbidden_attempt_counted:
  assumes "ca_forbidden_effect_attempted a" and "a \<in> set (cr_attempts c)" and "c \<in> set cs"
  shows "dc_forbidden_effect_count (domain_counters_of cs) \<noteq> 0"
proof -
  have "a \<in> set (forbidden_effect_attempts c)" using assms(1,2) by (simp add: forbidden_effect_attempts_def)
  then have "length (forbidden_effect_attempts c) \<noteq> 0" by auto
  then show ?thesis using assms(3) by (auto simp: domain_counters_of_def)
qed

lemma aggregate_contents:
  assumes "aggregate E cs policy suite ver subj = Inr outcome"
  shows "ao_case_results outcome = cs"
    and "set (ao_findings outcome)
      = (\<Union>c \<in> set cs. set (case_findings policy suite subj c)) \<union> set (threshold_findings policy suite cs)"
  using assms by (auto simp: aggregate_def split: if_splits)

lemma forbidden_attempt_found:
  assumes "ca_forbidden_effect_attempted a" and "a \<in> set (cr_attempts c)" and "c \<in> set cs"
    and "aggregate E cs policy suite ver subj = Inr outcome"
  shows "\<exists>f \<in> set (ao_findings outcome). bf_rule f = R5_FORBIDDEN_EFFECT_ATTEMPT \<and> bf_authority_forbidden f"
proof -
  have a: "a \<in> set (forbidden_effect_attempts c)"
    using assms(1,2) by (simp add: forbidden_effect_attempts_def)
  have "\<exists>f \<in> set (case_findings policy suite subj c).
      bf_rule f = R5_FORBIDDEN_EFFECT_ATTEMPT \<and> bf_authority_forbidden f"
    using a unfolding case_findings_def Let_def finding_def set_append set_map
    by (intro bexI [OF _ UnI2 [OF UnI1 [OF imageI [OF a]]]]) simp
  then show ?thesis using assms(3) unfolding aggregate_contents(2) [OF assms(4)] by blast
qed

text \<open>
  C1. A run with a recorded attempt at a forbidden effect is never released, and no waiver can
  release it. If any call of the run was intercepted at a chokepoint that the case's allowlist
  does not name, and the interpreter can print the call's redacted arguments and the ledger's
  numbers (no integer beyond the digit limit of 4300; without this the ledger has no entry), then
  whatever the graders said of the attempt, whatever waivers were presented and whatever the gate
  mode, the qualification issued from the aggregate of the cases is neither QUALIFIED nor
  ADVISORY_QUALIFIED, it keeps an unwaived finding, and the waiver path to WAIVED refuses it.
\<close>

theorem forbidden_effect_never_released:
  assumes "ei_mode it \<in> V1_IMPLEMENTED_MODES" and "(spec, args, kw, now) \<in> set calls"
    and "should_intercept spec (call_args_of spec args) kw" and "printable_call E (call_args_of spec args) kw"
    and "0 \<le> el_sequence (ei_ledger it)"
    and "el_sequence (ei_ledger it) + int (length calls) < 10 ^ INT_MAX_STR_DIGITS"
    and "cp_name spec \<notin> set authorized"
    and "attempt_from_effect_ledger case_id n results (ei_ledger (run_calls E it calls)) authorized cost lat = Inr a"
    and "a \<in> set (cr_attempts c)" and "c \<in> set cs"
    and "aggregate E cs policy suite ver subj = Inr (iq_outcome rq)"
    and "issue_qualification E rq = Inr q"
  shows "ql_state q \<notin> {QUALIFIED, ADVISORY_QUALIFIED}
    \<and> (\<exists>f \<in> set (ql_remaining_findings q). bf_rule f = R5_FORBIDDEN_EFFECT_ATTEMPT)
    \<and> apply_waiver_to_rejected_qualification E q
        \<in> {Inl (NotRejected (ql_state q)), Inl NothingApplied, Inl FindingsRemain}"
proof -
  have a: "ca_forbidden_effect_attempted a" by (rule attempt_from_run [OF assms(1-8)])
  obtain app where app: "apply_waivers (ao_findings (iq_outcome rq)) (iq_waivers rq)
        (iq_target_fingerprint rq) (iq_issued_at rq) (iq_release_id rq) = Inr app"
    and rem: "ql_remaining_findings q = wa_remaining app"
    and st: "ql_state q = derive_state (iq_gate_mode rq) (domain_counters_of (ao_case_results (iq_outcome rq)))
       (sp_inconclusive_policy (ao_policy (iq_outcome rq))) (iq_reviewer_identity rq)
       (wa_remaining app) (wa_applied app) (ao_requires_human_review (iq_outcome rq))
       (iq_human_review_completed rq) (material_regression (ql_baseline_comparison q))
       (iq_regression_acknowledged rq)"
    using assms(12) by (rule issue_qualification_Inr)
  have "qualifying_refusal (domain_counters_of (ao_case_results (iq_outcome rq)))
      (sp_inconclusive_policy (ao_policy (iq_outcome rq))) (iq_reviewer_identity rq) \<noteq> []"
    using forbidden_attempt_counted [OF a assms(9,10)]
    by (simp add: qualifying_refusal_Nil aggregate_contents(1) [OF assms(11)])
  then have "ql_state q \<notin> {QUALIFIED, ADVISORY_QUALIFIED}" unfolding st by (simp add: derive_state_def)
  moreover obtain f where f: "f \<in> set (ao_findings (iq_outcome rq))"
      "bf_rule f = R5_FORBIDDEN_EFFECT_ATTEMPT" "bf_authority_forbidden f"
    using forbidden_attempt_found [OF a assms(9-11)] by blast
  then have "f \<in> set (ql_remaining_findings q)"
    unfolding rem apply_waivers_Inr(1) [OF app] by (simp add: waiver_covers_def)
  ultimately show ?thesis
    using f(2) by (auto simp: apply_waiver_to_rejected_qualification_def)
qed

definition sample_run_calls :: EffectInterceptor where
  "sample_run_calls = run_calls digest_env sample_interceptor [(sample_spec, [], [], Aware 0)]"

definition forbidden_attempt :: CaseAttemptResult where
  "forbidden_attempt = \<lparr>ca_case_id = ''c'', ca_attempt_number = 1, ca_grader_results = [sample_verdict PASS],
     ca_forbidden_effect_attempted = True,
     ca_forbidden_effect_detail = ev_reason (grade_effect_attempts (ei_ledger sample_run_calls) []),
     ca_cost_usd = 0, ca_latency_ms = 0\<rparr>"

definition forbidden_case :: CaseResult where
  "forbidden_case = (sample_case [])\<lparr>cr_attempts := [forbidden_attempt]\<rparr>"

definition forbidden_request :: issue_request where
  "forbidden_request = Qualification.sample_request
     (case aggregate digest_env [forbidden_case] sample_policy ''s'' ''1'' ''anthropic'' of Inr out \<Rightarrow> out) []"

lemma forbidden_attempt_made:
  "attempt_from_effect_ledger ''c'' 1 [sample_verdict PASS]
     (ei_ledger (run_calls digest_env sample_interceptor [(sample_spec, [], [], Aware 0)])) [] 0 0
     = Inr forbidden_attempt"
proof -
  let ?v = "grade_effect_attempts (ei_ledger sample_run_calls) []"
  have out: "ev_outcome ?v \<noteq> ''PASS''"
    unfolding grade_pass_iff sample_run_calls_def
    by (subst run_calls_chokepoints)
      (simp_all add: sample_interceptor_def V1_IMPLEMENTED_MODES_def should_intercept_def sample_spec_def
        call_args_of_def new_ledger_def sample_call_printable one_below_limit)
  have "nonblank (ev_reason ?v)"
    using out by (auto simp: grade_effect_attempts_def Let_def py_space_def)
  then show ?thesis
    using out unfolding sample_run_calls_def [symmetric]
    by (simp add: attempt_from_effect_ledger_def CaseAttemptResult_check_def Let_def forbidden_attempt_def
        py_space_def)
qed

lemma forbidden_case_aggregated:
  "aggregate digest_env [forbidden_case] sample_policy ''s'' ''1'' ''anthropic''
     = Inr (iq_outcome forbidden_request)"
  by (simp add: forbidden_request_def Qualification.sample_request_def aggregate_def py_space_def)

lemma apply_loop_no_waivers: "\<exists>s'. apply_loop target now release_id [] fs s = Inr s'"
  by (induction fs arbitrary: s) simp_all

lemma sample_request_issued:
  "\<exists>q. issue_qualification digest_env (Qualification.sample_request out []) = Inr q"
proof -
  obtain s where "apply_loop (replicate 64 (CHR ''a'')) (Aware 1) [] [] (ao_findings out)
      \<lparr>wl_remaining = [], wl_applied = [], wl_unused = [], wl_reasons = []\<rparr> = Inr s"
    using apply_loop_no_waivers by blast
  then show ?thesis
    using sample_fingerprint
    by (simp add: issue_eval Qualification.sample_request_def digest_env_def Let_def py_space_def
        compare_to_baseline_def dict_of_def)
qed

theorem forbidden_effect_never_released_witness:
  "\<exists>q. issue_qualification digest_env forbidden_request = Inr q \<and> ql_state q \<noteq> QUALIFIED"
proof -
  obtain q where q: "issue_qualification digest_env forbidden_request = Inr q"
    using sample_request_issued unfolding forbidden_request_def by blast
  have "forbidden_attempt \<in> set (cr_attempts forbidden_case)" by (simp add: forbidden_case_def)
  from forbidden_effect_never_released [OF _ _ _ _ _ _ _ forbidden_attempt_made this _ forbidden_case_aggregated q,
      of sample_spec "[]" "[]" "Aware 0"]
  show ?thesis using q
    by (simp add: sample_interceptor_def V1_IMPLEMENTED_MODES_def should_intercept_def sample_spec_def
        call_args_of_def new_ledger_def sample_call_printable one_below_limit)
qed

end
